(* ===== verification/Go_Prelude.thy ===== *)
theory Go_Prelude
  imports Main "HOL-Library.Word"
begin

text \<open>
  The prelude: what the components share. It holds the Go value types the models use
  (strings as lists of byte characters, bytes as 8-bit words, fallible results as sums), the
  functions of Go's package \<open>strings\<close> that the sources call, with the lemmas about them, and
  the development's theorem collections.

  Case mapping (\<open>strings.ToLower\<close>, \<open>ToUpper\<close>, \<open>EqualFold\<close>) and white space
  (\<open>strings.TrimSpace\<close>) are modelled on ASCII: a byte of 128 or more is its own lower case and
  is no white space. Resource ids, role ids, actions, host names and headers, to which the
  program applies them, are ASCII.
\<close>

section \<open>Collections and types\<close>

named_theorems go_str \<open>characterisations of the functions of package strings\<close>
named_theorems store_ops \<open>unfoldings of the store's operations\<close>
named_theorems gate_defs \<open>unfoldings of the authentication and authorization gates\<close>

type_synonym byte = "8 word"
type_synonym u16 = "16 word"
type_synonym u32 = "32 word"
type_synonym u64 = "64 word"

text \<open>A Go call returning \<open>(value, error)\<close>: \<open>Inl\<close> holds a non-nil error's text.\<close>

type_synonym 'a result = "string + 'a"

section \<open>Bytes and characters\<close>

definition string_of_bytes :: "byte list \<Rightarrow> string" where
  "string_of_bytes bs = map (\<lambda>b. char_of (unat b)) bs"

definition bytes_of_string :: "string \<Rightarrow> byte list" where
  "bytes_of_string s = map (\<lambda>c. word_of_nat (of_char c)) s"

lemma unat_of_char [simp]: "unat (word_of_nat (of_char c) :: byte) = of_char c"
proof -
  have "(of_char c :: nat) < 256" by simp
  then show ?thesis by (simp add: unsigned_of_nat take_bit_eq_mod)
qed

lemma string_of_bytes_of_string [simp]: "string_of_bytes (bytes_of_string s) = s"
  by (simp add: string_of_bytes_def bytes_of_string_def map_idI)

lemma length_bytes_of_string [simp]: "length (bytes_of_string s) = length s"
  by (simp add: bytes_of_string_def)

section \<open>Package strings\<close>

subsection \<open>Case and white space\<close>

definition lower_char :: "char \<Rightarrow> char" where
  "lower_char c = (let n = of_char c :: nat in if 65 \<le> n \<and> n \<le> 90 then char_of (n + 32) else c)"

definition upper_char :: "char \<Rightarrow> char" where
  "upper_char c = (let n = of_char c :: nat in if 97 \<le> n \<and> n \<le> 122 then char_of (n - 32) else c)"

definition to_lower :: "string \<Rightarrow> string" where
  "to_lower s = map lower_char s"

definition to_upper :: "string \<Rightarrow> string" where
  "to_upper s = map upper_char s"

definition equal_fold :: "string \<Rightarrow> string \<Rightarrow> bool" where
  "equal_fold s t \<longleftrightarrow> to_lower s = to_lower t"

definition is_space :: "char \<Rightarrow> bool" where
  "is_space c = (let n = of_char c :: nat in n = 32 \<or> (9 \<le> n \<and> n \<le> 13))"

definition trim_space :: "string \<Rightarrow> string" where
  "trim_space s = rev (dropWhile is_space (rev (dropWhile is_space s)))"

definition trim_right_char :: "char \<Rightarrow> string \<Rightarrow> string" where
  \<comment> \<open>\<open>strings.TrimRight(s, "c")\<close>\<close>
  "trim_right_char c s = rev (dropWhile (\<lambda>x. x = c) (rev s))"

definition trim_char :: "char \<Rightarrow> string \<Rightarrow> string" where
  \<comment> \<open>\<open>strings.Trim(s, "c")\<close>\<close>
  "trim_char c s = trim_right_char c (dropWhile (\<lambda>x. x = c) s)"

definition trim_chars :: "string \<Rightarrow> string \<Rightarrow> string" where
  \<comment> \<open>\<open>strings.Trim(s, cutset)\<close>\<close>
  "trim_chars cs s =
    rev (dropWhile (\<lambda>c. c \<in> set cs) (rev (dropWhile (\<lambda>c. c \<in> set cs) s)))"

text \<open>
  The same three character functions on the bits of a character, which is how the
  simplifier and \<open>code_simp\<close> evaluate them.
\<close>

lemma lower_char_bits [simp, code]:
  "lower_char (Char b0 b1 b2 b3 b4 b5 b6 b7) =
     (if \<not> b7 \<and> b6 \<and> \<not> b5 \<and> (b0 \<or> b1 \<or> b2 \<or> b3 \<or> b4) \<and> \<not> (b4 \<and> b3 \<and> (b2 \<or> b1 \<and> b0))
      then Char b0 b1 b2 b3 b4 True b6 b7 else Char b0 b1 b2 b3 b4 b5 b6 b7)"
proof -
  let ?n = "of_char (Char b0 b1 b2 b3 b4 b5 b6 b7) :: nat"
  have range: "(65 \<le> ?n \<and> ?n \<le> 90) =
      (\<not> b7 \<and> b6 \<and> \<not> b5 \<and> (b0 \<or> b1 \<or> b2 \<or> b3 \<or> b4) \<and> \<not> (b4 \<and> b3 \<and> (b2 \<or> b1 \<and> b0)))"
    by (cases b0; cases b1; cases b2; cases b3; cases b4; cases b5; cases b6; cases b7; simp)
  have "(of_char (Char b0 b1 b2 b3 b4 False b6 b7) :: nat) + 32 =
      of_char (Char b0 b1 b2 b3 b4 True b6 b7)"
    by simp
  then have up: "char_of ((of_char (Char b0 b1 b2 b3 b4 False b6 b7) :: nat) + 32) =
      Char b0 b1 b2 b3 b4 True b6 b7"
    by (simp only: char_of_char)
  show ?thesis
    unfolding lower_char_def Let_def range
    by (cases b5) (simp_all only: up simp_thms if_False)
qed

lemma is_space_bits [simp, code]:
  "is_space (Char b0 b1 b2 b3 b4 b5 b6 b7) \<longleftrightarrow>
     \<not> b7 \<and> \<not> b6 \<and> \<not> b4 \<and>
     (if b5 then \<not> b3 \<and> \<not> b2 \<and> \<not> b1 \<and> \<not> b0 else b3 \<and> (b0 \<or> b1 \<or> b2) \<and> \<not> (b2 \<and> b1))"
  by (cases b0; cases b1; cases b2; cases b3; cases b4; cases b5; cases b6; cases b7;
      simp add: is_space_def)

lemma lower_char_slash [simp]: "lower_char c = CHR ''/'' \<longleftrightarrow> c = CHR ''/''"
  by (cases c) auto

lemma to_lower_Nil [simp]: "to_lower [] = []"
  by (simp add: to_lower_def)

lemma length_to_lower [simp]: "length (to_lower s) = length s"
  by (simp add: to_lower_def)

lemma to_lower_append [simp]: "to_lower (s @ t) = to_lower s @ to_lower t"
  by (simp add: to_lower_def)

lemma lower_char_idem [simp]: "lower_char (lower_char c) = lower_char c"
  by (simp add: lower_char_def Let_def)

lemma to_lower_idem [simp]: "to_lower (to_lower s) = to_lower s"
  by (simp add: to_lower_def)

lemma trim_space_Nil [simp]: "trim_space [] = []"
  by (simp add: trim_space_def)

lemma trim_space_id:
  assumes "s \<noteq> []" "\<not> is_space (hd s)" "\<not> is_space (last s)"
  shows "trim_space s = s"
proof -
  have "dropWhile is_space s = s" using assms by (cases s) auto
  moreover have "dropWhile is_space (rev s) = rev s"
    using assms by (cases s rule: rev_cases) auto
  ultimately show ?thesis by (simp add: trim_space_def)
qed

lemma trim_space_idem [simp]: "trim_space (trim_space s) = trim_space s"
proof (cases "trim_space s = []")
  case False
  let ?t = "dropWhile is_space s"
  have ne: "dropWhile is_space (rev ?t) \<noteq> []" using False by (simp add: trim_space_def)
  from hd_dropWhile [of is_space "rev ?t"] ne have last: "\<not> is_space (last (trim_space s))"
    by (simp add: trim_space_def last_rev)
  obtain u where u: "rev ?t = u @ dropWhile is_space (rev ?t)"
    using takeWhile_dropWhile_id [of is_space "rev ?t"] by metis
  then have "?t = trim_space s @ rev u" by (metis rev_append rev_rev_ident trim_space_def)
  with False have "hd (trim_space s) = hd ?t" "?t \<noteq> []" by (metis hd_append2, metis Nil_is_append_conv)
  with hd_dropWhile [of is_space s] have "\<not> is_space (hd (trim_space s))" by auto
  with False last show ?thesis by (intro trim_space_id)
qed simp

lemma trim_space_no_space: "(\<And>c. c \<in> set s \<Longrightarrow> \<not> is_space c) \<Longrightarrow> trim_space s = s"
  by (cases "s = []") (auto intro!: trim_space_id)

subsection \<open>Prefixes, suffixes, substrings\<close>

fun has_prefix :: "string \<Rightarrow> string \<Rightarrow> bool" where
  "has_prefix s [] = True"
| "has_prefix [] (y # ys) = False"
| "has_prefix (x # xs) (y # ys) = (x = y \<and> has_prefix xs ys)"

definition has_suffix :: "string \<Rightarrow> string \<Rightarrow> bool" where
  "has_suffix s t = has_prefix (rev s) (rev t)"

definition trim_prefix :: "string \<Rightarrow> string \<Rightarrow> string" where
  "trim_prefix s p = (if has_prefix s p then drop (length p) s else s)"

definition trim_suffix :: "string \<Rightarrow> string \<Rightarrow> string" where
  "trim_suffix s p = (if has_suffix s p then take (length s - length p) s else s)"

fun contains :: "string \<Rightarrow> string \<Rightarrow> bool" where
  "contains [] t = (t = [])"
| "contains (x # xs) t = (has_prefix (x # xs) t \<or> contains xs t)"

fun index_byte :: "string \<Rightarrow> char \<Rightarrow> nat option" where
  \<comment> \<open>\<open>strings.IndexByte\<close>; \<open>None\<close> is Go's -1\<close>
  "index_byte [] c = None"
| "index_byte (x # xs) c = (if x = c then Some 0 else map_option Suc (index_byte xs c))"

lemma has_prefix_iff [go_str]: "has_prefix s p \<longleftrightarrow> (\<exists>r. s = p @ r)"
  by (induction s p rule: has_prefix.induct) auto

lemma has_prefix_append [simp]: "has_prefix (p @ r) p"
  by (auto simp: has_prefix_iff)

lemma has_suffix_iff [go_str]: "has_suffix s t \<longleftrightarrow> (\<exists>r. s = r @ t)"
  by (auto simp: has_suffix_def has_prefix_iff) (metis rev_append rev_rev_ident)

lemma has_suffix_append [simp]: "has_suffix (r @ t) t"
  by (auto simp: has_suffix_iff)

lemma trim_prefix_append [simp]: "trim_prefix (p @ r) p = r"
  by (simp add: trim_prefix_def)

lemma trim_suffix_append [simp]: "trim_suffix (r @ t) t = r"
  by (simp add: trim_suffix_def)

lemma contains_iff [go_str]: "contains s t \<longleftrightarrow> (\<exists>a b. s = a @ t @ b)"
proof (induction s)
  case (Cons x xs)
  have "(\<exists>a b. x # xs = a @ t @ b) \<longleftrightarrow> (\<exists>b. x # xs = t @ b) \<or> (\<exists>a b. xs = a @ t @ b)"
    by (metis append_Cons append_Nil list.exhaust list.inject)
  with Cons show ?case by (simp add: has_prefix_iff)
qed auto

lemma index_byte_None [simp]: "index_byte s c = None \<longleftrightarrow> c \<notin> set s"
  by (induction s) auto

lemma index_byte_Some:
  "index_byte s c = Some i \<Longrightarrow> i < length s \<and> s ! i = c \<and> c \<notin> set (take i s)"
  by (induction s arbitrary: i) (auto split: if_splits)

lemma index_byte_append: "c \<notin> set a \<Longrightarrow> index_byte (a @ c # b) c = Some (length a)"
  by (induction a) auto

subsection \<open>Split and Join\<close>

fun split_on :: "char \<Rightarrow> string \<Rightarrow> string list" where
  \<comment> \<open>\<open>strings.Split\<close> with a separator of one byte\<close>
  "split_on c [] = [[]]"
| "split_on c (x # xs) =
     (if x = c then [] # split_on c xs
      else (case split_on c xs of [] \<Rightarrow> [[x]] | y # ys \<Rightarrow> (x # y) # ys))"

fun join :: "string \<Rightarrow> string list \<Rightarrow> string" where
  \<comment> \<open>\<open>strings.Join\<close>\<close>
  "join sep [] = []"
| "join sep [x] = x"
| "join sep (x # y # ys) = x @ sep @ join sep (y # ys)"

lemma split_on_not_Nil [simp]: "split_on c s \<noteq> []"
  by (induction s) (auto split: list.splits)

lemma join_Cons: "xs \<noteq> [] \<Longrightarrow> join sep (x # xs) = x @ sep @ join sep xs"
  by (cases xs) auto

lemma join_Cons_char: "join sep ((x # y) # ys) = x # join sep (y # ys)"
  by (cases ys) auto

lemma join_split_on [simp]: "join [c] (split_on c s) = s"
proof (induction s)
  case (Cons x xs)
  then show ?case
    by (auto simp: join_Cons join_Cons_char split: list.splits)
qed simp

lemma split_on_no_sep: "p \<in> set (split_on c s) \<Longrightarrow> c \<notin> set p"
  by (induction s arbitrary: p) (fastforce split: list.splits if_splits)+

lemma split_on_free: "c \<notin> set s \<Longrightarrow> split_on c s = [s]"
  by (induction s) auto

lemma split_on_append: "c \<notin> set a \<Longrightarrow> split_on c (a @ c # b) = a # split_on c b"
  by (induction a) auto

lemma split_on_join:
  "ps \<noteq> [] \<Longrightarrow> (\<And>p. p \<in> set ps \<Longrightarrow> c \<notin> set p) \<Longrightarrow> split_on c (join [c] ps) = ps"
proof (induction ps)
  case (Cons x xs)
  then show ?case
    by (cases xs) (auto simp: split_on_free split_on_append)
qed simp

section \<open>Lists and maps\<close>

lemma find_append: "find P (xs @ ys) = (case find P xs of None \<Rightarrow> find P ys | Some x \<Rightarrow> Some x)"
  by (induction xs) auto

lemma find_eq_hd_filter: "find P xs = (case filter P xs of [] \<Rightarrow> None | x # _ \<Rightarrow> Some x)"
  by (induction xs) auto

end
