(* ===== verification/Amqp_Codec.thy ===== *)
theory Amqp_Codec
  imports Go_Prelude "HOL-Library.AList"
begin

text \<open>
  The AMQP 1.0 wire format of \<open>internal/amqp/server.go\<close>: frames, described lists and values.
  Decoding is a family of mutually recursive functions over byte slices. A slice expression
  whose low bound exceeds its high bound panics in Go, and nothing in the package recovers, so
  the result type of the decoders keeps a panic apart from an error. Decoders return the number
  of bytes consumed; the \<open>rest\<close> slices of the code are the input without these.
\<close>

section \<open>Values and results\<close>

text \<open>
  The dynamic types of the decoded \<open>any\<close>. A Go map is an association list with distinct keys
  in the order of insertion; strings are byte sequences.
\<close>

datatype amqp_value =
    VNil
  | VBool bool
  | VUint16 u16
  | VUint32 u32
  | VUint64 u64
  | VString string
  | VBinary "byte list"
  | VMap "(string \<times> string) list"

datatype 'a parsed = Parsed 'a | Failed string | Panic

text \<open>The Go slice expression \<open>b[lo:hi]\<close>; \<open>None\<close> where it panics.\<close>

definition go_slice :: "byte list \<Rightarrow> nat \<Rightarrow> nat \<Rightarrow> byte list option" where
  "go_slice b lo hi = (if lo \<le> hi \<and> hi \<le> length b then Some (take (hi - lo) (drop lo b)) else None)"

section \<open>Big-endian integers\<close>

definition be_nat :: "byte list \<Rightarrow> nat" where
  "be_nat bs = foldl (\<lambda>acc x. acc * 256 + unat x) 0 bs"

definition be_bytes32 :: "u32 \<Rightarrow> byte list" where
  "be_bytes32 w = [ucast (drop_bit 24 w), ucast (drop_bit 16 w), ucast (drop_bit 8 w), ucast w]"

definition be_bytes16 :: "u16 \<Rightarrow> byte list" where
  "be_bytes16 w = [ucast (drop_bit 8 w), ucast w]"

section \<open>Decoding\<close>

definition map_put :: "amqp_value \<Rightarrow> amqp_value \<Rightarrow> (string \<times> string) list \<Rightarrow> (string \<times> string) list" where
  "map_put k v m =
    (let ks = (case k of VString t \<Rightarrow> t | _ \<Rightarrow> []) in
     case v of
       VString t \<Rightarrow> AList.update ks t m
     | VBinary t \<Rightarrow> AList.update ks (string_of_bytes t) m
     | _ \<Rightarrow> m)"

definition described_value :: "amqp_value list \<Rightarrow> amqp_value" where
  "described_value fields = (case fields of VString s # _ \<Rightarrow> VString s | _ \<Rightarrow> VNil)"

lemma go_slice_length: "go_slice b lo hi = Some s \<Longrightarrow> length s = hi - lo \<and> lo + length s \<le> length b"
  by (auto simp: go_slice_def split: if_splits)

definition decode_measure where
  "decode_measure = case_sum
     (case_sum (\<lambda>b. (length b, 0, 0))
       (case_sum (\<lambda>b. (length b, 2, 0)) (\<lambda>(b, count). (length b, 2, count))))
     (case_sum (\<lambda>b. (length b, 1, 0))
       (case_sum (\<lambda>b. (length b, 0, 0)) (\<lambda>(b, count, m). (length b, 2::nat, count::nat))))"

function (sequential)
  parseDescribedList :: "byte list \<Rightarrow> (byte \<times> amqp_value list \<times> nat) parsed"
  and parseList :: "byte list \<Rightarrow> (amqp_value list \<times> nat) parsed"
  and parseListItems :: "byte list \<Rightarrow> nat \<Rightarrow> amqp_value list parsed"
  and parseValue :: "byte list \<Rightarrow> (amqp_value \<times> nat) parsed"
  and parseMap :: "byte list \<Rightarrow> ((string \<times> string) list \<times> nat) parsed"
  and parseMapEntries :: "byte list \<Rightarrow> nat \<Rightarrow> (string \<times> string) list \<Rightarrow> (string \<times> string) list parsed"
where
  "parseDescribedList b =
    (if length b < 3 \<or> b ! 0 \<noteq> 0x00 then Failed ''not described''
     else if b ! 1 = 0x53 then
       (case parseList (drop 3 b) of
          Parsed (fields, n) \<Rightarrow> Parsed (b ! 2, fields, 3 + n)
        | Failed e \<Rightarrow> Failed e | Panic \<Rightarrow> Panic)
     else if b ! 1 = 0x80 then
       (if length b < 10 then Failed ''short ulong descriptor''
        else (case parseList (drop 10 b) of
            Parsed (fields, n) \<Rightarrow> Parsed (b ! 9, fields, 10 + n)
          | Failed e \<Rightarrow> Failed e | Panic \<Rightarrow> Panic))
     else Failed ''unsupported descriptor constructor'')"
| "parseList b =
    (if b = [] then Failed ''empty list''
     else if b ! 0 = 0x45 then Parsed ([], 1)
     else if b ! 0 = 0xc0 then
       (if length b < 3 then Failed ''short list8''
        else let size = unat (b ! 1) in
          if length b < 2 + size then Failed ''truncated list8''
          else (case go_slice b 3 (2 + size) of
              None \<Rightarrow> Panic
            | Some inner \<Rightarrow> (case parseListItems inner (unat (b ! 2)) of
                Parsed items \<Rightarrow> Parsed (items, 2 + size)
              | Failed e \<Rightarrow> Failed e | Panic \<Rightarrow> Panic)))
     else if b ! 0 = 0xd0 then
       (if length b < 9 then Failed ''short list32''
        else let size = be_nat (take 4 (drop 1 b)) in
          if length b < 5 + size then Failed ''truncated list32''
          else (case go_slice b 9 (5 + size) of
              None \<Rightarrow> Panic
            | Some inner \<Rightarrow> (case parseListItems inner (be_nat (take 4 (drop 5 b))) of
                Parsed items \<Rightarrow> Parsed (items, 5 + size)
              | Failed e \<Rightarrow> Failed e | Panic \<Rightarrow> Panic)))
     else (case parseValue b of
         Parsed (v, n) \<Rightarrow> Parsed ([v], n)
       | Failed e \<Rightarrow> Failed e | Panic \<Rightarrow> Panic))"
| "parseListItems b count =
    (if count = 0 then Parsed []
     else if b = [] then Parsed (replicate count VNil)
     else (case parseValue b of
         Parsed (v, n) \<Rightarrow> (case parseListItems (drop n b) (count - 1) of
             Parsed vs \<Rightarrow> Parsed (v # vs)
           | Failed e \<Rightarrow> Failed e | Panic \<Rightarrow> Panic)
       | Failed e \<Rightarrow> Failed e | Panic \<Rightarrow> Panic))"
| "parseValue b =
    (if b = [] then Failed ''empty value''
     else if b ! 0 = 0x40 then Parsed (VNil, 1)
     else if b ! 0 = 0x41 then Parsed (VBool True, 1)
     else if b ! 0 = 0x42 then Parsed (VBool False, 1)
     else if b ! 0 = 0x43 then Parsed (VUint32 0, 1)
     else if b ! 0 = 0x44 then Parsed (VUint64 0, 1)
     else if b ! 0 = 0x50 then
       (if length b < 2 then Failed ''short ubyte'' else Parsed (VUint32 (ucast (b ! 1)), 2))
     else if b ! 0 = 0x52 then
       (if length b < 2 then Failed ''short uint0'' else Parsed (VUint32 (ucast (b ! 1)), 2))
     else if b ! 0 = 0x60 then
       (if length b < 3 then Failed ''short ushort''
        else Parsed (VUint32 (word_of_nat (be_nat (take 2 (drop 1 b)))), 3))
     else if b ! 0 = 0x70 then
       (if length b < 5 then Failed ''short uint''
        else Parsed (VUint32 (word_of_nat (be_nat (take 4 (drop 1 b)))), 5))
     else if b ! 0 = 0xa0 then
       (if length b < 2 then Failed ''short bin8''
        else let n = unat (b ! 1) in
          if length b < 2 + n then Failed ''trunc bin8''
          else Parsed (VBinary (take n (drop 2 b)), 2 + n))
     else if b ! 0 = 0xa1 then
       (if length b < 2 then Failed ''short str8''
        else let n = unat (b ! 1) in
          if length b < 2 + n then Failed ''trunc str8''
          else Parsed (VString (string_of_bytes (take n (drop 2 b))), 2 + n))
     else if b ! 0 = 0xb0 then
       (if length b < 5 then Failed ''short bin32''
        else let n = be_nat (take 4 (drop 1 b)) in
          if length b < 5 + n then Failed ''trunc bin32''
          else Parsed (VBinary (take n (drop 5 b)), 5 + n))
     else if b ! 0 = 0xb1 then
       (if length b < 5 then Failed ''short str32''
        else let n = be_nat (take 4 (drop 1 b)) in
          if length b < 5 + n then Failed ''trunc str32''
          else Parsed (VString (string_of_bytes (take n (drop 5 b))), 5 + n))
     else if b ! 0 = 0xc1 \<or> b ! 0 = 0xd1 then
       (case parseMap b of
          Parsed (m, n) \<Rightarrow> Parsed (VMap m, n)
        | Failed e \<Rightarrow> Failed e | Panic \<Rightarrow> Panic)
     else if b ! 0 = 0x00 then
       (case parseDescribedList b of
          Parsed (code, fields, n) \<Rightarrow> Parsed (described_value fields, n)
        | Failed e \<Rightarrow> Failed e | Panic \<Rightarrow> Panic)
     else Parsed (VNil, 1))"
| "parseMap b =
    (if b = [] then Failed ''empty map''
     else if b ! 0 = 0xc1 then
       (if length b < 3 then Failed ''short map8''
        else let size = unat (b ! 1); count = unat (b ! 2); end = 2 + size in
          if end > length b then Failed ''trunc map''
          else if count < 2 then Parsed ([], end)
          else (case go_slice b 3 end of
              None \<Rightarrow> Panic
            | Some inner \<Rightarrow> (case parseMapEntries inner count [] of
                Parsed m \<Rightarrow> Parsed (m, end)
              | Failed e \<Rightarrow> Failed e | Panic \<Rightarrow> Panic)))
     else if b ! 0 = 0xd1 then
       (if length b < 9 then Failed ''short map32''
        else let size = be_nat (take 4 (drop 1 b)); count = be_nat (take 4 (drop 5 b)); end = 5 + size in
          if end > length b then Failed ''trunc map''
          else if count < 2 then Parsed ([], end)
          else (case go_slice b 9 end of
              None \<Rightarrow> Panic
            | Some inner \<Rightarrow> (case parseMapEntries inner count [] of
                Parsed m \<Rightarrow> Parsed (m, end)
              | Failed e \<Rightarrow> Failed e | Panic \<Rightarrow> Panic)))
     else Failed ''not a map'')"
| "parseMapEntries b count m =
    (if count < 2 then Parsed m
     else (case parseValue b of
         Panic \<Rightarrow> Panic
       | Failed e \<Rightarrow> Parsed m
       | Parsed (k, n) \<Rightarrow> (case parseValue (drop n b) of
             Panic \<Rightarrow> Panic
           | Failed e \<Rightarrow> Parsed m
           | Parsed (v, n2) \<Rightarrow>
               parseMapEntries (drop n2 (drop n b)) (count - 2) (map_put k v m))))"
  by pat_completeness auto


termination
  by (relation "inv_image (less_than <*lex*> less_than <*lex*> less_than) decode_measure")
    (auto simp: decode_measure_def dest!: go_slice_length)

section \<open>Encoding\<close>

definition encode_string :: "string \<Rightarrow> byte list" where
  "encode_string s =
    (let sb = bytes_of_string s in
     if length sb < 256 then 0xa1 # word_of_nat (length sb) # sb
     else 0xb1 # be_bytes32 (word_of_nat (length sb)) @ sb)"

definition encode_binary :: "byte list \<Rightarrow> byte list" where
  "encode_binary t =
    (if length t < 256 then 0xa0 # word_of_nat (length t) # t
     else 0xb0 # be_bytes32 (word_of_nat (length t)) @ t)"

definition encode_entries :: "(string \<times> string) list \<Rightarrow> byte list" where
  "encode_entries kvs = concat (map (\<lambda>(k, v). encode_string k @ encode_string v) kvs)"

text \<open>
  The iteration order of a Go map is unspecified; an association list is one such order. A
  dynamic type that \<open>encodeValue\<close> has no case for, \<open>uint64\<close> among them, becomes null.
\<close>

fun encodeValue :: "amqp_value \<Rightarrow> byte list" where
  "encodeValue VNil = [0x40]"
| "encodeValue (VBool t) = (if t then [0x41] else [0x42])"
| "encodeValue (VUint16 t) = 0x60 # be_bytes16 t"
| "encodeValue (VUint32 t) = 0x70 # be_bytes32 t"
| "encodeValue (VString t) = encode_string t"
| "encodeValue (VBinary t) = encode_binary t"
| "encodeValue (VMap t) =
    (let items = encode_entries t; count = length t * 2 in
     if length items + 1 < 256 then 0xc1 # word_of_nat (length items + 1) # word_of_nat count # items
     else 0xd1 # be_bytes32 (word_of_nat (length items + 4)) @ be_bytes32 (word_of_nat count) @ items)"
| "encodeValue (VUint64 t) = [0x40]"

definition encodeList :: "amqp_value list \<Rightarrow> byte list" where
  "encodeList fields =
    (if fields = [] then [0x45]
     else let inner = concat (map encodeValue fields) in
       if length inner + 1 < 256 \<and> length fields < 256
       then 0xc0 # word_of_nat (length inner + 1) # word_of_nat (length fields) # inner
       else 0xd0 # be_bytes32 (word_of_nat (length inner + 4)) @
         be_bytes32 (word_of_nat (length fields)) @ inner)"

definition encodeDescribedList :: "byte \<Rightarrow> amqp_value list \<Rightarrow> byte list" where
  "encodeDescribedList code fields = [0x00, 0x53, code] @ encodeList fields"

definition encodeDataSection :: "byte list \<Rightarrow> byte list" where
  "encodeDataSection data = [0x00, 0x53, 0x75] @ encodeValue (VBinary data)"

definition as_bytes :: "amqp_value \<Rightarrow> byte list option" where
  "as_bytes v = (case v of VBinary b \<Rightarrow> Some b | VString s \<Rightarrow> Some (bytes_of_string s) | _ \<Rightarrow> None)"

text \<open>\<open>extractDataSection\<close>; its two calls of \<open>parseValue\<close> can panic.\<close>

definition extract_bare :: "byte list \<Rightarrow> byte list parsed" where
  "extract_bare payload =
    (case parseValue payload of
       Panic \<Rightarrow> Panic
     | Failed e \<Rightarrow> Parsed payload
     | Parsed (v, n) \<Rightarrow> (case as_bytes v of Some b \<Rightarrow> Parsed b | None \<Rightarrow> Parsed payload))"

definition extractDataSection :: "byte list \<Rightarrow> byte list parsed" where
  "extractDataSection payload =
    (if payload = [] then Parsed []
     else if length payload \<ge> 3 \<and> payload ! 0 = 0x00 \<and> payload ! 1 = 0x53 \<and> payload ! 2 = 0x75 then
       (case parseValue (drop 3 payload) of
          Panic \<Rightarrow> Panic
        | Failed e \<Rightarrow> extract_bare payload
        | Parsed (v, n) \<Rightarrow> (case as_bytes v of Some b \<Rightarrow> Parsed b | None \<Rightarrow> extract_bare payload))
     else extract_bare payload)"

section \<open>Fields of a performative\<close>

definition fieldString :: "amqp_value list \<Rightarrow> nat \<Rightarrow> string" where
  "fieldString fs i =
    (if i \<ge> length fs then []
     else (case fs ! i of VString t \<Rightarrow> t | VBinary t \<Rightarrow> string_of_bytes t | _ \<Rightarrow> []))"

definition fieldUint32 :: "amqp_value list \<Rightarrow> nat \<Rightarrow> u32" where
  "fieldUint32 fs i =
    (if i \<ge> length fs then 0
     else (case fs ! i of VUint32 t \<Rightarrow> t | VUint64 t \<Rightarrow> ucast t | _ \<Rightarrow> 0))"

definition fieldBool :: "amqp_value list \<Rightarrow> nat \<Rightarrow> bool" where
  "fieldBool fs i = (if i \<ge> length fs then False else (case fs ! i of VBool t \<Rightarrow> t | _ \<Rightarrow> False))"

definition fieldMap :: "amqp_value list \<Rightarrow> nat \<Rightarrow> (string \<times> string) list" where
  \<comment> \<open>a nil map reads like an empty one\<close>
  "fieldMap fs i = (if i \<ge> length fs then [] else (case fs ! i of VMap m \<Rightarrow> m | _ \<Rightarrow> []))"

section \<open>Frames\<close>

record frame =
  fr_channel :: u16
  fr_body :: "byte list"

text \<open>
  Reading a frame from a stream of bytes: the frame and the bytes left. An \<open>io.ReadFull\<close> that
  meets the end of the stream is an error.
\<close>

definition readFrame :: "byte list \<Rightarrow> (frame \<times> byte list) result" where
  "readFrame r =
    (if length r < 8 then Inl ''EOF''
     else let size = be_nat (take 4 r); doff = unat (r ! 4) * 4 in
       if size < 8 then Inl ''frame too small''
       else if doff < 8 \<or> doff > size then Inl ''bad doff''
       else let channel = word_of_nat (be_nat (take 2 (drop 6 r))); rest = take (size - 8) (drop 8 r) in
         if length r < size then Inl ''EOF''
         else Inr (\<lparr>fr_channel = channel, fr_body = drop (doff - 8) rest\<rparr>, drop size r))"

definition writeFrame :: "u16 \<Rightarrow> byte list \<Rightarrow> byte list" where
  "writeFrame channel body =
    be_bytes32 (word_of_nat (8 + length body)) @ [2, 0] @ be_bytes16 channel @ body"

definition writePerformative :: "u16 \<Rightarrow> byte \<Rightarrow> amqp_value list \<Rightarrow> byte list" where
  "writePerformative channel code fs = writeFrame channel (encodeDescribedList code fs)"

definition perfOpen :: byte where "perfOpen = 0x10"
definition perfBegin :: byte where "perfBegin = 0x11"
definition perfAttach :: byte where "perfAttach = 0x12"
definition perfFlow :: byte where "perfFlow = 0x13"
definition perfTransfer :: byte where "perfTransfer = 0x14"
definition perfDisposition :: byte where "perfDisposition = 0x15"
definition perfDetach :: byte where "perfDetach = 0x16"
definition perfEnd :: byte where "perfEnd = 0x17"
definition perfClose :: byte where "perfClose = 0x18"

definition writeTransfer :: "u16 \<Rightarrow> u32 \<Rightarrow> u32 \<Rightarrow> byte list \<Rightarrow> byte list" where
  "writeTransfer channel handle deliveryID payload =
    writeFrame channel
      (encodeDescribedList perfTransfer
         [VUint32 handle, VUint32 deliveryID, VBinary [1], VNil, VBool True, VBool False] @ payload)"

section \<open>Decoding consumes its input\<close>

lemmas decoder_simps = parseDescribedList.simps parseList.simps parseListItems.simps
  parseValue.simps parseMap.simps parseMapEntries.simps

declare decoder_simps [simp del]

lemma parseValue_consumed:
  assumes run: "parseValue b = Parsed (v, n)"
    and map_ok: "\<And>m k. b \<noteq> [] \<Longrightarrow> b ! 0 = 0xc1 \<or> b ! 0 = 0xd1 \<Longrightarrow> parseMap b = Parsed (m, k) \<Longrightarrow>
      0 < k \<and> k \<le> length b"
    and described_ok: "\<And>c fs k. b \<noteq> [] \<Longrightarrow> b ! 0 = 0 \<Longrightarrow> parseDescribedList b = Parsed (c, fs, k) \<Longrightarrow>
      0 < k \<and> k \<le> length b"
  shows "0 < n \<and> n \<le> length b"
proof -
  note run = run[unfolded parseValue.simps[of b]]
  consider (m) "b \<noteq> []" "b ! 0 = 0xc1 \<or> b ! 0 = 0xd1" | (d) "b \<noteq> []" "b ! 0 = 0"
    | (o) "\<not> (b ! 0 = 0xc1 \<or> b ! 0 = 0xd1)" "b ! 0 \<noteq> 0" | (e) "b = []" by blast
  then show ?thesis
  proof cases
    case m
    with run obtain mm where "parseMap b = Parsed (mm, n)" by (auto split: parsed.splits)
    with m map_ok show ?thesis by blast
  next
    case d
    with run obtain c fs where "parseDescribedList b = Parsed (c, fs, n)"
      by (auto split: parsed.splits)
    with d described_ok show ?thesis by blast
  next
    case o
    with run have "(if b = [] then True else 0 < n \<and> n \<le> length b)"
      by (simp only: if_False simp_thms) (auto simp: Let_def Suc_le_eq split: if_splits)
    moreover have "b \<noteq> []" using run by auto
    ultimately show ?thesis by simp
  qed (use run in simp)
qed

lemma consumed:
  "parseDescribedList b = Parsed (code, fs, n) \<Longrightarrow> 0 < n \<and> n \<le> length b"
  "parseList b = Parsed (vs, n) \<Longrightarrow> 0 < n \<and> n \<le> length b"
  "parseListItems b count = Parsed vs \<Longrightarrow> length vs = count"
  "parseValue b = Parsed (v, n) \<Longrightarrow> 0 < n \<and> n \<le> length b"
  "parseMap b = Parsed (m, n) \<Longrightarrow> 0 < n \<and> n \<le> length b"
  "parseMapEntries b count m = Parsed m' \<Longrightarrow> True"
proof (induction b and b and b count and b and b and b count m
    arbitrary: code fs n and vs n and vs and v n and m n and m'
    rule: parseDescribedList_parseList_parseListItems_parseValue_parseMap_parseMapEntries.induct)
  case (1 b)
  with 1(3)[unfolded parseDescribedList.simps[of b]] show ?case
    by (fastforce split: if_splits parsed.splits)
next
  case (2 b)
  with 2(4)[unfolded parseList.simps[of b]] show ?case
    by (auto simp: Let_def Suc_le_eq split: if_splits parsed.splits option.splits)
next
  case (3 b count)
  with 3(3)[unfolded parseListItems.simps[of b count]] show ?case
    by (fastforce split: if_splits parsed.splits)
next
  case (4 b)
  from 4(3) show ?case
  proof (rule parseValue_consumed)
    fix m k assume "b \<noteq> []" "b ! 0 = 0xc1 \<or> b ! 0 = 0xd1" "parseMap b = Parsed (m, k)"
    then show "0 < k \<and> k \<le> length b" by (intro 4(1)) auto
  next
    fix c fs k assume "b \<noteq> []" "b ! 0 = 0" "parseDescribedList b = Parsed (c, fs, k)"
    then show "0 < k \<and> k \<le> length b" by (intro 4(2)) auto
  qed
next
  case (5 b)
  with 5(3)[unfolded parseMap.simps[of b]] show ?case
    by (auto simp: Let_def Suc_le_eq split: if_splits parsed.splits option.splits)
qed simp


section \<open>Round trips\<close>

lemma bytes_of_string_of_bytes [simp]: "bytes_of_string (string_of_bytes bs) = bs"
proof -
  have "(word_of_nat (of_char (char_of (unat b) :: char)) :: byte) = b" for b :: byte
    using unsigned_less[of b, where 'a = nat] by (simp add: take_bit_eq_mod)
  then show ?thesis by (simp add: string_of_bytes_def bytes_of_string_def map_idI)
qed

lemma length_be_bytes [simp]: "length (be_bytes32 w) = 4" "length (be_bytes16 x) = 2"
  by (simp_all add: be_bytes32_def be_bytes16_def)

lemma unat_ucast_drop_byte: "unat (ucast (drop_bit k w) :: byte) = unat w div 2 ^ k mod 256" for w :: "'a::len word"
  by (simp add: unsigned_ucast_eq unsigned_drop_bit_eq take_bit_eq_mod) (simp add: drop_bit_eq_div)

lemma be_nat_bytes32 [simp]: "be_nat (be_bytes32 w) = unat w"
proof -
  have "unat w < 2 ^ 32" using unsigned_less[of w, where 'a = nat] by simp
  moreover have "n div 16777216 mod 256 * 16777216 + n div 65536 mod 256 * 65536 + n div 256 mod 256 * 256 + n mod 256 = n"
    if "n < 2 ^ 32" for n :: nat
  proof -
    have d: "n div 65536 = n div 256 div 256" "n div 16777216 = n div 256 div 256 div 256"
      by (simp_all flip: div_mult2_eq)
    have "n div 256 div 256 div 256 < 256"
      using that by (simp flip: div_mult2_eq)
    then have top: "n div 256 div 256 div 256 mod 256 = n div 256 div 256 div 256" by simp
    define q1 q2 q3 r0 r1 r2 where defs: "q1 = n div 256" "q2 = q1 div 256" "q3 = q2 div 256"
      "r0 = n mod 256" "r1 = q1 mod 256" "r2 = q2 mod 256"
    have "n = q1 * 256 + r0" "q1 = q2 * 256 + r1" "q2 = q3 * 256 + r2"
      by (simp_all add: defs)
    then have "q3 * 16777216 + r2 * 65536 + r1 * 256 + r0 = n" by linarith
    then show ?thesis unfolding d top by (simp only: defs)
  qed
  moreover have "unat (ucast w :: byte) = unat w mod 256"
    using unat_ucast_drop_byte[of 0 w] by simp
  ultimately show ?thesis
    by (simp add: be_nat_def be_bytes32_def unat_ucast_drop_byte algebra_simps)
qed

lemma be_nat_bytes16 [simp]: "be_nat (be_bytes16 w) = unat w"
proof -
  have "unat w < 2 ^ 16" using unsigned_less[of w, where 'a = nat] by simp
  moreover have "n div 2 ^ 8 mod 256 * 256 + n mod 256 = n" if "n < 2 ^ 16" for n :: nat
    using that by simp
  moreover have "unat (ucast w :: byte) = unat w mod 256"
    using unat_ucast_drop_byte[of 0 w] by simp
  ultimately show ?thesis
    by (simp add: be_nat_def be_bytes16_def unat_ucast_drop_byte)
qed

text \<open>
  Values whose encoding stays within the 32-bit sizes of the format, and what a decoder reads
  back: integers widen to 32 bits, an unsupported 64-bit integer has become null.
\<close>

fun encodable :: "amqp_value \<Rightarrow> bool" where
  "encodable (VString s) = (length s < 2 ^ 32)"
| "encodable (VBinary s) = (length s < 2 ^ 32)"
| "encodable (VMap m) = (length (encode_entries m) + 4 < 2 ^ 32 \<and> distinct (map fst m))"
| "encodable v = True"

fun decoded :: "amqp_value \<Rightarrow> amqp_value" where
  "decoded (VUint16 w) = VUint32 (ucast w)"
| "decoded (VUint64 w) = VNil"
| "decoded v = v"

lemma unat_small [simp]:
  "n < 256 \<Longrightarrow> unat (word_of_nat n :: byte) = n"
  "n < 4294967296 \<Longrightarrow> unat (word_of_nat n :: u32) = n"
  by (simp_all add: unat_of_nat take_bit_eq_mod)

lemma be_nat_take_bytes32 [simp]:
  "be_nat (take 4 (be_bytes32 w @ r)) = unat w" "drop 4 (be_bytes32 w @ r) = r"
  by (simp_all)

lemma parseValue_tags:
  "parseValue (0x40 # r) = Parsed (VNil, 1)"
  "parseValue (0x41 # r) = Parsed (VBool True, 1)"
  "parseValue (0x42 # r) = Parsed (VBool False, 1)"
  "parseValue (0x60 # r) = (if length r < 2 then Failed ''short ushort''
     else Parsed (VUint32 (word_of_nat (be_nat (take 2 r))), 3))"
  "parseValue (0x70 # r) = (if length r < 4 then Failed ''short uint''
     else Parsed (VUint32 (word_of_nat (be_nat (take 4 r))), 5))"
  "parseValue (0xa0 # n # r) = (if length r < unat n then Failed ''trunc bin8''
     else Parsed (VBinary (take (unat n) r), 2 + unat n))"
  "parseValue (0xa1 # n # r) = (if length r < unat n then Failed ''trunc str8''
     else Parsed (VString (string_of_bytes (take (unat n) r)), 2 + unat n))"
  "parseValue (0xb0 # r) = (if length r < 4 then Failed ''short bin32''
     else if length r < 4 + be_nat (take 4 r) then Failed ''trunc bin32''
     else Parsed (VBinary (take (be_nat (take 4 r)) (drop 4 r)), 5 + be_nat (take 4 r)))"
  "parseValue (0xb1 # r) = (if length r < 4 then Failed ''short str32''
     else if length r < 4 + be_nat (take 4 r) then Failed ''trunc str32''
     else Parsed (VString (string_of_bytes (take (be_nat (take 4 r)) (drop 4 r))), 5 + be_nat (take 4 r)))"
  "parseValue (0xc1 # r) = (case parseMap (0xc1 # r) of
     Parsed (m, n) \<Rightarrow> Parsed (VMap m, n) | Failed e \<Rightarrow> Failed e | Panic \<Rightarrow> Panic)"
  "parseValue (0xd1 # r) = (case parseMap (0xd1 # r) of
     Parsed (m, n) \<Rightarrow> Parsed (VMap m, n) | Failed e \<Rightarrow> Failed e | Panic \<Rightarrow> Panic)"
  by (subst parseValue.simps, simp add: Let_def)+

lemma parseValue_string:
  assumes "length s < 4294967296"
  shows "parseValue (encode_string s @ r) = Parsed (VString s, length (encode_string s))"
  using assms by (simp add: encode_string_def Let_def parseValue_tags)

lemma parseValue_binary:
  assumes "length s < 4294967296"
  shows "parseValue (encode_binary s @ r) = Parsed (VBinary s, length (encode_binary s))"
  using assms by (simp add: encode_binary_def Let_def parseValue_tags)

lemma length_encode_string: "length s + 2 \<le> length (encode_string s)"
  by (simp add: encode_string_def Let_def)

lemma update_append_new: "k \<notin> fst ` set m \<Longrightarrow> AList.update k v m = m @ [(k, v)]"
  by (induction m) auto

lemma parseMapEntries_roundtrip:
  assumes "length (encode_entries kvs) < 4294967296" "distinct (map fst (m @ kvs))"
  shows "parseMapEntries (encode_entries kvs) (length kvs * 2) m = Parsed (m @ kvs)"
  using assms
proof (induction kvs arbitrary: m)
  case Nil
  then show ?case by (simp add: parseMapEntries.simps)
next
  case (Cons kv kvs)
  obtain k v where kv: "kv = (k, v)" by (cases kv)
  have lens: "length k < 4294967296" "length v < 4294967296"
    "length (encode_entries kvs) < 4294967296"
    using Cons.prems(1) length_encode_string[of k] length_encode_string[of v]
    by (auto simp: encode_entries_def kv)
  have put: "map_put (VString k) (VString v) m = m @ [(k, v)]"
    using Cons.prems(2) by (simp add: map_put_def kv update_append_new)
  show ?case
    by (subst parseMapEntries.simps)
      (use Cons lens put in \<open>simp add: encode_entries_def kv parseValue_string\<close>)
qed

lemma go_slice_append [simp]: "go_slice (a @ b @ c) (length a) (length a + length b) = Some b"
  by (simp add: go_slice_def)

lemma go_slice_drop: "lo \<le> hi \<Longrightarrow> hi \<le> length b \<Longrightarrow> go_slice b lo hi = Some (take (hi - lo) (drop lo b))"
  by (simp add: go_slice_def)

lemma length_encode_entries: "length kvs * 4 \<le> length (encode_entries kvs)"
proof (induction kvs)
  case (Cons kv kvs)
  then show ?case
    using length_encode_string[of "fst kv"] length_encode_string[of "snd kv"]
    by (auto simp: encode_entries_def split: prod.splits)
qed simp

lemma parseMap_small:
  "parseMap (0xc1 # s # c # r) = (if 2 + unat s > 3 + length r then Failed ''trunc map''
     else if unat c < 2 then Parsed ([], 2 + unat s)
     else (case go_slice (0xc1 # s # c # r) 3 (2 + unat s) of
         None \<Rightarrow> Panic
       | Some inner \<Rightarrow> (case parseMapEntries inner (unat c) [] of
           Parsed m \<Rightarrow> Parsed (m, 2 + unat s)
         | Failed e \<Rightarrow> Failed e | Panic \<Rightarrow> Panic)))"
  by (subst parseMap.simps) (simp add: Let_def split: option.split parsed.split)

lemma parseMap_large:
  "parseMap (0xd1 # r) = (if length r < 8 then Failed ''short map32''
     else if 4 + be_nat (take 4 r) > length r then Failed ''trunc map''
     else if be_nat (take 4 (drop 4 r)) < 2 then Parsed ([], 5 + be_nat (take 4 r))
     else (case go_slice (0xd1 # r) 9 (5 + be_nat (take 4 r)) of
         None \<Rightarrow> Panic
       | Some inner \<Rightarrow> (case parseMapEntries inner (be_nat (take 4 (drop 4 r))) [] of
           Parsed m \<Rightarrow> Parsed (m, 5 + be_nat (take 4 r))
         | Failed e \<Rightarrow> Failed e | Panic \<Rightarrow> Panic)))"
  by (subst parseMap.simps) (simp add: Let_def)

lemma parseValue_map:
  assumes "encodable (VMap m)"
  shows "parseValue (encodeValue (VMap m) @ r) = Parsed (VMap m, length (encodeValue (VMap m)))"
proof -
  from assms have len: "length (encode_entries m) + 4 < 4294967296" and d: "distinct (map fst m)"
    by simp_all
  then have rt: "parseMapEntries (encode_entries m) (length m * 2) [] = Parsed m"
    using parseMapEntries_roundtrip[of m "[]"] by simp
  have cnt: "length m * 2 < 4294967296" "length (encode_entries m) + 1 < 256 \<Longrightarrow> length m * 2 < 256"
    using len length_encode_entries[of m] by linarith+
  show ?thesis
  proof (cases "m = []")
    case True
    then show ?thesis
      by (simp add: Let_def encode_entries_def parseValue_tags parseMap_small)
  next
    case False
    then have two: "\<not> length m * 2 < 2" by (cases m) auto
    define n c where "n = length (encode_entries m)" and "c = length m * 2"
    note nc = n_def[symmetric] c_def[symmetric]
    show ?thesis
    proof (cases "n + 1 < 256")
      case True
      define k where "k = n + 1"
      have "encodeValue (VMap m) = 0xc1 # word_of_nat k # word_of_nat c # encode_entries m"
        unfolding encodeValue.simps Let_def nc k_def by (simp only: True if_True)
      moreover have "k < 256" "c < 256" "\<not> c < 2" "n = k - 1" "k \<ge> 1" "3 \<le> 2 + k" "2 + k - 3 = n"
        using True cnt two by (simp_all add: k_def nc)
      ultimately show ?thesis
        using rt by (simp add: parseValue_tags parseMap_small go_slice_drop nc)
    next
      case False
      define k where "k = n + 4"
      have "encodeValue (VMap m) = 0xd1 # be_bytes32 (word_of_nat k) @ be_bytes32 (word_of_nat c) @ encode_entries m"
        unfolding encodeValue.simps Let_def nc k_def by (simp only: False if_False)
      moreover have "k < 4294967296" "c < 4294967296" "\<not> c < 2" "n = k - 4" "k \<ge> 4" "5 + k - 9 = n"
        using len cnt two by (simp_all add: k_def nc)
      ultimately show ?thesis
        using rt by (simp add: parseValue_tags parseMap_large go_slice_drop nc)
    qed
  qed
qed

text \<open>
  C12: decoding is a left inverse of encoding, up to the widening of integers: reading the
  encoding of a value followed by any bytes yields the value and consumes exactly its encoding.
\<close>

theorem value_roundtrip:
  assumes "encodable v"
  shows "parseValue (encodeValue v @ r) = Parsed (decoded v, length (encodeValue v))"
proof (cases v)
  case (VMap m)
  with parseValue_map[of m r] assms show ?thesis by simp
next
  case (VUint16 w)
  have "unat w < 4294967296" using unsigned_less[of w, where 'a = nat] by simp
  then have "(word_of_nat (unat w) :: u32) = ucast w"
    by (simp add: unsigned_ucast_eq)
  with VUint16 show ?thesis by (simp add: parseValue_tags)
qed (use assms in \<open>auto simp: parseValue_tags parseValue_string parseValue_binary\<close>)

theorem value_roundtrip_witness:
  "parseValue (encodeValue (VMap [(''connection-string'', ''k=v''), (''x'', [])]) @ [0x40]) =
     Parsed (VMap [(''connection-string'', ''k=v''), (''x'', [])],
       length (encodeValue (VMap [(''connection-string'', ''k=v''), (''x'', [])])))"
  using value_roundtrip [of "VMap [(''connection-string'', ''k=v''), (''x'', [])]" "[0x40]"]
  by (simp add: encode_entries_def encode_string_def)

lemma encodeValue_not_Nil: "encodeValue v \<noteq> []"
  by (cases v) (simp_all add: encode_string_def encode_binary_def Let_def)

lemma parseListItems_roundtrip:
  "list_all encodable vs \<Longrightarrow>
    parseListItems (concat (map encodeValue vs)) (length vs) = Parsed (map decoded vs)"
proof (induction vs)
  case Nil
  then show ?case by (subst parseListItems.simps) simp
next
  case (Cons v vs)
  then show ?case
    by (subst parseListItems.simps) (simp add: value_roundtrip encodeValue_not_Nil del: encodeValue.simps)
qed

lemma parseList_small:
  "parseList (0xc0 # s # c # r) = (if 2 + unat s > 3 + length r then Failed ''truncated list8''
     else (case go_slice (0xc0 # s # c # r) 3 (2 + unat s) of
         None \<Rightarrow> Panic
       | Some inner \<Rightarrow> (case parseListItems inner (unat c) of
           Parsed items \<Rightarrow> Parsed (items, 2 + unat s)
         | Failed e \<Rightarrow> Failed e | Panic \<Rightarrow> Panic)))"
  by (subst parseList.simps) (simp add: Let_def split: option.split parsed.split)

lemma parseList_large:
  "parseList (0xd0 # r) = (if length r < 8 then Failed ''short list32''
     else if 4 + be_nat (take 4 r) > length r then Failed ''truncated list32''
     else (case go_slice (0xd0 # r) 9 (5 + be_nat (take 4 r)) of
         None \<Rightarrow> Panic
       | Some inner \<Rightarrow> (case parseListItems inner (be_nat (take 4 (drop 4 r))) of
           Parsed items \<Rightarrow> Parsed (items, 5 + be_nat (take 4 r))
         | Failed e \<Rightarrow> Failed e | Panic \<Rightarrow> Panic)))"
  by (subst parseList.simps) (simp add: Let_def split: option.split parsed.split)

text \<open>Lists whose encoding stays within the 32-bit sizes.\<close>

definition encodable_list :: "amqp_value list \<Rightarrow> bool" where
  "encodable_list vs \<longleftrightarrow> list_all encodable vs \<and>
     length (concat (map encodeValue vs)) + 4 < 2 ^ 32 \<and> length vs < 2 ^ 32"

lemma parseList_roundtrip:
  assumes "encodable_list vs"
  shows "parseList (encodeList vs @ r) = Parsed (map decoded vs, length (encodeList vs))"
proof (cases "vs = []")
  case True
  then show ?thesis by (subst parseList.simps) (simp add: encodeList_def)
next
  case False
  define inner n c where "inner = concat (map encodeValue vs)" and "n = length inner"
    and "c = length vs"
  note folds = inner_def[symmetric] n_def[symmetric] c_def[symmetric]
  from assms have len: "n + 4 < 4294967296" "c < 4294967296" and
    items: "parseListItems inner c = Parsed (map decoded vs)"
    using parseListItems_roundtrip[of vs] by (simp_all add: encodable_list_def folds)
  show ?thesis
  proof (cases "n + 1 < 256 \<and> c < 256")
    case True
    define k where "k = n + 1"
    have "encodeList vs = 0xc0 # word_of_nat k # word_of_nat c # inner"
      unfolding encodeList_def Let_def folds k_def by (simp only: False True if_False if_True simp_thms)
    moreover have "k < 256" "c < 256" "n = k - 1" "k \<ge> 1" "3 \<le> 2 + k" "2 + k - 3 = n"
      using True by (simp_all add: k_def)
    ultimately show ?thesis
      using items by (simp add: parseList_small go_slice_drop folds)
  next
    case *: False
    define k where "k = n + 4"
    have "encodeList vs = 0xd0 # be_bytes32 (word_of_nat k) @ be_bytes32 (word_of_nat c) @ inner"
      unfolding encodeList_def Let_def folds k_def by (simp only: False * if_False)
    moreover have "k < 4294967296" "n = k - 4" "k \<ge> 4" "5 + k - 9 = n"
      using len by (simp_all add: k_def)
    ultimately show ?thesis
      using items len by (simp add: parseList_large go_slice_drop folds)
  qed
qed

lemma described_list_roundtrip:
  assumes "encodable_list vs"
  shows "parseDescribedList (encodeDescribedList code vs @ payload) =
    Parsed (code, map decoded vs, length (encodeDescribedList code vs))"
  using parseList_roundtrip[OF assms, of payload]
  by (subst parseDescribedList.simps) (simp add: encodeDescribedList_def encodeList_def Let_def)

lemma readFrame_writeFrame:
  assumes "8 + length body < 2 ^ 32"
  shows "readFrame (writeFrame channel body @ r) = Inr (\<lparr>fr_channel = channel, fr_body = body\<rparr>, r)"
proof -
  define k where "k = 8 + length body"
  have "k < 4294967296" "8 \<le> k" "k - 8 = length body" "k - 4 = Suc (Suc (2 + length body))"
    "\<not> 8 + (length body + length r) < k"
    using assms by (simp_all add: k_def)
  moreover have "writeFrame channel body = be_bytes32 (word_of_nat k) @ [2, 0] @ be_bytes16 channel @ body"
    by (simp only: writeFrame_def k_def)
  ultimately show ?thesis
    by (simp add: readFrame_def Let_def nth_append)
qed

text \<open>
  A performative written by the server is read back by the frame reader and the decoder
  with its channel, its code and all its fields, whatever follows it on the stream.
\<close>

theorem performative_roundtrip:
  assumes "encodable_list vs" "8 + length (encodeDescribedList code vs) < 2 ^ 32"
  shows "\<exists>f. readFrame (writePerformative channel code vs @ r) = Inr (f, r) \<and>
    fr_channel f = channel \<and>
    parseDescribedList (fr_body f) = Parsed (code, map decoded vs, length (fr_body f))"
  using readFrame_writeFrame[OF assms(2)] described_list_roundtrip[OF assms(1), of code "[]"]
  by (simp add: writePerformative_def)

theorem performative_roundtrip_witness:
  "\<exists>f. readFrame (writePerformative 7 perfBegin [VUint16 0, VUint32 0, VUint32 2048, VUint32 2048] @ [1, 2])
       = Inr (f, [1, 2]) \<and> fr_channel f = 7 \<and>
     parseDescribedList (fr_body f) =
       Parsed (perfBegin, map decoded [VUint16 0, VUint32 0, VUint32 2048, VUint32 2048],
         length (fr_body f))"
  by (rule performative_roundtrip)
    (simp_all add: encodable_list_def encodeDescribedList_def encodeList_def be_bytes16_def be_bytes32_def)

text \<open>
  A message body survives the data section it is delivered in: what \<open>encodeDataSection\<close>
  wraps, \<open>extractDataSection\<close> returns, also when the body is itself a valid AMQP encoding.
\<close>

theorem data_section_roundtrip:
  assumes "length data < 2 ^ 32"
  shows "extractDataSection (encodeDataSection data) = Parsed data"
  using assms parseValue_binary[of data "[]"]
  by (simp add: extractDataSection_def encodeDataSection_def as_bytes_def)

theorem data_section_roundtrip_witness:
  "extractDataSection (encodeDataSection [0x00, 0x53, 0x75, 0xa0, 0x00]) = Parsed [0x00, 0x53, 0x75, 0xa0, 0x00]"
  by (rule data_section_roundtrip) simp

section \<open>Hostile input\<close>

text \<open>
  C13: the decoder never reads past its input and always makes progress: a described list that
  is decoded occupies between one and all of the bytes given.
\<close>

theorem decoder_stays_within_input:
  assumes "parseDescribedList b = Parsed (code, fs, n)"
  shows "0 < n \<and> n \<le> length b"
  using consumed(1)[OF assms] .

theorem decoder_stays_within_input_witness:
  "0 < (4::nat) \<and> 4 \<le> length [0x00, 0x53, perfEnd, 0x45 :: byte]"
proof (rule decoder_stays_within_input)
  show "parseDescribedList [0x00, 0x53, perfEnd, 0x45] = Parsed (perfEnd, [], 4)"
    by (simp add: parseDescribedList.simps parseList.simps)
qed

text \<open>
  An undersized compound panics instead of failing. The size of a list or a map counts its
  count field; the code does not check that it covers it, and slices backwards. Six bytes after
  the protocol header, before any authentication, end the process.
\<close>

theorem undersized_compound_panics:
  "parseDescribedList (0x00 # 0x53 # code # 0xc0 # 0x00 # c # r) = Panic \<and>
   parseValue (0xc1 # 0x00 # 0x02 # r) = Panic \<and>
   parseList (0xd0 # be_bytes32 3 @ be_bytes32 w @ r) = Panic"
  by (simp add: parseDescribedList.simps parseList_small parseList_large parseValue_tags parseMap_small
      go_slice_def)

text \<open>
  The count of a 32-bit list is trusted: nine bytes of an empty list with count \<open>w\<close> decode
  to \<open>w\<close> null fields, up to \<open>2 ^ 32 - 1\<close> of them.
\<close>

theorem list_count_amplifies:
  "parseList (0xd0 # be_bytes32 4 @ be_bytes32 w @ r) = Parsed (replicate (unat w) VNil, 9)"
  by (simp add: parseList_large go_slice_def parseListItems.simps)


end
