(* ===== verification/Store_Tables.thy ===== *)
theory Store_Tables
  imports Go_Prelude "HOL-Library.Char_ord" "HOL-Library.List_Lexorder" "HOL-Library.Multiset"
begin

text \<open>
  The SQL the store issues, on lists of rows in the order of their row ids, and the two
  contracts its clients rely on: a keyed table is a map from keys to rows, and a table with an
  autoincrement id is a family of queues. The contracts are locales; what clients need of them
  is proved here once, and the tables of the store interpret them.
\<close>

section \<open>Rows\<close>

definition tbl_upsert :: "('r \<Rightarrow> 'k) \<Rightarrow> ('r \<Rightarrow> 'r \<Rightarrow> 'r) \<Rightarrow> 'r \<Rightarrow> 'r list \<Rightarrow> 'r list" where
  \<comment> \<open>\<open>INSERT ... ON CONFLICT(key) DO UPDATE\<close>: \<open>upd old new\<close> is the updated row\<close>
  "tbl_upsert key upd row t =
    (if list_ex (\<lambda>r. key r = key row) t
     then map (\<lambda>r. if key r = key row then upd r row else r) t
     else t @ [row])"

definition tbl_insert_ignore :: "('r \<Rightarrow> 'k) \<Rightarrow> 'r \<Rightarrow> 'r list \<Rightarrow> 'r list" where
  "tbl_insert_ignore key row t = tbl_upsert key (\<lambda>old new. old) row t"

definition tbl_delete :: "('r \<Rightarrow> bool) \<Rightarrow> 'r list \<Rightarrow> 'r list" where
  "tbl_delete P t = filter (\<lambda>r. \<not> P r) t"

definition tbl_count :: "('r \<Rightarrow> bool) \<Rightarrow> 'r list \<Rightarrow> nat" where
  "tbl_count P t = length (filter P t)"

lemma find_SomeD: "find P xs = Some x \<Longrightarrow> x \<in> set xs \<and> P x"
  by (induction xs) (auto split: if_splits)

lemma find_exists: "x \<in> set xs \<Longrightarrow> P x \<Longrightarrow> \<exists>y. find P xs = Some y"
  by (induction xs) auto

text \<open>The table as a map from its key.\<close>

definition tbl_get :: "('r \<Rightarrow> 'k) \<Rightarrow> 'r list \<Rightarrow> 'k \<Rightarrow> 'r option" where
  "tbl_get key t k = find (\<lambda>r. key r = k) t"

lemma find_map_upd:
  "(\<And>r. r \<in> set t \<Longrightarrow> key (f r) = key r) \<Longrightarrow>
    find (\<lambda>r. key r = k) (map f t) = map_option f (find (\<lambda>r. key r = k) t)"
  by (induction t) auto

lemma tbl_get_upsert:
  assumes "\<And>old new. key new = key old \<Longrightarrow> key (upd old new) = key old"
  shows "tbl_get key (tbl_upsert key upd row t) k =
    (if k = key row
     then Some (case tbl_get key t k of None \<Rightarrow> row | Some old \<Rightarrow> upd old row)
     else tbl_get key t k)"
proof (cases "list_ex (\<lambda>r. key r = key row) t")
  case True
  let ?f = "\<lambda>r. if key r = key row then upd r row else r"
  have "tbl_get key (map ?f t) k = map_option ?f (tbl_get key t k)"
    unfolding tbl_get_def by (rule find_map_upd) (simp add: assms)
  moreover have "tbl_get key t (key row) \<noteq> None"
    using True by (auto simp: tbl_get_def find_None_iff list_ex_iff)
  moreover have "key old = k" if "tbl_get key t k = Some old" for old
    using that by (auto simp: tbl_get_def find_Some_iff)
  ultimately show ?thesis
    using True by (cases "tbl_get key t k") (auto simp: tbl_upsert_def)
next
  case False
  then have "tbl_get key t (key row) = None"
    by (auto simp: tbl_get_def find_None_iff list_ex_iff)
  with False show ?thesis
    by (auto simp: tbl_upsert_def tbl_get_def find_append split: option.split)
qed

lemma tbl_get_SomeD: "tbl_get key t k = Some r \<Longrightarrow> r \<in> set t \<and> key r = k"
  by (auto simp: tbl_get_def find_Some_iff)

lemma tbl_get_delete:
  "tbl_get key (tbl_delete (\<lambda>r. key r = k') t) k = (if k = k' then None else tbl_get key t k)"
  by (induction t) (auto simp: tbl_get_def tbl_delete_def)

lemma tbl_count_pos: "tbl_count (\<lambda>r. key r = k) t > 0 \<longleftrightarrow> tbl_get key t k \<noteq> None"
  by (auto simp: tbl_count_def tbl_get_def find_None_iff filter_empty_conv)

definition keys_distinct :: "('r \<Rightarrow> 'k) \<Rightarrow> 'r list \<Rightarrow> bool" where
  "keys_distinct key t \<longleftrightarrow> distinct (map key t)"

lemma keys_distinct_upsert:
  assumes "\<And>old new. key new = key old \<Longrightarrow> key (upd old new) = key old" "keys_distinct key t"
  shows "keys_distinct key (tbl_upsert key upd row t)"
proof -
  have "map key (map (\<lambda>r. if key r = key row then upd r row else r) t) = map key t"
    using assms(1) by simp
  moreover have "key row \<notin> key ` set t" if "\<not> list_ex (\<lambda>r. key r = key row) t"
    using that by (auto simp: list_ex_iff)
  ultimately show ?thesis
    using assms(2) by (simp add: keys_distinct_def tbl_upsert_def del: map_map)
qed

lemma keys_distinct_delete: "keys_distinct key t \<Longrightarrow> keys_distinct key (tbl_delete P t)"
  by (simp add: keys_distinct_def tbl_delete_def distinct_map_filter)

section \<open>The contract of a keyed table\<close>

text \<open>
  The abstract table is a map. A table may store a value in a normal form, with defaults filled
  in, for instance.
\<close>

datatype ('k, 'v) table_op = Put 'k 'v | Del 'k

fun run_map :: "('v \<Rightarrow> 'v) \<Rightarrow> ('k, 'v) table_op list \<Rightarrow> ('k \<Rightarrow> 'v option) \<Rightarrow> ('k \<Rightarrow> 'v option)" where
  "run_map norm [] m = m"
| "run_map norm (Put k v # ops) m = run_map norm ops (m(k := Some (norm v)))"
| "run_map norm (Del k # ops) m = run_map norm ops (m(k := None))"

fun run_table ::
  "('s \<Rightarrow> 'k \<Rightarrow> 'v \<Rightarrow> 's) \<Rightarrow> ('s \<Rightarrow> 'k \<Rightarrow> 's) \<Rightarrow> ('k, 'v) table_op list \<Rightarrow> 's \<Rightarrow> 's" where
  "run_table put del [] s = s"
| "run_table put del (Put k v # ops) s = run_table put del ops (put s k v)"
| "run_table put del (Del k # ops) s = run_table put del ops (del s k)"

locale keyed_table =
  fixes get :: "'s \<Rightarrow> 'k \<Rightarrow> 'v option"
    and put :: "'s \<Rightarrow> 'k \<Rightarrow> 'v \<Rightarrow> 's"
    and del :: "'s \<Rightarrow> 'k \<Rightarrow> 's"
    and norm :: "'v \<Rightarrow> 'v"
    and ok :: "'s \<Rightarrow> bool"
  assumes get_put: "ok s \<Longrightarrow> get (put s k v) k' = (if k' = k then Some (norm v) else get s k')"
    and get_del: "ok s \<Longrightarrow> get (del s k) k' = (if k' = k then None else get s k')"
    and ok_put: "ok s \<Longrightarrow> ok (put s k v)"
    and ok_del: "ok s \<Longrightarrow> ok (del s k)"
begin

lemma run_refines:
  "ok s \<Longrightarrow> get (run_table put del ops s) = run_map norm ops (get s) \<and> ok (run_table put del ops s)"
proof (induction ops arbitrary: s)
  case (Cons op ops)
  have "get (put s k v) = (get s)(k := Some (norm v))" "get (del s k) = (get s)(k := None)" for k v
    using Cons.prems by (auto simp: get_put get_del fun_eq_iff)
  with Cons show ?case by (cases op) (simp_all only: run_table.simps run_map.simps ok_put ok_del)
qed simp

lemma last_write_wins: "ok s \<Longrightarrow> get (put (put s k v) k v') k = Some (norm v')"
  by (simp add: get_put ok_put)

lemma other_keys_untouched:
  "ok s \<Longrightarrow> k' \<noteq> k \<Longrightarrow> get (put s k v) k' = get s k' \<and> get (del s k) k' = get s k'"
  by (simp add: get_put get_del)

end

section \<open>Tables with an autoincrement id\<close>

text \<open>
  The last id given out and the rows with their ids, in ascending order: an autoincrement id is
  never reused, so a new row goes to the end.
\<close>

type_synonym 'r seq_table = "nat \<times> (nat \<times> 'r) list"

definition seq_insert :: "'r \<Rightarrow> 'r seq_table \<Rightarrow> 'r seq_table" where
  "seq_insert r t = (Suc (fst t), snd t @ [(Suc (fst t), r)])"

definition seq_first :: "('r \<Rightarrow> bool) \<Rightarrow> 'r seq_table \<Rightarrow> (nat \<times> 'r) option" where
  \<comment> \<open>\<open>SELECT ... WHERE P ORDER BY id ASC LIMIT 1\<close>\<close>
  "seq_first P t = find (\<lambda>(i, r). P r) (snd t)"

definition seq_delete :: "nat \<Rightarrow> 'r seq_table \<Rightarrow> 'r seq_table" where
  "seq_delete i t = (fst t, filter (\<lambda>(j, r). j \<noteq> i) (snd t))"

definition seq_update :: "nat \<Rightarrow> ('r \<Rightarrow> 'r) \<Rightarrow> 'r seq_table \<Rightarrow> 'r seq_table" where
  "seq_update i f t = (fst t, map (\<lambda>(j, r). (j, if j = i then f r else r)) (snd t))"

definition seq_select :: "('r \<Rightarrow> bool) \<Rightarrow> 'r seq_table \<Rightarrow> 'r list" where
  "seq_select P t = map snd (filter (\<lambda>(i, r). P r) (snd t))"

definition seq_ok :: "'r seq_table \<Rightarrow> bool" where
  "seq_ok t \<longleftrightarrow> sorted_wrt (<) (map fst (snd t)) \<and> (\<forall>i \<in> set (map fst (snd t)). i \<le> fst t)"

lemma seq_ok_empty: "seq_ok (0, [])"
  by (simp add: seq_ok_def)

lemma seq_ok_insert: "seq_ok t \<Longrightarrow> seq_ok (seq_insert r t)"
  by (force simp: seq_ok_def seq_insert_def sorted_wrt_append le_imp_less_Suc)

lemma sorted_wrt_filter_map:
  "sorted_wrt (<) (map fst xs) \<Longrightarrow> sorted_wrt (<) (map fst (filter P xs))"
  by (induction xs) auto

lemma seq_ok_delete: "seq_ok t \<Longrightarrow> seq_ok (seq_delete i t)"
  by (auto simp: seq_ok_def seq_delete_def sorted_wrt_filter_map)

lemma seq_ok_update: "seq_ok t \<Longrightarrow> seq_ok (seq_update i f t)"
  by (simp add: seq_ok_def seq_update_def case_prod_unfold comp_def)

lemma seq_select_insert: "seq_select P (seq_insert r t) = seq_select P t @ (if P r then [r] else [])"
  by (simp add: seq_select_def seq_insert_def)

lemma seq_first_None: "seq_first P t = None \<longleftrightarrow> seq_select P t = []"
  by (auto simp: seq_first_def seq_select_def find_None_iff filter_empty_conv)

text \<open>The first row of a selection is its head, and deleting its id removes just this row.\<close>

lemma filter_id_fresh:
  "\<forall>j \<in> set (map fst rows). i \<noteq> j \<Longrightarrow> filter (\<lambda>(j, r). j \<noteq> i) rows = rows"
  by (rule filter_True) auto

lemma seq_first_Some:
  assumes "seq_ok t" "seq_first P t = Some (i, r)"
  shows "P r" "seq_select P t = r # seq_select P (seq_delete i t)"
    and "\<not> Q r \<Longrightarrow> seq_select Q (seq_delete i t) = seq_select Q t"
proof -
  obtain n rows where t: "t = (n, rows)" by (cases t)
  from assms(2) obtain pre post where
    rows: "rows = pre @ (i, r) # post" and "P r" and none: "\<forall>x \<in> set pre. \<not> P (snd x)"
  proof -
    from assms(2) have "find (\<lambda>(i, r). P r) rows = Some (i, r)" by (simp add: seq_first_def t)
    then have "\<exists>k. k < length rows \<and> rows ! k = (i, r) \<and> P r \<and> (\<forall>j<k. \<not> P (snd (rows ! j)))"
      unfolding find_Some_iff case_prod_unfold by (metis snd_conv)
    then obtain k where k: "k < length rows" "rows ! k = (i, r)" "P r" "\<forall>j<k. \<not> P (snd (rows ! j))"
      by blast
    have "rows = take k rows @ (i, r) # drop (Suc k) rows"
      using k(1,2) by (metis id_take_nth_drop)
    moreover have "\<forall>x \<in> set (take k rows). \<not> P (snd x)"
      using k(1,4) by (metis in_set_conv_nth length_take min_less_iff_conj nth_take)
    ultimately show ?thesis using that k(3) by blast
  qed
  from assms(1) have fresh: "\<forall>j \<in> set (map fst pre). i \<noteq> j" "\<forall>j \<in> set (map fst post). i \<noteq> j"
    by (auto simp: seq_ok_def t rows sorted_wrt_append)
  then have del: "seq_delete i t = (n, pre @ post)"
    by (simp add: seq_delete_def t rows filter_id_fresh)
  have "filter (\<lambda>(i, r). P r) pre = []"
    using none by (auto simp: filter_empty_conv)
  with \<open>P r\<close> show "P r" "seq_select P t = r # seq_select P (seq_delete i t)"
    by (simp_all add: seq_select_def del) (simp add: t rows)
  show "\<not> Q r \<Longrightarrow> seq_select Q (seq_delete i t) = seq_select Q t"
    by (simp add: seq_select_def del) (simp add: t rows)
qed

section \<open>The contract of a family of queues\<close>

fun deq_many :: "('s \<Rightarrow> 'k \<Rightarrow> 'm option \<times> 's) \<Rightarrow> nat \<Rightarrow> 's \<Rightarrow> 'k \<Rightarrow> 'm list \<times> 's" where
  "deq_many deq 0 s k = ([], s)"
| "deq_many deq (Suc n) s k =
    (case deq s k of
       (None, s') \<Rightarrow> ([], s')
     | (Some m, s') \<Rightarrow> (let (ms, s'') = deq_many deq n s' k in (m # ms, s'')))"

fun enq_all :: "('s \<Rightarrow> 'k \<Rightarrow> 'm \<Rightarrow> 's) \<Rightarrow> 's \<Rightarrow> ('k \<times> 'm) list \<Rightarrow> 's" where
  "enq_all enq s [] = s"
| "enq_all enq s ((k, m) # ms) = enq_all enq (enq s k m) ms"

locale fifo_queues =
  fixes enq :: "'s \<Rightarrow> 'k \<Rightarrow> 'm \<Rightarrow> 's"
    and deq :: "'s \<Rightarrow> 'k \<Rightarrow> 'm option \<times> 's"
    and contents :: "'s \<Rightarrow> 'k \<Rightarrow> 'm list"
    and ok :: "'s \<Rightarrow> bool"
  assumes ok_enq: "ok s \<Longrightarrow> ok (enq s k m)"
    and contents_enq: "ok s \<Longrightarrow> contents (enq s k m) k' = contents s k' @ (if k' = k then [m] else [])"
    and deq_empty: "ok s \<Longrightarrow> contents s k = [] \<Longrightarrow> deq s k = (None, s)"
    and deq_Cons: "ok s \<Longrightarrow> contents s k = m # ms \<Longrightarrow>
      \<exists>s'. deq s k = (Some m, s') \<and> ok s' \<and> contents s' k = ms \<and> (\<forall>k'. k' \<noteq> k \<longrightarrow> contents s' k' = contents s k')"
begin

lemma ok_enq_all: "ok s \<Longrightarrow> ok (enq_all enq s kms)"
  by (induction kms arbitrary: s) (auto simp: ok_enq)

lemma contents_enq_all:
  "ok s \<Longrightarrow> contents (enq_all enq s kms) k = contents s k @ map snd (filter (\<lambda>(k', m). k' = k) kms)"
  by (induction kms arbitrary: s) (auto simp: ok_enq contents_enq)

lemma deq_many_takes:
  "ok s \<Longrightarrow> \<exists>s'. deq_many deq n s k = (take n (contents s k), s') \<and> ok s' \<and>
    contents s' k = drop n (contents s k) \<and> (\<forall>k'. k' \<noteq> k \<longrightarrow> contents s' k' = contents s k')"
proof (induction n arbitrary: s)
  case (Suc n)
  show ?case
  proof (cases "contents s k")
    case Nil
    with deq_empty[OF Suc.prems] show ?thesis using Suc.prems by simp
  next
    case (Cons m ms)
    from deq_Cons[OF Suc.prems Cons] obtain s' where
      s': "deq s k = (Some m, s')" "ok s'" "contents s' k = ms"
        "\<forall>k'. k' \<noteq> k \<longrightarrow> contents s' k' = contents s k'"
      by blast
    from Suc.IH[OF s'(2)] obtain s'' where
      "deq_many deq n s' k = (take n ms, s'')" "ok s''" "contents s'' k = drop n ms"
      "\<forall>k'. k' \<noteq> k \<longrightarrow> contents s'' k' = contents s' k'"
      using s'(3) by auto
    with s' Cons show ?thesis by simp
  qed
qed simp

lemma first_in_first_out:
  assumes "ok s" "contents s k = []"
  shows "fst (deq_many deq (length kms) (enq_all enq s kms) k) = map snd (filter (\<lambda>(k', m). k' = k) kms)"
proof -
  from deq_many_takes[OF ok_enq_all[OF assms(1)], of "length kms" kms k] obtain s' where
    "deq_many deq (length kms) (enq_all enq s kms) k =
      (take (length kms) (map snd (filter (\<lambda>(k', m). k' = k) kms)), s')"
    by (auto simp: contents_enq_all assms)
  then show ?thesis by simp
qed

end

end
