(* ===== verification/Http_Types.thy ===== *)
theory Http_Types
  imports Go_Prelude
begin

text \<open>
  Requests, responses and JSON documents as the handlers see them, and the error envelopes of
  \<open>internal/azerrors/errors.go\<close>. A request is what \<open>net/http\<close> hands to a handler: the path is
  decoded, the query is parsed, header keys are in canonical form, and the body is the JSON
  document it holds, if it holds one. A response is the status, the headers a handler sets and
  the document it writes, or the bytes where it writes no document.
\<close>

section \<open>JSON\<close>

text \<open>A \<open>map[string]any\<close> is an association list with distinct keys.\<close>

datatype json =
    JNull
  | JBool bool
  | JNum int
  | JStr string
  | JArr "json list"
  | JObj "(string \<times> json) list"

fun json_field :: "json \<Rightarrow> string \<Rightarrow> json option" where
  "json_field (JObj kvs) k = map_of kvs k"
| "json_field _ k = None"

text \<open>
  Decoding a document into a struct of strings, as \<open>encoding/json\<close> does: keys match without
  case, later fields overwrite earlier ones, null leaves a field alone, and a value of another
  type leaves it alone and makes the decoding fail. The values of the fields and whether it went
  well; \<open>None\<close> is a body that is no JSON.
\<close>

fun decode_fields ::
  "string list \<Rightarrow> (string \<times> json) list \<Rightarrow> (string \<Rightarrow> string) \<times> bool \<Rightarrow> (string \<Rightarrow> string) \<times> bool" where
  "decode_fields names [] acc = acc"
| "decode_fields names ((k, v) # kvs) (m, ok) =
    decode_fields names kvs
      (case find (\<lambda>n. equal_fold n k) names of
         None \<Rightarrow> (m, ok)
       | Some n \<Rightarrow> (case v of JStr t \<Rightarrow> (m(n := t), ok) | JNull \<Rightarrow> (m, ok) | _ \<Rightarrow> (m, False)))"

definition decode_strings :: "string list \<Rightarrow> json option \<Rightarrow> (string \<Rightarrow> string) \<times> bool" where
  "decode_strings names body =
    (case body of
       None \<Rightarrow> ((\<lambda>n. []), False)
     | Some (JObj kvs) \<Rightarrow> decode_fields names kvs ((\<lambda>n. []), True)
     | Some JNull \<Rightarrow> ((\<lambda>n. []), True)
     | Some _ \<Rightarrow> ((\<lambda>n. []), False))"

text \<open>The same for the fields of a struct that is itself a field of the body.\<close>

fun decode_inner ::
  "string \<Rightarrow> string list \<Rightarrow> (string \<times> json) list \<Rightarrow> (string \<Rightarrow> string) \<times> bool \<Rightarrow> (string \<Rightarrow> string) \<times> bool" where
  "decode_inner field names [] acc = acc"
| "decode_inner field names ((k, v) # kvs) (m, ok) =
    decode_inner field names kvs
      (if equal_fold k field then
         (case v of JObj inner \<Rightarrow> decode_fields names inner (m, ok) | JNull \<Rightarrow> (m, ok) | _ \<Rightarrow> (m, False))
       else (m, ok))"

definition decode_nested :: "string \<Rightarrow> string list \<Rightarrow> json option \<Rightarrow> string \<Rightarrow> string" where
  "decode_nested field names body =
    (case body of Some (JObj kvs) \<Rightarrow> fst (decode_inner field names kvs ((\<lambda>n. []), True)) | _ \<Rightarrow> (\<lambda>n. []))"

section \<open>Requests\<close>

record http_request =
  rq_method :: string
  rq_path :: string
  rq_query :: "(string \<times> string list) list"
  rq_header :: "(string \<times> string list) list"
  rq_json :: "json option"

definition first_value :: "(string \<times> string list) list \<Rightarrow> string \<Rightarrow> string" where
  \<comment> \<open>\<open>Get\<close> of \<open>http.Header\<close> and \<open>url.Values\<close>\<close>
  "first_value kvs k = (case map_of kvs k of Some (v # _) \<Rightarrow> v | _ \<Rightarrow> [])"

definition header_get :: "http_request \<Rightarrow> string \<Rightarrow> string" where
  "header_get r k = first_value (rq_header r) k"

definition query_get :: "http_request \<Rightarrow> string \<Rightarrow> string" where
  "query_get r k = first_value (rq_query r) k"

section \<open>Responses\<close>

record http_response =
  rs_code :: nat
  rs_header :: "(string \<times> string) list"
  rs_body :: json
  rs_bytes :: "byte list"

definition jsonContentType :: "string \<times> string" where
  "jsonContentType = (''Content-Type'', ''application/json; charset=utf-8'')"

definition writeJSON :: "nat \<Rightarrow> json \<Rightarrow> http_response" where
  "writeJSON code v = \<lparr>rs_code = code, rs_header = [jsonContentType], rs_body = v, rs_bytes = []\<rparr>"

definition writeHeader :: "nat \<Rightarrow> http_response" where
  "writeHeader code = \<lparr>rs_code = code, rs_header = [], rs_body = JNull, rs_bytes = []\<rparr>"

definition writeBytes :: "nat \<Rightarrow> (string \<times> string) list \<Rightarrow> byte list \<Rightarrow> http_response" where
  "writeBytes code headers bs = \<lparr>rs_code = code, rs_header = headers, rs_body = JNull, rs_bytes = bs\<rparr>"

definition with_header :: "string \<Rightarrow> string \<Rightarrow> http_response \<Rightarrow> http_response" where
  "with_header k v rs = rs\<lparr>rs_header := (k, v) # rs_header rs\<rparr>"

section \<open>Error envelopes\<close>

definition WriteARM :: "nat \<Rightarrow> string \<Rightarrow> string \<Rightarrow> http_response" where
  "WriteARM httpCode code message =
    writeJSON httpCode (JObj [(''error'', JObj [(''code'', JStr code), (''message'', JStr message)])])"

definition Unauthenticated :: "string \<Rightarrow> http_response" where
  "Unauthenticated message = WriteARM 401 ''AuthenticationFailed''
    (if message = [] then ''Authentication failed. The Authorization header is missing or invalid.''
     else message)"

definition KeyVaultUnauthenticated :: "string \<Rightarrow> string \<Rightarrow> http_response" where
  "KeyVaultUnauthenticated authorization resource =
    with_header ''WWW-Authenticate''
      (''Bearer authorization=\"'' @
       (if authorization = [] then ''http://127.0.0.1:4599'' else authorization) @
       ''\", resource=\"'' @
       (if resource = [] then ''https://vault.azure.net'' else resource) @ ''\"'')
      (WriteARM 401 ''Unauthorized'' ''AKV10000: Request is missing a Bearer or PoP token.'')"

definition Forbidden :: "string \<Rightarrow> http_response" where
  "Forbidden message = WriteARM 403 ''AuthorizationFailed''
    (if message = [] then ''The client does not have permission to perform this operation.''
     else message)"

definition InvalidAuthenticationTokenAudience :: "string \<Rightarrow> http_response" where
  "InvalidAuthenticationTokenAudience message =
    WriteARM 403 ''InvalidAuthenticationTokenAudience''
      (if message = []
       then ''The access token has been obtained from wrong audience or resource. It should match https://management.azure.com or https://management.core.windows.net.''
       else message)"

definition AppConfigInvalidAudience :: "string \<Rightarrow> string \<Rightarrow> http_response" where
  "AppConfigInvalidAudience authorization resource =
    with_header ''WWW-Authenticate''
      (''Bearer authorization=\"'' @
       (if authorization = [] then ''http://127.0.0.1:4599'' else authorization) @
       ''\", resource=\"'' @
       (if resource = [] then ''https://azconfig.io'' else resource) @ ''\"'')
      (WriteARM 401 ''InvalidAuthenticationTokenAudience''
        ''The access token has been obtained from wrong audience or resource. It should match https://azconfig.io.'')"

definition NotFound :: "string \<Rightarrow> http_response" where
  "NotFound message = WriteARM 404 ''ResourceNotFound'' message"

definition BadRequest :: "string \<Rightarrow> http_response" where
  "BadRequest message = WriteARM 400 ''BadRequest'' message"

definition Conflict :: "string \<Rightarrow> http_response" where
  "Conflict message = WriteARM 409 ''Conflict'' message"

definition InternalError :: "string \<Rightarrow> http_response" where
  \<comment> \<open>the handlers' answer to a failing store\<close>
  "InternalError message = WriteARM 500 ''InternalError'' message"

definition WriteOAuth :: "nat \<Rightarrow> string \<Rightarrow> string \<Rightarrow> http_response" where
  "WriteOAuth httpCode code description =
    writeJSON httpCode (JObj [(''error'', JStr code), (''error_description'', JStr description)])"

definition WriteGraph :: "nat \<Rightarrow> string \<Rightarrow> string \<Rightarrow> http_response" where
  "WriteGraph httpCode code message =
    writeJSON httpCode (JObj [(''error'', JObj [(''code'', JStr code), (''message'', JStr message)])])"

definition StorageError :: "nat \<Rightarrow> string \<Rightarrow> string \<Rightarrow> http_response" where
  "StorageError httpCode code message =
    with_header ''x-ms-error-code'' code (WriteARM httpCode code message)"

lemma rs_code_simps [simp]:
  "rs_code (writeJSON c v) = c"
  "rs_code (writeHeader c) = c"
  "rs_code (writeBytes c hs bs) = c"
  "rs_code (with_header k h rs) = rs_code rs"
  "rs_code (WriteARM c code msg) = c"
  "rs_code (Unauthenticated m) = 401"
  "rs_code (Forbidden m) = 403"
  "rs_code (InvalidAuthenticationTokenAudience m) = 403"
  "rs_code (NotFound m) = 404"
  "rs_code (BadRequest m) = 400"
  "rs_code (Conflict m) = 409"
  "rs_code (InternalError m) = 500"
  "rs_code (StorageError c code m) = c"
  "rs_code (WriteOAuth c code m) = c"
  "rs_code (WriteGraph c code m) = c"
  by (simp_all add: WriteOAuth_def WriteGraph_def writeJSON_def writeHeader_def writeBytes_def with_header_def WriteARM_def Unauthenticated_def
      Forbidden_def InvalidAuthenticationTokenAudience_def NotFound_def BadRequest_def Conflict_def
      InternalError_def StorageError_def)

end
