(* ===== verification/Store_Rows.thy ===== *)
theory Store_Rows
  imports Store_Tables Http_Types
begin

text \<open>
  The rows of the tables of \<open>internal/store/schema.go\<close>, with the struct of the store they are read
  into where there is one, and the groups of tables the store keeps. Columns that hold JSON are
  kept as the document, columns that hold sealed bytes as the bytes, and columns that hold a time
  the store formats as RFC 3339 in UTC and compares as text as the seconds, which are in the same
  order; an absent time, the empty string, is \<open>None\<close>. The time a row was created is left out
  where nothing reads it.
\<close>

section \<open>Resources, groups, storage, secrets, queues\<close>

record ProviderResource =
  pv_Provider :: string
  pv_SubscriptionID :: string
  pv_ResourceGroup :: string
  pv_Name :: string
  pv_Location :: string
  pv_PropertiesJSON :: json

record subscription_row =
  sub_id :: string
  sub_display_name :: string
  sub_state :: string
  sub_tenant_id :: string

record resource_group_row =
  rg_subscription_id :: string
  rg_name :: string
  rg_location :: string

record group_member_row =
  gm_group_id :: string
  gm_member_id :: string
  gm_member_type :: string

record DirectoryServicePrincipal =
  sp_ID :: string
  sp_TenantID :: string
  sp_AppID :: string
  sp_DisplayName :: string

record EntraApp =
  app_TenantID :: string
  app_AppID :: string
  app_ObjectID :: string
  app_DisplayName :: string
  app_CreatedAt :: string

record access_token_row =
  tok_hash :: string
  tok_principal_id :: string
  tok_expires_at :: string

record activity_row =
  act_timestamp :: int
  act_caller :: string
  act_operation :: string
  act_resource_id :: string
  act_status :: string
  act_message :: string
  act_client_ip :: string
  act_identity :: string

text \<open>A named resource in a resource group with one sealed column (empty where it has none).\<close>

record account_row =
  ac_subscription_id :: string
  ac_resource_group :: string
  ac_name :: string
  ac_location :: string
  ac_sealed :: string

record blob_row =
  bl_account :: string
  bl_container :: string
  bl_name :: string
  bl_content :: "byte list"
  bl_content_type :: string

record queue_message =
  qm_account :: string
  qm_queue :: string
  qm_body :: string
  qm_inserted_at :: int
  qm_visible_after :: "int option"

record secret_row =
  sec_vault :: string
  sec_name :: string
  sec_sealed :: string
  sec_version :: string

record deleted_secret_row = secret_row +
  del_at :: int

record certificate_row =
  crt_vault :: string
  crt_name :: string
  crt_version :: string
  crt_sealed :: string
  crt_policy :: json

record sb_message =
  sb_namespace :: string
  sb_queue :: string
  sb_body :: "byte list"
  sb_session_id :: string
  sb_dead_letter :: nat

record sb_subscription =
  sbs_namespace :: string
  sbs_topic :: string
  sbs_name :: string
  sbs_filter_sql :: string

record sb_topic_message =
  sbt_namespace :: string
  sbt_topic :: string
  sbt_subscription :: string
  sbt_body :: "byte list"

section \<open>The directory\<close>

text \<open>A user with the hash of the password, empty where none was set.\<close>

record DirectoryUser =
  usr_ID :: string
  usr_TenantID :: string
  usr_UserPrincipalName :: string
  usr_DisplayName :: string
  usr_Mail :: string
  usr_Department :: string
  usr_JobTitle :: string
  usr_password_hash :: string

record DirectoryGroup =
  grp_ID :: string
  grp_TenantID :: string
  grp_DisplayName :: string
  grp_Mail :: string
  grp_SecurityEnabled :: bool
  grp_MembershipRule :: string
  grp_MembershipRuleProcessingState :: string

record DirectoryDevice =
  dev_ID :: string
  dev_TenantID :: string
  dev_DisplayName :: string
  dev_DeviceID :: string
  dev_OperatingSystem :: string

record DirectoryRole =
  dro_ID :: string
  dro_TenantID :: string
  dro_DisplayName :: string
  dro_TemplateID :: string

record unified_assignment =
  ura_id :: string
  ura_principal_id :: string
  ura_role_definition_id :: string
  ura_directory_scope_id :: string

record owner_row =
  own_resource_id :: string
  own_owner_id :: string
  own_owner_type :: string

record app_role_assignment =
  apr_id :: string
  apr_principal_id :: string
  apr_resource_id :: string
  apr_app_role_id :: string

record management_group =
  mgr_id :: string
  mgr_display_name :: string
  mgr_tenant_id :: string
  mgr_parent_id :: string

record directory =
  tb_users :: "DirectoryUser list"
  tb_groups :: "DirectoryGroup list"
  tb_devices :: "DirectoryDevice list"
  tb_directory_roles :: "DirectoryRole list"
  tb_role_members :: "(string \<times> string) list"
  tb_unified_assignments :: "unified_assignment list"
  tb_owners :: "owner_row list"
  tb_app_role_assignments :: "app_role_assignment list"
  tb_management_groups :: "management_group list"

section \<open>Credentials and identities\<close>

record FederatedIdentityCredential =
  fic_ID :: string
  fic_AppObjectID :: string
  fic_Name :: string
  fic_Issuer :: string
  fic_Subject :: string
  fic_Audiences :: "string list"
  fic_ClaimsMatchingExpression :: string

record ca_policy =
  cap_id :: string
  cap_display_name :: string
  cap_body :: json
  cap_enabled :: bool

record password_row =
  pwd_id :: string
  pwd_resource_id :: string
  pwd_resource_type :: string
  pwd_display_name :: string
  pwd_secret_hash :: string
  pwd_hint :: string

record key_credential =
  kcr_id :: string
  kcr_resource_id :: string
  kcr_resource_type :: string
  kcr_key_pem :: string
  kcr_usage :: string
  kcr_key_type :: string

record refresh_token_row =
  rft_token_hash :: string
  rft_principal_id :: string
  rft_audience :: string
  rft_expires_at :: int

record device_code_row =
  dvc_device_code :: string
  dvc_principal_id :: string
  dvc_user_code :: string
  dvc_approved :: bool
  dvc_expires_at :: int

record identity_row =
  mid_subscription_id :: string
  mid_resource_group :: string
  mid_name :: string
  mid_location :: string
  mid_principal_id :: string
  mid_client_id :: string

record signing_key_row =
  sgk_kid :: string
  sgk_sealed :: string
  sgk_created_at :: int

record credentials =
  tb_fics :: "FederatedIdentityCredential list"
  tb_ca_policies :: "ca_policy list"
  tb_passwords :: "password_row list"
  tb_key_credentials :: "key_credential list"
  tb_refresh_tokens :: "refresh_token_row list"
  tb_device_codes :: "device_code_row list"
  tb_managed_identities :: "identity_row list"
  tb_system_identities :: "identity_row list"
  tb_signing_keys :: "signing_key_row list"

section \<open>What is observed\<close>

record log_row =
  log_workspace :: string
  log_table_name :: string
  log_row :: json

record diagnostic_setting =
  dgs_id :: string
  dgs_resource_id :: string
  dgs_name :: string
  dgs_workspace_id :: string
  dgs_properties :: json

record arg_resource =
  arg_id :: string
  arg_table_name :: string
  arg_type :: string
  arg_name :: string
  arg_subscription_id :: string
  arg_resource_group :: string
  arg_tenant_id :: string
  arg_properties :: json

record email_row =
  eml_service_name :: string
  eml_to_addr :: string
  eml_subject :: string
  eml_body :: string

text \<open>The values of metrics are whole numbers here.\<close>

record metric_row =
  mtr_name :: string
  mtr_value :: int
  mtr_timestamp :: int
  mtr_resource_id :: string

record observations =
  tb_log_rows :: "log_row list"
  tb_metrics :: "metric_row list"
  tb_diagnostics :: "diagnostic_setting list"
  tb_arg_resources :: "arg_resource list"
  tb_emails :: "email_row list"

section \<open>Tables and documents\<close>

record table_entity =
  ent_account :: string
  ent_table_name :: string
  ent_PartitionKey :: string
  ent_RowKey :: string
  ent_ETag :: string
  ent_Properties :: "(string \<times> json) list"

record cosmos_container =
  cct_account :: string
  cct_database_name :: string
  cct_name :: string
  cct_partition_key :: string

record cosmos_item =
  cit_account :: string
  cit_database_name :: string
  cit_container :: string
  cit_id :: string
  cit_partition_key_value :: string
  cit_body :: string

record documents =
  tb_tables :: "(string \<times> string) list"
  tb_entities :: "table_entity list"
  tb_cosmos_accounts :: "account_row list"
  tb_cosmos_databases :: "(string \<times> string) list"
  tb_cosmos_containers :: "cosmos_container list"
  tb_cosmos_items :: "cosmos_item list"

section \<open>Events\<close>

record event_hub =
  ehb_namespace :: string
  ehb_name :: string
  ehb_partition_count :: int

record hub_event =
  ehm_namespace :: string
  ehm_hub :: string
  ehm_partition_id :: string
  ehm_body :: "byte list"
  ehm_inserted_at :: int

record grid_subscription =
  egs_topic :: string
  egs_name :: string
  egs_destination_url :: string
  egs_filter :: json

record grid_event =
  ege_topic :: string
  ege_body :: string
  ege_delivered :: bool

record events =
  tb_hub_namespaces :: "account_row list"
  tb_hubs :: "event_hub list"
  tb_consumer_groups :: "(string \<times> string \<times> string) list"
  tb_hub_messages :: "hub_event seq_table"
  tb_hub_captured :: "hub_event seq_table"
  tb_grid_topics :: "account_row list"
  tb_grid_subscriptions :: "grid_subscription list"
  tb_grid_events :: "grid_event seq_table"

section \<open>App Configuration and Functions\<close>

record AppConfigKV =
  akv_Store :: string
  akv_Key :: string
  akv_Label :: string
  akv_Value :: string

record feature_flag =
  aff_store :: string
  aff_name :: string
  aff_enabled :: bool
  aff_conditions :: json

record AppConfigSnapshot =
  asn_Store :: string
  asn_Name :: string
  asn_Status :: string
  asn_CreatedAt :: int

record FunctionApp =
  fap_SubscriptionID :: string
  fap_ResourceGroup :: string
  fap_Name :: string
  fap_Location :: string
  fap_MockResponse :: string

record app_settings =
  tb_appconfig_stores :: "account_row list"
  tb_appconfig_kvs :: "AppConfigKV list"
  tb_feature_flags :: "feature_flag list"
  tb_snapshots :: "AppConfigSnapshot list"
  tb_snapshot_kvs :: "(string \<times> AppConfigKV) list"
  tb_function_apps :: "FunctionApp list"

section \<open>The container registry\<close>

record acr_blob =
  abl_digest :: string
  abl_content :: "byte list"
  abl_content_type :: string

record acr_manifest =
  amf_name :: string
  amf_reference :: string
  amf_digest :: string
  amf_content :: "byte list"
  amf_media_type :: string

record registry =
  tb_acr_blobs :: "acr_blob list"
  tb_acr_uploads :: "(string \<times> string) list"
  tb_acr_manifests :: "acr_manifest list"

end
