(* ===== verification/Role_Catalogue.thy ===== *)
theory Role_Catalogue
  imports Go_Prelude
begin

text \<open>
  The built-in role catalogue of \<open>internal/kernel/authz/rbac.go\<close> and
  \<open>role_catalog.go\<close>: the role definition GUIDs, the predicates that classify an ARM or
  data-plane action by substrings of its lower-cased name, and \<open>roleGrants\<close>, the switch that
  says which actions a role definition id grants. The lemmas give the capability of every
  published role, show that a role id matches at most one GUID, and state the separation of
  duties the switch keeps.
\<close>

section \<open>Role definition ids\<close>

definition guidOwner :: string where
  "guidOwner = ''8e3af657-a8ff-443c-a75c-2fe8c4bcb635''"

definition guidContributor :: string where
  "guidContributor = ''b24988ac-6180-42a0-ab88-20f7382dd24c''"

definition guidReader :: string where
  "guidReader = ''acdd72a7-3385-48ef-bd42-f606fba81ae7''"

definition guidLogAnalyticsReader :: string where
  "guidLogAnalyticsReader = ''73c42c96-874c-492b-b04d-ab87d138a893''"

definition guidLogAnalyticsReaderAlias :: string where
  "guidLogAnalyticsReaderAlias = ''73c42c96-874c-492b-b04d-ab87d988a1e9''"

definition guidMonitoringReader :: string where
  "guidMonitoringReader = ''43d0d8ad-25c7-4714-9337-8ba259a9fe05''"

definition guidLogAnalyticsDataReader :: string where
  "guidLogAnalyticsDataReader = ''3b03c2da-16b3-4a49-8834-0f8130efdd3b''"

definition guidAcrPull :: string where
  "guidAcrPull = ''7f951dda-4ed3-4680-a7ca-43fe172d538d''"

definition guidStorageBlobDataOwner :: string where
  "guidStorageBlobDataOwner = ''b7e6dc6d-f1e8-4753-8033-0f276bb0955b''"

definition guidStorageBlobDataContributor :: string where
  "guidStorageBlobDataContributor = ''ba92f5b4-2d11-453d-a403-e96b0029c9fe''"

definition guidStorageBlobDataReader :: string where
  "guidStorageBlobDataReader = ''2a2b9908-6ea1-4ae2-8e65-a410df84e7d1''"

definition guidStorageQueueDataContributor :: string where
  "guidStorageQueueDataContributor = ''974c5e8b-45b9-4653-ba55-5f855dd0fb88''"

definition guidStorageQueueDataReader :: string where
  "guidStorageQueueDataReader = ''19e7f393-937e-4f77-808e-94535e297925''"

definition guidStorageTableDataContributor :: string where
  "guidStorageTableDataContributor = ''0a9a7e1f-b9d0-4cc4-a60d-0319b160aaa3''"

definition guidStorageTableDataReader :: string where
  "guidStorageTableDataReader = ''76199698-9eea-4c19-bc75-cec21354c6b6''"

definition guidEventHubsDataOwner :: string where
  "guidEventHubsDataOwner = ''f526a384-b230-433a-b45c-95f59c4a2dec''"

definition guidEventHubsDataOwnerAlias :: string where
  "guidEventHubsDataOwnerAlias = ''f526a384-b744-4348-a86b-d3d1f7ce3260''"

definition guidEventHubsDataSender :: string where
  "guidEventHubsDataSender = ''2b629674-e913-4c01-ae53-ef4638d8f975''"

definition guidEventHubsDataReceiver :: string where
  "guidEventHubsDataReceiver = ''a638d3c7-ab3a-418d-83e6-5f17a39d4fde''"

definition guidEventHubsDataReceiverAlias :: string where
  "guidEventHubsDataReceiverAlias = ''a638d3c7-ad44-4d07-a2c2-6d98be95d4e5''"

definition guidKeyVaultAdministrator :: string where
  "guidKeyVaultAdministrator = ''00482a5a-887f-4fb3-b363-3b7fe8e74483''"

definition guidKeyVaultSecretsOfficer :: string where
  "guidKeyVaultSecretsOfficer = ''b86a8fe4-44ce-4948-aee5-eccb2c155cd7''"

definition guidKeyVaultSecretsUser :: string where
  "guidKeyVaultSecretsUser = ''4633458b-17de-408a-b874-0445c86b69e6''"

definition guidAppConfigDataReader :: string where
  "guidAppConfigDataReader = ''516239f1-63e1-4d78-a4de-a74fb236a071''"

definition guidAppConfigDataOwner :: string where
  "guidAppConfigDataOwner = ''5ae67dd6-50cb-40e7-96ff-dc2bfa4b606b''"

definition guidCosmosDataReader :: string where
  "guidCosmosDataReader = ''00000000-0000-0000-0000-000000000001''"

definition guidCosmosDataReaderAlias :: string where
  "guidCosmosDataReaderAlias = ''fbdf93bf-df7d-467e-a4d2-9458aa1360c8''"

definition guidCosmosDataContributor :: string where
  "guidCosmosDataContributor = ''00000000-0000-0000-0000-000000000002''"

definition guidCosmosDataContributorAlias :: string where
  "guidCosmosDataContributorAlias = ''230815da-be43-4aae-9cb4-875f7bd000aa''"

definition guidServiceBusDataOwner :: string where
  "guidServiceBusDataOwner = ''090c5cfd-751d-490a-894a-3ce6f1109419''"

definition guidServiceBusDataSender :: string where
  "guidServiceBusDataSender = ''69a216fc-b8fb-44d8-bc22-1f3c2cd27a39''"

definition guidServiceBusDataReceiver :: string where
  "guidServiceBusDataReceiver = ''4f6d3b9b-027b-4f4c-9142-0e5a2a2247e0''"

definition guidEventGridDataSender :: string where
  "guidEventGridDataSender = ''d5a91429-5739-47e2-a06b-3470a27159e7''"

definition guidCognitiveOpenAIUser :: string where
  "guidCognitiveOpenAIUser = ''5e0bd9bd-7b93-4f28-af87-19fc36ad61bd''"

definition guidAKSClusterAdmin :: string where
  "guidAKSClusterAdmin = ''0ab0b1a8-8aac-4efd-b8c2-3ee1fb270be8''"

definition guidAKSClusterUser :: string where
  "guidAKSClusterUser = ''4abbcc35-e782-43d8-92c5-2d3b4bd8b1c0''"

definition roleDefinitionsPrefix :: string where
  "roleDefinitionsPrefix = ''/providers/Microsoft.Authorization/roleDefinitions/''"

definition RoleOwner :: string where
  "RoleOwner = roleDefinitionsPrefix @ guidOwner"

definition RoleContributor :: string where
  "RoleContributor = roleDefinitionsPrefix @ guidContributor"

definition RoleReader :: string where
  "RoleReader = roleDefinitionsPrefix @ guidReader"

definition RoleLogAnalyticsReader :: string where
  "RoleLogAnalyticsReader = roleDefinitionsPrefix @ guidLogAnalyticsReader"

definition RoleMonitoringReader :: string where
  "RoleMonitoringReader = roleDefinitionsPrefix @ guidMonitoringReader"

definition RoleAcrPull :: string where
  "RoleAcrPull = roleDefinitionsPrefix @ guidAcrPull"

definition RoleStorageBlobDataOwner :: string where
  "RoleStorageBlobDataOwner = roleDefinitionsPrefix @ guidStorageBlobDataOwner"

definition RoleStorageBlobDataContributor :: string where
  "RoleStorageBlobDataContributor = roleDefinitionsPrefix @ guidStorageBlobDataContributor"

definition RoleStorageBlobDataReader :: string where
  "RoleStorageBlobDataReader = roleDefinitionsPrefix @ guidStorageBlobDataReader"

definition RoleStorageQueueDataContributor :: string where
  "RoleStorageQueueDataContributor = roleDefinitionsPrefix @ guidStorageQueueDataContributor"

definition RoleStorageQueueDataReader :: string where
  "RoleStorageQueueDataReader = roleDefinitionsPrefix @ guidStorageQueueDataReader"

definition RoleStorageTableDataContributor :: string where
  "RoleStorageTableDataContributor = roleDefinitionsPrefix @ guidStorageTableDataContributor"

definition RoleStorageTableDataReader :: string where
  "RoleStorageTableDataReader = roleDefinitionsPrefix @ guidStorageTableDataReader"

definition RoleEventHubsDataSender :: string where
  "RoleEventHubsDataSender = roleDefinitionsPrefix @ guidEventHubsDataSender"

definition RoleEventHubsDataReceiver :: string where
  "RoleEventHubsDataReceiver = roleDefinitionsPrefix @ guidEventHubsDataReceiver"

definition RoleEventHubsDataOwner :: string where
  "RoleEventHubsDataOwner = roleDefinitionsPrefix @ guidEventHubsDataOwner"

definition RoleLogAnalyticsDataReader :: string where
  "RoleLogAnalyticsDataReader = roleDefinitionsPrefix @ guidLogAnalyticsDataReader"

definition RoleKeyVaultSecretsUser :: string where
  "RoleKeyVaultSecretsUser = roleDefinitionsPrefix @ guidKeyVaultSecretsUser"

definition RoleKeyVaultSecretsOfficer :: string where
  "RoleKeyVaultSecretsOfficer = roleDefinitionsPrefix @ guidKeyVaultSecretsOfficer"

definition RoleKeyVaultAdministrator :: string where
  "RoleKeyVaultAdministrator = roleDefinitionsPrefix @ guidKeyVaultAdministrator"

definition RoleAppConfigDataReader :: string where
  "RoleAppConfigDataReader = roleDefinitionsPrefix @ guidAppConfigDataReader"

definition RoleAppConfigDataOwner :: string where
  "RoleAppConfigDataOwner = roleDefinitionsPrefix @ guidAppConfigDataOwner"

definition RoleCosmosDataReader :: string where
  "RoleCosmosDataReader = roleDefinitionsPrefix @ guidCosmosDataReader"

definition RoleCosmosDataContributor :: string where
  "RoleCosmosDataContributor = roleDefinitionsPrefix @ guidCosmosDataContributor"

definition RoleServiceBusDataOwner :: string where
  "RoleServiceBusDataOwner = roleDefinitionsPrefix @ guidServiceBusDataOwner"

definition RoleServiceBusDataSender :: string where
  "RoleServiceBusDataSender = roleDefinitionsPrefix @ guidServiceBusDataSender"

definition RoleServiceBusDataReceiver :: string where
  "RoleServiceBusDataReceiver = roleDefinitionsPrefix @ guidServiceBusDataReceiver"

definition RoleEventGridDataSender :: string where
  "RoleEventGridDataSender = roleDefinitionsPrefix @ guidEventGridDataSender"

definition RoleCognitiveOpenAIUser :: string where
  "RoleCognitiveOpenAIUser = roleDefinitionsPrefix @ guidCognitiveOpenAIUser"

definition RoleAKSClusterAdminCredential :: string where
  "RoleAKSClusterAdminCredential = roleDefinitionsPrefix @ guidAKSClusterAdmin"

definition RoleAKSClusterUserCredential :: string where
  "RoleAKSClusterUserCredential = roleDefinitionsPrefix @ guidAKSClusterUser"

section \<open>Classes of roles and actions\<close>

definition roleHasGUID :: "string \<Rightarrow> string \<Rightarrow> bool" where
  "roleHasGUID role guid \<longleftrightarrow>
     role = to_lower guid \<or> has_suffix role (''/'' @ to_lower guid)"

definition isLogAnalyticsReaderRole :: "string \<Rightarrow> bool" where
  "isLogAnalyticsReaderRole role \<longleftrightarrow>
     (if roleHasGUID role guidLogAnalyticsReader
     \<or> roleHasGUID role guidLogAnalyticsReaderAlias then True
     else contains role ''log analytics reader'')"

definition isReaderLikeRole :: "string \<Rightarrow> bool" where
  "isReaderLikeRole role \<longleftrightarrow>
     (if isLogAnalyticsReaderRole role then False
     else (if roleHasGUID role guidReader
     \<or> roleHasGUID role guidMonitoringReader then True
     else (if role = ''reader''
     \<or> has_suffix role ''/reader'' then True
     else contains role ''monitoring reader'')))"

definition isWorkspaceQueryAction :: "string \<Rightarrow> bool" where
  "isWorkspaceQueryAction act \<longleftrightarrow>
     contains act ''workspaces/query''
     \<or> contains act ''workspaces/analytics/query''
     \<or> contains act ''workspaces/search/action''"

definition isAKSAdminCredentialAction :: "string \<Rightarrow> bool" where
  "isAKSAdminCredentialAction act \<longleftrightarrow>
     contains act ''microsoft.containerservice/managedclusters/listclusteradmincredential''"

definition isAKSUserCredentialAction :: "string \<Rightarrow> bool" where
  "isAKSUserCredentialAction act \<longleftrightarrow>
     contains act ''microsoft.containerservice/managedclusters/listclusterusercredential''"

definition isAKSCredentialAction :: "string \<Rightarrow> bool" where
  "isAKSCredentialAction act \<longleftrightarrow>
     isAKSAdminCredentialAction act
     \<or> isAKSUserCredentialAction act"

definition isAppConfigDataPlaneAction :: "string \<Rightarrow> bool" where
  "isAppConfigDataPlaneAction act \<longleftrightarrow>
     contains act ''microsoft.appconfiguration/configurationstores/keyvalues/''
     \<or> contains act ''microsoft.appconfiguration/configurationstores/featureflags/''
     \<or> contains act ''microsoft.appconfiguration/configurationstores/snapshots/''"

definition isSecretDisclosureAction :: "string \<Rightarrow> bool" where
  "isSecretDisclosureAction act \<longleftrightarrow>
     contains act ''/listkeys''
     \<or> contains act ''/listconnectionstrings''
     \<or> contains act ''authorizationrules/listkeys''
     \<or> isAKSCredentialAction act
     \<or> isAppConfigDataPlaneAction act"

definition isKeyVaultDataPlaneAction :: "string \<Rightarrow> bool" where
  "isKeyVaultDataPlaneAction act \<longleftrightarrow>
     contains act ''microsoft.keyvault/vaults/secrets/''
     \<or> contains act ''microsoft.keyvault/vaults/keys/''
     \<or> contains act ''microsoft.keyvault/vaults/certificates/''"

definition isCosmosDataPlaneAction :: "string \<Rightarrow> bool" where
  "isCosmosDataPlaneAction act \<longleftrightarrow>
     contains act ''microsoft.documentdb/databaseaccounts/sqldatabases/''
     \<or> contains act ''microsoft.documentdb/databaseaccounts/docs/''
     \<or> (contains act ''microsoft.documentdb/databaseaccounts/'' \<and> (contains act ''/items/''
     \<or> contains act ''/dbs/''
     \<or> contains act ''/colls/''))"

definition isServiceBusDataAction :: "string \<Rightarrow> bool" where
  "isServiceBusDataAction act \<longleftrightarrow>
     contains act ''microsoft.servicebus/'' \<and> (contains act ''/messages/''
     \<or> contains act ''/send''
     \<or> contains act ''/receive''
     \<or> contains act ''queues/messages''
     \<or> contains act ''topics/messages'')"

definition isEventHubsControlPlaneAction :: "string \<Rightarrow> bool" where
  "isEventHubsControlPlaneAction act \<longleftrightarrow>
     contains act ''namespaces/write''
     \<or> contains act ''namespaces/delete''
     \<or> contains act ''eventhubs/write''
     \<or> contains act ''eventhubs/delete''
     \<or> contains act ''consumergroups/write''
     \<or> contains act ''consumergroups/delete''"

definition isEventHubsSendAction :: "string \<Rightarrow> bool" where
  "isEventHubsSendAction act \<longleftrightarrow>
     (if \<not> contains act ''eventhub'' then False
     else (if isEventHubsControlPlaneAction act then False
     else contains act ''/send''
     \<or> contains act ''/messages/send''))"

definition isEventHubsReceiveAction :: "string \<Rightarrow> bool" where
  "isEventHubsReceiveAction act \<longleftrightarrow>
     (if \<not> contains act ''eventhub'' then False
     else (if isEventHubsControlPlaneAction act then False
     else contains act ''/receive''
     \<or> contains act ''/messages/receive''))"

definition isEventHubsDataPlaneAction :: "string \<Rightarrow> bool" where
  "isEventHubsDataPlaneAction act \<longleftrightarrow>
     isEventHubsSendAction act
     \<or> isEventHubsReceiveAction act"

definition isEventGridSendAction :: "string \<Rightarrow> bool" where
  "isEventGridSendAction act \<longleftrightarrow>
     contains act ''microsoft.eventgrid/'' \<and> (contains act ''/events/send''
     \<or> contains act ''topics/send''
     \<or> has_suffix act ''/send/action'')"

definition isCognitiveDataPlaneAction :: "string \<Rightarrow> bool" where
  "isCognitiveDataPlaneAction act \<longleftrightarrow>
     contains act ''microsoft.cognitiveservices/accounts/'' \<and> (contains act ''/openai/''
     \<or> contains act ''/deployments/''
     \<or> contains act ''chat/completions''
     \<or> contains act ''/inference'')"

definition isAcrPullAction :: "string \<Rightarrow> bool" where
  "isAcrPullAction act \<longleftrightarrow>
     (if \<not> contains act ''containerregistry/registries'' then False
     else contains act ''/pull'')"

definition isStorageBlobDataAction :: "string \<Rightarrow> bool" where
  "isStorageBlobDataAction act \<longleftrightarrow>
     contains act ''microsoft.storage/storageaccounts/blobservices/''"

definition isStorageQueueDataAction :: "string \<Rightarrow> bool" where
  "isStorageQueueDataAction act \<longleftrightarrow>
     contains act ''microsoft.storage/storageaccounts/queueservices/''"

definition isStorageTableDataAction :: "string \<Rightarrow> bool" where
  "isStorageTableDataAction act \<longleftrightarrow>
     contains act ''microsoft.storage/storageaccounts/tableservices/''"

definition isStorageDataPlaneAction :: "string \<Rightarrow> bool" where
  "isStorageDataPlaneAction act \<longleftrightarrow>
     isStorageBlobDataAction act
     \<or> isStorageQueueDataAction act
     \<or> isStorageTableDataAction act"

definition isDedicatedDataPlaneAction :: "string \<Rightarrow> bool" where
  "isDedicatedDataPlaneAction act \<longleftrightarrow>
     isKeyVaultDataPlaneAction act
     \<or> isAppConfigDataPlaneAction act
     \<or> isCosmosDataPlaneAction act
     \<or> isServiceBusDataAction act
     \<or> isEventHubsDataPlaneAction act
     \<or> isEventGridSendAction act
     \<or> isCognitiveDataPlaneAction act
     \<or> isAcrPullAction act
     \<or> isStorageDataPlaneAction act"

definition isResourceGraphRead :: "string \<Rightarrow> bool" where
  "isResourceGraphRead act \<longleftrightarrow>
     contains act ''microsoft.resourcegraph/resources''"

definition isReadLikeAction :: "string \<Rightarrow> bool" where
  "isReadLikeAction act \<longleftrightarrow>
     (if isWorkspaceQueryAction act then False
     else (if isSecretDisclosureAction act then False
     else (if isDedicatedDataPlaneAction act then False
     else (if has_suffix act ''/read''
     \<or> contains act ''/read/''
     \<or> contains act ''/read'' then True
     else isResourceGraphRead act))))"

definition isStorageBlobDataReadAction :: "string \<Rightarrow> bool" where
  "isStorageBlobDataReadAction act \<longleftrightarrow>
     isStorageBlobDataAction act \<and> (contains act ''/read''
     \<or> has_suffix act ''/get'')"

definition isStorageQueueDataReadAction :: "string \<Rightarrow> bool" where
  "isStorageQueueDataReadAction act \<longleftrightarrow>
     isStorageQueueDataAction act \<and> (contains act ''/read''
     \<or> contains act ''/messages/read'')"

definition isStorageTableDataReadAction :: "string \<Rightarrow> bool" where
  "isStorageTableDataReadAction act \<longleftrightarrow>
     isStorageTableDataAction act \<and> (contains act ''/read''
     \<or> contains act ''/entities/read'')"

definition isAppConfigDataReadAction :: "string \<Rightarrow> bool" where
  "isAppConfigDataReadAction act \<longleftrightarrow>
     (if \<not> isAppConfigDataPlaneAction act then False
     else contains act ''/read''
     \<or> has_suffix act ''/get'')"

definition isCosmosDataReadAction :: "string \<Rightarrow> bool" where
  "isCosmosDataReadAction act \<longleftrightarrow>
     (if \<not> isCosmosDataPlaneAction act then False
     else contains act ''/read''
     \<or> contains act ''/query''
     \<or> contains act ''/changefeed'')"

definition isServiceBusSendAction :: "string \<Rightarrow> bool" where
  "isServiceBusSendAction act \<longleftrightarrow>
     isServiceBusDataAction act \<and> (contains act ''/send''
     \<or> contains act ''/write'')"

definition isServiceBusReceiveAction :: "string \<Rightarrow> bool" where
  "isServiceBusReceiveAction act \<longleftrightarrow>
     isServiceBusDataAction act \<and> (contains act ''/receive''
     \<or> contains act ''/read'')"

definition isKeyVaultSecretsReadAction :: "string \<Rightarrow> bool" where
  "isKeyVaultSecretsReadAction act \<longleftrightarrow>
     contains act ''microsoft.keyvault/vaults/secrets/get''
     \<or> contains act ''microsoft.keyvault/vaults/secrets/read''
     \<or> act = ''microsoft.keyvault/vaults/secrets/getsecret/action''"

definition isKeyVaultSecretsWriteAction :: "string \<Rightarrow> bool" where
  "isKeyVaultSecretsWriteAction act \<longleftrightarrow>
     contains act ''microsoft.keyvault/vaults/secrets/set''
     \<or> contains act ''microsoft.keyvault/vaults/secrets/write''
     \<or> contains act ''microsoft.keyvault/vaults/secrets/delete''
     \<or> contains act ''microsoft.keyvault/vaults/secrets/backup''
     \<or> contains act ''microsoft.keyvault/vaults/secrets/restore''
     \<or> contains act ''microsoft.keyvault/vaults/secrets/purge''
     \<or> contains act ''microsoft.keyvault/vaults/secrets/recover''"

section \<open>What a role grants\<close>

definition roleGrants :: "string \<Rightarrow> string \<Rightarrow> bool" where
  "roleGrants roleDefID action =
     (let role = to_lower (trim_space roleDefID);
          act = to_lower (trim_space action)
      in
      if role = [] \<or> act = [] then False
      else if roleHasGUID role guidOwner then
        \<not> isDedicatedDataPlaneAction act
      else if roleHasGUID role guidContributor then
        \<not> contains act ''authorization/roleassignments'' \<and> \<not> isDedicatedDataPlaneAction act
      else if roleHasGUID role guidLogAnalyticsDataReader then
        isWorkspaceQueryAction act \<or> act = ''microsoft.operationalinsights/workspaces/read''
      else if isLogAnalyticsReaderRole role then
        isReadLikeAction act \<or> isWorkspaceQueryAction act
      else if roleHasGUID role guidAcrPull then
        isAcrPullAction act
      else if roleHasGUID role guidStorageBlobDataOwner then
        isStorageBlobDataAction act
      else if roleHasGUID role guidStorageBlobDataContributor then
        isStorageBlobDataAction act
      else if roleHasGUID role guidStorageBlobDataReader then
        isStorageBlobDataReadAction act
      else if roleHasGUID role guidStorageQueueDataContributor then
        isStorageQueueDataAction act
      else if roleHasGUID role guidStorageQueueDataReader then
        isStorageQueueDataReadAction act
      else if roleHasGUID role guidStorageTableDataContributor then
        isStorageTableDataAction act
      else if roleHasGUID role guidStorageTableDataReader then
        isStorageTableDataReadAction act
      else if roleHasGUID role guidEventHubsDataOwner \<or> roleHasGUID role guidEventHubsDataOwnerAlias then
        isEventHubsDataPlaneAction act
      else if roleHasGUID role guidEventHubsDataSender then
        isEventHubsSendAction act
      else if roleHasGUID role guidEventHubsDataReceiver \<or> roleHasGUID role guidEventHubsDataReceiverAlias then
        isEventHubsReceiveAction act
      else if roleHasGUID role guidServiceBusDataOwner then
        isServiceBusDataAction act
      else if roleHasGUID role guidServiceBusDataSender then
        isServiceBusSendAction act
      else if roleHasGUID role guidServiceBusDataReceiver then
        isServiceBusReceiveAction act
      else if roleHasGUID role guidEventGridDataSender then
        isEventGridSendAction act
      else if roleHasGUID role guidAppConfigDataOwner then
        isAppConfigDataPlaneAction act
      else if roleHasGUID role guidAppConfigDataReader then
        isAppConfigDataReadAction act
      else if roleHasGUID role guidCosmosDataContributor \<or> roleHasGUID role guidCosmosDataContributorAlias then
        isCosmosDataPlaneAction act
      else if roleHasGUID role guidCosmosDataReader \<or> roleHasGUID role guidCosmosDataReaderAlias then
        isCosmosDataReadAction act
      else if roleHasGUID role guidCognitiveOpenAIUser then
        isCognitiveDataPlaneAction act
      else if roleHasGUID role guidAKSClusterAdmin then
        isAKSAdminCredentialAction act
      else if roleHasGUID role guidAKSClusterUser then
        isAKSUserCredentialAction act
      else if roleHasGUID role guidKeyVaultAdministrator then
        contains act ''microsoft.keyvault/''
      else if roleHasGUID role guidKeyVaultSecretsOfficer then
        isKeyVaultSecretsWriteAction act \<or> isKeyVaultSecretsReadAction act
      else if roleHasGUID role guidKeyVaultSecretsUser then
        isKeyVaultSecretsReadAction act
      else if isReaderLikeRole role then
        isReadLikeAction act \<and> \<not> isSecretDisclosureAction act
      else False)"

record BuiltInRole =
  role_id :: string
  RoleName :: string
  Description :: string

definition BuiltInRoles :: "BuiltInRole list" where
  "BuiltInRoles =
   [\<lparr>role_id = guidOwner, RoleName = ''Owner'',
      Description = ''Grants full access to manage all resources, including the ability to assign roles''\<rparr>,
    \<lparr>role_id = guidContributor, RoleName = ''Contributor'',
      Description = ''Grants full access to manage all resources, but does not allow you to assign roles''\<rparr>,
    \<lparr>role_id = guidReader, RoleName = ''Reader'',
      Description = ''View all resources, but does not allow you to make any changes''\<rparr>,
    \<lparr>role_id = guidLogAnalyticsReader, RoleName = ''Log Analytics Reader'',
      Description = ''View Log Analytics data and settings''\<rparr>,
    \<lparr>role_id = guidMonitoringReader, RoleName = ''Monitoring Reader'',
      Description = ''Read monitoring data''\<rparr>,
    \<lparr>role_id = guidLogAnalyticsDataReader, RoleName = ''Log Analytics Data Reader'',
      Description = ''Read Log Analytics workspace data''\<rparr>,
    \<lparr>role_id = guidAcrPull, RoleName = ''AcrPull'',
      Description = ''Pull artifacts from Azure Container Registry''\<rparr>,
    \<lparr>role_id = guidStorageBlobDataOwner, RoleName = ''Storage Blob Data Owner'',
      Description = ''Full access to Azure Storage blob containers and data''\<rparr>,
    \<lparr>role_id = guidStorageBlobDataContributor, RoleName = ''Storage Blob Data Contributor'',
      Description = ''Read, write, and delete Azure Storage containers and blobs''\<rparr>,
    \<lparr>role_id = guidStorageBlobDataReader, RoleName = ''Storage Blob Data Reader'',
      Description = ''Read and list Azure Storage containers and blobs''\<rparr>,
    \<lparr>role_id = guidStorageQueueDataContributor, RoleName = ''Storage Queue Data Contributor'',
      Description = ''Read, write, and delete Azure Storage queues and queue messages''\<rparr>,
    \<lparr>role_id = guidStorageQueueDataReader, RoleName = ''Storage Queue Data Reader'',
      Description = ''Read and list Azure Storage queues and queue messages''\<rparr>,
    \<lparr>role_id = guidStorageTableDataContributor, RoleName = ''Storage Table Data Contributor'',
      Description = ''Read, write, and delete Azure Storage tables and entities''\<rparr>,
    \<lparr>role_id = guidStorageTableDataReader, RoleName = ''Storage Table Data Reader'',
      Description = ''Read and list Azure Storage tables and entities''\<rparr>,
    \<lparr>role_id = guidEventHubsDataOwner, RoleName = ''Azure Event Hubs Data Owner'',
      Description = ''Allows for full access to Azure Event Hubs data''\<rparr>,
    \<lparr>role_id = guidEventHubsDataSender, RoleName = ''Azure Event Hubs Data Sender'',
      Description = ''Allows send access to Azure Event Hubs data''\<rparr>,
    \<lparr>role_id = guidEventHubsDataReceiver, RoleName = ''Azure Event Hubs Data Receiver'',
      Description = ''Allows receive access to Azure Event Hubs data''\<rparr>,
    \<lparr>role_id = guidKeyVaultAdministrator, RoleName = ''Key Vault Administrator'',
      Description = ''Perform all data plane operations on a key vault''\<rparr>,
    \<lparr>role_id = guidKeyVaultSecretsOfficer, RoleName = ''Key Vault Secrets Officer'',
      Description = ''Perform any action on Key Vault secrets except manage permissions''\<rparr>,
    \<lparr>role_id = guidKeyVaultSecretsUser, RoleName = ''Key Vault Secrets User'',
      Description = ''Read secret contents''\<rparr>,
    \<lparr>role_id = guidAppConfigDataReader, RoleName = ''App Configuration Data Reader'',
      Description = ''Read App Configuration data''\<rparr>,
    \<lparr>role_id = guidAppConfigDataOwner, RoleName = ''App Configuration Data Owner'',
      Description = ''Full access to App Configuration data''\<rparr>,
    \<lparr>role_id = guidServiceBusDataOwner, RoleName = ''Azure Service Bus Data Owner'',
      Description = ''Allows for full access to Azure Service Bus resources''\<rparr>,
    \<lparr>role_id = guidServiceBusDataSender, RoleName = ''Azure Service Bus Data Sender'',
      Description = ''Allows for send access to Azure Service Bus resources''\<rparr>,
    \<lparr>role_id = guidServiceBusDataReceiver, RoleName = ''Azure Service Bus Data Receiver'',
      Description = ''Allows for receive access to Azure Service Bus resources''\<rparr>,
    \<lparr>role_id = guidEventGridDataSender, RoleName = ''EventGrid Data Sender'',
      Description = ''Allows send access to Event Grid topic events''\<rparr>,
    \<lparr>role_id = guidCognitiveOpenAIUser, RoleName = ''Cognitive Services OpenAI User'',
      Description = ''Read models and run inference''\<rparr>,
    \<lparr>role_id = guidAKSClusterAdmin, RoleName = ''Azure Kubernetes Service Cluster Admin Role'',
      Description = ''List cluster admin credential''\<rparr>,
    \<lparr>role_id = guidAKSClusterUser, RoleName = ''Azure Kubernetes Service Cluster User Role'',
      Description = ''List cluster user credential''\<rparr>]"

lemmas guid_defs =
  guidOwner_def
  guidContributor_def
  guidReader_def
  guidLogAnalyticsReader_def
  guidLogAnalyticsReaderAlias_def
  guidMonitoringReader_def
  guidLogAnalyticsDataReader_def
  guidAcrPull_def
  guidStorageBlobDataOwner_def
  guidStorageBlobDataContributor_def
  guidStorageBlobDataReader_def
  guidStorageQueueDataContributor_def
  guidStorageQueueDataReader_def
  guidStorageTableDataContributor_def
  guidStorageTableDataReader_def
  guidEventHubsDataOwner_def
  guidEventHubsDataOwnerAlias_def
  guidEventHubsDataSender_def
  guidEventHubsDataReceiver_def
  guidEventHubsDataReceiverAlias_def
  guidKeyVaultAdministrator_def
  guidKeyVaultSecretsOfficer_def
  guidKeyVaultSecretsUser_def
  guidAppConfigDataReader_def
  guidAppConfigDataOwner_def
  guidCosmosDataReader_def
  guidCosmosDataReaderAlias_def
  guidCosmosDataContributor_def
  guidCosmosDataContributorAlias_def
  guidServiceBusDataOwner_def
  guidServiceBusDataSender_def
  guidServiceBusDataReceiver_def
  guidEventGridDataSender_def
  guidCognitiveOpenAIUser_def
  guidAKSClusterAdmin_def
  guidAKSClusterUser_def

lemmas role_defs =
  RoleOwner_def
  RoleContributor_def
  RoleReader_def
  RoleLogAnalyticsReader_def
  RoleMonitoringReader_def
  RoleAcrPull_def
  RoleStorageBlobDataOwner_def
  RoleStorageBlobDataContributor_def
  RoleStorageBlobDataReader_def
  RoleStorageQueueDataContributor_def
  RoleStorageQueueDataReader_def
  RoleStorageTableDataContributor_def
  RoleStorageTableDataReader_def
  RoleEventHubsDataSender_def
  RoleEventHubsDataReceiver_def
  RoleEventHubsDataOwner_def
  RoleLogAnalyticsDataReader_def
  RoleKeyVaultSecretsUser_def
  RoleKeyVaultSecretsOfficer_def
  RoleKeyVaultAdministrator_def
  RoleAppConfigDataReader_def
  RoleAppConfigDataOwner_def
  RoleCosmosDataReader_def
  RoleCosmosDataContributor_def
  RoleServiceBusDataOwner_def
  RoleServiceBusDataSender_def
  RoleServiceBusDataReceiver_def
  RoleEventGridDataSender_def
  RoleCognitiveOpenAIUser_def
  RoleAKSClusterAdminCredential_def
  RoleAKSClusterUserCredential_def

section \<open>A role id matches one GUID\<close>

text \<open>The GUIDs the switch distinguishes, in the order of their declarations.\<close>

definition builtin_guids :: "string list" where
  "builtin_guids =
   [guidOwner,
    guidContributor,
    guidReader,
    guidLogAnalyticsReader,
    guidLogAnalyticsReaderAlias,
    guidMonitoringReader,
    guidLogAnalyticsDataReader,
    guidAcrPull,
    guidStorageBlobDataOwner,
    guidStorageBlobDataContributor,
    guidStorageBlobDataReader,
    guidStorageQueueDataContributor,
    guidStorageQueueDataReader,
    guidStorageTableDataContributor,
    guidStorageTableDataReader,
    guidEventHubsDataOwner,
    guidEventHubsDataOwnerAlias,
    guidEventHubsDataSender,
    guidEventHubsDataReceiver,
    guidEventHubsDataReceiverAlias,
    guidKeyVaultAdministrator,
    guidKeyVaultSecretsOfficer,
    guidKeyVaultSecretsUser,
    guidAppConfigDataReader,
    guidAppConfigDataOwner,
    guidCosmosDataReader,
    guidCosmosDataReaderAlias,
    guidCosmosDataContributor,
    guidCosmosDataContributorAlias,
    guidServiceBusDataOwner,
    guidServiceBusDataSender,
    guidServiceBusDataReceiver,
    guidEventGridDataSender,
    guidCognitiveOpenAIUser,
    guidAKSClusterAdmin,
    guidAKSClusterUser]"

lemma builtin_guids_props:
  "distinct builtin_guids" "list_all (\<lambda>g. length g = 36 \<and> to_lower g = g) builtin_guids"
  unfolding builtin_guids_def guid_defs by code_simp+

lemma builtin_guid_norm:
  "g \<in> set builtin_guids \<Longrightarrow> length g = 36" "g \<in> set builtin_guids \<Longrightarrow> to_lower g = g"
  using builtin_guids_props(2) by (auto simp: list_all_iff)

lemma roleHasGUID_same_length:
  assumes "roleHasGUID role g" "roleHasGUID role h" "length g = length h"
  shows "to_lower g = to_lower h"
proof -
  have "length (to_lower g) = length (to_lower h)" using assms(3) by simp
  with assms(1,2) show ?thesis
    by (auto simp: roleHasGUID_def has_suffix_iff dest: arg_cong[where f = length])
qed

lemma distinct_filter_le_one:
  assumes "distinct xs" "\<And>x y. x \<in> set xs \<Longrightarrow> y \<in> set xs \<Longrightarrow> P x \<Longrightarrow> P y \<Longrightarrow> x = y"
  shows "length (filter P xs) \<le> 1"
proof -
  have "card (set (filter P xs)) \<le> Suc 0"
    using assms(2) by (subst card_le_Suc0_iff_eq) auto
  then show ?thesis by (metis One_nat_def assms(1) distinct_card distinct_filter)
qed

text \<open>
  Whatever string is stored as a role definition id, at most one of the built-in GUIDs
  matches it, so no two arms of \<open>roleGrants\<close> that test for a GUID compete for one role.
\<close>

theorem role_id_unique: "length (filter (roleHasGUID role) builtin_guids) \<le> 1"
proof (rule distinct_filter_le_one)
  show "distinct builtin_guids" by (rule builtin_guids_props)
  fix g h
  assume in_list: "g \<in> set builtin_guids" "h \<in> set builtin_guids"
    and has: "roleHasGUID role g" "roleHasGUID role h"
  with roleHasGUID_same_length[OF has] show "g = h" by (simp add: builtin_guid_norm)
qed

section \<open>The capability of every published role\<close>

definition lower_role_id :: "string \<Rightarrow> string" where
  "lower_role_id g = ''/providers/microsoft.authorization/roledefinitions'' @ ''/'' @ g"

lemma builtin_guid_last: "list_all (\<lambda>g. g \<noteq> [] \<and> \<not> is_space (last g)) builtin_guids"
  unfolding builtin_guids_def guid_defs by code_simp

lemma role_norm:
  assumes "g \<in> set builtin_guids"
  shows "to_lower (trim_space (roleDefinitionsPrefix @ g)) = lower_role_id g"
proof -
  have "trim_space (roleDefinitionsPrefix @ g) = roleDefinitionsPrefix @ g"
    using assms builtin_guid_last
    by (intro trim_space_id) (auto simp: list_all_iff roleDefinitionsPrefix_def)
  moreover have "to_lower roleDefinitionsPrefix =
      ''/providers/microsoft.authorization/roledefinitions'' @ ''/''"
    unfolding roleDefinitionsPrefix_def by code_simp
  ultimately show ?thesis
    by (simp only: to_lower_append builtin_guid_norm(2)[OF assms] lower_role_id_def append_assoc)
qed

lemma role_has_guid:
  assumes "g \<in> set builtin_guids" "h \<in> set builtin_guids"
  shows "roleHasGUID (lower_role_id g) h \<longleftrightarrow> g = h"
proof -
  have "roleHasGUID (lower_role_id g) g"
    unfolding roleHasGUID_def lower_role_id_def builtin_guid_norm(2)[OF assms(1)]
    by (rule disjI2, rule has_suffix_append)
  then show ?thesis
    using roleHasGUID_same_length assms builtin_guid_norm by metis
qed

lemma role_id_not_by_name:
  "list_all (\<lambda>g. \<not> contains (lower_role_id g) ''log analytics reader''
     \<and> \<not> contains (lower_role_id g) ''monitoring reader''
     \<and> \<not> has_suffix (lower_role_id g) ''/reader''
     \<and> lower_role_id g \<noteq> ''reader'' \<and> lower_role_id g \<noteq> []) builtin_guids"
  unfolding builtin_guids_def guid_defs by code_simp

lemma role_not_by_name:
  assumes "g \<in> set builtin_guids"
  shows "\<not> contains (lower_role_id g) ''log analytics reader''"
    and "\<not> contains (lower_role_id g) ''monitoring reader''"
    and "\<not> has_suffix (lower_role_id g) ''/reader''"
    and "lower_role_id g \<noteq> ''reader''" and "lower_role_id g \<noteq> []"
  using role_id_not_by_name assms by (auto simp: list_all_iff)

lemma builtin_guid_mem:
  "guidOwner \<in> set builtin_guids"
  "guidContributor \<in> set builtin_guids"
  "guidReader \<in> set builtin_guids"
  "guidLogAnalyticsReader \<in> set builtin_guids"
  "guidLogAnalyticsReaderAlias \<in> set builtin_guids"
  "guidMonitoringReader \<in> set builtin_guids"
  "guidLogAnalyticsDataReader \<in> set builtin_guids"
  "guidAcrPull \<in> set builtin_guids"
  "guidStorageBlobDataOwner \<in> set builtin_guids"
  "guidStorageBlobDataContributor \<in> set builtin_guids"
  "guidStorageBlobDataReader \<in> set builtin_guids"
  "guidStorageQueueDataContributor \<in> set builtin_guids"
  "guidStorageQueueDataReader \<in> set builtin_guids"
  "guidStorageTableDataContributor \<in> set builtin_guids"
  "guidStorageTableDataReader \<in> set builtin_guids"
  "guidEventHubsDataOwner \<in> set builtin_guids"
  "guidEventHubsDataOwnerAlias \<in> set builtin_guids"
  "guidEventHubsDataSender \<in> set builtin_guids"
  "guidEventHubsDataReceiver \<in> set builtin_guids"
  "guidEventHubsDataReceiverAlias \<in> set builtin_guids"
  "guidKeyVaultAdministrator \<in> set builtin_guids"
  "guidKeyVaultSecretsOfficer \<in> set builtin_guids"
  "guidKeyVaultSecretsUser \<in> set builtin_guids"
  "guidAppConfigDataReader \<in> set builtin_guids"
  "guidAppConfigDataOwner \<in> set builtin_guids"
  "guidCosmosDataReader \<in> set builtin_guids"
  "guidCosmosDataReaderAlias \<in> set builtin_guids"
  "guidCosmosDataContributor \<in> set builtin_guids"
  "guidCosmosDataContributorAlias \<in> set builtin_guids"
  "guidServiceBusDataOwner \<in> set builtin_guids"
  "guidServiceBusDataSender \<in> set builtin_guids"
  "guidServiceBusDataReceiver \<in> set builtin_guids"
  "guidEventGridDataSender \<in> set builtin_guids"
  "guidCognitiveOpenAIUser \<in> set builtin_guids"
  "guidAKSClusterAdmin \<in> set builtin_guids"
  "guidAKSClusterUser \<in> set builtin_guids"
  by (simp_all add: builtin_guids_def)


definition guid_index :: "string \<Rightarrow> nat" where
  "guid_index g = length (takeWhile (\<lambda>h. h \<noteq> g) builtin_guids)"

lemma guid_index_nth:
  assumes "i < length builtin_guids"
  shows "guid_index (builtin_guids ! i) = i"
proof -
  let ?g = "builtin_guids ! i"
  have split: "builtin_guids = take i builtin_guids @ ?g # drop (Suc i) builtin_guids"
    using assms by (rule id_take_nth_drop)
  have "?g \<notin> set (take i builtin_guids)"
    using assms builtin_guids_props(1) by (auto simp: in_set_conv_nth nth_eq_iff_index_eq)
  then have "takeWhile (\<lambda>h. h \<noteq> ?g) (take i builtin_guids @ ?g # drop (Suc i) builtin_guids) =
      take i builtin_guids"
    by (subst takeWhile_append2) auto
  with split have "takeWhile (\<lambda>h. h \<noteq> ?g) builtin_guids = take i builtin_guids"
    by simp
  then show ?thesis using assms by (simp add: guid_index_def)
qed

lemma length_builtin_guids [simp]: "length builtin_guids = 36"
  by (simp add: builtin_guids_def)

lemma builtin_guids_nth:
  "builtin_guids ! 0 = guidOwner"
  "builtin_guids ! 1 = guidContributor"
  "builtin_guids ! 2 = guidReader"
  "builtin_guids ! 3 = guidLogAnalyticsReader"
  "builtin_guids ! 4 = guidLogAnalyticsReaderAlias"
  "builtin_guids ! 5 = guidMonitoringReader"
  "builtin_guids ! 6 = guidLogAnalyticsDataReader"
  "builtin_guids ! 7 = guidAcrPull"
  "builtin_guids ! 8 = guidStorageBlobDataOwner"
  "builtin_guids ! 9 = guidStorageBlobDataContributor"
  "builtin_guids ! 10 = guidStorageBlobDataReader"
  "builtin_guids ! 11 = guidStorageQueueDataContributor"
  "builtin_guids ! 12 = guidStorageQueueDataReader"
  "builtin_guids ! 13 = guidStorageTableDataContributor"
  "builtin_guids ! 14 = guidStorageTableDataReader"
  "builtin_guids ! 15 = guidEventHubsDataOwner"
  "builtin_guids ! 16 = guidEventHubsDataOwnerAlias"
  "builtin_guids ! 17 = guidEventHubsDataSender"
  "builtin_guids ! 18 = guidEventHubsDataReceiver"
  "builtin_guids ! 19 = guidEventHubsDataReceiverAlias"
  "builtin_guids ! 20 = guidKeyVaultAdministrator"
  "builtin_guids ! 21 = guidKeyVaultSecretsOfficer"
  "builtin_guids ! 22 = guidKeyVaultSecretsUser"
  "builtin_guids ! 23 = guidAppConfigDataReader"
  "builtin_guids ! 24 = guidAppConfigDataOwner"
  "builtin_guids ! 25 = guidCosmosDataReader"
  "builtin_guids ! 26 = guidCosmosDataReaderAlias"
  "builtin_guids ! 27 = guidCosmosDataContributor"
  "builtin_guids ! 28 = guidCosmosDataContributorAlias"
  "builtin_guids ! 29 = guidServiceBusDataOwner"
  "builtin_guids ! 30 = guidServiceBusDataSender"
  "builtin_guids ! 31 = guidServiceBusDataReceiver"
  "builtin_guids ! 32 = guidEventGridDataSender"
  "builtin_guids ! 33 = guidCognitiveOpenAIUser"
  "builtin_guids ! 34 = guidAKSClusterAdmin"
  "builtin_guids ! 35 = guidAKSClusterUser"
  by (simp_all add: builtin_guids_def)

lemma guid_index:
  "guid_index guidOwner = 0"
  "guid_index guidContributor = 1"
  "guid_index guidReader = 2"
  "guid_index guidLogAnalyticsReader = 3"
  "guid_index guidLogAnalyticsReaderAlias = 4"
  "guid_index guidMonitoringReader = 5"
  "guid_index guidLogAnalyticsDataReader = 6"
  "guid_index guidAcrPull = 7"
  "guid_index guidStorageBlobDataOwner = 8"
  "guid_index guidStorageBlobDataContributor = 9"
  "guid_index guidStorageBlobDataReader = 10"
  "guid_index guidStorageQueueDataContributor = 11"
  "guid_index guidStorageQueueDataReader = 12"
  "guid_index guidStorageTableDataContributor = 13"
  "guid_index guidStorageTableDataReader = 14"
  "guid_index guidEventHubsDataOwner = 15"
  "guid_index guidEventHubsDataOwnerAlias = 16"
  "guid_index guidEventHubsDataSender = 17"
  "guid_index guidEventHubsDataReceiver = 18"
  "guid_index guidEventHubsDataReceiverAlias = 19"
  "guid_index guidKeyVaultAdministrator = 20"
  "guid_index guidKeyVaultSecretsOfficer = 21"
  "guid_index guidKeyVaultSecretsUser = 22"
  "guid_index guidAppConfigDataReader = 23"
  "guid_index guidAppConfigDataOwner = 24"
  "guid_index guidCosmosDataReader = 25"
  "guid_index guidCosmosDataReaderAlias = 26"
  "guid_index guidCosmosDataContributor = 27"
  "guid_index guidCosmosDataContributorAlias = 28"
  "guid_index guidServiceBusDataOwner = 29"
  "guid_index guidServiceBusDataSender = 30"
  "guid_index guidServiceBusDataReceiver = 31"
  "guid_index guidEventGridDataSender = 32"
  "guid_index guidCognitiveOpenAIUser = 33"
  "guid_index guidAKSClusterAdmin = 34"
  "guid_index guidAKSClusterUser = 35"
  by (simp_all add: builtin_guids_nth[symmetric] guid_index_nth)

lemma role_has_guid_index:
  assumes "g \<in> set builtin_guids" "h \<in> set builtin_guids"
  shows "roleHasGUID (lower_role_id g) h \<longleftrightarrow> guid_index g = guid_index h"
proof -
  obtain i j where "i < length builtin_guids" "g = builtin_guids ! i"
    "j < length builtin_guids" "h = builtin_guids ! j"
    using assms by (metis in_set_conv_nth)
  then show ?thesis
    using role_has_guid[OF assms] builtin_guids_props(1)
    by (simp add: guid_index_nth nth_eq_iff_index_eq)
qed

definition published_capabilities :: "(string \<times> (string \<Rightarrow> bool)) list" where
  "published_capabilities =
   [(RoleOwner, \<lambda>a. \<not> isDedicatedDataPlaneAction a),
    (RoleContributor, \<lambda>a. \<not> contains a ''authorization/roleassignments'' \<and> \<not> isDedicatedDataPlaneAction a),
    (RoleReader, \<lambda>a. isReadLikeAction a),
    (RoleLogAnalyticsReader, \<lambda>a. isReadLikeAction a \<or> isWorkspaceQueryAction a),
    (RoleMonitoringReader, \<lambda>a. isReadLikeAction a),
    (RoleAcrPull, \<lambda>a. isAcrPullAction a),
    (RoleStorageBlobDataOwner, \<lambda>a. isStorageBlobDataAction a),
    (RoleStorageBlobDataContributor, \<lambda>a. isStorageBlobDataAction a),
    (RoleStorageBlobDataReader, \<lambda>a. isStorageBlobDataReadAction a),
    (RoleStorageQueueDataContributor, \<lambda>a. isStorageQueueDataAction a),
    (RoleStorageQueueDataReader, \<lambda>a. isStorageQueueDataReadAction a),
    (RoleStorageTableDataContributor, \<lambda>a. isStorageTableDataAction a),
    (RoleStorageTableDataReader, \<lambda>a. isStorageTableDataReadAction a),
    (RoleEventHubsDataSender, \<lambda>a. isEventHubsSendAction a),
    (RoleEventHubsDataReceiver, \<lambda>a. isEventHubsReceiveAction a),
    (RoleEventHubsDataOwner, \<lambda>a. isEventHubsDataPlaneAction a),
    (RoleLogAnalyticsDataReader, \<lambda>a. isWorkspaceQueryAction a \<or> a = ''microsoft.operationalinsights/workspaces/read''),
    (RoleKeyVaultSecretsUser, \<lambda>a. isKeyVaultSecretsReadAction a),
    (RoleKeyVaultSecretsOfficer, \<lambda>a. isKeyVaultSecretsWriteAction a \<or> isKeyVaultSecretsReadAction a),
    (RoleKeyVaultAdministrator, \<lambda>a. contains a ''microsoft.keyvault/''),
    (RoleAppConfigDataReader, \<lambda>a. isAppConfigDataReadAction a),
    (RoleAppConfigDataOwner, \<lambda>a. isAppConfigDataPlaneAction a),
    (RoleCosmosDataReader, \<lambda>a. isCosmosDataReadAction a),
    (RoleCosmosDataContributor, \<lambda>a. isCosmosDataPlaneAction a),
    (RoleServiceBusDataOwner, \<lambda>a. isServiceBusDataAction a),
    (RoleServiceBusDataSender, \<lambda>a. isServiceBusSendAction a),
    (RoleServiceBusDataReceiver, \<lambda>a. isServiceBusReceiveAction a),
    (RoleEventGridDataSender, \<lambda>a. isEventGridSendAction a),
    (RoleCognitiveOpenAIUser, \<lambda>a. isCognitiveDataPlaneAction a),
    (RoleAKSClusterAdminCredential, \<lambda>a. isAKSAdminCredentialAction a),
    (RoleAKSClusterUserCredential, \<lambda>a. isAKSUserCredentialAction a)]"


lemma reader_capability:
  "isReadLikeAction a \<and> \<not> isSecretDisclosureAction a \<longleftrightarrow> isReadLikeAction a"
  by (simp add: isReadLikeAction_def)

lemma published_role_grants:
  "roleGrants RoleOwner a \<longleftrightarrow> to_lower (trim_space a) \<noteq> [] \<and>
     (\<not> isDedicatedDataPlaneAction (to_lower (trim_space a)))"
  "roleGrants RoleContributor a \<longleftrightarrow> to_lower (trim_space a) \<noteq> [] \<and>
     (\<not> contains (to_lower (trim_space a)) ''authorization/roleassignments'' \<and> \<not> isDedicatedDataPlaneAction (to_lower (trim_space a)))"
  "roleGrants RoleReader a \<longleftrightarrow> to_lower (trim_space a) \<noteq> [] \<and>
     (isReadLikeAction (to_lower (trim_space a)))"
  "roleGrants RoleLogAnalyticsReader a \<longleftrightarrow> to_lower (trim_space a) \<noteq> [] \<and>
     (isReadLikeAction (to_lower (trim_space a)) \<or> isWorkspaceQueryAction (to_lower (trim_space a)))"
  "roleGrants RoleMonitoringReader a \<longleftrightarrow> to_lower (trim_space a) \<noteq> [] \<and>
     (isReadLikeAction (to_lower (trim_space a)))"
  "roleGrants RoleAcrPull a \<longleftrightarrow> to_lower (trim_space a) \<noteq> [] \<and>
     (isAcrPullAction (to_lower (trim_space a)))"
  "roleGrants RoleStorageBlobDataOwner a \<longleftrightarrow> to_lower (trim_space a) \<noteq> [] \<and>
     (isStorageBlobDataAction (to_lower (trim_space a)))"
  "roleGrants RoleStorageBlobDataContributor a \<longleftrightarrow> to_lower (trim_space a) \<noteq> [] \<and>
     (isStorageBlobDataAction (to_lower (trim_space a)))"
  "roleGrants RoleStorageBlobDataReader a \<longleftrightarrow> to_lower (trim_space a) \<noteq> [] \<and>
     (isStorageBlobDataReadAction (to_lower (trim_space a)))"
  "roleGrants RoleStorageQueueDataContributor a \<longleftrightarrow> to_lower (trim_space a) \<noteq> [] \<and>
     (isStorageQueueDataAction (to_lower (trim_space a)))"
  "roleGrants RoleStorageQueueDataReader a \<longleftrightarrow> to_lower (trim_space a) \<noteq> [] \<and>
     (isStorageQueueDataReadAction (to_lower (trim_space a)))"
  "roleGrants RoleStorageTableDataContributor a \<longleftrightarrow> to_lower (trim_space a) \<noteq> [] \<and>
     (isStorageTableDataAction (to_lower (trim_space a)))"
  "roleGrants RoleStorageTableDataReader a \<longleftrightarrow> to_lower (trim_space a) \<noteq> [] \<and>
     (isStorageTableDataReadAction (to_lower (trim_space a)))"
  "roleGrants RoleEventHubsDataSender a \<longleftrightarrow> to_lower (trim_space a) \<noteq> [] \<and>
     (isEventHubsSendAction (to_lower (trim_space a)))"
  "roleGrants RoleEventHubsDataReceiver a \<longleftrightarrow> to_lower (trim_space a) \<noteq> [] \<and>
     (isEventHubsReceiveAction (to_lower (trim_space a)))"
  "roleGrants RoleEventHubsDataOwner a \<longleftrightarrow> to_lower (trim_space a) \<noteq> [] \<and>
     (isEventHubsDataPlaneAction (to_lower (trim_space a)))"
  "roleGrants RoleLogAnalyticsDataReader a \<longleftrightarrow> to_lower (trim_space a) \<noteq> [] \<and>
     (isWorkspaceQueryAction (to_lower (trim_space a)) \<or> (to_lower (trim_space a)) = ''microsoft.operationalinsights/workspaces/read'')"
  "roleGrants RoleKeyVaultSecretsUser a \<longleftrightarrow> to_lower (trim_space a) \<noteq> [] \<and>
     (isKeyVaultSecretsReadAction (to_lower (trim_space a)))"
  "roleGrants RoleKeyVaultSecretsOfficer a \<longleftrightarrow> to_lower (trim_space a) \<noteq> [] \<and>
     (isKeyVaultSecretsWriteAction (to_lower (trim_space a)) \<or> isKeyVaultSecretsReadAction (to_lower (trim_space a)))"
  "roleGrants RoleKeyVaultAdministrator a \<longleftrightarrow> to_lower (trim_space a) \<noteq> [] \<and>
     (contains (to_lower (trim_space a)) ''microsoft.keyvault/'')"
  "roleGrants RoleAppConfigDataReader a \<longleftrightarrow> to_lower (trim_space a) \<noteq> [] \<and>
     (isAppConfigDataReadAction (to_lower (trim_space a)))"
  "roleGrants RoleAppConfigDataOwner a \<longleftrightarrow> to_lower (trim_space a) \<noteq> [] \<and>
     (isAppConfigDataPlaneAction (to_lower (trim_space a)))"
  "roleGrants RoleCosmosDataReader a \<longleftrightarrow> to_lower (trim_space a) \<noteq> [] \<and>
     (isCosmosDataReadAction (to_lower (trim_space a)))"
  "roleGrants RoleCosmosDataContributor a \<longleftrightarrow> to_lower (trim_space a) \<noteq> [] \<and>
     (isCosmosDataPlaneAction (to_lower (trim_space a)))"
  "roleGrants RoleServiceBusDataOwner a \<longleftrightarrow> to_lower (trim_space a) \<noteq> [] \<and>
     (isServiceBusDataAction (to_lower (trim_space a)))"
  "roleGrants RoleServiceBusDataSender a \<longleftrightarrow> to_lower (trim_space a) \<noteq> [] \<and>
     (isServiceBusSendAction (to_lower (trim_space a)))"
  "roleGrants RoleServiceBusDataReceiver a \<longleftrightarrow> to_lower (trim_space a) \<noteq> [] \<and>
     (isServiceBusReceiveAction (to_lower (trim_space a)))"
  "roleGrants RoleEventGridDataSender a \<longleftrightarrow> to_lower (trim_space a) \<noteq> [] \<and>
     (isEventGridSendAction (to_lower (trim_space a)))"
  "roleGrants RoleCognitiveOpenAIUser a \<longleftrightarrow> to_lower (trim_space a) \<noteq> [] \<and>
     (isCognitiveDataPlaneAction (to_lower (trim_space a)))"
  "roleGrants RoleAKSClusterAdminCredential a \<longleftrightarrow> to_lower (trim_space a) \<noteq> [] \<and>
     (isAKSAdminCredentialAction (to_lower (trim_space a)))"
  "roleGrants RoleAKSClusterUserCredential a \<longleftrightarrow> to_lower (trim_space a) \<noteq> [] \<and>
     (isAKSUserCredentialAction (to_lower (trim_space a)))"
  unfolding role_defs roleGrants_def Let_def isLogAnalyticsReaderRole_def isReaderLikeRole_def
  by (simp_all only: role_norm role_has_guid_index guid_index role_not_by_name builtin_guid_mem
        reader_capability if_True if_False simp_thms arith_simps rel_simps num.distinct
        if_bool_eq_conj de_Morgan_disj cong: conj_cong)

text \<open>
  Every published role id of the package grants exactly the class of actions its comment
  names, on the lower-cased, trimmed action: the arm for that role is reached, and no earlier
  arm of the switch shadows it.
\<close>

theorem published_roles_grant:
  "list_all (\<lambda>(role, can). \<forall>action. roleGrants role action =
      (to_lower (trim_space action) \<noteq> [] \<and> can (to_lower (trim_space action))))
    published_capabilities"
  unfolding published_capabilities_def
  by (simp only: list.pred_inject prod.case published_role_grants simp_thms)

section \<open>Separation of duties\<close>

text \<open>The classes of two actions, evaluated once.\<close>

lemma roleassignment_write_classes:
  "isDedicatedDataPlaneAction ''microsoft.authorization/roleassignments/write'' \<longleftrightarrow> False"
  "isWorkspaceQueryAction ''microsoft.authorization/roleassignments/write'' \<longleftrightarrow> False"
  "isReadLikeAction ''microsoft.authorization/roleassignments/write'' \<longleftrightarrow> False"
  "isAcrPullAction ''microsoft.authorization/roleassignments/write'' \<longleftrightarrow> False"
  "isStorageBlobDataAction ''microsoft.authorization/roleassignments/write'' \<longleftrightarrow> False"
  "isStorageBlobDataReadAction ''microsoft.authorization/roleassignments/write'' \<longleftrightarrow> False"
  "isStorageQueueDataAction ''microsoft.authorization/roleassignments/write'' \<longleftrightarrow> False"
  "isStorageQueueDataReadAction ''microsoft.authorization/roleassignments/write'' \<longleftrightarrow> False"
  "isStorageTableDataAction ''microsoft.authorization/roleassignments/write'' \<longleftrightarrow> False"
  "isStorageTableDataReadAction ''microsoft.authorization/roleassignments/write'' \<longleftrightarrow> False"
  "isEventHubsDataPlaneAction ''microsoft.authorization/roleassignments/write'' \<longleftrightarrow> False"
  "isEventHubsSendAction ''microsoft.authorization/roleassignments/write'' \<longleftrightarrow> False"
  "isEventHubsReceiveAction ''microsoft.authorization/roleassignments/write'' \<longleftrightarrow> False"
  "isServiceBusDataAction ''microsoft.authorization/roleassignments/write'' \<longleftrightarrow> False"
  "isServiceBusSendAction ''microsoft.authorization/roleassignments/write'' \<longleftrightarrow> False"
  "isServiceBusReceiveAction ''microsoft.authorization/roleassignments/write'' \<longleftrightarrow> False"
  "isEventGridSendAction ''microsoft.authorization/roleassignments/write'' \<longleftrightarrow> False"
  "isAppConfigDataPlaneAction ''microsoft.authorization/roleassignments/write'' \<longleftrightarrow> False"
  "isAppConfigDataReadAction ''microsoft.authorization/roleassignments/write'' \<longleftrightarrow> False"
  "isCosmosDataPlaneAction ''microsoft.authorization/roleassignments/write'' \<longleftrightarrow> False"
  "isCosmosDataReadAction ''microsoft.authorization/roleassignments/write'' \<longleftrightarrow> False"
  "isCognitiveDataPlaneAction ''microsoft.authorization/roleassignments/write'' \<longleftrightarrow> False"
  "isAKSAdminCredentialAction ''microsoft.authorization/roleassignments/write'' \<longleftrightarrow> False"
  "isAKSUserCredentialAction ''microsoft.authorization/roleassignments/write'' \<longleftrightarrow> False"
  "isKeyVaultSecretsWriteAction ''microsoft.authorization/roleassignments/write'' \<longleftrightarrow> False"
  "isKeyVaultSecretsReadAction ''microsoft.authorization/roleassignments/write'' \<longleftrightarrow> False"
  "isSecretDisclosureAction ''microsoft.authorization/roleassignments/write'' \<longleftrightarrow> False"
  "contains ''microsoft.authorization/roleassignments/write'' ''authorization/roleassignments''"
  "\<not> contains ''microsoft.authorization/roleassignments/write'' ''microsoft.keyvault/''"
  "''microsoft.authorization/roleassignments/write'' \<noteq> ''microsoft.operationalinsights/workspaces/read''"
  "''microsoft.authorization/roleassignments/write'' \<noteq> []"
  by code_simp+

lemma roleassignment_delete_classes:
  "isDedicatedDataPlaneAction ''microsoft.authorization/roleassignments/delete'' \<longleftrightarrow> False"
  "isWorkspaceQueryAction ''microsoft.authorization/roleassignments/delete'' \<longleftrightarrow> False"
  "isReadLikeAction ''microsoft.authorization/roleassignments/delete'' \<longleftrightarrow> False"
  "isAcrPullAction ''microsoft.authorization/roleassignments/delete'' \<longleftrightarrow> False"
  "isStorageBlobDataAction ''microsoft.authorization/roleassignments/delete'' \<longleftrightarrow> False"
  "isStorageBlobDataReadAction ''microsoft.authorization/roleassignments/delete'' \<longleftrightarrow> False"
  "isStorageQueueDataAction ''microsoft.authorization/roleassignments/delete'' \<longleftrightarrow> False"
  "isStorageQueueDataReadAction ''microsoft.authorization/roleassignments/delete'' \<longleftrightarrow> False"
  "isStorageTableDataAction ''microsoft.authorization/roleassignments/delete'' \<longleftrightarrow> False"
  "isStorageTableDataReadAction ''microsoft.authorization/roleassignments/delete'' \<longleftrightarrow> False"
  "isEventHubsDataPlaneAction ''microsoft.authorization/roleassignments/delete'' \<longleftrightarrow> False"
  "isEventHubsSendAction ''microsoft.authorization/roleassignments/delete'' \<longleftrightarrow> False"
  "isEventHubsReceiveAction ''microsoft.authorization/roleassignments/delete'' \<longleftrightarrow> False"
  "isServiceBusDataAction ''microsoft.authorization/roleassignments/delete'' \<longleftrightarrow> False"
  "isServiceBusSendAction ''microsoft.authorization/roleassignments/delete'' \<longleftrightarrow> False"
  "isServiceBusReceiveAction ''microsoft.authorization/roleassignments/delete'' \<longleftrightarrow> False"
  "isEventGridSendAction ''microsoft.authorization/roleassignments/delete'' \<longleftrightarrow> False"
  "isAppConfigDataPlaneAction ''microsoft.authorization/roleassignments/delete'' \<longleftrightarrow> False"
  "isAppConfigDataReadAction ''microsoft.authorization/roleassignments/delete'' \<longleftrightarrow> False"
  "isCosmosDataPlaneAction ''microsoft.authorization/roleassignments/delete'' \<longleftrightarrow> False"
  "isCosmosDataReadAction ''microsoft.authorization/roleassignments/delete'' \<longleftrightarrow> False"
  "isCognitiveDataPlaneAction ''microsoft.authorization/roleassignments/delete'' \<longleftrightarrow> False"
  "isAKSAdminCredentialAction ''microsoft.authorization/roleassignments/delete'' \<longleftrightarrow> False"
  "isAKSUserCredentialAction ''microsoft.authorization/roleassignments/delete'' \<longleftrightarrow> False"
  "isKeyVaultSecretsWriteAction ''microsoft.authorization/roleassignments/delete'' \<longleftrightarrow> False"
  "isKeyVaultSecretsReadAction ''microsoft.authorization/roleassignments/delete'' \<longleftrightarrow> False"
  "isSecretDisclosureAction ''microsoft.authorization/roleassignments/delete'' \<longleftrightarrow> False"
  "contains ''microsoft.authorization/roleassignments/delete'' ''authorization/roleassignments''"
  "\<not> contains ''microsoft.authorization/roleassignments/delete'' ''microsoft.keyvault/''"
  "''microsoft.authorization/roleassignments/delete'' \<noteq> ''microsoft.operationalinsights/workspaces/read''"
  "''microsoft.authorization/roleassignments/delete'' \<noteq> []"
  by code_simp+

lemma secret_read_classes:
  "isDedicatedDataPlaneAction ''microsoft.keyvault/vaults/secrets/getsecret/action'' \<longleftrightarrow> True"
  "isWorkspaceQueryAction ''microsoft.keyvault/vaults/secrets/getsecret/action'' \<longleftrightarrow> False"
  "isReadLikeAction ''microsoft.keyvault/vaults/secrets/getsecret/action'' \<longleftrightarrow> False"
  "isAcrPullAction ''microsoft.keyvault/vaults/secrets/getsecret/action'' \<longleftrightarrow> False"
  "isStorageBlobDataAction ''microsoft.keyvault/vaults/secrets/getsecret/action'' \<longleftrightarrow> False"
  "isStorageBlobDataReadAction ''microsoft.keyvault/vaults/secrets/getsecret/action'' \<longleftrightarrow> False"
  "isStorageQueueDataAction ''microsoft.keyvault/vaults/secrets/getsecret/action'' \<longleftrightarrow> False"
  "isStorageQueueDataReadAction ''microsoft.keyvault/vaults/secrets/getsecret/action'' \<longleftrightarrow> False"
  "isStorageTableDataAction ''microsoft.keyvault/vaults/secrets/getsecret/action'' \<longleftrightarrow> False"
  "isStorageTableDataReadAction ''microsoft.keyvault/vaults/secrets/getsecret/action'' \<longleftrightarrow> False"
  "isEventHubsDataPlaneAction ''microsoft.keyvault/vaults/secrets/getsecret/action'' \<longleftrightarrow> False"
  "isEventHubsSendAction ''microsoft.keyvault/vaults/secrets/getsecret/action'' \<longleftrightarrow> False"
  "isEventHubsReceiveAction ''microsoft.keyvault/vaults/secrets/getsecret/action'' \<longleftrightarrow> False"
  "isServiceBusDataAction ''microsoft.keyvault/vaults/secrets/getsecret/action'' \<longleftrightarrow> False"
  "isServiceBusSendAction ''microsoft.keyvault/vaults/secrets/getsecret/action'' \<longleftrightarrow> False"
  "isServiceBusReceiveAction ''microsoft.keyvault/vaults/secrets/getsecret/action'' \<longleftrightarrow> False"
  "isEventGridSendAction ''microsoft.keyvault/vaults/secrets/getsecret/action'' \<longleftrightarrow> False"
  "isAppConfigDataPlaneAction ''microsoft.keyvault/vaults/secrets/getsecret/action'' \<longleftrightarrow> False"
  "isAppConfigDataReadAction ''microsoft.keyvault/vaults/secrets/getsecret/action'' \<longleftrightarrow> False"
  "isCosmosDataPlaneAction ''microsoft.keyvault/vaults/secrets/getsecret/action'' \<longleftrightarrow> False"
  "isCosmosDataReadAction ''microsoft.keyvault/vaults/secrets/getsecret/action'' \<longleftrightarrow> False"
  "isCognitiveDataPlaneAction ''microsoft.keyvault/vaults/secrets/getsecret/action'' \<longleftrightarrow> False"
  "isAKSAdminCredentialAction ''microsoft.keyvault/vaults/secrets/getsecret/action'' \<longleftrightarrow> False"
  "isAKSUserCredentialAction ''microsoft.keyvault/vaults/secrets/getsecret/action'' \<longleftrightarrow> False"
  "isKeyVaultSecretsWriteAction ''microsoft.keyvault/vaults/secrets/getsecret/action'' \<longleftrightarrow> False"
  "isKeyVaultSecretsReadAction ''microsoft.keyvault/vaults/secrets/getsecret/action'' \<longleftrightarrow> True"
  "isSecretDisclosureAction ''microsoft.keyvault/vaults/secrets/getsecret/action'' \<longleftrightarrow> False"
  "contains ''microsoft.keyvault/vaults/secrets/getsecret/action'' ''microsoft.keyvault/''"
  "''microsoft.keyvault/vaults/secrets/getsecret/action'' \<noteq> ''microsoft.operationalinsights/workspaces/read''"
  "''microsoft.keyvault/vaults/secrets/getsecret/action'' \<noteq> []"
  by code_simp+

lemma role_assignment_owner:
  "roleGrants role ''Microsoft.Authorization/roleAssignments/write'' \<longleftrightarrow>
     roleHasGUID (to_lower (trim_space role)) guidOwner"
  "roleGrants role ''Microsoft.Authorization/roleAssignments/delete'' \<longleftrightarrow>
     roleHasGUID (to_lower (trim_space role)) guidOwner"
proof -
  have norm: "to_lower (trim_space ''Microsoft.Authorization/roleAssignments/write'') =
      ''microsoft.authorization/roleassignments/write''"
    "to_lower (trim_space ''Microsoft.Authorization/roleAssignments/delete'') =
      ''microsoft.authorization/roleassignments/delete''"
    by code_simp+
  have empty: "\<not> roleHasGUID [] guidOwner" by code_simp
  show "roleGrants role ''Microsoft.Authorization/roleAssignments/write'' \<longleftrightarrow>
      roleHasGUID (to_lower (trim_space role)) guidOwner"
    using empty unfolding roleGrants_def Let_def norm roleassignment_write_classes
    by (cases "to_lower (trim_space role) = []")
       (simp_all only: roleassignment_write_classes if_True if_False simp_thms if_cancel
          split: if_split)
  show "roleGrants role ''Microsoft.Authorization/roleAssignments/delete'' \<longleftrightarrow>
      roleHasGUID (to_lower (trim_space role)) guidOwner"
    using empty unfolding roleGrants_def Let_def norm roleassignment_delete_classes
    by (cases "to_lower (trim_space role) = []")
       (simp_all only: roleassignment_delete_classes if_True if_False simp_thms if_cancel
          split: if_split)
qed

text \<open>
  Only the Owner role grants writing role assignments, and only it grants deleting them. The
  equations hold for every string stored as a role id, built-in or not.
\<close>

theorem role_assignment_write_is_owner_only:
  "(roleGrants role ''Microsoft.Authorization/roleAssignments/write'' \<longleftrightarrow>
      roleHasGUID (to_lower (trim_space role)) guidOwner) \<and>
   (roleGrants role ''Microsoft.Authorization/roleAssignments/delete'' \<longleftrightarrow>
      roleHasGUID (to_lower (trim_space role)) guidOwner)"
  by (simp only: role_assignment_owner simp_thms)

text \<open>
  Reading a Key Vault secret on the data plane needs a Key Vault data role. Owner,
  Contributor and Reader do not reach secret values.
\<close>

theorem secret_read_needs_vault_role:
  assumes "roleGrants role ''Microsoft.KeyVault/vaults/secrets/getSecret/action''"
  shows "\<exists>g \<in> {guidKeyVaultAdministrator, guidKeyVaultSecretsOfficer, guidKeyVaultSecretsUser}.
    roleHasGUID (to_lower (trim_space role)) g"
proof (rule ccontr)
  assume none: "\<not> ?thesis"
  have norm: "to_lower (trim_space ''Microsoft.KeyVault/vaults/secrets/getSecret/action'') =
      ''microsoft.keyvault/vaults/secrets/getsecret/action''"
    by code_simp
  from none have "\<not> roleHasGUID (to_lower (trim_space role)) guidKeyVaultAdministrator"
    "\<not> roleHasGUID (to_lower (trim_space role)) guidKeyVaultSecretsOfficer"
    "\<not> roleHasGUID (to_lower (trim_space role)) guidKeyVaultSecretsUser"
    by blast+
  with assms show False
    unfolding roleGrants_def Let_def norm
    by (simp only: secret_read_classes if_True if_False simp_thms if_cancel)
qed

theorem secret_read_needs_vault_role_witness:
  "\<exists>g \<in> {guidKeyVaultAdministrator, guidKeyVaultSecretsOfficer, guidKeyVaultSecretsUser}.
    roleHasGUID (to_lower (trim_space RoleKeyVaultSecretsUser)) g"
proof (rule secret_read_needs_vault_role)
  show "roleGrants RoleKeyVaultSecretsUser ''Microsoft.KeyVault/vaults/secrets/getSecret/action''"
    by code_simp
qed

text \<open>The GUIDs of the roles that carry data-plane or credential capabilities.\<close>

definition data_role_guids :: "string list" where
  "data_role_guids =
   [guidAcrPull,
    guidStorageBlobDataOwner,
    guidStorageBlobDataContributor,
    guidStorageBlobDataReader,
    guidStorageQueueDataContributor,
    guidStorageQueueDataReader,
    guidStorageTableDataContributor,
    guidStorageTableDataReader,
    guidEventHubsDataOwner,
    guidEventHubsDataOwnerAlias,
    guidEventHubsDataSender,
    guidEventHubsDataReceiver,
    guidEventHubsDataReceiverAlias,
    guidKeyVaultAdministrator,
    guidKeyVaultSecretsOfficer,
    guidKeyVaultSecretsUser,
    guidAppConfigDataReader,
    guidAppConfigDataOwner,
    guidCosmosDataReader,
    guidCosmosDataReaderAlias,
    guidCosmosDataContributor,
    guidCosmosDataContributorAlias,
    guidServiceBusDataOwner,
    guidServiceBusDataSender,
    guidServiceBusDataReceiver,
    guidEventGridDataSender,
    guidCognitiveOpenAIUser,
    guidAKSClusterAdmin,
    guidAKSClusterUser]"

text \<open>
  An action of a dedicated data plane (Key Vault, App Configuration, Cosmos, Service Bus,
  Event Hubs, Event Grid, OpenAI, ACR pull, Storage) is granted by data roles only, never by
  Owner, Contributor, the Readers, or a role string without a GUID. Workspace queries are
  excluded, since the Log Analytics readers grant every action whose name contains one.
\<close>

theorem dedicated_action_needs_data_role:
  assumes grants: "roleGrants role action"
    and dedicated: "isDedicatedDataPlaneAction (to_lower (trim_space action))"
    and no_query: "\<not> isWorkspaceQueryAction (to_lower (trim_space action))"
  shows "\<exists>g \<in> set data_role_guids. roleHasGUID (to_lower (trim_space role)) g"
proof (rule ccontr)
  assume "\<not> ?thesis"
  then have "list_all (\<lambda>g. \<not> roleHasGUID (to_lower (trim_space role)) g) data_role_guids"
    by (simp add: list_all_iff)
  note none = this[unfolded data_role_guids_def list.pred_inject simp_thms]
  have not_read: "\<not> isReadLikeAction (to_lower (trim_space action))"
    using dedicated by (simp add: isReadLikeAction_def)
  have "\<not> isDedicatedDataPlaneAction ''microsoft.operationalinsights/workspaces/read''"
    by code_simp
  with dedicated have
    not_ws: "to_lower (trim_space action) \<noteq> ''microsoft.operationalinsights/workspaces/read''"
    by auto
  from grants show False
    unfolding roleGrants_def Let_def
    by (simp only: none dedicated no_query not_read not_ws if_True if_False simp_thms if_cancel)
qed

theorem dedicated_action_needs_data_role_witness:
  "\<exists>g \<in> set data_role_guids. roleHasGUID (to_lower (trim_space RoleStorageBlobDataReader)) g"
proof (rule dedicated_action_needs_data_role)
  let ?act = "''Microsoft.Storage/storageAccounts/blobServices/containers/blobs/read''"
  show "roleGrants RoleStorageBlobDataReader ?act" by code_simp
  show "isDedicatedDataPlaneAction (to_lower (trim_space ?act))" by code_simp
  show "\<not> isWorkspaceQueryAction (to_lower (trim_space ?act))" by code_simp
qed

text \<open>
  The comment on \<open>RoleKeyVaultAdministrator\<close> names data-plane administration; its arm tests
  for the provider prefix alone, so the role grants control-plane actions on vaults as well.
\<close>

lemma key_vault_administrator_writes_vaults:
  "roleGrants RoleKeyVaultAdministrator ''Microsoft.KeyVault/vaults/write''"
  "\<not> isKeyVaultDataPlaneAction (to_lower ''Microsoft.KeyVault/vaults/write'')"
  by code_simp+

end
