(* ===== verification/Rbac_Eval.thy ===== *)
theory Rbac_Eval
  imports Role_Catalogue
begin

text \<open>
  The RBAC evaluator of \<open>internal/kernel/authz/rbac.go\<close>: role assignments, the chain of
  scopes an assignment is inherited along, principal aliases and the bounded expansion of
  nested groups. The store behind the evaluator is a record of the three Go interfaces
  \<open>AssignmentStore\<close>, \<open>GroupMembershipStore\<close> and \<open>PrincipalAliasStore\<close>; the last two are
  found by type assertion, hence optional.
\<close>

section \<open>Data\<close>

record assignment =
  asg_ID :: string
  asg_Scope :: string
  asg_RoleDefinitionID :: string
  asg_PrincipalID :: string
  asg_PrincipalType :: string

record rbac_store =
  ListRoleAssignmentsForScope :: "string \<Rightarrow> assignment list result"
  ListGroupMembers :: "(string \<Rightarrow> (string list \<times> string list) result) option"
  ListPrincipalAliases :: "(string \<Rightarrow> string list result) option"

text \<open>
  An evaluator holds its store; \<open>None\<close> is a nil evaluator or one whose \<open>Assignments\<close> are nil,
  which the code treats alike.
\<close>

record evaluator =
  Assignments :: "rbac_store option"

definition groupExpandMaxDepth :: nat where
  "groupExpandMaxDepth = 8"

section \<open>Operations\<close>

definition scopeChain :: "string \<Rightarrow> string list" where
  "scopeChain scope =
    (let parts = split_on CHR ''/'' (trim_char CHR ''/'' scope) in
     scope # filter (\<lambda>parent. parent \<noteq> scope)
       (map (\<lambda>i. ''/'' @ join ''/'' (take i parts)) (rev [1..<length parts])))"

definition idSetsOverlap :: "string list \<Rightarrow> string list \<Rightarrow> bool" where
  "idSetsOverlap a b = (if a = [] \<or> b = [] then False else list_ex (\<lambda>i. i \<in> set a) b)"

text \<open>The loop of \<open>principalIDs\<close>: the aliases, trimmed, without blanks and duplicates.\<close>

fun add_aliases :: "string list \<Rightarrow> string list \<Rightarrow> string list" where
  "add_aliases out [] = out"
| "add_aliases out (a # extra) =
     (let a' = trim_space a in
      if a' = [] \<or> a' \<in> set out then add_aliases out extra
      else add_aliases (out @ [a']) extra)"

definition principalIDs :: "rbac_store \<Rightarrow> string \<Rightarrow> string list result" where
  "principalIDs st i =
    (let i' = trim_space i in
     if i' = [] then Inr []
     else (case ListPrincipalAliases st of
         None \<Rightarrow> Inr [i']
       | Some aliases \<Rightarrow> (case aliases i' of
             Inl err \<Rightarrow> Inl err
           | Inr extra \<Rightarrow> Inr (add_aliases [i'] extra))))"

text \<open>
  \<open>groupContains\<close> with its \<open>seen\<close> map threaded through. The second argument is
  \<open>groupExpandMaxDepth\<close> less the code's \<open>depth\<close>. The member types are padded with the empty
  string, as the code reads \<open>types[i]\<close> only where it exists.
\<close>

fun pad_types :: "string list \<Rightarrow> string list \<Rightarrow> (string \<times> string) list" where
  "pad_types [] types = []"
| "pad_types (i # ids) [] = (i, []) # pad_types ids []"
| "pad_types (i # ids) (t # types) = (i, to_lower (trim_space t)) # pad_types ids types"

function (sequential)
  groupContains :: "rbac_store \<Rightarrow> nat \<Rightarrow> (string \<Rightarrow> (string list \<times> string list) result) \<Rightarrow> string list \<Rightarrow>
    string \<Rightarrow> string list \<Rightarrow> (bool \<times> string list) result"
  and groupMembersContain :: "rbac_store \<Rightarrow> nat \<Rightarrow> (string \<Rightarrow> (string list \<times> string list) result) \<Rightarrow>
    string list \<Rightarrow> (string \<times> string) list \<Rightarrow> string list \<Rightarrow> (bool \<times> string list) result"
where
  "groupContains st 0 gm callerIDs groupID seen = Inr (False, seen)"
| "groupContains st (Suc n) gm callerIDs groupID seen =
    (if groupID = [] \<or> callerIDs = [] then Inr (False, seen)
     else if groupID \<in> set seen then Inr (False, seen)
     else (case gm groupID of
         Inl err \<Rightarrow> Inl err
       | Inr (ids, types) \<Rightarrow>
           groupMembersContain st n gm callerIDs (pad_types ids types) (groupID # seen)))"
| "groupMembersContain st n gm callerIDs [] seen = Inr (False, seen)"
| "groupMembersContain st n gm callerIDs ((i, typ) # ms) seen =
    (case principalIDs st i of
       Inl err \<Rightarrow> Inl err
     | Inr memberIDs \<Rightarrow>
         if idSetsOverlap callerIDs memberIDs then Inr (True, seen)
         else if typ = ''group'' then
           (case groupContains st n gm callerIDs i seen of
              Inl err \<Rightarrow> Inl err
            | Inr (True, seen') \<Rightarrow> Inr (True, seen')
            | Inr (False, seen') \<Rightarrow> groupMembersContain st n gm callerIDs ms seen')
         else groupMembersContain st n gm callerIDs ms seen)"
  by pat_completeness auto

termination
  by (relation "measures [
      \<lambda>x. case x of Inl (st, n, _) \<Rightarrow> n | Inr (st, n, _) \<Rightarrow> n,
      \<lambda>x. case x of Inl _ \<Rightarrow> 0 | Inr (st, n, gm, cs, ms, _) \<Rightarrow> length ms]") auto

definition principalMatches :: "rbac_store \<Rightarrow> assignment \<Rightarrow> string \<Rightarrow> bool result" where
  "principalMatches st a principalID =
    (if trim_space (asg_PrincipalID a) \<noteq> [] \<and> asg_PrincipalID a = principalID then Inr True
     else (case principalIDs st principalID of
         Inl err \<Rightarrow> Inl err
       | Inr callerIDs \<Rightarrow> (case principalIDs st (asg_PrincipalID a) of
           Inl err \<Rightarrow> Inl err
         | Inr assignIDs \<Rightarrow>
             if idSetsOverlap callerIDs assignIDs then Inr True
             else
               (let pt = to_lower (trim_space (asg_PrincipalType a)) in
                if pt \<noteq> [] \<and> pt \<noteq> ''group'' then Inr False
                else (case ListGroupMembers st of
                    None \<Rightarrow> Inr False
                  | Some gm \<Rightarrow> map_sum id fst
                      (groupContains st groupExpandMaxDepth gm callerIDs (asg_PrincipalID a) []))))))"

fun evaluate_assignments :: "rbac_store \<Rightarrow> string \<Rightarrow> string \<Rightarrow> assignment list \<Rightarrow> bool result" where
  "evaluate_assignments st principalID action [] = Inr False"
| "evaluate_assignments st principalID action (a # as) =
    (case principalMatches st a principalID of
       Inl err \<Rightarrow> Inl err
     | Inr ok \<Rightarrow>
         if ok \<and> roleGrants (asg_RoleDefinitionID a) action then Inr True
         else evaluate_assignments st principalID action as)"

fun evaluate_scopes :: "rbac_store \<Rightarrow> string \<Rightarrow> string \<Rightarrow> string list \<Rightarrow> bool result" where
  "evaluate_scopes st principalID action [] = Inr False"
| "evaluate_scopes st principalID action (sc # scs) =
    (case ListRoleAssignmentsForScope st sc of
       Inl err \<Rightarrow> Inl err
     | Inr as \<Rightarrow> (case evaluate_assignments st principalID action as of
           Inl err \<Rightarrow> Inl err
         | Inr True \<Rightarrow> Inr True
         | Inr False \<Rightarrow> evaluate_scopes st principalID action scs))"

definition Evaluate :: "evaluator \<Rightarrow> string \<Rightarrow> bool \<Rightarrow> string \<Rightarrow> string \<Rightarrow> bool result" where
  "Evaluate e principalID isRoot action scope =
    (if isRoot then Inr True
     else (case Assignments e of
         None \<Rightarrow> Inr False
       | Some st \<Rightarrow>
           if principalID = [] \<or> action = [] \<or> scope = [] then Inr False
           else evaluate_scopes st principalID action (scopeChain scope)))"

section \<open>The chain of scopes\<close>












text \<open>
  A lab directory: the group \<open>top\<close> holds the given members, a chain of groups leads from \<open>c1\<close>
  over \<open>c6\<close> to \<open>a\<close>, and \<open>a\<close> holds the group \<open>b\<close> of alice. Reader on the lab subscription is
  assigned to \<open>top\<close>.
\<close>

definition nested_directory :: "string list \<Rightarrow> rbac_store" where
  "nested_directory members =
    \<lparr>ListRoleAssignmentsForScope = (\<lambda>sc.
       Inr (if sc = ''/subscriptions/lab'' then
         [\<lparr>asg_ID = ''ra1'', asg_Scope = sc, asg_RoleDefinitionID = RoleReader,
           asg_PrincipalID = ''top'', asg_PrincipalType = ''Group''\<rparr>] else [])),
     ListGroupMembers = Some (\<lambda>g. Inr
       (case map_of [(''top'', members), (''c1'', [''c2'']), (''c2'', [''c3'']), (''c3'', [''c4'']),
          (''c4'', [''c5'']), (''c5'', [''c6'']), (''c6'', [''a'']), (''a'', [''b'']),
          (''b'', [''alice''])] g of None \<Rightarrow> ([], [])
        | Some ms \<Rightarrow> (ms, map (\<lambda>m. if m = ''alice'' then ''User'' else ''Group'') ms))),
     ListPrincipalAliases = None\<rparr>"


section \<open>The decision of the evaluator\<close>

definition granted_by :: "rbac_store \<Rightarrow> string \<Rightarrow> string \<Rightarrow> assignment \<Rightarrow> bool" where
  "granted_by st principalID action a \<longleftrightarrow>
     principalMatches st a principalID = Inr True \<and> roleGrants (asg_RoleDefinitionID a) action"

definition granted_on :: "rbac_store \<Rightarrow> string \<Rightarrow> string \<Rightarrow> string \<Rightarrow> bool" where
  "granted_on st principalID action scope \<longleftrightarrow>
     (\<exists>sc \<in> set (scopeChain scope). \<exists>as. ListRoleAssignmentsForScope st sc = Inr as \<and>
        (\<exists>a \<in> set as. granted_by st principalID action a))"

lemma granted_on_code [code]:
  "granted_on st principalID action scope \<longleftrightarrow>
     list_ex (\<lambda>sc. case ListRoleAssignmentsForScope st sc of Inl err \<Rightarrow> False
       | Inr as \<Rightarrow> list_ex (granted_by st principalID action) as) (scopeChain scope)"
  unfolding granted_on_def list_ex_iff
  by (intro bex_cong refl) (simp split: sum.split)

lemma evaluate_assignments_True:
  "evaluate_assignments st p act as = Inr True \<Longrightarrow> \<exists>a \<in> set as. granted_by st p act a"
  by (induction as) (auto simp: granted_by_def split: sum.splits if_splits)

lemma evaluate_assignments_False:
  "evaluate_assignments st p act as = Inr False \<Longrightarrow> \<not> (\<exists>a \<in> set as. granted_by st p act a)"
  by (induction as) (auto simp: granted_by_def split: sum.splits if_splits)

lemma evaluate_scopes_True:
  "evaluate_scopes st p act scs = Inr True \<Longrightarrow>
    \<exists>sc \<in> set scs. \<exists>as. ListRoleAssignmentsForScope st sc = Inr as \<and>
      (\<exists>a \<in> set as. granted_by st p act a)"
  by (induction scs)
    (auto split: sum.splits bool.splits dest: evaluate_assignments_True)

lemma evaluate_scopes_False:
  "evaluate_scopes st p act scs = Inr False \<Longrightarrow>
    \<not> (\<exists>sc \<in> set scs. \<exists>as. ListRoleAssignmentsForScope st sc = Inr as \<and>
      (\<exists>a \<in> set as. granted_by st p act a))"
  by (induction scs)
    (auto split: sum.splits bool.splits dest: evaluate_assignments_False)

text \<open>
  C1: a decision is deny by default and never a guess: whenever the evaluator decides, it
  allows exactly the root principal and the principals for whom some assignment listed at the
  scope or one of its ancestors matches the principal and has a role that grants the action.
\<close>

theorem evaluate_decides:
  assumes "Evaluate \<lparr>Assignments = Some st\<rparr> p isRoot action scope = Inr decision"
  shows "decision \<longleftrightarrow>
    isRoot \<or> (p \<noteq> [] \<and> action \<noteq> [] \<and> scope \<noteq> [] \<and> granted_on st p action scope)"
proof (cases "isRoot \<or> p = [] \<or> action = [] \<or> scope = []")
  case True
  with assms show ?thesis by (auto simp: Evaluate_def split: if_splits)
next
  case False
  with assms have "evaluate_scopes st p action (scopeChain scope) = Inr decision"
    by (simp add: Evaluate_def)
  with False show ?thesis
    by (cases decision) (auto simp: granted_on_def dest: evaluate_scopes_True evaluate_scopes_False)
qed

theorem evaluate_decides_witness:
  "granted_on (nested_directory [''a'', ''c1'']) ''alice'' ''Microsoft.Web/sites/read''
     ''/subscriptions/lab''"
  using evaluate_decides [of "nested_directory [''a'', ''c1'']" "''alice''" False
      "''Microsoft.Web/sites/read''" "''/subscriptions/lab''" True]
  by code_simp

text \<open>A store none of whose queries fails.\<close>

definition total_on :: "('a \<Rightarrow> 'b result) \<Rightarrow> bool" where
  "total_on f \<longleftrightarrow> (\<forall>x. \<exists>y. f x = Inr y)"

definition error_free :: "rbac_store \<Rightarrow> bool" where
  "error_free st \<longleftrightarrow> total_on (ListRoleAssignmentsForScope st) \<and>
     pred_option total_on (ListGroupMembers st) \<and> pred_option total_on (ListPrincipalAliases st)"

lemma total_on_cases: "total_on f \<Longrightarrow> (\<And>y. f x = Inr y \<Longrightarrow> P) \<Longrightarrow> P"
  by (auto simp: total_on_def)

lemma principalIDs_total: "pred_option total_on (ListPrincipalAliases st) \<Longrightarrow> \<exists>ids. principalIDs st i = Inr ids"
  by (cases "ListPrincipalAliases st")
    (auto simp: principalIDs_def Let_def elim: total_on_cases[where x = "trim_space i"])

lemma groupContains_total:
  "pred_option total_on (ListPrincipalAliases st) \<Longrightarrow> total_on gm \<Longrightarrow>
    \<exists>r. groupContains st n gm callers g seen = Inr r"
  "pred_option total_on (ListPrincipalAliases st) \<Longrightarrow> total_on gm \<Longrightarrow>
    \<exists>r. groupMembersContain st n gm callers ms seen = Inr r"
proof (induction st n gm callers g seen and st n gm callers ms seen
    rule: groupContains_groupMembersContain.induct)
  case (2 st n gm callers g seen)
  then show ?case
    by (auto elim: total_on_cases [where x = "g"])
next
  case (4 st n gm callers i ty ms seen)
  then obtain ids where "principalIDs st i = Inr ids"
    using principalIDs_total by blast
  with 4 show ?case
    by (fastforce split: sum.split bool.split)
qed auto

lemma principalMatches_total:
  assumes "error_free st"
  shows "\<exists>b. principalMatches st a p = Inr b"
proof -
  from assms have al: "pred_option total_on (ListPrincipalAliases st)"
    by (simp add: error_free_def)
  obtain xs ys where "principalIDs st p = Inr xs" "principalIDs st (asg_PrincipalID a) = Inr ys"
    using principalIDs_total[OF al] by metis
  note ids = this
  show ?thesis
  proof (cases "ListGroupMembers st")
    case None
    then show ?thesis by (auto simp: principalMatches_def Let_def ids split: if_splits)
  next
    case (Some gm)
    with assms have "total_on gm" by (simp add: error_free_def)
    from groupContains_total(1)[OF al this, of groupExpandMaxDepth xs "asg_PrincipalID a" "[]"]
    obtain r where
      "groupContains st groupExpandMaxDepth gm xs (asg_PrincipalID a) [] = Inr r" ..
    then show ?thesis by (auto simp: principalMatches_def Let_def ids Some split: if_splits)
  qed
qed

lemma evaluate_assignments_total:
  "error_free st \<Longrightarrow> \<exists>b. evaluate_assignments st p act as = Inr b"
proof (induction as)
  case (Cons a as)
  then show ?case using principalMatches_total[of st a p] by auto
qed auto

lemma evaluate_scopes_total:
  "error_free st \<Longrightarrow> \<exists>b. evaluate_scopes st p act scs = Inr b"
proof (induction scs)
  case (Cons sc scs)
  then have "total_on (ListRoleAssignmentsForScope st)" by (simp add: error_free_def)
  then obtain as where "ListRoleAssignmentsForScope st sc = Inr as" by (elim total_on_cases)
  with Cons evaluate_assignments_total[of st p act as] show ?case
    by (fastforce split: bool.split)
qed auto

text \<open>
  With a store that answers every query the evaluator always decides, and it allows a
  principal exactly when an assignment along the scope chain grants the action.
\<close>

theorem evaluate_error_free:
  assumes "error_free st" "p \<noteq> []" "action \<noteq> []" "scope \<noteq> []"
  shows "Evaluate \<lparr>Assignments = Some st\<rparr> p False action scope =
    Inr (granted_on st p action scope)"
proof -
  obtain b where "evaluate_scopes st p action (scopeChain scope) = Inr b"
    using evaluate_scopes_total[OF assms(1)] by blast
  with assms(2-4) have "Evaluate \<lparr>Assignments = Some st\<rparr> p False action scope = Inr b"
    by (simp add: Evaluate_def)
  with evaluate_decides[OF this] assms(2-4) show ?thesis by simp
qed

lemma nested_directory_error_free: "error_free (nested_directory members)"
  by (simp add: error_free_def total_on_def nested_directory_def)

theorem evaluate_error_free_witness:
  "Evaluate \<lparr>Assignments = Some (nested_directory [])\<rparr> ''alice'' False
     ''Microsoft.Web/sites/read'' ''/subscriptions/lab'' =
   Inr (granted_on (nested_directory []) ''alice'' ''Microsoft.Web/sites/read''
     ''/subscriptions/lab'')"
  by (rule evaluate_error_free) (simp_all add: nested_directory_error_free)

section \<open>Nested groups\<close>

inductive in_group :: "(string \<Rightarrow> (string list \<times> string list) result) \<Rightarrow> string \<Rightarrow> string \<Rightarrow> nat \<Rightarrow> bool"
  for gm where
  direct: "gm g = Inr (ids, types) \<Longrightarrow> (i, t) \<in> set (pad_types ids types) \<Longrightarrow> in_group gm g i 1"
| nested: "gm g = Inr (ids, types) \<Longrightarrow> (h, ''group'') \<in> set (pad_types ids types) \<Longrightarrow>
    in_group gm h i n \<Longrightarrow> in_group gm g i (Suc n)"

definition is_caller :: "rbac_store \<Rightarrow> string list \<Rightarrow> string \<Rightarrow> bool" where
  "is_caller st callers i \<longleftrightarrow> (\<exists>mids. principalIDs st i = Inr mids \<and> idSetsOverlap callers mids)"

lemma groupContains_True:
  "groupContains st n gm callers g seen = Inr (True, seen') \<Longrightarrow>
    \<exists>i k. in_group gm g i k \<and> k \<le> n \<and> is_caller st callers i"
  "groupMembersContain st n gm callers ms seen = Inr (True, seen') \<Longrightarrow>
    \<exists>(i, t) \<in> set ms. is_caller st callers i \<or>
      t = ''group'' \<and> (\<exists>j k. in_group gm i j k \<and> k \<le> n \<and> is_caller st callers j)"
proof (induction st n gm callers g seen and st n gm callers ms seen
    arbitrary: seen' and seen' rule: groupContains_groupMembersContain.induct)
  case (2 st n gm callers g seen)
  then obtain ids types where
    members: "gm g = Inr (ids, types)" and
    found: "\<exists>(i, t) \<in> set (pad_types ids types). is_caller st callers i \<or>
      t = ''group'' \<and> (\<exists>j k. in_group gm i j k \<and> k \<le> n \<and> is_caller st callers j)"
    by (fastforce split: if_splits sum.splits)
  from found consider (here) i t where "(i, t) \<in> set (pad_types ids types)" "is_caller st callers i"
    | (below) h j k where "(h, ''group'') \<in> set (pad_types ids types)" "in_group gm h j k" "k \<le> n"
        "is_caller st callers j"
    by blast
  then show ?case
  proof cases
    case here
    with members have "in_group gm g i 1" by (blast intro: direct)
    with here show ?thesis by force
  next
    case below
    with members have "in_group gm g j (Suc k)" by (blast intro: nested)
    with below show ?thesis by force
  qed
next
  case (4 st n gm callers i ty ms seen)
  show ?case
  proof (cases "principalIDs st i")
    case (Inr mids)
    show ?thesis
    proof (cases "idSetsOverlap callers mids")
      case True
      with Inr show ?thesis by (auto simp: is_caller_def)
    next
      case False
      note 4 = 4[simplified Inr False, simplified]
      from 4 Inr False show ?thesis
        by (fastforce split: if_splits sum.splits bool.splits prod.splits)
    qed
  qed (use 4 in simp)
qed auto

definition no_member_is_caller :: "rbac_store \<Rightarrow> (string \<Rightarrow> (string list \<times> string list) result) \<Rightarrow>
    string list \<Rightarrow> string \<Rightarrow> bool" where
  "no_member_is_caller st gm callers g \<longleftrightarrow> (\<forall>i. in_group gm g i 1 \<longrightarrow> \<not> is_caller st callers i)"

lemma in_group_pos: "in_group gm g i n \<Longrightarrow> 0 < n"
  by (induction rule: in_group.induct) auto

lemma in_group_1: "in_group gm g i (Suc 0) \<longleftrightarrow>
    (\<exists>ids types t. gm g = Inr (ids, types) \<and> (i, t) \<in> set (pad_types ids types))"
  by (auto intro: direct[simplified] elim!: in_group.cases dest: in_group_pos)

lemma groupContains_False:
  "groupContains st n gm callers g seen = Inr (False, seen') \<Longrightarrow>
    set seen \<subseteq> set seen' \<and> (\<forall>h \<in> set seen' - set seen. no_member_is_caller st gm callers h) \<and>
    (0 < n \<and> g \<noteq> [] \<and> callers \<noteq> [] \<longrightarrow> g \<in> set seen')"
  "groupMembersContain st n gm callers ms seen = Inr (False, seen') \<Longrightarrow>
    set seen \<subseteq> set seen' \<and> (\<forall>h \<in> set seen' - set seen. no_member_is_caller st gm callers h) \<and>
    (\<forall>(i, t) \<in> set ms. \<not> is_caller st callers i \<and>
       (t = ''group'' \<and> 0 < n \<and> i \<noteq> [] \<and> callers \<noteq> [] \<longrightarrow> i \<in> set seen'))"
proof (induction st n gm callers g seen and st n gm callers ms seen
    arbitrary: seen' and seen' rule: groupContains_groupMembersContain.induct)
  case (2 st n gm callers g seen)
  show ?case
  proof (cases "g = [] \<or> callers = [] \<or> g \<in> set seen")
    case True
    with 2(2) have "seen' = seen" by (simp split: if_splits)
    with True show ?thesis by auto
  next
    case False
    with 2 obtain ids types where
      members: "gm g = Inr (ids, types)" and
      loop: "groupMembersContain st n gm callers (pad_types ids types) (g # seen) = Inr (False, seen')"
      by (auto split: sum.splits)
    from False have "\<not> (g = [] \<or> callers = [])" "g \<notin> set seen" by auto
    note hyp = 2(1)[OF this members refl loop]
    from hyp members have "no_member_is_caller st gm callers g"
      by (auto simp: no_member_is_caller_def in_group_1)
    with hyp have "\<forall>h \<in> set seen' - set seen. no_member_is_caller st gm callers h"
      by (metis DiffE DiffI set_ConsD)
    with hyp show ?thesis by simp
  qed
next
  case (4 st n gm callers i ty ms seen)
  show ?case
  proof (cases "principalIDs st i")
    case (Inr mids)
    with 4 have no: "\<not> idSetsOverlap callers mids" by auto
    then have "\<not> is_caller st callers i" using Inr by (simp add: is_caller_def)
    show ?thesis
    proof (cases "ty = ''group''")
      case True
      with 4(4) Inr no obtain s where
        inner: "groupContains st n gm callers i seen = Inr (False, s)" and
        rest: "groupMembersContain st n gm callers ms s = Inr (False, seen')"
        by (auto split: sum.splits bool.splits)
      note hyps = 4(1)[OF Inr no True inner] 4(2)[OF Inr no True inner refl refl rest]
      have "\<forall>h \<in> set seen' - set seen. no_member_is_caller st gm callers h"
        using hyps by blast
      moreover have "set seen \<subseteq> set seen'" using hyps by blast
      moreover have "\<not> is_caller st callers i \<and>
          (ty = ''group'' \<and> 0 < n \<and> i \<noteq> [] \<and> callers \<noteq> [] \<longrightarrow> i \<in> set seen')"
        using hyps \<open>\<not> is_caller st callers i\<close> by blast
      moreover note conjunct2[OF conjunct2[OF hyps(2)]]
      ultimately show ?thesis
        unfolding list.set ball_simps prod.case by (elim conjE, intro conjI) assumption+
    next
      case False
      with 4(4) Inr no have "groupMembersContain st n gm callers ms seen = Inr (False, seen')"
        by simp
      from 4(3)[OF Inr no False this] \<open>\<not> is_caller st callers i\<close> False
      show ?thesis by simp
    qed
  qed (use 4 in simp)
qed auto

text \<open>
  Group expansion invents no membership: a caller it finds in a group is reached from this
  group through at most eight levels of nested groups.
\<close>

theorem group_expansion_sound:
  assumes "groupContains st groupExpandMaxDepth gm callers g [] = Inr (True, seen')"
  shows "\<exists>i k. in_group gm g i k \<and> k \<le> 8 \<and> is_caller st callers i"
  using groupContains_True(1)[OF assms] by (simp add: groupExpandMaxDepth_def)

theorem group_expansion_sound_witness:
  "\<exists>i k. in_group (the (ListGroupMembers (nested_directory [''a'', ''c1'']))) ''top'' i k \<and> k \<le> 8 \<and>
     is_caller (nested_directory [''a'', ''c1'']) [''alice''] i"
proof (rule group_expansion_sound)
  show "groupContains (nested_directory [''a'', ''c1'']) groupExpandMaxDepth
      (the (ListGroupMembers (nested_directory [''a'', ''c1'']))) [''alice''] ''top'' [] =
      Inr (True, [''b'', ''a'', ''top''])"
    by code_simp
qed

text \<open>
  Group expansion never misses a caller who is a direct member of the group or of a group
  directly in it, whatever else the directory holds and in whichever order it lists members.
\<close>

theorem group_expansion_finds_shallow:
  assumes result: "groupContains st groupExpandMaxDepth gm callers g [] = Inr (b, seen')"
    and "g \<noteq> []" "callers \<noteq> []"
    and member: "in_group gm g i k" "k \<le> 2" "is_caller st callers i"
    and named: "\<forall>h. in_group gm g h 1 \<longrightarrow> h \<noteq> []"
  shows "b"
proof (rule ccontr)
  assume "\<not> b"
  with result have no: "groupContains st (Suc 7) gm callers g [] = Inr (False, seen')"
    by (simp add: groupExpandMaxDepth_def eval_nat_numeral)
  from groupContains_False(1)[OF no] assms(2,3)
  have g: "no_member_is_caller st gm callers g"
    and seen: "\<And>h. h \<in> set seen' \<Longrightarrow> no_member_is_caller st gm callers h" by auto
  from no[unfolded groupContains.simps] assms(2,3) obtain ids types where
    members: "gm g = Inr (ids, types)" and
    loop: "groupMembersContain st 7 gm callers (pad_types ids types) [g] = Inr (False, seen')"
    by (auto split: sum.splits)
  from member show False
  proof cases
    case direct
    then have "in_group gm g i 1" by (metis in_group.direct)
    with g member(3) show False by (simp add: no_member_is_caller_def)
  next
    case (nested ids' types' h n)
    with member(2) in_group_pos[OF nested(4)] have "n = 1" by linarith
    from nested(2,3) have "in_group gm g h 1" by (rule in_group.direct)
    with named have "h \<noteq> []" by simp
    with groupContains_False(2)[OF loop] nested(2,3) members assms(3) have "h \<in> set seen'"
      by auto
    from seen[OF this] nested(4) \<open>n = 1\<close> member(3) show False
      by (simp add: no_member_is_caller_def)
  qed
qed

theorem group_expansion_finds_shallow_witness:
  "fst (projr (groupContains (nested_directory [''c1'', ''b'']) groupExpandMaxDepth
     (the (ListGroupMembers (nested_directory [''c1'', ''b'']))) [''alice''] ''top'' []))"
proof -
  let ?st = "nested_directory [''c1'', ''b'']"
  let ?gm = "the (ListGroupMembers ?st)"
  obtain b s where r:
    "groupContains ?st groupExpandMaxDepth ?gm [''alice''] ''top'' [] = Inr (b, s)"
    by code_simp blast
  have "in_group ?gm ''b'' ''alice'' 1"
    by (simp add: in_group_1 nested_directory_def)
  then have "in_group ?gm ''top'' ''alice'' (Suc 1)"
    by (rule in_group.nested[of _ _ "[''c1'', ''b'']" "[''Group'', ''Group'']", rotated 2])
      (simp_all add: nested_directory_def to_lower_def trim_space_def)
  moreover have "is_caller ?st [''alice''] ''alice''"
    by (simp add: is_caller_def principalIDs_def nested_directory_def trim_space_def
        idSetsOverlap_def)
  moreover have "\<forall>h. in_group ?gm ''top'' h 1 \<longrightarrow> h \<noteq> []"
    by (auto simp: in_group_1 nested_directory_def)
  ultimately have b by (intro group_expansion_finds_shallow[OF r, where i = "''alice''" and k = 2])
      (simp_all add: numeral_2_eq_2)
  with r show ?thesis by simp
qed

text \<open>
  Beyond that depth the answer depends on the order in which the directory lists members.
  Both directories put alice into \<open>top\<close> over \<open>a\<close> and \<open>b\<close>; listing the chain first visits \<open>a\<close> at
  the deepest level, marks it as seen and never expands it again, so alice is denied.
\<close>

theorem group_expansion_order_dependent:
  "Evaluate \<lparr>Assignments = Some (nested_directory [''a'', ''c1''])\<rparr> ''alice'' False
     ''Microsoft.Network/virtualNetworks/read'' ''/subscriptions/lab/resourceGroups/rg'' = Inr True \<and>
   Evaluate \<lparr>Assignments = Some (nested_directory [''c1'', ''a''])\<rparr> ''alice'' False
     ''Microsoft.Network/virtualNetworks/read'' ''/subscriptions/lab/resourceGroups/rg'' = Inr False"
  by code_simp


section \<open>The interface to the store\<close>

lemma principalIDs_cong:
  "ListPrincipalAliases st = ListPrincipalAliases st' \<Longrightarrow> principalIDs st = principalIDs st'"
  by (simp add: principalIDs_def fun_eq_iff Let_def)

lemma groupContains_cong:
  "ListPrincipalAliases st = ListPrincipalAliases st' \<Longrightarrow>
    groupContains st n gm callers g seen = groupContains st' n gm callers g seen"
  "ListPrincipalAliases st = ListPrincipalAliases st' \<Longrightarrow>
    groupMembersContain st n gm callers ms seen = groupMembersContain st' n gm callers ms seen"
proof (induction st n gm callers g seen and st n gm callers ms seen
    rule: groupContains_groupMembersContain.induct)
  case (4 st n gm callers i ty ms seen)
  then show ?case
    by (auto simp: principalIDs_cong[of st st'] split: sum.splits bool.splits)
qed (auto split: sum.split)

lemma principalMatches_cong:
  assumes "ListPrincipalAliases st = ListPrincipalAliases st'"
    and "ListGroupMembers st = ListGroupMembers st'"
  shows "principalMatches st = principalMatches st'"
  using assms groupContains_cong(1)[OF assms(1)]
  by (auto simp: fun_eq_iff principalMatches_def principalIDs_cong[OF assms(1)] Let_def
      split: sum.split option.split)

text \<open>
  What the evaluator relies on when assignments come from a store: a healthy store answers
  every query, a created assignment is listed for its scope, and deleting an id removes the
  assignments of this id from every listing and changes nothing else.
\<close>

locale role_assignment_store =
  fixes view :: "'s \<Rightarrow> rbac_store"
    and put :: "'s \<Rightarrow> assignment \<Rightarrow> 's"
    and del :: "'s \<Rightarrow> string \<Rightarrow> 's"
    and healthy :: "'s \<Rightarrow> bool"
  assumes healthy_view: "healthy s \<Longrightarrow> error_free (view s)"
    and healthy_put: "healthy s \<Longrightarrow> healthy (put s a)"
    and healthy_del: "healthy s \<Longrightarrow> healthy (del s i)"
    and list_put: "healthy s \<Longrightarrow>
      \<exists>as b. ListRoleAssignmentsForScope (view (put s a)) (asg_Scope a) = Inr as \<and> b \<in> set as \<and>
        asg_PrincipalID b = asg_PrincipalID a \<and> asg_RoleDefinitionID b = asg_RoleDefinitionID a"
    and list_del: "healthy s \<Longrightarrow> ListRoleAssignmentsForScope (view s) sc = Inr as \<Longrightarrow>
      ListRoleAssignmentsForScope (view (del s i)) sc = Inr (filter (\<lambda>a. asg_ID a \<noteq> i) as)"
    and members_del: "ListGroupMembers (view (del s i)) = ListGroupMembers (view s)"
    and aliases_del: "ListPrincipalAliases (view (del s i)) = ListPrincipalAliases (view s)"
begin

lemma created_assignment_grants:
  assumes "healthy s" "asg_PrincipalID a = p" "trim_space p \<noteq> []"
    and "roleGrants (asg_RoleDefinitionID a) action" "action \<noteq> []"
    and "asg_Scope a \<in> set (scopeChain scope)" "scope \<noteq> []"
  shows "Evaluate \<lparr>Assignments = Some (view (put s a))\<rparr> p False action scope = Inr True"
proof -
  from assms(3) have "p \<noteq> []" by auto
  obtain as b where as: "ListRoleAssignmentsForScope (view (put s a)) (asg_Scope a) = Inr as" "b \<in> set as"
    and b: "asg_PrincipalID b = asg_PrincipalID a" "asg_RoleDefinitionID b = asg_RoleDefinitionID a"
    using list_put[OF assms(1)] by blast
  have "granted_by (view (put s a)) p action b"
    using assms(2-4) by (simp add: granted_by_def principalMatches_def b)
  with as assms(6) have "granted_on (view (put s a)) p action scope"
    by (auto simp: granted_on_def)
  with evaluate_error_free[OF healthy_view[OF healthy_put[OF assms(1)]] \<open>p \<noteq> []\<close> assms(5,7)]
  show ?thesis by simp
qed

lemma deleted_assignment_revokes:
  assumes "healthy s"
    and others: "\<And>sc as a. sc \<in> set (scopeChain scope) \<Longrightarrow>
      ListRoleAssignmentsForScope (view s) sc = Inr as \<Longrightarrow> a \<in> set as \<Longrightarrow> asg_ID a \<noteq> i \<Longrightarrow>
      \<not> granted_by (view s) p action a"
  shows "Evaluate \<lparr>Assignments = Some (view (del s i))\<rparr> p False action scope = Inr False"
proof (cases "p = [] \<or> action = [] \<or> scope = []")
  case False
  have "\<not> granted_on (view (del s i)) p action scope"
  proof
    assume "granted_on (view (del s i)) p action scope"
    then obtain sc as a where
      sc: "sc \<in> set (scopeChain scope)" and
      as: "ListRoleAssignmentsForScope (view (del s i)) sc = Inr as" "a \<in> set as" and
      g: "granted_by (view (del s i)) p action a"
      by (auto simp: granted_on_def)
    from healthy_view[OF assms(1)] obtain as0 where
      as0: "ListRoleAssignmentsForScope (view s) sc = Inr as0"
      by (auto simp: error_free_def elim: total_on_cases)
    from list_del[OF assms(1) as0] as have "a \<in> set as0" "asg_ID a \<noteq> i" by auto
    moreover from g have "granted_by (view s) p action a"
      by (simp add: granted_by_def principalMatches_cong[OF aliases_del members_del])
    ultimately show False using others[OF sc as0] by blast
  qed
  with False evaluate_error_free[OF healthy_view[OF healthy_del[OF assms(1)]]] show ?thesis by simp
qed (auto simp: Evaluate_def)

end

section \<open>The expansion of groups ends\<close>






end
