(* ===== verification/Store_State.thy ===== *)
theory Store_State
  imports Store_Rows Rbac_Eval
begin

text \<open>
  The state of the store (\<open>internal/store\<close>) and how statements fail. A broken or closed
  database makes every statement return its error and change nothing; \<open>db_fault\<close> holds this error.
\<close>

section \<open>The database\<close>

record store =
  db_fault :: "string option"
  tb_provider :: "ProviderResource list"
  tb_role_assignments :: "assignment list"
  tb_subscriptions :: "subscription_row list"
  tb_resource_groups :: "resource_group_row list"
  tb_group_members :: "group_member_row list"
  tb_service_principals :: "DirectoryServicePrincipal list"
  tb_entra_apps :: "EntraApp list"
  tb_access_tokens :: "access_token_row list"
  tb_activity_log :: "activity_row list"
  tb_storage_accounts :: "account_row list"
  tb_blob_containers :: "(string \<times> string) list"
  tb_blobs :: "blob_row list"
  tb_storage_queues :: "(string \<times> string) list"
  tb_queue_messages :: "queue_message seq_table"
  tb_keyvaults :: "account_row list"
  tb_secrets :: "secret_row list"
  tb_keys :: "secret_row list"
  tb_deleted_secrets :: "deleted_secret_row list"
  tb_certificates :: "certificate_row list"
  tb_sb_namespaces :: "account_row list"
  tb_sb_queues :: "(string \<times> string) list"
  tb_sb_messages :: "sb_message seq_table"
  tb_sb_topics :: "(string \<times> string) list"
  tb_sb_subscriptions :: "sb_subscription list"
  tb_sb_topic_messages :: "sb_topic_message seq_table"
  st_directory :: directory
  st_credentials :: credentials
  st_observations :: observations
  st_documents :: documents
  st_events :: events
  st_app_settings :: app_settings
  st_registry :: registry

definition empty_directory :: directory where
  "empty_directory =
    \<lparr>tb_users = [], tb_groups = [], tb_devices = [], tb_directory_roles = [],
     tb_role_members = [], tb_unified_assignments = [], tb_owners = [], tb_app_role_assignments =
     [], tb_management_groups = []\<rparr>"

definition empty_credentials :: credentials where
  "empty_credentials =
    \<lparr>tb_fics = [], tb_ca_policies = [], tb_passwords = [], tb_key_credentials = [],
     tb_refresh_tokens = [], tb_device_codes = [], tb_managed_identities = [],
     tb_system_identities = [], tb_signing_keys = []\<rparr>"

definition empty_observations :: observations where
  "empty_observations =
    \<lparr>tb_log_rows = [], tb_metrics = [], tb_diagnostics = [], tb_arg_resources = [], tb_emails = []\<rparr>"

definition empty_documents :: documents where
  "empty_documents =
    \<lparr>tb_tables = [], tb_entities = [], tb_cosmos_accounts = [], tb_cosmos_databases = [],
     tb_cosmos_containers = [], tb_cosmos_items = []\<rparr>"

definition empty_events :: events where
  "empty_events =
    \<lparr>tb_hub_namespaces = [], tb_hubs = [], tb_consumer_groups = [], tb_hub_messages = (0,
     []), tb_hub_captured = (0, []), tb_grid_topics = [], tb_grid_subscriptions = [],
     tb_grid_events = (0, [])\<rparr>"

definition empty_app_settings :: app_settings where
  "empty_app_settings =
    \<lparr>tb_appconfig_stores = [], tb_appconfig_kvs = [], tb_feature_flags = [], tb_snapshots
     = [], tb_snapshot_kvs = [], tb_function_apps = []\<rparr>"

definition empty_registry :: registry where
  "empty_registry =
    \<lparr>tb_acr_blobs = [], tb_acr_uploads = [], tb_acr_manifests = []\<rparr>"

definition empty_store :: store where
  "empty_store =
    \<lparr>db_fault = None, tb_provider = [], tb_role_assignments = [], tb_subscriptions = [],
     tb_resource_groups = [], tb_group_members = [], tb_service_principals = [], tb_entra_apps = [],
     tb_access_tokens = [], tb_activity_log = [], tb_storage_accounts = [], tb_blob_containers = [],
     tb_blobs = [], tb_storage_queues = [], tb_queue_messages = (0, []), tb_keyvaults = [],
     tb_secrets = [], tb_keys = [], tb_deleted_secrets = [], tb_certificates = [], tb_sb_namespaces = [], tb_sb_queues = [],
     tb_sb_messages = (0, []), tb_sb_topics = [], tb_sb_subscriptions = [],
     tb_sb_topic_messages = (0, []),
     st_directory = empty_directory, st_credentials = empty_credentials,
     st_observations = empty_observations, st_documents = empty_documents, st_events = empty_events,
     st_app_settings = empty_app_settings, st_registry = empty_registry\<rparr>"

definition db_query :: "store \<Rightarrow> 'a \<Rightarrow> 'a result" where
  "db_query s v = (case db_fault s of Some e \<Rightarrow> Inl e | None \<Rightarrow> Inr v)"

definition db_exec :: "store \<Rightarrow> 'a \<Rightarrow> store \<Rightarrow> 'a result \<times> store" where
  "db_exec s v s' = (case db_fault s of Some e \<Rightarrow> (Inl e, s) | None \<Rightarrow> (Inr v, s'))"

text \<open>Statements that write one group of tables.\<close>

definition dir_exec :: "store \<Rightarrow> 'a \<Rightarrow> directory \<Rightarrow> 'a result \<times> store" where
  "dir_exec s v d = db_exec s v (s\<lparr>st_directory := d\<rparr>)"

definition cred_exec :: "store \<Rightarrow> 'a \<Rightarrow> credentials \<Rightarrow> 'a result \<times> store" where
  "cred_exec s v d = db_exec s v (s\<lparr>st_credentials := d\<rparr>)"

definition obs_exec :: "store \<Rightarrow> 'a \<Rightarrow> observations \<Rightarrow> 'a result \<times> store" where
  "obs_exec s v d = db_exec s v (s\<lparr>st_observations := d\<rparr>)"

definition doc_exec :: "store \<Rightarrow> 'a \<Rightarrow> documents \<Rightarrow> 'a result \<times> store" where
  "doc_exec s v d = db_exec s v (s\<lparr>st_documents := d\<rparr>)"

definition ev_exec :: "store \<Rightarrow> 'a \<Rightarrow> events \<Rightarrow> 'a result \<times> store" where
  "ev_exec s v d = db_exec s v (s\<lparr>st_events := d\<rparr>)"

definition app_exec :: "store \<Rightarrow> 'a \<Rightarrow> app_settings \<Rightarrow> 'a result \<times> store" where
  "app_exec s v d = db_exec s v (s\<lparr>st_app_settings := d\<rparr>)"

definition reg_exec :: "store \<Rightarrow> 'a \<Rightarrow> registry \<Rightarrow> 'a result \<times> store" where
  "reg_exec s v d = db_exec s v (s\<lparr>st_registry := d\<rparr>)"

lemma db_healthy [simp]:
  "db_fault s = None \<Longrightarrow> db_query s v = Inr v"
  "db_fault s = None \<Longrightarrow> db_exec s w s' = (Inr w, s')"
  by (simp_all add: db_query_def db_exec_def)

lemma db_broken [simp]:
  "db_fault s = Some e \<Longrightarrow> db_query s v = Inl e"
  "db_fault s = Some e \<Longrightarrow> db_exec s w s' = (Inl e, s)"
  by (simp_all add: db_query_def db_exec_def)

lemma group_exec_healthy [simp]:
  "db_fault s = None \<Longrightarrow> dir_exec s w d_dir = (Inr w, s\<lparr>st_directory := d_dir\<rparr>)"
  "db_fault s = None \<Longrightarrow> cred_exec s w d_cred = (Inr w, s\<lparr>st_credentials := d_cred\<rparr>)"
  "db_fault s = None \<Longrightarrow> obs_exec s w d_obs = (Inr w, s\<lparr>st_observations := d_obs\<rparr>)"
  "db_fault s = None \<Longrightarrow> doc_exec s w d_doc = (Inr w, s\<lparr>st_documents := d_doc\<rparr>)"
  "db_fault s = None \<Longrightarrow> ev_exec s w d_ev = (Inr w, s\<lparr>st_events := d_ev\<rparr>)"
  "db_fault s = None \<Longrightarrow> app_exec s w d_app = (Inr w, s\<lparr>st_app_settings := d_app\<rparr>)"
  "db_fault s = None \<Longrightarrow> reg_exec s w d_reg = (Inr w, s\<lparr>st_registry := d_reg\<rparr>)"
  by (simp_all add: dir_exec_def cred_exec_def obs_exec_def doc_exec_def ev_exec_def app_exec_def reg_exec_def)

lemma group_exec_broken [simp]:
  "db_fault s = Some e \<Longrightarrow> dir_exec s w d_dir = (Inl e, s)"
  "db_fault s = Some e \<Longrightarrow> cred_exec s w d_cred = (Inl e, s)"
  "db_fault s = Some e \<Longrightarrow> obs_exec s w d_obs = (Inl e, s)"
  "db_fault s = Some e \<Longrightarrow> doc_exec s w d_doc = (Inl e, s)"
  "db_fault s = Some e \<Longrightarrow> ev_exec s w d_ev = (Inl e, s)"
  "db_fault s = Some e \<Longrightarrow> app_exec s w d_app = (Inl e, s)"
  "db_fault s = Some e \<Longrightarrow> reg_exec s w d_reg = (Inl e, s)"
  by (simp_all add: dir_exec_def cred_exec_def obs_exec_def doc_exec_def ev_exec_def app_exec_def reg_exec_def)

lemmas group_exec_defs = dir_exec_def cred_exec_def obs_exec_def doc_exec_def ev_exec_def app_exec_def reg_exec_def

lemma db_exec_fault: "db_fault s' = db_fault s \<Longrightarrow> db_fault (snd (db_exec s v s')) = db_fault s"
  by (simp add: db_exec_def split: option.split)

definition default_location :: "string \<Rightarrow> string" where
  "default_location location = (if location = [] then ''eastus'' else location)"

end
