(* ===== verification/Store_Arm.thy ===== *)
theory Store_Arm
  imports Store_State
begin

text \<open>
  The control-plane side of the store: provider resources (\<open>resources.go\<close>), role assignments,
  subscriptions, resource groups and principal aliases (\<open>arm.go\<close>), group members and service
  principals (\<open>directory.go\<close>), access tokens (\<open>store.go\<close>) and the activity log
  (\<open>app_observe.go\<close>). Every operation takes the store and, where it writes, returns the new one.
\<close>

section \<open>Provider resources\<close>

type_synonym provider_key = "string \<times> string \<times> string \<times> string"

definition pv_key :: "ProviderResource \<Rightarrow> provider_key" where
  "pv_key r = (pv_Provider r, pv_SubscriptionID r, pv_ResourceGroup r, pv_Name r)"

text \<open>An absent properties document is the empty string of the code, stored as \<open>{}\<close>.\<close>

definition UpsertProviderResource ::
  "store \<Rightarrow> string \<Rightarrow> string \<Rightarrow> string \<Rightarrow> string \<Rightarrow> string \<Rightarrow> json option \<Rightarrow> unit result \<times> store" where
  "UpsertProviderResource s provider sub rg name location propsJSON =
    (let row = \<lparr>pv_Provider = provider, pv_SubscriptionID = sub, pv_ResourceGroup = rg, pv_Name = name,
           pv_Location = default_location location,
           pv_PropertiesJSON = (case propsJSON of None \<Rightarrow> JObj [] | Some j \<Rightarrow> j)\<rparr> in
     db_exec s () (s\<lparr>tb_provider := tbl_upsert pv_key
       (\<lambda>old new. old\<lparr>pv_Location := pv_Location new, pv_PropertiesJSON := pv_PropertiesJSON new\<rparr>)
       row (tb_provider s)\<rparr>))"

definition GetProviderResource ::
  "store \<Rightarrow> string \<Rightarrow> string \<Rightarrow> string \<Rightarrow> string \<Rightarrow> ProviderResource option result" where
  "GetProviderResource s provider sub rg name =
    db_query s (tbl_get pv_key (tb_provider s) (provider, sub, rg, name))"

definition ListProviderResources ::
  "store \<Rightarrow> string \<Rightarrow> string \<Rightarrow> string \<Rightarrow> ProviderResource list result" where
  "ListProviderResources s provider sub rg =
    db_query s (sort_key pv_Name
      (filter (\<lambda>r. pv_Provider r = provider \<and> pv_SubscriptionID r = sub \<and> pv_ResourceGroup r = rg)
        (tb_provider s)))"

text \<open>The result tells whether a row was deleted; none is the error \<open>sql.ErrNoRows\<close> of the code.\<close>

definition DeleteProviderResource ::
  "store \<Rightarrow> string \<Rightarrow> string \<Rightarrow> string \<Rightarrow> string \<Rightarrow> bool result \<times> store" where
  "DeleteProviderResource s provider sub rg name =
    (let hit = (\<lambda>r. pv_key r = (provider, sub, rg, name)) in
     db_exec s (tbl_count hit (tb_provider s) \<noteq> 0)
       (s\<lparr>tb_provider := tbl_delete hit (tb_provider s)\<rparr>))"

definition GetProviderResourceByName :: "store \<Rightarrow> string \<Rightarrow> string \<Rightarrow> ProviderResource option result" where
  "GetProviderResourceByName s provider name =
    db_query s (find (\<lambda>r. pv_Provider r = provider \<and> pv_Name r = name) (tb_provider s))"

section \<open>Role assignments\<close>

definition ListRoleAssignmentsForScope_db :: "store \<Rightarrow> string \<Rightarrow> assignment list result" where
  "ListRoleAssignmentsForScope_db s scope =
    db_query s (filter (\<lambda>a. asg_Scope a = scope) (tb_role_assignments s))"

definition GetRoleAssignment :: "store \<Rightarrow> string \<Rightarrow> assignment option result" where
  "GetRoleAssignment s i = db_query s (tbl_get asg_ID (tb_role_assignments s) i)"

definition UpsertRoleAssignment :: "store \<Rightarrow> assignment \<Rightarrow> unit result \<times> store" where
  "UpsertRoleAssignment s a =
    (let pt = (if asg_PrincipalType a = [] then ''ServicePrincipal'' else asg_PrincipalType a) in
     db_exec s () (s\<lparr>tb_role_assignments := tbl_upsert asg_ID (\<lambda>old new. new)
       (a\<lparr>asg_PrincipalType := pt\<rparr>) (tb_role_assignments s)\<rparr>))"

definition DeleteRoleAssignment :: "store \<Rightarrow> string \<Rightarrow> assignment option result \<times> store" where
  "DeleteRoleAssignment s i =
    (case GetRoleAssignment s i of
       Inl e \<Rightarrow> (Inl e, s)
     | Inr None \<Rightarrow> (Inr None, s)
     | Inr (Some a) \<Rightarrow>
         db_exec s (Some a)
           (s\<lparr>tb_role_assignments := tbl_delete (\<lambda>r. asg_ID r = i) (tb_role_assignments s)\<rparr>))"

text \<open>
  SQLite's \<open>LIKE\<close> with the escape character backslash: \<open>%\<close> matches any sequence, \<open>_\<close> any
  character, and letters match in either case.
\<close>

fun sql_like :: "string \<Rightarrow> string \<Rightarrow> bool" where
  "sql_like [] t = (t = [])"
| "sql_like (p # ps) t =
    (if p = CHR 0x5C then
       (case (ps, t) of (q # qs, c # cs) \<Rightarrow> lower_char q = lower_char c \<and> sql_like qs cs | _ \<Rightarrow> False)
     else if p = CHR ''%'' then
       (case t of [] \<Rightarrow> sql_like ps [] | c # cs \<Rightarrow> sql_like ps (c # cs) \<or> sql_like (p # ps) cs)
     else (case t of [] \<Rightarrow> False
       | c # cs \<Rightarrow> (p = CHR ''_'' \<or> lower_char p = lower_char c) \<and> sql_like ps cs))"

definition likeEscape :: "string \<Rightarrow> string" where
  "likeEscape s = concat (map (\<lambda>c. if c = CHR 0x5C \<or> c = CHR ''%'' \<or> c = CHR ''_'' then [CHR 0x5C, c] else [c]) s)"

definition likePrefixChildren :: "string \<Rightarrow> string" where
  "likePrefixChildren prefix = likeEscape prefix @ ''/%''"

definition ListRoleAssignmentsByScopePrefix :: "store \<Rightarrow> string \<Rightarrow> assignment list result" where
  "ListRoleAssignmentsByScopePrefix s prefix =
    db_query s (sort_key asg_ID
      (filter (\<lambda>a. asg_Scope a = prefix \<or> sql_like (likePrefixChildren prefix) (asg_Scope a))
        (tb_role_assignments s)))"

section \<open>Subscriptions and resource groups\<close>

definition GetSubscription :: "store \<Rightarrow> string \<Rightarrow> (string \<times> string \<times> string) option result" where
  "GetSubscription s i =
    db_query s (map_option (\<lambda>r. (sub_display_name r, sub_state r, sub_tenant_id r))
      (tbl_get sub_id (tb_subscriptions s) i))"

definition PutSubscription :: "store \<Rightarrow> string \<Rightarrow> string \<Rightarrow> string \<Rightarrow> string \<Rightarrow> unit result \<times> store" where
  "PutSubscription s id0 displayName state tenantID =
    (let i = trim_space id0 in
     if i = [] then (Inl ''subscription id is required'', s)
     else db_exec s () (s\<lparr>tb_subscriptions := tbl_upsert sub_id (\<lambda>old new. new)
       \<lparr>sub_id = i, sub_display_name = (if displayName = [] then i else displayName),
        sub_state = (if state = [] then ''Enabled'' else state), sub_tenant_id = tenantID\<rparr>
       (tb_subscriptions s)\<rparr>))"

definition rg_key :: "resource_group_row \<Rightarrow> string \<times> string" where
  "rg_key r = (rg_subscription_id r, rg_name r)"

definition UpsertResourceGroup :: "store \<Rightarrow> string \<Rightarrow> string \<Rightarrow> string \<Rightarrow> unit result \<times> store" where
  "UpsertResourceGroup s subID name location =
    db_exec s () (s\<lparr>tb_resource_groups := tbl_upsert rg_key (\<lambda>old new. new)
      \<lparr>rg_subscription_id = subID, rg_name = name, rg_location = location\<rparr> (tb_resource_groups s)\<rparr>)"

definition GetResourceGroup :: "store \<Rightarrow> string \<Rightarrow> string \<Rightarrow> string option result" where
  "GetResourceGroup s subID name =
    db_query s (map_option rg_location (tbl_get rg_key (tb_resource_groups s) (subID, name)))"

definition ListResourceGroups :: "store \<Rightarrow> string \<Rightarrow> (string \<times> string) list result" where
  "ListResourceGroups s subID =
    db_query s (map (\<lambda>r. (rg_name r, rg_location r))
      (sort_key rg_name (filter (\<lambda>r. rg_subscription_id r = subID) (tb_resource_groups s))))"

section \<open>Directory\<close>

definition AddGroupMember :: "store \<Rightarrow> string \<Rightarrow> string \<Rightarrow> string \<Rightarrow> unit result \<times> store" where
  "AddGroupMember s groupID memberID memberType =
    db_exec s () (s\<lparr>tb_group_members := tbl_insert_ignore (\<lambda>r. (gm_group_id r, gm_member_id r))
      \<lparr>gm_group_id = groupID, gm_member_id = memberID,
       gm_member_type = (if memberType = [] then ''user'' else memberType)\<rparr> (tb_group_members s)\<rparr>)"

definition ListGroupMembers_db :: "store \<Rightarrow> string \<Rightarrow> (string list \<times> string list) result" where
  "ListGroupMembers_db s groupID =
    (let rows = filter (\<lambda>r. gm_group_id r = groupID) (tb_group_members s) in
     db_query s (map gm_member_id rows, map gm_member_type rows))"

definition GetServicePrincipal :: "store \<Rightarrow> string \<Rightarrow> DirectoryServicePrincipal option result" where
  "GetServicePrincipal s i =
    db_query s (find (\<lambda>r. sp_ID r = i \<or> sp_AppID r = i) (tb_service_principals s))"

text \<open>A new service principal takes the identifier that \<open>uuid.NewString\<close> returned.\<close>

definition CreateServicePrincipal ::
  "store \<Rightarrow> string \<Rightarrow> string \<Rightarrow> string \<Rightarrow> string \<Rightarrow> DirectoryServicePrincipal result \<times> store" where
  "CreateServicePrincipal s uuid tenantID appID0 displayName =
    (let appID = trim_space appID0 in
     if appID = [] then (Inl ''appId is required'', s)
     else (case GetServicePrincipal s appID of
         Inl e \<Rightarrow> (Inl e, s)
       | Inr (Some existing) \<Rightarrow> (Inl ''service principal exists'', s)
       | Inr None \<Rightarrow>
           (let sp = \<lparr>sp_ID = uuid, sp_TenantID = tenantID, sp_AppID = appID, sp_DisplayName = displayName\<rparr> in
            db_exec s sp (s\<lparr>tb_service_principals := tb_service_principals s @ [sp]\<rparr>))))"

definition sp_aliases :: "DirectoryServicePrincipal option \<Rightarrow> string list" where
  "sp_aliases sp = (case sp of None \<Rightarrow> [] | Some r \<Rightarrow> [sp_ID r, sp_AppID r])"

definition app_object_id :: "EntraApp \<Rightarrow> string" where
  \<comment> \<open>\<open>COALESCE(NULLIF(object_id,''), app_id)\<close>\<close>
  "app_object_id r = (if app_ObjectID r = [] then app_AppID r else app_ObjectID r)"

definition ListPrincipalAliases_db :: "store \<Rightarrow> string \<Rightarrow> string list result" where
  "ListPrincipalAliases_db s id0 =
    (let i = trim_space id0 in
     if i = [] then Inr []
     else (case GetServicePrincipal s i of
         Inl e \<Rightarrow> Inl e
       | Inr sp \<Rightarrow>
           (let apps = filter (\<lambda>r. app_AppID r = i \<or> app_ObjectID r = i) (tb_entra_apps s);
                of_app = (\<lambda>r. [app_object_id r, app_AppID r] @
                  sp_aliases (find (\<lambda>p. sp_ID p = app_AppID r \<or> sp_AppID p = app_AppID r) (tb_service_principals s))) in
            db_query s (add_aliases [i] (sp_aliases sp @ concat (map of_app apps))))))"

text \<open>The store as the evaluator sees it: it implements all three interfaces.\<close>

definition store_view :: "store \<Rightarrow> rbac_store" where
  "store_view s =
    \<lparr>ListRoleAssignmentsForScope = ListRoleAssignmentsForScope_db s,
     ListGroupMembers = Some (ListGroupMembers_db s),
     ListPrincipalAliases = Some (ListPrincipalAliases_db s)\<rparr>"

section \<open>Access tokens and the activity log\<close>

definition LookupAccessToken ::
  "(string \<Rightarrow> int option) \<Rightarrow> store \<Rightarrow> string \<Rightarrow> int \<Rightarrow> string option result" where
  "LookupAccessToken parse_rfc3339 s tokenHash now =
    db_query s
      (case tbl_get tok_hash (tb_access_tokens s) tokenHash of
         None \<Rightarrow> None
       | Some r \<Rightarrow>
           if tok_expires_at r \<noteq> [] \<and>
              (case parse_rfc3339 (tok_expires_at r) of None \<Rightarrow> False | Some t \<Rightarrow> t < now)
           then None else Some (tok_principal_id r))"

text \<open>The expiry is the formatted time, empty for the zero time.\<close>

definition PutAccessToken :: "store \<Rightarrow> string \<Rightarrow> string \<Rightarrow> string \<Rightarrow> unit result \<times> store" where
  "PutAccessToken s tokenHash principalID exp =
    db_exec s () (s\<lparr>tb_access_tokens := tbl_upsert tok_hash (\<lambda>old new. new)
      \<lparr>tok_hash = tokenHash, tok_principal_id = principalID, tok_expires_at = exp\<rparr>
      (tb_access_tokens s)\<rparr>)"

definition AppendActivityLog ::
  "store \<Rightarrow> int \<Rightarrow> string \<Rightarrow> string \<Rightarrow> string \<Rightarrow> string \<Rightarrow> string \<Rightarrow> unit result \<times> store" where
  "AppendActivityLog s now caller operation resourceID status message =
    db_exec s () (s\<lparr>tb_activity_log := tb_activity_log s @
      [\<lparr>act_timestamp = now, act_caller = caller, act_operation = operation,
        act_resource_id = resourceID, act_status = status, act_message = message,
        act_client_ip = [], act_identity = []\<rparr>]\<rparr>)"

section \<open>Listing by scope\<close>

lemma sql_like_literal:
  "sql_like (likeEscape p @ q) t \<longleftrightarrow>
    (\<exists>a b. t = a @ b \<and> to_lower a = to_lower p \<and> sql_like q b)"
proof (induction p arbitrary: t)
  case Nil
  then show ?case by (simp add: likeEscape_def to_lower_def)
next
  case (Cons c p)
  have step: "sql_like (likeEscape (c # p) @ q) t \<longleftrightarrow>
      (\<exists>d ds. t = d # ds \<and> lower_char c = lower_char d \<and> sql_like (likeEscape p @ q) ds)"
    by (cases t) (auto simp: likeEscape_def)
  show ?case
    unfolding step Cons.IH
  proof
    assume "\<exists>d ds. t = d # ds \<and> lower_char c = lower_char d \<and>
      (\<exists>a b. ds = a @ b \<and> to_lower a = to_lower p \<and> sql_like q b)"
    then obtain d a b where "t = (d # a) @ b" "to_lower (d # a) = to_lower (c # p)" "sql_like q b"
      by (auto simp: to_lower_def)
    then show "\<exists>a b. t = a @ b \<and> to_lower a = to_lower (c # p) \<and> sql_like q b" by blast
  next
    assume "\<exists>a b. t = a @ b \<and> to_lower a = to_lower (c # p) \<and> sql_like q b"
    then obtain a b where ab: "t = a @ b" "to_lower a = to_lower (c # p)" "sql_like q b" by blast
    then obtain d a' where "a = d # a'" by (cases a) (auto simp: to_lower_def)
    with ab show "\<exists>d ds. t = d # ds \<and> lower_char c = lower_char d \<and>
        (\<exists>a b. ds = a @ b \<and> to_lower a = to_lower p \<and> sql_like q b)"
      by (auto simp: to_lower_def)
  qed
qed

lemma sql_like_percent: "sql_like ''%'' t"
  by (induction t) auto

lemma sql_like_children:
  "sql_like (likePrefixChildren p) t \<longleftrightarrow> (\<exists>a b. t = a @ ''/'' @ b \<and> to_lower a = to_lower p)"
proof -
  have "sql_like ''/%'' b \<longleftrightarrow> (\<exists>r. b = ''/'' @ r)" for b
  proof (cases b)
    case (Cons c cs)
    have "sql_like ''/%'' (c # cs) \<longleftrightarrow> lower_char CHR ''/'' = lower_char c \<and> sql_like ''%'' cs"
      by (subst sql_like.simps) simp
    also have "\<dots> \<longleftrightarrow> c = CHR ''/''"
      by (metis lower_char_slash sql_like_percent)
    finally show ?thesis using Cons by auto
  qed simp
  then show ?thesis
    by (auto simp: likePrefixChildren_def sql_like_literal)
qed

text \<open>
  Listing the assignments of a scope yields those of the scope itself and of the scopes
  below it, at segment boundaries; wildcards in the scope are literal. Below the scope the case
  of letters is ignored, as \<open>LIKE\<close> does.
\<close>

theorem list_by_scope_prefix:
  assumes "ListRoleAssignmentsByScopePrefix s prefix = Inr as"
  shows "a \<in> set as \<longleftrightarrow> a \<in> set (tb_role_assignments s) \<and>
    (asg_Scope a = prefix \<or> (\<exists>p r. asg_Scope a = p @ ''/'' @ r \<and> to_lower p = to_lower prefix))"
proof -
  from assms have "as = sort_key asg_ID (filter (\<lambda>a. asg_Scope a = prefix \<or>
      (\<exists>p r. asg_Scope a = p @ ''/'' @ r \<and> to_lower p = to_lower prefix)) (tb_role_assignments s))"
    by (simp add: ListRoleAssignmentsByScopePrefix_def db_query_def sql_like_children split: option.splits)
  then show ?thesis by (simp only: set_sort set_filter mem_Collect_eq)
qed

definition lab_store :: store where
  "lab_store = empty_store\<lparr>tb_role_assignments :=
    [\<lparr>asg_ID = ''ra1'', asg_Scope = ''/subscriptions/s1'', asg_RoleDefinitionID = RoleReader,
       asg_PrincipalID = ''alice'', asg_PrincipalType = ''User''\<rparr>,
     \<lparr>asg_ID = ''ra2'', asg_Scope = ''/subscriptions/s10'', asg_RoleDefinitionID = RoleOwner,
       asg_PrincipalID = ''bob'', asg_PrincipalType = ''User''\<rparr>]\<rparr>"

theorem list_by_scope_prefix_witness:
  "tb_role_assignments lab_store ! 1 \<in> set [tb_role_assignments lab_store ! 0] \<longleftrightarrow>
   tb_role_assignments lab_store ! 1 \<in> set (tb_role_assignments lab_store) \<and>
    (asg_Scope (tb_role_assignments lab_store ! 1) = ''/subscriptions/s1'' \<or>
     (\<exists>p r. asg_Scope (tb_role_assignments lab_store ! 1) = p @ ''/'' @ r \<and>
       to_lower p = to_lower ''/subscriptions/s1''))"
proof (rule list_by_scope_prefix)
  show "ListRoleAssignmentsByScopePrefix lab_store ''/subscriptions/s1'' =
      Inr [tb_role_assignments lab_store ! 0]"
    by code_simp
qed

section \<open>The store as a role assignment store\<close>

definition arm_healthy :: "store \<Rightarrow> bool" where
  "arm_healthy s \<longleftrightarrow> db_fault s = None \<and> keys_distinct asg_ID (tb_role_assignments s)"

lemma store_view_error_free: "db_fault s = None \<Longrightarrow> error_free (store_view s)"
  by (simp add: error_free_def total_on_def store_view_def ListRoleAssignmentsForScope_db_def
      ListGroupMembers_db_def ListPrincipalAliases_db_def GetServicePrincipal_def Let_def)

lemma view_after_delete:
  "ListGroupMembers_db (snd (DeleteRoleAssignment s i)) = ListGroupMembers_db s"
  "ListPrincipalAliases_db (snd (DeleteRoleAssignment s i)) = ListPrincipalAliases_db s"
  by (auto simp: fun_eq_iff DeleteRoleAssignment_def db_exec_def ListGroupMembers_db_def
      ListPrincipalAliases_db_def GetServicePrincipal_def db_query_def Let_def
      split: sum.split option.split)

lemma tb_after_delete:
  assumes "db_fault s = None"
  shows "tb_role_assignments (snd (DeleteRoleAssignment s i)) =
      filter (\<lambda>r. asg_ID r \<noteq> i) (tb_role_assignments s)"
    and "db_fault (snd (DeleteRoleAssignment s i)) = None"
  using assms
  by (auto simp: DeleteRoleAssignment_def GetRoleAssignment_def tbl_delete_def tbl_get_def find_None_iff
      filter_id_conv split: option.split)

lemma tb_after_upsert:
  assumes "db_fault s = None"
  shows "tb_role_assignments (snd (UpsertRoleAssignment s a)) = tbl_upsert asg_ID (\<lambda>old new. new)
      (a\<lparr>asg_PrincipalType := (if asg_PrincipalType a = [] then ''ServicePrincipal'' else asg_PrincipalType a)\<rparr>)
      (tb_role_assignments s)"
    and "db_fault (snd (UpsertRoleAssignment s a)) = None"
  using assms by (simp_all add: UpsertRoleAssignment_def Let_def)

interpretation rbac_tables: role_assignment_store store_view
  "\<lambda>s a. snd (UpsertRoleAssignment s a)" "\<lambda>s i. snd (DeleteRoleAssignment s i)" arm_healthy
proof
  fix s a i sc as
  assume h: "arm_healthy s"
  then have f: "db_fault s = None" and d: "keys_distinct asg_ID (tb_role_assignments s)"
    by (simp_all add: arm_healthy_def)
  from f show "error_free (store_view s)" by (rule store_view_error_free)
  show "arm_healthy (snd (UpsertRoleAssignment s a))"
    using d by (simp add: arm_healthy_def tb_after_upsert[OF f] keys_distinct_upsert)
  show "arm_healthy (snd (DeleteRoleAssignment s i))"
    using keys_distinct_delete[OF d, of "\<lambda>r. asg_ID r = i"]
    by (simp add: arm_healthy_def tb_after_delete[OF f] tbl_delete_def)
  let ?b = "a\<lparr>asg_PrincipalType := (if asg_PrincipalType a = [] then ''ServicePrincipal'' else asg_PrincipalType a)\<rparr>"
  have "?b \<in> set (tb_role_assignments (snd (UpsertRoleAssignment s a)))"
    by (auto simp: tb_after_upsert[OF f] tbl_upsert_def list_ex_iff image_iff)
  then show "\<exists>as b. ListRoleAssignmentsForScope (store_view (snd (UpsertRoleAssignment s a))) (asg_Scope a) = Inr as \<and>
      b \<in> set as \<and> asg_PrincipalID b = asg_PrincipalID a \<and> asg_RoleDefinitionID b = asg_RoleDefinitionID a"
    by (intro exI[of _ "filter (\<lambda>x. asg_Scope x = asg_Scope a) (tb_role_assignments (snd (UpsertRoleAssignment s a)))"]
        exI[of _ ?b]) (simp add: store_view_def ListRoleAssignmentsForScope_db_def tb_after_upsert(2)[OF f])
  assume "ListRoleAssignmentsForScope (store_view s) sc = Inr as"
  then show "ListRoleAssignmentsForScope (store_view (snd (DeleteRoleAssignment s i))) sc =
      Inr (filter (\<lambda>a. asg_ID a \<noteq> i) as)"
    using f by (auto simp: store_view_def ListRoleAssignmentsForScope_db_def tb_after_delete[OF f] intro: filter_cong)
qed (simp_all add: store_view_def view_after_delete)

section \<open>Keyed tables of the control plane\<close>

text \<open>Provider resources as a map from provider, subscription, group and name.\<close>

definition provider_lookup :: "store \<Rightarrow> provider_key \<Rightarrow> (string \<times> json) option" where
  "provider_lookup s k = (case k of (provider, sub, rg, name) \<Rightarrow>
    map_option (\<lambda>r. (pv_Location r, pv_PropertiesJSON r))
      (projr (GetProviderResource s provider sub rg name)))"

definition provider_put :: "store \<Rightarrow> provider_key \<Rightarrow> string \<times> json \<Rightarrow> store" where
  "provider_put s k v = (case (k, v) of ((provider, sub, rg, name), (location, props)) \<Rightarrow>
    snd (UpsertProviderResource s provider sub rg name location (Some props)))"

definition provider_del :: "store \<Rightarrow> provider_key \<Rightarrow> store" where
  "provider_del s k = (case k of (provider, sub, rg, name) \<Rightarrow>
    snd (DeleteProviderResource s provider sub rg name))"

definition provider_norm :: "string \<times> json \<Rightarrow> string \<times> json" where
  "provider_norm v = (default_location (fst v), snd v)"

interpretation provider_table: keyed_table provider_lookup provider_put provider_del provider_norm
  "\<lambda>s. db_fault s = None"
proof
  fix s :: store and k k' :: provider_key and v :: "string \<times> json"
  assume ok: "db_fault s = None"
  obtain p sub rg n where k: "k = (p, sub, rg, n)" by (cases k) auto
  obtain p' sub' rg' n' where k': "k' = (p', sub', rg', n')" by (cases k') auto
  obtain loc j where v: "v = (loc, j)" by (cases v)
  show "provider_lookup (provider_put s k v) k' =
      (if k' = k then Some (provider_norm v) else provider_lookup s k')"
    using ok by (auto simp: provider_lookup_def provider_put_def k k' v GetProviderResource_def
        UpsertProviderResource_def tbl_get_upsert pv_key_def provider_norm_def Let_def split: option.split)
  show "provider_lookup (provider_del s k) k' = (if k' = k then None else provider_lookup s k')"
    using ok by (auto simp: provider_lookup_def provider_del_def k k' GetProviderResource_def
        DeleteProviderResource_def tbl_get_delete Let_def)
  show "db_fault (provider_put s k v) = None" "db_fault (provider_del s k) = None"
    using ok by (simp_all add: provider_put_def provider_del_def k v UpsertProviderResource_def
        DeleteProviderResource_def Let_def)
qed

text \<open>Resource groups; the code has no operation that deletes one.\<close>

definition group_lookup :: "store \<Rightarrow> string \<times> string \<Rightarrow> string option" where
  "group_lookup s k = projr (GetResourceGroup s (fst k) (snd k))"

definition group_put :: "store \<Rightarrow> string \<times> string \<Rightarrow> string \<Rightarrow> store" where
  "group_put s k location = snd (UpsertResourceGroup s (fst k) (snd k) location)"

lemma group_get_put:
  "db_fault s = None \<Longrightarrow> group_lookup (group_put s k v) k' = (if k' = k then Some v else group_lookup s k')"
  by (simp add: group_lookup_def group_put_def GetResourceGroup_def UpsertResourceGroup_def
      tbl_get_upsert split: option.split) (auto simp: rg_key_def)


section \<open>Assignments take effect\<close>

text \<open>
  Writing a role assignment takes effect at once: the evaluator, asked for the assigned
  principal, allows every action the role grants on the assigned scope and all scopes below.
\<close>

theorem assignment_takes_effect:
  assumes "arm_healthy s" "trim_space (asg_PrincipalID a) \<noteq> []"
    and "roleGrants (asg_RoleDefinitionID a) action" "action \<noteq> []"
    and "asg_Scope a \<in> set (scopeChain scope)" "scope \<noteq> []"
  shows "Evaluate \<lparr>Assignments = Some (store_view (snd (UpsertRoleAssignment s a)))\<rparr>
    (asg_PrincipalID a) False action scope = Inr True"
  by (rule rbac_tables.created_assignment_grants[OF assms(1) refl assms(2-6)])

theorem assignment_takes_effect_witness:
  "Evaluate \<lparr>Assignments = Some (store_view (snd (UpsertRoleAssignment lab_store
     \<lparr>asg_ID = ''ra3'', asg_Scope = ''/subscriptions/s1'', asg_RoleDefinitionID = RoleContributor,
       asg_PrincipalID = ''carol'', asg_PrincipalType = []\<rparr>)))\<rparr>
     (asg_PrincipalID \<lparr>asg_ID = ''ra3'', asg_Scope = ''/subscriptions/s1'', asg_RoleDefinitionID = RoleContributor,
       asg_PrincipalID = ''carol'', asg_PrincipalType = []\<rparr>)
     False ''Microsoft.Web/sites/write'' ''/subscriptions/s1/resourceGroups/rg'' = Inr True"
proof (rule assignment_takes_effect)
  show "arm_healthy lab_store"
    by (simp add: arm_healthy_def lab_store_def empty_store_def keys_distinct_def)
qed code_simp+

text \<open>
  Deleting a role assignment revokes what it granted: unless another assignment along the
  scope chain grants the action, the evaluator denies it afterwards, even when an assignment
  with this id did not exist.
\<close>

theorem deleted_assignment_denies:
  assumes "arm_healthy s"
    and "\<And>a. a \<in> set (tb_role_assignments s) \<Longrightarrow> asg_Scope a \<in> set (scopeChain scope) \<Longrightarrow>
      asg_ID a \<noteq> i \<Longrightarrow> \<not> granted_by (store_view s) p action a"
  shows "Evaluate \<lparr>Assignments = Some (store_view (snd (DeleteRoleAssignment s i)))\<rparr>
    p False action scope = Inr False"
proof (rule rbac_tables.deleted_assignment_revokes[OF assms(1)])
  fix sc as a
  assume "sc \<in> set (scopeChain scope)" "ListRoleAssignmentsForScope (store_view s) sc = Inr as"
    "a \<in> set as" "asg_ID a \<noteq> i"
  then show "\<not> granted_by (store_view s) p action a"
    using assms by (auto simp: store_view_def ListRoleAssignmentsForScope_db_def arm_healthy_def)
qed

theorem deleted_assignment_denies_witness:
  "Evaluate \<lparr>Assignments = Some (store_view (snd (DeleteRoleAssignment lab_store ''ra1'')))\<rparr>
     ''alice'' False ''Microsoft.Web/sites/read'' ''/subscriptions/s1/resourceGroups/rg'' = Inr False"
proof (rule deleted_assignment_denies)
  show "arm_healthy lab_store"
    by (simp add: arm_healthy_def lab_store_def empty_store_def keys_distinct_def)
  fix a assume a: "a \<in> set (tb_role_assignments lab_store)" "asg_ID a \<noteq> ''ra1''"
    "asg_Scope a \<in> set (scopeChain ''/subscriptions/s1/resourceGroups/rg'')"
  have "''/subscriptions/s10'' \<notin> set (scopeChain ''/subscriptions/s1/resourceGroups/rg'')"
    by code_simp
  with a show "\<not> granted_by (store_view lab_store) ''alice'' ''Microsoft.Web/sites/read'' a"
    by (auto simp: lab_store_def)
qed

text \<open>
  The table of provider resources is a map: any sequence of writes and deletions leaves
  exactly what the same sequence leaves of a function from provider, subscription, group and
  name to location and properties.
\<close>

theorem provider_table_is_a_map:
  assumes "db_fault s = None"
  shows "provider_lookup (run_table provider_put provider_del ops s) =
    run_map provider_norm ops (provider_lookup s)"
  using provider_table.run_refines[OF assms] by (rule conjunct1)

theorem provider_table_is_a_map_witness:
  "provider_lookup (run_table provider_put provider_del
     [Put (''p'', ''s'', ''g'', ''n'') ([], JNull), Del (''p'', ''s'', ''g'', ''m'')] empty_store) =
   run_map provider_norm [Put (''p'', ''s'', ''g'', ''n'') ([], JNull), Del (''p'', ''s'', ''g'', ''m'')]
     (provider_lookup empty_store)"
  by (rule provider_table_is_a_map) (simp add: empty_store_def)

lemma list_provider_resources_isolated:
  assumes "db_fault s = None" "provider_lookup s (provider, sub, rg, name) = Some v"
  shows "\<exists>rows. ListProviderResources s provider sub rg = Inr rows \<and>
    sorted (map pv_Name rows) \<and>
    (\<forall>r \<in> set rows. pv_Provider r = provider \<and> pv_SubscriptionID r = sub \<and> pv_ResourceGroup r = rg) \<and>
    (\<exists>r \<in> set rows. pv_Name r = name \<and> (pv_Location r, pv_PropertiesJSON r) = v)"
  using assms
  by (auto simp: ListProviderResources_def provider_lookup_def GetProviderResource_def pv_key_def
      dest!: tbl_get_SomeD)

end
