(* ===== verification/Store_Data.thy ===== *)
theory Store_Data
  imports Store_Arm
begin

text \<open>
  The data-plane side of the store: sealing (\<open>seal.go\<close>), storage accounts, blobs, storage queues,
  vaults with their secrets and keys, and Service Bus namespaces and queues (\<open>data.go\<close>, with
  \<open>identity_extra.go\<close> for deleted secrets), Service Bus messages and topics (\<open>servicebus.go\<close>).
  Random bytes, fresh identifiers and the time, in nanoseconds, are arguments.
\<close>

section \<open>Sealing\<close>

text \<open>
  The master key of the store and the AEAD of \<open>golang.org/x/crypto/chacha20poly1305\<close>: sealing and
  opening for a key and a nonce of twelve bytes. Opening what was sealed gives it back.
\<close>

record crypto =
  cr_master :: string
  aead_seal :: "string \<Rightarrow> string \<Rightarrow> string \<Rightarrow> string"
  aead_open :: "string \<Rightarrow> string \<Rightarrow> string \<Rightarrow> string option"

definition aead_opens :: "crypto \<Rightarrow> bool" where
  "aead_opens c \<longleftrightarrow>
    (\<forall>k n p. length n = 12 \<longrightarrow> aead_open c k n (aead_seal c k n p) = Some p)"

definition Seal :: "crypto \<Rightarrow> string \<Rightarrow> string \<Rightarrow> string \<Rightarrow> string" where
  "Seal c key nonce plaintext = nonce @ aead_seal c key nonce plaintext"

definition Unseal :: "crypto \<Rightarrow> string \<Rightarrow> string \<Rightarrow> string result" where
  "Unseal c key ciphertext =
    (if length ciphertext < 12 then Inl ''ciphertext too short''
     else (case aead_open c key (take 12 ciphertext) (drop 12 ciphertext) of
         None \<Rightarrow> Inl ''chacha20poly1305: message authentication failed''
       | Some p \<Rightarrow> Inr p))"

section \<open>Named resources with a sealed key\<close>

definition ac_key :: "account_row \<Rightarrow> string \<times> string \<times> string" where
  "ac_key r = (ac_subscription_id r, ac_resource_group r, ac_name r)"

definition prefix_error :: "string \<Rightarrow> 'a result \<Rightarrow> 'a result" where
  "prefix_error what res = (case res of Inl e \<Rightarrow> Inl (what @ e) | Inr v \<Rightarrow> Inr v)"

text \<open>The key of the first row of this name, in whatever subscription and resource group.\<close>

definition key_by_name :: "crypto \<Rightarrow> store \<Rightarrow> account_row list \<Rightarrow> string \<Rightarrow> string \<Rightarrow> string option result" where
  "key_by_name c s rows what name =
    (case db_query s (find (\<lambda>r. ac_name r = name) rows) of
       Inl e \<Rightarrow> Inl e
     | Inr None \<Rightarrow> Inr None
     | Inr (Some r) \<Rightarrow> prefix_error what (map_sum id Some (Unseal c (cr_master c) (ac_sealed r))))"

definition scope_by_name :: "store \<Rightarrow> account_row list \<Rightarrow> string \<Rightarrow> (string \<times> string \<times> string) option result" where
  "scope_by_name s rows name =
    db_query s (map_option (\<lambda>r. (ac_subscription_id r, ac_resource_group r, ac_location r))
      (find (\<lambda>r. ac_name r = name) rows))"

definition upsert_account :: "account_row \<Rightarrow> account_row list \<Rightarrow> account_row list" where
  "upsert_account = tbl_upsert ac_key
    (\<lambda>old new. old\<lparr>ac_location := ac_location new, ac_sealed := ac_sealed new\<rparr>)"

section \<open>Storage accounts\<close>

definition azuriteAccountName :: string where
  "azuriteAccountName = ''devstoreaccount1''"

definition azuriteAccountKey :: string where
  "azuriteAccountKey =
    ''Eby8vdM02xNOcqFlqUwJPLlmEtlCDXJ1OUzFT50uSRZ6IFsuFq2UVErCz4I6tq/K1SZFPTOtr/KBHBeksoGMGw==''"

definition AzuriteWellKnownCredentials :: "string \<Rightarrow> string \<Rightarrow> bool" where
  "AzuriteWellKnownCredentials account key = (account = azuriteAccountName \<and> key = azuriteAccountKey)"

definition GetStorageAccountKey :: "crypto \<Rightarrow> store \<Rightarrow> string \<Rightarrow> string option result" where
  "GetStorageAccountKey c s accountName =
    key_by_name c s (tb_storage_accounts s) ''unseal account key: '' accountName"

text \<open>
  \<open>generated\<close> is the base64 of 64 random bytes, \<open>loopback\<close> whether the server listens on a
  loopback address.
\<close>

definition UpsertStorageAccount ::
  "crypto \<Rightarrow> store \<Rightarrow> string \<Rightarrow> string \<Rightarrow> string \<Rightarrow> string \<Rightarrow> string \<Rightarrow> string \<Rightarrow> bool \<Rightarrow>
    string result \<times> store" where
  "UpsertStorageAccount c s generated nonce subID rg name location loopback =
    (case GetStorageAccountKey c s name of
       Inl e \<Rightarrow> (Inl e, s)
     | Inr existing \<Rightarrow>
         (let accountKey = (case existing of Some k \<Rightarrow> k | None \<Rightarrow> generated) in
          if AzuriteWellKnownCredentials name accountKey \<and> \<not> loopback
          then (Inl ''refusing Azurite well-known credentials on non-loopback listen'', s)
          else db_exec s accountKey (s\<lparr>tb_storage_accounts := upsert_account
            \<lparr>ac_subscription_id = subID, ac_resource_group = rg, ac_name = name,
             ac_location = default_location location,
             ac_sealed = Seal c (cr_master c) nonce accountKey\<rparr> (tb_storage_accounts s)\<rparr>)))"

definition GetStorageAccount :: "store \<Rightarrow> string \<Rightarrow> string \<Rightarrow> string \<Rightarrow> string option result" where
  "GetStorageAccount s subID rg name =
    db_query s (map_option ac_location (tbl_get ac_key (tb_storage_accounts s) (subID, rg, name)))"

definition ListStorageAccountsInSubscription :: "store \<Rightarrow> string \<Rightarrow> account_row list result" where
  "ListStorageAccountsInSubscription s subID =
    db_query s (sort_key ac_name (filter (\<lambda>r. ac_subscription_id r = subID) (tb_storage_accounts s)))"

definition GetStorageAccountByName :: "store \<Rightarrow> string \<Rightarrow> (string \<times> string \<times> string) option result" where
  "GetStorageAccountByName s accountName = scope_by_name s (tb_storage_accounts s) accountName"

section \<open>Blobs\<close>

definition bl_key :: "blob_row \<Rightarrow> string \<times> string \<times> string" where
  "bl_key r = (bl_account r, bl_container r, bl_name r)"

definition CreateContainer :: "store \<Rightarrow> string \<Rightarrow> string \<Rightarrow> unit result \<times> store" where
  "CreateContainer s account name =
    db_exec s () (s\<lparr>tb_blob_containers := tbl_insert_ignore id (account, name) (tb_blob_containers s)\<rparr>)"

definition ListContainers :: "store \<Rightarrow> string \<Rightarrow> string list result" where
  "ListContainers s account =
    db_query s (sort (map snd (filter (\<lambda>(a, n). a = account) (tb_blob_containers s))))"

definition DeleteContainer :: "store \<Rightarrow> string \<Rightarrow> string \<Rightarrow> unit result \<times> store" where
  "DeleteContainer s account name =
    db_exec s () (s\<lparr>
      tb_blobs := tbl_delete (\<lambda>r. bl_account r = account \<and> bl_container r = name) (tb_blobs s),
      tb_blob_containers := tbl_delete (\<lambda>r. r = (account, name)) (tb_blob_containers s)\<rparr>)"

definition PutBlob ::
  "store \<Rightarrow> string \<Rightarrow> string \<Rightarrow> string \<Rightarrow> byte list \<Rightarrow> string \<Rightarrow> unit result \<times> store" where
  "PutBlob s account container name content contentType =
    db_exec s () (s\<lparr>tb_blobs := tbl_upsert bl_key (\<lambda>old new. new)
      \<lparr>bl_account = account, bl_container = container, bl_name = name, bl_content = content,
       bl_content_type = (if contentType = [] then ''application/octet-stream'' else contentType)\<rparr>
      (tb_blobs s)\<rparr>)"

definition ListBlobs :: "store \<Rightarrow> string \<Rightarrow> string \<Rightarrow> string list result" where
  "ListBlobs s account container =
    db_query s (sort (map bl_name
      (filter (\<lambda>r. bl_account r = account \<and> bl_container r = container) (tb_blobs s))))"

definition GetBlob :: "store \<Rightarrow> string \<Rightarrow> string \<Rightarrow> string \<Rightarrow> (byte list \<times> string) option result" where
  "GetBlob s account container name =
    db_query s (map_option (\<lambda>r. (bl_content r, bl_content_type r))
      (tbl_get bl_key (tb_blobs s) (account, container, name)))"

definition DeleteBlob :: "store \<Rightarrow> string \<Rightarrow> string \<Rightarrow> string \<Rightarrow> bool result \<times> store" where
  "DeleteBlob s account container name =
    (let hit = (\<lambda>r. bl_key r = (account, container, name)) in
     db_exec s (tbl_count hit (tb_blobs s) > 0) (s\<lparr>tb_blobs := tbl_delete hit (tb_blobs s)\<rparr>))"

section \<open>Storage queues\<close>

definition CreateQueue :: "store \<Rightarrow> string \<Rightarrow> string \<Rightarrow> unit result \<times> store" where
  "CreateQueue s account name =
    db_exec s () (s\<lparr>tb_storage_queues := tbl_insert_ignore id (account, name) (tb_storage_queues s)\<rparr>)"

text \<open>Times are formatted to the second.\<close>

definition seconds :: "int \<Rightarrow> int" where
  "seconds t = t div 10 ^ 9"

definition Enqueue :: "store \<Rightarrow> int \<Rightarrow> string \<Rightarrow> string \<Rightarrow> string \<Rightarrow> unit result \<times> store" where
  "Enqueue s now account queue body =
    db_exec s () (s\<lparr>tb_queue_messages := seq_insert
      \<lparr>qm_account = account, qm_queue = queue, qm_body = body, qm_inserted_at = seconds now,
       qm_visible_after = None\<rparr> (tb_queue_messages s)\<rparr>)"

definition qm_visible :: "int \<Rightarrow> string \<Rightarrow> string \<Rightarrow> queue_message \<Rightarrow> bool" where
  "qm_visible now account queue m \<longleftrightarrow>
    qm_account m = account \<and> qm_queue m = queue \<and>
    (case qm_visible_after m of None \<Rightarrow> True | Some t \<Rightarrow> t \<le> seconds now)"

definition Peek :: "store \<Rightarrow> int \<Rightarrow> string \<Rightarrow> string \<Rightarrow> string option result" where
  "Peek s now account queue =
    db_query s (map_option (\<lambda>(i, m). qm_body m)
      (seq_first (qm_visible now account queue) (tb_queue_messages s)))"

text \<open>A duration is a 64-bit count of nanoseconds; the product with a second wraps around.\<close>

definition wrap64 :: "int \<Rightarrow> int" where
  "wrap64 n = (n + 2 ^ 63) mod 2 ^ 64 - 2 ^ 63"

definition Dequeue :: "store \<Rightarrow> int \<Rightarrow> string \<Rightarrow> string \<Rightarrow> int \<Rightarrow> string option result \<times> store" where
  "Dequeue s now account queue visibilityTimeoutSec =
    (case db_query s (seq_first (qm_visible now account queue) (tb_queue_messages s)) of
       Inl e \<Rightarrow> (Inl e, s)
     | Inr None \<Rightarrow> (Inr None, s)
     | Inr (Some (i, m)) \<Rightarrow>
         db_exec s (Some (qm_body m)) (s\<lparr>tb_queue_messages :=
           (if visibilityTimeoutSec > 0 then
              seq_update i (\<lambda>m. m\<lparr>qm_visible_after :=
                Some (seconds (now + wrap64 (visibilityTimeoutSec * 10 ^ 9)))\<rparr>) (tb_queue_messages s)
            else seq_delete i (tb_queue_messages s))\<rparr>))"

section \<open>Vaults\<close>

definition UpsertKeyVault :: "store \<Rightarrow> string \<Rightarrow> string \<Rightarrow> string \<Rightarrow> string \<Rightarrow> unit result \<times> store" where
  "UpsertKeyVault s subID rg name location =
    db_exec s () (s\<lparr>tb_keyvaults := upsert_account
      \<lparr>ac_subscription_id = subID, ac_resource_group = rg, ac_name = name,
       ac_location = default_location location, ac_sealed = []\<rparr> (tb_keyvaults s)\<rparr>)"

definition GetKeyVault :: "store \<Rightarrow> string \<Rightarrow> string \<Rightarrow> string \<Rightarrow> string option result" where
  "GetKeyVault s subID rg name =
    db_query s (map_option ac_location (tbl_get ac_key (tb_keyvaults s) (subID, rg, name)))"

definition KeyVaultExists :: "store \<Rightarrow> string \<Rightarrow> bool result" where
  "KeyVaultExists s name = db_query s (tbl_count (\<lambda>r. ac_name r = name) (tb_keyvaults s) > 0)"

definition LookupKeyVaultScope :: "store \<Rightarrow> string \<Rightarrow> string option result" where
  "LookupKeyVaultScope s name =
    map_sum id (map_option (\<lambda>(sub, rg, loc). ''/subscriptions/'' @ sub @ ''/resourceGroups/'' @ rg @
      ''/providers/Microsoft.KeyVault/vaults/'' @ name))
    (scope_by_name s (tb_keyvaults s) name)"

text \<open>
  Secrets and keys share a shape: a new version is a new row with the identifier \<open>version\<close>, which
  must not be in use, and the latest row is read.
\<close>

definition sec_key :: "secret_row \<Rightarrow> string \<times> string \<times> string" where
  "sec_key r = (sec_vault r, sec_name r, sec_version r)"

definition unique_failed :: "string \<Rightarrow> string" where
  "unique_failed t = ''UNIQUE constraint failed: '' @ t"

definition latest_version :: "secret_row list \<Rightarrow> string \<Rightarrow> string \<Rightarrow> secret_row option" where
  "latest_version rows vault name = find (\<lambda>r. sec_vault r = vault \<and> sec_name r = name) (rev rows)"

definition PutSecret ::
  "crypto \<Rightarrow> store \<Rightarrow> string \<Rightarrow> string \<Rightarrow> string \<Rightarrow> string \<Rightarrow> string \<Rightarrow> string result \<times> store" where
  "PutSecret c s version nonce vault name val =
    (if db_fault s = None \<and> tbl_get sec_key (tb_secrets s) (vault, name, version) \<noteq> None
     then (Inl (unique_failed ''keyvault_secrets''), s)
     else db_exec s version (s\<lparr>tb_secrets := tb_secrets s @
       [\<lparr>sec_vault = vault, sec_name = name, sec_sealed = Seal c (cr_master c) nonce val,
         sec_version = version\<rparr>]\<rparr>))"

definition GetSecret :: "crypto \<Rightarrow> store \<Rightarrow> string \<Rightarrow> string \<Rightarrow> (string \<times> string) option result" where
  "GetSecret c s vault name =
    (case db_query s (latest_version (tb_secrets s) vault name) of
       Inl e \<Rightarrow> Inl e
     | Inr None \<Rightarrow> Inr None
     | Inr (Some r) \<Rightarrow> prefix_error ''unseal secret: ''
         (map_sum id (\<lambda>p. Some (p, sec_version r)) (Unseal c (cr_master c) (sec_sealed r))))"

definition PutKey ::
  "crypto \<Rightarrow> store \<Rightarrow> string \<Rightarrow> string \<Rightarrow> string \<Rightarrow> string \<Rightarrow> string \<Rightarrow> string result \<times> store" where
  "PutKey c s version nonce vault name keyMaterial =
    (if db_fault s = None \<and> tbl_get sec_key (tb_keys s) (vault, name, version) \<noteq> None
     then (Inl (unique_failed ''keyvault_keys''), s)
     else db_exec s version (s\<lparr>tb_keys := tb_keys s @
       [\<lparr>sec_vault = vault, sec_name = name, sec_sealed = Seal c (cr_master c) nonce keyMaterial,
         sec_version = version\<rparr>]\<rparr>))"

definition GetKey :: "crypto \<Rightarrow> store \<Rightarrow> string \<Rightarrow> string \<Rightarrow> (string \<times> string) option result" where
  "GetKey c s vault name =
    (case db_query s (latest_version (tb_keys s) vault name) of
       Inl e \<Rightarrow> Inl e
     | Inr None \<Rightarrow> Inr None
     | Inr (Some r) \<Rightarrow> prefix_error ''unseal key: ''
         (map_sum id (\<lambda>p. Some (p, sec_version r)) (Unseal c (cr_master c) (sec_sealed r))))"

text \<open>
  Deleting a secret keeps its latest version among the deleted ones and drops all versions.
  Recovering takes the one deleted last.
\<close>

definition SoftDeleteSecret ::
  "crypto \<Rightarrow> store \<Rightarrow> int \<Rightarrow> string \<Rightarrow> string \<Rightarrow> string \<Rightarrow> bool result \<times> store" where
  "SoftDeleteSecret c s now nonce vault name =
    (case GetSecret c s vault name of
       Inl e \<Rightarrow> (Inl e, s)
     | Inr None \<Rightarrow> (Inr False, s)
     | Inr (Some (val, version)) \<Rightarrow>
         db_exec s True (s\<lparr>
           tb_deleted_secrets := tbl_upsert
             (\<lambda>r. (sec_vault r, sec_name r, sec_version r))
             (\<lambda>old new. old\<lparr>sec_sealed := sec_sealed new, del_at := del_at new\<rparr>)
             \<lparr>sec_vault = vault, sec_name = name, sec_sealed = Seal c (cr_master c) nonce val,
              sec_version = version, del_at = seconds now\<rparr> (tb_deleted_secrets s),
           tb_secrets := tbl_delete (\<lambda>r. sec_vault r = vault \<and> sec_name r = name) (tb_secrets s)\<rparr>))"

definition last_deleted :: "deleted_secret_row list \<Rightarrow> string \<Rightarrow> string \<Rightarrow> deleted_secret_row option" where
  "last_deleted rows vault name =
    (case sort_key (\<lambda>r. - del_at r) (filter (\<lambda>r. sec_vault r = vault \<and> sec_name r = name) rows) of
       [] \<Rightarrow> None | r # rs \<Rightarrow> Some r)"

definition RecoverSecret ::
  "crypto \<Rightarrow> store \<Rightarrow> string \<Rightarrow> string \<Rightarrow> string option result \<times> store" where
  "RecoverSecret c s vault name =
    (case db_query s (last_deleted (tb_deleted_secrets s) vault name) of
       Inl e \<Rightarrow> (Inl e, s)
     | Inr None \<Rightarrow> (Inr None, s)
     | Inr (Some r) \<Rightarrow>
         (case Unseal c (cr_master c) (sec_sealed r) of
            Inl e \<Rightarrow> (Inl e, s)
          | Inr plain \<Rightarrow>
              if tbl_get sec_key (tb_secrets s) (vault, name, sec_version r) \<noteq> None
              then (Inl (unique_failed ''keyvault_secrets''), s)
              else db_exec s (Some (sec_version r)) (s\<lparr>
                tb_secrets := tb_secrets s @ [\<lparr>sec_vault = vault, sec_name = name,
                  sec_sealed = sec_sealed r, sec_version = sec_version r\<rparr>],
                tb_deleted_secrets := tbl_delete (\<lambda>d. sec_vault d = vault \<and> sec_name d = name \<and>
                  sec_version d = sec_version r) (tb_deleted_secrets s)\<rparr>)))"

section \<open>Service Bus\<close>

definition GetSBNamespaceKey :: "crypto \<Rightarrow> store \<Rightarrow> string \<Rightarrow> string option result" where
  "GetSBNamespaceKey c s namespace =
    key_by_name c s (tb_sb_namespaces s) ''unseal sas key: '' namespace"

definition UpsertServiceBusNamespace ::
  "crypto \<Rightarrow> store \<Rightarrow> string \<Rightarrow> string \<Rightarrow> string \<Rightarrow> string \<Rightarrow> string \<Rightarrow> string \<Rightarrow> string result \<times> store" where
  "UpsertServiceBusNamespace c s generated nonce subID rg name location =
    (case GetSBNamespaceKey c s name of
       Inl e \<Rightarrow> (Inl e, s)
     | Inr existing \<Rightarrow>
         (let sasKey = (case existing of Some k \<Rightarrow> k | None \<Rightarrow> generated) in
          db_exec s sasKey (s\<lparr>tb_sb_namespaces := upsert_account
            \<lparr>ac_subscription_id = subID, ac_resource_group = rg, ac_name = name,
             ac_location = default_location location,
             ac_sealed = Seal c (cr_master c) nonce sasKey\<rparr> (tb_sb_namespaces s)\<rparr>)))"

definition GetServiceBusNamespace :: "store \<Rightarrow> string \<Rightarrow> string \<Rightarrow> string \<Rightarrow> string option result" where
  "GetServiceBusNamespace s subID rg name =
    db_query s (map_option ac_location (tbl_get ac_key (tb_sb_namespaces s) (subID, rg, name)))"

definition GetServiceBusNamespaceByName :: "store \<Rightarrow> string \<Rightarrow> (string \<times> string \<times> string) option result" where
  "GetServiceBusNamespaceByName s name = scope_by_name s (tb_sb_namespaces s) name"

definition CreateServiceBusQueue :: "store \<Rightarrow> string \<Rightarrow> string \<Rightarrow> unit result \<times> store" where
  "CreateServiceBusQueue s namespace name =
    db_exec s () (s\<lparr>tb_sb_queues := tbl_insert_ignore id (namespace, name) (tb_sb_queues s)\<rparr>)"

definition EnqueueSBWithMeta ::
  "store \<Rightarrow> string \<Rightarrow> string \<Rightarrow> byte list \<Rightarrow> string \<Rightarrow> bool \<Rightarrow> unit result \<times> store" where
  "EnqueueSBWithMeta s namespace queue body sessionID deadLetter =
    db_exec s () (s\<lparr>tb_sb_messages := seq_insert
      \<lparr>sb_namespace = namespace, sb_queue = queue, sb_body = body, sb_session_id = sessionID,
       sb_dead_letter = (if deadLetter then 1 else 0)\<rparr> (tb_sb_messages s)\<rparr>)"

text \<open>\<open>EnqueueSB\<close> leaves the session and the dead-letter flag at the defaults of the columns.\<close>

definition EnqueueSB :: "store \<Rightarrow> string \<Rightarrow> string \<Rightarrow> byte list \<Rightarrow> unit result \<times> store" where
  "EnqueueSB s namespace queue body =
    db_exec s () (s\<lparr>tb_sb_messages := seq_insert
      \<lparr>sb_namespace = namespace, sb_queue = queue, sb_body = body, sb_session_id = [],
       sb_dead_letter = 0\<rparr> (tb_sb_messages s)\<rparr>)"

definition take_sb :: "store \<Rightarrow> (sb_message \<Rightarrow> bool) \<Rightarrow> byte list option result \<times> store" where
  "take_sb s P =
    (case db_query s (seq_first P (tb_sb_messages s)) of
       Inl e \<Rightarrow> (Inl e, s)
     | Inr None \<Rightarrow> (Inr None, s)
     | Inr (Some (i, m)) \<Rightarrow>
         db_exec s (Some (sb_body m)) (s\<lparr>tb_sb_messages := seq_delete i (tb_sb_messages s)\<rparr>))"

definition DequeueSB :: "store \<Rightarrow> string \<Rightarrow> string \<Rightarrow> byte list option result \<times> store" where
  "DequeueSB s namespace queue = take_sb s (\<lambda>m. sb_namespace m = namespace \<and> sb_queue m = queue)"

definition DequeueSBWithMeta ::
  "store \<Rightarrow> string \<Rightarrow> string \<Rightarrow> string \<Rightarrow> bool \<Rightarrow> byte list option result \<times> store" where
  "DequeueSBWithMeta s namespace queue sessionID deadLetter =
    (let dl = (if deadLetter then 1 else 0) in
     if sessionID \<noteq> [] then
       take_sb s (\<lambda>m. sb_namespace m = namespace \<and> sb_queue m = queue \<and> sb_dead_letter m = dl \<and>
         sb_session_id m = sessionID)
     else
       take_sb s (\<lambda>m. sb_namespace m = namespace \<and> sb_queue m = queue \<and> sb_dead_letter m = dl))"

definition CreateServiceBusTopic :: "store \<Rightarrow> string \<Rightarrow> string \<Rightarrow> unit result \<times> store" where
  "CreateServiceBusTopic s namespace name =
    db_exec s () (s\<lparr>tb_sb_topics := tbl_insert_ignore id (namespace, name) (tb_sb_topics s)\<rparr>)"

definition CreateServiceBusSubscription ::
  "store \<Rightarrow> string \<Rightarrow> string \<Rightarrow> string \<Rightarrow> string \<Rightarrow> unit result \<times> store" where
  "CreateServiceBusSubscription s namespace topic name filterSQL =
    db_exec s () (s\<lparr>tb_sb_subscriptions := tbl_insert_ignore
      (\<lambda>r. (sbs_namespace r, sbs_topic r, sbs_name r))
      \<lparr>sbs_namespace = namespace, sbs_topic = topic, sbs_name = name, sbs_filter_sql = filterSQL\<rparr>
      (tb_sb_subscriptions s)\<rparr>)"

definition ListServiceBusSubscriptions :: "store \<Rightarrow> string \<Rightarrow> string \<Rightarrow> string list result" where
  "ListServiceBusSubscriptions s namespace topic =
    db_query s (sort (map sbs_name
      (filter (\<lambda>r. sbs_namespace r = namespace \<and> sbs_topic r = topic) (tb_sb_subscriptions s))))"

definition insert_topic_message ::
  "store \<Rightarrow> string \<Rightarrow> string \<Rightarrow> string \<Rightarrow> byte list \<Rightarrow> unit result \<times> store" where
  "insert_topic_message s namespace topic subscription body =
    db_exec s () (s\<lparr>tb_sb_topic_messages := seq_insert
      \<lparr>sbt_namespace = namespace, sbt_topic = topic, sbt_subscription = subscription, sbt_body = body\<rparr>
      (tb_sb_topic_messages s)\<rparr>)"

fun insert_topic_messages ::
  "store \<Rightarrow> string \<Rightarrow> string \<Rightarrow> string list \<Rightarrow> byte list \<Rightarrow> unit result \<times> store" where
  "insert_topic_messages s namespace topic [] body = (Inr (), s)"
| "insert_topic_messages s namespace topic (sub # subs) body =
    (case insert_topic_message s namespace topic sub body of
       (Inl e, s') \<Rightarrow> (Inl e, s')
     | (Inr _, s') \<Rightarrow> insert_topic_messages s' namespace topic subs body)"

definition EnqueueSBTopic ::
  "store \<Rightarrow> string \<Rightarrow> string \<Rightarrow> string \<Rightarrow> byte list \<Rightarrow> unit result \<times> store" where
  "EnqueueSBTopic s namespace topic subscription body =
    (if subscription \<noteq> [] then insert_topic_message s namespace topic subscription body
     else (case ListServiceBusSubscriptions s namespace topic of
         Inl e \<Rightarrow> (Inl e, s)
       | Inr subs \<Rightarrow> insert_topic_messages s namespace topic subs body))"

definition DequeueSBTopic :: "store \<Rightarrow> string \<Rightarrow> string \<Rightarrow> string \<Rightarrow> byte list option result \<times> store" where
  "DequeueSBTopic s namespace topic subscription =
    (case db_query s (seq_first (\<lambda>m. sbt_namespace m = namespace \<and> sbt_topic m = topic \<and>
         sbt_subscription m = subscription) (tb_sb_topic_messages s)) of
       Inl e \<Rightarrow> (Inl e, s)
     | Inr None \<Rightarrow> (Inr None, s)
     | Inr (Some (i, m)) \<Rightarrow>
         db_exec s (Some (sbt_body m)) (s\<lparr>tb_sb_topic_messages := seq_delete i (tb_sb_topic_messages s)\<rparr>))"

end
