(* ===== verification/Store_Sealed.thy ===== *)
theory Store_Sealed
  imports Store_Data
begin

text \<open>
  What the store promises of the data it seals and of its blobs: the keys of named resources, the
  life of a secret, and the table of blobs as a map.
\<close>

section \<open>Sealed values\<close>

lemma unseal_seal:
  assumes "aead_opens c" "length nonce = 12"
  shows "Unseal c key (Seal c key nonce plaintext) = Inr plaintext"
  using assms by (simp add: Unseal_def Seal_def aead_opens_def)

definition lab_crypto :: crypto where
  "lab_crypto = \<lparr>cr_master = ''master'', aead_seal = (\<lambda>k n p. CHR ''T'' # p),
    aead_open = (\<lambda>k n ct. case ct of [] \<Rightarrow> None | t # p \<Rightarrow> if t = CHR ''T'' then Some p else None)\<rparr>"

lemma lab_crypto_opens: "aead_opens lab_crypto"
  by (simp add: aead_opens_def lab_crypto_def)

section \<open>Keys of named resources\<close>

text \<open>
  Every row of a name opens to the same key: the invariant that makes a lookup by name
  independent of the row it finds.
\<close>

definition keys_agree :: "crypto \<Rightarrow> account_row list \<Rightarrow> bool" where
  "keys_agree c rows \<longleftrightarrow> keys_distinct ac_key rows \<and>
    (\<forall>r \<in> set rows. \<exists>k. Unseal c (cr_master c) (ac_sealed r) = Inr k) \<and>
    (\<forall>r \<in> set rows. \<forall>r' \<in> set rows. ac_name r = ac_name r' \<longrightarrow>
      Unseal c (cr_master c) (ac_sealed r) = Unseal c (cr_master c) (ac_sealed r'))"

definition name_key :: "crypto \<Rightarrow> account_row list \<Rightarrow> string \<Rightarrow> string option" where
  "name_key c rows name =
    map_option (\<lambda>r. projr (Unseal c (cr_master c) (ac_sealed r))) (find (\<lambda>r. ac_name r = name) rows)"

lemma keys_agree_opens:
  "keys_agree c rows \<Longrightarrow> r \<in> set rows \<Longrightarrow> \<exists>k. Unseal c (cr_master c) (ac_sealed r) = Inr k"
  unfolding keys_agree_def by (elim conjE) (erule (1) bspec)

lemma keys_agree_same:
  "keys_agree c rows \<Longrightarrow> r \<in> set rows \<Longrightarrow> r' \<in> set rows \<Longrightarrow> ac_name r = ac_name r' \<Longrightarrow>
   Unseal c (cr_master c) (ac_sealed r) = Unseal c (cr_master c) (ac_sealed r')"
  unfolding keys_agree_def by blast

lemma key_by_name_agree:
  assumes "keys_agree c rows" "db_fault s = None"
  shows "key_by_name c s rows what name = Inr (name_key c rows name)"
proof (cases "find (\<lambda>r. ac_name r = name) rows")
  case (Some r)
  then have "r \<in> set rows" using find_SomeD by metis
  then obtain k where "Unseal c (cr_master c) (ac_sealed r) = Inr k"
    using keys_agree_opens[OF assms(1)] by blast
  with Some assms(2) show ?thesis
    by (simp add: key_by_name_def name_key_def prefix_error_def)
qed (simp add: key_by_name_def name_key_def assms(2))

lemma name_key_in:
  assumes "keys_agree c rows" "r \<in> set rows"
  shows "name_key c rows (ac_name r) = Some (projr (Unseal c (cr_master c) (ac_sealed r)))"
proof -
  obtain r' where r': "find (\<lambda>x. ac_name x = ac_name r) rows = Some r'"
    using find_exists[OF assms(2), of "\<lambda>x. ac_name x = ac_name r"] by auto
  then have "r' \<in> set rows" "ac_name r' = ac_name r" using find_SomeD by fastforce+
  with assms have "Unseal c (cr_master c) (ac_sealed r') = Unseal c (cr_master c) (ac_sealed r)"
    unfolding keys_agree_def by metis
  with r' show ?thesis by (simp add: name_key_def)
qed

lemma set_upsert_account:
  "r \<in> set (upsert_account new rows) \<Longrightarrow>
   (r \<in> set rows \<and> ac_key r \<noteq> ac_key new) \<or> (ac_key r = ac_key new \<and> ac_sealed r = ac_sealed new)"
  by (auto simp: upsert_account_def tbl_upsert_def ac_key_def list_ex_iff split: if_splits)

lemma upsert_account_has: "\<exists>r \<in> set (upsert_account new rows). ac_key r = ac_key new \<and> ac_sealed r = ac_sealed new"
proof (cases "list_ex (\<lambda>r. ac_key r = ac_key new) rows")
  case True
  then obtain r where "r \<in> set rows" "ac_key r = ac_key new" by (auto simp: list_ex_iff)
  then show ?thesis
    by (intro bexI[of _ "r\<lparr>ac_location := ac_location new, ac_sealed := ac_sealed new\<rparr>"])
      (auto simp: upsert_account_def tbl_upsert_def True ac_key_def)
qed (simp add: upsert_account_def tbl_upsert_def)

lemma upsert_account_keeps:
  "r \<in> set rows \<Longrightarrow> ac_key r \<noteq> ac_key new \<Longrightarrow> r \<in> set (upsert_account new rows)"
  by (force simp: upsert_account_def tbl_upsert_def)

lemma ac_key_name: "ac_key r = ac_key r' \<Longrightarrow> ac_name r = ac_name r'"
  by (simp add: ac_key_def)

lemma upsert_account_agrees:
  assumes "keys_agree c rows" "Unseal c (cr_master c) (ac_sealed new) = Inr k"
    and "name_key c rows (ac_name new) \<in> {None, Some k}"
  shows "keys_agree c (upsert_account new rows)"
    and "name_key c (upsert_account new rows) name =
      (if name = ac_name new then Some k else name_key c rows name)"
proof -
  have old: "Unseal c (cr_master c) (ac_sealed r) = Inr k" if "r \<in> set rows" "ac_name r = ac_name new" for r
  proof -
    obtain k' where k': "Unseal c (cr_master c) (ac_sealed r) = Inr k'"
      using keys_agree_opens[OF assms(1) \<open>r \<in> set rows\<close>] by blast
    have "name_key c rows (ac_name new) = Some k'"
      using name_key_in[OF assms(1) that(1)] unfolding k' that(2) by simp
    with assms(3) have "k' = k" by simp
    with k' show ?thesis by simp
  qed
  have opens: "Unseal c (cr_master c) (ac_sealed r) = Inr k"
    if "r \<in> set (upsert_account new rows)" "ac_name r = ac_name new" for r
    using set_upsert_account[OF that(1)]
  proof
    assume "r \<in> set rows \<and> ac_key r \<noteq> ac_key new"
    then show ?thesis using old that(2) by blast
  next
    assume "ac_key r = ac_key new \<and> ac_sealed r = ac_sealed new"
    then show ?thesis using assms(2) by simp
  qed
  have other: "r \<in> set rows" if "r \<in> set (upsert_account new rows)" "ac_name r \<noteq> ac_name new" for r
    using set_upsert_account[OF that(1)] that(2) ac_key_name by blast
  have "keys_distinct ac_key (upsert_account new rows)"
    unfolding upsert_account_def
  proof (rule keys_distinct_upsert)
    show "keys_distinct ac_key rows" using assms(1) unfolding keys_agree_def by (rule conjunct1)
  qed (simp_all add: ac_key_def)
  then show agree: "keys_agree c (upsert_account new rows)"
    unfolding keys_agree_def
  proof (intro conjI ballI impI)
    fix r assume r: "r \<in> set (upsert_account new rows)"
    show "\<exists>k. Unseal c (cr_master c) (ac_sealed r) = Inr k"
    proof (cases "ac_name r = ac_name new")
      case True
      then show ?thesis using opens[OF r] by blast
    next
      case False
      then show ?thesis by (rule keys_agree_opens[OF assms(1) other[OF r]])
    qed
    fix r' assume r': "r' \<in> set (upsert_account new rows)" and same: "ac_name r = ac_name r'"
    show "Unseal c (cr_master c) (ac_sealed r) = Unseal c (cr_master c) (ac_sealed r')"
    proof (cases "ac_name r' = ac_name new")
      case True
      then show ?thesis using opens[OF r] opens[OF r'] same by simp
    next
      case False
      then show ?thesis using keys_agree_same[OF assms(1) other[OF r] other[OF r']] same by simp
    qed
  qed
  show "name_key c (upsert_account new rows) name =
      (if name = ac_name new then Some k else name_key c rows name)"
  proof (cases "name = ac_name new")
    case True
    obtain r where "r \<in> set (upsert_account new rows)" "ac_key r = ac_key new"
      using upsert_account_has by blast
    with name_key_in[OF agree, of r] opens[of r] True ac_key_name[of r new] show ?thesis by simp
  next
    case False
    show ?thesis
    proof (cases "\<exists>r \<in> set rows. ac_name r = name")
      case True
      then obtain r where r: "r \<in> set rows" "ac_name r = name" by blast
      then have "r \<in> set (upsert_account new rows)"
        using upsert_account_keeps ac_key_name False by metis
      with name_key_in[OF agree, of r] name_key_in[OF assms(1) r(1)] r False show ?thesis by simp
    next
      case no: False
      then have "find (\<lambda>r. ac_name r = name) (upsert_account new rows) = None"
        using other False by (auto simp: find_None_iff)
      moreover have "find (\<lambda>r. ac_name r = name) rows = None"
        using no by (auto simp: find_None_iff)
      ultimately show ?thesis using False by (simp add: name_key_def)
    qed
  qed
qed

definition accounts_ok :: "crypto \<Rightarrow> store \<Rightarrow> bool" where
  "accounts_ok c s \<longleftrightarrow> db_fault s = None \<and> aead_opens c \<and>
    keys_agree c (tb_storage_accounts s) \<and> keys_agree c (tb_sb_namespaces s)"

lemma GetStorageAccountKey_ok:
  "accounts_ok c s \<Longrightarrow> GetStorageAccountKey c s name = Inr (name_key c (tb_storage_accounts s) name)"
  by (simp add: accounts_ok_def GetStorageAccountKey_def key_by_name_agree)

lemma GetSBNamespaceKey_ok:
  "accounts_ok c s \<Longrightarrow> GetSBNamespaceKey c s name = Inr (name_key c (tb_sb_namespaces s) name)"
  by (simp add: accounts_ok_def GetSBNamespaceKey_def key_by_name_agree)

text \<open>
  Creating or updating a storage account answers with the key that lookups by its name then
  find, leaves the keys of all other names alone and never changes a key that a name already has;
  the rows of a name go on holding one key.
\<close>

theorem storage_account_key_stable:
  assumes "accounts_ok c s" "length nonce = 12"
    and "UpsertStorageAccount c s generated nonce sub rg name location loopback = (Inr key, s')"
  shows "accounts_ok c s' \<and> GetStorageAccountKey c s name \<in> {Inr None, Inr (Some key)} \<and>
    (\<forall>other. GetStorageAccountKey c s' other =
      (if other = name then Inr (Some key) else GetStorageAccountKey c s other))"
proof -
  let ?rows = "tb_storage_accounts s"
  let ?key = "case name_key c ?rows name of Some k \<Rightarrow> k | None \<Rightarrow> generated"
  let ?new = "\<lparr>ac_subscription_id = sub, ac_resource_group = rg, ac_name = name,
    ac_location = default_location location, ac_sealed = Seal c (cr_master c) nonce ?key\<rparr>"
  have fault: "db_fault s = None" using assms(1) by (simp add: accounts_ok_def)
  have key: "key = ?key" and s': "s' = s\<lparr>tb_storage_accounts := upsert_account ?new ?rows\<rparr>"
    using assms(3) fault
    by (auto simp: UpsertStorageAccount_def GetStorageAccountKey_ok[OF assms(1)] Let_def split: if_splits)
  have "Unseal c (cr_master c) (ac_sealed ?new) = Inr ?key"
    using unseal_seal[of c nonce] assms(1,2) by (simp add: accounts_ok_def)
  moreover have "name_key c ?rows (ac_name ?new) \<in> {None, Some ?key}"
    by (auto split: option.split)
  ultimately have agree: "keys_agree c (upsert_account ?new ?rows)"
    "name_key c (upsert_account ?new ?rows) other = (if other = name then Some ?key else name_key c ?rows other)"
    for other
    using upsert_account_agrees[of c ?rows ?new ?key] assms(1) by (auto simp: accounts_ok_def)
  have ok: "accounts_ok c s'" using assms(1) agree(1) by (simp add: accounts_ok_def s')
  have "GetStorageAccountKey c s' other =
      (if other = name then Inr (Some key) else GetStorageAccountKey c s other)" for other
    unfolding GetStorageAccountKey_ok[OF ok] GetStorageAccountKey_ok[OF assms(1)]
    by (simp add: key s' agree(2))
  moreover have "GetStorageAccountKey c s name \<in> {Inr None, Inr (Some key)}"
    by (cases "name_key c ?rows name") (simp_all add: GetStorageAccountKey_ok[OF assms(1)] key)
  ultimately show ?thesis using ok by blast
qed

theorem storage_account_key_stable_witness:
  "accounts_ok lab_crypto (snd (UpsertStorageAccount lab_crypto empty_store ''k'' ''nonce-of-12b'' ''s'' ''g'' ''n'' [] True)) \<and>
   GetStorageAccountKey lab_crypto empty_store ''n'' \<in> {Inr None, Inr (Some ''k'')} \<and>
   (\<forall>other. GetStorageAccountKey lab_crypto
       (snd (UpsertStorageAccount lab_crypto empty_store ''k'' ''nonce-of-12b'' ''s'' ''g'' ''n'' [] True)) other =
     (if other = ''n'' then Inr (Some ''k'') else GetStorageAccountKey lab_crypto empty_store other))"
proof (rule storage_account_key_stable)
  show "accounts_ok lab_crypto empty_store"
    by (simp add: accounts_ok_def lab_crypto_opens empty_store_def keys_agree_def keys_distinct_def)
  show "UpsertStorageAccount lab_crypto empty_store ''k'' ''nonce-of-12b'' ''s'' ''g'' ''n'' [] True =
      (Inr ''k'', snd (UpsertStorageAccount lab_crypto empty_store ''k'' ''nonce-of-12b'' ''s'' ''g'' ''n'' [] True))"
    by (simp add: UpsertStorageAccount_def GetStorageAccountKey_def key_by_name_def empty_store_def
        AzuriteWellKnownCredentials_def Let_def)
qed simp

section \<open>Secrets\<close>

lemma latest_snoc:
  "latest_version (rows @ [r]) vault name =
    (if sec_vault r = vault \<and> sec_name r = name then Some r else latest_version rows vault name)"
  by (simp add: latest_version_def)

lemma find_filter_weaker: "(\<And>x. P x \<Longrightarrow> Q x) \<Longrightarrow> find P (filter Q xs) = find P xs"
  by (induction xs) auto

lemma find_filter_none: "(\<And>x. P x \<Longrightarrow> \<not> Q x) \<Longrightarrow> find P (filter Q xs) = None"
  by (auto simp: find_None_iff)

lemma latest_delete:
  "latest_version (tbl_delete (\<lambda>r. sec_vault r = vault \<and> sec_name r = name) rows) vault' name' =
    (if vault' = vault \<and> name' = name then None else latest_version rows vault' name')"
  unfolding latest_version_def tbl_delete_def rev_filter
  by (auto intro!: find_filter_weaker find_filter_none simp del: de_Morgan_conj)

lemma put_secret_get:
  assumes "db_fault s = None" "aead_opens c" "length nonce = 12"
    and "PutSecret c s version nonce vault name val = (Inr v, s')"
  shows "v = version" "db_fault s' = None" "GetSecret c s' vault name = Inr (Some (val, version))"
    "tb_deleted_secrets s' = tb_deleted_secrets s"
    "vault' \<noteq> vault \<or> name' \<noteq> name \<Longrightarrow> GetSecret c s' vault' name' = GetSecret c s vault' name'"
  using assms unseal_seal[OF assms(2,3)]
  by (auto simp: PutSecret_def GetSecret_def latest_snoc prefix_error_def split: if_splits)

lemma last_deleted_newest:
  assumes "r \<in> set rows" "sec_vault r = vault" "sec_name r = name"
    and "\<And>r'. r' \<in> set rows \<Longrightarrow> sec_vault r' = vault \<Longrightarrow> sec_name r' = name \<Longrightarrow> r' \<noteq> r \<Longrightarrow>
      del_at r' < del_at r"
  shows "last_deleted rows vault name = Some r"
proof -
  let ?rows = "sort_key (\<lambda>r. - del_at r) (filter (\<lambda>r. sec_vault r = vault \<and> sec_name r = name) rows)"
  have r: "r \<in> set ?rows" using assms(1-3) by simp
  then obtain x xs where x: "?rows = x # xs" by (cases ?rows) auto
  have "sorted (map (\<lambda>r. - del_at r) ?rows)" by simp
  with r x have "del_at r \<le> del_at x" by (fastforce simp del: sorted_sort_key)
  moreover have "x \<in> set ?rows" using x by simp
  then have "x \<in> set rows" "sec_vault x = vault" "sec_name x = name" by auto
  ultimately have "x = r" using assms(4)[of x] by fastforce
  with x show ?thesis by (simp add: last_deleted_def)
qed


definition deleted_before :: "store \<Rightarrow> string \<Rightarrow> string \<Rightarrow> int \<Rightarrow> bool" where
  "deleted_before s vault name now \<longleftrightarrow>
    (\<forall>r \<in> set (tb_deleted_secrets s). sec_vault r = vault \<and> sec_name r = name \<longrightarrow> del_at r < seconds now)"

lemma soft_delete_recover:
  assumes "db_fault s = None" "aead_opens c" "length nonce = 12"
    and "GetSecret c s vault name = Inr (Some (val, version))"
    and "deleted_before s vault name now"
    and "SoftDeleteSecret c s now nonce vault name = (Inr b, s')"
  shows "b \<and> GetSecret c s' vault name = Inr None \<and>
    (\<exists>s''. RecoverSecret c s' vault name = (Inr (Some version), s'') \<and>
      GetSecret c s'' vault name = Inr (Some (val, version)))"
proof -
  define row where "row = \<lparr>sec_vault = vault, sec_name = name,
    sec_sealed = Seal c (cr_master c) nonce val, sec_version = version, del_at = seconds now\<rparr>"
  let ?key = "\<lambda>r. (sec_vault r, sec_name r, sec_version r)"
  let ?upd = "\<lambda>old new :: deleted_secret_row. old\<lparr>sec_sealed := sec_sealed new, del_at := del_at new\<rparr>"
  define dels where "dels = tbl_upsert ?key ?upd row (tb_deleted_secrets s)"
  define secs where "secs = tbl_delete (\<lambda>r. sec_vault r = vault \<and> sec_name r = name) (tb_secrets s)"
  have b: b and s': "s' = s\<lparr>tb_deleted_secrets := dels, tb_secrets := secs\<rparr>"
    using assms(6) assms(1,4)
    by (simp_all add: SoftDeleteSecret_def row_def dels_def secs_def)
  have upd: "?upd old row = row" if "?key old = ?key row" for old
    using that by (cases old) (simp add: row_def)
  have "row \<in> set dels"
  proof (cases "list_ex (\<lambda>r. ?key r = ?key row) (tb_deleted_secrets s)")
    case True
    then obtain old where "old \<in> set (tb_deleted_secrets s)" "?key old = ?key row" by (auto simp: list_ex_iff)
    with upd[of old] show ?thesis
      unfolding dels_def tbl_upsert_def by (auto simp: True image_iff intro!: bexI[of _ old])
  qed (simp add: dels_def tbl_upsert_def)
  moreover have "del_at r < del_at row"
    if "r \<in> set dels" "sec_vault r = vault" "sec_name r = name" "r \<noteq> row" for r
  proof -
    have "r \<in> set (tb_deleted_secrets s)"
      using that(1,4) upd by (auto simp: dels_def tbl_upsert_def split: if_splits)
    with assms(5) that show ?thesis by (auto simp: deleted_before_def row_def)
  qed
  ultimately have last: "last_deleted dels vault name = Some row"
    by (intro last_deleted_newest) (auto simp: row_def)
  have none: "tbl_get sec_key secs (vault, name, version) = None"
    by (auto simp: secs_def tbl_get_def tbl_delete_def find_None_iff sec_key_def)
  have "GetSecret c s' vault name = Inr None"
    using assms(1) by (simp add: s' GetSecret_def secs_def latest_delete)
  moreover have "\<exists>s''. RecoverSecret c s' vault name = (Inr (Some version), s'') \<and>
      GetSecret c s'' vault name = Inr (Some (val, version))"
    using assms(1) last none unseal_seal[OF assms(2,3), of "cr_master c" val]
    by (simp add: s' RecoverSecret_def row_def GetSecret_def latest_snoc prefix_error_def)
  ultimately show ?thesis using b by blast
qed

text \<open>
  C18: a secret that was set is read back with its version; after it is deleted it is not found,
  and recovering it restores that value and version.
\<close>

theorem secret_lifecycle:
  assumes "db_fault s = None" "aead_opens c" "length nonce = 12" "length nonce' = 12"
    and "deleted_before s vault name now"
    and "PutSecret c s version nonce vault name val = (Inr v, s1)"
    and "SoftDeleteSecret c s1 now nonce' vault name = (Inr b, s2)"
  shows "GetSecret c s1 vault name = Inr (Some (val, version)) \<and>
    b \<and> GetSecret c s2 vault name = Inr None \<and>
    (\<exists>s3. RecoverSecret c s2 vault name = (Inr (Some version), s3) \<and>
      GetSecret c s3 vault name = Inr (Some (val, version)))"
proof -
  note put = put_secret_get[OF assms(1,2,3,6)]
  have "deleted_before s1 vault name now"
    using assms(5) by (simp add: deleted_before_def put(4))
  from soft_delete_recover[OF put(2) assms(2,4) put(3) this assms(7)] put(3) show ?thesis by blast
qed

definition lab_put_secret :: "string result \<times> store" where
  "lab_put_secret = PutSecret lab_crypto empty_store ''v1'' ''nonce-of-12b'' ''kv'' ''s'' ''x''"

definition lab_delete_secret :: "bool result \<times> store" where
  "lab_delete_secret = SoftDeleteSecret lab_crypto (snd lab_put_secret) 0 ''nonce-of-12b'' ''kv'' ''s''"

theorem secret_lifecycle_witness:
  "GetSecret lab_crypto (snd lab_put_secret) ''kv'' ''s'' = Inr (Some (''x'', ''v1'')) \<and>
   True \<and> GetSecret lab_crypto (snd lab_delete_secret) ''kv'' ''s'' = Inr None \<and>
   (\<exists>s3. RecoverSecret lab_crypto (snd lab_delete_secret) ''kv'' ''s'' = (Inr (Some ''v1''), s3) \<and>
     GetSecret lab_crypto s3 ''kv'' ''s'' = Inr (Some (''x'', ''v1'')))"
proof (rule secret_lifecycle)
  have put: "PutSecret lab_crypto empty_store ''v1'' ''nonce-of-12b'' ''kv'' ''s'' ''x'' = (Inr ''v1'', snd lab_put_secret)"
    by (simp add: lab_put_secret_def PutSecret_def empty_store_def tbl_get_def)
  show "PutSecret lab_crypto empty_store ''v1'' ''nonce-of-12b'' ''kv'' ''s'' ''x'' = (Inr ''v1'', snd lab_put_secret)"
    by (rule put)
  have "GetSecret lab_crypto (snd lab_put_secret) ''kv'' ''s'' = Inr (Some (''x'', ''v1''))"
    by (rule put_secret_get(3)[OF _ lab_crypto_opens _ put]) (simp_all add: empty_store_def)
  moreover have "db_fault (snd lab_put_secret) = None"
    by (rule put_secret_get(2)[OF _ lab_crypto_opens _ put]) (simp_all add: empty_store_def)
  ultimately show "SoftDeleteSecret lab_crypto (snd lab_put_secret) 0 ''nonce-of-12b'' ''kv'' ''s'' =
      (Inr True, snd lab_delete_secret)"
    by (simp add: lab_delete_secret_def SoftDeleteSecret_def)
qed (simp_all add: lab_crypto_opens empty_store_def deleted_before_def)

section \<open>Blobs\<close>

type_synonym blob_key = "string \<times> string \<times> string"

definition blob_get :: "store \<Rightarrow> blob_key \<Rightarrow> (byte list \<times> string) option" where
  "blob_get s = (\<lambda>(account, container, name). projr (GetBlob s account container name))"

definition blob_put :: "store \<Rightarrow> blob_key \<Rightarrow> byte list \<times> string \<Rightarrow> store" where
  "blob_put s = (\<lambda>(account, container, name) (content, ct). snd (PutBlob s account container name content ct))"

definition blob_del :: "store \<Rightarrow> blob_key \<Rightarrow> store" where
  "blob_del s = (\<lambda>(account, container, name). snd (DeleteBlob s account container name))"

definition blob_norm :: "byte list \<times> string \<Rightarrow> byte list \<times> string" where
  "blob_norm = (\<lambda>(content, ct). (content, if ct = [] then ''application/octet-stream'' else ct))"

lemma blob_upsert:
  "tbl_get bl_key (tbl_upsert bl_key (\<lambda>old new. new) row t) k = (if k = bl_key row then Some row else tbl_get bl_key t k)"
  by (subst tbl_get_upsert) (auto split: option.split)

interpretation blob_table: keyed_table blob_get blob_put blob_del blob_norm "\<lambda>s. db_fault s = None"
proof unfold_locales
  fix s :: store and k k' :: blob_key and v :: "byte list \<times> string"
  assume ok: "db_fault s = None"
  obtain a c n where k: "k = (a, c, n)" by (cases k)
  obtain a' c' n' where k': "k' = (a', c', n')" by (cases k')
  obtain b ct where v: "v = (b, ct)" by (cases v)
  show "blob_get (blob_put s k v) k' = (if k' = k then Some (blob_norm v) else blob_get s k')"
    using ok by (auto simp: blob_get_def blob_put_def k k' v GetBlob_def PutBlob_def blob_upsert
        bl_key_def blob_norm_def)
  show "blob_get (blob_del s k) k' = (if k' = k then None else blob_get s k')"
    using ok by (auto simp: blob_get_def blob_del_def k k' GetBlob_def DeleteBlob_def tbl_get_delete Let_def)
  show "db_fault (blob_put s k v) = None" "db_fault (blob_del s k) = None"
    using ok by (simp_all add: blob_put_def blob_del_def k v PutBlob_def DeleteBlob_def Let_def)
qed

text \<open>
  Deleting a container removes all its blobs and no other blob, and takes it off the list of
  containers of its account.
\<close>

theorem container_deletion:
  assumes "db_fault s = None" "DeleteContainer s account container = (Inr u, s')"
  shows "ListBlobs s' account container = Inr [] \<and>
    blob_get s' (a, c, n) = (if a = account \<and> c = container then None else blob_get s (a, c, n)) \<and>
    ListContainers s' a = map_sum id
      (\<lambda>names. if a = account then filter (\<lambda>x. x \<noteq> container) names else names) (ListContainers s a)"
proof -
  have s': "s' = s\<lparr>tb_blobs := tbl_delete (\<lambda>r. bl_account r = account \<and> bl_container r = container) (tb_blobs s),
      tb_blob_containers := tbl_delete (\<lambda>r. r = (account, container)) (tb_blob_containers s)\<rparr>"
    using assms by (simp add: DeleteContainer_def)
  have get: "tbl_get bl_key (tbl_delete (\<lambda>r. bl_account r = account \<and> bl_container r = container) t) (a, c, n) =
      (if a = account \<and> c = container then None else tbl_get bl_key t (a, c, n))" for t
    by (induction t) (auto simp: tbl_get_def tbl_delete_def bl_key_def)
  have names: "map snd (filter (\<lambda>(x, n). x = a) (tbl_delete (\<lambda>r. r = (account, container)) t)) =
      (if a = account then filter (\<lambda>x. x \<noteq> container) (map snd (filter (\<lambda>(x, n). x = a) t))
       else map snd (filter (\<lambda>(x, n). x = a) t))" for t
    by (induction t) (auto simp: tbl_delete_def)
  have "sort (filter P xs) = filter P (sort xs)" for P and xs :: "string list"
    by (simp add: filter_sort)
  then show ?thesis
    using assms(1) by (auto simp: s' ListBlobs_def blob_get_def GetBlob_def ListContainers_def names get)
      (auto simp: tbl_delete_def)
qed

theorem container_deletion_witness:
  "ListBlobs (snd (DeleteContainer empty_store ''a'' ''c'')) ''a'' ''c'' = Inr [] \<and>
   blob_get (snd (DeleteContainer empty_store ''a'' ''c'')) (''a'', ''d'', ''b'') =
     (if ''a'' = ''a'' \<and> ''d'' = ''c'' then None else blob_get empty_store (''a'', ''d'', ''b'')) \<and>
   ListContainers (snd (DeleteContainer empty_store ''a'' ''c'')) ''a'' = map_sum id
     (\<lambda>names. if ''a'' = ''a'' then filter (\<lambda>x. x \<noteq> ''c'') names else names) (ListContainers empty_store ''a'')"
proof (rule container_deletion)
  show "db_fault empty_store = None" by (simp add: empty_store_def)
  show "DeleteContainer empty_store ''a'' ''c'' = (Inr (), snd (DeleteContainer empty_store ''a'' ''c''))"
    by (simp add: DeleteContainer_def empty_store_def)
qed

end
