(* ===== verification/Store_Queues.thy ===== *)
theory Store_Queues
  imports Store_Data
begin

text \<open>
  What the store promises of its queues: Service Bus queues are first in, first out, a topic fans
  out to its subscriptions, a storage queue hides a dequeued message until its timeout.
\<close>

section \<open>Queues\<close>

text \<open>A queue is the rows of a message table that satisfy a predicate, in the order of their ids.\<close>

lemma seq_take:
  assumes "seq_ok t" "seq_select P t = m # ms"
  obtains i where "seq_first P t = Some (i, m)" "seq_ok (seq_delete i t)"
    "seq_select P (seq_delete i t) = ms"
    "\<And>Q. \<not> Q m \<Longrightarrow> seq_select Q (seq_delete i t) = seq_select Q t"
proof -
  obtain i r where f: "seq_first P t = Some (i, r)"
    using seq_first_None[of P t] assms(2) by (cases "seq_first P t") auto
  have "r = m" "seq_select P (seq_delete i t) = ms"
    using seq_first_Some(2)[OF assms(1) f] assms(2) by auto
  then show ?thesis
    using that f seq_first_Some(3)[OF assms(1) f] seq_ok_delete[OF assms(1)] by blast
qed

lemma seq_first_head: "seq_ok t \<Longrightarrow> seq_select P t = m # ms \<Longrightarrow> \<exists>i. seq_first P t = Some (i, m)"
  by (erule (1) seq_take) blast

definition messages_ok :: "store \<Rightarrow> bool" where
  "messages_ok s \<longleftrightarrow> db_fault s = None \<and> seq_ok (tb_sb_messages s) \<and>
    seq_ok (tb_sb_topic_messages s) \<and> seq_ok (tb_queue_messages s)"

text \<open>Service Bus queues as the AMQP server uses them.\<close>

definition sb_enq :: "store \<Rightarrow> string \<times> string \<Rightarrow> byte list \<Rightarrow> store" where
  "sb_enq s k body = snd (EnqueueSB s (fst k) (snd k) body)"

definition sb_deq :: "store \<Rightarrow> string \<times> string \<Rightarrow> byte list option \<times> store" where
  "sb_deq s k = apfst projr (DequeueSB s (fst k) (snd k))"

definition sb_contents :: "store \<Rightarrow> string \<times> string \<Rightarrow> byte list list" where
  "sb_contents s k = map sb_body
    (seq_select (\<lambda>m. sb_namespace m = fst k \<and> sb_queue m = snd k) (tb_sb_messages s))"

interpretation sb_queues: fifo_queues sb_enq sb_deq sb_contents messages_ok
proof unfold_locales
  fix s k k' and m :: "byte list" and ms
  assume ok: "messages_ok s"
  let ?P = "\<lambda>m. sb_namespace m = fst k \<and> sb_queue m = snd k"
  show "messages_ok (sb_enq s k m)"
    using ok by (simp add: sb_enq_def EnqueueSB_def messages_ok_def seq_ok_insert)
  show "sb_contents (sb_enq s k m) k' = sb_contents s k' @ (if k' = k then [m] else [])"
    using ok by (auto simp: sb_enq_def sb_contents_def EnqueueSB_def messages_ok_def seq_select_insert
        prod_eq_iff)
  show "sb_deq s k = (None, s)" if "sb_contents s k = []"
  proof -
    have "seq_first ?P (tb_sb_messages s) = None"
      using that by (simp add: seq_first_None sb_contents_def)
    with ok show ?thesis by (simp add: sb_deq_def DequeueSB_def take_sb_def messages_ok_def)
  qed
  show "\<exists>s'. sb_deq s k = (Some m, s') \<and> messages_ok s' \<and> sb_contents s' k = ms \<and>
      (\<forall>k'. k' \<noteq> k \<longrightarrow> sb_contents s' k' = sb_contents s k')" if c: "sb_contents s k = m # ms"
  proof -
    obtain r rs where r: "seq_select ?P (tb_sb_messages s) = r # rs" "sb_body r = m" "map sb_body rs = ms"
      using c by (auto simp: sb_contents_def)
    have "seq_ok (tb_sb_messages s)" using ok by (simp add: messages_ok_def)
    obtain i where i: "seq_first ?P (tb_sb_messages s) = Some (i, r)"
      "seq_ok (seq_delete i (tb_sb_messages s))" "seq_select ?P (seq_delete i (tb_sb_messages s)) = rs"
      "\<And>Q. \<not> Q r \<Longrightarrow> seq_select Q (seq_delete i (tb_sb_messages s)) = seq_select Q (tb_sb_messages s)"
      by (rule seq_take[OF \<open>seq_ok (tb_sb_messages s)\<close> r(1)]) rule
    have "?P r" using seq_first_Some(1)[OF \<open>seq_ok (tb_sb_messages s)\<close> i(1)] .
    then have "\<not> (sb_namespace r = fst k' \<and> sb_queue r = snd k')" if "k' \<noteq> k" for k'
      using that by (cases k; cases k') auto
    then have keep: "sb_contents (s\<lparr>tb_sb_messages := seq_delete i (tb_sb_messages s)\<rparr>) k' = sb_contents s k'"
      if "k' \<noteq> k" for k'
      using that i(4)[of "\<lambda>m. sb_namespace m = fst k' \<and> sb_queue m = snd k'"] by (simp add: sb_contents_def)
    have "sb_deq s k = (Some m, s\<lparr>tb_sb_messages := seq_delete i (tb_sb_messages s)\<rparr>)"
      using ok i(1) r(2) by (simp add: sb_deq_def DequeueSB_def take_sb_def messages_ok_def)
    moreover have "messages_ok (s\<lparr>tb_sb_messages := seq_delete i (tb_sb_messages s)\<rparr>)"
      using ok i(2) by (simp add: messages_ok_def)
    moreover have "sb_contents (s\<lparr>tb_sb_messages := seq_delete i (tb_sb_messages s)\<rparr>) k = ms"
      using i(3) r(3) by (simp add: sb_contents_def)
    ultimately show ?thesis using keep by blast
  qed
qed

text \<open>
  C19: a Service Bus queue gives its messages back in the order they were sent, each once,
  however sends to other queues are interleaved.
\<close>

theorem sb_fifo:
  assumes "messages_ok s" "sb_contents s k = []"
  shows "fst (deq_many sb_deq (length kms) (enq_all sb_enq s kms) k) =
    map snd (filter (\<lambda>(k', m). k' = k) kms)"
  by (rule sb_queues.first_in_first_out[OF assms])

theorem sb_fifo_witness:
  "fst (deq_many sb_deq (length [((''n'', ''q''), [1]), ((''n'', ''r''), [2]), ((''n'', ''q''), [3 :: byte])])
     (enq_all sb_enq empty_store [((''n'', ''q''), [1]), ((''n'', ''r''), [2]), ((''n'', ''q''), [3])]) (''n'', ''q'')) =
   map snd (filter (\<lambda>(k', m). k' = (''n'', ''q'')) [((''n'', ''q''), [1]), ((''n'', ''r''), [2]), ((''n'', ''q''), [3])])"
  by (rule sb_fifo) (simp_all add: messages_ok_def sb_contents_def empty_store_def seq_ok_empty seq_select_def)

text \<open>
  Receiving over AMQP does not look at the dead-letter flag: a message that was
  dead-lettered is delivered like any other.
\<close>

theorem dead_letters_are_delivered:
  assumes "messages_ok s" "sb_contents s (ns, q) = []"
  shows "fst (DequeueSB (snd (EnqueueSBWithMeta s ns q body sid True)) ns q) = Inr (Some body)"
proof -
  let ?s = "snd (EnqueueSBWithMeta s ns q body sid True)"
  have ok: "messages_ok ?s"
    using assms(1) by (simp add: EnqueueSBWithMeta_def messages_ok_def seq_ok_insert)
  have "sb_contents ?s (ns, q) = [body]"
    using assms by (simp add: EnqueueSBWithMeta_def messages_ok_def sb_contents_def seq_select_insert)
  from sb_queues.deq_Cons[OF ok this] have "fst (sb_deq ?s (ns, q)) = Some body" by auto
  then have "projr (fst (DequeueSB ?s ns q)) = Some body" by (simp add: sb_deq_def)
  moreover have "\<exists>v. fst (DequeueSB ?s ns q) = Inr v"
    using ok by (auto simp: DequeueSB_def take_sb_def messages_ok_def split: option.split)
  ultimately show ?thesis by auto
qed

theorem dead_letters_are_delivered_witness:
  "fst (DequeueSB (snd (EnqueueSBWithMeta empty_store ''n'' ''q'' [1] [] True)) ''n'' ''q'') = Inr (Some [1])"
  by (rule dead_letters_are_delivered)
    (simp_all add: messages_ok_def sb_contents_def empty_store_def seq_ok_empty seq_select_def)

section \<open>Topics\<close>

definition topic_contents :: "store \<Rightarrow> string \<times> string \<times> string \<Rightarrow> byte list list" where
  "topic_contents s = (\<lambda>(ns, topic, sub). map sbt_body
    (seq_select (\<lambda>m. sbt_namespace m = ns \<and> sbt_topic m = topic \<and> sbt_subscription m = sub)
      (tb_sb_topic_messages s)))"

lemma insert_topic_message_ok:
  assumes "messages_ok s"
  shows "fst (insert_topic_message s ns topic sub body) = Inr ()"
    and "messages_ok (snd (insert_topic_message s ns topic sub body))"
    and "topic_contents (snd (insert_topic_message s ns topic sub body)) k =
      topic_contents s k @ (if k = (ns, topic, sub) then [body] else [])"
  using assms
  by (auto simp: insert_topic_message_def messages_ok_def seq_ok_insert topic_contents_def
      seq_select_insert split: prod.split)

lemma insert_topic_messages_ok:
  assumes "messages_ok s"
  shows "fst (insert_topic_messages s ns topic subs body) = Inr () \<and>
    messages_ok (snd (insert_topic_messages s ns topic subs body)) \<and>
    topic_contents (snd (insert_topic_messages s ns topic subs body)) (n, t, sub) =
      topic_contents s (n, t, sub) @
        (if n = ns \<and> t = topic then replicate (count_list subs sub) body else [])"
  using assms
proof (induction subs arbitrary: s)
  case (Cons x subs)
  obtain s1 where s1: "insert_topic_message s ns topic x body = (Inr (), s1)"
    using insert_topic_message_ok(1)[OF Cons.prems] by (metis prod.collapse)
  with insert_topic_message_ok(2,3)[OF Cons.prems, of ns topic x body] Cons.IH[of s1] show ?case
    by (auto simp: replicate_app_Cons_same)
qed simp

definition topic_subscriptions :: "store \<Rightarrow> string \<Rightarrow> string \<Rightarrow> string list" where
  "topic_subscriptions s ns topic = map sbs_name
    (filter (\<lambda>r. sbs_namespace r = ns \<and> sbs_topic r = topic) (tb_sb_subscriptions s))"

lemma count_list_distinct: "distinct xs \<Longrightarrow> count_list xs x = (if x \<in> set xs then 1 else 0)"
  by (induction xs) auto

text \<open>
  A message sent to a topic without naming a subscription reaches every subscription of the
  topic once and no other.
\<close>

theorem topic_fan_out:
  assumes "messages_ok s" "distinct (topic_subscriptions s ns topic)"
  shows "fst (EnqueueSBTopic s ns topic [] body) = Inr () \<and>
    topic_contents (snd (EnqueueSBTopic s ns topic [] body)) (n, t, sub) =
      topic_contents s (n, t, sub) @
        (if n = ns \<and> t = topic \<and> sub \<in> set (topic_subscriptions s ns topic) then [body] else [])"
proof -
  have "ListServiceBusSubscriptions s ns topic = Inr (sort (topic_subscriptions s ns topic))"
    using assms(1) by (simp add: ListServiceBusSubscriptions_def topic_subscriptions_def messages_ok_def)
  moreover have "count_list (sort (topic_subscriptions s ns topic)) sub =
      (if sub \<in> set (topic_subscriptions s ns topic) then 1 else 0)"
    using assms(2) by (simp add: count_list_distinct)
  ultimately show ?thesis
    using insert_topic_messages_ok[OF assms(1), of ns topic "sort (topic_subscriptions s ns topic)" body n t sub]
    by (auto simp: EnqueueSBTopic_def)
qed

theorem topic_fan_out_witness:
  "fst (EnqueueSBTopic (snd (CreateServiceBusSubscription empty_store ''n'' ''t'' ''s'' [])) ''n'' ''t'' [] [7]) = Inr () \<and>
   topic_contents (snd (EnqueueSBTopic (snd (CreateServiceBusSubscription empty_store ''n'' ''t'' ''s'' []))
       ''n'' ''t'' [] [7])) (''n'', ''t'', ''s'') =
     topic_contents (snd (CreateServiceBusSubscription empty_store ''n'' ''t'' ''s'' [])) (''n'', ''t'', ''s'') @
       (if ''n'' = ''n'' \<and> ''t'' = ''t'' \<and>
          ''s'' \<in> set (topic_subscriptions (snd (CreateServiceBusSubscription empty_store ''n'' ''t'' ''s'' [])) ''n'' ''t'')
        then [[7]] else [])"
  by (rule topic_fan_out)
    (simp_all add: messages_ok_def CreateServiceBusSubscription_def empty_store_def seq_ok_empty
      topic_subscriptions_def tbl_insert_ignore_def tbl_upsert_def)

section \<open>The visibility timeout\<close>

definition visible_bodies :: "store \<Rightarrow> int \<Rightarrow> string \<Rightarrow> string \<Rightarrow> string list" where
  "visible_bodies s now account queue =
    map qm_body (seq_select (qm_visible now account queue) (tb_queue_messages s))"

lemma seq_first_split:
  assumes "seq_ok t" "seq_first P t = Some (i, r)"
  obtains n pre post where "t = (n, pre @ (i, r) # post)" "P r"
    "\<forall>x \<in> set pre. fst x \<noteq> i" "\<forall>x \<in> set post. fst x \<noteq> i"
proof -
  obtain n rows where t: "t = (n, rows)" by (cases t)
  have "(i, r) \<in> set rows \<and> P r"
    using find_SomeD[of "\<lambda>(i, r). P r" rows "(i, r)"] assms(2) by (simp add: seq_first_def t)
  then obtain pre post where rows: "rows = pre @ (i, r) # post" and "P r"
    by (metis split_list)
  from assms(1) have "\<forall>x \<in> set pre. fst x \<noteq> i" "\<forall>x \<in> set post. fst x \<noteq> i"
    by (auto simp: seq_ok_def t rows sorted_wrt_append)
  then show ?thesis using that t rows \<open>P r\<close> by blast
qed

lemma map_update_other:
  "\<forall>x \<in> set xs. fst x \<noteq> i \<Longrightarrow> map (\<lambda>(j, r). (j, if j = i then f r else r)) xs = xs"
  by (induction xs) auto

lemma seq_update_split:
  assumes "\<forall>x \<in> set pre. fst x \<noteq> i" "\<forall>x \<in> set post. fst x \<noteq> i"
  shows "seq_update i f (n, pre @ (i, r) # post) = (n, pre @ (i, f r) # post)"
  using map_update_other[OF assms(1), of f] map_update_other[OF assms(2), of f]
  by (simp add: seq_update_def)

lemma seq_select_split:
  "seq_select P (n, pre @ (i, r) # post) =
    map snd (filter (\<lambda>(j, m). P m) pre) @ (if P r then [r] else []) @ map snd (filter (\<lambda>(j, m). P m) post)"
  by (simp add: seq_select_def)

lemma wrap64_id: "- (2 ^ 63) \<le> n \<Longrightarrow> n < 2 ^ 63 \<Longrightarrow> wrap64 n = n"
  by (simp add: wrap64_def)

text \<open>
  A message dequeued with a visibility timeout is hidden exactly until the timeout is over
  and then is back at its old place; nothing else of the queue changes.
\<close>

theorem visibility_timeout:
  assumes "messages_ok s" "0 < n" "n * 10 ^ 9 < 2 ^ 63" "now \<le> t"
    and "Dequeue s now account queue n = (Inr (Some body), s')"
  shows "\<exists>xs ys. visible_bodies s t account queue = xs @ [body] @ ys \<and>
    visible_bodies s' t account queue =
      xs @ (if seconds t < seconds (now + n * 10 ^ 9) then [] else [body]) @ ys"
proof -
  let ?P = "\<lambda>t. qm_visible t account queue"
  let ?f = "\<lambda>m. m\<lparr>qm_visible_after := Some (seconds (now + n * 10 ^ 9))\<rparr>"
  have fault: "db_fault s = None" and ok: "seq_ok (tb_queue_messages s)"
    using assms(1) by (simp_all add: messages_ok_def)
  have w: "wrap64 (n * 10 ^ 9) = n * 10 ^ 9" using assms(2,3) by (intro wrap64_id) auto
  obtain i m where f: "seq_first (?P now) (tb_queue_messages s) = Some (i, m)" and body: "body = qm_body m"
    and s': "s' = s\<lparr>tb_queue_messages := seq_update i ?f (tb_queue_messages s)\<rparr>"
    using assms(2,5) fault w by (auto simp: Dequeue_def split: option.splits)
  obtain c pre post where tbl: "tb_queue_messages s = (c, pre @ (i, m) # post)" and P: "?P now m"
    and fresh: "\<forall>x \<in> set pre. fst x \<noteq> i" "\<forall>x \<in> set post. fst x \<noteq> i"
    using seq_first_split[OF ok f] by metis
  have "seconds now \<le> seconds t"
    using assms(4) by (simp add: seconds_def zdiv_mono1)
  with P have "?P t m" by (auto simp: qm_visible_def split: option.splits)
  moreover have "?P t (?f m) \<longleftrightarrow> \<not> seconds t < seconds (now + n * 10 ^ 9)"
    using P by (auto simp: qm_visible_def)
  ultimately show ?thesis
    unfolding visible_bodies_def s' body
    by (simp add: tbl seq_update_split[OF fresh] seq_select_split) blast
qed

theorem visibility_timeout_witness:
  "\<exists>xs ys. visible_bodies (snd (Enqueue empty_store 0 ''a'' ''q'' ''m'')) (5 * 10 ^ 9) ''a'' ''q'' = xs @ [''m''] @ ys \<and>
    visible_bodies (snd (Dequeue (snd (Enqueue empty_store 0 ''a'' ''q'' ''m'')) 0 ''a'' ''q'' 30)) (5 * 10 ^ 9) ''a'' ''q'' =
      xs @ (if seconds (5 * 10 ^ 9) < seconds (0 + 30 * 10 ^ 9) then [] else [''m'']) @ ys"
proof (rule visibility_timeout)
  show "messages_ok (snd (Enqueue empty_store 0 ''a'' ''q'' ''m''))"
    by (simp add: messages_ok_def Enqueue_def empty_store_def seq_ok_empty seq_ok_insert)
  show "Dequeue (snd (Enqueue empty_store 0 ''a'' ''q'' ''m'')) 0 ''a'' ''q'' 30 =
      (Inr (Some ''m''), snd (Dequeue (snd (Enqueue empty_store 0 ''a'' ''q'' ''m'')) 0 ''a'' ''q'' 30))"
    by (simp add: Dequeue_def Enqueue_def empty_store_def seq_insert_def seq_first_def qm_visible_def)
qed simp_all

end
