(* ===== verification/Url_Values.thy ===== *)
theory Url_Values
  imports Go_Prelude "HOL-Library.Char_ord" "HOL-Library.List_Lexorder" "HOL-Library.Multiset"
begin

text \<open>
  What the sources use of Go's \<open>net/url\<close> and \<open>strconv\<close>: query escaping, the encoding and the
  parsing of query strings, and decimal integers, each with the round trip it is used for.
\<close>

section \<open>Escaping\<close>

definition hex_digits :: string where
  "hex_digits = ''0123456789ABCDEF''"

definition unreserved :: "char \<Rightarrow> bool" where
  "unreserved c = (let n = of_char c :: nat in
     (48 \<le> n \<and> n \<le> 57) \<or> (65 \<le> n \<and> n \<le> 90) \<or> (97 \<le> n \<and> n \<le> 122) \<or>
     c = CHR ''-'' \<or> c = CHR ''_'' \<or> c = CHR ''.'' \<or> c = CHR ''~'')"

definition query_escape_char :: "char \<Rightarrow> string" where
  "query_escape_char c =
    (if unreserved c then [c]
     else if c = CHR '' '' then ''+''
     else [CHR ''%'', hex_digits ! (of_char c div 16), hex_digits ! (of_char c mod 16)])"

definition query_escape :: "string \<Rightarrow> string" where
  "query_escape s = concat (map query_escape_char s)"

definition unhex :: "char \<Rightarrow> nat option" where
  "unhex c = (let n = of_char c :: nat in
     if 48 \<le> n \<and> n \<le> 57 then Some (n - 48)
     else if 97 \<le> n \<and> n \<le> 102 then Some (n - 87)
     else if 65 \<le> n \<and> n \<le> 70 then Some (n - 55)
     else None)"

fun query_unescape :: "string \<Rightarrow> string option" where
  \<comment> \<open>\<open>url.QueryUnescape\<close>; \<open>None\<close> for an incomplete or invalid escape\<close>
  "query_unescape [] = Some []"
| "query_unescape (c # cs) =
    (if c = CHR ''%'' then
       (case cs of
          a # b # r \<Rightarrow> (case (unhex a, unhex b) of
              (Some x, Some y) \<Rightarrow> map_option (\<lambda>t. char_of (16 * x + y) # t) (query_unescape r)
            | _ \<Rightarrow> None)
        | _ \<Rightarrow> None)
     else map_option (\<lambda>t. (if c = CHR ''+'' then CHR '' '' else c) # t) (query_unescape cs))"

lemma unhex_hex_digit: "n < 16 \<Longrightarrow> unhex (hex_digits ! n) = Some n"
proof -
  assume "n < 16"
  then have "n \<in> set [0..<16]" by simp
  moreover have "list_all (\<lambda>n. unhex (hex_digits ! n) = Some n) [0..<16]" by code_simp
  ultimately show ?thesis by (simp add: list_all_iff del: upt_eq_Cons_conv set_upt)
qed

lemma char_hex: "char_of (16 * (of_char c div 16) + of_char c mod 16 :: nat) = c"
proof -
  have "16 * (of_char c div 16) + of_char c mod 16 = (of_char c :: nat)" by simp
  then show ?thesis by (simp only: char_of_char)
qed

lemma query_unescape_escape_char:
  "query_unescape (query_escape_char c @ r) = map_option ((#) c) (query_unescape r)"
proof -
  define hi lo :: nat where "hi = of_char c div 16" and "lo = of_char c mod 16"
  have "(of_char c :: nat) < 16 * 16" by simp
  then have "hi < 16" unfolding hi_def by (rule less_mult_imp_div_less)
  moreover have "lo < 16" by (simp add: lo_def)
  ultimately have hex: "unhex (hex_digits ! hi) = Some hi" "unhex (hex_digits ! lo) = Some lo"
    by (simp_all only: unhex_hex_digit)
  have same: "char_of (16 * hi + lo) = c" unfolding hi_def lo_def by (rule char_hex)
  have special: "\<not> unreserved CHR ''%''" "\<not> unreserved CHR ''+''" by code_simp+
  consider (plain) "unreserved c" | (space) "\<not> unreserved c" "c = CHR '' ''"
    | (escaped) "\<not> unreserved c" "c \<noteq> CHR '' ''" by blast
  then show ?thesis
  proof cases
    case plain
    with special have "c \<noteq> CHR ''%''" "c \<noteq> CHR ''+''" by metis+
    with plain show ?thesis by (simp add: query_escape_char_def)
  next
    case space
    then show ?thesis by (simp add: query_escape_char_def)
  next
    case escaped
    then have "query_escape_char c = [CHR ''%'', hex_digits ! hi, hex_digits ! lo]"
      by (simp add: query_escape_char_def hi_def lo_def)
    then show ?thesis by (simp add: hex same)
  qed
qed

lemma query_unescape_escape [simp]: "query_unescape (query_escape s) = Some s"
  by (induction s) (simp_all add: query_escape_def query_unescape_escape_char)

section \<open>Query strings\<close>

text \<open>\<open>url.Values.Encode\<close> of single values, the keys in ascending order.\<close>

definition encode_pair :: "string \<times> string \<Rightarrow> string" where
  "encode_pair kv = query_escape (fst kv) @ ''='' @ query_escape (snd kv)"

definition values_encode :: "(string \<times> string) list \<Rightarrow> string" where
  "values_encode kvs = join ''&'' (map encode_pair (sort_key fst kvs))"

text \<open>
  \<open>url.ParseQuery\<close>: \<open>None\<close> when any part is malformed. A part with a semicolon is; an empty
  part is skipped; a part without an equals sign has the empty value.
\<close>

definition parse_pair :: "string \<Rightarrow> (string \<times> string) option" where
  "parse_pair part =
    (let (k, v) = (case index_byte part CHR ''='' of
         None \<Rightarrow> (part, []) | Some i \<Rightarrow> (take i part, drop (i + 1) part)) in
     case (query_unescape k, query_unescape v) of (Some k', Some v') \<Rightarrow> Some (k', v') | _ \<Rightarrow> None)"

fun parse_pairs :: "string list \<Rightarrow> (string \<times> string) list option" where
  "parse_pairs [] = Some []"
| "parse_pairs (part # parts) =
    (if CHR '';'' \<in> set part then None
     else if part = [] then parse_pairs parts
     else (case (parse_pair part, parse_pairs parts) of
         (Some kv, Some kvs) \<Rightarrow> Some (kv # kvs) | _ \<Rightarrow> None))"

definition parse_query :: "string \<Rightarrow> (string \<times> string) list option" where
  "parse_query query = parse_pairs (if query = [] then [] else split_on CHR ''&'' query)"

definition values_get :: "(string \<times> string) list \<Rightarrow> string \<Rightarrow> string" where
  "values_get kvs k = (case map_of kvs k of Some v \<Rightarrow> v | None \<Rightarrow> [])"

lemma hex_digit_plain: "n < 16 \<Longrightarrow> hex_digits ! n \<notin> {CHR '';'', CHR ''='', CHR ''&''}"
proof -
  assume "n < 16"
  then have "n \<in> set [0..<16]" by simp
  moreover have "list_all (\<lambda>n. hex_digits ! n \<noteq> CHR '';'' \<and> hex_digits ! n \<noteq> CHR ''='' \<and> hex_digits ! n \<noteq> CHR ''&'') [0..<16]"
    by code_simp
  ultimately show ?thesis by (simp add: list_all_iff del: upt_eq_Cons_conv set_upt)
qed

lemma query_escape_plain:
  assumes "d \<in> {CHR '';'', CHR ''='', CHR ''&''}"
  shows "d \<notin> set (query_escape s)"
proof -
  have "d \<notin> set (query_escape_char c)" for c
  proof -
    have "(of_char c :: nat) < 16 * 16" by simp
    then have "(of_char c :: nat) div 16 < 16" by (rule less_mult_imp_div_less)
    moreover have "(of_char c :: nat) mod 16 < 16" by simp
    moreover have "\<not> unreserved CHR '';''" "\<not> unreserved CHR ''=''" "\<not> unreserved CHR ''&''"
      by code_simp+
    ultimately show ?thesis
      using assms hex_digit_plain[of "of_char c div 16"] hex_digit_plain[of "of_char c mod 16"]
      by (auto simp: query_escape_char_def)
  qed
  then show ?thesis by (simp add: query_escape_def)
qed

lemma parse_pair_encode: "parse_pair (encode_pair kv) = Some kv"
proof -
  have "index_byte (query_escape (fst kv) @ CHR ''='' # query_escape (snd kv)) CHR ''='' =
      Some (length (query_escape (fst kv)))"
    by (rule index_byte_append) (simp add: query_escape_plain)
  then show ?thesis by (simp add: parse_pair_def encode_pair_def)
qed

lemma encode_pair_plain: "CHR ''&'' \<notin> set (encode_pair kv)" "CHR '';'' \<notin> set (encode_pair kv)"
    "encode_pair kv \<noteq> []"
  by (simp_all add: encode_pair_def query_escape_plain)

lemma parse_pairs_encode: "parse_pairs (map encode_pair kvs) = Some kvs"
  by (induction kvs) (simp_all add: encode_pair_plain parse_pair_encode)

lemma parse_query_encode: "parse_query (values_encode kvs) = Some (sort_key fst kvs)"
proof (cases "kvs = []")
  case True
  then show ?thesis by (simp add: parse_query_def values_encode_def)
next
  case False
  let ?ps = "map encode_pair (sort_key fst kvs)"
  have "?ps \<noteq> []" using False by (metis length_0_conv length_map length_sort)
  then have "join ''&'' ?ps \<noteq> []"
    by (cases ?ps rule: remdups_adj.cases) (auto simp: encode_pair_plain)
  moreover have "split_on CHR ''&'' (join ''&'' ?ps) = ?ps"
    using \<open>?ps \<noteq> []\<close> by (rule split_on_join) (auto simp: encode_pair_plain)
  ultimately show ?thesis
    by (simp add: parse_query_def values_encode_def parse_pairs_encode)
qed

section \<open>Decimal integers\<close>

fun dec_of_nat :: "nat \<Rightarrow> string" where
  "dec_of_nat n = (if n < 10 then [char_of (48 + n)] else dec_of_nat (n div 10) @ [char_of (48 + n mod 10)])"

declare dec_of_nat.simps [simp del]

definition format_int :: "int \<Rightarrow> string" where
  \<comment> \<open>\<open>strconv.FormatInt(i, 10)\<close>\<close>
  "format_int i = (if i < 0 then ''-'' @ dec_of_nat (nat (- i)) else dec_of_nat (nat i))"

definition digit_value :: "char \<Rightarrow> nat option" where
  "digit_value c = (let n = of_char c :: nat in if 48 \<le> n \<and> n \<le> 57 then Some (n - 48) else None)"

fun nat_of_dec :: "nat \<Rightarrow> string \<Rightarrow> nat option" where
  "nat_of_dec acc [] = Some acc"
| "nat_of_dec acc (c # cs) =
    (case digit_value c of None \<Rightarrow> None | Some d \<Rightarrow> nat_of_dec (acc * 10 + d) cs)"

definition parse_int64 :: "string \<Rightarrow> int option" where
  \<comment> \<open>\<open>strconv.ParseInt(s, 10, 64)\<close>; \<open>None\<close> for a syntax or range error\<close>
  "parse_int64 s =
    (let (neg, ds) = (case s of
         c # cs \<Rightarrow> if c = CHR ''-'' then (True, cs) else if c = CHR ''+'' then (False, cs) else (False, s)
       | [] \<Rightarrow> (False, [])) in
     if ds = [] then None
     else (case nat_of_dec 0 ds of
         None \<Rightarrow> None
       | Some n \<Rightarrow>
           if neg then (if int n \<le> 2 ^ 63 then Some (- int n) else None)
           else (if int n < 2 ^ 63 then Some (int n) else None)))"

lemma digit_value_char: "d < 10 \<Longrightarrow> digit_value (char_of (48 + d)) = Some d"
  by (simp add: digit_value_def)

lemma nat_of_dec_append:
  "nat_of_dec acc (xs @ [char_of (48 + d)]) = map_option (\<lambda>n. n * 10 + d) (nat_of_dec acc xs)"
  if "d < 10"
  using that by (induction acc xs rule: nat_of_dec.induct) (auto simp: digit_value_char split: option.split)

lemma nat_of_dec_of_nat: "nat_of_dec 0 (dec_of_nat n) = Some n"
proof (induction n rule: dec_of_nat.induct)
  case (1 n)
  show ?case
  proof (cases "n < 10")
    case True
    then show ?thesis by (subst dec_of_nat.simps) (simp add: digit_value_char)
  next
    case False
    with 1 show ?thesis by (subst dec_of_nat.simps) (simp add: nat_of_dec_append)
  qed
qed

lemma dec_of_nat_digits: "set (dec_of_nat n) \<subseteq> set ''0123456789''" "dec_of_nat n \<noteq> []"
proof (induction n rule: dec_of_nat.induct)
  case (1 n)
  have digit: "char_of (48 + d) \<in> set ''0123456789''" if "d < 10" for d :: nat
  proof -
    from that have "d \<in> set [0..<10]" by simp
    moreover have "list_all (\<lambda>d. char_of (48 + d) \<in> set ''0123456789'') [0..<10 :: nat]" by code_simp
    ultimately show ?thesis by (simp add: list_all_iff del: upt_eq_Cons_conv set_upt)
  qed
  { case 1 show ?case
      using \<open>\<not> n < 10 \<Longrightarrow> set (dec_of_nat (n div 10)) \<subseteq> _\<close> digit[of n] digit[of "n mod 10"]
      by (subst dec_of_nat.simps) (cases "n < 10"; simp) }
  { case 2 show ?case by (subst dec_of_nat.simps) simp }
qed

lemma parse_format_int:
  assumes "- (2 ^ 63) \<le> i" "i < 2 ^ 63"
  shows "parse_int64 (format_int i) = Some i"
proof -
  have plain: "hd (dec_of_nat n) \<noteq> CHR ''-''" "hd (dec_of_nat n) \<noteq> CHR ''+''" for n
    using subsetD[OF dec_of_nat_digits(1) hd_in_set[OF dec_of_nat_digits(2)], of n] by auto
  show ?thesis
  proof (cases "i < 0")
    case True
    with assms show ?thesis
      by (simp add: parse_int64_def format_int_def nat_of_dec_of_nat dec_of_nat_digits(2))
  next
    case False
    obtain c cs where "dec_of_nat (nat i) = c # cs"
      using dec_of_nat_digits(2)[of "nat i"] by (cases "dec_of_nat (nat i)") auto
    with False assms plain[of "nat i"] nat_of_dec_of_nat[of "nat i"] show ?thesis
      by (simp add: parse_int64_def format_int_def)
  qed
qed

section \<open>Encodings hold no white space\<close>

lemma hex_digit_not_space: "n < 16 \<Longrightarrow> \<not> is_space (hex_digits ! n)"
proof -
  assume "n < 16"
  then have "n \<in> set [0..<16]" by simp
  moreover have "list_all (\<lambda>n. \<not> is_space (hex_digits ! n)) [0..<16]" by code_simp
  ultimately show ?thesis by (simp add: list_all_iff del: upt_eq_Cons_conv set_upt)
qed

lemma query_escape_not_space: "c \<in> set (query_escape s) \<Longrightarrow> \<not> is_space c"
proof -
  have "\<not> is_space c" if "c \<in> set (query_escape_char d)" for c d
  proof -
    have "(of_char d :: nat) < 16 * 16" by simp
    then have "(of_char d :: nat) div 16 < 16" by (rule less_mult_imp_div_less)
    moreover have "(of_char d :: nat) mod 16 < 16" by simp
    moreover have "\<not> is_space x" if "unreserved x" for x
      using that by (auto simp: unreserved_def is_space_def Let_def)
    ultimately show ?thesis
      using that hex_digit_not_space by (auto simp: query_escape_char_def split: if_splits)
  qed
  then show "c \<in> set (query_escape s) \<Longrightarrow> \<not> is_space c" by (auto simp: query_escape_def)
qed

lemma values_encode_not_space: "c \<in> set (values_encode kvs) \<Longrightarrow> \<not> is_space c"
proof -
  have join: "c \<in> set (join ''&'' ps) \<Longrightarrow> c = CHR ''&'' \<or> (\<exists>p \<in> set ps. c \<in> set p)" for c ps
    by (induction "''&''" ps rule: join.induct) auto
  assume "c \<in> set (values_encode kvs)"
  then consider "c = CHR ''&''" | kv where "c \<in> set (encode_pair kv)"
    using join by (fastforce simp: values_encode_def)
  then show ?thesis
    by cases (auto simp: encode_pair_def query_escape_not_space)
qed

lemma values_encode_not_Nil: "kvs \<noteq> [] \<Longrightarrow> values_encode kvs \<noteq> []"
proof -
  have "ps \<noteq> [] \<Longrightarrow> [] \<notin> set ps \<Longrightarrow> join ''&'' ps \<noteq> []" for ps
    by (cases ps rule: remdups_adj.cases) auto
  moreover have "[] \<notin> set (map encode_pair xs)" for xs
    by (metis encode_pair_plain(3) ex_map_conv)
  moreover assume "kvs \<noteq> []"
  moreover from this have "map encode_pair (sort_key fst kvs) \<noteq> []"
    by (metis length_0_conv length_map length_sort)
  ultimately show ?thesis by (simp add: values_encode_def)
qed

lemma values_get_sorted:
  assumes "distinct (map fst kvs)"
  shows "values_get (sort_key fst kvs) k = values_get kvs k"
proof -
  have "mset (map fst (sort_key fst kvs)) = mset (map fst kvs)" by simp
  with assms have "distinct (map fst (sort_key fst kvs))"
    by (metis distinct_count_atmost_1 set_mset_mset)
  with assms have "map_of (sort_key fst kvs) = map_of kvs"
    by (subst map_of_inject_set) simp_all
  then show ?thesis by (simp add: values_get_def)
qed

lemma format_int_digits: "set (format_int n) \<subseteq> set ''-0123456789''" "format_int n \<noteq> []"
proof -
  have more: "set ''0123456789'' \<subseteq> set ''-0123456789''" by simp
  have "set (dec_of_nat m) \<subseteq> set ''-0123456789''" for m
    using dec_of_nat_digits(1) more by (rule subset_trans)
  moreover have "format_int n = CHR ''-'' # dec_of_nat (nat (- n)) \<or> format_int n = dec_of_nat (nat n)"
    by (simp add: format_int_def)
  ultimately show "set (format_int n) \<subseteq> set ''-0123456789''"
    by (elim disjE) (simp_all only: list.set(2) insert_subset, simp)
  show "format_int n \<noteq> []"
    by (simp add: format_int_def dec_of_nat_digits(2))
qed

end
