(* ===== verification/Authn.thy ===== *)
theory Authn
  imports Http_Types Url_Values
begin

text \<open>
  Authentication, \<open>internal/kernel/authn\<close>: principals and the audiences their tokens carry
  (\<open>audience.go\<close>), Bearer authentication and the paths that need none (\<open>bearer.go\<close>, \<open>jwt.go\<close>),
  Shared Key and SAS for storage (\<open>sharedkey.go\<close>) and SAS for Service Bus
  (\<open>servicebus_sas.go\<close>).

  Cryptography, base64, time and JSON parsing come from Go's standard library. They are the
  fields of a record of functions, so that what is proved holds for all of them; the lemmas
  that need more of them name it as a hypothesis.
\<close>

section \<open>Principals and audiences\<close>

record Principal =
  pr_ID :: string
  pr_IsRoot :: bool
  pr_Audiences :: "string list"
  pr_Issuer :: string

definition AudienceGraph :: string where "AudienceGraph = ''https://graph.microsoft.com''"
definition AudienceGraphAppID :: string where "AudienceGraphAppID = ''00000003-0000-0000-c000-000000000000''"
definition AudienceAADGraph :: string where "AudienceAADGraph = ''https://graph.windows.net''"
definition AudienceAADGraphAppID :: string where "AudienceAADGraphAppID = ''00000002-0000-0000-c000-000000000000''"
definition AudienceARM :: string where "AudienceARM = ''https://management.azure.com''"
definition AudienceARMLegacy :: string where "AudienceARMLegacy = ''https://management.core.windows.net''"
definition AudienceACR :: string where "AudienceACR = ''https://containerregistry.azure.net''"
definition AudienceACRService :: string where "AudienceACRService = ''containerregistry.azure.net''"
definition AudienceVault :: string where "AudienceVault = ''https://vault.azure.net''"
definition AudienceServiceBus :: string where "AudienceServiceBus = ''https://servicebus.azure.net''"
definition AudienceEventHubs :: string where "AudienceEventHubs = ''https://eventhubs.azure.net''"
definition AudienceEventGrid :: string where "AudienceEventGrid = ''https://eventgrid.azure.net''"
definition AudienceCosmos :: string where "AudienceCosmos = ''https://cosmos.azure.com''"
definition AudienceAppConfig :: string where "AudienceAppConfig = ''https://azconfig.io''"
definition AudienceCognitive :: string where "AudienceCognitive = ''https://cognitiveservices.azure.com''"
definition AudienceCommunication :: string where "AudienceCommunication = ''https://communication.azure.com''"
definition AudienceStorage :: string where "AudienceStorage = ''https://storage.azure.com''"

definition NormalizeAudience :: "string \<Rightarrow> string" where
  "NormalizeAudience aud = trim_right_char CHR ''/'' (trim_space aud)"

definition audienceKind :: "string \<Rightarrow> string" where
  "audienceKind aud =
    (let n = NormalizeAudience aud in
     if n = NormalizeAudience AudienceGraph \<or> n = AudienceGraphAppID then ''graph''
     else if n = NormalizeAudience AudienceAADGraph \<or> n = AudienceAADGraphAppID then ''aadgraph''
     else if n = NormalizeAudience AudienceARM \<or> n = NormalizeAudience AudienceARMLegacy then ''arm''
     else if n = NormalizeAudience AudienceACR \<or> n = NormalizeAudience AudienceACRService then ''acr''
     else if n = NormalizeAudience AudienceVault then ''vault''
     else if n = NormalizeAudience AudienceServiceBus then ''servicebus''
     else if n = NormalizeAudience AudienceEventHubs then ''eventhubs''
     else if n = NormalizeAudience AudienceEventGrid then ''eventgrid''
     else if n = NormalizeAudience AudienceCosmos then ''cosmos''
     else if n = NormalizeAudience AudienceAppConfig then ''appconfig''
     else if n = NormalizeAudience AudienceCognitive then ''cognitive''
     else if n = NormalizeAudience AudienceCommunication then ''communication''
     else if n = NormalizeAudience AudienceStorage then ''storage''
     else [])"

definition normalizedAudiences :: "Principal \<Rightarrow> string list" where
  "normalizedAudiences p = filter (\<lambda>n. n \<noteq> []) (map NormalizeAudience (pr_Audiences p))"

definition allowsKind :: "Principal \<Rightarrow> string \<Rightarrow> bool" where
  "allowsKind p kind =
    (if pr_IsRoot p then True
     else let auds = normalizedAudiences p in
       if auds = [] then False else list_all (\<lambda>a. audienceKind a = kind) auds)"

definition audienceMatchesIssuer :: "Principal \<Rightarrow> bool" where
  "audienceMatchesIssuer p =
    (let iss = NormalizeAudience (pr_Issuer p) in
     if iss = [] then False else list_ex (\<lambda>a. a = iss) (normalizedAudiences p))"

definition AllowsGraph :: "Principal \<Rightarrow> bool" where
  "AllowsGraph p =
    (if pr_IsRoot p then True
     else let auds = normalizedAudiences p in
       if auds = [] then False
       else if audienceMatchesIssuer p then False
       else list_all (\<lambda>a. audienceKind a = ''graph'' \<or> audienceKind a = ''aadgraph'') auds)"

definition AllowsARM :: "Principal \<Rightarrow> bool" where
  "AllowsARM p =
    (if pr_IsRoot p then True
     else let auds = normalizedAudiences p in
       if auds = [] then False else list_all (\<lambda>a. audienceKind a = ''arm'') auds)"

definition AllowsVault :: "Principal \<Rightarrow> bool" where
  "AllowsVault p = allowsKind p ''vault''"

definition AllowsServiceBus :: "Principal \<Rightarrow> bool" where
  "AllowsServiceBus p = allowsKind p ''servicebus''"

definition AllowsEventHubs :: "Principal \<Rightarrow> bool" where
  "AllowsEventHubs p =
    (if pr_IsRoot p \<or> AllowsARM p then True
     else if normalizedAudiences p = [] then True
     else allowsKind p ''eventhubs'')"

definition AllowsEventGrid :: "Principal \<Rightarrow> bool" where
  "AllowsEventGrid p = allowsKind p ''eventgrid''"

definition AllowsCosmos :: "Principal \<Rightarrow> bool" where
  "AllowsCosmos p = (if pr_IsRoot p \<or> AllowsARM p then True else allowsKind p ''cosmos'')"

definition AllowsAppConfig :: "Principal \<Rightarrow> bool" where
  "AllowsAppConfig p = allowsKind p ''appconfig''"

definition AllowsCognitive :: "Principal \<Rightarrow> bool" where
  "AllowsCognitive p = allowsKind p ''cognitive''"

definition AllowsCommunication :: "Principal \<Rightarrow> bool" where
  "AllowsCommunication p = allowsKind p ''communication''"

definition AllowsStorage :: "Principal \<Rightarrow> bool" where
  "AllowsStorage p = (if pr_IsRoot p \<or> AllowsARM p then True else allowsKind p ''storage'')"

definition AllowsRegistry :: "Principal \<Rightarrow> bool" where
  "AllowsRegistry p =
    (if pr_IsRoot p \<or> AllowsARM p then True
     else let auds = normalizedAudiences p in
       if auds = [] then True
       else if audienceMatchesIssuer p then False
       else list_ex (\<lambda>a. audienceKind a = ''acr'') auds)"

section \<open>Bearer tokens\<close>

text \<open>
  The functions of the standard library that authentication calls. Times are nanoseconds of
  the Unix epoch, as \<open>time.Time\<close> compares them; \<open>time_parse\<close> takes the layout first.
\<close>

record stdlib =
  hmac_sha256 :: "string \<Rightarrow> string \<Rightarrow> string"
  sha256_hex :: "string \<Rightarrow> string"
  b64_encode :: "string \<Rightarrow> string"
  b64_decode :: "string \<Rightarrow> string option"
  b64_raw_url_decode :: "string \<Rightarrow> string result"
  json_parse :: "string \<Rightarrow> json result"
  time_parse :: "string \<Rightarrow> string \<Rightarrow> int option"

text \<open>
  An authenticator: the configured root credentials, the lookup of registered token hashes and
  the verifier of issued JWTs. A lookup takes the time of the request and answers with a
  principal id, with nothing, or with an error.
\<close>

record Authenticator =
  au_RootClientID :: string
  au_RootAccessToken :: string
  au_Tokens :: "(string \<Rightarrow> int \<Rightarrow> string option result) option"
  au_JWT :: "(string \<Rightarrow> int \<Rightarrow> string option result) option"
  au_Now :: int

definition ErrUnauthenticated :: string where
  "ErrUnauthenticated = ''unauthenticated''"

definition HashToken :: "stdlib \<Rightarrow> string \<Rightarrow> string" where
  "HashToken lib token = sha256_hex lib token"

text \<open>\<open>json.Unmarshal\<close> into a \<open>map[string]any\<close>: an object, or null for the nil map.\<close>

definition json_parse_map :: "stdlib \<Rightarrow> string \<Rightarrow> json result" where
  "json_parse_map lib text =
    (case json_parse lib text of
       Inl e \<Rightarrow> Inl e
     | Inr (JObj kvs) \<Rightarrow> Inr (JObj kvs)
     | Inr JNull \<Rightarrow> Inr JNull
     | Inr _ \<Rightarrow> Inl ''json: cannot unmarshal into Go value'')"

definition DecodeJWTUnverified :: "stdlib \<Rightarrow> string \<Rightarrow> (json \<times> json) result" where
  "DecodeJWTUnverified lib token =
    (case split_on CHR ''.'' token of
       [h, c, sig] \<Rightarrow>
         (case b64_raw_url_decode lib h of
            Inl e \<Rightarrow> Inl e
          | Inr hb \<Rightarrow> (case b64_raw_url_decode lib c of
              Inl e \<Rightarrow> Inl e
            | Inr cb \<Rightarrow> (case json_parse_map lib hb of
                Inl e \<Rightarrow> Inl e
              | Inr header \<Rightarrow> (case json_parse_map lib cb of
                  Inl e \<Rightarrow> Inl e
                | Inr claims \<Rightarrow> Inr (header, claims)))))
     | _ \<Rightarrow> Inl ''invalid jwt'')"

definition ClaimString :: "json \<Rightarrow> string \<Rightarrow> string" where
  "ClaimString claims key = (case json_field claims key of Some (JStr s) \<Rightarrow> trim_space s | _ \<Rightarrow> [])"

definition ClaimAudiences :: "json \<Rightarrow> string list" where
  "ClaimAudiences claims =
    (case json_field claims ''aud'' of
       Some (JStr v) \<Rightarrow> (let s = trim_space v in if s = [] then [] else [s])
     | Some (JArr items) \<Rightarrow>
         filter (\<lambda>s. s \<noteq> []) (map trim_space (concat (map (\<lambda>i. case i of JStr s \<Rightarrow> [s] | _ \<Rightarrow> []) items)))
     | _ \<Rightarrow> [])"

definition PrincipalFromJWTClaims :: "json \<Rightarrow> string" where
  "PrincipalFromJWTClaims claims =
    (case filter (\<lambda>v. v \<noteq> []) (map (ClaimString claims) [''oid'', ''sub'', ''appid'', ''azp'']) of
       [] \<Rightarrow> [] | v # _ \<Rightarrow> v)"

definition attachJWTClaims :: "stdlib \<Rightarrow> Principal \<Rightarrow> string \<Rightarrow> Principal result" where
  "attachJWTClaims lib p token =
    (if length (split_on CHR ''.'' token) - 1 \<noteq> 2 then Inr p
     else (case DecodeJWTUnverified lib token of
         Inl e \<Rightarrow> Inl e
       | Inr (header, claims) \<Rightarrow>
           Inr (p\<lparr>pr_Audiences := ClaimAudiences claims, pr_Issuer := ClaimString claims ''iss''\<rparr>)))"

text \<open>One way to resolve a token: an error, nothing found, or the principal with its claims.\<close>

definition resolve_token ::
  "stdlib \<Rightarrow> (string \<Rightarrow> int \<Rightarrow> string option result) option \<Rightarrow> string \<Rightarrow> int \<Rightarrow> string \<Rightarrow> Principal option result" where
  "resolve_token lib lookup key now token =
    (case lookup of
       None \<Rightarrow> Inr None
     | Some f \<Rightarrow> (case f key now of
           Inl e \<Rightarrow> Inl e
         | Inr None \<Rightarrow> Inr None
         | Inr (Some i) \<Rightarrow>
             if i = [] then Inr None
             else (case attachJWTClaims lib
                 \<lparr>pr_ID = i, pr_IsRoot = False, pr_Audiences = [], pr_Issuer = []\<rparr> token of
                 Inl e \<Rightarrow> Inl ErrUnauthenticated
               | Inr p \<Rightarrow> Inr (Some p))))"

definition AuthenticateToken :: "stdlib \<Rightarrow> Authenticator \<Rightarrow> string \<Rightarrow> Principal result" where
  "AuthenticateToken lib a token =
    (if au_RootAccessToken a \<noteq> [] \<and> token = au_RootAccessToken a then
       Inr \<lparr>pr_ID = (if au_RootClientID a = [] then ''root'' else au_RootClientID a),
            pr_IsRoot = True, pr_Audiences = [], pr_Issuer = []\<rparr>
     else (case resolve_token lib (au_Tokens a) (HashToken lib token) (au_Now a) token of
         Inl e \<Rightarrow> Inl e
       | Inr (Some p) \<Rightarrow> Inr p
       | Inr None \<Rightarrow> (case resolve_token lib (au_JWT a) token (au_Now a) token of
             Inl e \<Rightarrow> Inl e
           | Inr (Some p) \<Rightarrow> Inr p
           | Inr None \<Rightarrow> Inl ErrUnauthenticated)))"

definition AuthenticateRequest :: "stdlib \<Rightarrow> Authenticator \<Rightarrow> http_request \<Rightarrow> Principal result" where
  "AuthenticateRequest lib a r =
    (let raw = header_get r ''Authorization'' in
     if \<not> has_prefix raw ''Bearer '' then Inl ErrUnauthenticated
     else let token = trim_space (trim_prefix raw ''Bearer '') in
       if token = [] then Inl ErrUnauthenticated else AuthenticateToken lib a token)"

section \<open>Public paths\<close>

text \<open>
  The five regular expressions of \<open>bearer.go\<close> on the segments of a path. They ignore case; a
  segment \<open>[^/]+\<close> is any non-empty one.
\<close>

definition path_segments :: "string \<Rightarrow> string list" where
  "path_segments path = split_on CHR ''/'' (to_lower path)"

definition oauthTokenPath :: "string \<Rightarrow> bool" where
  "oauthTokenPath path =
    (case path_segments path of
       [e, a, b, c] \<Rightarrow> e = [] \<and> a \<noteq> [] \<and> b = ''oauth2'' \<and> c = ''token''
     | [e, a, b, v, c] \<Rightarrow> e = [] \<and> a \<noteq> [] \<and> b = ''oauth2'' \<and> v = ''v2.0'' \<and> c = ''token''
     | _ \<Rightarrow> False)"

definition oauthDeviceCodePath :: "string \<Rightarrow> bool" where
  "oauthDeviceCodePath path =
    (case path_segments path of
       [e, a, b, c] \<Rightarrow> e = [] \<and> a \<noteq> [] \<and> b = ''oauth2'' \<and> c = ''devicecode''
     | [e, a, b, v, c] \<Rightarrow> e = [] \<and> a \<noteq> [] \<and> b = ''oauth2'' \<and> v = ''v2.0'' \<and> c = ''devicecode''
     | _ \<Rightarrow> False)"

definition oidcDiscoveryPath :: "string \<Rightarrow> bool" where
  "oidcDiscoveryPath path =
    (case path_segments path of
       [e, a, w, c] \<Rightarrow> e = [] \<and> a \<noteq> [] \<and> w = ''.well-known'' \<and> c = ''openid-configuration''
     | [e, a, v, w, c] \<Rightarrow>
         e = [] \<and> a \<noteq> [] \<and> v = ''v2.0'' \<and> w = ''.well-known'' \<and> c = ''openid-configuration''
     | _ \<Rightarrow> False)"

definition jwksPath :: "string \<Rightarrow> bool" where
  "jwksPath path =
    (case path_segments path of
       [e, a, d, k] \<Rightarrow> e = [] \<and> a \<noteq> [] \<and> d = ''discovery'' \<and> k = ''keys''
     | [e, a, d, v, k] \<Rightarrow> e = [] \<and> a \<noteq> [] \<and> d = ''discovery'' \<and> v = ''v2.0'' \<and> k = ''keys''
     | _ \<Rightarrow> False)"

definition instanceDiscoveryPath :: "string \<Rightarrow> bool" where
  "instanceDiscoveryPath path =
    (case path_segments path of
       [e, a, d, k] \<Rightarrow> e = [] \<and> a \<noteq> [] \<and> d = ''discovery'' \<and> k = ''instance''
     | _ \<Rightarrow> False)"

definition fixed_public_paths :: "string list" where
  "fixed_public_paths =
    [''/_noctaxris-az/health'', ''/_noctaxris-az/ready'', ''/_noctaxris-az/version'',
     ''/_noctaxris-az/ca.pem'',
     ''/_lab/health'', ''/_lab/ready'', ''/_lab/version'', ''/_lab/ca.pem'',
     ''/metadata/identity/oauth2/token'', ''/metadata/endpoints'', ''/device'']"

definition IsPublicPath :: "string \<Rightarrow> bool" where
  "IsPublicPath path =
    (if path \<in> set fixed_public_paths then True
     else let lower = to_lower path in
       if has_prefix lower ''/_noctaxris-az/oidc-lab'' \<or> has_prefix lower ''/_lab/oidc-lab'' then True
       else oauthTokenPath path \<or> oauthDeviceCodePath path \<or> oidcDiscoveryPath path \<or>
         jwksPath path \<or> instanceDiscoveryPath path)"

definition IsRegistryDataPath :: "string \<Rightarrow> bool" where
  "IsRegistryDataPath path =
    (if path = ''/oauth2/token'' then True else path = ''/v2'' \<or> has_prefix path ''/v2/'')"

section \<open>Shared Key\<close>

definition newline :: string where
  "newline = [CHR 0x0A]"

definition ParseSharedKeyAuthorization :: "string \<Rightarrow> (string \<times> string) option" where
  "ParseSharedKeyAuthorization header =
    (if \<not> has_prefix header ''SharedKey '' then None
     else let rest = trim_space (trim_prefix header ''SharedKey '') in
       (case index_byte rest CHR '':'' of
          None \<Rightarrow> None
        | Some i \<Rightarrow> if i = 0 then None else Some (take i rest, drop (i + 1) rest)))"

definition decodeAccountKey :: "stdlib \<Rightarrow> string \<Rightarrow> string" where
  "decodeAccountKey lib accountKey =
    (case b64_decode lib accountKey of None \<Rightarrow> accountKey | Some key \<Rightarrow> key)"

definition VerifyStorageSharedKey :: "stdlib \<Rightarrow> string \<Rightarrow> string \<Rightarrow> string \<Rightarrow> bool" where
  "VerifyStorageSharedKey lib accountKey stringToSign providedSig =
    (if providedSig = [] then False
     else b64_encode lib (hmac_sha256 lib (decodeAccountKey lib accountKey) stringToSign) = providedSig)"

text \<open>
  The insertion sort of \<open>canonicalizeStorageMSHeaders\<close>: element \<open>i\<close> sinks through the sorted
  elements before it while its key is smaller. The argument holds these in reverse.
\<close>

fun sink :: "string \<times> string \<Rightarrow> (string \<times> string) list \<Rightarrow> (string \<times> string) list" where
  "sink h [] = [h]"
| "sink h (p # ps) = (if fst p > fst h then p # sink h ps else h # p # ps)"

definition insertion_sort :: "(string \<times> string) list \<Rightarrow> (string \<times> string) list" where
  "insertion_sort hs = rev (foldl (\<lambda>acc h. sink h acc) [] hs)"

definition ms_headers :: "http_request \<Rightarrow> (string \<times> string) list" where
  "ms_headers r = map (\<lambda>(k, vs). (to_lower (trim_space k), join '','' vs))
    (filter (\<lambda>(k, vs). has_prefix (to_lower (trim_space k)) ''x-ms-'') (rq_header r))"

definition canonicalizeStorageMSHeaders :: "http_request \<Rightarrow> string" where
  "canonicalizeStorageMSHeaders r =
    (let ms = ms_headers r in
     if ms = [] then []
     else join newline (map (\<lambda>(k, v). k @ '':'' @ trim_space v) (insertion_sort ms)))"

definition StorageStringToSign :: "http_request \<Rightarrow> string" where
  "StorageStringToSign r =
    (let xd = trim_space (header_get r ''X-Ms-Date'');
         date = (if xd = [] then trim_space (header_get r ''Date'') else xd) in
     join newline
       [to_upper (rq_method r),
        trim_space (header_get r ''Content-Md5''),
        trim_space (header_get r ''Content-Type''),
        date,
        canonicalizeStorageMSHeaders r,
        rq_path r])"

section \<open>Shared access signatures for storage\<close>

definition HasSAS :: "http_request \<Rightarrow> bool" where
  "HasSAS r = (query_get r ''sig'' \<noteq> [] \<and> query_get r ''se'' \<noteq> [])"

definition StorageSASStringToSign :: "http_request \<Rightarrow> string" where
  "StorageSASStringToSign r =
    join newline [query_get r ''sp'', query_get r ''st'', query_get r ''se'', rq_path r]"

definition sas_layouts :: "string list" where
  "sas_layouts =
    [''2006-01-02T15:04:05.999999999Z07:00'', ''2006-01-02T15:04:05Z07:00'',
     ''2006-01-02T15:04:05Z'', ''2006-01-02T15:04:05'', ''2006-01-02T15:04Z'',
     ''2006-01-02T15:04'', ''2006-01-02'']"

fun first_parse :: "stdlib \<Rightarrow> string list \<Rightarrow> string \<Rightarrow> int option" where
  "first_parse lib [] s = None"
| "first_parse lib (layout # layouts) s =
    (case time_parse lib layout s of Some t \<Rightarrow> Some t | None \<Rightarrow> first_parse lib layouts s)"

definition ParseSASExpiry :: "stdlib \<Rightarrow> string \<Rightarrow> int option" where
  "ParseSASExpiry lib raw =
    (let s = trim_space raw in if s = [] then None else first_parse lib sas_layouts s)"

definition SASPermits :: "string \<Rightarrow> string \<Rightarrow> string \<Rightarrow> bool" where
  "SASPermits sp method path =
    (let sp = to_lower (trim_space sp);
         has = (\<lambda>letters. list_ex (\<lambda>c. c \<in> set sp) letters);
         method = to_upper method;
         parts = split_on CHR ''/'' (trim_char CHR ''/'' path);
         svc = to_lower (parts ! 0);
         depth = length parts in
     if sp = [] then False
     else if length parts < 2 then False
     else if svc = ''blob'' then
       (if method = ''GET'' \<or> method = ''HEAD'' then (if depth \<le> 3 then has ''l'' else has ''r'')
        else if method = ''PUT'' then (if depth \<le> 3 then has ''cw'' else has ''wca'')
        else if method = ''DELETE'' then has ''d''
        else if method = ''POST'' then has ''aw''
        else False)
     else if svc = ''queue'' then
       (if method = ''GET'' \<or> method = ''HEAD'' then has ''rp''
        else if method = ''PUT'' then has ''cw''
        else if method = ''POST'' then has ''a''
        else if method = ''DELETE'' then has ''d''
        else False)
     else if svc = ''table'' then
       (if method = ''GET'' \<or> method = ''HEAD'' then has ''r''
        else if method = ''PUT'' then (if depth \<le> 3 then has ''c'' else has ''u'')
        else if method = ''MERGE'' then has ''u''
        else if method = ''POST'' then has ''a''
        else if method = ''DELETE'' then has ''d''
        else False)
     else False)"

text \<open>The zero \<open>time.Time\<close>, the first of January of year 1; a zero \<open>now\<close> means the clock.\<close>

definition zero_time :: int where
  "zero_time = - 62135596800 * 10 ^ 9"

definition VerifyStorageSAS :: "stdlib \<Rightarrow> int \<Rightarrow> string \<Rightarrow> http_request \<Rightarrow> int \<Rightarrow> bool" where
  "VerifyStorageSAS lib clock accountKey r now0 =
    (let sig = trim_space (query_get r ''sig''); se = trim_space (query_get r ''se'');
         st = trim_space (query_get r ''st''); now = (if now0 = zero_time then clock else now0) in
     if accountKey = [] then False
     else if sig = [] \<or> se = [] then False
     else (case ParseSASExpiry lib se of
         None \<Rightarrow> False
       | Some expiry \<Rightarrow>
           if \<not> now < expiry then False
           else if st \<noteq> [] \<and> (case ParseSASExpiry lib st of None \<Rightarrow> True | Some start \<Rightarrow> now < start) then False
           else if \<not> SASPermits (query_get r ''sp'') (rq_method r) (rq_path r) then False
           else VerifyStorageSharedKey lib accountKey (StorageSASStringToSign r) sig))"

section \<open>Shared access signatures for Service Bus\<close>

definition signServiceBusSAS :: "stdlib \<Rightarrow> string \<Rightarrow> string \<Rightarrow> string \<Rightarrow> string" where
  "signServiceBusSAS lib accountKey resourceURI se =
    b64_encode lib (hmac_sha256 lib accountKey (resourceURI @ newline @ se))"

definition SignServiceBusSAS :: "stdlib \<Rightarrow> string \<Rightarrow> string \<Rightarrow> string \<Rightarrow> int \<Rightarrow> string" where
  "SignServiceBusSAS lib accountKey keyName0 resourceURI0 expiry =
    (let keyName = (if trim_space keyName0 = [] then ''RootManageSharedAccessKey'' else trim_space keyName0);
         resourceURI = trim_space resourceURI0 in
     if accountKey = [] \<or> resourceURI = [] \<or> expiry = zero_time then []
     else let se = format_int (expiry div 10 ^ 9);
              sig = signServiceBusSAS lib accountKey resourceURI se in
       ''SharedAccessSignature '' @
       values_encode [(''sr'', resourceURI), (''sig'', sig), (''se'', se), (''skn'', keyName)])"

definition VerifyServiceBusSAS :: "stdlib \<Rightarrow> int \<Rightarrow> string \<Rightarrow> string \<Rightarrow> string \<Rightarrow> int \<Rightarrow> bool" where
  "VerifyServiceBusSAS lib clock accountKey0 token0 resourceURI now0 =
    (let accountKey = trim_space accountKey0; token1 = trim_space token0 in
     if accountKey = [] \<or> token1 = [] then False
     else let token = trim_prefix (trim_prefix token1 ''SharedAccessSignature '') ''sharedaccesssignature '' in
       (case parse_query token of
          None \<Rightarrow> False
        | Some vals \<Rightarrow>
            let sr = trim_space (values_get vals ''sr''); sig = trim_space (values_get vals ''sig'');
                se = trim_space (values_get vals ''se''); now = (if now0 = zero_time then clock else now0) in
            if sr = [] \<or> sig = [] \<or> se = [] then False
            else if resourceURI \<noteq> [] \<and>
                \<not> equal_fold (trim_right_char CHR ''/'' sr) (trim_right_char CHR ''/'' resourceURI) then False
            else (case parse_int64 se of
                None \<Rightarrow> False
              | Some expUnix \<Rightarrow>
                  if \<not> now < expUnix * 10 ^ 9 then False
                  else signServiceBusSAS lib accountKey sr se = sig)))"

section \<open>A concrete library\<close>

text \<open>
  A library to evaluate the model with: digests are the text or a constant, dates are the days
  of a table.
\<close>

definition lab_lib :: stdlib where
  "lab_lib =
    \<lparr>hmac_sha256 = (\<lambda>k m. ''mac''), sha256_hex = (\<lambda>t. t), b64_encode = (\<lambda>s. s),
     b64_decode = (\<lambda>s. None), b64_raw_url_decode = (\<lambda>s. Inl ''illegal base64 data''),
     json_parse = (\<lambda>s. Inl ''unexpected end of JSON input''),
     time_parse = (\<lambda>layout s. if layout = ''2006-01-02''
       then map_of [(''2030-01-01'', 1893456000 * 10 ^ 9), (''2099-01-01'', 4070908800 * 10 ^ 9)] s
       else None)\<rparr>"

definition lab_auth :: Authenticator where
  "lab_auth =
    \<lparr>au_RootClientID = [], au_RootAccessToken = ''root-token'',
     au_Tokens = Some (\<lambda>h now. Inr (if h = ''alice-token'' then Some ''alice'' else None)),
     au_JWT = None, au_Now = 1700000000 * 10 ^ 9\<rparr>"

section \<open>Who a token speaks for\<close>

text \<open>
  C5: a Graph token opens nothing but Graph: a principal that is not root and may call Graph
  may call neither Resource Manager nor any data plane nor the registry.
\<close>

theorem audience_isolation:
  assumes "\<not> pr_IsRoot p" "AllowsGraph p"
  shows "\<not> AllowsARM p \<and> \<not> AllowsVault p \<and> \<not> AllowsServiceBus p \<and> \<not> AllowsEventHubs p \<and>
    \<not> AllowsEventGrid p \<and> \<not> AllowsCosmos p \<and> \<not> AllowsAppConfig p \<and> \<not> AllowsCognitive p \<and>
    \<not> AllowsCommunication p \<and> \<not> AllowsStorage p \<and> \<not> AllowsRegistry p"
proof -
  from assms obtain a as where auds: "normalizedAudiences p = a # as"
    by (cases "normalizedAudiences p") (auto simp: AllowsGraph_def)
  with assms have kinds: "\<And>x. x \<in> set (a # as) \<Longrightarrow> audienceKind x = ''graph'' \<or> audienceKind x = ''aadgraph''"
    by (auto simp: AllowsGraph_def list_all_iff split: if_splits)
  have kind: "\<not> allowsKind p k" if "k \<noteq> ''graph''" "k \<noteq> ''aadgraph''" for k
    using assms(1) auds kinds[of a] that by (auto simp: allowsKind_def)
  have arm: "\<not> AllowsARM p"
    using assms(1) auds kinds[of a] by (auto simp: AllowsARM_def)
  have "\<not> list_ex (\<lambda>a. audienceKind a = ''acr'') (a # as)"
    using kinds by (fastforce simp: list_ex_iff)
  with arm assms(1) have "\<not> AllowsRegistry p"
    by (simp add: AllowsRegistry_def auds Let_def)
  with kind arm assms(1) auds show ?thesis
    by (simp add: AllowsVault_def AllowsServiceBus_def AllowsEventHubs_def AllowsEventGrid_def
        AllowsCosmos_def AllowsAppConfig_def AllowsCognitive_def AllowsCommunication_def AllowsStorage_def)
qed

definition graph_user :: Principal where
  "graph_user = \<lparr>pr_ID = ''user'', pr_IsRoot = False, pr_Audiences = [''https://graph.microsoft.com/''],
     pr_Issuer = ''https://sts.windows.net/t''\<rparr>"

theorem audience_isolation_witness: "\<not> AllowsVault graph_user"
  using audience_isolation [of graph_user] by code_simp

lemma resolve_token_not_root:
  "resolve_token lib f key now token = Inr (Some p) \<Longrightarrow> \<not> pr_IsRoot p \<and> pr_ID p \<noteq> []"
  by (auto simp: resolve_token_def attachJWTClaims_def
      split: option.splits sum.splits if_splits)

text \<open>
  Authentication grants root to nobody but the bearer of the configured root token, never
  when none is configured, and never an empty principal id.
\<close>

theorem root_needs_root_token:
  assumes "AuthenticateToken lib a token = Inr p"
  shows "pr_ID p \<noteq> [] \<and> (pr_IsRoot p \<longleftrightarrow> au_RootAccessToken a \<noteq> [] \<and> token = au_RootAccessToken a)"
  using assms
  by (auto simp: AuthenticateToken_def split: if_splits sum.splits option.splits
      dest: resolve_token_not_root)

theorem root_needs_root_token_witness:
  "\<not> pr_IsRoot \<lparr>pr_ID = ''alice'', pr_IsRoot = False, pr_Audiences = [], pr_Issuer = []\<rparr>"
proof -
  have "AuthenticateToken lab_lib lab_auth ''alice-token'' =
      Inr \<lparr>pr_ID = ''alice'', pr_IsRoot = False, pr_Audiences = [], pr_Issuer = []\<rparr>"
    by (simp add: AuthenticateToken_def lab_lib_def lab_auth_def resolve_token_def HashToken_def
        attachJWTClaims_def)
  from root_needs_root_token [OF this] show ?thesis by (simp add: lab_auth_def)
qed

lemma unknown_token_rejected:
  assumes "token \<noteq> au_RootAccessToken a"
    and "\<And>f. au_Tokens a = Some f \<Longrightarrow> f (HashToken lib token) (au_Now a) \<in> {Inr None, Inr (Some [])}"
    and "\<And>f. au_JWT a = Some f \<Longrightarrow> f token (au_Now a) \<in> {Inr None, Inr (Some [])}"
  shows "AuthenticateToken lib a token = Inl ErrUnauthenticated"
proof -
  have "resolve_token lib (au_Tokens a) (HashToken lib token) (au_Now a) token = Inr None"
    using assms(2) by (cases "au_Tokens a") (auto simp: resolve_token_def)
  moreover have "resolve_token lib (au_JWT a) token (au_Now a) token = Inr None"
    using assms(3) by (cases "au_JWT a") (auto simp: resolve_token_def)
  ultimately show ?thesis using assms(1) by (simp add: AuthenticateToken_def)
qed

section \<open>Which paths are public\<close>

lemma public_segments:
  "oauthTokenPath path \<Longrightarrow> length (path_segments path) \<le> 5"
  "oauthDeviceCodePath path \<Longrightarrow> length (path_segments path) \<le> 5"
  "oidcDiscoveryPath path \<Longrightarrow> length (path_segments path) \<le> 5"
  "jwksPath path \<Longrightarrow> length (path_segments path) \<le> 5"
  "instanceDiscoveryPath path \<Longrightarrow> length (path_segments path) \<le> 5"
  by (auto simp: oauthTokenPath_def oauthDeviceCodePath_def oidcDiscoveryPath_def jwksPath_def
      instanceDiscoveryPath_def split: list.splits)

lemma length_split_on: "length (split_on c s) = Suc (count_list s c)"
  by (induction s) (auto split: list.splits)

lemma count_slash_lower: "count_list (to_lower s) (CHR ''/'') = count_list s (CHR ''/'')"
  by (induction s) (auto simp: to_lower_def)

text \<open>
  No path of five or more slashes is served without authentication, the lab's OIDC issuer
  excepted. Resources in a resource group have such paths, whatever their names are.
\<close>

theorem public_paths_are_shallow:
  assumes "IsPublicPath path" "count_list path (CHR ''/'') \<ge> 5"
  shows "has_prefix (to_lower path) ''/_noctaxris-az/oidc-lab'' \<or> has_prefix (to_lower path) ''/_lab/oidc-lab''"
proof (rule ccontr)
  assume no: "\<not> ?thesis"
  have "path \<notin> set fixed_public_paths"
    using assms(2) by (auto simp: fixed_public_paths_def)
  with assms(1) no have "length (path_segments path) \<le> 5"
    by (auto simp: IsPublicPath_def public_segments)
  with assms(2) show False
    by (simp add: path_segments_def length_split_on count_slash_lower)
qed

theorem public_paths_are_shallow_witness:
  "has_prefix (to_lower ''/_lab/oidc-lab/a/b/c'') ''/_noctaxris-az/oidc-lab'' \<or>
   has_prefix (to_lower ''/_lab/oidc-lab/a/b/c'') ''/_lab/oidc-lab''"
proof (rule public_paths_are_shallow)
  show "IsPublicPath ''/_lab/oidc-lab/a/b/c''" by code_simp
  show "count_list ''/_lab/oidc-lab/a/b/c'' (CHR ''/'') \<ge> 5" by simp
qed


section \<open>What a signature permits\<close>



lemma append_newline_inject:
  assumes "set a \<inter> set newline = {}" "set b \<inter> set newline = {}"
    and "a @ newline @ x = b @ newline @ y"
  shows "a = b \<and> x = y"
  using assms
proof (induction a arbitrary: b)
  case Nil
  then show ?case by (cases b) (auto simp: newline_def)
next
  case (Cons c a)
  then show ?case by (cases b) (auto simp: newline_def)
qed

definition one_line :: "string \<Rightarrow> bool" where
  "one_line s \<longleftrightarrow> set s \<inter> set newline = {}"

definition sas_fields :: "http_request \<Rightarrow> string list" where
  "sas_fields r = [query_get r ''sp'', query_get r ''st'', query_get r ''se'', rq_path r]"

lemma sas_string_injective:
  assumes "list_all one_line (sas_fields r)" "list_all one_line (sas_fields r')"
    and "StorageSASStringToSign r = StorageSASStringToSign r'"
  shows "sas_fields r = sas_fields r'"
proof -
  from assms(1,2) have free: "set (query_get x k) \<inter> set newline = {}"
    if "x \<in> {r, r'}" "k \<in> {''sp'', ''st'', ''se''}" for x k
    using that by (auto simp: sas_fields_def one_line_def)
  note inj = append_newline_inject[OF free free]
  have "query_get r ''sp'' = query_get r' ''sp'' \<and>
      query_get r ''st'' @ newline @ query_get r ''se'' @ newline @ rq_path r =
      query_get r' ''st'' @ newline @ query_get r' ''se'' @ newline @ rq_path r'"
    using assms(3) by (intro inj) (simp_all add: StorageSASStringToSign_def)
  moreover from this have "query_get r ''st'' = query_get r' ''st'' \<and>
      query_get r ''se'' @ newline @ rq_path r = query_get r' ''se'' @ newline @ rq_path r'"
    by (intro inj) simp_all
  moreover from this have "query_get r ''se'' = query_get r' ''se'' \<and> rq_path r = rq_path r'"
    by (intro inj) simp_all
  ultimately show ?thesis by (simp add: sas_fields_def)
qed

definition sas_mac :: "stdlib \<Rightarrow> string \<Rightarrow> string \<Rightarrow> string" where
  "sas_mac lib accountKey text = b64_encode lib (hmac_sha256 lib (decodeAccountKey lib accountKey) text)"

lemma VerifyStorageSAS_iff:
  "VerifyStorageSAS lib clock key r now0 \<longleftrightarrow>
    (let now = (if now0 = zero_time then clock else now0) in
     key \<noteq> [] \<and> trim_space (query_get r ''sig'') \<noteq> [] \<and> trim_space (query_get r ''se'') \<noteq> [] \<and>
     (\<exists>expiry. ParseSASExpiry lib (trim_space (query_get r ''se'')) = Some expiry \<and> now < expiry) \<and>
     (trim_space (query_get r ''st'') \<noteq> [] \<longrightarrow>
       (\<exists>start. ParseSASExpiry lib (trim_space (query_get r ''st'')) = Some start \<and> start \<le> now)) \<and>
     SASPermits (query_get r ''sp'') (rq_method r) (rq_path r) \<and>
     sas_mac lib key (StorageSASStringToSign r) = trim_space (query_get r ''sig''))"
  by (auto simp: VerifyStorageSAS_def VerifyStorageSharedKey_def sas_mac_def Let_def not_less
      split: option.splits if_splits)

lemma storage_sas_checks:
  assumes "VerifyStorageSAS lib clock key r now" "now \<noteq> zero_time"
  shows "\<exists>expiry. ParseSASExpiry lib (trim_space (query_get r ''se'')) = Some expiry \<and> now < expiry \<and>
    SASPermits (query_get r ''sp'') (rq_method r) (rq_path r) \<and>
    sas_mac lib key (StorageSASStringToSign r) = trim_space (query_get r ''sig'')"
  using assms by (auto simp: VerifyStorageSAS_iff Let_def)

text \<open>
  A storage SAS is bound to its permissions, its times and its path: if the signature of
  one verified request verifies another that differs in one of them, the MAC has a collision.
  The fields must each be a single line.
\<close>

theorem sas_reuse_needs_collision:
  assumes "VerifyStorageSAS lib clock key r now" "VerifyStorageSAS lib clock key r' now'"
    and "query_get r' ''sig'' = query_get r ''sig''"
    and "list_all one_line (sas_fields r)" "list_all one_line (sas_fields r')"
    and "sas_fields r \<noteq> sas_fields r'"
  shows "\<exists>m m'. m \<noteq> m' \<and> sas_mac lib key m = sas_mac lib key m'"
proof (intro exI conjI)
  show "StorageSASStringToSign r \<noteq> StorageSASStringToSign r'"
    using sas_string_injective[OF assms(4,5)] assms(6) by blast
  show "sas_mac lib key (StorageSASStringToSign r) = sas_mac lib key (StorageSASStringToSign r')"
    using assms(1,2,3) by (simp add: VerifyStorageSAS_iff Let_def)
qed

text \<open>A request with the query of a SAS.\<close>

definition sas_request :: "string \<Rightarrow> string \<Rightarrow> string \<Rightarrow> string \<Rightarrow> string \<Rightarrow> string \<Rightarrow> http_request" where
  "sas_request method path sp st se sig =
    \<lparr>rq_method = method, rq_path = path,
     rq_query = [(''sp'', [sp]), (''st'', [st]), (''se'', [se]), (''sig'', [sig])],
     rq_header = [], rq_json = None\<rparr>"

theorem sas_reuse_needs_collision_witness:
  "\<exists>m m'. m \<noteq> m' \<and> sas_mac lab_lib ''key'' m = sas_mac lab_lib ''key'' m'"
proof (rule sas_reuse_needs_collision)
  let ?r = "\<lambda>path. sas_request ''GET'' path ''r'' [] ''2030-01-01'' ''mac''"
  show "VerifyStorageSAS lab_lib 0 ''key'' (?r ''/blob/lab/c/x'') (1700000000 * 10 ^ 9)" by code_simp
  show "VerifyStorageSAS lab_lib 0 ''key'' (?r ''/blob/lab/c/y'') (1700000000 * 10 ^ 9)" by code_simp
  show "query_get (?r ''/blob/lab/c/y'') ''sig'' = query_get (?r ''/blob/lab/c/x'') ''sig''" by code_simp
  show "list_all one_line (sas_fields (?r ''/blob/lab/c/x''))" by code_simp
  show "list_all one_line (sas_fields (?r ''/blob/lab/c/y''))" by code_simp
  show "sas_fields (?r ''/blob/lab/c/x'') \<noteq> sas_fields (?r ''/blob/lab/c/y'')" by code_simp
qed

text \<open>
  With line breaks the binding is lost. A SAS that permits reading one blob whose name
  holds line breaks also verifies a write to another blob, with a later expiry: the signed text
  is the same, only cut at other lines.
\<close>

theorem sas_newline_confusion:
  assumes "VerifyStorageSAS lib clock key
      (sas_request ''GET'' (''/blob/lab/public/x'' @ newline @ newline @ ''2099-01-01'' @ newline @ ''/blob/lab/private/y'')
        ''r'' [] ''2030-01-01'' sig) now"
    and "time_parse lib ''2006-01-02'' ''2099-01-01'' = Some late"
    and "\<And>layout. layout \<noteq> ''2006-01-02'' \<Longrightarrow> time_parse lib layout ''2099-01-01'' = None"
    and "now < late" "now \<noteq> zero_time"
  shows "VerifyStorageSAS lib clock key
      (sas_request ''PUT'' ''/blob/lab/private/y''
        (''r'' @ newline @ newline @ ''2030-01-01'' @ newline @ ''/blob/lab/public/x'') [] ''2099-01-01'' sig) now"
proof -
  let ?sp = "''r'' @ newline @ newline @ ''2030-01-01'' @ newline @ ''/blob/lab/public/x''"
  have "SASPermits ?sp ''PUT'' ''/blob/lab/private/y''" by code_simp
  moreover have "ParseSASExpiry lib (trim_space ''2099-01-01'') = Some late"
    using assms(2,3) by (simp add: ParseSASExpiry_def sas_layouts_def trim_space_def)
  ultimately show ?thesis
    using assms(1,4,5)
    by (simp add: VerifyStorageSAS_iff sas_request_def query_get_def first_value_def
        StorageSASStringToSign_def newline_def trim_space_def)
qed

theorem sas_newline_confusion_witness:
  "VerifyStorageSAS lab_lib 0 ''key''
    (sas_request ''PUT'' ''/blob/lab/private/y''
      (''r'' @ newline @ newline @ ''2030-01-01'' @ newline @ ''/blob/lab/public/x'') [] ''2099-01-01'' ''mac'')
    (1700000000 * 10 ^ 9)"
proof (rule sas_newline_confusion)
  show "VerifyStorageSAS lab_lib 0 ''key''
      (sas_request ''GET'' (''/blob/lab/public/x'' @ newline @ newline @ ''2099-01-01'' @ newline @ ''/blob/lab/private/y'')
        ''r'' [] ''2030-01-01'' ''mac'') (1700000000 * 10 ^ 9)"
    by code_simp
  show "time_parse lab_lib ''2006-01-02'' ''2099-01-01'' = Some (4070908800 * 10 ^ 9)"
    by (simp add: lab_lib_def)
  show "layout \<noteq> ''2006-01-02'' \<Longrightarrow> time_parse lab_lib layout ''2099-01-01'' = None" for layout
    by (simp add: lab_lib_def)
  show "1700000000 * 10 ^ 9 < (4070908800 * 10 ^ 9 :: int)" by simp
  show "1700000000 * 10 ^ 9 \<noteq> zero_time" by (simp add: zero_time_def)
qed

section \<open>Canonical headers\<close>

lemma mset_sink [simp]: "mset (sink h ps) = add_mset h (mset ps)"
  by (induction h ps rule: sink.induct) auto

lemma set_sink [simp]: "set (sink h ps) = insert h (set ps)"
  by (induction h ps rule: sink.induct) auto

lemma sorted_sink: "sorted (rev (map fst ps)) \<Longrightarrow> sorted (rev (map fst (sink h ps)))"
  by (induction h ps rule: sink.induct) (auto simp: sorted_append)

lemma foldl_sink:
  "sorted (rev (map fst acc)) \<Longrightarrow> sorted (rev (map fst (foldl (\<lambda>acc h. sink h acc) acc hs)))"
  "mset (foldl (\<lambda>acc h. sink h acc) acc hs) = mset acc + mset hs"
  by (induction hs arbitrary: acc) (auto simp: sorted_sink)

lemma insertion_sort_sorts:
  "sorted (map fst (insertion_sort hs))" "mset (insertion_sort hs) = mset hs"
  using foldl_sink[of "[]" hs] by (simp_all add: insertion_sort_def rev_map)

lemma insertion_sort_unique:
  assumes "mset hs = mset hs'" "distinct (map fst hs)"
  shows "insertion_sort hs = insertion_sort hs'"
proof -
  let ?a = "insertion_sort hs" and ?b = "insertion_sort hs'"
  have m: "mset ?a = mset ?b" "mset ?a = mset hs" "mset ?b = mset hs"
    using assms(1) by (simp_all add: insertion_sort_sorts)
  have d: "distinct (map fst xs)" if "mset xs = mset hs" for xs
  proof -
    from that have "mset (map fst xs) = mset (map fst hs)" by simp
    with assms(2) show ?thesis by (metis distinct_count_atmost_1 set_mset_mset)
  qed
  have "set ?a = set ?b" using m by (metis set_mset_mset)
  moreover have "inj_on fst (set ?a \<union> set ?b)"
    using d[OF m(2)] \<open>set ?a = set ?b\<close> by (simp add: distinct_map)
  ultimately show ?thesis
    using d[OF m(2)] d[OF m(3)] insertion_sort_sorts(1)
    by (intro map_sorted_distinct_set_unique[of fst]) auto
qed

text \<open>
  The string to sign does not depend on the order in which Go iterates over the header
  map: the insertion sort brings the same headers into the same order.
\<close>

theorem canonical_headers_order_independent:
  assumes "mset (rq_header r) = mset (rq_header r')"
    and "distinct (map (\<lambda>(k, vs). to_lower (trim_space k)) (rq_header r))"
  shows "canonicalizeStorageMSHeaders r = canonicalizeStorageMSHeaders r'"
proof -
  have ms: "mset (ms_headers r) = mset (ms_headers r')"
    using assms(1) by (simp add: ms_headers_def)
  have "map fst (ms_headers r) =
      map (\<lambda>(k, vs). to_lower (trim_space k))
        (filter (\<lambda>(k, vs). has_prefix (to_lower (trim_space k)) ''x-ms-'') (rq_header r))"
    by (simp add: ms_headers_def case_prod_unfold comp_def)
  with assms(2) have d: "distinct (map fst (ms_headers r))"
    by (simp add: distinct_map_filter)
  have "ms_headers r = [] \<longleftrightarrow> ms_headers r' = []"
    using ms by (metis mset_zero_iff)
  then show ?thesis
    by (simp add: canonicalizeStorageMSHeaders_def Let_def insertion_sort_unique[OF ms d])
qed

theorem canonical_headers_order_independent_witness:
  "canonicalizeStorageMSHeaders \<lparr>rq_method = ''GET'', rq_path = ''/'', rq_query = [],
     rq_header = [(''X-Ms-Version'', [''2021'']), (''X-Ms-Date'', [''d''])], rq_json = None\<rparr> =
   canonicalizeStorageMSHeaders \<lparr>rq_method = ''GET'', rq_path = ''/'', rq_query = [],
     rq_header = [(''X-Ms-Date'', [''d'']), (''X-Ms-Version'', [''2021''])], rq_json = None\<rparr>"
proof (rule canonical_headers_order_independent)
  show "mset (rq_header \<lparr>rq_method = ''GET'', rq_path = ''/'', rq_query = [],
      rq_header = [(''X-Ms-Version'', [''2021'']), (''X-Ms-Date'', [''d''])], rq_json = None\<rparr>) =
    mset (rq_header \<lparr>rq_method = ''GET'', rq_path = ''/'', rq_query = [],
      rq_header = [(''X-Ms-Date'', [''d'']), (''X-Ms-Version'', [''2021''])], rq_json = None\<rparr>)"
    by simp
qed code_simp

section \<open>Service Bus tokens\<close>

text \<open>
  A token the code signs for a namespace key verifies under this key until it expires,
  whatever characters the resource and the key name hold. The signature must be a single word,
  as base64 is.
\<close>

theorem servicebus_sas_roundtrip:
  assumes key: "accountKey \<noteq> []" "trim_space accountKey = accountKey"
    and uri: "trim_space resourceURI = resourceURI" "resourceURI \<noteq> []"
    and sig: "signServiceBusSAS lib accountKey resourceURI (format_int (expiry div 10 ^ 9)) = sig"
      "sig \<noteq> []" "trim_space sig = sig"
    and time: "now < expiry div 10 ^ 9 * 10 ^ 9" "now \<noteq> zero_time" "expiry \<noteq> zero_time"
      "- (2 ^ 63) \<le> expiry div 10 ^ 9" "expiry div 10 ^ 9 < 2 ^ 63"
  shows "VerifyServiceBusSAS lib clock accountKey
    (SignServiceBusSAS lib accountKey keyName resourceURI expiry) [] now"
proof -
  define se where "se = format_int (expiry div 10 ^ 9)"
  define skn where "skn = (if trim_space keyName = [] then ''RootManageSharedAccessKey'' else trim_space keyName)"
  define kvs where "kvs = [(''sr'', resourceURI), (''sig'', sig), (''se'', se), (''skn'', skn)]"
  let ?token = "''SharedAccessSignature '' @ values_encode kvs"
  have token: "SignServiceBusSAS lib accountKey keyName resourceURI expiry = ?token"
    using key uri sig time
    by (simp add: SignServiceBusSAS_def Let_def se_def skn_def kvs_def)
  have trimmed: "trim_space ?token = ?token"
  proof (rule trim_space_id)
    have "values_encode kvs \<noteq> []"
      by (rule values_encode_not_Nil) (simp add: kvs_def)
    then show "\<not> is_space (last ?token)"
      using values_encode_not_space[OF last_in_set] by simp
  qed simp_all
  have body: "trim_prefix (trim_prefix ?token ''SharedAccessSignature '') ''sharedaccesssignature '' = values_encode kvs"
  proof -
    have "trim_prefix ?token ''SharedAccessSignature '' = values_encode kvs"
      by (rule trim_prefix_append)
    moreover have "\<not> has_prefix (values_encode kvs) ''sharedaccesssignature ''"
    proof
      assume "has_prefix (values_encode kvs) ''sharedaccesssignature ''"
      then have "CHR '' '' \<in> set (values_encode kvs)" by (auto simp: has_prefix_iff)
      from values_encode_not_space[OF this] show False by simp
    qed
    ultimately show ?thesis by (simp add: trim_prefix_def)
  qed
  have get: "values_get (sort_key fst kvs) k = values_get kvs k" for k
    by (rule values_get_sorted) (simp add: kvs_def)
  have fields: "values_get kvs ''sr'' = resourceURI" "values_get kvs ''sig'' = sig" "values_get kvs ''se'' = se"
    by (simp_all add: kvs_def values_get_def)
  have digits: "set se \<subseteq> set ''-0123456789''" "se \<noteq> []"
    unfolding se_def by (rule format_int_digits)+
  then have se_trimmed: "trim_space se = se"
  proof (intro trim_space_no_space)
    fix c assume "set se \<subseteq> set ''-0123456789''" "c \<in> set se"
    then have "c \<in> set ''-0123456789''" by blast
    then show "\<not> is_space c" by auto
  qed
  have parsed: "parse_int64 se = Some (expiry div 10 ^ 9)"
    unfolding se_def using time(4,5) by (rule parse_format_int)
  have "?token \<noteq> []" by simp
  with key uri sig(1)[folded se_def] sig(2,3) time digits(2) show ?thesis
    unfolding token VerifyServiceBusSAS_def Let_def trimmed body parse_query_encode
    by (simp add: get fields se_trimmed parsed)
qed

theorem servicebus_sas_roundtrip_witness:
  "VerifyServiceBusSAS lab_lib 0 ''key''
    (SignServiceBusSAS lab_lib ''key'' [] ''sb://ns.servicebus.windows.net/q&=%'' (1893456000 * 10 ^ 9)) []
    (1700000000 * 10 ^ 9)"
proof (rule servicebus_sas_roundtrip)
  show "signServiceBusSAS lab_lib ''key'' ''sb://ns.servicebus.windows.net/q&=%''
      (format_int (1893456000 * 10 ^ 9 div 10 ^ 9)) = ''mac''"
    by (simp add: signServiceBusSAS_def lab_lib_def)
qed (simp_all add: zero_time_def trim_space_def)

end
