(* ===== verification/Amqp_Session.thy ===== *)
theory Amqp_Session
  imports Amqp_Codec Store_Sealed Store_Queues Authn
begin

text \<open>
  The sessions of the AMQP server, \<open>internal/amqp/server.go\<close>: what a connection keeps, what each
  performative does to it and to the store, and the loop over the frames of a connection. The
  deadlines of a connection and the cancellation of the server end a loop early and are not
  modelled.
\<close>

section \<open>The state of a connection\<close>

record link =
  lk_name :: string
  lk_handle :: u32
  lk_role :: bool
  lk_queue :: string
  lk_namespace :: string
  lk_credit :: u32

record session =
  ss_namespace :: string
  ss_sasToken :: string
  ss_sasKeyName :: string
  ss_links :: "u32 \<Rightarrow> link option"
  ss_nextDelivery :: u32

definition new_session :: session where
  "new_session = \<lparr>ss_namespace = [], ss_sasToken = [], ss_sasKeyName = [],
    ss_links = (\<lambda>h. None), ss_nextDelivery = 0\<rparr>"

text \<open>The peer: what was written to it, and how many more writes it takes before it is gone.\<close>

record peer =
  pe_out :: "byte list"
  pe_writes :: nat

definition peer_write :: "peer \<Rightarrow> byte list \<Rightarrow> unit result \<times> peer" where
  "peer_write c bs =
    (case pe_writes c of
       0 \<Rightarrow> (Inl ''write: broken pipe'', c)
     | Suc n \<Rightarrow> (Inr (), c\<lparr>pe_out := pe_out c @ bs, pe_writes := n\<rparr>))"

record amqp_env =
  am_lib :: stdlib
  am_crypto :: crypto

section \<open>Names and connection strings\<close>

definition host_label :: "string \<Rightarrow> string" where
  "host_label v =
    (case index_byte v CHR ''.'' of
       Some (Suc i) \<Rightarrow> take (Suc i) v
     | _ \<Rightarrow> (case index_byte v CHR '':'' of
           Some (Suc i) \<Rightarrow> take (Suc i) v
         | _ \<Rightarrow> v))"

definition trimSBHost :: "string \<Rightarrow> string" where
  "trimSBHost host = host_label (trim_suffix (trim_prefix (trim_space host) ''sb://'') ''/'')"

text \<open>The variables of \<open>applyConnectionString\<close>: the key, its name and the entity.\<close>

record cs_parts =
  cs_key :: string
  cs_keyName :: string
  cs_entity :: string

definition apply_part :: "string \<Rightarrow> session \<times> cs_parts \<Rightarrow> session \<times> cs_parts" where
  "apply_part p = (\<lambda>(s, cs).
    (case index_byte p CHR ''='' of
       None \<Rightarrow> (s, cs)
     | Some i \<Rightarrow>
         (let k = to_lower (trim_space (take i p)); v = trim_space (drop (i + 1) p) in
          if k = ''endpoint'' then
            (let v = trim_suffix (trim_prefix (trim_prefix (trim_prefix v ''sb://'') ''amqp://'') ''amqps://'') ''/''
             in (s\<lparr>ss_namespace := host_label v\<rparr>, cs))
          else if k = ''sharedaccesskey'' then (s, cs\<lparr>cs_key := v\<rparr>)
          else if k = ''sharedaccesskeyname'' then (s\<lparr>ss_sasKeyName := v\<rparr>, cs\<lparr>cs_keyName := v\<rparr>)
          else if k = ''sharedaccesssignature'' then (s\<lparr>ss_sasToken := v\<rparr>, cs)
          else if k = ''entitypath'' then (s, cs\<lparr>cs_entity := v\<rparr>)
          else (s, cs))))"

definition applyConnectionString :: "stdlib \<Rightarrow> int \<Rightarrow> session \<Rightarrow> string \<Rightarrow> session" where
  "applyConnectionString lib now s cs =
    (let (s, cs) = foldl (\<lambda>st p. apply_part p st) (s, \<lparr>cs_key = [], cs_keyName = [], cs_entity = []\<rparr>)
           (split_on CHR '';'' cs) in
     if ss_sasToken s = [] \<and> cs_key cs \<noteq> [] \<and> ss_namespace s \<noteq> [] then
       s\<lparr>ss_sasToken := SignServiceBusSAS lib (cs_key cs) (cs_keyName cs)
         (''sb://'' @ ss_namespace s @ ''.servicebus.windows.net/'' @ trim_prefix (cs_entity cs) ''/'')
         (now + 3600 * 10 ^ 9)\<rparr>
     else s)"

section \<open>Delivery\<close>

function deliver ::
  "u16 \<Rightarrow> u32 \<Rightarrow> string \<Rightarrow> string \<Rightarrow> u32 \<Rightarrow> u32 \<Rightarrow> peer \<Rightarrow> store \<Rightarrow>
    unit result \<times> u32 \<times> u32 \<times> peer \<times> store" where
  "deliver channel handle ns queue credit nextDelivery c st =
    (if credit = 0 then (Inr (), credit, nextDelivery, c, st)
     else (case DequeueSB st ns queue of
         (Inl e, st') \<Rightarrow> (Inl e, credit, nextDelivery, c, st')
       | (Inr None, st') \<Rightarrow> (Inr (), credit, nextDelivery, c, st')
       | (Inr (Some body), st') \<Rightarrow>
           (case peer_write c (writeTransfer channel handle (nextDelivery + 1) (encodeDataSection body)) of
              (Inl e, c') \<Rightarrow> (Inl e, credit, nextDelivery + 1, c', st')
            | (Inr _, c') \<Rightarrow> deliver channel handle ns queue (credit - 1) (nextDelivery + 1) c' st')))"
  by pat_completeness auto

termination
  by (relation "measure (\<lambda>(channel, handle, ns, queue, credit, nextDelivery, c, st). unat credit)")
    (auto simp: measure_unat)

declare deliver.simps [simp del]

section \<open>Performatives\<close>

definition on_open :: "amqp_env \<Rightarrow> int \<Rightarrow> session \<Rightarrow> amqp_value list \<Rightarrow> session" where
  "on_open env now s fs =
    (let s = s\<lparr>ss_namespace := trimSBHost (fieldString fs 1)\<rparr>;
         props = map_of (fieldMap fs 4);
         s = (case props ''connection-string'' of
                Some cs \<Rightarrow> applyConnectionString (am_lib env) now s cs | None \<Rightarrow> s);
         s = (case props ''SharedAccessSignature'' of Some tok \<Rightarrow> s\<lparr>ss_sasToken := tok\<rparr> | None \<Rightarrow> s);
         s = (case props ''sas-token'' of
                Some tok \<Rightarrow> if ss_sasToken s = [] then s\<lparr>ss_sasToken := tok\<rparr> else s | None \<Rightarrow> s)
     in (case props ''SharedAccessKeyName'' of Some n \<Rightarrow> s\<lparr>ss_sasKeyName := n\<rparr> | None \<Rightarrow> s))"

text \<open>The namespace and the queue an attach asks for.\<close>

definition attach_target :: "session \<Rightarrow> amqp_value list \<Rightarrow> string \<times> string" where
  "attach_target s fs =
    (let queue = fieldString fs 5;
         queue = (if queue = [] then fieldString fs 4 else queue);
         queue = (if queue = [] then fieldString fs 0 else queue);
         queue = trim_prefix queue ''/'' in
     case index_byte queue CHR ''/'' of
       Some (Suc i) \<Rightarrow> (take (Suc i) queue, drop (i + 2) queue)
     | _ \<Rightarrow> (ss_namespace s, queue))"

definition on_attach ::
  "amqp_env \<Rightarrow> int \<Rightarrow> u16 \<Rightarrow> session \<Rightarrow> peer \<Rightarrow> store \<Rightarrow> amqp_value list \<Rightarrow>
    unit result \<times> session \<times> peer" where
  "on_attach env now channel s c st fs =
    (let name = fieldString fs 0; handle = fieldUint32 fs 1; role = fieldBool fs 2;
         (ns, queue) = attach_target s fs in
     if ns = [] then (Inl ''namespace required for attach'', s, c)
     else (case GetSBNamespaceKey (am_crypto env) st ns of
         Inl e \<Rightarrow> (Inl e, s, c)
       | Inr None \<Rightarrow> (Inl ''unknown namespace'', s, c)
       | Inr (Some want) \<Rightarrow>
           if trim_space (ss_sasToken s) = [] then (Inl ''SharedAccessSignature required'', s, c)
           else if \<not> VerifyServiceBusSAS (am_lib env) now want (ss_sasToken s) [] now then
             (Inl ''sas token invalid'', s, c)
           else
             (let s' = s\<lparr>ss_links := (ss_links s)(handle \<mapsto>
                    \<lparr>lk_name = name, lk_handle = handle, lk_role = \<not> role, lk_queue = queue,
                     lk_namespace = ns, lk_credit = 0\<rparr>)\<rparr>;
                  (res, c') = peer_write c (writePerformative channel perfAttach
                    [VString name, VUint32 handle, VBool (\<not> role), VNil, VNil, VString queue, VString queue])
              in (res, s', c'))))"

definition link_namespace :: "session \<Rightarrow> link \<Rightarrow> string" where
  "link_namespace s l = (if lk_namespace l = [] then ss_namespace s else lk_namespace l)"

definition on_flow ::
  "u16 \<Rightarrow> session \<Rightarrow> peer \<Rightarrow> store \<Rightarrow> amqp_value list \<Rightarrow> unit result \<times> session \<times> peer \<times> store" where
  "on_flow channel s c st fs =
    (let handle = fieldUint32 fs 0; credit = fieldUint32 fs 5 in
     case ss_links s handle of
       None \<Rightarrow> (Inr (), s, c, st)
     | Some l \<Rightarrow>
         if \<not> lk_role l \<and> credit > 0 then
           (let (res, credit', next, c', st') = deliver channel (lk_handle l) (link_namespace s l) (lk_queue l)
                  credit (ss_nextDelivery s) c st
            in (res, s\<lparr>ss_links := (ss_links s)(handle \<mapsto> l\<lparr>lk_credit := credit'\<rparr>),
                  ss_nextDelivery := next\<rparr>, c', st'))
         else (Inr (), s\<lparr>ss_links := (ss_links s)(handle \<mapsto> l\<lparr>lk_credit := credit\<rparr>)\<rparr>, c, st))"

definition on_transfer ::
  "u16 \<Rightarrow> session \<Rightarrow> peer \<Rightarrow> store \<Rightarrow> amqp_value list \<Rightarrow> byte list \<Rightarrow>
    (unit result \<times> peer \<times> store) parsed" where
  "on_transfer channel s c st fs payload =
    (case ss_links s (fieldUint32 fs 0) of
       None \<Rightarrow> Parsed (Inr (), c, st)
     | Some l \<Rightarrow> (case extractDataSection payload of
           Panic \<Rightarrow> Panic
         | Failed e \<Rightarrow> Failed e
         | Parsed data \<Rightarrow>
             (let body = (if data = [] then payload else data) in
              case EnqueueSB st (link_namespace s l) (lk_queue l) body of
                (Inl e, st') \<Rightarrow> Parsed (Inl e, c, st')
              | (Inr _, st') \<Rightarrow>
                  (let deliveryID = fieldUint32 fs 1;
                       (res, c') = peer_write c (writePerformative channel perfDisposition
                         [VBool True, VUint32 deliveryID, VUint32 deliveryID, VBool True])
                   in Parsed (res, c', st')))))"

text \<open>
  \<open>onFrame\<close>. \<open>Panic\<close> when decoding panics, otherwise the error or success and the new states.
\<close>

definition onFrame ::
  "amqp_env \<Rightarrow> int \<Rightarrow> session \<Rightarrow> peer \<Rightarrow> store \<Rightarrow> frame \<Rightarrow>
    (unit result \<times> session \<times> peer \<times> store) parsed" where
  "onFrame env now s c st f =
    (if fr_body f = [] then Parsed (Inr (), s, c, st)
     else (case parseDescribedList (fr_body f) of
         Panic \<Rightarrow> Panic
       | Failed e \<Rightarrow> Parsed (Inl e, s, c, st)
       | Parsed (code, fs, n) \<Rightarrow>
           (let channel = fr_channel f;
                reply = (\<lambda>s code fs. let (res, c') = peer_write c (writePerformative channel code fs)
                  in Parsed (res, s, c', st)) in
            if code = perfOpen then
              reply (on_open env now s fs) perfOpen [VString ''noctaxris-az'', VNil, VUint32 65536, VUint16 1]
            else if code = perfBegin then
              reply s perfBegin [VUint16 0, VUint32 0, VUint32 2048, VUint32 2048]
            else if code = perfAttach then
              (let (res, s', c') = on_attach env now channel s c st fs in Parsed (res, s', c', st))
            else if code = perfFlow then Parsed (on_flow channel s c st fs)
            else if code = perfTransfer then
              (case on_transfer channel s c st fs (drop n (fr_body f)) of
                 Panic \<Rightarrow> Panic
               | Failed e \<Rightarrow> Failed e
               | Parsed (res, c', st') \<Rightarrow> Parsed (res, s, c', st'))
            else if code = perfDisposition then Parsed (Inr (), s, c, st)
            else if code = perfDetach then
              (let handle = fieldUint32 fs 0 in
               reply (s\<lparr>ss_links := (ss_links s)(handle := None)\<rparr>) perfDetach [VUint32 handle, VBool True])
            else if code = perfEnd then reply s perfEnd []
            else if code = perfClose then reply s perfClose []
            else Parsed (Inr (), s, c, st))))"

section \<open>A connection\<close>

text \<open>
  The loop of \<open>handleConn\<close> over the bytes a client sends, at one time \<open>now\<close>: it ends with the
  error of a frame or of the end of the stream, or with a panic.
\<close>

definition protocolHeader :: "byte list" where
  "protocolHeader = [0x41, 0x4D, 0x51, 0x50, 0, 1, 0, 0]"

lemma readFrame_shorter: "readFrame r = Inr (f, r') \<Longrightarrow> length r' < length r"
  by (auto simp: readFrame_def Let_def split: if_splits)

function handle_frames ::
  "amqp_env \<Rightarrow> int \<Rightarrow> session \<Rightarrow> peer \<Rightarrow> store \<Rightarrow> byte list \<Rightarrow> (string \<times> peer \<times> store) parsed" where
  "handle_frames env now s c st input =
    (case readFrame input of
       Inl e \<Rightarrow> Parsed (e, c, st)
     | Inr (f, rest) \<Rightarrow> (case onFrame env now s c st f of
           Panic \<Rightarrow> Panic
         | Failed e \<Rightarrow> Failed e
         | Parsed (Inl e, s', c', st') \<Rightarrow> Parsed (e, c', st')
         | Parsed (Inr _, s', c', st') \<Rightarrow> handle_frames env now s' c' st' rest))"
  by pat_completeness auto

termination
  by (relation "measure (\<lambda>(env, now, s, c, st, input). length input)") (auto dest: readFrame_shorter)

declare handle_frames.simps [simp del]

definition handleConn ::
  "amqp_env \<Rightarrow> int \<Rightarrow> peer \<Rightarrow> store \<Rightarrow> byte list \<Rightarrow> (string \<times> peer \<times> store) parsed" where
  "handleConn env now c st input =
    (if length input < 8 then Parsed (''EOF'', c, st)
     else if take 4 input \<noteq> take 4 protocolHeader then Parsed (''bad protocol header'', c, st)
     else (case peer_write c protocolHeader of
         (Inl e, c') \<Rightarrow> Parsed (e, c', st)
       | (Inr _, c') \<Rightarrow> handle_frames env now new_session c' st (drop 8 input)))"

section \<open>Sending to a client\<close>

lemma peer_write_cases:
  "peer_write c bs = (if pe_writes c = 0 then (Inl ''write: broken pipe'', c)
    else (Inr (), c\<lparr>pe_out := pe_out c @ bs, pe_writes := pe_writes c - 1\<rparr>))"
  by (simp add: peer_write_def split: nat.split)

lemma DequeueSB_deq:
  assumes "messages_ok st"
  shows "DequeueSB st ns q = (Inr (fst (sb_deq st (ns, q))), snd (sb_deq st (ns, q)))"
proof -
  have "db_fault st = None" using assms by (simp add: messages_ok_def)
  then show ?thesis
    by (auto simp: sb_deq_def DequeueSB_def take_sb_def split: option.split)
qed

text \<open>The frames of consecutive deliveries.\<close>

fun transfers :: "u16 \<Rightarrow> u32 \<Rightarrow> u32 \<Rightarrow> byte list list \<Rightarrow> byte list" where
  "transfers channel handle next [] = []"
| "transfers channel handle next (b # bs) =
    writeTransfer channel handle (next + 1) (encodeDataSection b) @ transfers channel handle (next + 1) bs"

lemma deliver_0: "deliver channel handle ns q 0 next c st = (Inr (), 0, next, c, st)"
  by (subst deliver.simps) simp

lemma deliver_pos:
  "credit \<noteq> 0 \<Longrightarrow> deliver channel handle ns q credit next c st =
     (case DequeueSB st ns q of
        (Inl e, st') \<Rightarrow> (Inl e, credit, next, c, st')
      | (Inr None, st') \<Rightarrow> (Inr (), credit, next, c, st')
      | (Inr (Some body), st') \<Rightarrow>
          (case peer_write c (writeTransfer channel handle (next + 1) (encodeDataSection body)) of
             (Inl e, c') \<Rightarrow> (Inl e, credit, next + 1, c', st')
           | (Inr _, c') \<Rightarrow> deliver channel handle ns q (credit - 1) (next + 1) c' st'))"
  by (subst deliver.simps) simp

lemma deliver_takes:
  assumes "messages_ok st" "deliver channel handle ns q credit next c st = (res, credit', next', c', st')"
  shows "messages_ok st' \<and> (\<forall>k. k \<noteq> (ns, q) \<longrightarrow> sb_contents st' k = sb_contents st k) \<and>
    (let sent = min (pe_writes c) (min (unat credit) (length (sb_contents st (ns, q)))) in
     pe_out c' = pe_out c @ transfers channel handle next (take sent (sb_contents st (ns, q))) \<and>
     unat credit' = unat credit - sent \<and>
     (case res of
        Inr _ \<Rightarrow> sb_contents st' (ns, q) = drop sent (sb_contents st (ns, q)) \<and>
          sent = min (unat credit) (length (sb_contents st (ns, q)))
      | Inl _ \<Rightarrow> sb_contents st' (ns, q) = drop (Suc sent) (sb_contents st (ns, q)) \<and> sent = pe_writes c \<and>
          sent < min (unat credit) (length (sb_contents st (ns, q)))))"
  using assms
proof (induction channel handle ns q credit "next" c st rule: deliver.induct)
  case (1 channel handle ns q credit "next" c st)
  let ?q = "sb_contents st (ns, q)"
  show ?case
  proof (cases "credit = 0")
    case True
    with "1.prems" show ?thesis by (auto simp: deliver_0)
  next
    case False
    then have pos: "0 < unat credit" by (simp add: unat_gt_0)
    show ?thesis
    proof (cases ?q)
      case Nil
      then have "sb_deq st (ns, q) = (None, st)" by (rule sb_queues.deq_empty[OF "1.prems"(1)])
      then have "DequeueSB st ns q = (Inr None, st)" by (simp add: DequeueSB_deq[OF "1.prems"(1)])
      with "1.prems" False Nil show ?thesis by (auto simp: deliver_pos)
    next
      case (Cons b bs)
      obtain st1 where st1: "sb_deq st (ns, q) = (Some b, st1)" "messages_ok st1" "sb_contents st1 (ns, q) = bs"
        "\<forall>k. k \<noteq> (ns, q) \<longrightarrow> sb_contents st1 k = sb_contents st k"
        using sb_queues.deq_Cons[OF "1.prems"(1) Cons] by blast
      then have deq: "DequeueSB st ns q = (Inr (Some b), st1)" by (simp add: DequeueSB_deq[OF "1.prems"(1)])
      show ?thesis
      proof (cases "pe_writes c")
        case 0
        with "1.prems"(2) False deq have "res = Inl ''write: broken pipe''" "credit' = credit" "c' = c" "st' = st1"
          by (simp_all add: deliver_pos peer_write_def)
        with st1 0 Cons pos show ?thesis by simp
      next
        case (Suc w)
        let ?c1 = "c\<lparr>pe_out := pe_out c @ writeTransfer channel handle (next + 1) (encodeDataSection b), pe_writes := w\<rparr>"
        have w: "peer_write c (writeTransfer channel handle (next + 1) (encodeDataSection b)) = (Inr (), ?c1)"
          by (simp add: peer_write_def Suc)
        with "1.prems"(2) False deq
        have rest: "deliver channel handle ns q (credit - 1) (next + 1) ?c1 st1 = (res, credit', next', c', st')"
          by (simp add: deliver_pos)
        have dec: "unat (credit - 1) = unat credit - 1" using False by (simp add: unat_minus_one)
        note IH = "1.IH"[OF False deq[symmetric] refl refl w[symmetric] refl st1(2) rest]
        let ?sent = "min w (min (unat credit - 1) (length bs))"
        have sent: "min (pe_writes c) (min (unat credit) (length ?q)) = Suc ?sent"
          using pos by (simp add: Suc Cons)
        have "min (unat credit) (length ?q) = Suc (min (unat credit - 1) (length bs))"
          using pos by (simp add: Cons)
        then show ?thesis
          using IH unfolding sent Let_def
          by (cases res) (auto simp: st1 dec Cons Suc)
      qed
    qed
  qed
qed

text \<open>
  C20: when a receiver grants credit, the oldest messages of its queue are written to it in order,
  as many as the credit and the queue allow, under consecutive delivery ids; exactly these leave
  the queue and no other queue changes. The peer must take that many writes.
\<close>

theorem flow_delivers_in_order:
  assumes "messages_ok st" "ss_links s (fieldUint32 fs 0) = Some l" "\<not> lk_role l"
    and "unat (fieldUint32 fs 5) \<le> pe_writes c"
  shows "\<exists>s' c' st'. on_flow channel s c st fs = (Inr (), s', c', st') \<and>
    (let k = (link_namespace s l, lk_queue l); n = unat (fieldUint32 fs 5) in
     pe_out c' = pe_out c @
       transfers channel (lk_handle l) (ss_nextDelivery s) (take n (sb_contents st k)) \<and>
     (\<forall>k'. sb_contents st' k' = (if k' = k then drop n (sb_contents st k) else sb_contents st k')))"
proof (cases "fieldUint32 fs 5 = 0")
  case True
  with assms(2) show ?thesis by (simp add: on_flow_def)
next
  case False
  let ?k = "(link_namespace s l, lk_queue l)" and ?n = "unat (fieldUint32 fs 5)"
  obtain res credit' nx c' st' where d: "deliver channel (lk_handle l) (link_namespace s l) (lk_queue l)
      (fieldUint32 fs 5) (ss_nextDelivery s) c st = (res, credit', nx, c', st')"
    by (metis prod_cases5)
  let ?q = "sb_contents st ?k"
  define sent where "sent = min (pe_writes c) (min ?n (length ?q))"
  have sent: "sent = min ?n (length ?q)" using assms(4) by (simp add: sent_def)
  note t = deliver_takes[OF assms(1) d, folded sent_def, unfolded Let_def]
  have res: "res = Inr ()"
    using t assms(4) by (cases res) auto
  then have "take sent ?q = take ?n ?q" "drop sent ?q = drop ?n ?q"
    by (simp_all add: sent min_def)
  with t res show ?thesis
    using assms(2,3) False d by (auto simp: on_flow_def word_gt_0 Let_def)
qed

definition lab_receiver :: session where
  "lab_receiver = new_session\<lparr>ss_links := (ss_links new_session)(7 \<mapsto>
    \<lparr>lk_name = ''l'', lk_handle = 7, lk_role = False, lk_queue = ''q'', lk_namespace = ''n'', lk_credit = 0\<rparr>)\<rparr>"

definition lab_flow :: "amqp_value list" where
  "lab_flow = [VUint32 7, VNil, VNil, VNil, VNil, VUint32 2]"

theorem flow_delivers_in_order_witness:
  "\<exists>s' c' st'. on_flow 0 lab_receiver \<lparr>pe_out = [], pe_writes = 2\<rparr> (sb_enq empty_store (''n'', ''q'') [1]) lab_flow =
      (Inr (), s', c', st') \<and>
    (let k = (link_namespace lab_receiver (the (ss_links lab_receiver 7)), lk_queue (the (ss_links lab_receiver 7)));
         n = unat (fieldUint32 lab_flow 5) in
     pe_out c' = pe_out \<lparr>pe_out = [], pe_writes = 2\<rparr> @
       transfers 0 (lk_handle (the (ss_links lab_receiver 7))) (ss_nextDelivery lab_receiver)
         (take n (sb_contents (sb_enq empty_store (''n'', ''q'') [1]) k)) \<and>
     (\<forall>k'. sb_contents st' k' = (if k' = k then drop n (sb_contents (sb_enq empty_store (''n'', ''q'') [1]) k)
       else sb_contents (sb_enq empty_store (''n'', ''q'') [1]) k')))"
proof (rule flow_delivers_in_order)
  show "messages_ok (sb_enq empty_store (''n'', ''q'') [1])"
    by (rule sb_queues.ok_enq) (simp add: messages_ok_def empty_store_def seq_ok_empty)
  show "ss_links lab_receiver (fieldUint32 lab_flow 0) = Some (the (ss_links lab_receiver 7))"
    by (simp add: lab_receiver_def lab_flow_def fieldUint32_def)
  show "\<not> lk_role (the (ss_links lab_receiver 7))" by (simp add: lab_receiver_def)
  show "unat (fieldUint32 lab_flow 5) \<le> pe_writes \<lparr>pe_out = [], pe_writes = 2\<rparr>"
    by (simp add: lab_flow_def fieldUint32_def)
qed

section \<open>Who may attach\<close>











section \<open>What a session may touch\<close>

lemma DequeueSB_messages_ok: "messages_ok st \<Longrightarrow> DequeueSB st ns q = (r, st') \<Longrightarrow> messages_ok st'"
  using sb_queues.deq_many_takes[of st 1 "(ns, q)"] by (auto simp: DequeueSB_deq split: prod.splits option.splits)






text \<open>
  The scope a token was signed for is not compared with the queue of the attach: the outcome of
  an attach depends on the namespace only.
\<close>

lemma attach_ignores_queue:
  assumes "attach_target s fs = (ns, q)" "attach_target s fs' = (ns, q')"
  shows "fst (on_attach env now channel s c st fs) = fst (on_attach env now channel s c st fs')"
  using assms by (auto simp: on_attach_def Let_def peer_write_cases split: sum.split option.split)

text \<open>A frame may be lost between the queue and the peer, so a message is delivered at most once.\<close>

lemma lost_message:
  assumes "messages_ok st" "sb_contents st (ns, q) = m # ms" "credit \<noteq> 0" "pe_writes c = 0"
    and "deliver channel handle ns q credit next c st = (res, credit', next', c', st')"
  shows "pe_out c' = pe_out c \<and> sb_contents st' (ns, q) = ms \<and> (\<exists>e. res = Inl e)"
proof -
  have "0 < unat credit" using assms(3) by (simp add: unat_gt_0)
  with deliver_takes[OF assms(1,5)] show ?thesis
    by (cases res) (auto simp: assms(2,4))
qed

definition panic_input :: "byte list" where
  "panic_input = protocolHeader @ [0, 0, 0, 14, 2, 0, 0, 0, 0x00, 0x53, 0x10, 0xc0, 0, 0]"

lemma panic_frame:
  "readFrame (drop 8 panic_input) = Inr (\<lparr>fr_channel = 0, fr_body = [0x00, 0x53, 0x10, 0xc0, 0, 0]\<rparr>, [])"
  by code_simp

lemma panic_body: "parseDescribedList [0x00, 0x53, 0x10, 0xc0, 0, 0] = Panic"
  by code_simp

text \<open>
  C22: a client needs no credentials to make the server panic: a protocol header and one frame of
  fourteen bytes do.
\<close>

theorem anyone_can_panic_the_server:
  assumes "0 < pe_writes c"
  shows "handleConn env now c st panic_input = Panic"
proof -
  have "take 4 panic_input = take 4 protocolHeader" "\<not> length panic_input < 8"
    by (simp_all add: panic_input_def protocolHeader_def)
  moreover have "handle_frames env now new_session c' st (drop 8 panic_input) = Panic" for c'
    by (subst handle_frames.simps) (simp add: panic_frame onFrame_def panic_body)
  ultimately show ?thesis using assms by (simp add: handleConn_def peer_write_cases)
qed

theorem anyone_can_panic_the_server_witness:
  "handleConn \<lparr>am_lib = lab_lib, am_crypto = lab_crypto\<rparr> 0 \<lparr>pe_out = [], pe_writes = 1\<rparr> empty_store panic_input = Panic"
  by (rule anyone_can_panic_the_server) simp

end
