(* ===== verification/Az_Gate.thy ===== *)
theory Az_Gate
  imports Authn Rbac_Eval
begin

text \<open>
  The gates of \<open>internal/kernel/azauth/dataplane.go\<close>: authentication, the audience of the token,
  then the RBAC decision. A gate answers with the principal that passed or with the response it
  wrote. A nil authenticator, evaluator or audience test is \<open>None\<close>.
\<close>

text \<open>\<open>config.DefaultSubscriptionID\<close>, the scope of data whose owner is not found.\<close>

definition DefaultSubscriptionID :: string where
  "DefaultSubscriptionID = ''00000000-0000-0000-0000-000000000002''"

type_synonym gate = "http_response + Principal"

definition RequireDataPlaneBearer ::
  "stdlib \<Rightarrow> http_request \<Rightarrow> Authenticator option \<Rightarrow> evaluator option \<Rightarrow> (Principal \<Rightarrow> bool) option \<Rightarrow>
    string \<Rightarrow> string \<Rightarrow> gate" where
  "RequireDataPlaneBearer lib r auth ev allows action scope =
    (case auth of
       None \<Rightarrow> Inl (Unauthenticated [])
     | Some a \<Rightarrow> (case AuthenticateRequest lib a r of
         Inl e \<Rightarrow> Inl (Unauthenticated [])
       | Inr p \<Rightarrow>
           if (case allows of None \<Rightarrow> True | Some f \<Rightarrow> \<not> f p) then
             Inl (InvalidAuthenticationTokenAudience [])
           else if pr_IsRoot p then Inr p
           else if action = [] \<or> scope = [] then Inl (Forbidden [])
           else (case ev of
               None \<Rightarrow> Inl (Forbidden [])
             | Some e \<Rightarrow> (case Evaluate e (pr_ID p) (pr_IsRoot p) action scope of
                 Inl err \<Rightarrow> Inl (InternalError err)
               | Inr ok \<Rightarrow> if ok then Inr p else Inl (Forbidden [])))))"

definition RequireARMBearer ::
  "stdlib \<Rightarrow> http_request \<Rightarrow> Authenticator option \<Rightarrow> evaluator option \<Rightarrow> string \<Rightarrow> string \<Rightarrow> gate" where
  "RequireARMBearer lib r auth ev action scope =
    RequireDataPlaneBearer lib r auth ev (Some AllowsARM) action scope"

text \<open>\<open>None\<close> when the caller may go on, otherwise the response that was written.\<close>

definition RequireAuthzEvaluator :: "bool \<Rightarrow> evaluator option \<Rightarrow> http_response option" where
  "RequireAuthzEvaluator isRoot ev =
    (case ev of Some e \<Rightarrow> None | None \<Rightarrow> if isRoot then None else Some (Forbidden []))"

section \<open>What passing a gate means\<close>

text \<open>
  The abstract contract of every gate: somebody is authenticated, with a token for the right
  API, and is root or holds a grant.
\<close>

definition authorized ::
  "stdlib \<Rightarrow> Authenticator option \<Rightarrow> evaluator option \<Rightarrow> (Principal \<Rightarrow> bool) \<Rightarrow> http_request \<Rightarrow> string \<Rightarrow>
    string \<Rightarrow> Principal \<Rightarrow> bool" where
  "authorized lib auth ev allows r action scope p \<longleftrightarrow>
    (\<exists>a. auth = Some a \<and> AuthenticateRequest lib a r = Inr p) \<and> allows p \<and>
    (pr_IsRoot p \<or> (\<exists>e. ev = Some e \<and> Evaluate e (pr_ID p) False action scope = Inr True))"

lemma Evaluate_empty: "action = [] \<or> scope = [] \<Longrightarrow> Evaluate e p False action scope = Inr False"
  by (auto simp: Evaluate_def split: option.split)

lemma gate_passes:
  "RequireDataPlaneBearer lib r auth ev (Some allows) action scope = Inr p \<longleftrightarrow>
    authorized lib auth ev allows r action scope p"
proof (cases auth)
  case (Some a)
  show ?thesis
  proof (cases "AuthenticateRequest lib a r")
    case (Inr q)
    with Some show ?thesis
      using Evaluate_empty[of action scope]
      by (cases "pr_IsRoot q"; cases ev)
        (auto simp: RequireDataPlaneBearer_def authorized_def split: sum.split)
  qed (simp add: RequireDataPlaneBearer_def authorized_def Some)
qed (simp add: RequireDataPlaneBearer_def authorized_def)

lemma gate_denies:
  "RequireDataPlaneBearer lib r auth ev allows action scope = Inl rs \<Longrightarrow> rs_code rs \<in> {401, 403, 500}"
  by (auto simp: RequireDataPlaneBearer_def split: option.splits sum.splits if_splits)

text \<open>
  C4: the data-plane gate lets a request pass exactly when its sender is authenticated for
  this API and is root or granted the action; otherwise it answers 401, 403 or, when the
  decision could not be made, 500.
\<close>

theorem gate_contract:
  "(RequireDataPlaneBearer lib r auth ev (Some allows) action scope = Inr p \<longleftrightarrow>
      authorized lib auth ev allows r action scope p) \<and>
   (case RequireDataPlaneBearer lib r auth ev (Some allows) action scope of
      Inr q \<Rightarrow> True | Inl rs \<Rightarrow> rs_code rs \<in> {401, 403, 500})"
  by (simp add: gate_passes split: sum.split) (blast dest: gate_denies)

lemma arm_gate_passes:
  "RequireARMBearer lib r auth ev action scope = Inr p \<longleftrightarrow> authorized lib auth ev AllowsARM r action scope p"
  by (simp add: RequireARMBearer_def gate_passes)

end
