(* ===== verification/Arm_Lab.thy ===== *)
theory Arm_Lab
  imports Az_Gate Store_Arm "HOL-Library.AList"
begin

text \<open>
  The ARM lab services: the packages under \<open>internal/services\<close> whose \<open>handler.go\<close> is the same
  control-plane handler for another resource type (put, get, delete and list over the provider
  table, behind the ARM gate), and the scrubbing of secret properties,
  \<open>internal/kernel/armprops/scrub.go\<close>. The common handler is defined once for the constants a
  package fixes; each package is its instance.
\<close>

section \<open>Scrubbing properties\<close>

type_synonym json_map = "(string \<times> json) list"

definition secret_property_keys :: "string list" where
  "secret_property_keys =
    [''administratorloginpassword'', ''password'', ''primarykey'', ''secondarykey'',
     ''primarymasterkey'', ''secondarymasterkey'', ''primaryreadonlymasterkey'',
     ''secondaryreadonlymasterkey'', ''connectionstring'', ''primaryconnectionstring'',
     ''secondaryconnectionstring'', ''accesskey'', ''accesskeys'', ''sharedaccesskey'',
     ''clientsecret'', ''secret'', ''secrets'', ''kubeconfig'']"

definition isSecretPropertyKey :: "string \<Rightarrow> bool" where
  "isSecretPropertyKey key =
    (let k = to_lower (trim_space key) in
     if k \<in> set secret_property_keys then True
     else contains k ''password'' \<or> has_suffix k ''connectionstring'' \<or> has_suffix k ''masterkey'' \<or>
       (contains k ''accesskey'' \<and> \<not> contains k ''accesskeyenabled''))"

text \<open>\<open>Public\<close> of a nil map is the empty map.\<close>

definition Public :: "json_map option \<Rightarrow> json_map" where
  "Public props =
    (case props of None \<Rightarrow> [] | Some m \<Rightarrow> filter (\<lambda>(k, v). \<not> isSecretPropertyKey k) m)"

section \<open>The constants of a service\<close>

text \<open>
  The provider key of its rows, the ARM type it reports, the type in the actions it asks for
  and the type in its routes and ids.
\<close>

record arm_service =
  svc_providerKey :: string
  svc_armType :: string
  svc_action :: string
  svc_path :: string

record arm_env =
  ae_lib :: stdlib
  ae_auth :: "Authenticator option"
  ae_authz :: "evaluator option"

section \<open>Routes\<close>

datatype arm_op = ArmPut string string string | ArmGet string string string
  | ArmDelete string string string | ArmList string string

text \<open>
  The four patterns that \<open>Register\<close> mounts, on the segments of the path as the router cuts and
  decodes them. A wildcard matches a non-empty segment; a pattern for GET also serves HEAD.
\<close>

definition arm_route :: "arm_service \<Rightarrow> string \<Rightarrow> string list \<Rightarrow> arm_op option" where
  "arm_route svc method segs =
    (case segs of
       [a, sub, b, rg, c, ns, ty] \<Rightarrow>
         if a = ''subscriptions'' \<and> b = ''resourceGroups'' \<and> c = ''providers'' \<and> ns @ ''/'' @ ty = svc_path svc \<and>
            sub \<noteq> [] \<and> rg \<noteq> [] \<and> (method = ''GET'' \<or> method = ''HEAD'')
         then Some (ArmList sub rg) else None
     | [a, sub, b, rg, c, ns, ty, name] \<Rightarrow>
         if a = ''subscriptions'' \<and> b = ''resourceGroups'' \<and> c = ''providers'' \<and> ns @ ''/'' @ ty = svc_path svc \<and>
            sub \<noteq> [] \<and> rg \<noteq> [] \<and> name \<noteq> []
         then (if method = ''PUT'' then Some (ArmPut sub rg name)
               else if method = ''GET'' \<or> method = ''HEAD'' then Some (ArmGet sub rg name)
               else if method = ''DELETE'' then Some (ArmDelete sub rg name)
               else None)
         else None
     | _ \<Rightarrow> None)"

section \<open>The handler\<close>

definition group_scope :: "string \<Rightarrow> string \<Rightarrow> string" where
  "group_scope sub rg = ''/subscriptions/'' @ sub @ ''/resourceGroups/'' @ rg"

text \<open>\<open>require\<close>: \<open>None\<close> when the request may go on, otherwise the response written.\<close>

definition arm_require :: "arm_env \<Rightarrow> http_request \<Rightarrow> string \<Rightarrow> string \<Rightarrow> string \<Rightarrow> http_response option" where
  "arm_require env r sub rg action =
    (case ae_auth env of
       None \<Rightarrow> Some (Unauthenticated [])
     | Some a \<Rightarrow> (case AuthenticateRequest (ae_lib env) a r of
         Inl e \<Rightarrow> Some (Unauthenticated [])
       | Inr p \<Rightarrow>
           if \<not> AllowsARM p then Some (InvalidAuthenticationTokenAudience [])
           else (case RequireAuthzEvaluator (pr_IsRoot p) (ae_authz env) of
               Some rs \<Rightarrow> Some rs
             | None \<Rightarrow> (case ae_authz env of
                   None \<Rightarrow> None
                 | Some ev \<Rightarrow> (case Evaluate ev (pr_ID p) (pr_IsRoot p) action (group_scope sub rg) of
                       Inl err \<Rightarrow> Some (InternalError err)
                     | Inr ok \<Rightarrow> if ok then None else Some (Forbidden []))))))"

definition resourceJSON ::
  "arm_service \<Rightarrow> string \<Rightarrow> string \<Rightarrow> string \<Rightarrow> string \<Rightarrow> json_map option \<Rightarrow> json" where
  "resourceJSON svc sub rg name location props =
    JObj [(''id'', JStr (group_scope sub rg @ ''/providers/'' @ svc_path svc @ ''/'' @ name)),
          (''name'', JStr name), (''type'', JStr (svc_armType svc)), (''location'', JStr location),
          (''properties'', JObj (Public props))]"

text \<open>
  Decoding the body into the struct of \<open>put\<close>, as \<open>encoding/json\<close> does: keys match without case,
  later fields overwrite earlier ones, an object is decoded into the map that is already there,
  null and values of another type leave a string alone, null clears the map. A body that is no
  JSON or no object changes nothing, since the error of \<open>Decode\<close> is dropped.
\<close>

definition map_update :: "json_map \<Rightarrow> json_map \<Rightarrow> json_map" where
  "map_update m kvs = foldl (\<lambda>m (k, v). AList.update k v m) m kvs"

fun decode_put_fields :: "json_map \<Rightarrow> string \<times> json_map option \<Rightarrow> string \<times> json_map option" where
  "decode_put_fields [] acc = acc"
| "decode_put_fields ((k, v) # kvs) (location, props) =
    decode_put_fields kvs
      (if equal_fold k ''location'' then
         ((case v of JStr l \<Rightarrow> l | _ \<Rightarrow> location), props)
       else if equal_fold k ''properties'' then
         (location, (case v of
            JObj o1 \<Rightarrow> Some (map_update (case props of None \<Rightarrow> [] | Some m \<Rightarrow> m) o1)
          | JNull \<Rightarrow> None
          | _ \<Rightarrow> props))
       else (location, props))"

definition decode_put_body :: "json option \<Rightarrow> string \<times> json_map option" where
  "decode_put_body body = (case body of Some (JObj kvs) \<Rightarrow> decode_put_fields kvs ([], None) | _ \<Rightarrow> ([], None))"

definition default_props :: json_map where
  "default_props = [(''provisioningState'', JStr ''Succeeded'')]"

definition put_props :: "json_map option \<Rightarrow> json_map" where
  "put_props body = (case body of None \<Rightarrow> default_props | Some m \<Rightarrow> map_update default_props m)"

definition arm_put ::
  "arm_service \<Rightarrow> arm_env \<Rightarrow> store \<Rightarrow> http_request \<Rightarrow> string \<Rightarrow> string \<Rightarrow> string \<Rightarrow> http_response \<times> store" where
  "arm_put svc env s r sub rg name =
    (case arm_require env r sub rg (svc_action svc @ ''/write'') of
       Some rs \<Rightarrow> (rs, s)
     | None \<Rightarrow>
         (let (loc, body) = decode_put_body (rq_json r);
              location = (if loc = [] then ''eastus'' else loc);
              props = put_props body in
          case UpsertProviderResource s (svc_providerKey svc) sub rg name location (Some (JObj props)) of
            (Inl err, s') \<Rightarrow> (InternalError err, s')
          | (Inr _, s') \<Rightarrow> (writeJSON 200 (resourceJSON svc sub rg name location (Some props)), s')))"

text \<open>\<open>json.Unmarshal\<close> of a stored document into a map, its error dropped: nil unless an object.\<close>

definition unmarshal_map :: "json \<Rightarrow> json_map option" where
  "unmarshal_map j = (case j of JObj m \<Rightarrow> Some m | _ \<Rightarrow> None)"

definition arm_get ::
  "arm_service \<Rightarrow> arm_env \<Rightarrow> store \<Rightarrow> http_request \<Rightarrow> string \<Rightarrow> string \<Rightarrow> string \<Rightarrow> http_response \<times> store" where
  "arm_get svc env s r sub rg name =
    (case arm_require env r sub rg (svc_action svc @ ''/read'') of
       Some rs \<Rightarrow> (rs, s)
     | None \<Rightarrow>
         (case GetProviderResource s (svc_providerKey svc) sub rg name of
            Inl err \<Rightarrow> (InternalError err, s)
          | Inr None \<Rightarrow> (NotFound ''resource not found'', s)
          | Inr (Some row) \<Rightarrow>
              (let props = (case unmarshal_map (pv_PropertiesJSON row) of None \<Rightarrow> default_props | Some m \<Rightarrow> m) in
               (writeJSON 200 (resourceJSON svc sub rg name (pv_Location row) (Some props)), s))))"

definition arm_delete ::
  "arm_service \<Rightarrow> arm_env \<Rightarrow> store \<Rightarrow> http_request \<Rightarrow> string \<Rightarrow> string \<Rightarrow> string \<Rightarrow> http_response \<times> store" where
  "arm_delete svc env s r sub rg name =
    (case arm_require env r sub rg (svc_action svc @ ''/delete'') of
       Some rs \<Rightarrow> (rs, s)
     | None \<Rightarrow>
         (case DeleteProviderResource s (svc_providerKey svc) sub rg name of
            (Inl err, s') \<Rightarrow> (InternalError err, s')
          | (Inr False, s') \<Rightarrow> (NotFound ''resource not found'', s')
          | (Inr True, s') \<Rightarrow> (writeHeader 200, s')))"

definition arm_list ::
  "arm_service \<Rightarrow> arm_env \<Rightarrow> store \<Rightarrow> http_request \<Rightarrow> string \<Rightarrow> string \<Rightarrow> http_response \<times> store" where
  "arm_list svc env s r sub rg =
    (case arm_require env r sub rg (svc_action svc @ ''/read'') of
       Some rs \<Rightarrow> (rs, s)
     | None \<Rightarrow>
         (case ListProviderResources s (svc_providerKey svc) sub rg of
            Inl err \<Rightarrow> (InternalError err, s)
          | Inr rows \<Rightarrow>
              (writeJSON 200 (JObj [(''value'', JArr (map (\<lambda>row.
                 resourceJSON svc (pv_SubscriptionID row) (pv_ResourceGroup row) (pv_Name row)
                   (pv_Location row) (unmarshal_map (pv_PropertiesJSON row))) rows))]), s)))"

definition arm_handle ::
  "arm_service \<Rightarrow> arm_env \<Rightarrow> store \<Rightarrow> http_request \<Rightarrow> arm_op \<Rightarrow> http_response \<times> store" where
  "arm_handle svc env s r op =
    (case op of
       ArmPut sub rg name \<Rightarrow> arm_put svc env s r sub rg name
     | ArmGet sub rg name \<Rightarrow> arm_get svc env s r sub rg name
     | ArmDelete sub rg name \<Rightarrow> arm_delete svc env s r sub rg name
     | ArmList sub rg \<Rightarrow> arm_list svc env s r sub rg)"

section \<open>The services\<close>

text \<open>
  Each service serves a routed request with the common handler. The route of the Redis cache is
  spelled \<open>Redis\<close>, its provider key, type and actions are spelled \<open>redis\<close>.
\<close>

definition arm_serve ::
  "arm_service \<Rightarrow> arm_env \<Rightarrow> store \<Rightarrow> http_request \<Rightarrow> string list \<Rightarrow> (http_response \<times> store) option" where
  "arm_serve svc env s r segs =
    map_option (arm_handle svc env s r) (arm_route svc (rq_method r) segs)"

definition apim_service :: arm_service where
  "apim_service = \<lparr>svc_providerKey = ''Microsoft.ApiManagement/service'', svc_armType = ''Microsoft.ApiManagement/service'',
    svc_action = ''Microsoft.ApiManagement/service'', svc_path = ''Microsoft.ApiManagement/service''\<rparr>"

definition apim_serve ::
  "arm_env \<Rightarrow> store \<Rightarrow> http_request \<Rightarrow> string list \<Rightarrow> (http_response \<times> store) option" where
  "apim_serve = arm_serve apim_service"

definition appgateway_service :: arm_service where
  "appgateway_service = \<lparr>svc_providerKey = ''Microsoft.Network/applicationGateways'', svc_armType = ''Microsoft.Network/applicationGateways'',
    svc_action = ''Microsoft.Network/applicationGateways'', svc_path = ''Microsoft.Network/applicationGateways''\<rparr>"

definition appgateway_serve ::
  "arm_env \<Rightarrow> store \<Rightarrow> http_request \<Rightarrow> string list \<Rightarrow> (http_response \<times> store) option" where
  "appgateway_serve = arm_serve appgateway_service"

definition appservice_service :: arm_service where
  "appservice_service = \<lparr>svc_providerKey = ''Microsoft.Web/staticSites'', svc_armType = ''Microsoft.Web/staticSites'',
    svc_action = ''Microsoft.Web/staticSites'', svc_path = ''Microsoft.Web/staticSites''\<rparr>"

definition appservice_serve ::
  "arm_env \<Rightarrow> store \<Rightarrow> http_request \<Rightarrow> string list \<Rightarrow> (http_response \<times> store) option" where
  "appservice_serve = arm_serve appservice_service"

definition azuresql_service :: arm_service where
  "azuresql_service = \<lparr>svc_providerKey = ''Microsoft.Sql/servers'', svc_armType = ''Microsoft.Sql/servers'',
    svc_action = ''Microsoft.Sql/servers'', svc_path = ''Microsoft.Sql/servers''\<rparr>"

definition azuresql_serve ::
  "arm_env \<Rightarrow> store \<Rightarrow> http_request \<Rightarrow> string list \<Rightarrow> (http_response \<times> store) option" where
  "azuresql_serve = arm_serve azuresql_service"

definition dns_service :: arm_service where
  "dns_service = \<lparr>svc_providerKey = ''Microsoft.Network/dnszones'', svc_armType = ''Microsoft.Network/dnszones'',
    svc_action = ''Microsoft.Network/dnszones'', svc_path = ''Microsoft.Network/dnszones''\<rparr>"

definition dns_serve ::
  "arm_env \<Rightarrow> store \<Rightarrow> http_request \<Rightarrow> string list \<Rightarrow> (http_response \<times> store) option" where
  "dns_serve = arm_serve dns_service"

definition frontdoor_service :: arm_service where
  "frontdoor_service = \<lparr>svc_providerKey = ''Microsoft.Cdn/profiles'', svc_armType = ''Microsoft.Cdn/profiles'',
    svc_action = ''Microsoft.Cdn/profiles'', svc_path = ''Microsoft.Cdn/profiles''\<rparr>"

definition frontdoor_serve ::
  "arm_env \<Rightarrow> store \<Rightarrow> http_request \<Rightarrow> string list \<Rightarrow> (http_response \<times> store) option" where
  "frontdoor_serve = arm_serve frontdoor_service"

definition loadbalancer_service :: arm_service where
  "loadbalancer_service = \<lparr>svc_providerKey = ''Microsoft.Network/loadBalancers'', svc_armType = ''Microsoft.Network/loadBalancers'',
    svc_action = ''Microsoft.Network/loadBalancers'', svc_path = ''Microsoft.Network/loadBalancers''\<rparr>"

definition loadbalancer_serve ::
  "arm_env \<Rightarrow> store \<Rightarrow> http_request \<Rightarrow> string list \<Rightarrow> (http_response \<times> store) option" where
  "loadbalancer_serve = arm_serve loadbalancer_service"

definition logic_service :: arm_service where
  "logic_service = \<lparr>svc_providerKey = ''Microsoft.Logic/workflows'', svc_armType = ''Microsoft.Logic/workflows'',
    svc_action = ''Microsoft.Logic/workflows'', svc_path = ''Microsoft.Logic/workflows''\<rparr>"

definition logic_serve ::
  "arm_env \<Rightarrow> store \<Rightarrow> http_request \<Rightarrow> string list \<Rightarrow> (http_response \<times> store) option" where
  "logic_serve = arm_serve logic_service"

definition network_service :: arm_service where
  "network_service = \<lparr>svc_providerKey = ''Microsoft.Network/virtualNetworks'', svc_armType = ''Microsoft.Network/virtualNetworks'',
    svc_action = ''Microsoft.Network/virtualNetworks'', svc_path = ''Microsoft.Network/virtualNetworks''\<rparr>"

definition network_serve ::
  "arm_env \<Rightarrow> store \<Rightarrow> http_request \<Rightarrow> string list \<Rightarrow> (http_response \<times> store) option" where
  "network_serve = arm_serve network_service"

definition nic_service :: arm_service where
  "nic_service = \<lparr>svc_providerKey = ''Microsoft.Network/networkInterfaces'', svc_armType = ''Microsoft.Network/networkInterfaces'',
    svc_action = ''Microsoft.Network/networkInterfaces'', svc_path = ''Microsoft.Network/networkInterfaces''\<rparr>"

definition nic_serve ::
  "arm_env \<Rightarrow> store \<Rightarrow> http_request \<Rightarrow> string list \<Rightarrow> (http_response \<times> store) option" where
  "nic_serve = arm_serve nic_service"

definition nsg_service :: arm_service where
  "nsg_service = \<lparr>svc_providerKey = ''Microsoft.Network/networkSecurityGroups'', svc_armType = ''Microsoft.Network/networkSecurityGroups'',
    svc_action = ''Microsoft.Network/networkSecurityGroups'', svc_path = ''Microsoft.Network/networkSecurityGroups''\<rparr>"

definition nsg_serve ::
  "arm_env \<Rightarrow> store \<Rightarrow> http_request \<Rightarrow> string list \<Rightarrow> (http_response \<times> store) option" where
  "nsg_serve = arm_serve nsg_service"

definition postgres_service :: arm_service where
  "postgres_service = \<lparr>svc_providerKey = ''Microsoft.DBforPostgreSQL/flexibleServers'', svc_armType = ''Microsoft.DBforPostgreSQL/flexibleServers'',
    svc_action = ''Microsoft.DBforPostgreSQL/flexibleServers'', svc_path = ''Microsoft.DBforPostgreSQL/flexibleServers''\<rparr>"

definition postgres_serve ::
  "arm_env \<Rightarrow> store \<Rightarrow> http_request \<Rightarrow> string list \<Rightarrow> (http_response \<times> store) option" where
  "postgres_serve = arm_serve postgres_service"

definition rediscache_service :: arm_service where
  "rediscache_service = \<lparr>svc_providerKey = ''Microsoft.Cache/redis'', svc_armType = ''Microsoft.Cache/redis'',
    svc_action = ''Microsoft.Cache/redis'', svc_path = ''Microsoft.Cache/Redis''\<rparr>"

definition rediscache_serve ::
  "arm_env \<Rightarrow> store \<Rightarrow> http_request \<Rightarrow> string list \<Rightarrow> (http_response \<times> store) option" where
  "rediscache_serve = arm_serve rediscache_service"

definition signalr_service :: arm_service where
  "signalr_service = \<lparr>svc_providerKey = ''Microsoft.SignalRService/signalR'', svc_armType = ''Microsoft.SignalRService/signalR'',
    svc_action = ''Microsoft.SignalRService/signalR'', svc_path = ''Microsoft.SignalRService/signalR''\<rparr>"

definition signalr_serve ::
  "arm_env \<Rightarrow> store \<Rightarrow> http_request \<Rightarrow> string list \<Rightarrow> (http_response \<times> store) option" where
  "signalr_serve = arm_serve signalr_service"

definition virtualmachines_service :: arm_service where
  "virtualmachines_service = \<lparr>svc_providerKey = ''Microsoft.Compute/virtualMachines'', svc_armType = ''Microsoft.Compute/virtualMachines'',
    svc_action = ''Microsoft.Compute/virtualMachines'', svc_path = ''Microsoft.Compute/virtualMachines''\<rparr>"

definition virtualmachines_serve ::
  "arm_env \<Rightarrow> store \<Rightarrow> http_request \<Rightarrow> string list \<Rightarrow> (http_response \<times> store) option" where
  "virtualmachines_serve = arm_serve virtualmachines_service"

definition openai_service :: arm_service where
  "openai_service = \<lparr>svc_providerKey = ''Microsoft.CognitiveServices/accounts'', svc_armType = ''Microsoft.CognitiveServices/accounts'',
    svc_action = ''Microsoft.CognitiveServices/accounts'', svc_path = ''Microsoft.CognitiveServices/accounts''\<rparr>"

definition openai_serve ::
  "arm_env \<Rightarrow> store \<Rightarrow> http_request \<Rightarrow> string list \<Rightarrow> (http_response \<times> store) option" where
  "openai_serve = arm_serve openai_service"

definition email_service :: arm_service where
  "email_service = \<lparr>svc_providerKey = ''Microsoft.Communication/emailServices'', svc_armType = ''Microsoft.Communication/emailServices'',
    svc_action = ''Microsoft.Communication/emailServices'', svc_path = ''Microsoft.Communication/emailServices''\<rparr>"

definition email_serve ::
  "arm_env \<Rightarrow> store \<Rightarrow> http_request \<Rightarrow> string list \<Rightarrow> (http_response \<times> store) option" where
  "email_serve = arm_serve email_service"

definition arm_services :: "arm_service list" where
  "arm_services =
    [apim_service, appgateway_service, appservice_service, azuresql_service, dns_service, frontdoor_service, loadbalancer_service, logic_service, network_service,
     nic_service, nsg_service, postgres_service, rediscache_service, signalr_service, virtualmachines_service, openai_service, email_service]"

section \<open>Fail closed\<close>

definition op_action :: "arm_service \<Rightarrow> arm_op \<Rightarrow> string" where
  "op_action svc op = svc_action svc @ (case op of
     ArmPut sub rg n \<Rightarrow> ''/write'' | ArmGet sub rg n \<Rightarrow> ''/read''
   | ArmDelete sub rg n \<Rightarrow> ''/delete'' | ArmList sub rg \<Rightarrow> ''/read'')"

definition op_scope :: "arm_op \<Rightarrow> string" where
  "op_scope op = (case op of
     ArmPut sub rg n \<Rightarrow> group_scope sub rg | ArmGet sub rg n \<Rightarrow> group_scope sub rg
   | ArmDelete sub rg n \<Rightarrow> group_scope sub rg | ArmList sub rg \<Rightarrow> group_scope sub rg)"

definition arm_authorized :: "arm_env \<Rightarrow> http_request \<Rightarrow> string \<Rightarrow> string \<Rightarrow> bool" where
  "arm_authorized env r action scope \<longleftrightarrow>
     (\<exists>p. authorized (ae_lib env) (ae_auth env) (ae_authz env) AllowsARM r action scope p)"

lemma Evaluate_root: "Evaluate e i True action scope = Inr True"
  by (simp add: Evaluate_def)

lemma arm_require_passes:
  "arm_require env r sub rg action = None \<longleftrightarrow> arm_authorized env r action (group_scope sub rg)"
proof (cases "ae_auth env")
  case (Some a)
  show ?thesis
  proof (cases "AuthenticateRequest (ae_lib env) a r")
    case (Inr p)
    with Some show ?thesis
      by (cases "pr_IsRoot p"; cases "ae_authz env")
        (auto simp: arm_require_def arm_authorized_def authorized_def RequireAuthzEvaluator_def
          Evaluate_root split: sum.split)
  qed (simp add: arm_require_def arm_authorized_def authorized_def Some)
qed (simp add: arm_require_def arm_authorized_def authorized_def)

lemma arm_require_denies:
  "arm_require env r sub rg action = Some rs \<Longrightarrow> rs_code rs \<in> {401, 403, 500}"
  by (auto simp: arm_require_def RequireAuthzEvaluator_def split: option.splits sum.splits if_splits)

lemmas arm_ops = arm_put_def arm_get_def arm_delete_def arm_list_def

lemma arm_handle_denied:
  assumes "\<not> arm_authorized env r (op_action svc op) (op_scope op)"
  shows "rs_code (fst (arm_handle svc env s r op)) \<in> {401, 403, 500} \<and> snd (arm_handle svc env s r op) = s"
proof -
  have "\<exists>rs. arm_require env r sub rg action = Some rs \<and> rs_code rs \<in> {401, 403, 500}"
    if "\<not> arm_authorized env r action (group_scope sub rg)" for sub rg action
    using that arm_require_passes[of env r sub rg action] arm_require_denies[of env r sub rg action]
    by (cases "arm_require env r sub rg action") auto
  note denied = this
  show ?thesis
  proof (cases op)
    case (ArmPut sub rg n)
    with denied[of "svc_action svc @ ''/write''" sub rg] assms show ?thesis
      by (auto simp: arm_handle_def arm_put_def op_action_def op_scope_def)
  next
    case (ArmGet sub rg n)
    with denied[of "svc_action svc @ ''/read''" sub rg] assms show ?thesis
      by (auto simp: arm_handle_def arm_get_def op_action_def op_scope_def)
  next
    case (ArmDelete sub rg n)
    with denied[of "svc_action svc @ ''/delete''" sub rg] assms show ?thesis
      by (auto simp: arm_handle_def arm_delete_def op_action_def op_scope_def)
  next
    case (ArmList sub rg)
    with denied[of "svc_action svc @ ''/read''" sub rg] assms show ?thesis
      by (auto simp: arm_handle_def arm_list_def op_action_def op_scope_def)
  qed
qed

definition lab_env :: arm_env where
  "lab_env = \<lparr>ae_lib = lab_lib, ae_auth = Some lab_auth, ae_authz = None\<rparr>"

definition root_request :: http_request where
  "root_request = \<lparr>rq_method = ''GET'', rq_path = [], rq_query = [],
    rq_header = [(''Authorization'', [''Bearer root-token''])],
    rq_json = Some (JObj [(''location'', JStr ''westus''),
      (''properties'', JObj [(''adminPassword'', JStr ''p''), (''tier'', JStr ''basic'')])])\<rparr>"

lemma root_authorized:
  "\<exists>p. authorized (ae_lib lab_env) (ae_auth lab_env) (ae_authz lab_env) AllowsARM root_request action scope p"
proof -
  obtain p where p: "AuthenticateRequest lab_lib lab_auth root_request = Inr p" "AllowsARM p" "pr_IsRoot p"
  proof
    show "AuthenticateRequest lab_lib lab_auth root_request =
        Inr (projr (AuthenticateRequest lab_lib lab_auth root_request))"
      "AllowsARM (projr (AuthenticateRequest lab_lib lab_auth root_request))"
      "pr_IsRoot (projr (AuthenticateRequest lab_lib lab_auth root_request))"
      by code_simp+
  qed
  then show ?thesis by (auto simp: authorized_def lab_env_def)
qed

text \<open>
  Every lab service fails closed: a response 200 or 404 and any change of the store come only
  from a request whose sender is authenticated with a token for Resource Manager and is root or
  granted the service's action at the scope of the resource group.
\<close>

theorem arm_fail_closed:
  assumes "rs_code (fst (arm_handle svc env s r op)) \<in> {200, 404} \<or> snd (arm_handle svc env s r op) \<noteq> s"
  shows "\<exists>p. authorized (ae_lib env) (ae_auth env) (ae_authz env) AllowsARM r
    (op_action svc op) (op_scope op) p"
proof (rule ccontr)
  assume "\<not> ?thesis"
  then have "\<not> arm_authorized env r (op_action svc op) (op_scope op)"
    by (simp add: arm_authorized_def)
  from arm_handle_denied[OF this, of s] assms show False by auto
qed

theorem arm_fail_closed_witness:
  "\<exists>p. authorized (ae_lib lab_env) (ae_auth lab_env) (ae_authz lab_env) AllowsARM root_request
    (op_action dns_service (ArmGet ''s1'' ''rg'' ''zone'')) (op_scope (ArmGet ''s1'' ''rg'' ''zone'')) p"
proof (rule arm_fail_closed)
  show "rs_code (fst (arm_handle dns_service lab_env empty_store root_request (ArmGet ''s1'' ''rg'' ''zone'')))
      \<in> {200, 404} \<or>
    snd (arm_handle dns_service lab_env empty_store root_request (ArmGet ''s1'' ''rg'' ''zone'')) \<noteq> empty_store"
    by (rule disjI1) code_simp
qed

section \<open>Secrets\<close>

definition shown_item :: "json \<Rightarrow> json_map list" where
  "shown_item j = (case json_field j ''properties'' of Some (JObj m) \<Rightarrow> [m] | _ \<Rightarrow> [])"

definition shown_properties :: "json \<Rightarrow> json_map list" where
  "shown_properties j = (case json_field j ''value'' of
     Some (JArr items) \<Rightarrow> concat (map shown_item items) | _ \<Rightarrow> shown_item j)"

definition no_secret_keys :: "json_map \<Rightarrow> bool" where
  "no_secret_keys m = list_all (\<lambda>(k, v). \<not> isSecretPropertyKey k) m"

lemma Public_no_secrets: "no_secret_keys (Public props)"
  by (auto simp: no_secret_keys_def Public_def list_all_iff split: option.split)

lemma shown_resource: "shown_properties (resourceJSON svc sub rg name loc props) = [Public props]"
  "shown_item (resourceJSON svc sub rg name loc props) = [Public props]"
  by (simp_all add: shown_properties_def shown_item_def resourceJSON_def)

lemma shown_error: "shown_properties (rs_body (WriteARM c code msg)) = []" "shown_properties JNull = []"
  by (simp_all add: shown_properties_def shown_item_def WriteARM_def writeJSON_def)

lemma error_bodies:
  "shown_properties (rs_body (Unauthenticated m)) = []"
  "shown_properties (rs_body (Forbidden m)) = []"
  "shown_properties (rs_body (InvalidAuthenticationTokenAudience m)) = []"
  "shown_properties (rs_body (NotFound m)) = []"
  "shown_properties (rs_body (InternalError m)) = []"
  by (simp_all add: Unauthenticated_def Forbidden_def InvalidAuthenticationTokenAudience_def
      NotFound_def InternalError_def shown_error)

lemma arm_require_shows_nothing:
  "arm_require env r sub rg action = Some rs \<Longrightarrow> shown_properties (rs_body rs) = []"
  by (auto simp: arm_require_def RequireAuthzEvaluator_def error_bodies
      split: option.splits sum.splits if_splits)

lemma shown_header: "shown_properties (rs_body (writeHeader c)) = []"
  by (simp add: writeHeader_def shown_error)

lemma shown_item_written:
  "shown_properties (rs_body (writeJSON c (resourceJSON svc sub rg name loc props))) = [Public props]"
  by (simp add: writeJSON_def shown_resource)

lemma shown_list_written:
  "shown_properties (rs_body (writeJSON c (JObj [(''value'', JArr (map (\<lambda>row.
     resourceJSON svc (f row) (g row) (h row) (l row) (p row)) rows))]))) = map (\<lambda>row. Public (p row)) rows"
proof -
  have "concat (map (\<lambda>row. [Public (p row)]) rows) = map (\<lambda>row. Public (p row)) rows"
    by (induction rows) auto
  then show ?thesis by (simp add: shown_properties_def writeJSON_def shown_resource comp_def)
qed

lemmas shown = shown_header shown_item_written shown_list_written error_bodies

text \<open>
  No response of a lab service shows a property whose name is that of a secret, neither of a
  single resource nor of one in a list.
\<close>

theorem secrets_never_shown:
  "list_all no_secret_keys (shown_properties (rs_body (fst (arm_handle svc env s r op))))"
proof (cases op)
  case (ArmPut sub rg n)
  then show ?thesis
    by (auto simp: arm_handle_def arm_put_def shown Public_no_secrets Let_def
        dest: arm_require_shows_nothing split: option.split sum.split prod.split)
next
  case (ArmGet sub rg n)
  then show ?thesis
    by (auto simp: arm_handle_def arm_get_def shown Public_no_secrets Let_def
        dest: arm_require_shows_nothing split: option.split sum.split prod.split)
next
  case (ArmDelete sub rg n)
  then show ?thesis
    by (auto simp: arm_handle_def arm_delete_def shown Public_no_secrets
        dest: arm_require_shows_nothing split: option.split sum.split prod.split bool.split)
next
  case (ArmList sub rg)
  then show ?thesis
    by (auto simp: arm_handle_def arm_list_def shown Public_no_secrets list_all_iff
        dest: arm_require_shows_nothing split: option.split sum.split)
qed

section \<open>A service is a map of resources\<close>

type_synonym lab_map = "string \<times> string \<times> string \<Rightarrow> (string \<times> json) option"

definition lab_view :: "arm_service \<Rightarrow> store \<Rightarrow> lab_map" where
  "lab_view svc s = (\<lambda>(sub, rg, name). provider_lookup s (svc_providerKey svc, sub, rg, name))"

definition put_document :: "json option \<Rightarrow> string \<times> json" where
  "put_document body = (let (loc, props) = decode_put_body body in
     ((if loc = [] then ''eastus'' else loc), JObj (put_props props)))"


lemma require_None: "arm_authorized env r action (group_scope sub rg) \<Longrightarrow> arm_require env r sub rg action = None"
  by (simp add: arm_require_passes)

lemma put_accepted:
  assumes "db_fault s = None" "arm_authorized env r (svc_action svc @ ''/write'') (group_scope sub rg)"
  shows "arm_put svc env s r sub rg name =
    (writeJSON 200 (resourceJSON svc sub rg name (fst (put_document (rq_json r)))
       (unmarshal_map (snd (put_document (rq_json r))))),
     provider_put s (svc_providerKey svc, sub, rg, name) (put_document (rq_json r)))"
  using assms by (cases "decode_put_body (rq_json r)")
    (simp add: arm_put_def require_None put_document_def UpsertProviderResource_def Let_def
      provider_put_def unmarshal_map_def)

lemma get_accepted:
  assumes "db_fault s = None" "arm_authorized env r (svc_action svc @ ''/read'') (group_scope sub rg)"
  shows "arm_get svc env s r sub rg name =
    (case lab_view svc s (sub, rg, name) of
       None \<Rightarrow> NotFound ''resource not found''
     | Some (loc, doc) \<Rightarrow> writeJSON 200 (resourceJSON svc sub rg name loc
         (Some (case unmarshal_map doc of None \<Rightarrow> default_props | Some m \<Rightarrow> m))), s)"
  using assms
  by (cases "tbl_get pv_key (tb_provider s) (svc_providerKey svc, sub, rg, name)")
    (simp_all add: arm_get_def require_None lab_view_def provider_lookup_def GetProviderResource_def Let_def)

lemma delete_accepted:
  assumes "db_fault s = None" "arm_authorized env r (svc_action svc @ ''/delete'') (group_scope sub rg)"
  shows "arm_delete svc env s r sub rg name =
    (if lab_view svc s (sub, rg, name) = None then NotFound ''resource not found'' else writeHeader 200,
     provider_del s (svc_providerKey svc, sub, rg, name))"
proof -
  let ?k = "(svc_providerKey svc, sub, rg, name)"
  have "tbl_count (\<lambda>r. pv_key r = ?k) (tb_provider s) \<noteq> 0 \<longleftrightarrow> lab_view svc s (sub, rg, name) \<noteq> None"
    using tbl_count_pos[of pv_key ?k "tb_provider s"] assms(1)
    by (simp add: lab_view_def provider_lookup_def GetProviderResource_def)
  with assms show ?thesis
    by (auto simp: arm_delete_def require_None DeleteProviderResource_def Let_def provider_del_def)
qed

lemma view_put: "db_fault s = None \<Longrightarrow>
  lab_view svc (provider_put s (svc_providerKey svc', sub, rg, name) v) =
    (if svc_providerKey svc = svc_providerKey svc' then (lab_view svc s)((sub, rg, name) \<mapsto> provider_norm v)
     else lab_view svc s)"
  by (auto simp: lab_view_def provider_table.get_put)

lemma view_del: "db_fault s = None \<Longrightarrow>
  lab_view svc (provider_del s (svc_providerKey svc', sub, rg, name)) =
    (if svc_providerKey svc = svc_providerKey svc' then (lab_view svc s)((sub, rg, name) := None)
     else lab_view svc s)"
  by (auto simp: lab_view_def provider_table.get_del)

lemma norm_put: "provider_norm (put_document body) = put_document body"
  by (auto simp: provider_norm_def put_document_def default_location_def Let_def case_prod_unfold)



lemma arm_handle_writes:
  "snd (arm_handle svc env s r op) = s \<or>
   (\<exists>sub rg name v. snd (arm_handle svc env s r op) = provider_put s (svc_providerKey svc, sub, rg, name) v) \<or>
   (\<exists>sub rg name. snd (arm_handle svc env s r op) = provider_del s (svc_providerKey svc, sub, rg, name))"
proof (cases "db_fault s = None \<and> arm_authorized env r (op_action svc op) (op_scope op)")
  case True
  note accepted = arm_handle_def op_action_def op_scope_def put_accepted get_accepted delete_accepted
    arm_list_def require_None ListProviderResources_def
  show ?thesis
  proof (cases op)
    case (ArmPut sub rg name)
    with True have "snd (arm_handle svc env s r op) =
        provider_put s (svc_providerKey svc, sub, rg, name) (put_document (rq_json r))"
      by (simp add: accepted)
    then show ?thesis by blast
  next
    case (ArmDelete sub rg name)
    with True have "snd (arm_handle svc env s r op) = provider_del s (svc_providerKey svc, sub, rg, name)"
      by (simp add: accepted)
    then show ?thesis by blast
  qed (use True in \<open>simp_all add: accepted\<close>)
next
  case False
  then have "\<not> arm_authorized env r (op_action svc op) (op_scope op) \<or> (\<exists>e. db_fault s = Some e)"
    by auto
  then have "snd (arm_handle svc env s r op) = s"
  proof
    assume "\<exists>e. db_fault s = Some e"
    then obtain e where "db_fault s = Some e" by blast
    then show ?thesis
      by (cases op) (auto simp: arm_handle_def arm_ops UpsertProviderResource_def GetProviderResource_def
          DeleteProviderResource_def ListProviderResources_def Let_def case_prod_unfold split: option.split)
  qed (simp add: arm_handle_denied)
  then show ?thesis by simp
qed

lemma keys_distinct_services: "distinct (map svc_providerKey arm_services)"
  by code_simp

lemma paths_distinct_services: "distinct (map svc_path arm_services)"
  by code_simp

lemma distinct_map_eq: "distinct (map f xs) \<Longrightarrow> x \<in> set xs \<Longrightarrow> y \<in> set xs \<Longrightarrow> f x = f y \<Longrightarrow> x = y"
  by (auto simp: distinct_map inj_on_def)

text \<open>
  The lab services share one table and do not touch each other's resources: whatever a
  service answers, the resources of every other service are what they were.
\<close>

theorem arm_services_isolated:
  assumes "svc \<in> set arm_services" "svc' \<in> set arm_services" "svc \<noteq> svc'" "db_fault s = None"
  shows "lab_view svc' (snd (arm_handle svc env s r op)) = lab_view svc' s"
proof -
  have "svc_providerKey svc' \<noteq> svc_providerKey svc"
    using distinct_map_eq[OF keys_distinct_services assms(1,2)] assms(3) by auto
  with arm_handle_writes[of svc env s r op] assms(4) show ?thesis
    by (auto simp: view_put view_del)
qed

theorem arm_services_isolated_witness:
  "lab_view dns_service (snd (arm_handle nic_service lab_env empty_store root_request (ArmPut ''s1'' ''rg'' ''n''))) =
   lab_view dns_service empty_store"
  by (rule arm_services_isolated) code_simp+

lemma arm_route_path:
  "arm_route svc m segs = Some op \<Longrightarrow>
   svc_path svc = segs ! 5 @ ''/'' @ segs ! 6"
  by (auto simp: arm_route_def split: list.splits if_splits)

text \<open>
  At most one lab service answers a request, so the order in which they are mounted does not
  matter.
\<close>

theorem arm_routes_disjoint:
  assumes "svc \<in> set arm_services" "svc' \<in> set arm_services"
    and "arm_serve svc env s r segs = Some x" "arm_serve svc' env s r segs = Some y"
  shows "svc = svc' \<and> x = y"
proof -
  from assms(3,4) obtain op op' where
    "arm_route svc (rq_method r) segs = Some op" "arm_route svc' (rq_method r) segs = Some op'"
    by (auto simp: arm_serve_def)
  then have "svc_path svc = svc_path svc'" by (simp add: arm_route_path)
  with distinct_map_eq[OF paths_distinct_services assms(1,2)] assms(3,4) show ?thesis by simp
qed

theorem arm_routes_disjoint_witness:
  "rediscache_service = rediscache_service \<and>
   arm_handle rediscache_service lab_env empty_store root_request (ArmGet ''s1'' ''rg'' ''c'') =
   arm_handle rediscache_service lab_env empty_store root_request (ArmGet ''s1'' ''rg'' ''c'')"
proof (rule arm_routes_disjoint)
  let ?segs = "[''subscriptions'', ''s1'', ''resourceGroups'', ''rg'', ''providers'', ''Microsoft.Cache'', ''Redis'', ''c'']"
  have "arm_route rediscache_service (rq_method root_request) ?segs = Some (ArmGet ''s1'' ''rg'' ''c'')"
    by code_simp
  then show "arm_serve rediscache_service lab_env empty_store root_request ?segs =
      Some (arm_handle rediscache_service lab_env empty_store root_request (ArmGet ''s1'' ''rg'' ''c''))"
    by (simp add: arm_serve_def)
  then show "arm_serve rediscache_service lab_env empty_store root_request ?segs =
      Some (arm_handle rediscache_service lab_env empty_store root_request (ArmGet ''s1'' ''rg'' ''c''))" .
qed code_simp+

text \<open>
  A put is read back: the response of a get after an authorized put is the response of the
  put, status and document.
\<close>

theorem put_then_get:
  assumes "db_fault s = None"
    and "\<exists>p. authorized (ae_lib env) (ae_auth env) (ae_authz env) AllowsARM r
      (svc_action svc @ ''/write'') (group_scope sub rg) p"
    and "\<exists>p. authorized (ae_lib env) (ae_auth env) (ae_authz env) AllowsARM r'
      (svc_action svc @ ''/read'') (group_scope sub rg) p"
  shows "fst (arm_get svc env (snd (arm_put svc env s r sub rg name)) r' sub rg name) =
    fst (arm_put svc env s r sub rg name)"
proof -
  have auth: "arm_authorized env r (svc_action svc @ ''/write'') (group_scope sub rg)"
    "arm_authorized env r' (svc_action svc @ ''/read'') (group_scope sub rg)"
    using assms(2,3) by (simp_all add: arm_authorized_def)
  let ?s' = "provider_put s (svc_providerKey svc, sub, rg, name) (put_document (rq_json r))"
  have ok: "db_fault ?s' = None" using assms(1) by (rule provider_table.ok_put)
  have "\<exists>m. snd (put_document (rq_json r)) = JObj m"
    by (simp add: put_document_def Let_def case_prod_unfold)
  with put_accepted[OF assms(1) auth(1), of name] get_accepted[OF ok auth(2), of name]
    view_put[OF assms(1), of svc svc sub rg name "put_document (rq_json r)"]
  show ?thesis by (auto simp: norm_put unmarshal_map_def split: prod.split)
qed

theorem put_then_get_witness:
  "fst (arm_get dns_service lab_env (snd (arm_put dns_service lab_env empty_store root_request ''s1'' ''rg'' ''z''))
      root_request ''s1'' ''rg'' ''z'') =
   fst (arm_put dns_service lab_env empty_store root_request ''s1'' ''rg'' ''z'')"
proof (rule put_then_get)
  show "db_fault empty_store = None" by (simp add: empty_store_def)
qed (rule root_authorized)+

text \<open>
  The scrubbing looks at the names of the top level only: a secret inside a nested document is
  stored and shown.
\<close>

lemma nested_secret_is_shown:
  "Public (Some [(''siteConfig'', JObj [(''password'', JStr ''p'')])]) =
   [(''siteConfig'', JObj [(''password'', JStr ''p'')])]"
  by code_simp

end
