(* ===== verification/Service_Bus.thy ===== *)
theory Service_Bus
  imports Arm_Lab Store_Sealed Store_Queues
begin

text \<open>
  The HTTP side of Service Bus, \<open>internal/services/servicebus/handler.go\<close> and \<open>topics.go\<close>:
  namespaces, queues and topics behind the ARM gate, messages behind the data-plane gate. The body
  of a request is the bytes that reading it gives, or the error of reading.
\<close>

section \<open>Environment and routes\<close>

record data_env = arm_env +
  de_crypto :: crypto
  de_listen :: string

text \<open>What \<open>crypto/rand\<close> gives to one request: a fresh key, base64 of 64 bytes, and a nonce.\<close>

record random =
  rnd_key :: string
  rnd_nonce :: string

datatype sb_op =
    PutNamespace string string string
  | GetNamespace string string string
  | PutSBQueue string string string string
  | GetSBQueue string string string string
  | ConnectionString string string string
  | PostMessage string string
  | GetMessage string string
  | PutTopic string string string string
  | PutSubscription string string string string string
  | PostTopicMessage string string string
  | GetTopicMessage string string string

definition sb_namespaces_path :: "string list \<Rightarrow> (string \<times> string \<times> string list) option" where
  "sb_namespaces_path segs =
    (case segs of
       a # sub # b # rg # c # ns # ty # rest \<Rightarrow>
         if a = ''subscriptions'' \<and> b = ''resourceGroups'' \<and> c = ''providers'' \<and>
            ns = ''Microsoft.ServiceBus'' \<and> ty = ''namespaces''
         then Some (sub, rg, rest) else None
     | _ \<Rightarrow> None)"

text \<open>The patterns of \<open>Register\<close>; wildcards match non-empty segments, GET also serves HEAD.\<close>

definition sb_route :: "string \<Rightarrow> string list \<Rightarrow> sb_op option" where
  "sb_route method segs =
    (let get = (method = ''GET'' \<or> method = ''HEAD''); put = (method = ''PUT''); post = (method = ''POST'') in
     if [] \<in> set segs then None
     else (case sb_namespaces_path segs of
       Some (sub, rg, rest) \<Rightarrow>
         (case rest of
            [name] \<Rightarrow> if put then Some (PutNamespace sub rg name)
              else if get then Some (GetNamespace sub rg name) else None
          | [ns, k] \<Rightarrow> if get \<and> k = ''connectionString'' then Some (ConnectionString sub rg ns) else None
          | [ns, k, x] \<Rightarrow>
              if k = ''queues'' then
                (if put then Some (PutSBQueue sub rg ns x) else if get then Some (GetSBQueue sub rg ns x) else None)
              else if k = ''topics'' \<and> put then Some (PutTopic sub rg ns x) else None
          | [ns, k, t, l, x] \<Rightarrow>
              if k = ''topics'' \<and> l = ''subscriptions'' \<and> put then Some (PutSubscription sub rg ns t x) else None
          | _ \<Rightarrow> None)
     | None \<Rightarrow>
         (case segs of
            [a, ns, k, q, m] \<Rightarrow>
              if a = ''servicebus'' \<and> k = ''queues'' \<and> m = ''messages'' then
                (if post then Some (PostMessage ns q) else if get then Some (GetMessage ns q) else None)
              else None
          | [a, ns, k, t, l, x, m] \<Rightarrow>
              if a = ''servicebus'' \<and> k = ''topics'' \<and> l = ''subscriptions'' \<and> m = ''messages'' then
                (if post then Some (PostTopicMessage ns t x) else if get then Some (GetTopicMessage ns t x) else None)
              else None
          | _ \<Rightarrow> None)))"

section \<open>Gates\<close>

definition sb_require_arm :: "data_env \<Rightarrow> http_request \<Rightarrow> string \<Rightarrow> string \<Rightarrow> string \<Rightarrow> http_response option" where
  "sb_require_arm env r sub rg action =
    (case RequireARMBearer (ae_lib env) r (ae_auth env) (ae_authz env) action (group_scope sub rg) of
       Inl rs \<Rightarrow> Some rs | Inr p \<Rightarrow> None)"

definition sb_scope :: "(string \<times> string \<times> string) option \<Rightarrow> string \<Rightarrow> string" where
  "sb_scope found ns =
    (case found of
       None \<Rightarrow> ''/subscriptions/'' @ DefaultSubscriptionID @ ''/providers/Microsoft.ServiceBus/namespaces/'' @ ns
     | Some (sub, rg, loc) \<Rightarrow> ''/subscriptions/'' @ sub @ ''/resourceGroups/'' @ rg @
         ''/providers/Microsoft.ServiceBus/namespaces/'' @ ns)"

definition requireDataPlane :: "data_env \<Rightarrow> store \<Rightarrow> http_request \<Rightarrow> string \<Rightarrow> string \<Rightarrow> http_response option" where
  "requireDataPlane env s r ns action =
    (case GetServiceBusNamespaceByName s ns of
       Inl e \<Rightarrow> Some (InternalError e)
     | Inr found \<Rightarrow>
         (case RequireDataPlaneBearer (ae_lib env) r (ae_auth env) (ae_authz env) (Some AllowsServiceBus)
             action (sb_scope found ns) of
            Inl rs \<Rightarrow> Some rs
          | Inr p \<Rightarrow> if found = None then Some (NotFound ''namespace not found'') else None))"

section \<open>Handlers\<close>

definition amqpEndpoint :: "string \<Rightarrow> string" where
  "amqpEndpoint addr = ''amqp://'' @ (if addr = [] then ''127.0.0.1:5672'' else addr)"

definition namespace_json :: "data_env \<Rightarrow> string \<Rightarrow> string \<Rightarrow> string \<Rightarrow> string \<Rightarrow> json" where
  "namespace_json env sub rg name location =
    JObj [(''id'', JStr (group_scope sub rg @ ''/providers/Microsoft.ServiceBus/namespaces/'' @ name)),
      (''name'', JStr name), (''type'', JStr ''Microsoft.ServiceBus/namespaces''), (''location'', JStr location),
      (''properties'', JObj [(''provisioningState'', JStr ''Succeeded''),
        (''serviceBusEndpoint'', JStr (amqpEndpoint (de_listen env)))])]"

definition putNamespace ::
  "data_env \<Rightarrow> random \<Rightarrow> store \<Rightarrow> http_request \<Rightarrow> string \<Rightarrow> string \<Rightarrow> string \<Rightarrow> http_response \<times> store" where
  "putNamespace env rnd s r sub rg name =
    (case sb_require_arm env r sub rg ''Microsoft.ServiceBus/namespaces/write'' of
       Some rs \<Rightarrow> (rs, s)
     | None \<Rightarrow>
         (let loc = fst (decode_put_body (rq_json r)); location = (if loc = [] then ''eastus'' else loc) in
          case UpsertServiceBusNamespace (de_crypto env) s (rnd_key rnd) (rnd_nonce rnd) sub rg name location of
            (Inl e, s') \<Rightarrow> (InternalError e, s')
          | (Inr key, s') \<Rightarrow> (writeJSON 200 (namespace_json env sub rg name location), s')))"

definition getNamespace ::
  "data_env \<Rightarrow> store \<Rightarrow> http_request \<Rightarrow> string \<Rightarrow> string \<Rightarrow> string \<Rightarrow> http_response \<times> store" where
  "getNamespace env s r sub rg name =
    (case sb_require_arm env r sub rg ''Microsoft.ServiceBus/namespaces/read'' of
       Some rs \<Rightarrow> (rs, s)
     | None \<Rightarrow>
         (case GetServiceBusNamespace s sub rg name of
            Inl e \<Rightarrow> (InternalError e, s)
          | Inr None \<Rightarrow> (NotFound ''namespace not found'', s)
          | Inr (Some location) \<Rightarrow> (writeJSON 200 (namespace_json env sub rg name location), s)))"

definition queue_json :: "string \<Rightarrow> string \<Rightarrow> string \<Rightarrow> string \<Rightarrow> json" where
  "queue_json sub rg ns queue =
    JObj [(''id'', JStr (group_scope sub rg @ ''/providers/Microsoft.ServiceBus/namespaces/'' @ ns @ ''/queues/'' @ queue)),
      (''name'', JStr queue), (''type'', JStr ''Microsoft.ServiceBus/namespaces/queues''),
      (''properties'', JObj [(''status'', JStr ''Active'')])]"

definition putSBQueue ::
  "data_env \<Rightarrow> store \<Rightarrow> http_request \<Rightarrow> string \<Rightarrow> string \<Rightarrow> string \<Rightarrow> string \<Rightarrow> http_response \<times> store" where
  "putSBQueue env s r sub rg ns queue =
    (case sb_require_arm env r sub rg ''Microsoft.ServiceBus/namespaces/queues/write'' of
       Some rs \<Rightarrow> (rs, s)
     | None \<Rightarrow>
         (case GetServiceBusNamespace s sub rg ns of
            Inl e \<Rightarrow> (InternalError e, s)
          | Inr None \<Rightarrow> (NotFound ''namespace not found'', s)
          | Inr (Some location) \<Rightarrow>
              (case CreateServiceBusQueue s ns queue of
                 (Inl e, s') \<Rightarrow> (InternalError e, s')
               | (Inr _, s') \<Rightarrow> (writeJSON 200 (queue_json sub rg ns queue), s'))))"

definition getSBQueue ::
  "data_env \<Rightarrow> store \<Rightarrow> http_request \<Rightarrow> string \<Rightarrow> string \<Rightarrow> string \<Rightarrow> string \<Rightarrow> http_response \<times> store" where
  "getSBQueue env s r sub rg ns queue =
    (case sb_require_arm env r sub rg ''Microsoft.ServiceBus/namespaces/queues/read'' of
       Some rs \<Rightarrow> (rs, s)
     | None \<Rightarrow> (writeJSON 200 (queue_json sub rg ns queue), s))"

definition connection_json :: "data_env \<Rightarrow> string \<Rightarrow> json" where
  "connection_json env key =
    (let endpoint = amqpEndpoint (de_listen env) in
     JObj [(''connectionString'', JStr (''Endpoint=sb://'' @
        trim_prefix (trim_prefix endpoint ''amqps://'') ''amqp://'' @
        ''/;SharedAccessKeyName=RootManageSharedAccessKey;SharedAccessKey='' @ key @ '';EntityPath='')),
       (''endpoint'', JStr endpoint),
       (''note'', JStr (''AMQP 1.0 lite on '' @ endpoint @ ''; full azservicebus SDK interop is best-effort lite''))])"

definition connectionString ::
  "data_env \<Rightarrow> store \<Rightarrow> http_request \<Rightarrow> string \<Rightarrow> string \<Rightarrow> string \<Rightarrow> http_response \<times> store" where
  "connectionString env s r sub rg name =
    (case sb_require_arm env r sub rg ''Microsoft.ServiceBus/namespaces/authorizationRules/listKeys/action'' of
       Some rs \<Rightarrow> (rs, s)
     | None \<Rightarrow>
         (case GetSBNamespaceKey (de_crypto env) s name of
            Inl e \<Rightarrow> (InternalError e, s)
          | Inr None \<Rightarrow> (NotFound ''namespace not found'', s)
          | Inr (Some key) \<Rightarrow> (writeJSON 200 (connection_json env key), s)))"

definition enqueued :: http_response where
  "enqueued = writeJSON 201 (JObj [(''status'', JStr ''enqueued'')])"

text \<open>A body is read up to its first megabyte.\<close>

definition limited_body :: "byte list result \<Rightarrow> byte list result" where
  "limited_body body = map_sum id (take 1048576) body"

definition postMessage ::
  "data_env \<Rightarrow> store \<Rightarrow> http_request \<Rightarrow> byte list result \<Rightarrow> string \<Rightarrow> string \<Rightarrow> http_response \<times> store" where
  "postMessage env s r body ns q =
    (case requireDataPlane env s r ns ''Microsoft.ServiceBus/namespaces/queues/messages/send/action'' of
       Some rs \<Rightarrow> (rs, s)
     | None \<Rightarrow>
         (case limited_body body of
            Inl e \<Rightarrow> (BadRequest e, s)
          | Inr bs \<Rightarrow>
              (case EnqueueSBWithMeta s ns q bs (query_get r ''sessionId'') (query_get r ''deadLetter'' = ''1'') of
                 (Inl e, s') \<Rightarrow> (InternalError e, s')
               | (Inr _, s') \<Rightarrow> (enqueued, s'))))"

definition octets :: "byte list \<Rightarrow> http_response" where
  "octets bs = writeBytes 200 [(''Content-Type'', ''application/octet-stream'')] bs"

definition getMessage ::
  "data_env \<Rightarrow> store \<Rightarrow> http_request \<Rightarrow> string \<Rightarrow> string \<Rightarrow> http_response \<times> store" where
  "getMessage env s r ns q =
    (case requireDataPlane env s r ns ''Microsoft.ServiceBus/namespaces/queues/messages/receive/action'' of
       Some rs \<Rightarrow> (rs, s)
     | None \<Rightarrow>
         (case DequeueSBWithMeta s ns q (query_get r ''sessionId'') (query_get r ''deadLetter'' = ''1'') of
            (Inl e, s') \<Rightarrow> (InternalError e, s')
          | (Inr None, s') \<Rightarrow> (writeHeader 204, s')
          | (Inr (Some bs), s') \<Rightarrow> (octets bs, s')))"

definition active_json :: "string \<Rightarrow> string \<Rightarrow> json" where
  "active_json name ty = JObj [(''name'', JStr name), (''type'', JStr ty),
    (''properties'', JObj [(''status'', JStr ''Active'')])]"

definition putTopic ::
  "data_env \<Rightarrow> store \<Rightarrow> http_request \<Rightarrow> string \<Rightarrow> string \<Rightarrow> string \<Rightarrow> string \<Rightarrow> http_response \<times> store" where
  "putTopic env s r sub rg ns topic =
    (case sb_require_arm env r sub rg ''Microsoft.ServiceBus/namespaces/topics/write'' of
       Some rs \<Rightarrow> (rs, s)
     | None \<Rightarrow>
         (case CreateServiceBusTopic s ns topic of
            (Inl e, s') \<Rightarrow> (InternalError e, s')
          | (Inr _, s') \<Rightarrow> (writeJSON 200 (active_json topic ''Microsoft.ServiceBus/namespaces/topics''), s')))"

definition putSubscription ::
  "data_env \<Rightarrow> store \<Rightarrow> http_request \<Rightarrow> string \<Rightarrow> string \<Rightarrow> string \<Rightarrow> string \<Rightarrow> string \<Rightarrow> http_response \<times> store" where
  "putSubscription env s r sub rg ns topic subName =
    (case sb_require_arm env r sub rg ''Microsoft.ServiceBus/namespaces/topics/subscriptions/write'' of
       Some rs \<Rightarrow> (rs, s)
     | None \<Rightarrow>
         (case CreateServiceBusSubscription s ns topic subName [] of
            (Inl e, s') \<Rightarrow> (InternalError e, s')
          | (Inr _, s') \<Rightarrow>
              (writeJSON 200 (active_json subName ''Microsoft.ServiceBus/namespaces/topics/subscriptions''), s')))"

definition postTopicMessage ::
  "data_env \<Rightarrow> store \<Rightarrow> http_request \<Rightarrow> byte list result \<Rightarrow> string \<Rightarrow> string \<Rightarrow> string \<Rightarrow> http_response \<times> store" where
  "postTopicMessage env s r body ns t sub =
    (case requireDataPlane env s r ns ''Microsoft.ServiceBus/namespaces/topics/messages/send/action'' of
       Some rs \<Rightarrow> (rs, s)
     | None \<Rightarrow>
         (case limited_body body of
            Inl e \<Rightarrow> (BadRequest e, s)
          | Inr bs \<Rightarrow>
              (case EnqueueSBTopic s ns t sub bs of
                 (Inl e, s') \<Rightarrow> (InternalError e, s')
               | (Inr _, s') \<Rightarrow> (enqueued, s'))))"

definition getTopicMessage ::
  "data_env \<Rightarrow> store \<Rightarrow> http_request \<Rightarrow> string \<Rightarrow> string \<Rightarrow> string \<Rightarrow> http_response \<times> store" where
  "getTopicMessage env s r ns t sub =
    (case requireDataPlane env s r ns ''Microsoft.ServiceBus/namespaces/topics/messages/receive/action'' of
       Some rs \<Rightarrow> (rs, s)
     | None \<Rightarrow>
         (case DequeueSBTopic s ns t sub of
            (Inl e, s') \<Rightarrow> (InternalError e, s')
          | (Inr None, s') \<Rightarrow> (writeHeader 204, s')
          | (Inr (Some bs), s') \<Rightarrow> (octets bs, s')))"

definition sb_handle ::
  "data_env \<Rightarrow> random \<Rightarrow> store \<Rightarrow> http_request \<Rightarrow> byte list result \<Rightarrow> sb_op \<Rightarrow> http_response \<times> store" where
  "sb_handle env rnd s r body op =
    (case op of
       PutNamespace sub rg name \<Rightarrow> putNamespace env rnd s r sub rg name
     | GetNamespace sub rg name \<Rightarrow> getNamespace env s r sub rg name
     | PutSBQueue sub rg ns q \<Rightarrow> putSBQueue env s r sub rg ns q
     | GetSBQueue sub rg ns q \<Rightarrow> getSBQueue env s r sub rg ns q
     | ConnectionString sub rg name \<Rightarrow> connectionString env s r sub rg name
     | PostMessage ns q \<Rightarrow> postMessage env s r body ns q
     | GetMessage ns q \<Rightarrow> getMessage env s r ns q
     | PutTopic sub rg ns t \<Rightarrow> putTopic env s r sub rg ns t
     | PutSubscription sub rg ns t x \<Rightarrow> putSubscription env s r sub rg ns t x
     | PostTopicMessage ns t x \<Rightarrow> postTopicMessage env s r body ns t x
     | GetTopicMessage ns t x \<Rightarrow> getTopicMessage env s r ns t x)"

section \<open>What a request needs\<close>

definition data_authorized ::
  "data_env \<Rightarrow> http_request \<Rightarrow> (Principal \<Rightarrow> bool) \<Rightarrow> string \<Rightarrow> string \<Rightarrow> bool" where
  "data_authorized env r allows action scope \<longleftrightarrow>
    (\<exists>p. authorized (ae_lib env) (ae_auth env) (ae_authz env) allows r action scope p)"

lemma sb_require_arm_passes:
  "sb_require_arm env r sub rg action = None \<longleftrightarrow> data_authorized env r AllowsARM action (group_scope sub rg)"
  by (auto simp: sb_require_arm_def data_authorized_def arm_gate_passes[symmetric] split: sum.split)

lemma sb_require_arm_denies:
  "sb_require_arm env r sub rg action = Some rs \<Longrightarrow> rs_code rs \<in> {401, 403, 500}"
  using gate_denies[of "ae_lib env" r "ae_auth env" "ae_authz env" "Some AllowsARM" action "group_scope sub rg"]
  by (auto simp: sb_require_arm_def RequireARMBearer_def split: sum.splits)

lemma requireDataPlane_passes:
  "requireDataPlane env s r ns action = None \<longleftrightarrow>
    (\<exists>sub rg loc. GetServiceBusNamespaceByName s ns = Inr (Some (sub, rg, loc)) \<and>
      data_authorized env r AllowsServiceBus action (sb_scope (Some (sub, rg, loc)) ns))"
  by (auto simp: requireDataPlane_def data_authorized_def gate_passes[symmetric] split: sum.split)

lemma requireDataPlane_denies:
  assumes "requireDataPlane env s r ns action = Some rs"
  shows "rs_code rs \<in> {401, 403, 500} \<or> (rs_code rs = 404 \<and> GetServiceBusNamespaceByName s ns = Inr None \<and>
    data_authorized env r AllowsServiceBus action (sb_scope None ns))"
proof (cases "GetServiceBusNamespaceByName s ns")
  case (Inr found)
  show ?thesis
  proof (cases "RequireDataPlaneBearer (ae_lib env) r (ae_auth env) (ae_authz env) (Some AllowsServiceBus)
      action (sb_scope found ns)")
    case (Inl rs')
    from gate_denies[OF Inl] Inl Inr assms show ?thesis by (simp add: requireDataPlane_def)
  next
    case ok: (Inr p)
    then have "data_authorized env r AllowsServiceBus action (sb_scope found ns)"
      by (auto simp: data_authorized_def gate_passes)
    with ok Inr assms show ?thesis by (auto simp: requireDataPlane_def split: if_splits)
  qed
qed (use assms in \<open>auto simp: requireDataPlane_def\<close>)

text \<open>The audience, the action and the scope an operation asks for.\<close>

definition sb_needs :: "store \<Rightarrow> sb_op \<Rightarrow> (Principal \<Rightarrow> bool) \<times> string \<times> string" where
  "sb_needs s op =
    (let arm = (\<lambda>sub rg a. (AllowsARM, ''Microsoft.ServiceBus/namespaces'' @ a, group_scope sub rg));
         data = (\<lambda>ns a. (AllowsServiceBus, ''Microsoft.ServiceBus/namespaces'' @ a,
           sb_scope (projr (GetServiceBusNamespaceByName s ns)) ns)) in
     case op of
       PutNamespace sub rg name \<Rightarrow> arm sub rg ''/write''
     | GetNamespace sub rg name \<Rightarrow> arm sub rg ''/read''
     | PutSBQueue sub rg ns q \<Rightarrow> arm sub rg ''/queues/write''
     | GetSBQueue sub rg ns q \<Rightarrow> arm sub rg ''/queues/read''
     | ConnectionString sub rg name \<Rightarrow> arm sub rg ''/authorizationRules/listKeys/action''
     | PostMessage ns q \<Rightarrow> data ns ''/queues/messages/send/action''
     | GetMessage ns q \<Rightarrow> data ns ''/queues/messages/receive/action''
     | PutTopic sub rg ns t \<Rightarrow> arm sub rg ''/topics/write''
     | PutSubscription sub rg ns t x \<Rightarrow> arm sub rg ''/topics/subscriptions/write''
     | PostTopicMessage ns t x \<Rightarrow> data ns ''/topics/messages/send/action''
     | GetTopicMessage ns t x \<Rightarrow> data ns ''/topics/messages/receive/action'')"

lemmas sb_handlers = putNamespace_def getNamespace_def putSBQueue_def getSBQueue_def connectionString_def
  postMessage_def getMessage_def putTopic_def putSubscription_def postTopicMessage_def getTopicMessage_def

definition denied :: "store \<Rightarrow> http_response \<times> store \<Rightarrow> bool" where
  "denied s out \<longleftrightarrow> rs_code (fst out) \<in> {401, 403, 500} \<and> snd out = s"

lemma sb_arm_denied:
  assumes "\<not> data_authorized env r AllowsARM action (group_scope sub rg)"
  shows "denied s (case sb_require_arm env r sub rg action of Some rs \<Rightarrow> (rs, s) | None \<Rightarrow> out)"
  using assms sb_require_arm_passes[of env r sub rg action] sb_require_arm_denies[of env r sub rg action]
  by (cases "sb_require_arm env r sub rg action") (auto simp: denied_def)

lemma sb_data_denied:
  assumes "\<not> data_authorized env r AllowsServiceBus action
    (sb_scope (projr (GetServiceBusNamespaceByName s ns)) ns)"
  shows "denied s (case requireDataPlane env s r ns action of Some rs \<Rightarrow> (rs, s) | None \<Rightarrow> out)"
proof (cases "requireDataPlane env s r ns action")
  case None
  with assms show ?thesis by (auto simp: requireDataPlane_passes)
next
  case (Some rs)
  from requireDataPlane_denies[OF this] assms Some show ?thesis by (auto simp: denied_def)
qed

lemma sb_denied:
  assumes "sb_needs s op = (allows, action, scope)" "\<not> data_authorized env r allows action scope"
  shows "denied s (sb_handle env rnd s r body op)"
  using assms
  by (cases op)
    (auto simp: sb_needs_def sb_handle_def sb_handlers intro!: sb_arm_denied sb_data_denied)

text \<open>
  The Service Bus handler fails closed: any answer other than 401, 403 and 500, and any change
  of the store, comes only from a request whose sender is authenticated for the API of the
  operation and holds its action at its scope: the resource group for management, the namespace
  itself for messages.
\<close>

theorem sb_fail_closed:
  assumes "rs_code (fst (sb_handle env rnd s r body op)) \<notin> {401, 403, 500} \<or>
      snd (sb_handle env rnd s r body op) \<noteq> s"
  shows "case sb_needs s op of (allows, action, scope) \<Rightarrow>
    \<exists>p. authorized (ae_lib env) (ae_auth env) (ae_authz env) allows r action scope p"
proof (rule ccontr)
  obtain allows action scope where n: "sb_needs s op = (allows, action, scope)" by (metis prod_cases3)
  assume "\<not> ?thesis"
  with n have "\<not> data_authorized env r allows action scope" by (simp add: data_authorized_def)
  from sb_denied[OF n this, of rnd body] assms show False by (auto simp: denied_def)
qed


section \<open>Keys across resource groups\<close>

text \<open>
  Whoever may list keys in some resource group is given the key of any namespace: the caller
  is authorized for the group in the path, the key is looked up by the name alone.
\<close>

theorem connection_string_ignores_group:
  assumes "\<exists>p. authorized (ae_lib env) (ae_auth env) (ae_authz env) AllowsARM r
      ''Microsoft.ServiceBus/namespaces/authorizationRules/listKeys/action'' (group_scope sub rg) p"
    and "GetSBNamespaceKey (de_crypto env) s name = Inr (Some key)"
  shows "connectionString env s r sub rg name = (writeJSON 200 (connection_json env key), s)"
proof -
  have "sb_require_arm env r sub rg ''Microsoft.ServiceBus/namespaces/authorizationRules/listKeys/action'' = None"
    using assms(1) unfolding sb_require_arm_passes data_authorized_def .
  with assms(2) show ?thesis by (simp add: connectionString_def)
qed

section \<open>Messages over HTTP\<close>

lemma requireDataPlane_authorized:
  "GetServiceBusNamespaceByName s ns = Inr (Some loc) \<Longrightarrow>
   data_authorized env r AllowsServiceBus action (sb_scope (Some loc) ns) \<Longrightarrow>
   requireDataPlane env s r ns action = None"
  by (cases loc) (simp add: requireDataPlane_passes)

definition http_queue :: "http_request \<Rightarrow> string \<Rightarrow> string \<Rightarrow> sb_message \<Rightarrow> bool" where
  "http_queue r ns q m \<longleftrightarrow> sb_namespace m = ns \<and> sb_queue m = q \<and>
    sb_dead_letter m = (if query_get r ''deadLetter'' = ''1'' then 1 else 0) \<and>
    (query_get r ''sessionId'' = [] \<or> sb_session_id m = query_get r ''sessionId'')"

lemma DequeueSBWithMeta_take:
  "DequeueSBWithMeta s ns q (query_get r ''sessionId'') (query_get r ''deadLetter'' = ''1'') =
    take_sb s (http_queue r ns q)"
  by (simp add: DequeueSBWithMeta_def http_queue_def[abs_def] Let_def)

text \<open>
  A message posted over HTTP to a queue without other messages of its session and dead-letter
  flag is the one the next get of these answers with, cut to the first megabyte.
\<close>

theorem post_then_get:
  assumes "messages_ok s" "seq_select (http_queue r' ns q) (tb_sb_messages s) = []"
    and "GetServiceBusNamespaceByName s ns = Inr (Some loc)"
    and "\<exists>p. authorized (ae_lib env) (ae_auth env) (ae_authz env) AllowsServiceBus r
      ''Microsoft.ServiceBus/namespaces/queues/messages/send/action'' (sb_scope (Some loc) ns) p"
    and "\<exists>p. authorized (ae_lib env) (ae_auth env) (ae_authz env) AllowsServiceBus r'
      ''Microsoft.ServiceBus/namespaces/queues/messages/receive/action'' (sb_scope (Some loc) ns) p"
    and "query_get r ''sessionId'' = query_get r' ''sessionId''" "query_get r ''deadLetter'' = query_get r' ''deadLetter''"
  shows "fst (postMessage env s r (Inr bs) ns q) = enqueued \<and>
    fst (getMessage env (snd (postMessage env s r (Inr bs) ns q)) r' ns q) = octets (take 1048576 bs)"
proof -
  define m where "m = \<lparr>sb_namespace = ns, sb_queue = q, sb_body = take 1048576 bs,
    sb_session_id = query_get r' ''sessionId'',
    sb_dead_letter = (if query_get r' ''deadLetter'' = ''1'' then 1 else (0 :: nat))\<rparr>"
  define s' where "s' = s\<lparr>tb_sb_messages := seq_insert m (tb_sb_messages s)\<rparr>"
  have fault: "db_fault s = None" using assms(1) by (simp add: messages_ok_def)
  have post: "postMessage env s r (Inr bs) ns q = (enqueued, s')"
    using requireDataPlane_authorized[OF assms(3), of env r "''Microsoft.ServiceBus/namespaces/queues/messages/send/action''"]
      assms(4,6,7) fault
    by (simp add: postMessage_def data_authorized_def limited_body_def EnqueueSBWithMeta_def s'_def m_def)
  have "http_queue r' ns q m" by (simp add: http_queue_def m_def)
  then have one: "seq_select (http_queue r' ns q) (tb_sb_messages s') = [m]"
    using assms(2) by (simp add: s'_def seq_select_insert)
  have "seq_ok (tb_sb_messages s')" using assms(1) by (simp add: s'_def messages_ok_def seq_ok_insert)
  from seq_first_head[OF this one] obtain i where
    "seq_first (http_queue r' ns q) (tb_sb_messages s') = Some (i, m)" ..
  then obtain s'' where get: "take_sb s' (http_queue r' ns q) = (Inr (Some (sb_body m)), s'')"
    using fault by (simp add: take_sb_def s'_def)
  have "requireDataPlane env s' r' ns ''Microsoft.ServiceBus/namespaces/queues/messages/receive/action'' = None"
    using assms(3,5) by (intro requireDataPlane_authorized)
      (simp_all add: s'_def GetServiceBusNamespaceByName_def scope_by_name_def db_query_def data_authorized_def)
  then show ?thesis
    by (simp add: post getMessage_def DequeueSBWithMeta_take get) (simp add: m_def)
qed

section \<open>Concrete requests\<close>

text \<open>A caller who owns one resource group, and a namespace in another subscription.\<close>

definition alice_lib :: stdlib where
  "alice_lib = lab_lib\<lparr>b64_raw_url_decode := (\<lambda>s. Inr s),
    json_parse := (\<lambda>s. Inr (JObj [(''aud'', JStr AudienceARM)]))\<rparr>"

definition alice_auth :: Authenticator where
  "alice_auth = lab_auth\<lparr>au_Tokens := Some (\<lambda>h now. Inr (if h = ''h.p.s'' then Some ''alice'' else None))\<rparr>"

definition alice_request :: http_request where
  "alice_request = root_request\<lparr>rq_header := [(''Authorization'', [''Bearer h.p.s''])]\<rparr>"

definition two_groups :: store where
  "two_groups = empty_store\<lparr>tb_role_assignments :=
      [\<lparr>asg_ID = ''ra'', asg_Scope = ''/subscriptions/s1/resourceGroups/mine'', asg_RoleDefinitionID = RoleOwner,
        asg_PrincipalID = ''alice'', asg_PrincipalType = ''User''\<rparr>],
    tb_sb_namespaces := [\<lparr>ac_subscription_id = ''s2'', ac_resource_group = ''theirs'', ac_name = ''victim'',
      ac_location = ''eastus'', ac_sealed = ''nonce-of-12bTkey''\<rparr>]\<rparr>"

definition alice_env :: data_env where
  "alice_env = \<lparr>ae_lib = alice_lib, ae_auth = Some alice_auth,
    ae_authz = Some \<lparr>Assignments = Some (store_view two_groups)\<rparr>, de_crypto = lab_crypto, de_listen = []\<rparr>"

lemma alice_authorized:
  "\<exists>p. authorized (ae_lib alice_env) (ae_auth alice_env) (ae_authz alice_env) AllowsARM alice_request
    ''Microsoft.ServiceBus/namespaces/authorizationRules/listKeys/action'' (group_scope ''s1'' ''mine'') p"
proof -
  have a: "AuthenticateRequest alice_lib alice_auth alice_request =
      Inr \<lparr>pr_ID = ''alice'', pr_IsRoot = False, pr_Audiences = [AudienceARM], pr_Issuer = []\<rparr>"
    by code_simp
  have "AllowsARM \<lparr>pr_ID = ''alice'', pr_IsRoot = False, pr_Audiences = [AudienceARM], pr_Issuer = []\<rparr>"
    by code_simp
  moreover have "Evaluate \<lparr>Assignments = Some (store_view two_groups)\<rparr> ''alice'' False
      ''Microsoft.ServiceBus/namespaces/authorizationRules/listKeys/action'' (group_scope ''s1'' ''mine'') = Inr True"
    by code_simp
  ultimately show ?thesis using a by (auto simp: authorized_def alice_env_def)
qed

theorem connection_string_ignores_group_witness:
  "connectionString alice_env two_groups alice_request ''s1'' ''mine'' ''victim'' =
    (writeJSON 200 (connection_json alice_env ''key''), two_groups)"
proof (rule connection_string_ignores_group)
  show "GetSBNamespaceKey (de_crypto alice_env) two_groups ''victim'' = Inr (Some ''key'')" by code_simp
qed (rule alice_authorized)

definition lab_denv :: data_env where
  "lab_denv = \<lparr>ae_lib = lab_lib, ae_auth = Some lab_auth, ae_authz = None, de_crypto = lab_crypto, de_listen = []\<rparr>"

lemma root_data_authorized:
  "allows (projr (AuthenticateRequest lab_lib lab_auth root_request)) \<Longrightarrow>
   \<exists>p. authorized (ae_lib lab_denv) (ae_auth lab_denv) (ae_authz lab_denv) allows root_request action scope p"
proof -
  assume a: "allows (projr (AuthenticateRequest lab_lib lab_auth root_request))"
  have "AuthenticateRequest lab_lib lab_auth root_request =
      Inr (projr (AuthenticateRequest lab_lib lab_auth root_request))"
    "pr_IsRoot (projr (AuthenticateRequest lab_lib lab_auth root_request))"
    by code_simp+
  with a show ?thesis by (auto simp: authorized_def lab_denv_def)
qed

lemma root_allows_sb: "AllowsServiceBus (projr (AuthenticateRequest lab_lib lab_auth root_request))"
  by code_simp

theorem sb_fail_closed_witness:
  "case sb_needs empty_store (GetNamespace ''s'' ''g'' ''n'') of (allows, action, scope) \<Rightarrow>
    \<exists>p. authorized (ae_lib lab_denv) (ae_auth lab_denv) (ae_authz lab_denv) allows root_request action scope p"
proof (rule sb_fail_closed)
  show "rs_code (fst (sb_handle lab_denv \<lparr>rnd_key = [], rnd_nonce = []\<rparr> empty_store root_request (Inr [])
      (GetNamespace ''s'' ''g'' ''n''))) \<notin> {401, 403, 500} \<or>
    snd (sb_handle lab_denv \<lparr>rnd_key = [], rnd_nonce = []\<rparr> empty_store root_request (Inr [])
      (GetNamespace ''s'' ''g'' ''n'')) \<noteq> empty_store"
    by (rule disjI1) code_simp
qed

theorem post_then_get_witness:
  "fst (postMessage lab_denv two_groups root_request (Inr [1, 2]) ''victim'' ''q'') = enqueued \<and>
   fst (getMessage lab_denv (snd (postMessage lab_denv two_groups root_request (Inr [1, 2]) ''victim'' ''q''))
     root_request ''victim'' ''q'') = octets (take 1048576 [1, 2])"
proof (rule post_then_get)
  show "messages_ok two_groups"
    by (simp add: messages_ok_def two_groups_def empty_store_def seq_ok_empty)
  show "seq_select (http_queue root_request ''victim'' ''q'') (tb_sb_messages two_groups) = []"
    by (simp add: two_groups_def empty_store_def seq_select_def)
  show "GetServiceBusNamespaceByName two_groups ''victim'' = Inr (Some (''s2'', ''theirs'', ''eastus''))"
    by code_simp
qed (rule root_data_authorized, rule root_allows_sb | rule refl)+

end
