(* ===== verification/Storage_Service.thy ===== *)
theory Storage_Service
  imports Service_Bus
begin

text \<open>
  The storage service, \<open>internal/services/storage/handler.go\<close>: accounts behind the ARM gate; blobs
  and queues behind a shared access signature, a shared key or a bearer token. The rendering of
  lists as XML (\<open>list_xml.go\<close>) is an argument; when it is chosen is modelled.
\<close>

section \<open>Environment and routes\<close>

record storage_env = data_env +
  st_clock :: int
  st_loopback :: bool
  st_containers_xml :: "http_request \<Rightarrow> string list \<Rightarrow> byte list"
  st_blobs_xml :: "http_request \<Rightarrow> string \<Rightarrow> string list \<Rightarrow> byte list"

datatype storage_op =
    PutAccount string string string
  | GetAccount string string string
  | ListContainersOp string
  | PutContainer string string
  | ListBlobsOp string string
  | DeleteContainerOp string string
  | PutBlobOp string string string
  | GetBlobOp string string string
  | DeleteBlobOp string string string
  | PutQueue string string
  | PostQueueMessage string string
  | GetQueueMessage string string

text \<open>The patterns of \<open>Register\<close>; wildcards match non-empty segments, GET also serves HEAD.\<close>

definition storage_route :: "string \<Rightarrow> string list \<Rightarrow> storage_op option" where
  "storage_route method segs =
    (let get = (method = ''GET'' \<or> method = ''HEAD''); put = (method = ''PUT''); del = (method = ''DELETE'') in
     if [] \<in> set segs then None
     else (case segs of
       [a, account] \<Rightarrow> if a = ''blob'' \<and> get then Some (ListContainersOp account) else None
     | [a, account, x] \<Rightarrow>
         if a = ''blob'' then
           (if put then Some (PutContainer account x) else if get then Some (ListBlobsOp account x)
            else if del then Some (DeleteContainerOp account x) else None)
         else if a = ''queue'' then
           (if put then Some (PutQueue account x) else if method = ''POST'' then Some (PostQueueMessage account x)
            else if get then Some (GetQueueMessage account x) else None)
         else None
     | [a, account, x, y] \<Rightarrow>
         if a = ''blob'' then
           (if put then Some (PutBlobOp account x y) else if get then Some (GetBlobOp account x y)
            else if del then Some (DeleteBlobOp account x y) else None)
         else None
     | [a, sub, b, rg, c, ns, ty, name] \<Rightarrow>
         if a = ''subscriptions'' \<and> b = ''resourceGroups'' \<and> c = ''providers'' \<and>
            ns = ''Microsoft.Storage'' \<and> ty = ''storageAccounts''
         then (if put then Some (PutAccount sub rg name) else if get then Some (GetAccount sub rg name) else None)
         else None
     | _ \<Rightarrow> None))"

section \<open>Gates\<close>

definition storage_denied :: http_response where
  "storage_denied = StorageError 403 ''AuthenticationFailed'' ''SAS signature invalid''"

definition authorizeSAS :: "storage_env \<Rightarrow> store \<Rightarrow> http_request \<Rightarrow> string \<Rightarrow> http_response option" where
  "authorizeSAS env s r account =
    (if account = [] then Some storage_denied
     else (case GetStorageAccountKey (de_crypto env) s account of
         Inl e \<Rightarrow> Some (StorageError 500 ''InternalError'' e)
       | Inr None \<Rightarrow> Some storage_denied
       | Inr (Some key) \<Rightarrow>
           (let now = (case ae_auth env of Some a \<Rightarrow> au_Now a | None \<Rightarrow> st_clock env) in
            if \<not> VerifyStorageSAS (ae_lib env) (st_clock env) key r now then Some storage_denied else None)))"

definition storageDataAction :: "http_request \<Rightarrow> string" where
  "storageDataAction r =
    (let method = to_upper (rq_method r);
         verb = (if method = ''GET'' \<or> method = ''HEAD'' then ''/read''
                 else if method = ''DELETE'' then ''/delete'' else ''/write'') in
     if has_prefix (rq_path r) ''/queue/''
     then ''Microsoft.Storage/storageAccounts/queueServices/queues/messages'' @ verb
     else ''Microsoft.Storage/storageAccounts/blobServices/containers/blobs'' @ verb)"

definition storage_scope :: "(string \<times> string \<times> string) option \<Rightarrow> string \<Rightarrow> string" where
  "storage_scope found account =
    (case found of
       None \<Rightarrow> ''/subscriptions/'' @ DefaultSubscriptionID
     | Some (sub, rg, loc) \<Rightarrow> ''/subscriptions/'' @ sub @ ''/resourceGroups/'' @ rg @
         ''/providers/Microsoft.Storage/storageAccounts/'' @ account)"

definition account_not_found :: http_response where
  "account_not_found = StorageError 404 ''AccountNotFound'' ''storage account not found''"

definition authorizeDataPlane :: "storage_env \<Rightarrow> store \<Rightarrow> http_request \<Rightarrow> string \<Rightarrow> http_response option" where
  "authorizeDataPlane env s r account =
    (if HasSAS r then authorizeSAS env s r account
     else (case ParseSharedKeyAuthorization (header_get r ''Authorization'') of
         Some (acct, sig) \<Rightarrow>
           if acct \<noteq> account then Some (StorageError 403 ''AuthenticationFailed'' ''account name mismatch'')
           else (case GetStorageAccountKey (de_crypto env) s account of
               Inl e \<Rightarrow> Some (StorageError 500 ''InternalError'' e)
             | Inr None \<Rightarrow> Some account_not_found
             | Inr (Some key) \<Rightarrow>
                 if \<not> VerifyStorageSharedKey (ae_lib env) key (StorageStringToSign r) sig
                 then Some (StorageError 403 ''AuthenticationFailed'' ''SharedKey signature invalid'') else None)
       | None \<Rightarrow> (case GetStorageAccountByName s account of
             Inl e \<Rightarrow> Some (StorageError 500 ''InternalError'' e)
           | Inr found \<Rightarrow>
               (case RequireDataPlaneBearer (ae_lib env) r (ae_auth env) (ae_authz env) (Some AllowsStorage)
                   (storageDataAction r) (storage_scope found account) of
                  Inl rs \<Rightarrow> Some rs
                | Inr p \<Rightarrow> if found = None then Some account_not_found else None))))"

text \<open>The ARM gate of this package is the one of the lab services.\<close>

definition storage_require_arm ::
  "storage_env \<Rightarrow> http_request \<Rightarrow> string \<Rightarrow> string \<Rightarrow> string \<Rightarrow> http_response option" where
  "storage_require_arm env r sub rg action = arm_require (arm_env.truncate env) r sub rg action"

section \<open>Accounts\<close>

definition account_json :: "string \<Rightarrow> string \<Rightarrow> string \<Rightarrow> string \<Rightarrow> json" where
  "account_json sub rg name location =
    JObj [(''id'', JStr (group_scope sub rg @ ''/providers/Microsoft.Storage/storageAccounts/'' @ name)),
      (''name'', JStr name), (''type'', JStr ''Microsoft.Storage/storageAccounts''), (''location'', JStr location),
      (''properties'', JObj [(''provisioningState'', JStr ''Succeeded''),
        (''primaryEndpoints'', JObj [(''blob'', JStr (''/blob/'' @ name)), (''queue'', JStr (''/queue/'' @ name)),
          (''table'', JStr (''/table/'' @ name))])])]"

definition putAccount ::
  "storage_env \<Rightarrow> random \<Rightarrow> store \<Rightarrow> http_request \<Rightarrow> string \<Rightarrow> string \<Rightarrow> string \<Rightarrow> http_response \<times> store" where
  "putAccount env rnd s r sub rg name =
    (case storage_require_arm env r sub rg ''Microsoft.Storage/storageAccounts/write'' of
       Some rs \<Rightarrow> (rs, s)
     | None \<Rightarrow>
         (let loc = fst (decode_put_body (rq_json r)); location = (if loc = [] then ''eastus'' else loc) in
          case UpsertStorageAccount (de_crypto env) s (rnd_key rnd) (rnd_nonce rnd) sub rg name location
              (st_loopback env) of
            (Inl e, s') \<Rightarrow> (BadRequest e, s')
          | (Inr key, s') \<Rightarrow> (writeJSON 200 (account_json sub rg name location), s')))"

definition getAccount ::
  "storage_env \<Rightarrow> store \<Rightarrow> http_request \<Rightarrow> string \<Rightarrow> string \<Rightarrow> string \<Rightarrow> http_response \<times> store" where
  "getAccount env s r sub rg name =
    (case storage_require_arm env r sub rg ''Microsoft.Storage/storageAccounts/read'' of
       Some rs \<Rightarrow> (rs, s)
     | None \<Rightarrow>
         (case GetStorageAccount s sub rg name of
            Inl e \<Rightarrow> (InternalError e, s)
          | Inr None \<Rightarrow> (NotFound ''storage account not found'', s)
          | Inr (Some location) \<Rightarrow> (writeJSON 200 (account_json sub rg name location), s)))"

section \<open>Blobs\<close>

definition storage_failed :: "string \<Rightarrow> http_response" where
  "storage_failed e = StorageError 500 ''InternalError'' e"

definition wantsAzureListXML :: "http_request \<Rightarrow> bool" where
  "wantsAzureListXML r =
    (let restype = to_lower (trim_space (query_get r ''restype''));
         comp = to_lower (trim_space (query_get r ''comp''));
         accept = to_lower (header_get r ''Accept'') in
     if comp = ''list'' \<and> (restype = ''container'' \<or> restype = ''service'') then True
     else if contains accept ''application/xml'' \<or> contains accept ''text/xml'' then True
     else trim_space (header_get r ''X-Ms-Version'') \<noteq> [] \<and>
       (comp = ''list'' \<or> restype = ''container'' \<or> restype = ''service''))"

definition writeXML :: "byte list \<Rightarrow> http_response" where
  "writeXML doc = writeBytes 200 [(''Content-Type'', ''application/xml; charset=utf-8'')] doc"

definition listContainers :: "storage_env \<Rightarrow> store \<Rightarrow> http_request \<Rightarrow> string \<Rightarrow> http_response \<times> store" where
  "listContainers env s r account =
    (case authorizeDataPlane env s r account of
       Some rs \<Rightarrow> (rs, s)
     | None \<Rightarrow>
         (case ListContainers s account of
            Inl e \<Rightarrow> (storage_failed e, s)
          | Inr names \<Rightarrow>
              (if wantsAzureListXML r then writeXML (st_containers_xml env r names)
               else writeJSON 200 (JObj [(''containers'', JArr (map JStr names))]), s)))"

definition putContainer :: "storage_env \<Rightarrow> store \<Rightarrow> http_request \<Rightarrow> string \<Rightarrow> string \<Rightarrow> http_response \<times> store" where
  "putContainer env s r account container =
    (case authorizeDataPlane env s r account of
       Some rs \<Rightarrow> (rs, s)
     | None \<Rightarrow>
         (case CreateContainer s account container of
            (Inl e, s') \<Rightarrow> (storage_failed e, s')
          | (Inr _, s') \<Rightarrow> (writeHeader 201, s')))"

definition listBlobs :: "storage_env \<Rightarrow> store \<Rightarrow> http_request \<Rightarrow> string \<Rightarrow> string \<Rightarrow> http_response \<times> store" where
  "listBlobs env s r account container =
    (case authorizeDataPlane env s r account of
       Some rs \<Rightarrow> (rs, s)
     | None \<Rightarrow>
         (case ListBlobs s account container of
            Inl e \<Rightarrow> (storage_failed e, s)
          | Inr names \<Rightarrow>
              (if wantsAzureListXML r then writeXML (st_blobs_xml env r container names)
               else writeJSON 200 (JObj [(''blobs'', JArr (map JStr names))]), s)))"

definition deleteContainer :: "storage_env \<Rightarrow> store \<Rightarrow> http_request \<Rightarrow> string \<Rightarrow> string \<Rightarrow> http_response \<times> store" where
  "deleteContainer env s r account container =
    (case authorizeDataPlane env s r account of
       Some rs \<Rightarrow> (rs, s)
     | None \<Rightarrow>
         (case DeleteContainer s account container of
            (Inl e, s') \<Rightarrow> (storage_failed e, s')
          | (Inr _, s') \<Rightarrow> (writeHeader 202, s')))"

text \<open>A blob is read up to 32 megabytes.\<close>

definition putBlob ::
  "storage_env \<Rightarrow> store \<Rightarrow> http_request \<Rightarrow> byte list result \<Rightarrow> string \<Rightarrow> string \<Rightarrow> string \<Rightarrow>
    http_response \<times> store" where
  "putBlob env s r body account container blob =
    (case authorizeDataPlane env s r account of
       Some rs \<Rightarrow> (rs, s)
     | None \<Rightarrow>
         (case map_sum id (take 33554432) body of
            Inl e \<Rightarrow> (StorageError 400 ''InvalidInput'' e, s)
          | Inr bs \<Rightarrow>
              (case PutBlob s account container blob bs (header_get r ''Content-Type'') of
                 (Inl e, s') \<Rightarrow> (storage_failed e, s')
               | (Inr _, s') \<Rightarrow> (with_header ''x-ms-request-server-encrypted'' ''false'' (writeHeader 201), s'))))"

definition blob_not_found :: http_response where
  "blob_not_found = StorageError 404 ''BlobNotFound'' ''The specified blob does not exist.''"

definition getBlob ::
  "storage_env \<Rightarrow> store \<Rightarrow> http_request \<Rightarrow> string \<Rightarrow> string \<Rightarrow> string \<Rightarrow> http_response \<times> store" where
  "getBlob env s r account container blob =
    (case authorizeDataPlane env s r account of
       Some rs \<Rightarrow> (rs, s)
     | None \<Rightarrow>
         (case GetBlob s account container blob of
            Inl e \<Rightarrow> (storage_failed e, s)
          | Inr None \<Rightarrow> (blob_not_found, s)
          | Inr (Some (content, ct)) \<Rightarrow>
              (writeBytes 200 (if ct \<noteq> [] then [(''Content-Type'', ct)] else []) content, s)))"

definition deleteBlob ::
  "storage_env \<Rightarrow> store \<Rightarrow> http_request \<Rightarrow> string \<Rightarrow> string \<Rightarrow> string \<Rightarrow> http_response \<times> store" where
  "deleteBlob env s r account container blob =
    (case authorizeDataPlane env s r account of
       Some rs \<Rightarrow> (rs, s)
     | None \<Rightarrow>
         (case DeleteBlob s account container blob of
            (Inl e, s') \<Rightarrow> (storage_failed e, s')
          | (Inr ok, s') \<Rightarrow> (if ok then writeHeader 202 else blob_not_found, s')))"

section \<open>Queues\<close>

definition putQueue :: "storage_env \<Rightarrow> store \<Rightarrow> http_request \<Rightarrow> string \<Rightarrow> string \<Rightarrow> http_response \<times> store" where
  "putQueue env s r account queue =
    (case authorizeDataPlane env s r account of
       Some rs \<Rightarrow> (rs, s)
     | None \<Rightarrow>
         (case CreateQueue s account queue of
            (Inl e, s') \<Rightarrow> (storage_failed e, s')
          | (Inr _, s') \<Rightarrow> (writeHeader 201, s')))"

text \<open>
  The \<open>MessageText\<close> that \<open>json.Unmarshal\<close> finds in a body: nothing when the body is no document
  or its fields have another type.
\<close>

fun envelope_fields :: "(string \<times> json) list \<Rightarrow> string \<Rightarrow> string option" where
  "envelope_fields [] text = Some text"
| "envelope_fields ((k, v) # kvs) text =
    (if equal_fold k ''MessageText'' then
       (case v of JStr t \<Rightarrow> envelope_fields kvs t | JNull \<Rightarrow> envelope_fields kvs text | _ \<Rightarrow> None)
     else envelope_fields kvs text)"

definition envelope_text :: "stdlib \<Rightarrow> string \<Rightarrow> string" where
  "envelope_text lib body =
    (case json_parse lib body of
       Inr (JObj kvs) \<Rightarrow> (case envelope_fields kvs [] of Some t \<Rightarrow> t | None \<Rightarrow> [])
     | _ \<Rightarrow> [])"

definition postQueueMessage ::
  "storage_env \<Rightarrow> store \<Rightarrow> http_request \<Rightarrow> byte list result \<Rightarrow> string \<Rightarrow> string \<Rightarrow> http_response \<times> store" where
  "postQueueMessage env s r body account queue =
    (case authorizeDataPlane env s r account of
       Some rs \<Rightarrow> (rs, s)
     | None \<Rightarrow>
         (case limited_body body of
            Inl e \<Rightarrow> (StorageError 400 ''InvalidInput'' e, s)
          | Inr bs \<Rightarrow>
              (let body = string_of_bytes bs; text = envelope_text (ae_lib env) body;
                   msg = (if text \<noteq> [] then text else trim_space body) in
               case Enqueue s (st_clock env) account queue msg of
                 (Inl e, s') \<Rightarrow> (storage_failed e, s')
               | (Inr _, s') \<Rightarrow> (writeJSON 201 (JObj [(''messageId'', JStr ''1'')]), s'))))"

definition message_json :: "string \<Rightarrow> json" where
  "message_json body = JObj [(''MessageText'', JStr body)]"

definition wants_peek :: "http_request \<Rightarrow> bool" where
  "wants_peek r \<longleftrightarrow> equal_fold (query_get r ''peekonly'') ''true'' \<or> query_get r ''comp'' = ''peek''"

text \<open>\<open>None\<close> for a timeout that is no number or negative.\<close>

definition visibility_param :: "http_request \<Rightarrow> int option" where
  "visibility_param r =
    (let v = query_get r ''visibilitytimeout'' in
     if v = [] then Some 0
     else (case parse_int64 v of None \<Rightarrow> None | Some n \<Rightarrow> if n < 0 then None else Some n))"

definition getQueueMessage :: "storage_env \<Rightarrow> store \<Rightarrow> http_request \<Rightarrow> string \<Rightarrow> string \<Rightarrow> http_response \<times> store" where
  "getQueueMessage env s r account queue =
    (case authorizeDataPlane env s r account of
       Some rs \<Rightarrow> (rs, s)
     | None \<Rightarrow>
         if wants_peek r then
           (case Peek s (st_clock env) account queue of
              Inl e \<Rightarrow> (storage_failed e, s)
            | Inr None \<Rightarrow> (writeHeader 204, s)
            | Inr (Some body) \<Rightarrow> (writeJSON 200 (message_json body), s))
         else (case visibility_param r of
            None \<Rightarrow> (StorageError 400 ''InvalidInput'' ''invalid visibilitytimeout'', s)
          | Some vis \<Rightarrow>
              (case Dequeue s (st_clock env) account queue vis of
                 (Inl e, s') \<Rightarrow> (storage_failed e, s')
               | (Inr None, s') \<Rightarrow> (writeHeader 204, s')
               | (Inr (Some body), s') \<Rightarrow> (writeJSON 200 (message_json body), s'))))"

definition storage_handle ::
  "storage_env \<Rightarrow> random \<Rightarrow> store \<Rightarrow> http_request \<Rightarrow> byte list result \<Rightarrow> storage_op \<Rightarrow> http_response \<times> store" where
  "storage_handle env rnd s r body op =
    (case op of
       PutAccount sub rg name \<Rightarrow> putAccount env rnd s r sub rg name
     | GetAccount sub rg name \<Rightarrow> getAccount env s r sub rg name
     | ListContainersOp a \<Rightarrow> listContainers env s r a
     | PutContainer a c \<Rightarrow> putContainer env s r a c
     | ListBlobsOp a c \<Rightarrow> listBlobs env s r a c
     | DeleteContainerOp a c \<Rightarrow> deleteContainer env s r a c
     | PutBlobOp a c b \<Rightarrow> putBlob env s r body a c b
     | GetBlobOp a c b \<Rightarrow> getBlob env s r a c b
     | DeleteBlobOp a c b \<Rightarrow> deleteBlob env s r a c b
     | PutQueue a q \<Rightarrow> putQueue env s r a q
     | PostQueueMessage a q \<Rightarrow> postQueueMessage env s r body a q
     | GetQueueMessage a q \<Rightarrow> getQueueMessage env s r a q)"

section \<open>What a request needs\<close>

definition sas_allowed :: "storage_env \<Rightarrow> store \<Rightarrow> http_request \<Rightarrow> string \<Rightarrow> bool" where
  "sas_allowed env s r account \<longleftrightarrow> HasSAS r \<and> account \<noteq> [] \<and>
    (\<exists>key. GetStorageAccountKey (de_crypto env) s account = Inr (Some key) \<and>
      VerifyStorageSAS (ae_lib env) (st_clock env) key r
        (case ae_auth env of Some a \<Rightarrow> au_Now a | None \<Rightarrow> st_clock env))"

definition shared_key_allowed :: "storage_env \<Rightarrow> store \<Rightarrow> http_request \<Rightarrow> string \<Rightarrow> bool" where
  "shared_key_allowed env s r account \<longleftrightarrow>
    (\<exists>sig key. ParseSharedKeyAuthorization (header_get r ''Authorization'') = Some (account, sig) \<and>
      GetStorageAccountKey (de_crypto env) s account = Inr (Some key) \<and>
      VerifyStorageSharedKey (ae_lib env) key (StorageStringToSign r) sig)"

definition token_allowed :: "storage_env \<Rightarrow> store \<Rightarrow> http_request \<Rightarrow> string \<Rightarrow> bool" where
  "token_allowed env s r account \<longleftrightarrow>
    (\<exists>loc p. GetStorageAccountByName s account = Inr (Some loc) \<and>
      authorized (ae_lib env) (ae_auth env) (ae_authz env) AllowsStorage r (storageDataAction r)
        (storage_scope (Some loc) account) p)"

lemma authorizeSAS_passes:
  "HasSAS r \<Longrightarrow> authorizeSAS env s r account = None \<longleftrightarrow> sas_allowed env s r account"
  by (auto simp: authorizeSAS_def sas_allowed_def Let_def split: sum.splits option.splits if_splits)

lemma authorizeDataPlane_passes:
  "authorizeDataPlane env s r account = None \<longleftrightarrow>
    (if HasSAS r then sas_allowed env s r account
     else if ParseSharedKeyAuthorization (header_get r ''Authorization'') \<noteq> None
       then shared_key_allowed env s r account
     else token_allowed env s r account)"
proof (cases "HasSAS r")
  case True
  then show ?thesis by (simp add: authorizeDataPlane_def authorizeSAS_passes)
next
  case False
  show ?thesis
  proof (cases "ParseSharedKeyAuthorization (header_get r ''Authorization'')")
    case None
    with False show ?thesis
      by (auto simp: authorizeDataPlane_def token_allowed_def gate_passes[symmetric] split: sum.split if_splits)
  next
    case (Some x)
    with False show ?thesis
      by (cases x) (auto simp: authorizeDataPlane_def shared_key_allowed_def split: sum.splits option.splits if_splits)
  qed
qed

lemma authorizeDataPlane_denies:
  assumes "authorizeDataPlane env s r account = Some rs"
  shows "rs_code rs \<in> {401, 403, 404, 500}"
proof (cases "HasSAS r \<or> ParseSharedKeyAuthorization (header_get r ''Authorization'') \<noteq> None")
  case True
  with assms show ?thesis
    by (auto simp: authorizeDataPlane_def authorizeSAS_def storage_denied_def account_not_found_def Let_def
        split: sum.splits option.splits if_splits)
next
  case False
  then have none: "\<not> HasSAS r" "ParseSharedKeyAuthorization (header_get r ''Authorization'') = None"
    by blast+
  show ?thesis
  proof (cases "GetStorageAccountByName s account")
    case (Inr found)
    show ?thesis
    proof (cases "RequireDataPlaneBearer (ae_lib env) r (ae_auth env) (ae_authz env) (Some AllowsStorage)
        (storageDataAction r) (storage_scope found account)")
      case (Inl rs')
      from gate_denies[OF Inl] Inl Inr assms none show ?thesis by (auto simp: authorizeDataPlane_def)
    qed (use Inr assms none in \<open>auto simp: authorizeDataPlane_def account_not_found_def split: if_splits\<close>)
  qed (use assms none in \<open>auto simp: authorizeDataPlane_def\<close>)
qed

definition storage_permits :: "storage_env \<Rightarrow> store \<Rightarrow> http_request \<Rightarrow> storage_op \<Rightarrow> bool" where
  "storage_permits env s r op =
    (let arm = (\<lambda>sub rg action. \<exists>p. authorized (ae_lib env) (ae_auth env) (ae_authz env) AllowsARM r
           action (group_scope sub rg) p);
         data = (\<lambda>account. sas_allowed env s r account \<or> shared_key_allowed env s r account \<or>
           token_allowed env s r account) in
     case op of
       PutAccount sub rg name \<Rightarrow> arm sub rg ''Microsoft.Storage/storageAccounts/write''
     | GetAccount sub rg name \<Rightarrow> arm sub rg ''Microsoft.Storage/storageAccounts/read''
     | ListContainersOp a \<Rightarrow> data a | PutContainer a c \<Rightarrow> data a | ListBlobsOp a c \<Rightarrow> data a
     | DeleteContainerOp a c \<Rightarrow> data a | PutBlobOp a c b \<Rightarrow> data a | GetBlobOp a c b \<Rightarrow> data a
     | DeleteBlobOp a c b \<Rightarrow> data a | PutQueue a q \<Rightarrow> data a | PostQueueMessage a q \<Rightarrow> data a
     | GetQueueMessage a q \<Rightarrow> data a)"

definition turned_away :: "store \<Rightarrow> http_response \<times> store \<Rightarrow> bool" where
  "turned_away s out \<longleftrightarrow> rs_code (fst out) \<in> {401, 403, 404, 500} \<and> snd out = s"

lemma storage_arm_denied:
  assumes "\<nexists>p. authorized (ae_lib env) (ae_auth env) (ae_authz env) AllowsARM r action (group_scope sub rg) p"
  shows "turned_away s (case storage_require_arm env r sub rg action of Some rs \<Rightarrow> (rs, s) | None \<Rightarrow> out)"
  using assms arm_require_passes[of "arm_env.truncate env" r sub rg action]
    arm_require_denies[of "arm_env.truncate env" r sub rg action]
  by (cases "storage_require_arm env r sub rg action")
    (auto simp: turned_away_def storage_require_arm_def arm_authorized_def arm_env.truncate_def)

lemma storage_data_denied:
  assumes "\<not> (sas_allowed env s r account \<or> shared_key_allowed env s r account \<or> token_allowed env s r account)"
  shows "turned_away s (case authorizeDataPlane env s r account of Some rs \<Rightarrow> (rs, s) | None \<Rightarrow> out)"
  using assms authorizeDataPlane_passes[of env s r account] authorizeDataPlane_denies[of env s r account]
  by (cases "authorizeDataPlane env s r account") (auto simp: turned_away_def split: if_splits)

lemmas storage_handlers = putAccount_def getAccount_def listContainers_def putContainer_def listBlobs_def
  deleteContainer_def putBlob_def getBlob_def deleteBlob_def putQueue_def postQueueMessage_def getQueueMessage_def

text \<open>
  The storage handler fails closed: any answer other than 401, 403, 404 and 500, and any
  change of the store, comes only from a request with a valid shared access signature, a valid
  shared key or a token authorized for the data action at the account; for the management of
  accounts, from a token authorized at the resource group.
\<close>

theorem storage_fail_closed:
  assumes "rs_code (fst (storage_handle env rnd s r body op)) \<notin> {401, 403, 404, 500} \<or>
    snd (storage_handle env rnd s r body op) \<noteq> s"
  shows "storage_permits env s r op"
proof (rule ccontr)
  assume "\<not> ?thesis"
  then have "turned_away s (storage_handle env rnd s r body op)"
    by (cases op)
      (auto simp: storage_permits_def storage_handle_def storage_handlers
        intro!: storage_arm_denied storage_data_denied)
  with assms show False by (auto simp: turned_away_def)
qed

section \<open>Blobs\<close>

lemma authorizeDataPlane_same_accounts:
  assumes "tb_storage_accounts s' = tb_storage_accounts s" "db_fault s' = db_fault s"
  shows "authorizeDataPlane env s' r account = authorizeDataPlane env s r account"
proof -
  have same: "GetStorageAccountKey c s' a = GetStorageAccountKey c s a"
    "GetStorageAccountByName s' a = GetStorageAccountByName s a" for c a
    using assms by (simp_all add: GetStorageAccountKey_def key_by_name_def GetStorageAccountByName_def
        scope_by_name_def db_query_def)
  show ?thesis unfolding authorizeDataPlane_def authorizeSAS_def by (simp only: same)
qed

text \<open>
  C32: a blob that was put is what the next get answers with: the first 32 megabytes of its bytes,
  under the content type it was put with or the default one.
\<close>

theorem blob_put_then_get:
  assumes "db_fault s = None"
    and "authorizeDataPlane env s r account = None" "authorizeDataPlane env s r' account = None"
  shows "rs_code (fst (putBlob env s r (Inr content) account container blob)) = 201 \<and>
    fst (getBlob env (snd (putBlob env s r (Inr content) account container blob)) r' account container blob) =
      writeBytes 200 [(''Content-Type'', let ct = header_get r ''Content-Type'' in
        if ct = [] then ''application/octet-stream'' else ct)] (take 33554432 content)"
proof -
  define s' where "s' = blob_put s (account, container, blob) (take 33554432 content, header_get r ''Content-Type'')"
  have put: "putBlob env s r (Inr content) account container blob =
      (with_header ''x-ms-request-server-encrypted'' ''false'' (writeHeader 201), s')"
    using assms(1,2) by (simp add: putBlob_def PutBlob_def s'_def blob_put_def)
  have "db_fault s' = None" "tb_storage_accounts s' = tb_storage_accounts s"
    using assms(1) by (simp_all add: s'_def blob_put_def PutBlob_def)
  moreover have "blob_get s' (account, container, blob) =
      Some (blob_norm (take 33554432 content, header_get r ''Content-Type''))"
    unfolding s'_def by (simp add: blob_table.get_put assms(1))
  ultimately have "GetBlob s' account container blob =
      Inr (Some (blob_norm (take 33554432 content, header_get r ''Content-Type'')))"
    by (simp add: blob_get_def GetBlob_def)
  moreover have "authorizeDataPlane env s' r' account = None"
    using authorizeDataPlane_same_accounts[of s' s env r' account] assms(1,3)
    by (simp add: s'_def blob_put_def PutBlob_def)
  ultimately show ?thesis
    by (simp add: put getBlob_def blob_norm_def Let_def)
qed

section \<open>Reading a queue removes from it\<close>

definition queue_read_action :: string where
  "queue_read_action = ''Microsoft.Storage/storageAccounts/queueServices/queues/messages/read''"

lemma Dequeue_delete:
  assumes "messages_ok s" "visible_bodies s now account queue = b # bs"
  shows "\<exists>s'. Dequeue s now account queue 0 = (Inr (Some b), s') \<and> visible_bodies s' now account queue = bs"
proof -
  obtain m ms where m: "seq_select (qm_visible now account queue) (tb_queue_messages s) = m # ms"
    "qm_body m = b" "map qm_body ms = bs"
    using assms(2) by (auto simp: visible_bodies_def)
  have "seq_ok (tb_queue_messages s)" using assms(1) by (simp add: messages_ok_def)
  then obtain i where i: "seq_first (qm_visible now account queue) (tb_queue_messages s) = Some (i, m)"
    "seq_select (qm_visible now account queue) (seq_delete i (tb_queue_messages s)) = ms"
    by (rule seq_take[OF _ m(1)]) blast
  have "db_fault s = None" using assms(1) by (simp add: messages_ok_def)
  with i m show ?thesis by (simp add: Dequeue_def visible_bodies_def)
qed

text \<open>
  A get of a queue needs the read action only, and yet removes the message it answers with:
  the messages behind it are all that is left to see.
\<close>

theorem reading_consumes:
  assumes "messages_ok s" "visible_bodies s (st_clock env) account queue = b # bs"
    and "rq_method r = ''GET''" "has_prefix (rq_path r) ''/queue/''"
    and "authorizeDataPlane env s r account = None"
    and "query_get r ''peekonly'' = []" "query_get r ''comp'' = []" "query_get r ''visibilitytimeout'' = []"
  shows "storageDataAction r = queue_read_action \<and>
    (\<exists>s'. getQueueMessage env s r account queue = (writeJSON 200 (message_json b), s') \<and>
      visible_bodies s' (st_clock env) account queue = bs)"
proof -
  have "storageDataAction r = queue_read_action"
  proof -
    have "to_upper ''GET'' = ''GET''" by code_simp
    with assms(3,4) show ?thesis by (simp add: storageDataAction_def queue_read_action_def)
  qed
  moreover have "\<not> wants_peek r" "visibility_param r = Some 0"
    using assms(6-8) by (simp_all add: wants_peek_def visibility_param_def equal_fold_def to_lower_def)
  ultimately show ?thesis
    using Dequeue_delete[OF assms(1,2)] assms(5) by (auto simp: getQueueMessage_def)
qed

lemma read_sas_reads_queues: "SASPermits ''r'' ''GET'' ''/queue/lab/q''"
  by code_simp

section \<open>Concrete requests\<close>

definition lab_senv :: storage_env where
  "lab_senv = \<lparr>ae_lib = lab_lib, ae_auth = Some lab_auth, ae_authz = None, de_crypto = lab_crypto, de_listen = [],
    st_clock = 0, st_loopback = True, st_containers_xml = (\<lambda>r ns. []), st_blobs_xml = (\<lambda>r c ns. [])\<rparr>"

definition account_store :: store where
  "account_store = empty_store\<lparr>tb_storage_accounts := [\<lparr>ac_subscription_id = ''s'', ac_resource_group = ''g'',
    ac_name = ''lab'', ac_location = ''eastus'', ac_sealed = ''nonce-of-12bTkey''\<rparr>],
    tb_queue_messages := (1, [(1, \<lparr>qm_account = ''lab'', qm_queue = ''q'', qm_body = ''m'', qm_inserted_at = 0,
      qm_visible_after = None\<rparr>)])\<rparr>"

definition queue_request :: http_request where
  "queue_request = root_request\<lparr>rq_path := ''/queue/lab/q''\<rparr>"

theorem storage_fail_closed_witness:
  "storage_permits lab_senv account_store queue_request (GetQueueMessage ''lab'' ''q'')"
proof (rule storage_fail_closed)
  show "rs_code (fst (storage_handle lab_senv \<lparr>rnd_key = [], rnd_nonce = []\<rparr> account_store queue_request (Inr [])
      (GetQueueMessage ''lab'' ''q''))) \<notin> {401, 403, 404, 500} \<or>
    snd (storage_handle lab_senv \<lparr>rnd_key = [], rnd_nonce = []\<rparr> account_store queue_request (Inr [])
      (GetQueueMessage ''lab'' ''q'')) \<noteq> account_store"
    by (rule disjI1) code_simp
qed

theorem blob_put_then_get_witness:
  "rs_code (fst (putBlob lab_senv account_store root_request (Inr [1]) ''lab'' ''c'' ''b'')) = 201 \<and>
   fst (getBlob lab_senv (snd (putBlob lab_senv account_store root_request (Inr [1]) ''lab'' ''c'' ''b''))
       root_request ''lab'' ''c'' ''b'') =
     writeBytes 200 [(''Content-Type'', let ct = header_get root_request ''Content-Type'' in
       if ct = [] then ''application/octet-stream'' else ct)] (take 33554432 [1])"
proof (rule blob_put_then_get)
  show "db_fault account_store = None" by (simp add: account_store_def empty_store_def)
  show "authorizeDataPlane lab_senv account_store root_request ''lab'' = None"
    "authorizeDataPlane lab_senv account_store root_request ''lab'' = None"
    by code_simp+
qed

theorem reading_consumes_witness:
  "storageDataAction queue_request = queue_read_action \<and>
   (\<exists>s'. getQueueMessage lab_senv account_store queue_request ''lab'' ''q'' = (writeJSON 200 (message_json ''m''), s') \<and>
     visible_bodies s' (st_clock lab_senv) ''lab'' ''q'' = [])"
proof (rule reading_consumes)
  show "messages_ok account_store"
    by (simp add: messages_ok_def account_store_def empty_store_def seq_ok_def)
qed code_simp+

end
