(* ===== verification/Key_Vault.thy ===== *)
theory Key_Vault
  imports Arm_Lab Store_Sealed
begin

text \<open>
  The Key Vault service: \<open>internal/services/keyvault/handler.go\<close> and \<open>certificates.go\<close> over
  \<open>internal/store/keyvault.go\<close>. Vaults stand behind the ARM gate, secrets, keys and certificates
  behind a gate of this package that challenges a caller without a token for vaults. Issuing a
  certificate (\<open>crypto/x509\<close>) and formatting a time are arguments.
\<close>

section \<open>Certificates in the store\<close>

definition crt_key :: "certificate_row \<Rightarrow> string \<times> string \<times> string" where
  "crt_key r = (crt_vault r, crt_name r, crt_version r)"

text \<open>\<open>fresh\<close> is the identifier that is drawn when no version is given.\<close>

definition PutKeyVaultCertificate ::
  "crypto \<Rightarrow> store \<Rightarrow> string \<Rightarrow> string \<Rightarrow> string \<Rightarrow> string \<Rightarrow> string \<Rightarrow> string \<Rightarrow> json \<Rightarrow> unit result \<times> store" where
  "PutKeyVaultCertificate c s fresh nonce vault name version pem policyJSON =
    db_exec s () (s\<lparr>tb_certificates := tbl_upsert crt_key
      (\<lambda>old new. old\<lparr>crt_sealed := crt_sealed new, crt_policy := crt_policy new\<rparr>)
      \<lparr>crt_vault = vault, crt_name = name, crt_version = (if version = [] then fresh else version),
       crt_sealed = Seal c (cr_master c) nonce pem, crt_policy = policyJSON\<rparr> (tb_certificates s)\<rparr>)"

definition latest_certificate :: "certificate_row list \<Rightarrow> string \<Rightarrow> string \<Rightarrow> certificate_row option" where
  "latest_certificate rows vault name = find (\<lambda>r. crt_vault r = vault \<and> crt_name r = name) (rev rows)"

text \<open>The version, the certificate and the policy.\<close>

definition GetKeyVaultCertificate ::
  "crypto \<Rightarrow> store \<Rightarrow> string \<Rightarrow> string \<Rightarrow> (string \<times> string \<times> json) option result" where
  "GetKeyVaultCertificate c s vault name =
    (case db_query s (latest_certificate (tb_certificates s) vault name) of
       Inl e \<Rightarrow> Inl e
     | Inr None \<Rightarrow> Inr None
     | Inr (Some r) \<Rightarrow>
         map_sum id (\<lambda>pem. Some (crt_version r, pem, crt_policy r)) (Unseal c (cr_master c) (crt_sealed r)))"

section \<open>Environment and routes\<close>

record kv_env = arm_env +
  kv_crypto :: crypto
  kv_authorization_url :: string
  kv_resource :: string
  kv_clock :: int
  kv_rfc3339 :: "int \<Rightarrow> string"
  kv_issue :: "string \<Rightarrow> (string \<times> string) result"

text \<open>
  What one request draws from \<open>crypto/rand\<close> and \<open>uuid\<close>: key material of 32 bytes, a nonce of
  twelve bytes for a ciphertext, and a version with a nonce for each row it may write.
\<close>

record kv_random =
  kr_material :: string
  kr_nonce :: string
  kr_version :: string
  kr_seal :: string
  kr_cert_version :: string
  kr_cert_seal :: string

datatype kv_op =
    PutVault string string string
  | GetVault string string string
  | PutSecretOp string string
  | GetSecretOp string string
  | DeleteSecretOp string string
  | RecoverSecretOp string string
  | PutKeyOp string string
  | GetKeyOp string string
  | EncryptOp string string
  | DecryptOp string string
  | PutCertificateOp string string
  | GetCertificateOp string string

text \<open>The patterns of \<open>Register\<close>; wildcards match non-empty segments, GET also serves HEAD.\<close>

definition kv_route :: "string \<Rightarrow> string list \<Rightarrow> kv_op option" where
  "kv_route method segs =
    (let get = (method = ''GET'' \<or> method = ''HEAD''); put = (method = ''PUT''); post = (method = ''POST'') in
     if [] \<in> set segs then None
     else (case segs of
       [a, vault, k, name] \<Rightarrow>
         if a \<noteq> ''keyvault'' then None
         else if k = ''secrets'' then
           (if put then Some (PutSecretOp vault name) else if get then Some (GetSecretOp vault name)
            else if method = ''DELETE'' then Some (DeleteSecretOp vault name) else None)
         else if k = ''keys'' then
           (if put then Some (PutKeyOp vault name) else if get then Some (GetKeyOp vault name) else None)
         else if k = ''certificates'' then
           (if put then Some (PutCertificateOp vault name) else if get then Some (GetCertificateOp vault name)
            else None)
         else None
     | [a, vault, k, name, op] \<Rightarrow>
         if a \<noteq> ''keyvault'' \<or> \<not> post then None
         else if k = ''deletedsecrets'' \<and> op = ''recover'' then Some (RecoverSecretOp vault name)
         else if k = ''keys'' \<and> op = ''encrypt'' then Some (EncryptOp vault name)
         else if k = ''keys'' \<and> op = ''decrypt'' then Some (DecryptOp vault name)
         else None
     | [a, sub, b, rg, c, ns, ty, name] \<Rightarrow>
         if a = ''subscriptions'' \<and> b = ''resourceGroups'' \<and> c = ''providers'' \<and>
            ns = ''Microsoft.KeyVault'' \<and> ty = ''vaults''
         then (if put then Some (PutVault sub rg name) else if get then Some (GetVault sub rg name) else None)
         else None
     | _ \<Rightarrow> None))"

section \<open>Gates\<close>

definition kv_require_arm :: "kv_env \<Rightarrow> http_request \<Rightarrow> string \<Rightarrow> string \<Rightarrow> string \<Rightarrow> http_response option" where
  "kv_require_arm env r sub rg action = arm_require (arm_env.truncate env) r sub rg action"

definition kv_challenge :: "kv_env \<Rightarrow> http_response" where
  "kv_challenge env = KeyVaultUnauthenticated
    (if kv_authorization_url env = [] then ''http://127.0.0.1:4599'' else kv_authorization_url env)
    (if kv_resource env = [] then AudienceVault else kv_resource env)"

definition requireDataPlaneBearer ::
  "kv_env \<Rightarrow> store \<Rightarrow> http_request \<Rightarrow> string \<Rightarrow> string \<Rightarrow> http_response option" where
  "requireDataPlaneBearer env s r vault action =
    (if \<not> has_prefix (header_get r ''Authorization'') ''Bearer '' then Some (kv_challenge env)
     else (case ae_auth env of
       None \<Rightarrow> Some (kv_challenge env)
     | Some a \<Rightarrow> (case AuthenticateRequest (ae_lib env) a r of
         Inl e \<Rightarrow> Some (kv_challenge env)
       | Inr p \<Rightarrow>
           if \<not> AllowsVault p then Some (kv_challenge env)
           else if pr_IsRoot p then None
           else (case LookupKeyVaultScope s vault of
               Inl e \<Rightarrow> Some (InternalError e)
             | Inr None \<Rightarrow> Some (NotFound ''vault not found'')
             | Inr (Some scope) \<Rightarrow> (case ae_authz env of
                   None \<Rightarrow> Some (Forbidden [])
                 | Some ev \<Rightarrow> (case Evaluate ev (pr_ID p) (pr_IsRoot p) action scope of
                       Inl e \<Rightarrow> Some (InternalError e)
                     | Inr allowed \<Rightarrow> if allowed then None else Some (Forbidden [])))))))"

section \<open>Vaults\<close>

definition vault_json :: "string \<Rightarrow> string \<Rightarrow> string \<Rightarrow> string \<Rightarrow> json" where
  "vault_json sub rg name location =
    JObj [(''id'', JStr (group_scope sub rg @ ''/providers/Microsoft.KeyVault/vaults/'' @ name)),
      (''name'', JStr name), (''type'', JStr ''Microsoft.KeyVault/vaults''), (''location'', JStr location),
      (''properties'', JObj [(''provisioningState'', JStr ''Succeeded''),
        (''vaultUri'', JStr (''/keyvault/'' @ name))])]"

definition putVault ::
  "kv_env \<Rightarrow> store \<Rightarrow> http_request \<Rightarrow> string \<Rightarrow> string \<Rightarrow> string \<Rightarrow> http_response \<times> store" where
  "putVault env s r sub rg name =
    (case kv_require_arm env r sub rg ''Microsoft.KeyVault/vaults/write'' of
       Some rs \<Rightarrow> (rs, s)
     | None \<Rightarrow>
         (let location = default_location (fst (decode_strings [''location''] (rq_json r)) ''location'') in
          case UpsertKeyVault s sub rg name location of
            (Inl e, s') \<Rightarrow> (InternalError e, s')
          | (Inr _, s') \<Rightarrow> (writeJSON 200 (vault_json sub rg name location), s')))"

definition getVault ::
  "kv_env \<Rightarrow> store \<Rightarrow> http_request \<Rightarrow> string \<Rightarrow> string \<Rightarrow> string \<Rightarrow> http_response \<times> store" where
  "getVault env s r sub rg name =
    (case kv_require_arm env r sub rg ''Microsoft.KeyVault/vaults/read'' of
       Some rs \<Rightarrow> (rs, s)
     | None \<Rightarrow>
         (case GetKeyVault s sub rg name of
            Inl e \<Rightarrow> (InternalError e, s)
          | Inr None \<Rightarrow> (NotFound ''vault not found'', s)
          | Inr (Some location) \<Rightarrow> (writeJSON 200 (vault_json sub rg name location), s)))"

section \<open>Secrets\<close>

definition secretResponse :: "kv_env \<Rightarrow> string \<Rightarrow> string \<Rightarrow> string \<Rightarrow> string \<Rightarrow> json" where
  "secretResponse env vault name version val =
    JObj [(''value'', JStr val), (''id'', JStr (''/keyvault/'' @ vault @ ''/secrets/'' @ name @ ''/'' @ version)),
      (''attributes'', JObj [(''enabled'', JBool True), (''created'', JNum (seconds (kv_clock env))),
        (''updated'', JNum (seconds (kv_clock env)))])]"

text \<open>The body of the requests that carry a \<open>value\<close>: \<open>None\<close> when it is refused.\<close>

definition value_required :: "string list \<Rightarrow> http_request \<Rightarrow> string option" where
  "value_required names r =
    (case decode_strings names (rq_json r) of
       (m, ok) \<Rightarrow> if ok \<and> m ''value'' \<noteq> [] then Some (m ''value'') else None)"

definition kv_putSecret ::
  "kv_env \<Rightarrow> kv_random \<Rightarrow> store \<Rightarrow> http_request \<Rightarrow> string \<Rightarrow> string \<Rightarrow> http_response \<times> store" where
  "kv_putSecret env rnd s r vault name =
    (case requireDataPlaneBearer env s r vault ''Microsoft.KeyVault/vaults/secrets/setSecret/action'' of
       Some rs \<Rightarrow> (rs, s)
     | None \<Rightarrow> (case KeyVaultExists s vault of
         Inl e \<Rightarrow> (InternalError e, s)
       | Inr False \<Rightarrow> (NotFound ''vault not found'', s)
       | Inr True \<Rightarrow> (case value_required [''value''] r of
           None \<Rightarrow> (BadRequest ''value is required'', s)
         | Some val \<Rightarrow>
             (case PutSecret (kv_crypto env) s (kr_version rnd) (kr_seal rnd) vault name val of
                (Inl e, s') \<Rightarrow> (InternalError e, s')
              | (Inr version, s') \<Rightarrow> (writeJSON 200 (secretResponse env vault name version val), s')))))"

fun exportable_flag :: "json option \<Rightarrow> bool" where
  "exportable_flag (Some (JBool b)) = b"
| "exportable_flag _ = False"

text \<open>A policy is \<open>None\<close> for the nil map.\<close>

definition certificatePolicyExportable :: "json_map option \<Rightarrow> bool" where
  "certificatePolicyExportable policy =
    (case policy of
       None \<Rightarrow> False
     | Some m \<Rightarrow> exportable_flag (map_of m ''exportable'') \<or>
         list_ex (\<lambda>nest. case map_of m nest of
             Some (JObj inner) \<Rightarrow> exportable_flag (map_of inner ''exportable'') | _ \<Rightarrow> False)
           [''key_props'', ''keyProperties'', ''keyProps''])"

definition certificatePolicyExportableJSON :: "json \<Rightarrow> bool" where
  "certificatePolicyExportableJSON policyJSON = certificatePolicyExportable (unmarshal_map policyJSON)"

definition certificateSecretBlocked :: "kv_env \<Rightarrow> store \<Rightarrow> string \<Rightarrow> string \<Rightarrow> bool result" where
  "certificateSecretBlocked env s vault name =
    (case GetKeyVaultCertificate (kv_crypto env) s vault name of
       Inl e \<Rightarrow> Inl e
     | Inr None \<Rightarrow> Inr False
     | Inr (Some (version, pem, policyJSON)) \<Rightarrow> Inr (\<not> certificatePolicyExportableJSON policyJSON))"

definition not_exportable :: http_response where
  "not_exportable = Forbidden ''Certificate private key is not exportable.''"

definition kv_getSecret :: "kv_env \<Rightarrow> store \<Rightarrow> http_request \<Rightarrow> string \<Rightarrow> string \<Rightarrow> http_response \<times> store" where
  "kv_getSecret env s r vault name =
    (case requireDataPlaneBearer env s r vault ''Microsoft.KeyVault/vaults/secrets/getSecret/action'' of
       Some rs \<Rightarrow> (rs, s)
     | None \<Rightarrow> (case certificateSecretBlocked env s vault name of
         Inl e \<Rightarrow> (InternalError e, s)
       | Inr True \<Rightarrow> (not_exportable, s)
       | Inr False \<Rightarrow> (case GetSecret (kv_crypto env) s vault name of
           Inl e \<Rightarrow> (InternalError e, s)
         | Inr None \<Rightarrow> (NotFound ''secret not found'', s)
         | Inr (Some (val, version)) \<Rightarrow> (writeJSON 200 (secretResponse env vault name version val), s))))"

definition kv_deleteSecret ::
  "kv_env \<Rightarrow> kv_random \<Rightarrow> store \<Rightarrow> http_request \<Rightarrow> string \<Rightarrow> string \<Rightarrow> http_response \<times> store" where
  "kv_deleteSecret env rnd s r vault name =
    (case requireDataPlaneBearer env s r vault ''Microsoft.KeyVault/vaults/secrets/delete'' of
       Some rs \<Rightarrow> (rs, s)
     | None \<Rightarrow> (case SoftDeleteSecret (kv_crypto env) s (kv_clock env) (kr_seal rnd) vault name of
         (Inl e, s') \<Rightarrow> (InternalError e, s')
       | (Inr False, s') \<Rightarrow> (NotFound ''secret not found'', s')
       | (Inr True, s') \<Rightarrow>
           (writeJSON 200 (JObj [(''recoveryId'', JStr (''/keyvault/'' @ vault @ ''/deletedsecrets/'' @ name)),
              (''deletedDate'', JStr (kv_rfc3339 env (kv_clock env))),
              (''scheduledPurgeDate'', JStr (kv_rfc3339 env (kv_clock env)))]), s')))"

definition kv_recoverSecret ::
  "kv_env \<Rightarrow> store \<Rightarrow> http_request \<Rightarrow> string \<Rightarrow> string \<Rightarrow> http_response \<times> store" where
  "kv_recoverSecret env s r vault name =
    (case requireDataPlaneBearer env s r vault ''Microsoft.KeyVault/vaults/secrets/recover/action'' of
       Some rs \<Rightarrow> (rs, s)
     | None \<Rightarrow> (case certificateSecretBlocked env s vault name of
         Inl e \<Rightarrow> (InternalError e, s)
       | Inr True \<Rightarrow> (not_exportable, s)
       | Inr False \<Rightarrow> (case RecoverSecret (kv_crypto env) s vault name of
           (Inl e, s') \<Rightarrow> (InternalError e, s')
         | (Inr None, s') \<Rightarrow> (NotFound ''deleted secret not found'', s')
         | (Inr (Some version), s') \<Rightarrow> (case GetSecret (kv_crypto env) s' vault name of
             Inl e \<Rightarrow> (InternalError e, s')
           | Inr None \<Rightarrow> (NotFound ''secret not found after recover'', s')
           | Inr (Some (val, v)) \<Rightarrow> (writeJSON 200 (secretResponse env vault name version val), s')))))"

section \<open>Keys\<close>

definition key_json :: "string \<Rightarrow> string \<Rightarrow> string \<Rightarrow> (string \<times> json) list \<Rightarrow> json" where
  "key_json vault name version attributes =
    JObj [(''key'', JObj [(''kid'', JStr (''/keyvault/'' @ vault @ ''/keys/'' @ name @ ''/'' @ version)),
        (''kty'', JStr ''oct'')]),
      (''attributes'', JObj ((''enabled'', JBool True) # attributes))]"

definition kv_putKey ::
  "kv_env \<Rightarrow> kv_random \<Rightarrow> store \<Rightarrow> http_request \<Rightarrow> string \<Rightarrow> string \<Rightarrow> http_response \<times> store" where
  "kv_putKey env rnd s r vault name =
    (case requireDataPlaneBearer env s r vault ''Microsoft.KeyVault/vaults/keys/write'' of
       Some rs \<Rightarrow> (rs, s)
     | None \<Rightarrow> (case KeyVaultExists s vault of
         Inl e \<Rightarrow> (InternalError e, s)
       | Inr False \<Rightarrow> (NotFound ''vault not found'', s)
       | Inr True \<Rightarrow>
           (case PutKey (kv_crypto env) s (kr_version rnd) (kr_seal rnd) vault name (kr_material rnd) of
              (Inl e, s') \<Rightarrow> (InternalError e, s')
            | (Inr version, s') \<Rightarrow>
                (writeJSON 200 (key_json vault name version [(''created'', JNum (seconds (kv_clock env)))]), s'))))"

definition kv_getKey :: "kv_env \<Rightarrow> store \<Rightarrow> http_request \<Rightarrow> string \<Rightarrow> string \<Rightarrow> http_response \<times> store" where
  "kv_getKey env s r vault name =
    (case requireDataPlaneBearer env s r vault ''Microsoft.KeyVault/vaults/keys/read'' of
       Some rs \<Rightarrow> (rs, s)
     | None \<Rightarrow> (case GetKey (kv_crypto env) s vault name of
         Inl e \<Rightarrow> (InternalError e, s)
       | Inr None \<Rightarrow> (NotFound ''key not found'', s)
       | Inr (Some (key, version)) \<Rightarrow> (writeJSON 200 (key_json vault name version []), s)))"

definition normalizeKey :: "string \<Rightarrow> string" where
  "normalizeKey key = take 32 (key @ replicate 32 (CHR 0x00))"

definition cipher_json :: "string \<Rightarrow> string \<Rightarrow> string \<Rightarrow> json" where
  "cipher_json vault name val =
    JObj [(''kid'', JStr (''/keyvault/'' @ vault @ ''/keys/'' @ name)), (''value'', JStr val)]"

definition kv_encrypt ::
  "kv_env \<Rightarrow> kv_random \<Rightarrow> store \<Rightarrow> http_request \<Rightarrow> string \<Rightarrow> string \<Rightarrow> http_response \<times> store" where
  "kv_encrypt env rnd s r vault name =
    (case requireDataPlaneBearer env s r vault ''Microsoft.KeyVault/vaults/keys/encrypt/action'' of
       Some rs \<Rightarrow> (rs, s)
     | None \<Rightarrow> (case GetKey (kv_crypto env) s vault name of
         Inl e \<Rightarrow> (InternalError e, s)
       | Inr None \<Rightarrow> (NotFound ''key not found'', s)
       | Inr (Some (key, version)) \<Rightarrow> (case value_required [''value'', ''alg''] r of
           None \<Rightarrow> (BadRequest ''value is required'', s)
         | Some val \<Rightarrow>
             (let plain = (case b64_decode (ae_lib env) val of Some b \<Rightarrow> b | None \<Rightarrow> val);
                  ct = Seal (kv_crypto env) (normalizeKey key) (kr_nonce rnd) plain in
              (writeJSON 200 (cipher_json vault name (b64_encode (ae_lib env) ct)), s)))))"

definition kv_decrypt :: "kv_env \<Rightarrow> store \<Rightarrow> http_request \<Rightarrow> string \<Rightarrow> string \<Rightarrow> http_response \<times> store" where
  "kv_decrypt env s r vault name =
    (case requireDataPlaneBearer env s r vault ''Microsoft.KeyVault/vaults/keys/decrypt/action'' of
       Some rs \<Rightarrow> (rs, s)
     | None \<Rightarrow> (case GetKey (kv_crypto env) s vault name of
         Inl e \<Rightarrow> (InternalError e, s)
       | Inr None \<Rightarrow> (NotFound ''key not found'', s)
       | Inr (Some (key, version)) \<Rightarrow> (case value_required [''value'', ''alg''] r of
           None \<Rightarrow> (BadRequest ''value is required'', s)
         | Some val \<Rightarrow> (case b64_decode (ae_lib env) val of
             None \<Rightarrow> (BadRequest ''value must be base64'', s)
           | Some raw \<Rightarrow>
               if length raw < 12 then (BadRequest ''ciphertext too short'', s)
               else (case aead_open (kv_crypto env) (normalizeKey key) (take 12 raw) (drop 12 raw) of
                   None \<Rightarrow> (BadRequest ''decrypt failed'', s)
                 | Some plain \<Rightarrow> (writeJSON 200 (cipher_json vault name (b64_encode (ae_lib env) plain)), s))))))"

section \<open>Certificates\<close>

text \<open>
  The body of \<open>putCertificate\<close>: the value and the policy, with a policy that is an object decoded
  into the map, null clearing it and anything else, like the error, ignored.
\<close>

fun decode_policy :: "json_map \<Rightarrow> json_map option \<Rightarrow> json_map option" where
  "decode_policy [] policy = policy"
| "decode_policy ((k, v) # kvs) policy =
    decode_policy kvs
      (if equal_fold k ''policy'' then
         (case v of JObj o1 \<Rightarrow> Some (map_update (case policy of None \<Rightarrow> [] | Some m \<Rightarrow> m) o1)
          | JNull \<Rightarrow> None | _ \<Rightarrow> policy)
       else policy)"

definition certificate_body :: "http_request \<Rightarrow> string \<times> json_map option" where
  "certificate_body r =
    (fst (decode_strings [''value''] (rq_json r)) ''value'',
     case rq_json r of Some (JObj kvs) \<Rightarrow> decode_policy kvs None | _ \<Rightarrow> None)"

definition lab_certificate :: string where
  "lab_certificate = ''-----BEGIN CERTIFICATE-----'' @ [CHR 0x0A] @ ''LAB'' @ [CHR 0x0A] @ ''-----END CERTIFICATE-----''"

definition certificate_error :: "string \<Rightarrow> http_response" where
  "certificate_error e = writeJSON 500 (JObj [(''error'', JStr e)])"

definition store_certificate ::
  "kv_env \<Rightarrow> kv_random \<Rightarrow> store \<Rightarrow> string \<Rightarrow> string \<Rightarrow> string \<Rightarrow> json \<Rightarrow> http_response \<times> store" where
  "store_certificate env rnd s vault name pem policyJSON =
    (case PutKeyVaultCertificate (kv_crypto env) s (kr_cert_version rnd) (kr_cert_seal rnd) vault name [] pem
        policyJSON of
       (Inl e, s') \<Rightarrow> (certificate_error e, s')
     | (Inr _, s') \<Rightarrow>
         (writeJSON 200 (JObj [(''id'', JStr (''/keyvault/'' @ vault @ ''/certificates/'' @ name)),
            (''cer'', JStr pem)]), s'))"

definition kv_putCertificate ::
  "kv_env \<Rightarrow> kv_random \<Rightarrow> store \<Rightarrow> http_request \<Rightarrow> string \<Rightarrow> string \<Rightarrow> http_response \<times> store" where
  "kv_putCertificate env rnd s r vault name =
    (case requireDataPlaneBearer env s r vault ''Microsoft.KeyVault/vaults/certificates/write'' of
       Some rs \<Rightarrow> (rs, s)
     | None \<Rightarrow>
         (let (val, policy) = certificate_body r;
              policyJSON = JObj (case policy of None \<Rightarrow> [] | Some m \<Rightarrow> m) in
          if certificatePolicyExportable policy then
            (case kv_issue env val of
               Inl e \<Rightarrow> (InternalError e, s)
             | Inr (certPEM, keyPEM) \<Rightarrow>
                 (case PutSecret (kv_crypto env) s (kr_version rnd) (kr_seal rnd) vault name keyPEM of
                    (Inl e, s') \<Rightarrow> (InternalError e, s')
                  | (Inr _, s') \<Rightarrow> store_certificate env rnd s' vault name certPEM policyJSON))
          else store_certificate env rnd s vault name (if val = [] then lab_certificate else val) policyJSON))"

text \<open>\<open>http.NotFound\<close> of the standard library.\<close>

definition http_not_found :: http_response where
  "http_not_found = writeBytes 404 [(''Content-Type'', ''text/plain; charset=utf-8''),
    (''X-Content-Type-Options'', ''nosniff'')] (bytes_of_string (''404 page not found'' @ [CHR 0x0A]))"

definition kv_getCertificate ::
  "kv_env \<Rightarrow> store \<Rightarrow> http_request \<Rightarrow> string \<Rightarrow> string \<Rightarrow> http_response \<times> store" where
  "kv_getCertificate env s r vault name =
    (case requireDataPlaneBearer env s r vault ''Microsoft.KeyVault/vaults/certificates/read'' of
       Some rs \<Rightarrow> (rs, s)
     | None \<Rightarrow> (case GetKeyVaultCertificate (kv_crypto env) s vault name of
         Inl e \<Rightarrow> (certificate_error e, s)
       | Inr None \<Rightarrow> (http_not_found, s)
       | Inr (Some (version, pem, policyJSON)) \<Rightarrow>
           (writeJSON 200 (JObj [(''id'', JStr (''/keyvault/'' @ vault @ ''/certificates/'' @ name @ ''/'' @ version)),
              (''cer'', JStr pem), (''version'', JStr version)]), s)))"

definition kv_handle ::
  "kv_env \<Rightarrow> kv_random \<Rightarrow> store \<Rightarrow> http_request \<Rightarrow> kv_op \<Rightarrow> http_response \<times> store" where
  "kv_handle env rnd s r op =
    (case op of
       PutVault sub rg name \<Rightarrow> putVault env s r sub rg name
     | GetVault sub rg name \<Rightarrow> getVault env s r sub rg name
     | PutSecretOp v n \<Rightarrow> kv_putSecret env rnd s r v n
     | GetSecretOp v n \<Rightarrow> kv_getSecret env s r v n
     | DeleteSecretOp v n \<Rightarrow> kv_deleteSecret env rnd s r v n
     | RecoverSecretOp v n \<Rightarrow> kv_recoverSecret env s r v n
     | PutKeyOp v n \<Rightarrow> kv_putKey env rnd s r v n
     | GetKeyOp v n \<Rightarrow> kv_getKey env s r v n
     | EncryptOp v n \<Rightarrow> kv_encrypt env rnd s r v n
     | DecryptOp v n \<Rightarrow> kv_decrypt env s r v n
     | PutCertificateOp v n \<Rightarrow> kv_putCertificate env rnd s r v n
     | GetCertificateOp v n \<Rightarrow> kv_getCertificate env s r v n)"

section \<open>What a request needs\<close>

definition vault_authorized :: "kv_env \<Rightarrow> store \<Rightarrow> http_request \<Rightarrow> string \<Rightarrow> string \<Rightarrow> bool" where
  "vault_authorized env s r vault action \<longleftrightarrow>
    (\<exists>p scope. authorized (ae_lib env) (ae_auth env) (ae_authz env) AllowsVault r action scope p \<and>
      (pr_IsRoot p \<or> LookupKeyVaultScope s vault = Inr (Some scope)))"

lemma authenticated_bearer:
  "AuthenticateRequest lib a r = Inr p \<Longrightarrow> has_prefix (header_get r ''Authorization'') ''Bearer ''"
  by (auto simp: AuthenticateRequest_def Let_def split: if_splits)

lemma kv_gate_passes:
  "requireDataPlaneBearer env s r vault action = None \<longleftrightarrow> vault_authorized env s r vault action"
proof (cases "ae_auth env")
  case (Some a)
  show ?thesis
  proof (cases "AuthenticateRequest (ae_lib env) a r")
    case (Inr p)
    have bearer: "has_prefix (header_get r ''Authorization'') ''Bearer ''"
      using Inr by (rule authenticated_bearer)
    show ?thesis
    proof (cases "pr_IsRoot p")
      case True
      with Some Inr bearer show ?thesis
        by (auto simp: requireDataPlaneBearer_def vault_authorized_def authorized_def)
    next
      case False
      with Some Inr bearer show ?thesis
        by (auto simp: requireDataPlaneBearer_def vault_authorized_def authorized_def
            split: sum.split option.split if_splits)
    qed
  qed (simp add: requireDataPlaneBearer_def vault_authorized_def authorized_def Some)
qed (simp add: requireDataPlaneBearer_def vault_authorized_def authorized_def)

lemma rs_code_challenge: "rs_code (kv_challenge env) = 401"
  by (simp add: kv_challenge_def KeyVaultUnauthenticated_def)

lemma kv_gate_denies:
  "requireDataPlaneBearer env s r vault action = Some rs \<Longrightarrow> rs_code rs \<in> {401, 403, 404, 500}"
  by (auto simp: requireDataPlaneBearer_def rs_code_challenge split: option.splits sum.splits if_splits)

text \<open>The action each operation asks for, and where.\<close>

definition kv_permits :: "kv_env \<Rightarrow> store \<Rightarrow> http_request \<Rightarrow> kv_op \<Rightarrow> bool" where
  "kv_permits env s r op =
    (let arm = (\<lambda>sub rg action. arm_authorized (arm_env.truncate env) r action (group_scope sub rg));
         data = (\<lambda>vault action. vault_authorized env s r vault (''Microsoft.KeyVault/vaults/'' @ action)) in
     case op of
       PutVault sub rg name \<Rightarrow> arm sub rg ''Microsoft.KeyVault/vaults/write''
     | GetVault sub rg name \<Rightarrow> arm sub rg ''Microsoft.KeyVault/vaults/read''
     | PutSecretOp v n \<Rightarrow> data v ''secrets/setSecret/action''
     | GetSecretOp v n \<Rightarrow> data v ''secrets/getSecret/action''
     | DeleteSecretOp v n \<Rightarrow> data v ''secrets/delete''
     | RecoverSecretOp v n \<Rightarrow> data v ''secrets/recover/action''
     | PutKeyOp v n \<Rightarrow> data v ''keys/write''
     | GetKeyOp v n \<Rightarrow> data v ''keys/read''
     | EncryptOp v n \<Rightarrow> data v ''keys/encrypt/action''
     | DecryptOp v n \<Rightarrow> data v ''keys/decrypt/action''
     | PutCertificateOp v n \<Rightarrow> data v ''certificates/write''
     | GetCertificateOp v n \<Rightarrow> data v ''certificates/read'')"

definition kv_turned_away :: "store \<Rightarrow> http_response \<times> store \<Rightarrow> bool" where
  "kv_turned_away s out \<longleftrightarrow> rs_code (fst out) \<in> {401, 403, 404, 500} \<and> snd out = s"

lemma kv_arm_denied:
  assumes "\<not> arm_authorized (arm_env.truncate env) r action (group_scope sub rg)"
  shows "kv_turned_away s (case kv_require_arm env r sub rg action of Some rs \<Rightarrow> (rs, s) | None \<Rightarrow> out)"
  using assms arm_require_passes[of "arm_env.truncate env" r sub rg action]
    arm_require_denies[of "arm_env.truncate env" r sub rg action]
  by (cases "kv_require_arm env r sub rg action") (auto simp: kv_turned_away_def kv_require_arm_def)

lemma kv_data_denied:
  assumes "\<not> vault_authorized env s r vault action"
  shows "kv_turned_away s (case requireDataPlaneBearer env s r vault action of Some rs \<Rightarrow> (rs, s) | None \<Rightarrow> out)"
  using assms kv_gate_passes[of env s r vault action] kv_gate_denies[of env s r vault action]
  by (cases "requireDataPlaneBearer env s r vault action") (auto simp: kv_turned_away_def)

lemmas kv_handlers = putVault_def getVault_def kv_putSecret_def kv_getSecret_def kv_deleteSecret_def
  kv_recoverSecret_def kv_putKey_def kv_getKey_def kv_encrypt_def kv_decrypt_def kv_putCertificate_def
  kv_getCertificate_def

text \<open>
  The Key Vault service fails closed: any answer other than 401, 403, 404 and 500, and any
  change of the store, comes only from a request whose sender is authenticated for vaults and is
  root or holds the action of the operation at the vault the store knows by this name; for the
  management of vaults, the action at the resource group.
\<close>

theorem kv_fail_closed:
  assumes "rs_code (fst (kv_handle env rnd s r op)) \<notin> {401, 403, 404, 500} \<or> snd (kv_handle env rnd s r op) \<noteq> s"
  shows "kv_permits env s r op"
proof (rule ccontr)
  assume "\<not> ?thesis"
  then have "kv_turned_away s (kv_handle env rnd s r op)"
    by (cases op) (auto simp: kv_permits_def kv_handle_def kv_handlers intro!: kv_arm_denied kv_data_denied)
  with assms show False by (auto simp: kv_turned_away_def)
qed

section \<open>Encryption\<close>

text \<open>The bytes a value stands for: what it decodes to, or itself when it is no base64.\<close>

definition plain_of :: "kv_env \<Rightarrow> string \<Rightarrow> string" where
  "plain_of env val = (case b64_decode (ae_lib env) val of Some b \<Rightarrow> b | None \<Rightarrow> val)"

definition b64_inverse :: "stdlib \<Rightarrow> bool" where
  "b64_inverse lib \<longleftrightarrow> (\<forall>x. b64_decode lib (b64_encode lib x) = Some x)"

definition json_value :: "json \<Rightarrow> string" where
  "json_value j = (case json_field j ''value'' of Some (JStr v) \<Rightarrow> v | _ \<Rightarrow> [])"

lemma value_required_one:
  "rq_json r = Some (JObj [(''value'', JStr v)]) \<Longrightarrow> v \<noteq> [] \<Longrightarrow> value_required [''value'', ''alg''] r = Some v"
  by (simp add: value_required_def decode_strings_def equal_fold_def)

text \<open>
  C24: decrypting what encrypting answered gives back the value, as base64 of the bytes it stands
  for: those it decodes to, or its own when it is no base64.
\<close>

theorem encrypt_then_decrypt:
  assumes "aead_opens (kv_crypto env)" "b64_inverse (ae_lib env)" "length (kr_nonce rnd) = 12"
    and "GetKey (kv_crypto env) s vault name = Inr (Some (key, version))"
    and "requireDataPlaneBearer env s r vault ''Microsoft.KeyVault/vaults/keys/encrypt/action'' = None"
    and "requireDataPlaneBearer env s r' vault ''Microsoft.KeyVault/vaults/keys/decrypt/action'' = None"
    and "rq_json r = Some (JObj [(''value'', JStr val)])" "val \<noteq> []"
    and "rq_json r' = Some (JObj [(''value'', JStr (json_value (rs_body (fst (kv_encrypt env rnd s r vault name)))))])"
    and "json_value (rs_body (fst (kv_encrypt env rnd s r vault name))) \<noteq> []"
  shows "kv_decrypt env s r' vault name =
    (writeJSON 200 (cipher_json vault name (b64_encode (ae_lib env) (plain_of env val))), s)"
proof -
  define ct where "ct = Seal (kv_crypto env) (normalizeKey key) (kr_nonce rnd) (plain_of env val)"
  have enc: "fst (kv_encrypt env rnd s r vault name) =
      writeJSON 200 (cipher_json vault name (b64_encode (ae_lib env) ct))"
    using assms(4,5) value_required_one[OF assms(7,8)] by (simp add: kv_encrypt_def ct_def plain_of_def)
  then have val: "json_value (rs_body (fst (kv_encrypt env rnd s r vault name))) = b64_encode (ae_lib env) ct"
    by (simp add: writeJSON_def cipher_json_def json_value_def)
  have "value_required [''value'', ''alg''] r' = Some (b64_encode (ae_lib env) ct)"
    using value_required_one[OF assms(9,10)] val by simp
  moreover have "b64_decode (ae_lib env) (b64_encode (ae_lib env) ct) = Some ct"
    using assms(2) by (simp add: b64_inverse_def)
  moreover have "\<not> length ct < 12" "take 12 ct = kr_nonce rnd"
    "drop 12 ct = aead_seal (kv_crypto env) (normalizeKey key) (kr_nonce rnd) (plain_of env val)"
    using assms(3) by (simp_all add: ct_def Seal_def)
  moreover have "aead_open (kv_crypto env) (normalizeKey key) (kr_nonce rnd)
      (aead_seal (kv_crypto env) (normalizeKey key) (kr_nonce rnd) (plain_of env val)) = Some (plain_of env val)"
    using assms(1,3) by (simp add: aead_opens_def)
  ultimately show ?thesis using assms(4,6) by (simp add: kv_decrypt_def)
qed

section \<open>Certificates that are not exportable\<close>








lemma store_certificate_state:
  "snd (store_certificate env rnd s vault name pem pol) =
    snd (PutKeyVaultCertificate (kv_crypto env) s (kr_cert_version rnd) (kr_cert_seal rnd) vault name [] pem pol)"
  by (simp add: store_certificate_def split: prod.split sum.split)





section \<open>What was imported is shown\<close>

lemma latest_certificate_put:
  assumes "db_fault s = None" "latest_certificate (tb_certificates s) vault name = None"
  shows "latest_certificate (tb_certificates (snd (PutKeyVaultCertificate c s fresh n vault name ver pem pol))) vault name =
    Some \<lparr>crt_vault = vault, crt_name = name, crt_version = (if ver = [] then fresh else ver),
      crt_sealed = Seal c (cr_master c) n pem, crt_policy = pol\<rparr>"
proof -
  have none: "\<not> list_ex (\<lambda>r. crt_key r = (vault, name, v)) (tb_certificates s)" for v
    using assms(2) by (auto simp: latest_certificate_def find_None_iff list_ex_iff crt_key_def)
  have "crt_key \<lparr>crt_vault = vault, crt_name = name, crt_version = w, crt_sealed = x, crt_policy = p\<rparr> =
      (vault, name, w)" for w x p
    by (simp add: crt_key_def)
  with none assms(1) show ?thesis
    by (simp add: PutKeyVaultCertificate_def tbl_upsert_def latest_certificate_def)
qed

text \<open>
  A certificate that is put with a value and without an exportable policy is shown as it was
  sent: reading the certificate answers with the whole value, a private key in it included.
\<close>

theorem imported_key_is_shown:
  assumes "db_fault s = None" "latest_certificate (tb_certificates s) vault name = None"
    and "aead_opens (kv_crypto env)" "length (kr_cert_seal rnd) = 12"
    and "requireDataPlaneBearer env s r vault ''Microsoft.KeyVault/vaults/certificates/write'' = None"
    and "certificate_body r = (val, policy)" "val \<noteq> []" "\<not> certificatePolicyExportable policy"
    and "requireDataPlaneBearer env (snd (kv_putCertificate env rnd s r vault name)) r' vault
      ''Microsoft.KeyVault/vaults/certificates/read'' = None"
  shows "rs_code (fst (kv_getCertificate env (snd (kv_putCertificate env rnd s r vault name)) r' vault name)) = 200 \<and>
    json_field (rs_body (fst (kv_getCertificate env (snd (kv_putCertificate env rnd s r vault name)) r' vault name)))
      ''cer'' = Some (JStr val)"
proof -
  let ?pol = "JObj (case policy of None \<Rightarrow> [] | Some m \<Rightarrow> m)"
  define s' where "s' = snd (kv_putCertificate env rnd s r vault name)"
  have s': "s' = snd (PutKeyVaultCertificate (kv_crypto env) s (kr_cert_version rnd) (kr_cert_seal rnd) vault name
      [] val ?pol)"
    using assms(5-8) by (simp add: s'_def kv_putCertificate_def store_certificate_state)
  have fault: "db_fault s' = None"
    using assms(1) by (simp add: s' PutKeyVaultCertificate_def)
  have "GetKeyVaultCertificate (kv_crypto env) s' vault name = Inr (Some (kr_cert_version rnd, val, ?pol))"
    using latest_certificate_put[OF assms(1,2)] fault unseal_seal[OF assms(3,4)]
    by (simp add: GetKeyVaultCertificate_def s')
  then show ?thesis
    using assms(9) by (simp add: kv_getCertificate_def s'_def[symmetric]) (simp add: writeJSON_def)
qed

section \<open>Concrete requests\<close>

definition lab_kenv :: kv_env where
  "lab_kenv = \<lparr>ae_lib = lab_lib\<lparr>b64_decode := Some\<rparr>, ae_auth = Some lab_auth, ae_authz = None, kv_crypto = lab_crypto,
    kv_authorization_url = [], kv_resource = [], kv_clock = 0, kv_rfc3339 = (\<lambda>t. []),
    kv_issue = (\<lambda>raw. Inr (''cert'', ''key''))\<rparr>"

definition lab_krandom :: kv_random where
  "lab_krandom = \<lparr>kr_material = ''material'', kr_nonce = ''nonce-of-12b'', kr_version = ''v1'', kr_seal = ''nonce-of-12b'',
    kr_cert_version = ''v1'', kr_cert_seal = ''nonce-of-12b''\<rparr>"

definition key_store :: store where
  "key_store = empty_store\<lparr>
    tb_keyvaults := [\<lparr>ac_subscription_id = ''s'', ac_resource_group = ''g'', ac_name = ''v'', ac_location = ''eastus'',
      ac_sealed = []\<rparr>],
    tb_keys := [\<lparr>sec_vault = ''v'', sec_name = ''k'', sec_sealed = ''nonce-of-12bTkey'', sec_version = ''1''\<rparr>]\<rparr>"

definition value_request :: "string \<Rightarrow> http_request" where
  "value_request v = root_request\<lparr>rq_json := Some (JObj [(''value'', JStr v)])\<rparr>"

theorem kv_fail_closed_witness: "kv_permits lab_kenv key_store root_request (GetKeyOp ''v'' ''k'')"
proof (rule kv_fail_closed)
  show "rs_code (fst (kv_handle lab_kenv lab_krandom key_store root_request (GetKeyOp ''v'' ''k'')))
      \<notin> {401, 403, 404, 500} \<or>
    snd (kv_handle lab_kenv lab_krandom key_store root_request (GetKeyOp ''v'' ''k'')) \<noteq> key_store"
    by (rule disjI1) code_simp
qed

theorem encrypt_then_decrypt_witness:
  "kv_decrypt lab_kenv key_store (value_request ''nonce-of-12bThello'') ''v'' ''k'' =
    (writeJSON 200 (cipher_json ''v'' ''k'' (b64_encode (ae_lib lab_kenv) (plain_of lab_kenv ''hello''))), key_store)"
proof (rule encrypt_then_decrypt)
  show "aead_opens (kv_crypto lab_kenv)" by (simp add: lab_kenv_def lab_crypto_opens)
  show "b64_inverse (ae_lib lab_kenv)" by (simp add: b64_inverse_def lab_kenv_def lab_lib_def)
  show "length (kr_nonce lab_krandom) = 12" by (simp add: lab_krandom_def)
  have enc: "json_value (rs_body (fst (kv_encrypt lab_kenv lab_krandom key_store (value_request ''hello'') ''v'' ''k''))) =
      ''nonce-of-12bThello''"
    by code_simp
  show "rq_json (value_request ''nonce-of-12bThello'') = Some (JObj [(''value'', JStr (json_value (rs_body
      (fst (kv_encrypt lab_kenv lab_krandom key_store (value_request ''hello'') ''v'' ''k'')))))])"
    unfolding enc by (simp add: value_request_def)
  show "json_value (rs_body (fst (kv_encrypt lab_kenv lab_krandom key_store (value_request ''hello'') ''v'' ''k''))) \<noteq> []"
    unfolding enc by simp
  show "rq_json (value_request ''hello'') = Some (JObj [(''value'', JStr ''hello'')])"
    by (simp add: value_request_def)
  show "GetKey (kv_crypto lab_kenv) key_store ''v'' ''k'' = Inr (Some (''key'', ''1''))" by code_simp
  show "requireDataPlaneBearer lab_kenv key_store (value_request ''hello'') ''v''
      ''Microsoft.KeyVault/vaults/keys/encrypt/action'' = None"
    "requireDataPlaneBearer lab_kenv key_store (value_request ''nonce-of-12bThello'') ''v''
      ''Microsoft.KeyVault/vaults/keys/decrypt/action'' = None"
    by code_simp+
qed simp

definition private_request :: http_request where
  "private_request = root_request\<lparr>rq_json := Some (JObj [(''value'', JStr ''PRIVATE KEY''),
    (''policy'', JObj [(''key_props'', JObj [(''exportable'', JBool False)])])])\<rparr>"


theorem imported_key_is_shown_witness:
  "rs_code (fst (kv_getCertificate lab_kenv (snd (kv_putCertificate lab_kenv lab_krandom key_store private_request
      ''v'' ''c'')) root_request ''v'' ''c'')) = 200 \<and>
   json_field (rs_body (fst (kv_getCertificate lab_kenv (snd (kv_putCertificate lab_kenv lab_krandom key_store
      private_request ''v'' ''c'')) root_request ''v'' ''c''))) ''cer'' = Some (JStr ''PRIVATE KEY'')"
proof (rule imported_key_is_shown)
  show "db_fault key_store = None" by (simp add: key_store_def empty_store_def)
  show "aead_opens (kv_crypto lab_kenv)" by (simp add: lab_kenv_def lab_crypto_opens)
  show "length (kr_cert_seal lab_krandom) = 12" by (simp add: lab_krandom_def)
  show "latest_certificate (tb_certificates key_store) ''v'' ''c'' = None"
    by (simp add: key_store_def empty_store_def latest_certificate_def)
  show "certificate_body private_request =
      (''PRIVATE KEY'', Some [(''key_props'', JObj [(''exportable'', JBool False)])])"
    by code_simp
  show "\<not> certificatePolicyExportable (Some [(''key_props'', JObj [(''exportable'', JBool False)])])"
    by code_simp
  show "requireDataPlaneBearer lab_kenv key_store private_request ''v''
      ''Microsoft.KeyVault/vaults/certificates/write'' = None"
    by code_simp
  show "requireDataPlaneBearer lab_kenv
      (snd (kv_putCertificate lab_kenv lab_krandom key_store private_request ''v'' ''c'')) root_request ''v''
      ''Microsoft.KeyVault/vaults/certificates/read'' = None"
    by code_simp
qed simp

end
