(* ===== verification/Go_Net.thy ===== *)
theory Go_Net
  imports Go_Prelude
begin

text \<open>
  What the sources use of Go's package \<open>net\<close>: splitting a host from its port, parsing an IP address
  and the classes of addresses. An address is its sixteen bytes, an IPv4 address mapped into them
  as \<open>net.IP\<close> does.
\<close>

section \<open>Hosts and ports\<close>

definition last_index_byte :: "string \<Rightarrow> char \<Rightarrow> nat option" where
  \<comment> \<open>\<open>strings.LastIndexByte\<close>\<close>
  "last_index_byte s c = map_option (\<lambda>i. length s - 1 - i) (index_byte (rev s) c)"

text \<open>\<open>net.SplitHostPort\<close>: \<open>None\<close> is an error.\<close>

definition split_host_port :: "string \<Rightarrow> (string \<times> string) option" where
  "split_host_port hostport =
    (case last_index_byte hostport CHR '':'' of
       None \<Rightarrow> None
     | Some i \<Rightarrow>
         (if has_prefix hostport ''['' then
            (case index_byte hostport CHR '']'' of
               None \<Rightarrow> None
             | Some e \<Rightarrow>
                 if e + 1 \<noteq> i then None
                 else if CHR ''['' \<in> set (drop 1 hostport) \<or> CHR '']'' \<in> set (drop (e + 1) hostport) then None
                 else Some (drop 1 (take e hostport), drop (i + 1) hostport))
          else if CHR '':'' \<in> set (take i hostport) then None
          else if CHR ''['' \<in> set hostport \<or> CHR '']'' \<in> set hostport then None
          else Some (take i hostport, drop (i + 1) hostport)))"

section \<open>Addresses\<close>

type_synonym ip = "nat list"

definition dec_digit :: "char \<Rightarrow> bool" where
  "dec_digit c = (let n = of_char c :: nat in 48 \<le> n \<and> n \<le> 57)"

fun dec_value :: "nat \<Rightarrow> string \<Rightarrow> nat" where
  "dec_value acc [] = acc"
| "dec_value acc (c # cs) = dec_value (10 * acc + (of_char c - 48)) cs"

text \<open>Four fields of digits, none above 255 and none with a leading zero.\<close>

definition octet :: "string \<Rightarrow> nat option" where
  "octet s =
    (if s = [] \<or> \<not> list_all dec_digit s \<or> (length s > 1 \<and> hd s = CHR ''0'') \<or> dec_value 0 s > 255 then None
     else Some (dec_value 0 s))"

definition parse_ipv4 :: "string \<Rightarrow> nat list option" where
  "parse_ipv4 s =
    (case map octet (split_on CHR ''.'' s) of
       [Some a, Some b, Some c, Some d] \<Rightarrow> Some [a, b, c, d]
     | _ \<Rightarrow> None)"

definition v4_mapped :: "nat list \<Rightarrow> ip" where
  "v4_mapped q = replicate 10 0 @ [255, 255] @ q"

definition hex_value :: "char \<Rightarrow> nat option" where
  "hex_value c =
    (let n = of_char c :: nat in
     if 48 \<le> n \<and> n \<le> 57 then Some (n - 48)
     else if 97 \<le> n \<and> n \<le> 102 then Some (n - 87)
     else if 65 \<le> n \<and> n \<le> 70 then Some (n - 55)
     else None)"

text \<open>The leading hexadecimal digits, their value and the rest.\<close>

fun hex_run :: "nat \<Rightarrow> nat \<Rightarrow> string \<Rightarrow> nat \<times> nat \<times> string" where
  "hex_run n acc [] = (n, acc, [])"
| "hex_run n acc (c # cs) =
    (case hex_value c of None \<Rightarrow> (n, acc, c # cs) | Some v \<Rightarrow> hex_run (Suc n) (16 * acc + v) cs)"

text \<open>
  The groups of an IPv6 address: at most \<open>fuel\<close> of them are still to come (eight at the start),
  \<open>bytes\<close> are those read, \<open>ellipsis\<close> is where a double colon stood. The answer holds what was not
  read, too.
\<close>

fun ipv6_groups ::
  "nat \<Rightarrow> nat list \<Rightarrow> nat option \<Rightarrow> string \<Rightarrow> (nat list \<times> nat option \<times> string) option" where
  "ipv6_groups 0 bytes ellipsis s = Some (bytes, ellipsis, s)"
| "ipv6_groups (Suc fuel) bytes ellipsis s =
    (let (n, v, rest) = hex_run 0 0 s in
     if n = 0 \<or> n > 4 then None
     else (case rest of
       [] \<Rightarrow> Some (bytes @ [v div 256, v mod 256], ellipsis, [])
     | c # cs \<Rightarrow>
         if c = CHR ''.'' then
           (if ellipsis = None \<and> length bytes \<noteq> 12 \<or> length bytes + 4 > 16 then None
            else map_option (\<lambda>q. (bytes @ q, ellipsis, [])) (parse_ipv4 s))
         else if c \<noteq> CHR '':'' \<or> cs = [] then None
         else if hd cs = CHR '':'' then
           (if ellipsis \<noteq> None then None
            else let bytes' = bytes @ [v div 256, v mod 256] in
              if tl cs = [] then Some (bytes', Some (length bytes'), [])
              else ipv6_groups fuel bytes' (Some (length bytes')) (tl cs))
         else ipv6_groups fuel (bytes @ [v div 256, v mod 256]) ellipsis cs))"

definition parse_ipv6 :: "string \<Rightarrow> ip option" where
  "parse_ipv6 s =
    (if s = ''::'' then Some (replicate 16 0)
     else (case (if has_prefix s ''::'' then ipv6_groups 8 [] (Some 0) (drop 2 s)
                 else ipv6_groups 8 [] None s) of
         None \<Rightarrow> None
       | Some (bytes, ellipsis, rest) \<Rightarrow>
           if rest \<noteq> [] then None
           else if length bytes < 16 then
             (case ellipsis of
                None \<Rightarrow> None
              | Some e \<Rightarrow> Some (take e bytes @ replicate (16 - length bytes) 0 @ drop e bytes))
           else if ellipsis \<noteq> None then None else Some bytes))"

text \<open>\<open>net.ParseIP\<close>: the first dot or colon tells the kind of the address; zones are refused.\<close>

definition parse_ip :: "string \<Rightarrow> ip option" where
  "parse_ip s =
    (case find (\<lambda>c. c \<in> {CHR ''.'', CHR '':'', CHR ''%''}) s of
       None \<Rightarrow> None
     | Some c \<Rightarrow>
         if c = CHR ''.'' then map_option v4_mapped (parse_ipv4 s)
         else if c = CHR ''%'' \<or> CHR ''%'' \<in> set s then None
         else parse_ipv6 s)"

definition to4 :: "ip \<Rightarrow> nat list option" where
  "to4 ip = (if take 12 ip = replicate 10 0 @ [255, 255] then Some (drop 12 ip) else None)"

definition ip_loopback :: "ip \<Rightarrow> bool" where
  "ip_loopback ip = (case to4 ip of Some q \<Rightarrow> hd q = 127 | None \<Rightarrow> ip = replicate 15 0 @ [1])"

definition ip_private :: "ip \<Rightarrow> bool" where
  "ip_private ip =
    (case to4 ip of
       Some q \<Rightarrow> hd q = 10 \<or> hd q = 172 \<and> q ! 1 div 16 = 1 \<or> hd q = 192 \<and> q ! 1 = 168
     | None \<Rightarrow> hd ip div 2 = 126)"

definition ip_link_local_unicast :: "ip \<Rightarrow> bool" where
  "ip_link_local_unicast ip =
    (case to4 ip of
       Some q \<Rightarrow> hd q = 169 \<and> q ! 1 = 254
     | None \<Rightarrow> hd ip = 254 \<and> ip ! 1 div 64 = 2)"

definition ip_link_local_multicast :: "ip \<Rightarrow> bool" where
  "ip_link_local_multicast ip =
    (case to4 ip of
       Some q \<Rightarrow> hd q = 224 \<and> q ! 1 = 0 \<and> q ! 2 = 0
     | None \<Rightarrow> hd ip = 255 \<and> ip ! 1 mod 16 = 2)"

definition ip_unspecified :: "ip \<Rightarrow> bool" where
  "ip_unspecified ip = (ip = v4_mapped [0, 0, 0, 0] \<or> ip = replicate 16 0)"

lemma octet_le: "octet s = Some n \<Longrightarrow> n \<le> 255"
  by (auto simp: octet_def split: if_splits)

lemma parse_ipv4_Some: "parse_ipv4 s = Some q \<Longrightarrow> length q = 4 \<and> list_all (\<lambda>n. n \<le> 255) q"
  by (auto simp: parse_ipv4_def octet_le split: list.splits option.splits)

text \<open>A parsed address has sixteen bytes.\<close>

lemma ipv6_groups_length:
  "ipv6_groups fuel bytes e s = Some (bytes', e', rest) \<Longrightarrow> length bytes + 2 * fuel \<le> 16 \<Longrightarrow>
    length bytes' \<le> 16"
proof (induction fuel arbitrary: bytes e s)
  case (Suc fuel)
  obtain n v r where run: "hex_run 0 0 s = (n, v, r)" by (metis prod_cases3)
  note step = Suc.prems(1)[unfolded ipv6_groups.simps run Let_def prod.case]
  show ?case
  proof (cases r)
    case Nil
    with step Suc.prems(2) show ?thesis by (auto split: if_splits)
  next
    case (Cons c cs)
    have more: "length bytes' \<le> 16"
      if "ipv6_groups fuel (bytes @ [v div 256, v mod 256]) e2 t = Some (bytes', e', rest)" for e2 t
      using Suc.IH[OF that] Suc.prems(2) by simp
    show ?thesis
    proof (cases "c = CHR ''.''")
      case True
      with step Cons show ?thesis by (auto split: if_splits dest!: parse_ipv4_Some)
    next
      case False
      note s2 = step[unfolded Cons list.case if_not_P[OF False]]
      show ?thesis
      proof (cases "n = 0 \<or> n > 4 \<or> c \<noteq> CHR '':'' \<or> cs = []")
        case False
        show ?thesis
        proof (cases "hd cs = CHR '':''")
          case True
          with s2 False show ?thesis
            using Suc.prems(2) by (simp split: if_splits) (auto dest: more)
        next
          case no: False
          with s2 False show ?thesis by (simp split: if_splits) (rule more)
        qed
      qed (use s2 in \<open>auto split: if_splits\<close>)
    qed
  qed
qed simp

lemma parse_ip_length: "parse_ip s = Some ip \<Longrightarrow> length ip = 16"
proof -
  assume "parse_ip s = Some ip"
  then consider q where "parse_ipv4 s = Some q" "ip = v4_mapped q" | "parse_ipv6 s = Some ip"
    by (auto simp: parse_ip_def split: option.splits if_splits)
  then show ?thesis
  proof cases
    case 1
    then show ?thesis using parse_ipv4_Some by (simp add: v4_mapped_def)
  next
    case 2
    have len: "length b \<le> 16" if "ipv6_groups 8 [] e t = Some (b, e', r)" for e t b e' r
      using ipv6_groups_length[OF that] by simp
    from 2 show ?thesis
      by (auto simp: parse_ipv6_def min_def split: if_splits option.splits dest!: len)
  qed
qed

end
