(* ===== verification/Front_Door.thy ===== *)
theory Front_Door
  imports Arm_Lab Go_Net
begin

text \<open>
  What happens to a request before a handler sees it: the path of a virtual host is rewritten
  (\<open>internal/kernel/hostroute/hostroute.go\<close>), the spelling of a Resource Manager path is made
  canonical (\<open>internal/server/arm_path.go\<close>), and the middleware of \<open>internal/server/server.go\<close>
  authenticates all but the public and the self-authenticating paths. Request ids and the
  names a certificate is issued for leave the answers alone and are not modelled.
\<close>

section \<open>Hosts\<close>

definition hostname :: "string \<Rightarrow> string" where
  "hostname host =
    (let host = trim_space host in
     if host = [] then []
     else (case split_host_port host of Some (h, port) \<Rightarrow> to_lower h | None \<Rightarrow> to_lower host))"

definition isLoopbackHost :: "string \<Rightarrow> bool" where
  "isLoopbackHost h = (h \<in> {''localhost'', ''127.0.0.1'', ''::1'', ''0.0.0.0'', ''[::]''})"

section \<open>Paths\<close>

text \<open>
  \<open>path.Clean\<close> of a path that starts with a slash: empty and dot segments go, a dot-dot segment
  removes the one before it.
\<close>

fun clean_segments :: "string list \<Rightarrow> string list \<Rightarrow> string list" where
  "clean_segments acc [] = rev acc"
| "clean_segments acc (p # ps) =
    (if p = [] \<or> p = ''.'' then clean_segments acc ps
     else if p = ''..'' then clean_segments (tl acc) ps
     else clean_segments (p # acc) ps)"

definition path_clean :: "string \<Rightarrow> string" where
  "path_clean p = CHR ''/'' # join ''/'' (clean_segments [] (split_on CHR ''/'' p))"

definition normalizePath :: "string \<Rightarrow> string" where
  "normalizePath p = (if p = [] then ''/'' else if \<not> has_prefix p ''/'' then CHR ''/'' # p else p)"

text \<open>\<open>None\<close> when the cleaned path is refused.\<close>

definition cleanPath :: "string \<Rightarrow> string option" where
  "cleanPath raw = (let c = path_clean (normalizePath raw) in if contains c ''..'' then None else Some c)"

definition validLabel :: "string \<Rightarrow> bool" where
  "validLabel s =
    (let s = trim_space s in \<not> (s = [] \<or> contains s ''/'' \<or> contains s ''..''))"

definition stripLabPrefix :: "string \<Rightarrow> string \<Rightarrow> string" where
  "stripLabPrefix p prefix =
    (if \<not> has_prefix p prefix then p
     else let rest = trim_prefix p prefix in
       if rest = [] then ''/''
       else (case index_byte rest CHR ''/'' of Some i \<Rightarrow> drop i rest | None \<Rightarrow> ''/''))"

definition joinPrefix :: "string \<Rightarrow> string \<Rightarrow> string" where
  "joinPrefix prefix p =
    (if p = [] \<or> p = ''/'' then prefix
     else if \<not> has_prefix p ''/'' then prefix @ ''/'' @ p
     else prefix @ p)"

text \<open>The virtual hosts and the lab prefixes their labels go to.\<close>

definition virtual_hosts :: "(string \<times> string) list" where
  "virtual_hosts =
    [(''.vault.azure.net'', ''/keyvault/''), (''.blob.core.windows.net'', ''/blob/''),
     (''.queue.core.windows.net'', ''/queue/''), (''.table.core.windows.net'', ''/table/''),
     (''.azconfig.io'', ''/appconfig/'')]"

definition RewritePath :: "string \<Rightarrow> string \<Rightarrow> string" where
  "RewritePath host rawPath =
    (let h = hostname host in
     if h = [] \<or> isLoopbackHost h then rawPath
     else (case cleanPath rawPath of
         None \<Rightarrow> rawPath
       | Some p \<Rightarrow> (case find (\<lambda>(suffix, prefix). has_suffix h suffix) virtual_hosts of
             None \<Rightarrow> rawPath
           | Some (suffix, prefix) \<Rightarrow>
               (let label = trim_suffix h suffix in
                if \<not> validLabel label then rawPath
                else joinPrefix (prefix @ label) (stripLabPrefix p prefix)))))"

definition canonicalizeARMPath :: "string \<Rightarrow> string" where
  "canonicalizeARMPath path =
    (if path = [] \<or> \<not> contains (to_lower path) ''resourcegroups'' then path
     else let parts = split_on CHR ''/'' path;
              parts' = map (\<lambda>p. if equal_fold p ''resourcegroups'' \<and> p \<noteq> ''resourceGroups''
                then ''resourceGroups'' else p) parts in
       if parts' = parts then path else join ''/'' parts')"

section \<open>The middleware\<close>

text \<open>
  What the middleware makes of a request: it goes on with the path rewritten, with the principal
  it authenticated or with none, or it is answered.
\<close>

datatype admission =
    Admitted http_request "Principal option"
  | Refused http_response

definition self_authenticating :: "http_request \<Rightarrow> bool" where
  "self_authenticating r =
    (let path = rq_path r in
     (has_prefix path ''/blob/'' \<or> has_prefix path ''/queue/'' \<or> has_prefix path ''/table/'') \<and>
       (has_prefix (header_get r ''Authorization'') ''SharedKey'' \<or> HasSAS r) \<or>
     has_prefix path ''/cosmos/'' \<and> trim_space (header_get r ''X-Ms-Cosmos-Account-Key'') \<noteq> [])"

definition rewrite_request :: "string \<Rightarrow> http_request \<Rightarrow> http_request" where
  "rewrite_request host r = r\<lparr>rq_path := canonicalizeARMPath (RewritePath host (rq_path r))\<rparr>"

definition withMiddleware :: "stdlib \<Rightarrow> Authenticator \<Rightarrow> string \<Rightarrow> http_request \<Rightarrow> admission" where
  "withMiddleware lib a host r0 =
    (let r = rewrite_request host r0 in
     if IsPublicPath (rq_path r) \<or> IsRegistryDataPath (rq_path r) then Admitted r None
     else if self_authenticating r then Admitted r None
     else (case AuthenticateRequest lib a r of
         Inr p \<Rightarrow> Admitted r (Some p)
       | Inl e \<Rightarrow> if e = ErrUnauthenticated then Refused (Unauthenticated [])
           else Refused (WriteARM 500 ''InternalServerError'' e)))"

section \<open>The host wins\<close>

lemma has_suffix_comparable:
  assumes "has_suffix h s" "has_suffix h t"
  shows "has_suffix s t \<or> has_suffix t s"
proof -
  obtain a where a: "h = a @ s" using assms(1) unfolding has_suffix_iff by blast
  obtain b where b: "h = b @ t" using assms(2) unfolding has_suffix_iff by blast
  have "a @ s = b @ t" using a b by simp
  then show ?thesis by (auto simp: append_eq_append_conv2 has_suffix_iff)
qed

lemma virtual_hosts_incomparable:
  "list_all (\<lambda>(s, p). list_all (\<lambda>(t, q). s = t \<or> \<not> has_suffix s t \<and> \<not> has_suffix t s) virtual_hosts) virtual_hosts"
  by code_simp

lemma virtual_hosts_distinct: "distinct (map fst virtual_hosts)"
  by (simp add: virtual_hosts_def)

lemma find_virtual_host:
  assumes "(suffix, prefix) \<in> set virtual_hosts" "has_suffix h suffix"
  shows "find (\<lambda>(suffix, prefix). has_suffix h suffix) virtual_hosts = Some (suffix, prefix)"
proof -
  obtain x where x: "find (\<lambda>(suffix, prefix). has_suffix h suffix) virtual_hosts = Some x"
    using find_exists[OF assms(1), of "\<lambda>(suffix, prefix). has_suffix h suffix"] assms(2) by auto
  obtain t q where tq: "x = (t, q)" by (cases x)
  have in_hosts: "(t, q) \<in> set virtual_hosts" "has_suffix h t"
    using find_SomeD[OF x] by (auto simp: tq)
  then have "t = suffix"
    using virtual_hosts_incomparable has_suffix_comparable[OF assms(2), of t] assms(1)
    by (fastforce simp: list_all_iff)
  with in_hosts(1) assms(1) have "q = prefix"
    using virtual_hosts_distinct by (metis eq_key_imp_eq_value)
  with x tq \<open>t = suffix\<close> show ?thesis by simp
qed

lemma virtual_host_not_loopback:
  assumes "(suffix, prefix) \<in> set virtual_hosts" "has_suffix h suffix"
  shows "\<not> (h = [] \<or> isLoopbackHost h)"
proof -
  have "list_all (\<lambda>h. list_all (\<lambda>(s, p). \<not> has_suffix h s) virtual_hosts)
      [[], ''localhost'', ''127.0.0.1'', ''::1'', ''0.0.0.0'', ''[::]'']"
    by code_simp
  with assms show ?thesis by (auto simp: list_all_iff isLoopbackHost_def)
qed

lemma joinPrefix_rooted:
  assumes "p = [] \<or> has_prefix p ''/''"
  shows "\<exists>rest. joinPrefix prefix p = prefix @ rest \<and> (rest = [] \<or> has_prefix rest ''/'')"
  using assms by (auto simp: joinPrefix_def)

lemma drop_index_rooted: "index_byte s c = Some i \<Longrightarrow> \<exists>r. drop i s = c # r"
  using index_byte_Some[of s c i] by (auto simp: Cons_nth_drop_Suc[symmetric])

lemma stripLabPrefix_rooted:
  assumes "has_prefix p ''/''"
  shows "has_prefix (stripLabPrefix p prefix) ''/''"
  using assms by (auto simp: stripLabPrefix_def Let_def split: option.split dest!: drop_index_rooted)

lemma cleanPath_rooted: "cleanPath raw = Some p \<Longrightarrow> has_prefix p ''/''"
  by (auto simp: cleanPath_def path_clean_def Let_def split: if_splits)

text \<open>
  C26: under a virtual host with a valid label, every path that can be cleaned is rewritten below the
  lab prefix and this label: no path prefix reaches another account, vault or store.
\<close>

theorem host_label_wins:
  assumes "hostname host = label @ suffix" "(suffix, prefix) \<in> set virtual_hosts"
    and "validLabel label" "cleanPath rawPath = Some p"
  shows "\<exists>rest. RewritePath host rawPath = prefix @ label @ rest \<and> (rest = [] \<or> has_prefix rest ''/'')"
proof -
  have suffix: "has_suffix (label @ suffix) suffix" by simp
  have "RewritePath host rawPath = joinPrefix (prefix @ label) (stripLabPrefix p prefix)"
    using virtual_host_not_loopback[OF assms(2) suffix] find_virtual_host[OF assms(2) suffix] assms(3,4)
    unfolding RewritePath_def assms(1) Let_def by auto
  moreover have "has_prefix (stripLabPrefix p prefix) ''/''"
    using cleanPath_rooted[OF assms(4)] by (rule stripLabPrefix_rooted)
  ultimately show ?thesis using joinPrefix_rooted[of "stripLabPrefix p prefix" "prefix @ label"] by auto
qed

theorem host_label_wins_witness:
  "\<exists>rest. RewritePath ''Mine.vault.azure.net:443'' ''/keyvault/other/secrets/x'' = ''/keyvault/'' @ ''mine'' @ rest \<and>
    (rest = [] \<or> has_prefix rest ''/'')"
proof (rule host_label_wins)
  show "hostname ''Mine.vault.azure.net:443'' = ''mine'' @ ''.vault.azure.net''" by code_simp
  show "(''.vault.azure.net'', ''/keyvault/'') \<in> set virtual_hosts" by (simp add: virtual_hosts_def)
  show "validLabel ''mine''" by code_simp
  show "cleanPath ''/keyvault/other/secrets/x'' = Some ''/keyvault/other/secrets/x''" by code_simp
qed

text \<open>
  Unless the path has two dots in a row within a segment: then it is left as it is, the lab prefix
  of another vault included.
\<close>

theorem double_dots_keep_the_path:
  assumes "contains name ''..''" "CHR ''/'' \<notin> set name" "name \<noteq> ''..''"
    and "CHR ''/'' \<notin> set vault" "vault \<notin> {[], ''.'', ''..''}"
  shows "RewritePath host (''/keyvault/'' @ vault @ ''/secrets/'' @ name) = ''/keyvault/'' @ vault @ ''/secrets/'' @ name"
proof -
  let ?path = "''/keyvault/'' @ vault @ ''/secrets/'' @ name"
  have path: "?path = join ''/'' [[], ''keyvault'', vault, ''secrets'', name]"
    by simp
  have name: "name \<noteq> []" "name \<noteq> ''.''"
    using assms(1) by (auto simp: contains_iff)
  have "split_on CHR ''/'' ?path = [[], ''keyvault'', vault, ''secrets'', name]"
    unfolding path using assms(2,4) by (intro split_on_join) auto
  then have "path_clean ?path = ?path"
    using assms(3,5) name by (simp add: path_clean_def)
  moreover have "contains ?path ''..''"
    using assms(1) unfolding contains_iff by (metis append.assoc)
  moreover have "normalizePath ?path = ?path"
    by (simp add: normalizePath_def)
  ultimately have "cleanPath ?path = None"
    unfolding cleanPath_def Let_def by presburger
  then show ?thesis
    unfolding RewritePath_def Let_def by simp
qed

theorem double_dots_keep_the_path_witness:
  "RewritePath ''mine.vault.azure.net'' (''/keyvault/'' @ ''other'' @ ''/secrets/'' @ ''a..b'') =
    ''/keyvault/'' @ ''other'' @ ''/secrets/'' @ ''a..b''"
  by (rule double_dots_keep_the_path) (simp_all add: contains_iff, rule exI[of _ "''a''"], simp)

section \<open>Resource Manager paths\<close>







section \<open>Who reaches the handlers\<close>

lemma middleware_admits:
  assumes "withMiddleware lib a host r = Admitted r' who"
  shows "r' = rewrite_request host r"
    and "case who of
      Some p \<Rightarrow> AuthenticateRequest lib a r' = Inr p
    | None \<Rightarrow> IsPublicPath (rq_path r') \<or> IsRegistryDataPath (rq_path r') \<or> self_authenticating r'"
  using assms by (auto simp: withMiddleware_def Let_def split: if_splits sum.splits)

lemma middleware_refuses:
  "withMiddleware lib a host r = Refused rs \<Longrightarrow> rs_code rs \<in> {401, 500}"
  by (auto simp: withMiddleware_def Let_def split: if_splits sum.splits)

lemma split_on_lower: "split_on CHR ''/'' (to_lower s) = map to_lower (split_on CHR ''/'' s)"
  by (induction s) (auto simp: to_lower_def split: list.splits)

definition group_path :: "string \<Rightarrow> bool" where
  "group_path path \<longleftrightarrow>
    (case split_on CHR ''/'' path of
       e # a # sub # b # rest \<Rightarrow> e = [] \<and> a = ''subscriptions'' \<and> b = ''resourceGroups'' | _ \<Rightarrow> False)"

lemma group_path_prefix:
  assumes "group_path path"
  shows "\<exists>rest. path = ''/subscriptions/'' @ rest"
proof -
  obtain sub rest where "split_on CHR ''/'' path = [] # ''subscriptions'' # sub # ''resourceGroups'' # rest"
    using assms by (auto simp: group_path_def split: list.splits)
  then have "path = join ''/'' ([] # ''subscriptions'' # sub # ''resourceGroups'' # rest)"
    by (metis join_split_on)
  then show ?thesis by simp
qed

lemma group_path_not_public:
  assumes "group_path path"
  shows "\<not> IsPublicPath path" "\<not> IsRegistryDataPath path"
proof -
  obtain rest where path: "path = ''/subscriptions/'' @ rest"
    using group_path_prefix[OF assms] ..
  have low: "to_lower path = ''/subscriptions/'' @ to_lower rest"
  proof -
    have "to_lower ''/subscriptions/'' = ''/subscriptions/''" by code_simp
    then show ?thesis by (simp only: path to_lower_append)
  qed
  show "\<not> IsRegistryDataPath path"
    by (simp add: IsRegistryDataPath_def path)
  obtain sub more where segs: "split_on CHR ''/'' path = [] # ''subscriptions'' # sub # ''resourceGroups'' # more"
    using assms by (auto simp: group_path_def split: list.splits)
  have "path_segments path = [] # ''subscriptions'' # to_lower sub # ''resourcegroups'' # map to_lower more"
  proof -
    have "to_lower ''subscriptions'' = ''subscriptions''" "to_lower ''resourceGroups'' = ''resourcegroups''"
      by code_simp+
    then show ?thesis by (simp only: path_segments_def split_on_lower segs list.map to_lower_Nil)
  qed
  then have "\<not> oauthTokenPath path" "\<not> oauthDeviceCodePath path" "\<not> oidcDiscoveryPath path"
    "\<not> jwksPath path" "\<not> instanceDiscoveryPath path"
    by (auto simp: oauthTokenPath_def oauthDeviceCodePath_def oidcDiscoveryPath_def jwksPath_def
        instanceDiscoveryPath_def split: list.splits)
  moreover have "path \<notin> set fixed_public_paths"
    by (simp add: fixed_public_paths_def path)
  ultimately show "\<not> IsPublicPath path"
    by (simp add: IsPublicPath_def low)
qed

text \<open>
  A request that reaches a handler under a resource group carries the principal that its
  bearer token authenticates, whatever its host, spelling and other headers.
\<close>

theorem group_requests_authenticated:
  assumes "withMiddleware lib a host r = Admitted r' who" "group_path (rq_path r')"
  shows "\<exists>p. who = Some p \<and> AuthenticateRequest lib a r' = Inr p"
proof -
  obtain rest where path: "rq_path r' = ''/subscriptions/'' @ rest"
    using group_path_prefix[OF assms(2)] ..
  have "\<not> self_authenticating r'"
    by (simp add: self_authenticating_def path)
  then show ?thesis
    using middleware_admits(2)[OF assms(1)] group_path_not_public[OF assms(2)] by (cases who) auto
qed

theorem group_requests_authenticated_witness:
  "\<exists>p. Some \<lparr>pr_ID = ''root'', pr_IsRoot = True, pr_Audiences = [], pr_Issuer = []\<rparr> = Some p \<and>
    AuthenticateRequest lab_lib lab_auth (root_request\<lparr>rq_path := ''/subscriptions/s/resourceGroups/g''\<rparr>) = Inr p"
proof (rule group_requests_authenticated)
  show "withMiddleware lab_lib lab_auth ''localhost:4599''
      (root_request\<lparr>rq_path := ''/subscriptions/s/resourcegroups/g''\<rparr>) =
    Admitted (root_request\<lparr>rq_path := ''/subscriptions/s/resourceGroups/g''\<rparr>)
      (Some \<lparr>pr_ID = ''root'', pr_IsRoot = True, pr_Audiences = [], pr_Issuer = []\<rparr>)"
    by code_simp
  show "group_path (rq_path (root_request\<lparr>rq_path := ''/subscriptions/s/resourceGroups/g''\<rparr>))"
    by code_simp
qed

end
