(* ===== verification/Role_Assignments.thy ===== *)
theory Role_Assignments
  imports Arm_Lab
begin

text \<open>
  Role assignments and role definitions: \<open>internal/services/authorization/handler.go\<close> and
  \<open>role_definitions.go\<close>. The caller is the principal that the middleware put into the context of
  the request, if any; the evaluator reads the store the handlers write.
\<close>

section \<open>Routes\<close>

datatype ra_op =
    PutAssignment string string
  | GetAssignment string string
  | DeleteAssignment string string
  | ListAssignments string
  | ListDefinitions string
  | GetDefinition string string

text \<open>
  An assignment is addressed by its scope, of a subscription, a resource group or a resource, and
  its name; a definition by a subscription's scope or, for the tenant, by the empty string.
\<close>

definition resourceScope :: "string \<Rightarrow> string \<Rightarrow> string \<Rightarrow> string \<Rightarrow> string \<Rightarrow> string" where
  "resourceScope sub rg provider type name =
    group_scope sub rg @ ''/providers/'' @ provider @ ''/'' @ type @ ''/'' @ name"

definition assignment_op :: "string \<Rightarrow> string \<Rightarrow> string list \<Rightarrow> ra_op option" where
  "assignment_op method scope rest =
    (let get = (method = ''GET'' \<or> method = ''HEAD'') in
     case rest of
       [p, ns, k] \<Rightarrow>
         if p = ''providers'' \<and> ns = ''Microsoft.Authorization'' \<and> k = ''roleAssignments'' \<and> get
         then Some (ListAssignments scope) else None
     | [p, ns, k, name] \<Rightarrow>
         if p = ''providers'' \<and> ns = ''Microsoft.Authorization'' \<and> k = ''roleAssignments''
         then (if method = ''PUT'' then Some (PutAssignment scope name)
               else if get then Some (GetAssignment scope name)
               else if method = ''DELETE'' then Some (DeleteAssignment scope name) else None)
         else None
     | _ \<Rightarrow> None)"

definition definition_op :: "string \<Rightarrow> string \<Rightarrow> string list \<Rightarrow> ra_op option" where
  "definition_op method scope rest =
    (let get = (method = ''GET'' \<or> method = ''HEAD'') in
     case rest of
       [p, ns, k] \<Rightarrow>
         if p = ''providers'' \<and> ns = ''Microsoft.Authorization'' \<and> k = ''roleDefinitions'' \<and> get
         then Some (ListDefinitions scope) else None
     | [p, ns, k, name] \<Rightarrow>
         if p = ''providers'' \<and> ns = ''Microsoft.Authorization'' \<and> k = ''roleDefinitions'' \<and> get
         then Some (GetDefinition scope name) else None
     | _ \<Rightarrow> None)"

text \<open>The patterns of \<open>Mount\<close> and \<open>mountRoleDefinitions\<close>; wildcards match non-empty segments.\<close>

definition ra_route :: "string \<Rightarrow> string list \<Rightarrow> ra_op option" where
  "ra_route method segs =
    (if [] \<in> set segs then None
     else if take 1 segs = [''providers''] then definition_op method [] segs
     else (case segs of
       a # sub # rest \<Rightarrow>
         if a \<noteq> ''subscriptions'' then None
         else (case definition_op method (''/subscriptions/'' @ sub) rest of
             Some op \<Rightarrow> Some op
           | None \<Rightarrow> (case assignment_op method (''/subscriptions/'' @ sub) rest of
               Some op \<Rightarrow> Some op
             | None \<Rightarrow> (case rest of
                 b # rg # rest' \<Rightarrow>
                   if b \<noteq> ''resourceGroups'' then None
                   else (case assignment_op method (group_scope sub rg) rest' of
                       Some op \<Rightarrow> Some op
                     | None \<Rightarrow> (case rest' of
                         c # rp # rt # rn # rest'' \<Rightarrow>
                           if c = ''providers'' then assignment_op method (resourceScope sub rg rp rt rn) rest''
                           else None
                       | _ \<Rightarrow> None))
               | _ \<Rightarrow> None)))
     | _ \<Rightarrow> None))"

section \<open>Gates\<close>

definition store_evaluator :: "store \<Rightarrow> evaluator" where
  "store_evaluator s = \<lparr>Assignments = Some (store_view s)\<rparr>"

definition internal_server_error :: "string \<Rightarrow> http_response" where
  "internal_server_error e = WriteARM 500 ''InternalServerError'' e"

definition requireAPIVersion :: "http_request \<Rightarrow> http_response option" where
  "requireAPIVersion r =
    (if trim_space (query_get r ''api-version'') = []
     then Some (BadRequest ''api-version query parameter is required'') else None)"

definition ra_require :: "store \<Rightarrow> Principal option \<Rightarrow> string \<Rightarrow> string \<Rightarrow> http_response + Principal" where
  "ra_require s who action scope =
    (case who of
       None \<Rightarrow> Inl (Unauthenticated [])
     | Some p \<Rightarrow>
         if \<not> AllowsARM p then Inl (InvalidAuthenticationTokenAudience [])
         else (case Evaluate (store_evaluator s) (pr_ID p) (pr_IsRoot p) action scope of
             Inl e \<Rightarrow> Inl (internal_server_error e)
           | Inr allowed \<Rightarrow> if allowed then Inr p else Inl (Forbidden [])))"

section \<open>Assignments\<close>

definition assignment_id :: "string \<Rightarrow> string \<Rightarrow> string" where
  "assignment_id scope name = scope @ ''/providers/Microsoft.Authorization/roleAssignments/'' @ name"

definition roleAssignmentJSON :: "assignment \<Rightarrow> string \<Rightarrow> json" where
  "roleAssignmentJSON a name =
    JObj [(''id'', JStr (asg_ID a)), (''name'', JStr name), (''type'', JStr ''Microsoft.Authorization/roleAssignments''),
      (''properties'', JObj [(''roleDefinitionId'', JStr (asg_RoleDefinitionID a)),
        (''principalId'', JStr (asg_PrincipalID a)),
        (''principalType'', JStr (if asg_PrincipalType a = [] then ''ServicePrincipal'' else asg_PrincipalType a)),
        (''scope'', JStr (asg_Scope a))])]"

text \<open>The fields of \<open>properties\<close> in a body, \<open>None\<close> when the body does not decode.\<close>

fun decode_properties ::
  "(string \<times> json) list \<Rightarrow> (string \<Rightarrow> string) \<times> bool \<Rightarrow> (string \<Rightarrow> string) \<times> bool" where
  "decode_properties [] acc = acc"
| "decode_properties ((k, v) # kvs) (m, ok) =
    decode_properties kvs
      (if equal_fold k ''properties'' then
         (case v of
            JObj inner \<Rightarrow> decode_fields [''roleDefinitionId'', ''principalId'', ''principalType''] inner (m, ok)
          | JNull \<Rightarrow> (m, ok)
          | _ \<Rightarrow> (m, False))
       else (m, ok))"

definition decode_assignment :: "stdlib \<Rightarrow> byte list \<Rightarrow> (string \<Rightarrow> string) option" where
  "decode_assignment lib body =
    (case json_parse lib (string_of_bytes body) of
       Inr (JObj kvs) \<Rightarrow> (case decode_properties kvs ((\<lambda>k. []), True) of (m, ok) \<Rightarrow> if ok then Some m else None)
     | Inr JNull \<Rightarrow> Some (\<lambda>k. [])
     | _ \<Rightarrow> None)"

definition putRoleAssignment ::
  "stdlib \<Rightarrow> int \<Rightarrow> store \<Rightarrow> Principal option \<Rightarrow> http_request \<Rightarrow> byte list result \<Rightarrow> string \<Rightarrow> string \<Rightarrow>
    http_response \<times> store" where
  "putRoleAssignment lib now s who r body scope name =
    (case requireAPIVersion r of
       Some rs \<Rightarrow> (rs, s)
     | None \<Rightarrow> (case ra_require s who ''Microsoft.Authorization/roleAssignments/write'' scope of
         Inl rs \<Rightarrow> (rs, s)
       | Inr p \<Rightarrow> (case map_sum id (take 1048576) body of
           Inl e \<Rightarrow> (BadRequest ''unable to read body'', s)
         | Inr bs \<Rightarrow> (case decode_assignment lib bs of
             None \<Rightarrow> (BadRequest ''invalid JSON body'', s)
           | Some m \<Rightarrow>
               (let roleDef = trim_space (m ''roleDefinitionId''); principalID = trim_space (m ''principalId'');
                    pt = trim_space (m ''principalType'');
                    principalType = (if pt = [] then ''ServicePrincipal'' else pt) in
                if roleDef = [] \<or> principalID = [] then
                  (BadRequest ''properties.roleDefinitionId and properties.principalId are required'', s)
                else
                  (let a = \<lparr>asg_ID = assignment_id scope name, asg_Scope = scope, asg_RoleDefinitionID = roleDef,
                         asg_PrincipalID = principalID, asg_PrincipalType = principalType\<rparr> in
                   case UpsertRoleAssignment s a of
                     (Inl e, s') \<Rightarrow> (internal_server_error e, s')
                   | (Inr _, s') \<Rightarrow>
                       (writeJSON 200 (roleAssignmentJSON a name),
                        snd (AppendActivityLog s' now (pr_ID p) ''Microsoft.Authorization/roleAssignments/write''
                          (assignment_id scope name) ''Succeeded'' []))))))))"

definition getRoleAssignment ::
  "store \<Rightarrow> Principal option \<Rightarrow> http_request \<Rightarrow> string \<Rightarrow> string \<Rightarrow> http_response" where
  "getRoleAssignment s who r scope name =
    (case requireAPIVersion r of
       Some rs \<Rightarrow> rs
     | None \<Rightarrow> (case ra_require s who ''Microsoft.Authorization/roleAssignments/read'' scope of
         Inl rs \<Rightarrow> rs
       | Inr p \<Rightarrow> (case GetRoleAssignment s (assignment_id scope name) of
           Inl e \<Rightarrow> internal_server_error e
         | Inr None \<Rightarrow> NotFound ''Role assignment not found''
         | Inr (Some a) \<Rightarrow> writeJSON 200 (roleAssignmentJSON a name))))"

definition deleteRoleAssignment ::
  "int \<Rightarrow> store \<Rightarrow> Principal option \<Rightarrow> http_request \<Rightarrow> string \<Rightarrow> string \<Rightarrow> http_response \<times> store" where
  "deleteRoleAssignment now s who r scope name =
    (case requireAPIVersion r of
       Some rs \<Rightarrow> (rs, s)
     | None \<Rightarrow> (case ra_require s who ''Microsoft.Authorization/roleAssignments/delete'' scope of
         Inl rs \<Rightarrow> (rs, s)
       | Inr p \<Rightarrow> (case DeleteRoleAssignment s (assignment_id scope name) of
           (Inl e, s') \<Rightarrow> (internal_server_error e, s')
         | (Inr None, s') \<Rightarrow> (NotFound ''Role assignment not found'', s')
         | (Inr (Some a), s') \<Rightarrow>
             (writeJSON 200 (roleAssignmentJSON a name),
              snd (AppendActivityLog s' now (pr_ID p) ''Microsoft.Authorization/roleAssignments/delete''
                (assignment_id scope name) ''Succeeded'' [])))))"

text \<open>The name of an assignment is what follows the last slash of its id.\<close>

definition name_of_id :: "string \<Rightarrow> string" where
  "name_of_id i = last (split_on CHR ''/'' i)"

definition listRoleAssignments :: "store \<Rightarrow> Principal option \<Rightarrow> http_request \<Rightarrow> string \<Rightarrow> http_response" where
  "listRoleAssignments s who r scope =
    (case requireAPIVersion r of
       Some rs \<Rightarrow> rs
     | None \<Rightarrow> (case ra_require s who ''Microsoft.Authorization/roleAssignments/read'' scope of
         Inl rs \<Rightarrow> rs
       | Inr p \<Rightarrow> (case ListRoleAssignmentsByScopePrefix s scope of
           Inl e \<Rightarrow> internal_server_error e
         | Inr as \<Rightarrow>
             writeJSON 200 (JObj [(''value'', JArr (map (\<lambda>a. roleAssignmentJSON a (name_of_id (asg_ID a))) as))]))))"

section \<open>Definitions\<close>

definition RoleDefinitionARM :: "string \<Rightarrow> BuiltInRole \<Rightarrow> json" where
  "RoleDefinitionARM scopePrefix role =
    JObj [(''id'', JStr (scopePrefix @ ''/providers/Microsoft.Authorization/roleDefinitions/'' @ role_id role)),
      (''type'', JStr ''Microsoft.Authorization/roleDefinitions''), (''name'', JStr (role_id role)),
      (''properties'', JObj [(''roleName'', JStr (RoleName role)), (''type'', JStr ''BuiltInRole''),
        (''description'', JStr (Description role)), (''assignableScopes'', JArr [JStr ''/''])])]"

definition roleDefinitionList :: "string \<Rightarrow> json list" where
  "roleDefinitionList scopePrefix = map (RoleDefinitionARM scopePrefix) BuiltInRoles"

definition roleDefinitionByName :: "string \<Rightarrow> string \<Rightarrow> json option" where
  "roleDefinitionByName scopePrefix name =
    map_option (RoleDefinitionARM scopePrefix)
      (find (\<lambda>role. equal_fold (role_id role) (to_lower (trim_space name))) BuiltInRoles)"

text \<open>Definitions of the tenant are read at the root scope.\<close>

definition definition_scope :: "string \<Rightarrow> string" where
  "definition_scope prefix = (if prefix = [] then ''/'' else prefix)"

definition listRoleDefinitions :: "store \<Rightarrow> Principal option \<Rightarrow> http_request \<Rightarrow> string \<Rightarrow> http_response" where
  "listRoleDefinitions s who r prefix =
    (case requireAPIVersion r of
       Some rs \<Rightarrow> rs
     | None \<Rightarrow> (case ra_require s who ''Microsoft.Authorization/roleDefinitions/read'' (definition_scope prefix) of
         Inl rs \<Rightarrow> rs
       | Inr p \<Rightarrow> writeJSON 200 (JObj [(''value'', JArr (roleDefinitionList prefix))])))"

definition getRoleDefinition :: "store \<Rightarrow> Principal option \<Rightarrow> http_request \<Rightarrow> string \<Rightarrow> string \<Rightarrow> http_response" where
  "getRoleDefinition s who r prefix i =
    (case requireAPIVersion r of
       Some rs \<Rightarrow> rs
     | None \<Rightarrow> (case ra_require s who ''Microsoft.Authorization/roleDefinitions/read'' (definition_scope prefix) of
         Inl rs \<Rightarrow> rs
       | Inr p \<Rightarrow> (case roleDefinitionByName prefix (trim_space i) of
           None \<Rightarrow> WriteARM 404 ''ResourceNotFound'' ''role definition not found''
         | Some doc \<Rightarrow> writeJSON 200 doc)))"

definition ra_handle ::
  "stdlib \<Rightarrow> int \<Rightarrow> store \<Rightarrow> Principal option \<Rightarrow> http_request \<Rightarrow> byte list result \<Rightarrow> ra_op \<Rightarrow> http_response \<times> store" where
  "ra_handle lib now s who r body op =
    (case op of
       PutAssignment scope name \<Rightarrow> putRoleAssignment lib now s who r body scope name
     | GetAssignment scope name \<Rightarrow> (getRoleAssignment s who r scope name, s)
     | DeleteAssignment scope name \<Rightarrow> deleteRoleAssignment now s who r scope name
     | ListAssignments scope \<Rightarrow> (listRoleAssignments s who r scope, s)
     | ListDefinitions prefix \<Rightarrow> (listRoleDefinitions s who r prefix, s)
     | GetDefinition prefix i \<Rightarrow> (getRoleDefinition s who r prefix i, s))"

section \<open>What a request needs\<close>

definition ra_needs :: "ra_op \<Rightarrow> string \<times> string" where
  "ra_needs op =
    (case op of
       PutAssignment scope name \<Rightarrow> (''Microsoft.Authorization/roleAssignments/write'', scope)
     | GetAssignment scope name \<Rightarrow> (''Microsoft.Authorization/roleAssignments/read'', scope)
     | DeleteAssignment scope name \<Rightarrow> (''Microsoft.Authorization/roleAssignments/delete'', scope)
     | ListAssignments scope \<Rightarrow> (''Microsoft.Authorization/roleAssignments/read'', scope)
     | ListDefinitions prefix \<Rightarrow> (''Microsoft.Authorization/roleDefinitions/read'', definition_scope prefix)
     | GetDefinition prefix i \<Rightarrow> (''Microsoft.Authorization/roleDefinitions/read'', definition_scope prefix))"

definition ra_permits :: "store \<Rightarrow> Principal option \<Rightarrow> string \<times> string \<Rightarrow> bool" where
  "ra_permits s who need \<longleftrightarrow>
    (\<exists>p. who = Some p \<and> AllowsARM p \<and>
      Evaluate (store_evaluator s) (pr_ID p) (pr_IsRoot p) (fst need) (snd need) = Inr True)"

lemma ra_require_cases:
  "ra_require s who action scope = Inr p \<Longrightarrow> who = Some p \<and> ra_permits s who (action, scope)"
  "ra_require s who action scope = Inl rs \<Longrightarrow> rs_code rs \<in> {401, 403, 500}"
  by (auto simp: ra_require_def ra_permits_def internal_server_error_def split: option.splits if_splits sum.splits)

lemmas ra_handlers = putRoleAssignment_def getRoleAssignment_def deleteRoleAssignment_def listRoleAssignments_def
  listRoleDefinitions_def getRoleDefinition_def

lemma ra_denied:
  assumes "\<not> ra_permits s who (ra_needs op)"
  shows "rs_code (fst (ra_handle lib now s who r body op)) \<in> {400, 401, 403, 500} \<and>
    snd (ra_handle lib now s who r body op) = s"
proof (cases "requireAPIVersion r")
  case (Some rs)
  then have "rs_code rs = 400" by (auto simp: requireAPIVersion_def split: if_splits)
  with Some show ?thesis by (cases op) (simp_all add: ra_handle_def ra_handlers)
next
  case None
  have "\<exists>rs. ra_require s who action scope = Inl rs \<and> rs_code rs \<in> {401, 403, 500}"
    if "ra_needs op = (action, scope)" for action scope
    using ra_require_cases[of s who action scope] assms that
    by (cases "ra_require s who action scope") auto
  then obtain rs where rs: "ra_require s who (fst (ra_needs op)) (snd (ra_needs op)) = Inl rs"
    "rs_code rs \<in> {401, 403, 500}"
    by (metis prod.collapse)
  from rs(2) have "rs_code rs \<in> {400, 401, 403, 500}" by blast
  with None rs(1) show ?thesis
    by (cases op) (simp_all add: ra_handle_def ra_handlers ra_needs_def)
qed

text \<open>
  Role assignments and definitions fail closed: any answer other than 400, 401, 403 and 500,
  and any change of the store, comes only from a caller with a token for Resource Manager whom
  the evaluator, reading this store, allows the action of the operation at its scope.
\<close>

theorem ra_fail_closed:
  assumes "rs_code (fst (ra_handle lib now s who r body op)) \<notin> {400, 401, 403, 500} \<or>
    snd (ra_handle lib now s who r body op) \<noteq> s"
  shows "ra_permits s who (ra_needs op)"
  using assms ra_denied by blast

section \<open>No escalation\<close>

definition is_owner :: "store \<Rightarrow> Principal \<Rightarrow> bool" where
  "is_owner s p \<longleftrightarrow>
    (\<exists>a \<in> set (tb_role_assignments s). roleHasGUID (to_lower (trim_space (asg_RoleDefinitionID a))) guidOwner \<and>
      principalMatches (store_view s) a (pr_ID p) = Inr True)"

type_synonym ra_request = "int \<times> Principal option \<times> http_request \<times> byte list result \<times> ra_op"

fun ra_run :: "stdlib \<Rightarrow> ra_request list \<Rightarrow> store \<Rightarrow> store" where
  "ra_run lib [] s = s"
| "ra_run lib ((now, who, r, body, op) # rest) s = ra_run lib rest (snd (ra_handle lib now s who r body op))"

lemma owner_grants:
  assumes "roleGrants role action"
    and "action = ''Microsoft.Authorization/roleAssignments/write'' \<or>
      action = ''Microsoft.Authorization/roleAssignments/delete''"
  shows "roleHasGUID (to_lower (trim_space role)) guidOwner"
  using assms role_assignment_owner[of role] by auto

lemma assigning_needs_owner:
  assumes "Evaluate (store_evaluator s) (pr_ID p) (pr_IsRoot p) action scope = Inr True"
    and "action = ''Microsoft.Authorization/roleAssignments/write'' \<or>
      action = ''Microsoft.Authorization/roleAssignments/delete''"
  shows "pr_IsRoot p \<or> is_owner s p"
proof (cases "pr_IsRoot p")
  case False
  with assms(1) have "evaluate_scopes (store_view s) (pr_ID p) action (scopeChain scope) = Inr True"
    by (auto simp: Evaluate_def store_evaluator_def split: if_splits)
  then obtain sc as a where as: "ListRoleAssignmentsForScope (store_view s) sc = Inr as" "a \<in> set as"
    "granted_by (store_view s) (pr_ID p) action a"
    using evaluate_scopes_True by blast
  then have "a \<in> set (tb_role_assignments s)"
    by (auto simp: store_view_def ListRoleAssignmentsForScope_db_def db_query_def split: option.splits)
  moreover have "roleHasGUID (to_lower (trim_space (asg_RoleDefinitionID a))) guidOwner"
    using as(3) assms(2) owner_grants by (auto simp: granted_by_def)
  ultimately show ?thesis
    using as(3) by (auto simp: is_owner_def granted_by_def)
qed simp

lemma ra_step_unchanged:
  assumes "\<And>p. who = Some p \<Longrightarrow> \<not> pr_IsRoot p \<and> \<not> is_owner s p"
  shows "snd (ra_handle lib now s who r body op) = s"
proof (rule ccontr)
  assume changed: "snd (ra_handle lib now s who r body op) \<noteq> s"
  then have "ra_permits s who (ra_needs op)" using ra_denied by blast
  moreover have "fst (ra_needs op) = ''Microsoft.Authorization/roleAssignments/write'' \<or>
      fst (ra_needs op) = ''Microsoft.Authorization/roleAssignments/delete''"
    using changed by (cases op) (simp_all add: ra_handle_def ra_needs_def)
  ultimately show False
    using assms assigning_needs_owner unfolding ra_permits_def by blast
qed

text \<open>
  C8: no sequence of requests changes anything, role assignments and the activity log included,
  when none of its callers is root or matches an assignment of the Owner role: nobody gives
  himself a role.
\<close>

theorem no_escalation:
  assumes "\<And>now p r body op. (now, Some p, r, body, op) \<in> set reqs \<Longrightarrow> \<not> pr_IsRoot p \<and> \<not> is_owner s p"
  shows "ra_run lib reqs s = s"
  using assms
proof (induction reqs)
  case (Cons req reqs)
  obtain now who r body op where req: "req = (now, who, r, body, op)" by (cases req)
  have "snd (ra_handle lib now s who r body op) = s"
  proof (rule ra_step_unchanged)
    fix p assume "who = Some p"
    then show "\<not> pr_IsRoot p \<and> \<not> is_owner s p"
      using Cons.prems[of now p r body op] by (simp add: req)
  qed
  moreover have "ra_run lib reqs s = s"
    using Cons.prems by (intro Cons.IH) (metis list.set_intros(2))
  ultimately show ?case by (simp add: req)
qed simp

section \<open>Putting and getting\<close>

lemma GetRoleAssignment_activity: "GetRoleAssignment (snd (AppendActivityLog s now c o1 i st m)) = GetRoleAssignment s"
  by (auto simp: fun_eq_iff AppendActivityLog_def GetRoleAssignment_def db_exec_def db_query_def split: option.split)

lemma GetRoleAssignment_upsert:
  assumes "db_fault s = None" "asg_PrincipalType a \<noteq> []"
  shows "GetRoleAssignment (snd (UpsertRoleAssignment s a)) (asg_ID a) = Inr (Some a)"
proof -
  have "tbl_get asg_ID (tb_role_assignments (snd (UpsertRoleAssignment s a))) (asg_ID a) = Some a"
    using assms by (simp add: tb_after_upsert(1) tbl_get_upsert split: option.split)
  then show ?thesis
    using tb_after_upsert(2)[OF assms(1)] by (simp add: GetRoleAssignment_def)
qed

text \<open>
  After a put of an assignment that succeeded, a get of it by whoever may read it answers
  with the very same document.
\<close>

theorem put_then_get_assignment:
  assumes "db_fault s = None"
    and "putRoleAssignment lib now s who r body scope name = (rs, s')" "rs_code rs = 200"
    and "requireAPIVersion r' = None" "ra_permits s' who' (''Microsoft.Authorization/roleAssignments/read'', scope)"
  shows "getRoleAssignment s' who' r' scope name = rs"
proof -
  obtain a p where a: "rs = writeJSON 200 (roleAssignmentJSON a name)" "asg_ID a = assignment_id scope name"
    "asg_PrincipalType a \<noteq> []"
    and s': "s' = snd (AppendActivityLog (snd (UpsertRoleAssignment s a)) now p
      ''Microsoft.Authorization/roleAssignments/write'' (assignment_id scope name) ''Succeeded'' [])"
    using assms(2,3) ra_require_cases(2)
    by (fastforce simp: putRoleAssignment_def requireAPIVersion_def internal_server_error_def Let_def
        split: option.splits sum.splits prod.splits if_splits)
  have "GetRoleAssignment s' (assignment_id scope name) = Inr (Some a)"
    using GetRoleAssignment_upsert[OF assms(1) a(3)] a(2) by (simp add: s' GetRoleAssignment_activity)
  moreover obtain q where "ra_require s' who' ''Microsoft.Authorization/roleAssignments/read'' scope = Inr q"
    using assms(5) by (auto simp: ra_permits_def ra_require_def)
  ultimately show ?thesis
    using assms(4) by (simp add: getRoleAssignment_def a(1))
qed

lemma put_succeeds:
  assumes "db_fault s = None" "requireAPIVersion r = None"
    and "ra_permits s (Some p) (''Microsoft.Authorization/roleAssignments/write'', scope)"
    and "decode_assignment lib (take 1048576 bs) = Some m"
    and "trim_space (m ''roleDefinitionId'') \<noteq> []" "trim_space (m ''principalId'') \<noteq> []"
  shows "rs_code (fst (putRoleAssignment lib now s (Some p) r (Inr bs) scope name)) = 200"
proof -
  have "ra_require s (Some p) ''Microsoft.Authorization/roleAssignments/write'' scope = Inr p"
    using assms(3) by (simp add: ra_permits_def ra_require_def)
  with assms show ?thesis
    by (simp add: putRoleAssignment_def UpsertRoleAssignment_def Let_def)
qed

section \<open>Concrete requests\<close>

definition root_principal :: Principal where
  "root_principal = \<lparr>pr_ID = ''root'', pr_IsRoot = True, pr_Audiences = [], pr_Issuer = []\<rparr>"

definition alice_principal :: Principal where
  "alice_principal = \<lparr>pr_ID = ''alice'', pr_IsRoot = False, pr_Audiences = [], pr_Issuer = []\<rparr>"

definition versioned :: http_request where
  "versioned = root_request\<lparr>rq_query := [(''api-version'', [''2022-04-01''])]\<rparr>"

definition owner_lib :: stdlib where
  "owner_lib = lab_lib\<lparr>json_parse := (\<lambda>text. Inr (JObj [(''properties'', JObj
    [(''roleDefinitionId'', JStr RoleOwner), (''principalId'', JStr ''alice'')])]))\<rparr>"

lemma root_permits: "ra_permits s (Some root_principal) need"
proof -
  have "AllowsARM root_principal" "pr_IsRoot root_principal" by code_simp+
  then show ?thesis by (simp add: ra_permits_def Evaluate_root)
qed

theorem ra_fail_closed_witness:
  "ra_permits empty_store (Some root_principal) (ra_needs (GetAssignment ''/subscriptions/s'' ''a''))"
proof (rule ra_fail_closed)
  show "rs_code (fst (ra_handle lab_lib 0 empty_store (Some root_principal) versioned (Inr [])
      (GetAssignment ''/subscriptions/s'' ''a''))) \<notin> {400, 401, 403, 500} \<or>
    snd (ra_handle lab_lib 0 empty_store (Some root_principal) versioned (Inr [])
      (GetAssignment ''/subscriptions/s'' ''a'')) \<noteq> empty_store"
    by (rule disjI1) code_simp
qed

theorem no_escalation_witness:
  "ra_run owner_lib [(0, Some alice_principal, versioned, Inr [], PutAssignment ''/subscriptions/s1'' ''a''),
    (0, Some alice_principal, versioned, Inr [], DeleteAssignment ''/subscriptions/s1'' ''a'')] lab_store = lab_store"
proof (rule no_escalation)
  fix now p r body op
  assume "(now, Some p, r, body, op) \<in> set [(0, Some alice_principal, versioned, Inr [],
      PutAssignment ''/subscriptions/s1'' ''a''),
    (0, Some alice_principal, versioned, Inr [], DeleteAssignment ''/subscriptions/s1'' ''a'')]"
  then have p: "p = alice_principal" by auto
  have "\<not> list_ex (\<lambda>a. roleHasGUID (to_lower (trim_space (asg_RoleDefinitionID a))) guidOwner \<and>
      (case principalMatches (store_view lab_store) a (pr_ID alice_principal) of Inl e \<Rightarrow> False | Inr b \<Rightarrow> b))
      (tb_role_assignments lab_store)"
    by code_simp
  then have "\<not> is_owner lab_store alice_principal"
    by (auto simp: is_owner_def list_ex_iff split: sum.splits)
  then show "\<not> pr_IsRoot p \<and> \<not> is_owner lab_store p"
    by (simp add: p alice_principal_def)
qed

theorem put_then_get_assignment_witness:
  "getRoleAssignment (snd (putRoleAssignment owner_lib 0 empty_store (Some root_principal) versioned (Inr [])
      ''/subscriptions/s'' ''a'')) (Some root_principal) versioned ''/subscriptions/s'' ''a'' =
   fst (putRoleAssignment owner_lib 0 empty_store (Some root_principal) versioned (Inr []) ''/subscriptions/s'' ''a'')"
proof (rule put_then_get_assignment)
  show "db_fault empty_store = None" by (simp add: empty_store_def)
  show "putRoleAssignment owner_lib 0 empty_store (Some root_principal) versioned (Inr []) ''/subscriptions/s'' ''a'' =
      (fst (putRoleAssignment owner_lib 0 empty_store (Some root_principal) versioned (Inr []) ''/subscriptions/s'' ''a''),
       snd (putRoleAssignment owner_lib 0 empty_store (Some root_principal) versioned (Inr []) ''/subscriptions/s'' ''a''))"
    by (rule prod.collapse[symmetric])
  have "map_option (\<lambda>m. trim_space (m ''roleDefinitionId'') \<noteq> [] \<and> trim_space (m ''principalId'') \<noteq> [])
      (decode_assignment owner_lib []) = Some True"
    by code_simp
  then obtain m where m: "decode_assignment owner_lib [] = Some m" "trim_space (m ''roleDefinitionId'') \<noteq> []"
    "trim_space (m ''principalId'') \<noteq> []"
    by auto
  show "rs_code (fst (putRoleAssignment owner_lib 0 empty_store (Some root_principal) versioned (Inr [])
      ''/subscriptions/s'' ''a'')) = 200"
  proof (rule put_succeeds[OF _ _ root_permits])
    show "db_fault empty_store = None" by (simp add: empty_store_def)
    show "requireAPIVersion versioned = None" by code_simp
    show "decode_assignment owner_lib (take 1048576 []) = Some m" using m(1) by simp
  qed (rule m)+
  show "requireAPIVersion versioned = None" by code_simp
  show "ra_permits (snd (putRoleAssignment owner_lib 0 empty_store (Some root_principal) versioned (Inr [])
      ''/subscriptions/s'' ''a'')) (Some root_principal) (''Microsoft.Authorization/roleAssignments/read'', ''/subscriptions/s'')"
    by (rule root_permits)
qed

end
