(* ===== verification/Network_Guard.thy ===== *)
theory Network_Guard
  imports Go_Net
begin

text \<open>
  Which addresses the program listens on and which it fetches from:
  \<open>ListenIsLoopback\<close> and \<open>ValidateAMQPListenSecurity\<close> of \<open>internal/config/config.go\<close> and the egress
  guard of \<open>internal/kernel/httpegress/egress.go\<close>. The two environment variables of the guard, the
  resolver and the connections that succeed are arguments; a URL is given by its scheme and its
  host with the port, as \<open>url.Parse\<close> returns them.
\<close>

section \<open>Listening\<close>

definition trim_brackets :: "string \<Rightarrow> string" where
  \<comment> \<open>\<open>strings.Trim(s, "[]")\<close>\<close>
  "trim_brackets s =
    (let b = (\<lambda>c. c = CHR ''['' \<or> c = CHR '']'') in rev (dropWhile b (rev (dropWhile b s))))"

definition ListenIsLoopback :: "string \<Rightarrow> bool" where
  "ListenIsLoopback addr0 =
    (let addr = trim_space addr0;
         local = (\<lambda>host. let host = trim_brackets host in
           if host = [] then False
           else if equal_fold host ''localhost'' then True
           else (case parse_ip host of None \<Rightarrow> False | Some ip \<Rightarrow> ip_loopback ip)) in
     if addr = [] then False
     else (case split_host_port addr of
         Some (host, port) \<Rightarrow> local host
       | None \<Rightarrow> if has_prefix addr '':'' then False else local addr))"

text \<open>\<open>allow\<close> is the configured permission or the one of the environment.\<close>

definition ValidateAMQPListenSecurity :: "string \<Rightarrow> bool \<Rightarrow> unit result" where
  "ValidateAMQPListenSecurity addr allow =
    (if ListenIsLoopback addr then Inr ()
     else if allow then Inr ()
     else Inl (''NOCTAXRIS_AZ_AMQP_LISTEN '' @ addr @ '' is non-loopback''))"

section \<open>Egress\<close>

record egress_env =
  eg_switch :: string
  eg_allowlist :: string
  eg_lookup :: "string \<Rightarrow> ip list option"
  eg_url :: "string \<Rightarrow> (string \<times> string) option"

definition optional_port :: "string \<Rightarrow> bool" where
  "optional_port s \<longleftrightarrow> s \<noteq> [] \<and> hd s = CHR '':'' \<and> list_all dec_digit (tl s)"

text \<open>\<open>Hostname\<close> and \<open>Port\<close> of a URL.\<close>

definition url_host_port :: "string \<Rightarrow> string \<times> string" where
  "url_host_port hp =
    (let (h, p) = (case last_index_byte hp CHR '':'' of
         None \<Rightarrow> (hp, [])
       | Some i \<Rightarrow> if optional_port (drop i hp) then (take i hp, drop (i + 1) hp) else (hp, [])) in
     (if has_prefix h ''['' \<and> has_suffix h '']'' then butlast (tl h) else h, p))"

definition ipUnsafe :: "ip option \<Rightarrow> bool" where
  "ipUnsafe ip =
    (case ip of
       None \<Rightarrow> True
     | Some a \<Rightarrow> ip_loopback a \<or> ip_private a \<or> ip_link_local_unicast a \<or> ip_link_local_multicast a \<or>
         ip_unspecified a)"

definition egressEnabled :: "egress_env \<Rightarrow> bool" where
  "egressEnabled env = (eg_switch env = ''1'' \<or> equal_fold (eg_switch env) ''true'')"

definition exactAllowlisted :: "egress_env \<Rightarrow> string \<Rightarrow> bool" where
  "exactAllowlisted env dest =
    list_ex (\<lambda>p. trim_space p = dest) (split_on CHR '','' (trim_space (eg_allowlist env)))"

definition isLabLocal :: "string \<Rightarrow> bool" where
  "isLabLocal hp =
    (let (host, port) = url_host_port hp in
     if port = [] then False else host = ''127.0.0.1'' \<or> host = ''localhost'')"

definition isPrivateOrMetadataHost :: "egress_env \<Rightarrow> string \<Rightarrow> bool" where
  "isPrivateOrMetadataHost env host =
    (if equal_fold host ''metadata.google.internal'' \<or> equal_fold host ''169.254.169.254'' \<or>
        equal_fold host ''metadata'' \<or> equal_fold host ''metadata.azure.com'' then True
     else (case parse_ip host of
         Some ip \<Rightarrow> ipUnsafe (Some ip)
       | None \<Rightarrow> (case eg_lookup env host of
           None \<Rightarrow> False
         | Some ips \<Rightarrow> list_ex (\<lambda>ip. ipUnsafe (Some ip)) ips)))"

definition Allowed :: "egress_env \<Rightarrow> string \<Rightarrow> unit result" where
  "Allowed env destURL =
    (case eg_url env destURL of
       None \<Rightarrow> Inl ''egress: invalid url''
     | Some (scheme, hp) \<Rightarrow>
         if scheme \<noteq> ''http'' \<and> scheme \<noteq> ''https'' then Inl (''egress: scheme '' @ [CHR 0x22] @ scheme @ [CHR 0x22] @ '' not allowed'')
         else if isLabLocal hp then Inr ()
         else if \<not> egressEnabled env then Inl ''egress: denied (set NOCTAXRIS_AZ_HTTP_EGRESS=1 and allowlist)''
         else if \<not> exactAllowlisted env destURL then Inl ''egress: url not in NOCTAXRIS_AZ_HTTP_ALLOWLIST''
         else if isPrivateOrMetadataHost env (fst (url_host_port hp)) then Inl ''egress: private/metadata host denied''
         else Inr ())"

section \<open>Dialling\<close>

datatype target = ByName string | ByAddress ip string

text \<open>
  What is dialled, in order, and the target that was connected to, if any; \<open>connects\<close> tells which
  attempts succeed.
\<close>

fun dial_first :: "(target \<Rightarrow> bool) \<Rightarrow> string \<Rightarrow> ip list \<Rightarrow> target list \<times> target option" where
  "dial_first connects port [] = ([], None)"
| "dial_first connects port (ip # ips) =
    (if ipUnsafe (Some ip) then dial_first connects port ips
     else let t = ByAddress ip port in
       if connects t then ([t], Some t)
       else (let (ts, r) = dial_first connects port ips in (t # ts, r)))"

definition PinnedDialContext ::
  "(string \<Rightarrow> ip list option) \<Rightarrow> (target \<Rightarrow> bool) \<Rightarrow> string \<Rightarrow> target list \<times> target option" where
  "PinnedDialContext lookup connects addr =
    (case split_host_port addr of
       None \<Rightarrow> ([], None)
     | Some (host, port) \<Rightarrow>
         if host = ''127.0.0.1'' \<or> host = ''localhost'' then
           ([ByName addr], if connects (ByName addr) then Some (ByName addr) else None)
         else (case lookup host of
             Some ips \<Rightarrow> dial_first connects port ips
           | None \<Rightarrow> (case parse_ip host of
               Some ip \<Rightarrow> dial_first connects port [ip]
             | None \<Rightarrow> ([], None))))"

section \<open>What may be reached\<close>

lemma dial_first_safe:
  "t \<in> set (fst (dial_first connects port ips)) \<Longrightarrow>
    \<exists>ip. t = ByAddress ip port \<and> ip \<in> set ips \<and> \<not> ipUnsafe (Some ip)"
  by (induction ips) (auto simp: Let_def split: if_splits prod.splits)

lemma dial_first_connected: "snd (dial_first connects port ips) = Some t \<Longrightarrow>
    t \<in> set (fst (dial_first connects port ips)) \<and> connects t"
  by (induction ips) (auto simp: Let_def split: if_splits prod.splits)

definition public_address :: "ip \<Rightarrow> bool" where
  "public_address ip \<longleftrightarrow>
    \<not> (ip_loopback ip \<or> ip_private ip \<or> ip_link_local_unicast ip \<or> ip_link_local_multicast ip \<or>
       ip_unspecified ip)"

text \<open>
  Whatever the resolver answers when the connection is made, the guard connects to public
  addresses only; the one exception is a host that is literally \<open>localhost\<close> or \<open>127.0.0.1\<close>. So a
  name that resolves to a public address when it is checked and to a private one later reaches
  nothing.
\<close>

theorem egress_reaches_public_addresses:
  assumes "t \<in> set (fst (PinnedDialContext lookup connects addr))"
  shows "(\<exists>ip port. t = ByAddress ip port \<and> public_address ip) \<or>
    t = ByName addr \<and> (\<exists>port. split_host_port addr = Some (''127.0.0.1'', port) \<or>
      split_host_port addr = Some (''localhost'', port))"
proof -
  consider "t \<in> {ByName addr}" "\<exists>port. split_host_port addr = Some (''127.0.0.1'', port) \<or>
      split_host_port addr = Some (''localhost'', port)"
    | port ips where "t \<in> set (fst (dial_first connects port ips))"
    using assms by (auto simp del: dial_first.simps simp: PinnedDialContext_def split: option.splits if_splits)
  then show ?thesis
  proof cases
    case 2
    from dial_first_safe[OF this] show ?thesis by (auto simp: ipUnsafe_def public_address_def)
  qed simp
qed

theorem egress_reaches_public_addresses_witness:
  "(\<exists>ip port. ByAddress (v4_mapped [8, 8, 8, 8]) ''443'' = ByAddress ip port \<and> public_address ip) \<or>
    ByAddress (v4_mapped [8, 8, 8, 8]) ''443'' = ByName ''hook.example:443'' \<and>
      (\<exists>port. split_host_port ''hook.example:443'' = Some (''127.0.0.1'', port) \<or>
        split_host_port ''hook.example:443'' = Some (''localhost'', port))"
  by (rule egress_reaches_public_addresses
      [of _ "\<lambda>h. Some [v4_mapped [10, 0, 0, 1], v4_mapped [8, 8, 8, 8]]" "\<lambda>t. True"]) code_simp

text \<open>
  A URL passes the check exactly when it is \<open>http\<close> or \<open>https\<close> and either names the loopback host
  with a port or is listed word by word while egress is switched on and its host is no private
  or metadata host.
\<close>

lemma allowed_urls:
  "Allowed env dest = Inr () \<longleftrightarrow>
    (\<exists>scheme hp. eg_url env dest = Some (scheme, hp) \<and> (scheme = ''http'' \<or> scheme = ''https'') \<and>
      (isLabLocal hp \<or> egressEnabled env \<and> exactAllowlisted env dest \<and>
        \<not> isPrivateOrMetadataHost env (fst (url_host_port hp))))"
  by (auto simp: Allowed_def split: option.splits)

lemma listens_on_loopback_only:
  "ValidateAMQPListenSecurity addr False = Inr () \<longleftrightarrow> ListenIsLoopback addr"
  by (simp add: ValidateAMQPListenSecurity_def)

lemma ListenIsLoopback_examples:
  "ListenIsLoopback ''127.0.0.1:4599''" "ListenIsLoopback ''[::1]:5672''" "ListenIsLoopback '' localhost:1''"
  "\<not> ListenIsLoopback '':4599''" "\<not> ListenIsLoopback ''0.0.0.0:4599''" "\<not> ListenIsLoopback ''10.0.0.1:80''"
  by code_simp+

end
