(* ===== verification/Store_Directory.thy ===== *)
theory Store_Directory
  imports Store_Arm Authn
begin

text \<open>
  The directory of the store: users, groups, devices, directory roles, owners and management
  groups (\<open>directory.go\<close>) and application registrations (\<open>entra.go\<close>). Fresh identifiers, the time
  and the hashes of new passwords are arguments. What comparing a password with a stored hash
  calls (\<open>golang.org/x/crypto/bcrypt\<close>) is a parameter.
\<close>

section \<open>Passwords\<close>

text \<open>
  \<open>bc_generate\<close> takes the salt that is drawn; it fails on passwords of more than 72 bytes.
  \<open>bc_compare\<close> takes the hash first.
\<close>

record bcrypt =
  bc_generate :: "string \<Rightarrow> string \<Rightarrow> string option"
  bc_compare :: "string \<Rightarrow> string \<Rightarrow> bool"

definition opaqueHash :: "stdlib \<Rightarrow> string \<Rightarrow> string" where
  "opaqueHash lib s = sha256_hex lib s"

definition HashUserPassword :: "bcrypt \<Rightarrow> string \<Rightarrow> string \<Rightarrow> string" where
  "HashUserPassword bc salt password = (case bc_generate bc salt password of None \<Rightarrow> [] | Some h \<Rightarrow> h)"

definition MatchPasswordHash :: "stdlib \<Rightarrow> bcrypt \<Rightarrow> string \<Rightarrow> string \<Rightarrow> bool" where
  "MatchPasswordHash lib bc stored password =
    (if stored = [] \<or> password = [] then False
     else if has_prefix stored ''$2a$'' \<or> has_prefix stored ''$2b$'' \<or> has_prefix stored ''$2y$''
     then bc_compare bc stored password
     else stored = opaqueHash lib password)"

text \<open>What the documentation of bcrypt promises of the two.\<close>

definition bcrypt_ok :: "bcrypt \<Rightarrow> bool" where
  "bcrypt_ok bc \<longleftrightarrow>
    (\<forall>salt p h. bc_generate bc salt p = Some h \<longrightarrow> has_prefix h ''$2a$'' \<and> bc_compare bc h p)"

section \<open>Users\<close>

definition the_user :: "string \<Rightarrow> DirectoryUser \<Rightarrow> bool" where
  "the_user i u \<longleftrightarrow> usr_ID u = i \<or> usr_UserPrincipalName u = i"

definition ListDirectoryUsers :: "store \<Rightarrow> string \<Rightarrow> DirectoryUser list result" where
  "ListDirectoryUsers s tenantID =
    db_query s (sort_key usr_UserPrincipalName
      (filter (\<lambda>u. usr_TenantID u = tenantID) (tb_users (st_directory s))))"

definition GetDirectoryUser :: "store \<Rightarrow> string \<Rightarrow> DirectoryUser option result" where
  "GetDirectoryUser s i = db_query s (find (the_user i) (tb_users (st_directory s)))"

definition PatchDirectoryUser :: "store \<Rightarrow> string \<Rightarrow> string \<Rightarrow> string \<Rightarrow> unit result \<times> store" where
  "PatchDirectoryUser s i department jobTitle =
    (let d = st_directory s in
     dir_exec s () (d\<lparr>tb_users := map (\<lambda>u. if usr_ID u = i
       then u\<lparr>usr_Department := (if department = [] then usr_Department u else department),
              usr_JobTitle := (if jobTitle = [] then usr_JobTitle u else jobTitle)\<rparr>
       else u) (tb_users d)\<rparr>))"

definition SetUserPasswordHash :: "store \<Rightarrow> string \<Rightarrow> string \<Rightarrow> unit result \<times> store" where
  "SetUserPasswordHash s idOrUPN passwordHash =
    (let d = st_directory s;
         res = dir_exec s () (d\<lparr>tb_users := map (\<lambda>u. if the_user idOrUPN u
           then u\<lparr>usr_password_hash := passwordHash\<rparr> else u) (tb_users d)\<rparr>) in
     (case res of
        (Inl e, s') \<Rightarrow> (Inl e, s')
      | (Inr v, s') \<Rightarrow>
          if tbl_count (the_user idOrUPN) (tb_users d) = 0 then (Inl ''user not found'', s')
          else (Inr (), s')))"

definition UserPasswordMatches :: "stdlib \<Rightarrow> bcrypt \<Rightarrow> store \<Rightarrow> string \<Rightarrow> string \<Rightarrow> bool result" where
  "UserPasswordMatches lib bc s idOrUPN password =
    (if password = [] then Inr False
     else db_query s (case find (the_user idOrUPN) (tb_users (st_directory s)) of
         None \<Rightarrow> False
       | Some u \<Rightarrow> MatchPasswordHash lib bc (usr_password_hash u) password))"

section \<open>Groups, devices, service principals\<close>

definition ListDirectoryGroups :: "store \<Rightarrow> string \<Rightarrow> DirectoryGroup list result" where
  "ListDirectoryGroups s tenantID =
    db_query s (sort_key grp_DisplayName
      (filter (\<lambda>g. grp_TenantID g = tenantID) (tb_groups (st_directory s))))"

definition GetDirectoryGroup :: "store \<Rightarrow> string \<Rightarrow> DirectoryGroup option result" where
  "GetDirectoryGroup s i = db_query s (tbl_get grp_ID (tb_groups (st_directory s)) i)"

definition UpdateGroupRule :: "store \<Rightarrow> string \<Rightarrow> string \<Rightarrow> string \<Rightarrow> unit result \<times> store" where
  "UpdateGroupRule s i rule state =
    (let d = st_directory s in
     dir_exec s () (d\<lparr>tb_groups := map (\<lambda>g. if grp_ID g = i
       then g\<lparr>grp_MembershipRule := rule, grp_MembershipRuleProcessingState := state\<rparr> else g)
       (tb_groups d)\<rparr>))"

definition ListServicePrincipals :: "store \<Rightarrow> string \<Rightarrow> DirectoryServicePrincipal list result" where
  "ListServicePrincipals s tenantID =
    db_query s (sort_key sp_DisplayName
      (filter (\<lambda>p. sp_TenantID p = tenantID) (tb_service_principals s)))"

definition ListDevices :: "store \<Rightarrow> string \<Rightarrow> DirectoryDevice list result" where
  "ListDevices s tenantID =
    db_query s (sort_key dev_DisplayName
      (filter (\<lambda>x. dev_TenantID x = tenantID) (tb_devices (st_directory s))))"

definition GetDevice :: "store \<Rightarrow> string \<Rightarrow> DirectoryDevice option result" where
  "GetDevice s i = db_query s (find (\<lambda>x. dev_ID x = i \<or> dev_DeviceID x = i) (tb_devices (st_directory s)))"

definition PatchDevice :: "store \<Rightarrow> string \<Rightarrow> string \<Rightarrow> unit result \<times> store" where
  "PatchDevice s i displayName =
    (let d = st_directory s in
     dir_exec s () (d\<lparr>tb_devices := map (\<lambda>x. if dev_ID x = i
       then x\<lparr>dev_DisplayName := (if displayName = [] then dev_DisplayName x else displayName)\<rparr> else x)
       (tb_devices d)\<rparr>))"

section \<open>Directory roles and owners\<close>

definition ListDirectoryRoles :: "store \<Rightarrow> string \<Rightarrow> DirectoryRole list result" where
  "ListDirectoryRoles s tenantID =
    db_query s (filter (\<lambda>r. dro_TenantID r = tenantID) (tb_directory_roles (st_directory s)))"

definition ListDirectoryRoleMembers :: "store \<Rightarrow> string \<Rightarrow> string list result" where
  "ListDirectoryRoleMembers s roleID =
    db_query s (map snd (filter (\<lambda>r. fst r = roleID) (tb_role_members (st_directory s))))"

definition AddDirectoryRoleMember :: "store \<Rightarrow> string \<Rightarrow> string \<Rightarrow> unit result \<times> store" where
  "AddDirectoryRoleMember s roleID memberID =
    (let d = st_directory s in
     dir_exec s () (d\<lparr>tb_role_members := tbl_insert_ignore (\<lambda>r. r) (roleID, memberID) (tb_role_members d)\<rparr>))"

definition ListUnifiedRoleAssignments :: "store \<Rightarrow> unified_assignment list result" where
  "ListUnifiedRoleAssignments s = db_query s (tb_unified_assignments (st_directory s))"

definition PutUnifiedRoleAssignment ::
  "store \<Rightarrow> string \<Rightarrow> string \<Rightarrow> string \<Rightarrow> string \<Rightarrow> string \<Rightarrow> unit result \<times> store" where
  "PutUnifiedRoleAssignment s uuid i principalID roleDefinitionID directoryScopeID =
    (let d = st_directory s in
     dir_exec s () (d\<lparr>tb_unified_assignments := tbl_upsert ura_id (\<lambda>old new. new)
       \<lparr>ura_id = (if i = [] then uuid else i), ura_principal_id = principalID,
        ura_role_definition_id = roleDefinitionID,
        ura_directory_scope_id = (if trim_space directoryScopeID = [] then ''/'' else directoryScopeID)\<rparr>
       (tb_unified_assignments d)\<rparr>))"

definition ListOwners :: "store \<Rightarrow> string \<Rightarrow> string list result" where
  "ListOwners s resourceID =
    db_query s (map own_owner_id (filter (\<lambda>r. own_resource_id r = resourceID) (tb_owners (st_directory s))))"

definition AddOwner :: "store \<Rightarrow> string \<Rightarrow> string \<Rightarrow> string \<Rightarrow> unit result \<times> store" where
  "AddOwner s resourceID ownerID ownerType =
    (let d = st_directory s in
     dir_exec s () (d\<lparr>tb_owners := tbl_insert_ignore (\<lambda>r. (own_resource_id r, own_owner_id r))
       \<lparr>own_resource_id = resourceID, own_owner_id = ownerID,
        own_owner_type = (if ownerType = [] then ''user'' else ownerType)\<rparr> (tb_owners d)\<rparr>))"

definition ListAppRoleAssignedTo :: "store \<Rightarrow> string \<Rightarrow> app_role_assignment list result" where
  "ListAppRoleAssignedTo s spID =
    db_query s (filter (\<lambda>r. apr_resource_id r = spID) (tb_app_role_assignments (st_directory s)))"

section \<open>Application registrations\<close>

definition app_key :: "EntraApp \<Rightarrow> string \<times> string" where
  "app_key r = (app_TenantID r, app_AppID r)"

definition the_app :: "string \<Rightarrow> string \<Rightarrow> EntraApp \<Rightarrow> bool" where
  "the_app tenantID i r \<longleftrightarrow> app_TenantID r = tenantID \<and> (app_AppID r = i \<or> app_ObjectID r = i)"

text \<open>\<open>uuid\<close> and \<open>obj\<close> are the two identifiers drawn, \<open>now\<close> the formatted time.\<close>

definition UpsertEntraApp ::
  "store \<Rightarrow> string \<Rightarrow> string \<Rightarrow> string \<Rightarrow> string \<Rightarrow> string \<Rightarrow> string \<Rightarrow> string result \<times> store" where
  "UpsertEntraApp s uuid obj now tenantID appID0 displayName =
    (let appID = (if appID0 = [] then uuid else appID0) in
     db_exec s appID (s\<lparr>tb_entra_apps := tbl_upsert app_key
       (\<lambda>old new. old\<lparr>app_DisplayName := app_DisplayName new\<rparr>)
       \<lparr>app_TenantID = tenantID, app_AppID = appID, app_ObjectID = obj, app_DisplayName = displayName,
        app_CreatedAt = now\<rparr> (tb_entra_apps s)\<rparr>))"

definition GetEntraApp :: "store \<Rightarrow> string \<Rightarrow> string \<Rightarrow> EntraApp option result" where
  "GetEntraApp s tenantID appID = db_query s (find (the_app tenantID appID) (tb_entra_apps s))"

definition ListEntraApps :: "store \<Rightarrow> string \<Rightarrow> EntraApp list result" where
  "ListEntraApps s tenantID =
    db_query s (sort_key app_DisplayName (filter (\<lambda>r. app_TenantID r = tenantID) (tb_entra_apps s)))"

text \<open>\<open>False\<close> is the error \<open>sql.ErrNoRows\<close> of the code.\<close>

definition DeleteEntraApp :: "store \<Rightarrow> string \<Rightarrow> string \<Rightarrow> bool result \<times> store" where
  "DeleteEntraApp s tenantID objectID =
    (let hit = (\<lambda>r. app_TenantID r = tenantID \<and> app_ObjectID r = objectID) in
     db_exec s (tbl_count hit (tb_entra_apps s) \<noteq> 0)
       (s\<lparr>tb_entra_apps := tbl_delete hit (tb_entra_apps s)\<rparr>))"

text \<open>The object id, the client id and the display name.\<close>

definition ResolveEntraApp :: "store \<Rightarrow> string \<Rightarrow> string \<Rightarrow> (string \<times> string \<times> string) option result" where
  "ResolveEntraApp s tenantID idOrAppID =
    db_query s (map_option (\<lambda>r. (app_object_id r, app_AppID r, app_DisplayName r))
      (find (the_app tenantID idOrAppID) (tb_entra_apps s)))"

section \<open>Subscriptions and management groups\<close>

definition ListSubscriptionsForTenant :: "store \<Rightarrow> string \<Rightarrow> subscription_row list result" where
  "ListSubscriptionsForTenant s tenantID =
    db_query s (sort_key sub_display_name
      (filter (\<lambda>r. tenantID = [] \<or> sub_tenant_id r = tenantID) (tb_subscriptions s)))"

definition ListSubscriptions :: "store \<Rightarrow> subscription_row list result" where
  "ListSubscriptions s = ListSubscriptionsForTenant s []"

definition GetManagementGroup :: "store \<Rightarrow> string \<Rightarrow> management_group option result" where
  "GetManagementGroup s id0 =
    (let i = trim_space id0 in
     if i = [] then Inr None
     else db_query s (tbl_get mgr_id (tb_management_groups (st_directory s)) i))"

definition PutManagementGroup :: "store \<Rightarrow> string \<Rightarrow> string \<Rightarrow> string \<Rightarrow> string \<Rightarrow> unit result \<times> store" where
  "PutManagementGroup s id0 displayName tenantID parentID =
    (let i = trim_space id0; d = st_directory s in
     if i = [] then (Inl ''management group id is required'', s)
     else dir_exec s () (d\<lparr>tb_management_groups := tbl_upsert mgr_id (\<lambda>old new. new)
       \<lparr>mgr_id = i, mgr_display_name = displayName, mgr_tenant_id = tenantID, mgr_parent_id = parentID\<rparr>
       (tb_management_groups d)\<rparr>))"

definition listManagementGroups :: "store \<Rightarrow> string \<Rightarrow> string \<Rightarrow> management_group list result" where
  "listManagementGroups s tenantID parentID =
    db_query s (filter (\<lambda>r. (tenantID = [] \<or> mgr_tenant_id r = tenantID) \<and>
      (parentID = [] \<or> mgr_parent_id r = parentID)) (tb_management_groups (st_directory s)))"

definition ListManagementGroups :: "store \<Rightarrow> management_group list result" where
  "ListManagementGroups s = listManagementGroups s [] []"

definition ListChildManagementGroups :: "store \<Rightarrow> string \<Rightarrow> string \<Rightarrow> management_group list result" where
  "ListChildManagementGroups s parentID0 tenantID0 =
    (let parentID = trim_space parentID0; tenantID = trim_space tenantID0 in
     if parentID = [] \<or> tenantID = [] then Inr [] else listManagementGroups s tenantID parentID)"

section \<open>The seeded directory\<close>

definition SeededManagementGroupID :: string where
  "SeededManagementGroupID = ''aaaaaaaa-aaaa-aaaa-aaaa-aaaaaaaaaaaa''"

definition SeededLabAdminPassword :: string where
  "SeededLabAdminPassword = ''LabAdmin!Pass1''"

definition SeededLabUserPassword :: string where
  "SeededLabUserPassword = ''LabUser!Pass1''"

definition seed_admin :: string where
  "seed_admin = ''11111111-1111-1111-1111-111111111111''"

definition seed_user :: string where
  "seed_user = ''22222222-2222-2222-2222-222222222222''"

definition seed_group :: string where
  "seed_group = ''33333333-3333-3333-3333-333333333333''"

definition seed_nested :: string where
  "seed_nested = ''44444444-4444-4444-4444-444444444444''"

definition seed_app :: string where
  "seed_app = ''66666666-6666-6666-6666-666666666666''"

definition seed_global_admins :: string where
  "seed_global_admins = ''88888888-8888-8888-8888-888888888888''"

text \<open>
  An \<open>INSERT\<close> of several rows fails when a key is taken already. The inserts of \<open>SeedDirectory\<close>
  run one after the other, without a transaction: the first that fails ends the seeding and what
  was inserted before stays.
\<close>

definition insert_rows :: "('r \<Rightarrow> 'k) \<Rightarrow> 'r list \<Rightarrow> 'r list \<Rightarrow> 'r list option" where
  "insert_rows key rows t =
    (if distinct (map key rows) \<and> list_all (\<lambda>r. \<not> list_ex (\<lambda>q. key q = key r) t) rows
     then Some (t @ rows) else None)"

fun run_inserts :: "(store \<Rightarrow> store option) list \<Rightarrow> store \<Rightarrow> unit result \<times> store" where
  "run_inserts [] s = (Inr (), s)"
| "run_inserts (f # fs) s =
    (case f s of None \<Rightarrow> (Inl ''UNIQUE constraint failed'', s) | Some s' \<Rightarrow> run_inserts fs s')"

definition put_directory :: "(directory \<Rightarrow> directory option) \<Rightarrow> store \<Rightarrow> store option" where
  "put_directory f s = map_option (\<lambda>d. s\<lparr>st_directory := d\<rparr>) (f (st_directory s))"

definition seed_users :: "bcrypt \<Rightarrow> string \<Rightarrow> string \<Rightarrow> string \<Rightarrow> DirectoryUser list" where
  "seed_users bc salt1 salt2 tenantID =
    [\<lparr>usr_ID = seed_admin, usr_TenantID = tenantID, usr_UserPrincipalName = ''lab-admin@lab.local'',
      usr_DisplayName = ''Lab Admin'', usr_Mail = ''lab-admin@lab.local'', usr_Department = ''IT'',
      usr_JobTitle = ''Administrator'', usr_password_hash = HashUserPassword bc salt1 SeededLabAdminPassword\<rparr>,
     \<lparr>usr_ID = seed_user, usr_TenantID = tenantID, usr_UserPrincipalName = ''lab-user@lab.local'',
      usr_DisplayName = ''Lab User'', usr_Mail = ''lab-user@lab.local'', usr_Department = ''Engineering'',
      usr_JobTitle = ''Engineer'', usr_password_hash = HashUserPassword bc salt2 SeededLabUserPassword\<rparr>]"

definition seed_groups :: "string \<Rightarrow> DirectoryGroup list" where
  "seed_groups tenantID =
    [\<lparr>grp_ID = seed_group, grp_TenantID = tenantID, grp_DisplayName = ''Lab Admins'',
      grp_Mail = ''lab-admins@lab.local'', grp_SecurityEnabled = True, grp_MembershipRule = [],
      grp_MembershipRuleProcessingState = []\<rparr>,
     \<lparr>grp_ID = seed_nested, grp_TenantID = tenantID, grp_DisplayName = ''Nested Lab'', grp_Mail = [],
      grp_SecurityEnabled = True, grp_MembershipRule = [], grp_MembershipRuleProcessingState = ''On''\<rparr>]"

definition seed_roles :: "string \<Rightarrow> DirectoryRole list" where
  "seed_roles tenantID =
    [\<lparr>dro_ID = seed_global_admins, dro_TenantID = tenantID, dro_DisplayName = ''Global Administrator'',
      dro_TemplateID = ''62e90394-69f5-4237-9190-012177145e10''\<rparr>,
     \<lparr>dro_ID = ''99999999-9999-9999-9999-999999999999'', dro_TenantID = tenantID,
      dro_DisplayName = ''Application Administrator'',
      dro_TemplateID = ''9b895d92-2cd3-44c7-9d02-a6ac2d5ea5c3''\<rparr>,
     \<lparr>dro_ID = ''bbbbbbbb-bbbb-bbbb-bbbb-bbbbbbbbbbbb'', dro_TenantID = tenantID,
      dro_DisplayName = ''User Administrator'', dro_TemplateID = ''fe930be7-5e62-47db-91af-98c3a49a38b1''\<rparr>]"

text \<open>\<open>uuid\<close> is the identifier drawn for the role assignment, \<open>now\<close> the formatted time.\<close>

definition SeedDirectory ::
  "bcrypt \<Rightarrow> string \<Rightarrow> string \<Rightarrow> store \<Rightarrow> string \<Rightarrow> string \<Rightarrow> string \<Rightarrow> unit result \<times> store" where
  "SeedDirectory bc salt1 salt2 s uuid now tenantID =
    (case db_query s (tbl_count (\<lambda>u. usr_TenantID u = tenantID) (tb_users (st_directory s))) of
       Inl e \<Rightarrow> (Inl e, s)
     | Inr n \<Rightarrow>
         if n > 0 then (Inr (), s)
         else run_inserts
           [put_directory (\<lambda>d. map_option (\<lambda>t. d\<lparr>tb_users := t\<rparr>)
              (insert_rows usr_ID (seed_users bc salt1 salt2 tenantID) (tb_users d))),
            put_directory (\<lambda>d. map_option (\<lambda>t. d\<lparr>tb_groups := t\<rparr>)
              (insert_rows grp_ID (seed_groups tenantID) (tb_groups d))),
            (\<lambda>s. map_option (\<lambda>t. s\<lparr>tb_group_members := t\<rparr>)
              (insert_rows (\<lambda>r. (gm_group_id r, gm_member_id r))
                [\<lparr>gm_group_id = seed_group, gm_member_id = seed_admin, gm_member_type = ''user''\<rparr>,
                 \<lparr>gm_group_id = seed_group, gm_member_id = seed_nested, gm_member_type = ''group''\<rparr>]
                (tb_group_members s))),
            (\<lambda>s. map_option (\<lambda>t. s\<lparr>tb_entra_apps := t\<rparr>)
              (insert_rows app_key
                [\<lparr>app_TenantID = tenantID, app_AppID = seed_app,
                  app_ObjectID = ''55555555-5555-5555-5555-555555555555'', app_DisplayName = ''Lab App'',
                  app_CreatedAt = now\<rparr>] (tb_entra_apps s))),
            (\<lambda>s. map_option (\<lambda>t. s\<lparr>tb_service_principals := t\<rparr>)
              (insert_rows sp_ID
                [\<lparr>sp_ID = ''77777777-7777-7777-7777-777777777777'', sp_TenantID = tenantID,
                  sp_AppID = seed_app, sp_DisplayName = ''Lab App''\<rparr>] (tb_service_principals s))),
            put_directory (\<lambda>d. map_option (\<lambda>t. d\<lparr>tb_directory_roles := t\<rparr>)
              (insert_rows dro_ID (seed_roles tenantID) (tb_directory_roles d))),
            put_directory (\<lambda>d. map_option (\<lambda>t. d\<lparr>tb_role_members := t\<rparr>)
              (insert_rows (\<lambda>r. r) [(seed_global_admins, seed_admin)] (tb_role_members d))),
            put_directory (\<lambda>d. map_option (\<lambda>t. d\<lparr>tb_unified_assignments := t\<rparr>)
              (insert_rows ura_id
                [\<lparr>ura_id = uuid, ura_principal_id = seed_admin, ura_role_definition_id = seed_global_admins,
                  ura_directory_scope_id = ''/''\<rparr>] (tb_unified_assignments d))),
            put_directory (\<lambda>d. map_option (\<lambda>t. d\<lparr>tb_management_groups := t\<rparr>)
              (insert_rows mgr_id
                [\<lparr>mgr_id = SeededManagementGroupID, mgr_display_name = ''Tenant Root Group'',
                  mgr_tenant_id = tenantID, mgr_parent_id = []\<rparr>] (tb_management_groups d)))] s)"

end
