(* ===== verification/Store_Credentials.thy ===== *)
theory Store_Credentials
  imports Store_Directory Store_Data
begin

text \<open>
  Credentials in the store: client secrets, key credentials, federated credentials with the
  expressions they match (\<open>directory.go\<close>, \<open>fic_match.go\<close>), Conditional Access policies, refresh
  tokens and device codes (\<open>directory.go\<close>), signing keys and managed identities
  (\<open>identity_extra.go\<close>). Times are nanoseconds of the Unix epoch, stored as seconds.
\<close>

section \<open>Client secrets and keys\<close>

definition AddPassword ::
  "store \<Rightarrow> string \<Rightarrow> string \<Rightarrow> string \<Rightarrow> string \<Rightarrow> string \<Rightarrow> string \<Rightarrow> string result \<times> store" where
  "AddPassword s uuid resourceID resourceType displayName secretHash hint =
    (let d = st_credentials s in
     cred_exec s uuid (d\<lparr>tb_passwords := tb_passwords d @
       [\<lparr>pwd_id = uuid, pwd_resource_id = resourceID, pwd_resource_type = resourceType,
         pwd_display_name = displayName, pwd_secret_hash = secretHash, pwd_hint = hint\<rparr>]\<rparr>))"

text \<open>The identifiers that are asked for: trimmed, without the empty ones and repetitions.\<close>

definition distinct_ids :: "string list \<Rightarrow> string list" where
  "distinct_ids ids = rev (foldl (\<lambda>acc i. if i = [] \<or> i \<in> set acc then acc else i # acc) [] (map trim_space ids))"

definition PasswordHashExists :: "store \<Rightarrow> string list \<Rightarrow> string \<Rightarrow> bool result" where
  "PasswordHashExists s resourceIDs secretHash =
    (if secretHash = [] \<or> distinct_ids resourceIDs = [] then Inr False
     else db_query s (list_ex (\<lambda>r. pwd_secret_hash r = secretHash \<and> pwd_resource_id r \<in> set (distinct_ids resourceIDs))
       (tb_passwords (st_credentials s))))"

definition PasswordSecretMatches :: "stdlib \<Rightarrow> bcrypt \<Rightarrow> store \<Rightarrow> string list \<Rightarrow> string \<Rightarrow> bool result" where
  "PasswordSecretMatches lib bc s resourceIDs secret =
    (if secret = [] \<or> distinct_ids resourceIDs = [] then Inr False
     else db_query s (list_ex (\<lambda>r. MatchPasswordHash lib bc (pwd_secret_hash r) secret)
       (filter (\<lambda>r. pwd_resource_id r \<in> set (distinct_ids resourceIDs)) (tb_passwords (st_credentials s)))))"

definition CountKeyCredentials :: "store \<Rightarrow> string \<Rightarrow> nat result" where
  "CountKeyCredentials s resourceID =
    db_query s (tbl_count (\<lambda>r. kcr_resource_id r = resourceID) (tb_key_credentials (st_credentials s)))"

definition AddKeyCredential ::
  "store \<Rightarrow> string \<Rightarrow> string \<Rightarrow> string \<Rightarrow> string \<Rightarrow> string \<Rightarrow> string \<Rightarrow> string result \<times> store" where
  "AddKeyCredential s uuid resourceID resourceType keyPEM usage keyType =
    (let d = st_credentials s in
     cred_exec s uuid (d\<lparr>tb_key_credentials := tb_key_credentials d @
       [\<lparr>kcr_id = uuid, kcr_resource_id = resourceID, kcr_resource_type = resourceType, kcr_key_pem = keyPEM,
         kcr_usage = (if usage = [] then ''Verify'' else usage),
         kcr_key_type = (if keyType = [] then ''AsymmetricX509Cert'' else keyType)\<rparr>]\<rparr>))"

definition ListKeyPEMs :: "store \<Rightarrow> string \<Rightarrow> string list result" where
  "ListKeyPEMs s resourceID =
    db_query s (map kcr_key_pem
      (filter (\<lambda>r. kcr_resource_id r = resourceID) (tb_key_credentials (st_credentials s))))"

section \<open>Expressions of federated credentials\<close>

fun index_of :: "string \<Rightarrow> string \<Rightarrow> nat option" where
  \<comment> \<open>\<open>strings.Index\<close>; \<open>None\<close> is Go's -1\<close>
  "index_of [] t = (if t = [] then Some 0 else None)"
| "index_of (x # xs) t = (if has_prefix (x # xs) t then Some 0 else map_option Suc (index_of xs t))"

definition last_index :: "string \<Rightarrow> char \<Rightarrow> nat option" where
  \<comment> \<open>\<open>strings.LastIndexByte\<close>\<close>
  "last_index s c = map_option (\<lambda>i. length s - 1 - i) (index_byte (rev s) c)"

definition claimString :: "json \<Rightarrow> string \<Rightarrow> string" where
  "claimString claims key = (case json_field claims key of Some (JStr v) \<Rightarrow> v | _ \<Rightarrow> [])"

text \<open>The value of a stored expression: the field of an object, or the text itself.\<close>

definition ficExpressionValue :: "stdlib \<Rightarrow> string \<Rightarrow> string" where
  "ficExpressionValue lib raw0 =
    (let raw = trim_space raw0;
         decoded = (case json_parse lib raw of
             Inl e \<Rightarrow> []
           | Inr j \<Rightarrow> (let (m, ok) = decode_strings [''value''] (Some j) in
               if ok then trim_space (m ''value'') else [])) in
     if raw = [] \<or> raw = ''null'' then []
     else if decoded \<noteq> [] then decoded
     else if has_prefix raw ''{'' then []
     else raw)"

text \<open>
  \<open>globMatch\<close> builds a regular expression in which \<open>*\<close> stands for any characters but a newline and
  \<open>?\<close> for one of them, on ASCII patterns and values.
\<close>

fun globMatch :: "string \<Rightarrow> string \<Rightarrow> bool" where
  "globMatch [] v = (v = [])"
| "globMatch (p # ps) [] = (p = CHR ''*'' \<and> globMatch ps [])"
| "globMatch (p # ps) (c # cs) =
    (if p = CHR ''*'' then globMatch ps (c # cs) \<or> c \<noteq> CHR 0x0A \<and> globMatch (p # ps) cs
     else (if p = CHR ''?'' then c \<noteq> CHR 0x0A else p = c) \<and> globMatch ps cs)"

text \<open>
  Splitting at the word and, in either case, wherever it stands, inside quotes as well. What is
  split off is shorter, so the fuel \<open>length expr\<close> is enough (lemma \<open>split_and_fuel\<close>).
\<close>

fun split_and :: "nat \<Rightarrow> string \<Rightarrow> string list" where
  "split_and 0 expr = [expr]"
| "split_and (Suc n) expr =
    (case index_of (to_lower expr) '' and '' of
       None \<Rightarrow> [expr]
     | Some i \<Rightarrow> take i expr # split_and n (drop (i + 5) expr))"

definition splitAndClauses :: "string \<Rightarrow> string list" where
  "splitAndClauses expr = split_and (length expr) expr"

text \<open>The key, the operator and the wanted value.\<close>

definition parseFICClause :: "string \<Rightarrow> (string \<times> string \<times> string) option" where
  "parseFICClause clause0 =
    (let clause = trim_space clause0; rest = drop 7 clause in
     if \<not> has_prefix (to_lower clause) ''claims['' then None
     else (case rest of
       [] \<Rightarrow> None
     | quote # rest \<Rightarrow>
         if quote \<noteq> CHR 0x27 \<and> quote \<noteq> CHR 0x22 then None
         else (case index_byte rest quote of
           None \<Rightarrow> None
         | Some endKey \<Rightarrow>
             (let key = take endKey rest; rest = trim_space (drop (endKey + 1) rest) in
              if \<not> has_prefix rest '']'' then None
              else (let rest = trim_space (drop 1 rest) in
                (case index_byte rest CHR '' '' of
                   None \<Rightarrow> None
                 | Some opEnd \<Rightarrow>
                     (let op = take opEnd rest; rest = trim_space (drop (opEnd + 1) rest) in
                      (case rest of
                         [] \<Rightarrow> None
                       | q # rest \<Rightarrow>
                           if q \<noteq> CHR 0x27 \<and> q \<noteq> CHR 0x22 then None
                           else (case last_index rest q of
                               None \<Rightarrow> None
                             | Some endVal \<Rightarrow>
                                 if key \<noteq> [] \<and> op \<noteq> [] then Some (key, op, take endVal rest) else None)))))))))"

definition evalFICClause :: "string \<Rightarrow> json \<Rightarrow> bool" where
  "evalFICClause clause claims =
    (case parseFICClause clause of
       None \<Rightarrow> False
     | Some (key, op, want) \<Rightarrow>
         if to_lower op = ''eq'' then claimString claims key = want
         else if to_lower op = ''matches'' then globMatch want (claimString claims key)
         else False)"

definition EvaluateClaimsMatchingExpression :: "string \<Rightarrow> json \<Rightarrow> bool" where
  "EvaluateClaimsMatchingExpression expr0 claims =
    (let expr = trim_space expr0 in
     if expr = [] then False
     else list_all (\<lambda>part. evalFICClause (trim_space part) claims) (splitAndClauses expr))"

section \<open>Federated credentials\<close>

text \<open>\<open>url.Parse\<close> as it is used: the scheme, the host and the decoded path.\<close>

type_synonym url_parser = "string \<Rightarrow> (string \<times> string \<times> string) option"

definition OIDCLabPathPrefixes :: "string list" where
  "OIDCLabPathPrefixes = [''/_noctaxris-az/oidc-lab'', ''/_lab/oidc-lab'']"

definition LabOIDCIssuerPath :: "url_parser \<Rightarrow> string \<Rightarrow> string option" where
  "LabOIDCIssuerPath url raw =
    (case url (trim_space raw) of
       None \<Rightarrow> None
     | Some (scheme, host, path) \<Rightarrow>
         if scheme = [] \<or> host = [] \<or> scheme \<noteq> ''http'' \<and> scheme \<noteq> ''https'' then None
         else find (\<lambda>pref. trim_right_char CHR ''/'' path = pref) OIDCLabPathPrefixes)"

definition LabOIDCIssuersMatch :: "url_parser \<Rightarrow> string \<Rightarrow> string \<Rightarrow> bool" where
  "LabOIDCIssuersMatch url stored presented =
    (if stored = presented then True
     else (case (LabOIDCIssuerPath url stored, LabOIDCIssuerPath url presented) of
         (Some sp, Some pp) \<Rightarrow> sp = pp
       | _ \<Rightarrow> False))"

definition ListFICs :: "store \<Rightarrow> string \<Rightarrow> FederatedIdentityCredential list result" where
  "ListFICs s appObjectID =
    db_query s (filter (\<lambda>f. fic_AppObjectID f = appObjectID) (tb_fics (st_credentials s)))"

definition CreateFIC ::
  "store \<Rightarrow> string \<Rightarrow> string \<Rightarrow> string \<Rightarrow> string \<Rightarrow> string \<Rightarrow> string list \<Rightarrow> string \<Rightarrow>
    FederatedIdentityCredential result \<times> store" where
  "CreateFIC s uuid appObjectID name issuer subject audiences expr =
    (let d = st_credentials s;
         f = \<lparr>fic_ID = uuid, fic_AppObjectID = appObjectID, fic_Name = name, fic_Issuer = issuer,
              fic_Subject = subject,
              fic_Audiences = (if audiences = [] then [''api://AzureADTokenExchange''] else audiences),
              fic_ClaimsMatchingExpression = expr\<rparr> in
     cred_exec s f (d\<lparr>tb_fics := tb_fics d @ [f]\<rparr>))"

definition audienceAllowed :: "string list \<Rightarrow> string \<Rightarrow> bool" where
  "audienceAllowed audiences audience = (audience = [] \<or> audience \<in> set audiences)"

text \<open>One turn of the loop of \<open>MatchFIC\<close>.\<close>

definition fic_matches :: "stdlib \<Rightarrow> url_parser \<Rightarrow> string \<Rightarrow> string \<Rightarrow> json \<Rightarrow> string list \<Rightarrow>
    FederatedIdentityCredential \<Rightarrow> bool" where
  "fic_matches lib url issuer audience claims allowed f =
    (if allowed \<noteq> [] \<and> fic_AppObjectID f \<notin> set allowed then False
     else if \<not> LabOIDCIssuersMatch url (fic_Issuer f) issuer then False
     else if audience \<noteq> [] \<and> \<not> audienceAllowed (fic_Audiences f) audience then False
     else let expr = ficExpressionValue lib (fic_ClaimsMatchingExpression f) in
       if expr \<noteq> [] then EvaluateClaimsMatchingExpression expr claims
       else fic_Subject f = claimString claims ''sub'')"

definition MatchFIC ::
  "stdlib \<Rightarrow> url_parser \<Rightarrow> store \<Rightarrow> string \<Rightarrow> string \<Rightarrow> json \<Rightarrow> string list \<Rightarrow>
    FederatedIdentityCredential option result" where
  "MatchFIC lib url s issuer audience claims appObjectIDs =
    (let allowed = filter (\<lambda>i. i \<noteq> []) (map trim_space appObjectIDs) in
     db_query s (find (fic_matches lib url issuer audience claims allowed) (tb_fics (st_credentials s))))"

definition FindFIC ::
  "stdlib \<Rightarrow> url_parser \<Rightarrow> store \<Rightarrow> string \<Rightarrow> string \<Rightarrow> string \<Rightarrow> FederatedIdentityCredential option result" where
  "FindFIC lib url s issuer subject audience =
    MatchFIC lib url s issuer audience (JObj [(''sub'', JStr subject)]) []"

section \<open>Conditional Access policies\<close>

definition UpsertCAPolicy ::
  "store \<Rightarrow> string \<Rightarrow> string \<Rightarrow> string \<Rightarrow> json \<Rightarrow> bool \<Rightarrow> string result \<times> store" where
  "UpsertCAPolicy s uuid id0 displayName body enabled =
    (let i = (if id0 = [] then uuid else id0); d = st_credentials s in
     cred_exec s i (d\<lparr>tb_ca_policies := tbl_upsert cap_id (\<lambda>old new. new)
       \<lparr>cap_id = i, cap_display_name = displayName, cap_body = body, cap_enabled = enabled\<rparr>
       (tb_ca_policies d)\<rparr>))"

definition enabledState :: "bool \<Rightarrow> string" where
  "enabledState en = (if en then ''enabled'' else ''disabled'')"

definition ca_policy_json :: "ca_policy \<Rightarrow> json" where
  "ca_policy_json r = JObj [(''id'', JStr (cap_id r)), (''displayName'', JStr (cap_display_name r)),
     (''state'', JStr (enabledState (cap_enabled r))), (''conditions'', cap_body r)]"

definition ListCAPolicies :: "store \<Rightarrow> json list result" where
  "ListCAPolicies s = db_query s (map ca_policy_json (tb_ca_policies (st_credentials s)))"

section \<open>Refresh tokens and device codes\<close>

definition nanos :: int where
  "nanos = 1000000000"

definition PutRefreshToken :: "store \<Rightarrow> string \<Rightarrow> string \<Rightarrow> string \<Rightarrow> int \<Rightarrow> unit result \<times> store" where
  "PutRefreshToken s tokenHash principalID audience exp =
    (let d = st_credentials s in
     cred_exec s () (d\<lparr>tb_refresh_tokens := tbl_upsert rft_token_hash (\<lambda>old new. new)
       \<lparr>rft_token_hash = tokenHash, rft_principal_id = principalID, rft_audience = trim_space audience,
        rft_expires_at = exp div nanos\<rparr> (tb_refresh_tokens d)\<rparr>))"

text \<open>The principal and the audience.\<close>

definition LookupRefreshToken :: "store \<Rightarrow> string \<Rightarrow> int \<Rightarrow> (string \<times> string) option result" where
  "LookupRefreshToken s tokenHash now =
    db_query s (case tbl_get rft_token_hash (tb_refresh_tokens (st_credentials s)) tokenHash of
        None \<Rightarrow> None
      | Some r \<Rightarrow> if now > rft_expires_at r * nanos then None
          else Some (rft_principal_id r, rft_audience r))"

definition PutDeviceCode :: "stdlib \<Rightarrow> store \<Rightarrow> string \<Rightarrow> string \<Rightarrow> int \<Rightarrow> unit result \<times> store" where
  "PutDeviceCode lib s code userCode exp =
    (let d = st_credentials s in
     cred_exec s () (d\<lparr>tb_device_codes := tbl_upsert dvc_device_code (\<lambda>old new. new)
       \<lparr>dvc_device_code = opaqueHash lib code, dvc_principal_id = [],
        dvc_user_code = to_upper (trim_space userCode), dvc_approved = False,
        dvc_expires_at = exp div nanos\<rparr> (tb_device_codes d)\<rparr>))"

definition ApproveDeviceCode :: "store \<Rightarrow> string \<Rightarrow> string \<Rightarrow> int \<Rightarrow> bool result \<times> store" where
  "ApproveDeviceCode s userCode0 principalID0 now =
    (let userCode = to_upper (trim_space userCode0); principalID = trim_space principalID0;
         d = st_credentials s;
         hit = (\<lambda>r. dvc_user_code r = userCode \<and> \<not> dvc_approved r \<and> dvc_expires_at r > now div nanos) in
     if userCode = [] \<or> principalID = [] then (Inr False, s)
     else cred_exec s (tbl_count hit (tb_device_codes d) > 0)
       (d\<lparr>tb_device_codes := map (\<lambda>r. if hit r then r\<lparr>dvc_principal_id := principalID, dvc_approved := True\<rparr> else r)
          (tb_device_codes d)\<rparr>))"

text \<open>The principal and whether it approved.\<close>

definition LookupDeviceCode :: "stdlib \<Rightarrow> store \<Rightarrow> string \<Rightarrow> int \<Rightarrow> (string \<times> bool) option result" where
  "LookupDeviceCode lib s code now =
    db_query s (case tbl_get dvc_device_code (tb_device_codes (st_credentials s)) (opaqueHash lib code) of
        None \<Rightarrow> None
      | Some r \<Rightarrow> if now > dvc_expires_at r * nanos then None
          else Some (dvc_principal_id r, dvc_approved r))"

section \<open>Signing keys\<close>

text \<open>
  The functions of \<open>encoding/pem\<close> and \<open>crypto/x509\<close> that are called. Keys are opaque; a PKCS8 key,
  a certificate or a public key in PKIX form may hold a key that is no RSA key, \<open>None\<close>.
\<close>

record x509 =
  x5_pem_decode :: "string \<Rightarrow> string option"
  x5_pem_encode :: "string \<Rightarrow> string"
  x5_marshal :: "string \<Rightarrow> string"
  x5_pkcs1 :: "string \<Rightarrow> string result"
  x5_pkcs8 :: "string \<Rightarrow> string option result"
  x5_certificate :: "string \<Rightarrow> string option result"
  x5_pkix :: "string \<Rightarrow> string option result"
  x5_pkcs1_public :: "string \<Rightarrow> string result"
  x5_public :: "string \<Rightarrow> string"

definition unseal_signing_key :: "crypto \<Rightarrow> x509 \<Rightarrow> string \<Rightarrow> string \<Rightarrow> string result" where
  "unseal_signing_key c x what sealed =
    (case Unseal c (cr_master c) sealed of
       Inl e \<Rightarrow> Inl (''unseal '' @ what @ '' signing key: '' @ e)
     | Inr plain \<Rightarrow> (case x5_pem_decode x plain of
         None \<Rightarrow> Inl (''unseal '' @ what @ '' signing key: invalid PEM'')
       | Some block \<Rightarrow> (case x5_pkcs1 x block of
           Inr key \<Rightarrow> Inr key
         | Inl perr \<Rightarrow> (case x5_pkcs8 x block of
             Inl e \<Rightarrow> Inl (''parse '' @ what @ '' signing key: '' @ perr)
           | Inr None \<Rightarrow> Inl (what @ '' signing key is not RSA'')
           | Inr (Some key) \<Rightarrow> Inr key))))"

text \<open>
  Loading the row or inserting a fresh key: \<open>generated\<close> is the key \<open>rsa.GenerateKey\<close> made, \<open>kid\<close> its
  identifier.
\<close>

definition insert_signing_key ::
  "crypto \<Rightarrow> x509 \<Rightarrow> store \<Rightarrow> string \<Rightarrow> string \<Rightarrow> string \<Rightarrow> int \<Rightarrow> (string \<times> string) result \<times> store" where
  "insert_signing_key c x s kid generated nonce now =
    (let d = st_credentials s in
     cred_exec s (kid, generated) (d\<lparr>tb_signing_keys := tb_signing_keys d @
       [\<lparr>sgk_kid = kid, sgk_sealed = Seal c (cr_master c) nonce (x5_pem_encode x (x5_marshal x generated)),
         sgk_created_at = now div nanos\<rparr>]\<rparr>))"

definition oidcLabKid :: string where
  "oidcLabKid = ''oidc-lab''"

definition EnsureEntraSigningKey ::
  "crypto \<Rightarrow> x509 \<Rightarrow> store \<Rightarrow> string \<Rightarrow> string \<Rightarrow> string \<Rightarrow> int \<Rightarrow> (string \<times> string) result \<times> store" where
  "EnsureEntraSigningKey c x s uuid generated nonce now =
    (case db_query s (sort_key sgk_created_at
        (filter (\<lambda>r. sgk_kid r \<noteq> oidcLabKid) (tb_signing_keys (st_credentials s)))) of
       Inl e \<Rightarrow> (Inl e, s)
     | Inr (r # rs) \<Rightarrow> (map_sum id (\<lambda>key. (sgk_kid r, key)) (unseal_signing_key c x ''entra'' (sgk_sealed r)), s)
     | Inr [] \<Rightarrow> insert_signing_key c x s uuid generated nonce now)"

definition EnsureOIDCLabSigningKey ::
  "crypto \<Rightarrow> x509 \<Rightarrow> store \<Rightarrow> string \<Rightarrow> string \<Rightarrow> int \<Rightarrow> (string \<times> string) result \<times> store" where
  "EnsureOIDCLabSigningKey c x s generated nonce now =
    (case db_query s (tbl_get sgk_kid (tb_signing_keys (st_credentials s)) oidcLabKid) of
       Inl e \<Rightarrow> (Inl e, s)
     | Inr (Some r) \<Rightarrow> (map_sum id (\<lambda>key. (sgk_kid r, key)) (unseal_signing_key c x ''oidc-lab'' (sgk_sealed r)), s)
     | Inr None \<Rightarrow> insert_signing_key c x s oidcLabKid generated nonce now)"

section \<open>Managed identities\<close>

definition mid_key :: "identity_row \<Rightarrow> string \<times> string \<times> string" where
  "mid_key r = (mid_subscription_id r, mid_resource_group r, mid_name r)"

definition UpsertManagedIdentity ::
  "store \<Rightarrow> string \<Rightarrow> string \<Rightarrow> string \<Rightarrow> string \<Rightarrow> string \<Rightarrow> string \<Rightarrow> unit result \<times> store" where
  "UpsertManagedIdentity s subID rg name location principalID clientID =
    (let d = st_credentials s in
     cred_exec s () (d\<lparr>tb_managed_identities := tbl_upsert mid_key (\<lambda>old new. new)
       \<lparr>mid_subscription_id = subID, mid_resource_group = rg, mid_name = name,
        mid_location = default_location location, mid_principal_id = principalID, mid_client_id = clientID\<rparr>
       (tb_managed_identities d)\<rparr>))"

definition GetManagedIdentity :: "store \<Rightarrow> string \<Rightarrow> string \<Rightarrow> string \<Rightarrow> identity_row option result" where
  "GetManagedIdentity s subID rg name =
    db_query s (tbl_get mid_key (tb_managed_identities (st_credentials s)) (subID, rg, name))"

definition DeleteManagedIdentity :: "store \<Rightarrow> string \<Rightarrow> string \<Rightarrow> string \<Rightarrow> bool result \<times> store" where
  "DeleteManagedIdentity s subID rg name =
    (let d = st_credentials s; hit = (\<lambda>r. mid_key r = (subID, rg, name)) in
     cred_exec s (tbl_count hit (tb_managed_identities d) > 0)
       (d\<lparr>tb_managed_identities := tbl_delete hit (tb_managed_identities d)\<rparr>))"

definition identities_of_group :: "identity_row list \<Rightarrow> string \<Rightarrow> string \<Rightarrow> identity_row list" where
  "identities_of_group rows subID rg =
    sort_key mid_name (filter (\<lambda>r. mid_subscription_id r = subID \<and> mid_resource_group r = rg) rows)"

definition ListManagedIdentities :: "store \<Rightarrow> string \<Rightarrow> string \<Rightarrow> identity_row list result" where
  "ListManagedIdentities s subID rg =
    db_query s (identities_of_group (tb_managed_identities (st_credentials s)) subID rg)"

text \<open>The principal and the name.\<close>

definition FindManagedIdentityByClientID :: "store \<Rightarrow> string \<Rightarrow> (string \<times> string) option result" where
  "FindManagedIdentityByClientID s clientID =
    db_query s (map_option (\<lambda>r. (mid_principal_id r, mid_name r))
      (find (\<lambda>r. mid_client_id r = clientID) (tb_managed_identities (st_credentials s))))"

text \<open>The client and the name.\<close>

definition FindManagedIdentityByPrincipalID :: "store \<Rightarrow> string \<Rightarrow> (string \<times> string) option result" where
  "FindManagedIdentityByPrincipalID s principalID =
    db_query s (map_option (\<lambda>r. (mid_client_id r, mid_name r))
      (find (\<lambda>r. mid_principal_id r = principalID) (tb_managed_identities (st_credentials s))))"

definition UpsertSystemAssignedIdentity ::
  "store \<Rightarrow> string \<Rightarrow> string \<Rightarrow> string \<Rightarrow> string \<Rightarrow> string \<Rightarrow> string \<Rightarrow> unit result \<times> store" where
  "UpsertSystemAssignedIdentity s subID rg name location principalID clientID =
    (let d = st_credentials s in
     cred_exec s () (d\<lparr>tb_system_identities := tbl_upsert mid_key
       (\<lambda>old new. old\<lparr>mid_location := mid_location new\<rparr>)
       \<lparr>mid_subscription_id = subID, mid_resource_group = rg, mid_name = name,
        mid_location = default_location location, mid_principal_id = principalID, mid_client_id = clientID\<rparr>
       (tb_system_identities d)\<rparr>))"

definition GetSystemAssignedIdentity :: "store \<Rightarrow> string \<Rightarrow> string \<Rightarrow> string \<Rightarrow> identity_row option result" where
  "GetSystemAssignedIdentity s subID rg name =
    db_query s (tbl_get mid_key (tb_system_identities (st_credentials s)) (subID, rg, name))"

definition DeleteSystemAssignedIdentity :: "store \<Rightarrow> string \<Rightarrow> string \<Rightarrow> string \<Rightarrow> bool result \<times> store" where
  "DeleteSystemAssignedIdentity s subID rg name =
    (let d = st_credentials s; hit = (\<lambda>r. mid_key r = (subID, rg, name)) in
     cred_exec s (tbl_count hit (tb_system_identities d) > 0)
       (d\<lparr>tb_system_identities := tbl_delete hit (tb_system_identities d)\<rparr>))"

definition ListSystemAssignedIdentities :: "store \<Rightarrow> string \<Rightarrow> string \<Rightarrow> identity_row list result" where
  "ListSystemAssignedIdentities s subID rg =
    db_query s (identities_of_group (tb_system_identities (st_credentials s)) subID rg)"

definition CountSystemAssignedIdentities :: "store \<Rightarrow> nat result" where
  "CountSystemAssignedIdentities s = db_query s (length (tb_system_identities (st_credentials s)))"

text \<open>The principal and the client.\<close>

definition system_ids :: "identity_row \<Rightarrow> string \<times> string" where
  "system_ids r = (mid_principal_id r, mid_client_id r)"

definition FirstSystemAssignedIdentity :: "store \<Rightarrow> (string \<times> string) option result" where
  "FirstSystemAssignedIdentity s =
    db_query s (map_option system_ids (find (\<lambda>r. True) (tb_system_identities (st_credentials s))))"

definition FindSystemAssignedByClientID :: "store \<Rightarrow> string \<Rightarrow> (string \<times> string) option result" where
  "FindSystemAssignedByClientID s clientID =
    db_query s (map_option system_ids
      (find (\<lambda>r. mid_client_id r = clientID) (tb_system_identities (st_credentials s))))"

definition FindSystemAssignedByPrincipalID :: "store \<Rightarrow> string \<Rightarrow> string option result" where
  "FindSystemAssignedByPrincipalID s principalID =
    db_query s (map_option mid_client_id
      (find (\<lambda>r. mid_principal_id r = principalID) (tb_system_identities (st_credentials s))))"

end
