(* ===== verification/Store_Observed.thy ===== *)
theory Store_Observed
  imports Store_Credentials
begin

text \<open>
  What the store records of the laboratory: the activity log and metrics (\<open>app_observe.go\<close>), log
  tables with their query language (\<open>loganalytics.go\<close>), diagnostic settings, the resources of
  Resource Graph and captured mail (\<open>directory.go\<close>, \<open>app_observe.go\<close>).
\<close>

section \<open>The activity log and metrics\<close>

text \<open>A row without a time gets \<open>clock\<close>, the time of the wall.\<close>

definition AppendActivityLogRow :: "store \<Rightarrow> int \<Rightarrow> activity_row \<Rightarrow> unit result \<times> store" where
  "AppendActivityLogRow s clock row =
    db_exec s () (s\<lparr>tb_activity_log := tb_activity_log s @
      [row\<lparr>act_timestamp := (if act_timestamp row = zero_time then clock else act_timestamp row)\<rparr>]\<rparr>)"

definition ActivityLogDefaultLimit :: nat where
  "ActivityLogDefaultLimit = 1000"

definition newest :: "nat \<Rightarrow> 'r list \<Rightarrow> 'r list" where
  \<comment> \<open>\<open>ORDER BY id DESC LIMIT n\<close>\<close>
  "newest n rows = take n (rev rows)"

definition ListActivityLog :: "store \<Rightarrow> nat \<Rightarrow> activity_row list result" where
  "ListActivityLog s limit =
    db_query s (newest (if limit = 0 then ActivityLogDefaultLimit else limit) (tb_activity_log s))"

definition in_subscription :: "string \<Rightarrow> string \<Rightarrow> bool" where
  \<comment> \<open>\<open>resource_id = ? OR resource_id LIKE ?\<close>\<close>
  "in_subscription sub rid =
    (let prefix = ''/subscriptions/'' @ sub in rid = prefix \<or> sql_like (likePrefixChildren prefix) rid)"

definition ListActivityLogForSubscription :: "store \<Rightarrow> string \<Rightarrow> nat \<Rightarrow> activity_row list result" where
  "ListActivityLogForSubscription s sub0 limit =
    (let sub = trim_space sub0 in
     if sub = [] then Inr []
     else db_query s (newest (if limit = 0 then ActivityLogDefaultLimit else limit)
       (filter (\<lambda>r. in_subscription sub (act_resource_id r)) (tb_activity_log s))))"

definition WriteMetric :: "store \<Rightarrow> int \<Rightarrow> string \<Rightarrow> int \<Rightarrow> string \<Rightarrow> unit result \<times> store" where
  "WriteMetric s clock name v resourceID =
    (let d = st_observations s in
     obs_exec s () (d\<lparr>tb_metrics := tb_metrics d @
       [\<lparr>mtr_name = name, mtr_value = v, mtr_timestamp = clock div nanos, mtr_resource_id = resourceID\<rparr>]\<rparr>))"

definition ListMetricsForSubscription :: "store \<Rightarrow> string \<Rightarrow> string \<Rightarrow> nat \<Rightarrow> metric_row list result" where
  "ListMetricsForSubscription s sub0 name limit =
    (let sub = trim_space sub0 in
     db_query s (newest (if limit = 0 then 50 else limit)
       (filter (\<lambda>r. (name = [] \<or> mtr_name r = name) \<and> (sub = [] \<or> in_subscription sub (mtr_resource_id r)))
         (tb_metrics (st_observations s)))))"

definition ListMetrics :: "store \<Rightarrow> string \<Rightarrow> nat \<Rightarrow> metric_row list result" where
  "ListMetrics s name limit = ListMetricsForSubscription s [] name limit"

section \<open>Diagnostic settings, Resource Graph, mail\<close>

definition UpsertDiagnosticSetting ::
  "store \<Rightarrow> string \<Rightarrow> string \<Rightarrow> string \<Rightarrow> string \<Rightarrow> json \<Rightarrow> unit result \<times> store" where
  "UpsertDiagnosticSetting s i resourceID name workspaceID props =
    (let d = st_observations s in
     obs_exec s () (d\<lparr>tb_diagnostics := tbl_upsert dgs_id
       (\<lambda>old new. old\<lparr>dgs_properties := dgs_properties new, dgs_workspace_id := dgs_workspace_id new\<rparr>)
       \<lparr>dgs_id = i, dgs_resource_id = resourceID, dgs_name = name, dgs_workspace_id = workspaceID,
        dgs_properties = props\<rparr> (tb_diagnostics d)\<rparr>))"

definition GetDiagnosticSetting :: "store \<Rightarrow> string \<Rightarrow> diagnostic_setting option result" where
  "GetDiagnosticSetting s i = db_query s (tbl_get dgs_id (tb_diagnostics (st_observations s)) i)"

text \<open>\<open>False\<close> is the error \<open>sql.ErrNoRows\<close> of the code.\<close>

definition DeleteDiagnosticSetting :: "store \<Rightarrow> string \<Rightarrow> bool result \<times> store" where
  "DeleteDiagnosticSetting s i =
    (let d = st_observations s; hit = (\<lambda>r. dgs_id r = i) in
     obs_exec s (tbl_count hit (tb_diagnostics d) \<noteq> 0)
       (d\<lparr>tb_diagnostics := tbl_delete hit (tb_diagnostics d)\<rparr>))"

definition ListDiagnosticSettings :: "store \<Rightarrow> string \<Rightarrow> diagnostic_setting list result" where
  "ListDiagnosticSettings s resourceID =
    db_query s (filter (\<lambda>r. dgs_resource_id r = resourceID \<or> resourceID = []) (tb_diagnostics (st_observations s)))"

definition UpsertARGResource ::
  "store \<Rightarrow> string \<Rightarrow> string \<Rightarrow> string \<Rightarrow> string \<Rightarrow> string \<Rightarrow> string \<Rightarrow> string \<Rightarrow> json \<Rightarrow> unit result \<times> store" where
  "UpsertARGResource s i tableName typ0 name sub rg tenant props =
    (let d = st_observations s in
     obs_exec s () (d\<lparr>tb_arg_resources := tbl_upsert arg_id
       (\<lambda>old new. old\<lparr>arg_properties := arg_properties new, arg_type := arg_type new\<rparr>)
       \<lparr>arg_id = i, arg_table_name = tableName, arg_type = typ0, arg_name = name, arg_subscription_id = sub,
        arg_resource_group = rg, arg_tenant_id = tenant, arg_properties = props\<rparr> (tb_arg_resources d)\<rparr>))"

definition ListARGResources :: "store \<Rightarrow> string \<Rightarrow> string \<Rightarrow> arg_resource list result" where
  "ListARGResources s tableName typeFilter =
    db_query s (filter (\<lambda>r. (tableName = [] \<or> to_lower (arg_table_name r) = to_lower tableName) \<and>
        (typeFilter = [] \<or> to_lower (arg_type r) = to_lower typeFilter))
      (tb_arg_resources (st_observations s)))"

definition CaptureEmail :: "store \<Rightarrow> string \<Rightarrow> string \<Rightarrow> string \<Rightarrow> string \<Rightarrow> unit result \<times> store" where
  "CaptureEmail s service to subject body =
    (let d = st_observations s in
     obs_exec s () (d\<lparr>tb_emails := tb_emails d @
       [\<lparr>eml_service_name = service, eml_to_addr = to, eml_subject = subject, eml_body = body\<rparr>]\<rparr>))"

text \<open>\<open>LIKE\<close> without an escape character.\<close>

definition like_plain :: "string \<Rightarrow> string \<Rightarrow> bool" where
  "like_plain pattern t =
    sql_like (concat (map (\<lambda>c. if c = CHR 0x5C then [c, c] else [c]) pattern)) t"

definition ListProviderResourcesInSubscription :: "store \<Rightarrow> string \<Rightarrow> string \<Rightarrow> ProviderResource list result" where
  "ListProviderResourcesInSubscription s provider sub =
    db_query s (sort_key pv_Name (filter (\<lambda>r. pv_SubscriptionID r = sub \<and>
      (pv_Provider r = provider \<or> like_plain (provider @ ''/%'') (pv_Provider r))) (tb_provider s)))"

section \<open>Log tables\<close>

definition NamedLogAnalyticsTables :: "string list" where
  "NamedLogAnalyticsTables =
    [''ApiManagementGatewayLogs'', ''AADManagedIdentitySignInLogs'', ''AADServicePrincipalSignInLogs'',
     ''AzureActivity'', ''ContainerAppSystemLogs'', ''DataPlaneRequests'',
     ''ContainerRegistryRepositoryEvents'']"

definition IsNamedLogAnalyticsTable :: "string \<Rightarrow> bool" where
  "IsNamedLogAnalyticsTable table \<longleftrightarrow> trim_space table \<in> set NamedLogAnalyticsTables"

definition DefaultLogAnalyticsWorkspace :: string where
  "DefaultLogAnalyticsWorkspace = ''default''"

definition InsertLogAnalyticsRow :: "store \<Rightarrow> string \<Rightarrow> string \<Rightarrow> json \<Rightarrow> unit result \<times> store" where
  "InsertLogAnalyticsRow s workspace tableName row =
    (let d = st_observations s in
     obs_exec s () (d\<lparr>tb_log_rows := tb_log_rows d @
       [\<lparr>log_workspace = workspace, log_table_name = tableName, log_row = row\<rparr>]\<rparr>))"

definition IngestLogAnalyticsRow :: "store \<Rightarrow> string \<Rightarrow> string \<Rightarrow> json \<Rightarrow> unit result \<times> store" where
  "IngestLogAnalyticsRow s workspace tableName row = InsertLogAnalyticsRow s workspace tableName row"

text \<open>\<open>fmt.Sprint\<close> of a decoded value; numbers are whole and shorter than 21 digits.\<close>

primrec sprint :: "json \<Rightarrow> string" where
  "sprint JNull = ''<nil>''"
| "sprint (JBool b) = (if b then ''true'' else ''false'')"
| "sprint (JNum n) = format_int n"
| "sprint (JStr t) = t"
| "sprint (JArr xs) = ''['' @ join '' '' (map sprint xs) @ '']''"
| "sprint (JObj kvs) =
    ''map['' @ join '' '' (map (\<lambda>(k, t). k @ '':'' @ t) (sort_key fst (map (map_prod id sprint) kvs))) @ '']''"

definition row_value :: "json \<Rightarrow> string \<Rightarrow> json" where
  "row_value row col = (case json_field row col of None \<Rightarrow> JNull | Some v \<Rightarrow> v)"

definition splitKQLProject :: "string \<Rightarrow> string list" where
  "splitKQLProject raw = filter (\<lambda>c. c \<noteq> []) (map trim_space (split_on CHR '','' raw))"

definition applyKQLProject :: "json list \<Rightarrow> string list \<Rightarrow> json list" where
  "applyKQLProject rows cols =
    (if cols = [] then rows
     else map (\<lambda>row. JObj (concat (map (\<lambda>c. case json_field row c of None \<Rightarrow> [] | Some v \<Rightarrow> [(c, v)])
       (remdups cols)))) rows)"

text \<open>The first of the operators that stands behind the start, in this order.\<close>

fun first_operator :: "string list \<Rightarrow> string \<Rightarrow> (nat \<times> string) option" where
  "first_operator [] cond = None"
| "first_operator (cand # cands) cond =
    (case index_of cond cand of
       Some (Suc i) \<Rightarrow> Some (Suc i, cand)
     | _ \<Rightarrow> first_operator cands cond)"

definition parseKQLCompare :: "string \<Rightarrow> (string \<times> string \<times> string) option" where
  "parseKQLCompare cond0 =
    (let cond = trim_space cond0 in
     case first_operator [''>='', ''<='', ''=='', ''>'', ''<''] cond of
       None \<Rightarrow> None
     | Some (i, cand) \<Rightarrow>
         (let col = trim_space (take i cond); val = trim_space (drop (i + length cand) cond) in
          if col = [] \<or> val = [] then None else Some (col, cand, val)))"

definition rfc3339_nano :: string where
  "rfc3339_nano = ''2006-01-02T15:04:05.999999999Z07:00''"

definition rfc3339 :: string where
  "rfc3339 = ''2006-01-02T15:04:05Z07:00''"

definition parse_time :: "stdlib \<Rightarrow> string \<Rightarrow> int option" where
  "parse_time lib t =
    (case time_parse lib rfc3339_nano t of Some x \<Rightarrow> Some x | None \<Rightarrow> time_parse lib rfc3339 t)"

definition parseKQLTime :: "stdlib \<Rightarrow> string \<Rightarrow> int option" where
  "parseKQLTime lib raw0 =
    (let raw = trim_space raw0;
         raw = (if has_prefix (to_lower raw) ''datetime('' \<and> has_suffix raw '')''
                then trim_space (take (length raw - 10) (drop 9 raw)) else raw) in
     parse_time lib (trim_chars [CHR 0x22, CHR 0x27] raw))"

definition parseRowTime :: "stdlib \<Rightarrow> json \<Rightarrow> int option" where
  "parseRowTime lib v = parse_time lib (trim_space (sprint v))"

definition compareTime :: "int \<Rightarrow> string \<Rightarrow> int \<Rightarrow> bool" where
  "compareTime got op want =
    (if op = ''>='' then got \<ge> want else if op = ''<='' then got \<le> want
     else if op = ''>'' then got > want else if op = ''<'' then got < want
     else if op = ''=='' then got = want else False)"

definition applyKQLWhere :: "stdlib \<Rightarrow> json list \<Rightarrow> string \<Rightarrow> json list" where
  "applyKQLWhere lib rows cond =
    (case parseKQLCompare cond of
       None \<Rightarrow> rows
     | Some (col, op, rawVal) \<Rightarrow>
         if equal_fold col ''TimeGenerated'' then
           (case parseKQLTime lib rawVal of
              None \<Rightarrow> rows
            | Some want \<Rightarrow> filter (\<lambda>row. case parseRowTime lib (row_value row col) of
                  None \<Rightarrow> False | Some got \<Rightarrow> compareTime got op want) rows)
         else if op \<noteq> ''=='' then rows
         else filter (\<lambda>row. sprint (row_value row col) = trim_chars [CHR 0x27, CHR 0x22] rawVal) rows)"

definition scan_int :: "string \<Rightarrow> int" where
  \<comment> \<open>\<open>fmt.Sscanf(s, "%d", &n)\<close> of a trimmed text; \<open>n\<close> stays 0 when there is no number\<close>
  "scan_int t =
    (let (sign, rest) = (case t of c # cs \<Rightarrow> if c = CHR ''-'' \<or> c = CHR ''+'' then ([c], cs) else ([], t)
                                 | [] \<Rightarrow> ([], t)) in
     case parse_int64 (sign @ takeWhile (\<lambda>c. digit_value c \<noteq> None) rest) of None \<Rightarrow> 0 | Some n \<Rightarrow> n)"

definition kql_step :: "stdlib \<Rightarrow> json list \<Rightarrow> string \<Rightarrow> json list" where
  "kql_step lib rows part =
    (let op = trim_space part; lower = to_lower op in
     if has_prefix lower ''take '' then
       (let n = scan_int (trim_space (drop 5 op)) in
        if n > 0 \<and> n < int (length rows) then take (nat n) rows else rows)
     else if has_prefix lower ''where '' then applyKQLWhere lib rows (trim_space (drop 6 op))
     else if has_prefix lower ''project '' then applyKQLProject rows (splitKQLProject (drop 8 op))
     else rows)"

definition QueryLogAnalyticsKQL :: "stdlib \<Rightarrow> store \<Rightarrow> string \<Rightarrow> string \<Rightarrow> json list result" where
  "QueryLogAnalyticsKQL lib s workspace kql =
    (let parts = split_on CHR ''|'' (trim_space kql); table = trim_space (hd parts) in
     if table = [] then Inl ''empty kql''
     else (case db_query s (map log_row (filter (\<lambda>r. log_workspace r = workspace \<and> log_table_name r = table)
           (tb_log_rows (st_observations s)))) of
         Inl e \<Rightarrow> Inl e
       | Inr rows \<Rightarrow> Inr (foldl (kql_step lib) rows (tl parts))))"

section \<open>What a query can answer\<close>

text \<open>
  A query answers with rows of its workspace and table, or with projections of them: whatever it
  shows of a row stands in a stored row of that workspace and that table.
\<close>

definition shows_part_of :: "json \<Rightarrow> json \<Rightarrow> bool" where
  "shows_part_of shown row \<longleftrightarrow>
    (\<forall>col v. json_field shown col = Some v \<longrightarrow> json_field row col = Some v)"

lemma shows_part_refl: "shows_part_of row row"
  by (simp add: shows_part_of_def)

lemma shows_part_trans: "shows_part_of a b \<Longrightarrow> shows_part_of b c \<Longrightarrow> shows_part_of a c"
  by (simp add: shows_part_of_def)

lemma map_of_columns:
  "map_of (concat (map (\<lambda>c. case f c of None \<Rightarrow> [] | Some v \<Rightarrow> [(c, v)]) cols)) k =
    (if k \<in> set cols then f k else None)"
  by (induction cols) (auto split: option.splits)

lemma project_shows_part:
  "shown \<in> set (applyKQLProject rows cols) \<Longrightarrow> \<exists>row \<in> set rows. shows_part_of shown row"
  by (fastforce simp: applyKQLProject_def shows_part_of_def map_of_columns split: if_splits)

lemma where_subset: "set (applyKQLWhere lib rows cond) \<subseteq> set rows"
  by (auto simp: applyKQLWhere_def split: option.splits if_splits)

lemma step_shows_part:
  "shown \<in> set (kql_step lib rows part) \<Longrightarrow> \<exists>row \<in> set rows. shows_part_of shown row"
  using where_subset [of lib rows] project_shows_part shows_part_refl
  by (auto simp: kql_step_def Let_def dest!: in_set_takeD split: if_splits) blast+

lemma steps_show_part:
  "shown \<in> set (foldl (kql_step lib) rows parts) \<Longrightarrow> \<exists>row \<in> set rows. shows_part_of shown row"
proof (induction parts arbitrary: rows)
  case Nil
  then show ?case by (auto intro: shows_part_refl)
next
  case (Cons part parts)
  then obtain row where row: "row \<in> set (kql_step lib rows part)" "shows_part_of shown row" by auto
  from step_shows_part [OF row(1)] row(2) show ?case by (blast intro: shows_part_trans)
qed

lemma steps_shrink: "length (foldl (kql_step lib) rows parts) \<le> length rows"
proof (induction parts arbitrary: rows)
  case (Cons part parts)
  have "length (kql_step lib rows part) \<le> length rows"
    by (auto simp: kql_step_def Let_def applyKQLWhere_def applyKQLProject_def split: option.splits)
  with Cons.IH [of "kql_step lib rows part"] show ?case by simp
qed simp

lemma query_stays_in_workspace:
  assumes "QueryLogAnalyticsKQL lib s workspace kql = Inr rows" "shown \<in> set rows"
  shows "\<exists>r \<in> set (tb_log_rows (st_observations s)).
    log_workspace r = workspace \<and> log_table_name r = trim_space (hd (split_on CHR ''|'' (trim_space kql))) \<and>
    shows_part_of shown (log_row r)"
proof -
  let ?table = "trim_space (hd (split_on CHR ''|'' (trim_space kql)))"
  let ?rows = "map log_row (filter (\<lambda>r. log_workspace r = workspace \<and> log_table_name r = ?table)
    (tb_log_rows (st_observations s)))"
  from assms have "shown \<in> set (foldl (kql_step lib) ?rows (tl (split_on CHR ''|'' (trim_space kql))))"
    by (auto simp: QueryLogAnalyticsKQL_def Let_def db_query_def split: if_splits option.splits)
  from steps_show_part [OF this] show ?thesis by auto
qed

end
