(* ===== verification/Entra_Core.thy ===== *)
theory Entra_Core
  imports Store_Observed Go_Net
begin

text \<open>
  The service behind Entra ID, \<open>internal/services/entra/handler.go\<close>, \<open>origin.go\<close>,
  \<open>instance_discovery.go\<close> and the signed tokens of \<open>kernel/authn/jwt.go\<close>: what it advertises, its
  signing key, how it mints an access token and how it verifies one. The state is the store and the
  key the process keeps in memory. What is drawn at random, the clock and the library of signatures
  (\<open>go-jose\<close>) are fields of records; a request reads the clock once.
\<close>

section \<open>Requests and the environment\<close>

text \<open>
  A request with what the handlers read of it besides the parts of \<open>http_request\<close>: the host it
  names, whether it came over TLS, the address of the peer, the form \<open>ParseForm\<close> makes (\<open>None\<close> when
  it fails) and the text of the body.
\<close>

record web_request =
  web_http :: http_request
  web_host :: string
  web_tls :: bool
  web_remote :: string
  web_form :: "(string \<times> string list) list option"
  web_body :: string

definition form_get :: "web_request \<Rightarrow> string \<Rightarrow> string" where
  "form_get r k = trim_space (first_value (case web_form r of None \<Rightarrow> [] | Some f \<Rightarrow> f) k)"

text \<open>
  Signing takes the private key, its identifier and the payload, verifying the public key and the
  token.
\<close>

record jose =
  jo_sign :: "string \<Rightarrow> string \<Rightarrow> string \<Rightarrow> string result"
  jo_verify :: "string \<Rightarrow> string \<Rightarrow> string result"
  jo_json :: "json \<Rightarrow> string"

record entra_env =
  en_lib :: stdlib
  en_crypto :: crypto
  en_bcrypt :: bcrypt
  en_x509 :: x509
  en_jose :: jose
  en_url :: url_parser
  en_format_time :: "int \<Rightarrow> string"
  en_format_seconds :: "int \<Rightarrow> string"
  en_TenantID :: string
  en_PublicBase :: string
  en_FollowRequestHost :: bool
  en_StripProduct :: bool
  en_DisplayName :: string
  en_now :: int
  en_audit_now :: int

record entra_random =
  er_uuid :: string
  er_uuid2 :: string
  er_key :: string
  er_nonce :: string
  er_salt :: string
  er_token :: string
  er_token2 :: string
  er_token3 :: string

type_synonym entra_state = "(string \<times> string) option \<times> store"

section \<open>What is advertised\<close>

definition entra_base :: "entra_env \<Rightarrow> string" where
  "entra_base env =
    (let b = trim_right_char CHR ''/'' (trim_space (en_PublicBase env)) in
     if b = [] then ''http://127.0.0.1:4599'' else b)"

definition advertisedHostOK :: "string \<Rightarrow> bool" where
  "advertisedHostOK host \<longleftrightarrow>
    host \<noteq> [] \<and> length host \<le> 512 \<and>
    list_all (\<lambda>c. (of_char c :: nat) > 32 \<and> c \<notin> set [CHR ''/'', CHR 0x5C, CHR ''@'', CHR ''?'', CHR ''#'', CHR ''%'']) host"

definition OriginFromRequest :: "web_request \<Rightarrow> string" where
  "OriginFromRequest r =
    (let host = trim_space (web_host r) in
     if \<not> advertisedHostOK host then [] else (if web_tls r then ''https'' else ''http'') @ ''://'' @ host)"

definition entra_origin :: "entra_env \<Rightarrow> web_request \<Rightarrow> string" where
  "entra_origin env r =
    (if en_FollowRequestHost env \<and> OriginFromRequest r \<noteq> [] then OriginFromRequest r else entra_base env)"

definition appTenant :: "entra_env \<Rightarrow> string" where
  "appTenant env =
    (if en_TenantID env \<noteq> [] then en_TenantID env else ''00000000-0000-0000-0000-000000000001'')"

definition loginTenants :: "entra_env \<Rightarrow> string list" where
  "loginTenants env =
    distinct_ids [en_TenantID env, appTenant env, ''common'', ''organizations'']"

text \<open>The routes name the tenant literally, so \<open>PathValue\<close> is empty and the path decides.\<close>

definition pathTenant :: "entra_env \<Rightarrow> web_request \<Rightarrow> string" where
  "pathTenant env r =
    (let p = trim_char CHR ''/'' (rq_path (web_http r));
         t = (case index_byte p CHR ''/'' of Some (Suc i) \<Rightarrow> take (Suc i) p | _ \<Rightarrow> []) in
     if t = [] \<or> equal_fold t ''common'' \<or> equal_fold t ''organizations'' then appTenant env else t)"

definition json_strings :: "string list \<Rightarrow> json" where
  "json_strings xs = JArr (map JStr xs)"

definition handleOIDCDiscovery :: "entra_env \<Rightarrow> web_request \<Rightarrow> http_response" where
  "handleOIDCDiscovery env r =
    (let tenant = pathTenant env r; base = entra_origin env r @ ''/'' @ tenant;
         v2 = contains (rq_path (web_http r)) ''/v2.0/'' in
     writeJSON 200 (JObj
       [(''token_endpoint'', JStr (base @ (if v2 then ''/oauth2/v2.0/token'' else ''/oauth2/token''))),
        (''token_endpoint_auth_methods_supported'', json_strings [''client_secret_post'', ''private_key_jwt'']),
        (''jwks_uri'', JStr (base @ (if v2 then ''/discovery/v2.0/keys'' else ''/discovery/keys''))),
        (''issuer'', JStr (base @ (if v2 then ''/v2.0'' else []))),
        (''authorization_endpoint'', JStr (base @ ''/oauth2/v2.0/authorize'')),
        (''device_authorization_endpoint'', JStr (base @ ''/oauth2/v2.0/devicecode'')),
        (''response_types_supported'', json_strings [''code'', ''id_token'', ''token'', ''code id_token'']),
        (''id_token_signing_alg_values_supported'', json_strings [''RS256'']),
        (''subject_types_supported'', json_strings [''pairwise'']),
        (''scopes_supported'', json_strings [''openid'', ''profile'', ''email'', ''offline_access''])]))"

definition hostFromBase :: "entra_env \<Rightarrow> string \<Rightarrow> string" where
  "hostFromBase env base =
    (case en_url env (trim_space base) of
       None \<Rightarrow> ''127.0.0.1:4599''
     | Some (scheme, host, path) \<Rightarrow> if host = [] then ''127.0.0.1:4599'' else host)"

definition handleInstanceDiscovery :: "entra_env \<Rightarrow> web_request \<Rightarrow> http_response" where
  "handleInstanceDiscovery env r =
    (if rq_method (web_http r) \<noteq> ''GET'' then BadRequest ''method not allowed''
     else let base = entra_origin env r; networkHost = hostFromBase env base in
       writeJSON 200 (JObj
         [(''tenant_discovery_endpoint'',
             JStr (base @ ''/'' @ pathTenant env r @ ''/v2.0/.well-known/openid-configuration'')),
          (''api-version'', JStr ''1.1''),
          (''metadata'', JArr [JObj [(''preferred_network'', JStr networkHost),
             (''preferred_cache'', JStr networkHost), (''aliases'', json_strings [networkHost])]])]))"

section \<open>Signed tokens\<close>

text \<open>Numbers of decoded documents are whole; \<open>None\<close> is the second result \<open>false\<close>.\<close>

definition ClaimUnix :: "json \<Rightarrow> string \<Rightarrow> int option" where
  "ClaimUnix claims key =
    (case json_field claims key of Some (JNum n) \<Rightarrow> if n = 0 then None else Some n | _ \<Rightarrow> None)"

definition EncodeRS256JWT :: "jose \<Rightarrow> string \<Rightarrow> string \<Rightarrow> json \<Rightarrow> string result" where
  "EncodeRS256JWT jo priv kid claims = jo_sign jo priv kid (jo_json jo claims)"

definition VerifyRS256JWT :: "stdlib \<Rightarrow> jose \<Rightarrow> string \<Rightarrow> string \<Rightarrow> int \<Rightarrow> json result" where
  "VerifyRS256JWT lib jo pub token now =
    (if token = [] then Inl ''invalid jwt''
     else (case jo_verify jo pub token of
         Inl e \<Rightarrow> Inl e
       | Inr payload \<Rightarrow> (case json_parse_map lib payload of
           Inl e \<Rightarrow> Inl e
         | Inr claims \<Rightarrow> (case ClaimUnix claims ''exp'' of
               Some e \<Rightarrow> if now div nanos > e then Inl ''token expired'' else Inr claims
             | None \<Rightarrow> Inr claims))))"

section \<open>The signing key\<close>

definition ensureKey :: "entra_env \<Rightarrow> entra_random \<Rightarrow> entra_state \<Rightarrow> (string \<times> string) result \<times> entra_state" where
  "ensureKey env rnd st =
    (case fst st of
       Some kp \<Rightarrow> (Inr kp, st)
     | None \<Rightarrow>
         (case EnsureEntraSigningKey (en_crypto env) (en_x509 env) (snd st) (er_uuid rnd) (er_key rnd)
             (er_nonce rnd) (en_now env) of
            (Inl e, s') \<Rightarrow> (Inl e, (None, s'))
          | (Inr kp, s') \<Rightarrow> (Inr kp, (Some kp, s'))))"

definition ensureOIDCLabKey :: "entra_env \<Rightarrow> entra_random \<Rightarrow> store \<Rightarrow> (string \<times> string) result \<times> store" where
  "ensureOIDCLabKey env rnd s =
    EnsureOIDCLabSigningKey (en_crypto env) (en_x509 env) s (er_key rnd) (er_nonce rnd) (en_now env)"

text \<open>The modulus and exponent a public key shows are functions of the key.\<close>

definition jwk_of :: "(string \<Rightarrow> string \<times> string) \<Rightarrow> x509 \<Rightarrow> string \<Rightarrow> string \<Rightarrow> (string \<times> json) list" where
  "jwk_of numbers x kid priv =
    (let (n, e) = numbers (x5_public x priv) in
     [(''kty'', JStr ''RSA''), (''use'', JStr ''sig''), (''kid'', JStr kid), (''alg'', JStr ''RS256''),
      (''n'', JStr n), (''e'', JStr e)])"

definition handleJWKS ::
  "entra_env \<Rightarrow> entra_random \<Rightarrow> (string \<Rightarrow> string \<times> string) \<Rightarrow> entra_state \<Rightarrow> web_request \<Rightarrow>
    http_response \<times> entra_state" where
  "handleJWKS env rnd numbers st r =
    (case ensureKey env rnd st of
       (Inl e, st') \<Rightarrow> (WriteARM 500 ''InternalServerError'' e, st')
     | (Inr (kid, priv), st') \<Rightarrow>
         (writeJSON 200 (JObj [(''keys'', JArr [JObj (jwk_of numbers (en_x509 env) kid priv @
            [(''issuer'', JStr (entra_origin env r @ ''/'' @ pathTenant env r @ ''/v2.0''))])])]), st'))"

section \<open>Minting\<close>

text \<open>The object id and the client id a token of a principal carries.\<close>

definition resolveTokenIdentity :: "entra_env \<Rightarrow> store \<Rightarrow> string \<Rightarrow> string \<times> string" where
  "resolveTokenIdentity env s principalID0 =
    (let principalID = trim_space principalID0 in
     if principalID = [] then ([], [])
     else (case GetServicePrincipal s principalID of
         Inr (Some sp) \<Rightarrow> (sp_ID sp, sp_AppID sp)
       | _ \<Rightarrow> (case ResolveEntraApp s (appTenant env) principalID of
           Inr (Some (obj, app, name)) \<Rightarrow>
             (case GetServicePrincipal s app of
                Inr (Some sp) \<Rightarrow> (sp_ID sp, sp_AppID sp)
              | _ \<Rightarrow> if obj \<noteq> [] then (obj, app) else (app, app))
         | _ \<Rightarrow> (principalID, principalID))))"

definition defaultExpiresIn :: int where
  "defaultExpiresIn = 3600"

definition token_claims :: "entra_env \<Rightarrow> store \<Rightarrow> string \<Rightarrow> string \<Rightarrow> string \<Rightarrow> json" where
  "token_claims env s principalID audience origin0 =
    (let origin1 = trim_right_char CHR ''/'' (trim_space origin0);
         origin = (if origin1 = [] then entra_base env else origin1);
         (oid, appID) = resolveTokenIdentity env s principalID; now = en_now env div nanos in
     JObj ([(''iss'', JStr (origin @ ''/'' @ en_TenantID env @ ''/v2.0'')), (''iat'', JNum now), (''nbf'', JNum now),
        (''exp'', JNum ((en_now env + defaultExpiresIn * nanos) div nanos)), (''sub'', JStr oid), (''oid'', JStr oid),
        (''tid'', JStr (en_TenantID env)), (''appid'', JStr appID), (''azp'', JStr appID), (''ver'', JStr ''2.0'')] @
       (if audience \<noteq> [] then [(''aud'', JStr audience)] else [])))"

definition mintAccessToken ::
  "entra_env \<Rightarrow> entra_random \<Rightarrow> entra_state \<Rightarrow> string \<Rightarrow> string \<Rightarrow> string \<Rightarrow> string result \<times> entra_state" where
  "mintAccessToken env rnd st principalID audience origin =
    (case ensureKey env rnd st of
       (Inl e, st') \<Rightarrow> (Inl e, st')
     | (Inr (kid, priv), (k, s)) \<Rightarrow>
         (case EncodeRS256JWT (en_jose env) priv kid (token_claims env s principalID audience origin) of
            Inl e \<Rightarrow> (Inl e, (k, s))
          | Inr token \<Rightarrow>
              (case PutAccessToken s (HashToken (en_lib env) token) (fst (resolveTokenIdentity env s principalID))
                  (en_format_seconds env (en_now env + defaultExpiresIn * nanos)) of
                 (Inl e, s') \<Rightarrow> (Inl e, (k, s'))
               | (Inr u, s') \<Rightarrow> (Inr token, (k, s')))))"

definition MintAccessToken ::
  "entra_env \<Rightarrow> entra_random \<Rightarrow> entra_state \<Rightarrow> string \<Rightarrow> string \<Rightarrow> string result \<times> entra_state" where
  "MintAccessToken env rnd st principalID audience =
    mintAccessToken env rnd st principalID audience (entra_base env)"

section \<open>Verifying\<close>

definition VerifyAccessTokenClaims ::
  "entra_env \<Rightarrow> entra_random \<Rightarrow> entra_state \<Rightarrow> string \<Rightarrow> int \<Rightarrow> json option result \<times> entra_state" where
  "VerifyAccessTokenClaims env rnd st token now =
    (case ensureKey env rnd st of
       (Inl e, st') \<Rightarrow> (Inl e, st')
     | (Inr (kid, priv), st') \<Rightarrow>
         (case VerifyRS256JWT (en_lib env) (en_jose env) (x5_public (en_x509 env) priv) token now of
            Inl e \<Rightarrow> (Inr None, st')
          | Inr claims \<Rightarrow> (Inr (Some claims), st')))"

definition VerifyAccessToken ::
  "entra_env \<Rightarrow> entra_random \<Rightarrow> entra_state \<Rightarrow> string \<Rightarrow> int \<Rightarrow> string option result \<times> entra_state" where
  "VerifyAccessToken env rnd st token now =
    (case VerifyAccessTokenClaims env rnd st token now of
       (Inl e, st') \<Rightarrow> (Inl e, st')
     | (Inr None, st') \<Rightarrow> (Inr None, st')
     | (Inr (Some claims), st') \<Rightarrow>
         (let i = PrincipalFromJWTClaims claims in (Inr (if i = [] then None else Some i), st')))"

text \<open>
  The authenticator of the server over this state: tokens are looked up by their hash and then
  verified. Verifying may create the signing key; a key made then signed nothing yet, so the
  authenticator keeps the state as it is.
\<close>

definition entra_authenticator ::
  "entra_env \<Rightarrow> entra_random \<Rightarrow> entra_state \<Rightarrow> string \<Rightarrow> string \<Rightarrow> Authenticator" where
  "entra_authenticator env rnd st root_id root_token =
    \<lparr>au_RootClientID = root_id, au_RootAccessToken = root_token,
     au_Tokens = Some (LookupAccessToken (time_parse (en_lib env) rfc3339) (snd st)),
     au_JWT = Some (\<lambda>token now. fst (VerifyAccessToken env rnd st token now)),
     au_Now = en_now env\<rparr>"

end
