(* ===== verification/Server_Config.thy ===== *)
theory Server_Config
  imports Network_Guard Entra_Core
begin

text \<open>
  The configuration of the process: \<open>internal/config/config.go\<close>, the guards of the Docker engine
  (\<open>internal/compute/docker_host.go\<close> and \<open>allowlist.go\<close>) and the checks of \<open>run\<close> and
  \<open>runHealthcheck\<close> of \<open>cmd/noctaxris-az/main.go\<close>. The environment gives a string for every variable, empty
  when it is not set. Errors are values; their texts are not modelled.
\<close>

section \<open>The environment\<close>

type_synonym process_env = "string \<Rightarrow> string"

definition getenv :: "process_env \<Rightarrow> string \<Rightarrow> string \<Rightarrow> string" where
  "getenv e key fallback = (if e key \<noteq> [] then e key else fallback)"

definition envTruthy :: "process_env \<Rightarrow> string \<Rightarrow> bool" where
  "envTruthy e key \<longleftrightarrow> equal_fold (e key) ''1'' \<or> equal_fold (e key) ''true''"

datatype config_error =
    DockerSocket
  | DockerUrl
  | DockerScheme string
  | DockerNotAllowed string
  | DockerNoCertificates
  | DockerCertificate string
  | ListenExposed string
  | AmqpExposed string
  | CloudHostsExposed string
  | NoRootCredentials
  | ExampleRootExposed string

section \<open>The Docker engine\<close>

definition defaultDockerHost :: string where
  "defaultDockerHost = ''tcp://noctaxris-az-engine:2376''"

definition dockerHostAllowlist :: "process_env \<Rightarrow> string list" where
  "dockerHostAllowlist e =
    (let raw = trim_space (e ''NOCTAXRIS_AZ_DOCKER_HOST_ALLOWLIST'') in
     defaultDockerHost # (if raw = [] then []
       else filter (\<lambda>p. p \<noteq> []) (map (\<lambda>p. trim_right_char CHR ''/'' (trim_space p)) (split_on CHR '','' raw))))"

definition dockerHostAllowlisted :: "process_env \<Rightarrow> string \<Rightarrow> bool" where
  "dockerHostAllowlisted e host =
    list_ex (\<lambda>entry. equal_fold entry (trim_right_char CHR ''/'' (trim_space host))) (dockerHostAllowlist e)"

text \<open>
  \<open>stat dir name\<close> tells whether the file of a directory is a directory and its size, \<open>None\<close> when it
  cannot be read.
\<close>

type_synonym file_stat = "string \<Rightarrow> string \<Rightarrow> (bool \<times> nat) option"

fun docker_certificates :: "file_stat \<Rightarrow> string \<Rightarrow> string list \<Rightarrow> config_error + unit" where
  "docker_certificates stat dir [] = Inr ()"
| "docker_certificates stat dir (name # names) =
    (case stat dir name of
       None \<Rightarrow> Inl (DockerCertificate name)
     | Some (is_dir, bytes) \<Rightarrow>
         if is_dir \<or> bytes = 0 then Inl (DockerCertificate name) else docker_certificates stat dir names)"

definition ValidateDockerHost ::
  "process_env \<Rightarrow> url_parser \<Rightarrow> file_stat \<Rightarrow> string \<Rightarrow> string \<Rightarrow> config_error + unit" where
  "ValidateDockerHost e url stat dockerHost tlsCertPath =
    (let host = trim_space dockerHost in
     if host = [] then Inr ()
     else if contains (to_lower host) ''docker.sock'' then Inl DockerSocket
     else (case url host of
         None \<Rightarrow> Inl DockerUrl
       | Some (scheme, h, path) \<Rightarrow>
           if to_lower scheme \<noteq> ''tcp'' then Inl (DockerScheme (to_lower scheme))
           else if \<not> dockerHostAllowlisted e host then Inl (DockerNotAllowed host)
           else if trim_space tlsCertPath = [] then Inl DockerNoCertificates
           else docker_certificates stat (trim_space tlsCertPath) [''ca.pem'', ''cert.pem'', ''key.pem'']))"

section \<open>Images\<close>

datatype pull_error = PullEmpty | PullNeedsDigest string | PullNotAllowed string

definition isPinnedLabImage :: "string \<Rightarrow> bool" where
  "isPinnedLabImage ref =
    (let lower = to_lower ref in
     has_prefix lower ''docker:27-dind'' \<or> has_prefix lower ''docker:29-dind'' \<or>
     lower \<in> set [''alpine:3.20'', ''alpine:3.23'', ''public.ecr.aws/docker/library/alpine:3.20'',
       ''public.ecr.aws/docker/library/alpine:3.23''])"

definition imageAllowEntryNeedsDigest :: "string \<Rightarrow> bool" where
  "imageAllowEntryNeedsDigest entry =
    (let host = takeWhile (\<lambda>c. c \<noteq> CHR ''/'' \<and> c \<noteq> CHR ''@'') entry in
     CHR ''.'' \<in> set host \<or> CHR '':'' \<in> set host)"

definition extraImageAllowEntries :: "process_env \<Rightarrow> string list" where
  "extraImageAllowEntries e =
    filter (\<lambda>p. p \<noteq> []) (map trim_space (split_on CHR '','' (trim_space (e ''NOCTAXRIS_AZ_IMAGE_PULL_ALLOWLIST''))))"

fun pull_entries :: "string \<Rightarrow> string list \<Rightarrow> pull_error + unit" where
  "pull_entries ref [] = Inl (PullNotAllowed ref)"
| "pull_entries ref (entry # entries) =
    (if entry = [] then pull_entries ref entries
     else if has_suffix entry ''/'' then
       (if \<not> has_prefix ref entry then pull_entries ref entries
        else if \<not> contains ref ''@sha256:'' then Inl (PullNeedsDigest ref) else Inr ())
     else if ref = entry then
       (if imageAllowEntryNeedsDigest entry \<and> \<not> contains ref ''@sha256:'' then Inl (PullNeedsDigest ref) else Inr ())
     else pull_entries ref entries)"

definition AllowImagePull :: "process_env \<Rightarrow> string \<Rightarrow> pull_error + unit" where
  "AllowImagePull e imageRef =
    (let ref = trim_space imageRef in
     if ref = [] then Inl PullEmpty
     else if isPinnedLabImage ref then Inr ()
     else pull_entries ref (extraImageAllowEntries e))"

section \<open>The configuration\<close>

record server_config =
  cf_ListenAddr :: string
  cf_AMQPListenAddr :: string
  cf_DataRoot :: string
  cf_MasterKeyPath :: string
  cf_TLSCertFile :: string
  cf_TLSKeyFile :: string
  cf_TLSAuto :: bool
  cf_PublicURL :: string
  cf_RootClientID :: string
  cf_RootAccessToken :: string
  cf_TenantID :: string
  cf_SubscriptionID :: string
  cf_AllowNonLoopbackListen :: bool
  cf_CloudHosts :: bool
  cf_CloudHostsListen :: string
  cf_DockerHost :: string
  cf_DockerTLSCertPath :: string
  cf_LabForensics :: bool
  cf_ActivityInject :: bool
  cf_LogsInject :: bool
  cf_DefenderInject :: bool
  cf_StripProduct :: bool

definition TLSEnabled :: "server_config \<Rightarrow> bool" where
  "TLSEnabled c \<longleftrightarrow>
    trim_space (cf_TLSCertFile c) \<noteq> [] \<and> trim_space (cf_TLSKeyFile c) \<noteq> [] \<or> cf_TLSAuto c"

definition allow_exposed :: "process_env \<Rightarrow> server_config \<Rightarrow> bool" where
  "allow_exposed e c \<longleftrightarrow> cf_AllowNonLoopbackListen c \<or> envTruthy e ''NOCTAXRIS_AZ_ALLOW_NONLOOPBACK_LISTEN''"

definition ValidateListenSecurity :: "process_env \<Rightarrow> server_config \<Rightarrow> config_error + unit" where
  "ValidateListenSecurity e c =
    (if ListenIsLoopback (cf_ListenAddr c) then Inr ()
     else if TLSEnabled c then Inr ()
     else if allow_exposed e c then Inr ()
     else Inl (ListenExposed (cf_ListenAddr c)))"

definition validate_amqp :: "process_env \<Rightarrow> server_config \<Rightarrow> config_error + unit" where
  "validate_amqp e c =
    map_sum (\<lambda>text0. AmqpExposed (cf_AMQPListenAddr c)) id
      (ValidateAMQPListenSecurity (cf_AMQPListenAddr c) (allow_exposed e c))"

definition ValidateCloudHostsListen :: "process_env \<Rightarrow> server_config \<Rightarrow> config_error + unit" where
  "ValidateCloudHostsListen e c =
    (if \<not> cf_CloudHosts c then Inr ()
     else if ListenIsLoopback (cf_CloudHostsListen c) then Inr ()
     else if allow_exposed e c then Inr ()
     else Inl (CloudHostsExposed (cf_CloudHostsListen c)))"

definition read_config :: "process_env \<Rightarrow> server_config" where
  "read_config e =
    (let cloud = envTruthy e ''NOCTAXRIS_AZ_CLOUD_HOSTS''; cloud_listen = getenv e ''NOCTAXRIS_AZ_CLOUD_HOSTS_LISTEN'' [] in
     \<lparr>cf_ListenAddr = getenv e ''NOCTAXRIS_AZ_LISTEN'' ''127.0.0.1:4599'',
      cf_AMQPListenAddr = getenv e ''NOCTAXRIS_AZ_AMQP_LISTEN'' ''127.0.0.1:5672'',
      cf_DataRoot = getenv e ''NOCTAXRIS_AZ_DATA_ROOT'' ''/var/lib/noctaxris-az'',
      cf_MasterKeyPath = getenv e ''NOCTAXRIS_AZ_MASTER_KEY_FILE'' [],
      cf_TLSCertFile = getenv e ''NOCTAXRIS_AZ_TLS_CERT'' [],
      cf_TLSKeyFile = getenv e ''NOCTAXRIS_AZ_TLS_KEY'' [],
      cf_TLSAuto = envTruthy e ''NOCTAXRIS_AZ_TLS_AUTO'',
      cf_PublicURL = trim_space (getenv e ''NOCTAXRIS_AZ_PUBLIC_URL'' []),
      cf_RootClientID = getenv e ''NOCTAXRIS_AZ_ROOT_CLIENT_ID'' [],
      cf_RootAccessToken = getenv e ''NOCTAXRIS_AZ_ROOT_ACCESS_TOKEN'' [],
      cf_TenantID = getenv e ''NOCTAXRIS_AZ_TENANT_ID'' ''00000000-0000-0000-0000-000000000001'',
      cf_SubscriptionID = getenv e ''NOCTAXRIS_AZ_SUBSCRIPTION_ID'' ''00000000-0000-0000-0000-000000000002'',
      cf_AllowNonLoopbackListen = envTruthy e ''NOCTAXRIS_AZ_ALLOW_NONLOOPBACK_LISTEN'',
      cf_CloudHosts = cloud,
      cf_CloudHostsListen = (if cloud \<and> trim_space cloud_listen = [] then ''127.0.0.1:8443'' else cloud_listen),
      cf_DockerHost = getenv e ''NOCTAXRIS_AZ_DOCKER_HOST'' [],
      cf_DockerTLSCertPath = getenv e ''NOCTAXRIS_AZ_DOCKER_CERT_PATH'' [],
      cf_LabForensics = envTruthy e ''NOCTAXRIS_AZ_LAB_FORENSICS'',
      cf_ActivityInject = envTruthy e ''NOCTAXRIS_AZ_ACTIVITY_INJECT'',
      cf_LogsInject = envTruthy e ''NOCTAXRIS_AZ_LOGS_INJECT'',
      cf_DefenderInject = envTruthy e ''NOCTAXRIS_AZ_DEFENDER_INJECT'',
      cf_StripProduct = envTruthy e ''NOCTAXRIS_AZ_STRIP_PRODUCT''\<rparr>)"

definition LoadFromEnv :: "process_env \<Rightarrow> url_parser \<Rightarrow> file_stat \<Rightarrow> config_error + server_config" where
  "LoadFromEnv e url stat =
    (let cfg = read_config e in
     case ValidateDockerHost e url stat (cf_DockerHost cfg) (cf_DockerTLSCertPath cfg) of
       Inl err \<Rightarrow> Inl err
     | Inr u \<Rightarrow> (case ValidateListenSecurity e cfg of
         Inl err \<Rightarrow> Inl err
       | Inr u \<Rightarrow> (case validate_amqp e cfg of
           Inl err \<Rightarrow> Inl err
         | Inr u \<Rightarrow> (case ValidateCloudHostsListen e cfg of
             Inl err \<Rightarrow> Inl err
           | Inr u \<Rightarrow> Inr cfg))))"

definition ExampleRootCredentials :: "string \<Rightarrow> string \<Rightarrow> bool" where
  "ExampleRootCredentials clientID token \<longleftrightarrow>
    clientID = ''00000000-0000-0000-0000-00000000root'' \<and> token = ''noctaxris-az-example-root-token''"

text \<open>What \<open>run\<close> checks before it opens the store.\<close>

definition run_config :: "process_env \<Rightarrow> url_parser \<Rightarrow> file_stat \<Rightarrow> config_error + server_config" where
  "run_config e url stat =
    (case LoadFromEnv e url stat of
       Inl err \<Rightarrow> Inl err
     | Inr cfg \<Rightarrow>
         if cf_RootClientID cfg = [] \<or> cf_RootAccessToken cfg = [] then Inl NoRootCredentials
         else if ExampleRootCredentials (cf_RootClientID cfg) (cf_RootAccessToken cfg) \<and>
           \<not> ListenIsLoopback (cf_ListenAddr cfg) then Inl (ExampleRootExposed (cf_ListenAddr cfg))
         else Inr cfg)"

section \<open>Names and origins\<close>

definition OpsPathPrefix :: "server_config \<Rightarrow> string" where
  "OpsPathPrefix c = (if cf_StripProduct c then ''/_lab'' else ''/_noctaxris-az'')"

definition OIDCLabPathPrefix :: "server_config \<Rightarrow> string" where
  "OIDCLabPathPrefix c = OpsPathPrefix c @ ''/oidc-lab''"

definition ReadyPath :: "server_config \<Rightarrow> string" where
  "ReadyPath c = OpsPathPrefix c @ ''/ready''"

definition HealthPath :: "server_config \<Rightarrow> string" where
  "HealthPath c = OpsPathPrefix c @ ''/health''"

definition VersionPath :: "server_config \<Rightarrow> string" where
  "VersionPath c = OpsPathPrefix c @ ''/version''"

definition CAPath :: "server_config \<Rightarrow> string" where
  "CAPath c = OpsPathPrefix c @ ''/ca.pem''"

definition LabDisplayName :: "server_config \<Rightarrow> string" where
  "LabDisplayName c = (if cf_StripProduct c then ''Lab'' else ''Noctaxris-AZ Lab'')"

definition LabCACommonName :: "process_env \<Rightarrow> string" where
  "LabCACommonName e =
    (let v = trim_space (e ''NOCTAXRIS_AZ_CA_CN'') in
     if v \<noteq> [] then v else if envTruthy e ''NOCTAXRIS_AZ_STRIP_PRODUCT'' then ''Lab CA'' else ''Noctaxris-AZ Lab CA'')"

definition LabCAOrganization :: "process_env \<Rightarrow> string" where
  "LabCAOrganization e =
    (let v = trim_space (e ''NOCTAXRIS_AZ_CA_ORG'') in
     if v \<noteq> [] then v else if envTruthy e ''NOCTAXRIS_AZ_STRIP_PRODUCT'' then ''Lab'' else ''Noctaxris-AZ'')"

definition publicListenHost :: "string \<Rightarrow> string" where
  "publicListenHost listenAddr =
    (let host = trim_space listenAddr in
     if has_prefix host ''0.0.0.0:'' then ''127.0.0.1'' @ drop 7 host
     else if has_prefix host ''[::]:'' then ''[::1]'' @ drop 4 host
     else if has_prefix host '':'' then ''127.0.0.1'' @ host
     else host)"

definition PublicBase :: "server_config \<Rightarrow> string" where
  "PublicBase c =
    (let u = trim_space (cf_PublicURL c) in
     if u \<noteq> [] then trim_right_char CHR ''/'' u
     else if cf_CloudHosts c then ''https://login.microsoftonline.com''
     else (if TLSEnabled c then ''https'' else ''http'') @ ''://'' @ publicListenHost (cf_ListenAddr c))"

definition ResourceManagerBase :: "server_config \<Rightarrow> string" where
  "ResourceManagerBase c =
    (let u = trim_space (cf_PublicURL c) in
     if u \<noteq> [] then trim_right_char CHR ''/'' u
     else if cf_CloudHosts c then ''https://management.azure.com''
     else PublicBase c)"

definition IssuerBase :: "server_config \<Rightarrow> string" where
  "IssuerBase c = PublicBase c"

definition PinPublicOrigin :: "server_config \<Rightarrow> bool" where
  "PinPublicOrigin c \<longleftrightarrow> trim_space (cf_PublicURL c) \<noteq> [] \<or> cf_CloudHosts c"

definition RequestOrigin :: "server_config \<Rightarrow> web_request \<Rightarrow> string" where
  "RequestOrigin c r =
    (if PinPublicOrigin c then PublicBase c
     else if OriginFromRequest r \<noteq> [] then OriginFromRequest r
     else PublicBase c)"

text \<open>\<open>url_with raw scheme host\<close> is the parsed \<open>raw\<close>, rendered again with another scheme and host.\<close>

definition RewriteLoopbackOrigin ::
  "url_parser \<Rightarrow> (string \<Rightarrow> string \<Rightarrow> string \<Rightarrow> string) \<Rightarrow> string \<Rightarrow> web_request \<Rightarrow> string" where
  "RewriteLoopbackOrigin url url_with raw r =
    (let origin = OriginFromRequest r in
     if origin = [] then raw
     else (case url (trim_space raw) of
         None \<Rightarrow> raw
       | Some (scheme, host, path) \<Rightarrow>
           if scheme = [] \<or> host = [] \<or> \<not> ListenIsLoopback host then raw
           else (case url origin of
               None \<Rightarrow> raw
             | Some (oscheme, ohost, opath) \<Rightarrow>
                 if oscheme = [] \<or> ohost = [] then raw else url_with (trim_space raw) oscheme ohost)))"

section \<open>The health check\<close>

definition healthcheck_truthy :: "process_env \<Rightarrow> string \<Rightarrow> bool" where
  "healthcheck_truthy e k \<longleftrightarrow> to_lower (trim_space (e k)) \<in> set [''1'', ''true'', ''yes'', ''on'']"

definition healthcheck_url :: "process_env \<Rightarrow> string" where
  "healthcheck_url e =
    (let given = trim_space (e ''NOCTAXRIS_AZ_LISTEN'');
         addr0 = (if given = [] then ''127.0.0.1:4599'' else given);
         addr = (if has_prefix addr0 ''0.0.0.0:'' then ''127.0.0.1:'' @ drop 8 addr0
           else if has_prefix addr0 ''[::]:'' then ''[::1]:'' @ drop 5 addr0
           else if has_prefix addr0 '':'' then ''127.0.0.1'' @ addr0 else addr0);
         tls = (healthcheck_truthy e ''NOCTAXRIS_AZ_TLS_AUTO'' \<or>
           trim_space (e ''NOCTAXRIS_AZ_TLS_CERT'') \<noteq> [] \<and> trim_space (e ''NOCTAXRIS_AZ_TLS_KEY'') \<noteq> []) in
     (if tls then ''https'' else ''http'') @ ''://'' @ addr @
       (if envTruthy e ''NOCTAXRIS_AZ_STRIP_PRODUCT'' then ''/_lab'' else ''/_noctaxris-az'') @ ''/ready'')"

section \<open>Exposure is asked for\<close>

lemma docker_certificates_all:
  "docker_certificates stat dir names = Inr () \<longleftrightarrow>
    list_all (\<lambda>name. \<exists>n. stat dir name = Some (False, Suc n)) names"
  by (induction names) (auto split: option.split prod.split simp: gr0_conv_Suc)

lemma validate_docker_allowed:
  assumes "ValidateDockerHost e url stat host cert = Inr ()" "trim_space host \<noteq> []"
  shows "dockerHostAllowlisted e (trim_space host) \<and> (\<exists>scheme h path. url (trim_space host) = Some (scheme, h, path) \<and>
    to_lower scheme = ''tcp'') \<and> \<not> contains (to_lower (trim_space host)) ''docker.sock''"
  using assms by (auto simp: ValidateDockerHost_def Let_def split: if_splits option.splits)

text \<open>
  The process starts only when every address it listens on is a loopback address, or its operator has set
  up TLS (for HTTP) or allowed the exposure; the Docker engine is one of the allowlist; and root credentials
  are set, not the published ones unless HTTP is on a loopback address.
\<close>

theorem exposure_is_asked_for:
  assumes "run_config e url stat = Inr cfg"
  shows "(ListenIsLoopback (cf_ListenAddr cfg) \<or> TLSEnabled cfg \<or> allow_exposed e cfg) \<and>
    (ListenIsLoopback (cf_AMQPListenAddr cfg) \<or> allow_exposed e cfg) \<and>
    (cf_CloudHosts cfg \<longrightarrow> ListenIsLoopback (cf_CloudHostsListen cfg) \<or> allow_exposed e cfg) \<and>
    (trim_space (cf_DockerHost cfg) = [] \<or> dockerHostAllowlisted e (trim_space (cf_DockerHost cfg))) \<and>
    cf_RootClientID cfg \<noteq> [] \<and> cf_RootAccessToken cfg \<noteq> [] \<and>
    (ListenIsLoopback (cf_ListenAddr cfg) \<or> \<not> ExampleRootCredentials (cf_RootClientID cfg) (cf_RootAccessToken cfg))"
proof -
  from assms have cfg: "LoadFromEnv e url stat = Inr cfg"
    and root: "cf_RootClientID cfg \<noteq> []" "cf_RootAccessToken cfg \<noteq> []"
      "ListenIsLoopback (cf_ListenAddr cfg) \<or> \<not> ExampleRootCredentials (cf_RootClientID cfg) (cf_RootAccessToken cfg)"
    by (auto simp: run_config_def split: sum.splits if_splits)
  then have "cfg = read_config e" and docker: "ValidateDockerHost e url stat (cf_DockerHost cfg) (cf_DockerTLSCertPath cfg) = Inr ()"
    and listen: "ValidateListenSecurity e cfg = Inr ()" "validate_amqp e cfg = Inr ()" "ValidateCloudHostsListen e cfg = Inr ()"
    by (auto simp: LoadFromEnv_def Let_def split: sum.splits)
  from listen have "ListenIsLoopback (cf_ListenAddr cfg) \<or> TLSEnabled cfg \<or> allow_exposed e cfg"
    "ListenIsLoopback (cf_AMQPListenAddr cfg) \<or> allow_exposed e cfg"
    "cf_CloudHosts cfg \<longrightarrow> ListenIsLoopback (cf_CloudHostsListen cfg) \<or> allow_exposed e cfg"
    by (auto simp: ValidateListenSecurity_def validate_amqp_def ValidateAMQPListenSecurity_def ValidateCloudHostsListen_def
        split: if_splits)
  with root validate_docker_allowed [OF docker] show ?thesis by blast
qed

definition lab_process_env :: process_env where
  "lab_process_env k = (if k = ''NOCTAXRIS_AZ_ROOT_CLIENT_ID'' then ''root'' else if k = ''NOCTAXRIS_AZ_ROOT_ACCESS_TOKEN'' then ''secret''
     else if k = ''NOCTAXRIS_AZ_TLS_AUTO'' then ''yes'' else [])"

theorem exposure_is_asked_for_witness:
  "ListenIsLoopback (cf_ListenAddr (read_config lab_process_env)) \<or> TLSEnabled (read_config lab_process_env) \<or>
    allow_exposed lab_process_env (read_config lab_process_env)"
proof -
  have docker: "trim_space (cf_DockerHost (read_config lab_process_env)) = []" by code_simp
  have http: "ListenIsLoopback (cf_ListenAddr (read_config lab_process_env))" by code_simp
  have amqp: "ListenIsLoopback (cf_AMQPListenAddr (read_config lab_process_env))" by code_simp
  have cloud: "\<not> cf_CloudHosts (read_config lab_process_env)" by code_simp
  have root: "cf_RootClientID (read_config lab_process_env) = ''root''" "cf_RootAccessToken (read_config lab_process_env) = ''secret''"
    by code_simp+
  have "run_config lab_process_env (\<lambda>u. None) (\<lambda>d n. None) = Inr (read_config lab_process_env)"
    using docker http amqp cloud root
    by (simp add: run_config_def LoadFromEnv_def Let_def ValidateDockerHost_def ValidateListenSecurity_def validate_amqp_def
        ValidateAMQPListenSecurity_def ValidateCloudHostsListen_def ExampleRootCredentials_def)
  from exposure_is_asked_for [OF this] show ?thesis by blast
qed

text \<open>
  The health check reads the switch of TLS with other rules than the server: with the value \<open>yes\<close> it asks
  with HTTPS while the server speaks HTTP, so it fails for ever.
\<close>

theorem healthcheck_disagrees:
  "\<not> TLSEnabled (read_config lab_process_env) \<and> has_prefix (healthcheck_url lab_process_env) ''https://''"
  by code_simp

text \<open>
  An image is pulled only if it is one of the pinned bases, equals an entry of the allowlist, or lies under
  a registry prefix of it and is pinned by a digest.
\<close>

theorem pulls_are_allowlisted:
  assumes "AllowImagePull e imageRef = Inr ()"
  shows "isPinnedLabImage (trim_space imageRef) \<or> trim_space imageRef \<in> set (extraImageAllowEntries e) \<or>
    (\<exists>entry \<in> set (extraImageAllowEntries e). has_suffix entry ''/'' \<and> has_prefix (trim_space imageRef) entry \<and>
      contains (trim_space imageRef) ''@sha256:'')"
proof -
  have "ref \<in> set entries \<or> (\<exists>entry \<in> set entries. has_suffix entry ''/'' \<and> has_prefix ref entry \<and> contains ref ''@sha256:'')"
    if "pull_entries ref entries = Inr ()" for ref entries
    using that by (induction entries) (auto split: if_splits)
  with assms show ?thesis by (auto simp: AllowImagePull_def Let_def split: if_splits)
qed

theorem pulls_are_allowlisted_witness:
  "isPinnedLabImage (trim_space '' alpine:3.23'') \<or> trim_space '' alpine:3.23'' \<in> set (extraImageAllowEntries lab_process_env) \<or>
    (\<exists>entry \<in> set (extraImageAllowEntries lab_process_env). has_suffix entry ''/'' \<and>
      has_prefix (trim_space '' alpine:3.23'') entry \<and> contains (trim_space '' alpine:3.23'') ''@sha256:'')"
proof (rule pulls_are_allowlisted)
  show "AllowImagePull lab_process_env '' alpine:3.23'' = Inr ()" by code_simp
qed

end
