(* ===== verification/Entra_Tokens.thy ===== *)
theory Entra_Tokens
  imports Entra_Core
begin

text \<open>
  The token endpoint of Entra ID, \<open>internal/services/entra/token.go\<close>, with Conditional Access
  (\<open>conditional_access.go\<close>), client assertions (\<open>wif.go\<close>) and the issuer of the laboratory
  (\<open>oidclab.go\<close>).
\<close>

section \<open>Conditional Access\<close>

definition nestedMap :: "json \<Rightarrow> string \<Rightarrow> json" where
  "nestedMap m key = (case json_field m key of Some (JObj o1) \<Rightarrow> JObj o1 | _ \<Rightarrow> JObj [])"

definition nonempty_trimmed :: "string list \<Rightarrow> string list" where
  "nonempty_trimmed xs = filter (\<lambda>x. x \<noteq> []) (map trim_space xs)"

definition stringList :: "json option \<Rightarrow> string list" where
  "stringList v =
    (case v of
       Some (JArr items) \<Rightarrow> nonempty_trimmed (concat (map (\<lambda>i. case i of JStr t \<Rightarrow> [t] | _ \<Rightarrow> []) items))
     | Some (JStr t) \<Rightarrow> nonempty_trimmed [t]
     | _ \<Rightarrow> [])"

definition caClientIncluded :: "json \<Rightarrow> string \<Rightarrow> bool" where
  "caClientIncluded cond clientID =
    (let include = stringList (json_field (nestedMap cond ''applications'') ''includeApplications'') in
     if include = [] then False
     else list_ex (\<lambda>i. equal_fold i ''All'' \<or> equal_fold i ''AllApplications'' \<or> (clientID \<noteq> [] \<and> i = clientID)) include \<or>
       clientID = [])"

definition caClientExcluded :: "json \<Rightarrow> string \<Rightarrow> bool" where
  "caClientExcluded cond clientID =
    (clientID \<noteq> [] \<and>
     list_ex (\<lambda>i. i = clientID) (stringList (json_field (nestedMap cond ''applications'') ''excludeApplications'')))"

definition known_client_types :: "string list" where
  "known_client_types =
    [''all'', ''browser'', ''mobileappsanddesktopclients'', ''exchangeactivesync'', ''other'']"

definition ca_prefixes :: "json \<Rightarrow> string list" where
  "ca_prefixes cond =
    (case json_field cond ''userAgents'' of
       Some (JObj o1) \<Rightarrow> stringList (json_field (JObj o1) ''include'')
     | Some (JArr items) \<Rightarrow> stringList (Some (JArr items))
     | _ \<Rightarrow> []) @
    filter (\<lambda>t. to_lower t \<notin> set known_client_types) (stringList (json_field cond ''clientAppTypes''))"

definition caUserAgentAllowed :: "json \<Rightarrow> string \<Rightarrow> bool" where
  "caUserAgentAllowed cond ua =
    (let prefixes = ca_prefixes cond in
     if prefixes = [] then True
     else if ua = [] then False
     else list_ex (\<lambda>p. p \<noteq> [] \<and> (ua = p \<or> has_prefix ua p)) prefixes)"

text \<open>One turn of the loop: a policy that is enabled, applies to the client and wants another agent.\<close>

definition policy_blocks :: "string \<Rightarrow> string \<Rightarrow> json \<Rightarrow> bool" where
  "policy_blocks ua clientID p =
    (case (json_field p ''state'', json_field p ''conditions'') of
       (Some (JStr state), Some (JObj kvs)) \<Rightarrow>
         equal_fold state ''enabled'' \<and> \<not> caClientExcluded (JObj kvs) clientID \<and>
         caClientIncluded (JObj kvs) clientID \<and> \<not> caUserAgentAllowed (JObj kvs) ua
     | _ \<Rightarrow> False)"

definition conditionalAccessBlocked :: "store \<Rightarrow> web_request \<Rightarrow> string \<Rightarrow> bool" where
  "conditionalAccessBlocked s r clientID =
    (case ListCAPolicies s of
       Inl e \<Rightarrow> False
     | Inr policies \<Rightarrow> list_ex (policy_blocks (header_get (web_http r) ''User-Agent'') clientID) policies)"

definition caBlockedDescription :: string where
  "caBlockedDescription = ''AADSTS53003: Access has been blocked by Conditional Access policies. The access policy does not allow token issuance. BlockedByConditionalAccess.''"

definition writeConditionalAccessDenied :: http_response where
  "writeConditionalAccessDenied = WriteOAuth 400 ''invalid_grant'' caBlockedDescription"

section \<open>Writing a token\<close>

definition normalizeTokenAudience :: "string \<Rightarrow> string" where
  "normalizeTokenAudience audience0 =
    (let a1 = trim_suffix (trim_space audience0) ''/.default'';
         a2 = (case index_byte a1 CHR '' '' of Some (Suc i) \<Rightarrow> take (Suc i) a1 | _ \<Rightarrow> a1) in
     trim_right_char CHR ''/'' (trim_space a2))"

definition tokenAudience :: "web_request \<Rightarrow> string" where
  "tokenAudience r =
    normalizeTokenAudience (if form_get r ''scope'' = [] then form_get r ''resource'' else form_get r ''scope'')"

definition refreshTTL :: int where
  "refreshTTL = 24 * 60 * 60 * nanos"

definition deviceTTL :: int where
  "deviceTTL = 15 * 60 * nanos"

definition writeToken ::
  "entra_env \<Rightarrow> entra_random \<Rightarrow> entra_state \<Rightarrow> web_request \<Rightarrow> string \<Rightarrow> string \<Rightarrow> bool \<Rightarrow>
    http_response \<times> entra_state" where
  "writeToken env rnd st r principalID audience withRefresh =
    (if conditionalAccessBlocked (snd st) r (form_get r ''client_id'') then (writeConditionalAccessDenied, st)
     else (case mintAccessToken env rnd st principalID audience (entra_origin env r) of
         (Inl e, st') \<Rightarrow> (WriteOAuth 500 ''server_error'' e, st')
       | (Inr token, (k, s)) \<Rightarrow>
           (let body = [(''token_type'', JStr ''Bearer''), (''expires_in'', JNum defaultExpiresIn),
                  (''ext_expires_in'', JNum defaultExpiresIn), (''access_token'', JStr token)] @
                (if \<not> contains (rq_path (web_http r)) ''/v2.0/'' \<and> audience \<noteq> []
                 then [(''resource'', JStr audience)] else []) in
            if \<not> withRefresh then (writeJSON 200 (JObj body), (k, s))
            else (case PutRefreshToken s (HashToken (en_lib env) (er_token rnd)) principalID audience
                (en_now env + refreshTTL) of
                (Inl e, s') \<Rightarrow> (WriteOAuth 500 ''server_error'' e, (k, s'))
              | (Inr u, s') \<Rightarrow>
                  (writeJSON 200 (JObj (body @ [(''refresh_token'', JStr (er_token rnd))])), (k, s'))))))"

definition entraClientIP :: "web_request \<Rightarrow> string" where
  "entraClientIP r = (case split_host_port (web_remote r) of None \<Rightarrow> web_remote r | Some (host, port) \<Rightarrow> host)"

definition recordServicePrincipalSignIn ::
  "entra_env \<Rightarrow> store \<Rightarrow> web_request \<Rightarrow> string \<Rightarrow> string \<Rightarrow> store" where
  "recordServicePrincipalSignIn env s r appID audience =
    snd (InsertLogAnalyticsRow s DefaultLogAnalyticsWorkspace ''AADServicePrincipalSignInLogs''
      (JObj [(''TimeGenerated'', JStr (en_format_time env (en_audit_now env))), (''AppId'', JStr appID),
        (''ServicePrincipalName'', JStr appID), (''IPAddress'', JStr (entraClientIP r)),
        (''ResultType'', JStr ''0''), (''ResourceDisplayName'', JStr audience)]))"

section \<open>Client secrets and assertions\<close>

text \<open>The identifiers under which the credentials of a client are looked for.\<close>

definition app_ids :: "(string \<times> string \<times> string) option \<Rightarrow> string list" where
  "app_ids found = (case found of None \<Rightarrow> [] | Some (obj, app, name) \<Rightarrow> [obj, app])"

definition clientSecretMatches :: "entra_env \<Rightarrow> store \<Rightarrow> string \<Rightarrow> string \<Rightarrow> bool result" where
  "clientSecretMatches env s clientID secret =
    (case ResolveEntraApp s (appTenant env) clientID of
       Inl e \<Rightarrow> Inl e
     | Inr app \<Rightarrow> (case GetServicePrincipal s clientID of
           Inl e \<Rightarrow> Inl e
         | Inr None \<Rightarrow> PasswordSecretMatches (en_lib env) (en_bcrypt env) s (clientID # app_ids app) secret
         | Inr (Some sp) \<Rightarrow> (case ResolveEntraApp s (appTenant env) (sp_AppID sp) of
               Inl e \<Rightarrow> Inl e
             | Inr app2 \<Rightarrow> PasswordSecretMatches (en_lib env) (en_bcrypt env) s
                 (clientID # app_ids app @ [sp_ID sp, sp_AppID sp] @ app_ids app2) secret)))"

definition federatedMatchAppIDs :: "entra_env \<Rightarrow> store \<Rightarrow> string \<Rightarrow> string list" where
  "federatedMatchAppIDs env s clientID0 =
    (let clientID = trim_space clientID0;
         ids = (\<lambda>i. case ResolveEntraApp s (appTenant env) i of Inr found \<Rightarrow> app_ids found | Inl e \<Rightarrow> []) in
     if clientID = [] then []
     else clientID # ids clientID @
       (case GetServicePrincipal s clientID of
          Inr (Some sp) \<Rightarrow> [sp_ID sp, sp_AppID sp] @ ids (sp_AppID sp)
        | _ \<Rightarrow> []))"

definition isEntraIssuedAssertion :: "entra_env \<Rightarrow> string \<Rightarrow> web_request \<Rightarrow> bool" where
  "isEntraIssuedAssertion env iss0 r =
    (let iss = trim_space iss0 in
     iss \<noteq> [] \<and> list_ex (\<lambda>base0. let base = trim_right_char CHR ''/'' (trim_space base0) in
        base \<noteq> [] \<and> has_prefix iss (base @ ''/'' @ appTenant env)) [entra_base env, entra_origin env r])"

definition isLabOIDCIssuer :: "entra_env \<Rightarrow> string \<Rightarrow> bool" where
  "isLabOIDCIssuer env iss \<longleftrightarrow> LabOIDCIssuerPath (en_url env) iss \<noteq> None"

definition invalid_client :: "string \<Rightarrow> http_response" where
  "invalid_client description = WriteOAuth 401 ''invalid_client'' description"

definition server_error :: "string \<Rightarrow> http_response" where
  "server_error description = WriteOAuth 500 ''server_error'' description"

text \<open>\<open>Inr\<close> is the client that proved itself.\<close>

definition verifyFederatedAssertion ::
  "entra_env \<Rightarrow> entra_random \<Rightarrow> store \<Rightarrow> string \<Rightarrow> string \<Rightarrow> string \<Rightarrow> string \<Rightarrow> (http_response + string) \<times> store" where
  "verifyFederatedAssertion env rnd s clientID0 assertion iss aud =
    (let clientID = trim_space clientID0 in
     if clientID = [] then (Inl (invalid_client ''client_id is required for federated client_assertion''), s)
     else (case ensureOIDCLabKey env rnd s of
         (Inl e, s') \<Rightarrow> (Inl (server_error e), s')
       | (Inr (kid, priv), s') \<Rightarrow>
           ((case VerifyRS256JWT (en_lib env) (en_jose env) (x5_public (en_x509 env) priv) assertion (en_now env) of
               Inl e \<Rightarrow> Inl (invalid_client ''federated assertion signature is invalid'')
             | Inr claims \<Rightarrow> (case federatedMatchAppIDs env s' clientID of
                 [] \<Rightarrow> Inl (invalid_client ''client_id is required for federated client_assertion'')
               | i # ids \<Rightarrow> (case MatchFIC (en_lib env) (en_url env) s' iss aud claims (i # ids) of
                   Inl e \<Rightarrow> Inl (server_error e)
                 | Inr None \<Rightarrow> Inl (invalid_client ''federated credential subject/issuer/audience did not match'')
                 | Inr (Some fic) \<Rightarrow>
                     (case ResolveEntraApp s' (appTenant env) (fic_AppObjectID fic) of
                        Inl e \<Rightarrow> Inl (server_error e)
                      | Inr None \<Rightarrow> Inr clientID
                      | Inr (Some (obj, appID, name)) \<Rightarrow>
                          if clientID \<noteq> appID \<and> clientID \<noteq> fic_AppObjectID fic
                          then Inl (invalid_client ''client_id does not match federated credential application'')
                          else Inr appID)))), s')))"

definition assertionAudOK :: "entra_env \<Rightarrow> web_request \<Rightarrow> string \<Rightarrow> bool" where
  "assertionAudOK env r aud0 =
    (let aud = trim_space aud0 in
     aud \<noteq> [] \<and> list_ex (\<lambda>base0. let base = trim_right_char CHR ''/'' (trim_space base0) in
        base \<noteq> [] \<and> aud \<in> set [base @ ''/'' @ pathTenant env r @ ''/oauth2/v2.0/token'',
          base @ ''/'' @ pathTenant env r @ ''/oauth2/token'',
          base @ ''/'' @ appTenant env @ ''/oauth2/v2.0/token'']) [entra_origin env r, entra_base env])"

definition parseRSAPublicPEM :: "x509 \<Rightarrow> string \<Rightarrow> string option" where
  "parseRSAPublicPEM x raw =
    (case x5_pem_decode x raw of
       None \<Rightarrow> None
     | Some block \<Rightarrow>
         (case x5_certificate x block of
            Inr key \<Rightarrow> key
          | Inl e \<Rightarrow> (case x5_pkix x block of
              Inr key \<Rightarrow> key
            | Inl e \<Rightarrow> (case x5_pkcs1_public x block of
                Inr key \<Rightarrow> Some key
              | Inl e \<Rightarrow> (case x5_pkcs1 x block of
                  Inr key \<Rightarrow> Some (x5_public x key)
                | Inl e \<Rightarrow> (case x5_pkcs8 x block of
                    Inr key \<Rightarrow> map_option (x5_public x) key
                  | Inl e \<Rightarrow> None))))))"

text \<open>One turn of the loop over the registered keys.\<close>

definition signed_by :: "entra_env \<Rightarrow> string \<Rightarrow> string \<Rightarrow> bool" where
  "signed_by env assertion pem =
    (case parseRSAPublicPEM (en_x509 env) pem of
       None \<Rightarrow> False
     | Some pub \<Rightarrow> (case VerifyRS256JWT (en_lib env) (en_jose env) pub assertion (en_now env) of
           Inl e \<Rightarrow> False | Inr claims \<Rightarrow> True))"

text \<open>The keys of the application, or those of its service principal when it has none.\<close>

definition assertion_keys :: "store \<Rightarrow> string \<Rightarrow> string \<Rightarrow> string list result" where
  "assertion_keys s objID clientID =
    (case ListKeyPEMs s objID of
       Inl e \<Rightarrow> Inl e
     | Inr [] \<Rightarrow> (case GetServicePrincipal s clientID of
           Inr (Some sp) \<Rightarrow> (case ListKeyPEMs s (sp_ID sp) of Inr pems \<Rightarrow> Inr pems | Inl e \<Rightarrow> Inr [])
         | _ \<Rightarrow> Inr [])
     | Inr (pem # pems) \<Rightarrow> Inr (pem # pems))"

definition verifyPrivateKeyJWT ::
  "entra_env \<Rightarrow> store \<Rightarrow> web_request \<Rightarrow> string \<Rightarrow> string \<Rightarrow> string \<Rightarrow> string \<Rightarrow> string \<Rightarrow> http_response + string" where
  "verifyPrivateKeyJWT env s r clientID0 assertion iss sub aud =
    (let clientID = (if clientID0 = [] then iss else clientID0) in
     if iss = [] \<or> sub = [] \<or> iss \<noteq> sub
     then Inl (invalid_client ''private_key_jwt iss and sub must equal the application client id'')
     else if clientID \<noteq> iss then Inl (invalid_client ''client_id does not match assertion iss'')
     else if \<not> assertionAudOK env r aud then Inl (invalid_client ''assertion aud must be the token endpoint'')
     else (case ResolveEntraApp s (appTenant env) clientID of
         Inr (Some (objID, appID, name)) \<Rightarrow>
           (case assertion_keys s objID clientID of
              Inl e \<Rightarrow> Inl (server_error e)
            | Inr pems \<Rightarrow> if list_ex (signed_by env assertion) pems then Inr appID
                else Inl (invalid_client ''client_assertion was not signed by a registered key credential''))
       | _ \<Rightarrow> Inl (invalid_client ''application not found for certificate assertion'')))"

definition verifyClientAssertion ::
  "entra_env \<Rightarrow> entra_random \<Rightarrow> store \<Rightarrow> web_request \<Rightarrow> string \<Rightarrow> string \<Rightarrow> (http_response + string) \<times> store" where
  "verifyClientAssertion env rnd s r clientID assertion =
    (case DecodeJWTUnverified (en_lib env) assertion of
       Inl e \<Rightarrow> (Inl (invalid_client ''client_assertion is not a JWT''), s)
     | Inr (header, claims) \<Rightarrow>
         (let iss = ClaimString claims ''iss''; sub = ClaimString claims ''sub''; aud = ClaimString claims ''aud'' in
          if isEntraIssuedAssertion env iss r
          then (Inl (invalid_client ''Entra-issued tokens cannot be used as federated assertions''), s)
          else if isLabOIDCIssuer env iss then verifyFederatedAssertion env rnd s clientID assertion iss aud
          else (verifyPrivateKeyJWT env s r clientID assertion iss sub aud, s)))"

section \<open>The grants\<close>

definition assertionType :: string where
  "assertionType = ''urn:ietf:params:oauth:client-assertion-type:jwt-bearer''"

definition grantDeviceCode :: string where
  "grantDeviceCode = ''urn:ietf:params:oauth:grant-type:device_code''"

definition grantOBO :: string where
  "grantOBO = ''urn:ietf:params:oauth:grant-type:jwt-bearer''"

text \<open>How a client proves who it is: by an assertion, or else by its secret.\<close>

definition client_of ::
  "entra_env \<Rightarrow> entra_random \<Rightarrow> store \<Rightarrow> web_request \<Rightarrow> (http_response + string) \<times> store" where
  "client_of env rnd s r =
    (let clientID = form_get r ''client_id''; assertion = form_get r ''client_assertion'';
         typ0 = form_get r ''client_assertion_type'' in
     if assertion \<noteq> [] then
       (if typ0 \<noteq> [] \<and> typ0 \<noteq> assertionType
        then (Inl (WriteOAuth 400 ''invalid_client'' (''client_assertion_type must be '' @ assertionType)), s)
        else (case verifyClientAssertion env rnd s r clientID assertion of
            (Inl rs, s') \<Rightarrow> (Inl rs, s')
          | (Inr i, s') \<Rightarrow>
              (if i = [] then Inl (WriteOAuth 400 ''invalid_request'' ''client_id is required'') else Inr i, s')))
     else if clientID = [] then (Inl (WriteOAuth 400 ''invalid_request'' ''client_id is required''), s)
     else (let secret = form_get r ''client_secret'' in
       if secret = [] then
         (Inl (invalid_client ''AADSTS7000218: The request body must contain the following parameter: 'client_assertion' or 'client_secret'.''), s)
       else (case clientSecretMatches env s clientID secret of
           Inl e \<Rightarrow> (Inl (server_error e), s)
         | Inr ok \<Rightarrow> (if ok then Inr clientID
             else Inl (invalid_client ''AADSTS7000215: Invalid client secret provided.''), s))))"

definition tokenClientCredentials ::
  "entra_env \<Rightarrow> entra_random \<Rightarrow> entra_state \<Rightarrow> web_request \<Rightarrow> http_response \<times> entra_state" where
  "tokenClientCredentials env rnd st r =
    (case client_of env rnd (snd st) r of
       (Inl rs, s) \<Rightarrow> (rs, (fst st, s))
     | (Inr clientID, s) \<Rightarrow>
         writeToken env rnd (fst st, recordServicePrincipalSignIn env s r clientID (tokenAudience r)) r
           clientID (tokenAudience r) False)"

definition wrong_password :: http_response where
  "wrong_password = WriteOAuth 401 ''invalid_grant'' ''AADSTS50126: Invalid username or password.''"

text \<open>The user a name and a password prove.\<close>

definition user_of :: "entra_env \<Rightarrow> store \<Rightarrow> web_request \<Rightarrow> http_response + DirectoryUser" where
  "user_of env s r =
    (case GetDirectoryUser s (form_get r ''username'') of
       Inl e \<Rightarrow> Inl (server_error e)
     | Inr None \<Rightarrow> Inl wrong_password
     | Inr (Some u) \<Rightarrow>
         (case UserPasswordMatches (en_lib env) (en_bcrypt env) s (usr_ID u) (form_get r ''password'') of
            Inl e \<Rightarrow> Inl (server_error e)
          | Inr ok \<Rightarrow> if ok then Inr u else Inl wrong_password))"

definition tokenPassword ::
  "entra_env \<Rightarrow> entra_random \<Rightarrow> entra_state \<Rightarrow> web_request \<Rightarrow> http_response \<times> entra_state" where
  "tokenPassword env rnd st r =
    (if form_get r ''username'' = [] \<or> form_get r ''password'' = []
     then (WriteOAuth 400 ''invalid_grant'' ''username and password are required'', st)
     else (case user_of env (snd st) r of
         Inl rs \<Rightarrow> (rs, st)
       | Inr u \<Rightarrow> writeToken env rnd st r (usr_ID u) (tokenAudience r) True))"

definition tokenRefresh ::
  "entra_env \<Rightarrow> entra_random \<Rightarrow> entra_state \<Rightarrow> web_request \<Rightarrow> http_response \<times> entra_state" where
  "tokenRefresh env rnd st r =
    (let rt = form_get r ''refresh_token'' in
     if rt = [] then (WriteOAuth 400 ''invalid_request'' ''refresh_token is required'', st)
     else (case LookupRefreshToken (snd st) (HashToken (en_lib env) rt) (en_now env) of
         Inl e \<Rightarrow> (server_error e, st)
       | Inr None \<Rightarrow> (WriteOAuth 400 ''invalid_grant'' ''refresh_token is invalid or expired'', st)
       | Inr (Some (i, stored)) \<Rightarrow>
           (let requested = tokenAudience r; storedAud = normalizeTokenAudience stored in
            if requested \<noteq> [] \<and> requested \<noteq> storedAud
            then (WriteOAuth 400 ''invalid_grant'' ''refresh_token cannot change audience via scope or resource'', st)
            else writeToken env rnd st r i storedAud True)))"

definition tokenDeviceCode ::
  "entra_env \<Rightarrow> entra_random \<Rightarrow> entra_state \<Rightarrow> web_request \<Rightarrow> http_response \<times> entra_state" where
  "tokenDeviceCode env rnd st r =
    (let code = form_get r ''device_code'' in
     if code = [] then (WriteOAuth 400 ''invalid_request'' ''device_code is required'', st)
     else (case LookupDeviceCode (en_lib env) (snd st) code (en_now env) of
         Inl e \<Rightarrow> (server_error e, st)
       | Inr None \<Rightarrow> (WriteOAuth 400 ''invalid_grant'' ''device_code is invalid or expired'', st)
       | Inr (Some (i, approved)) \<Rightarrow>
           if \<not> approved \<or> i = []
           then (WriteOAuth 400 ''authorization_pending'' ''AADSTS70016: Pending end-user authorization.'', st)
           else writeToken env rnd st r i (tokenAudience r) True))"

definition dispatchToken ::
  "entra_env \<Rightarrow> entra_random \<Rightarrow> entra_state \<Rightarrow> web_request \<Rightarrow> http_response \<times> entra_state" where
  "dispatchToken env rnd st r =
    (let ct = header_get (web_http r) ''Content-Type''; grant = form_get r ''grant_type'' in
     if ct \<noteq> [] \<and> \<not> has_prefix (to_lower ct) ''application/x-www-form-urlencoded''
     then (WriteOAuth 400 ''invalid_request'' ''Content-Type must be application/x-www-form-urlencoded'', st)
     else if web_form r = None then (WriteOAuth 400 ''invalid_request'' ''invalid form body'', st)
     else if grant = ''client_credentials'' then tokenClientCredentials env rnd st r
     else if grant = ''password'' then tokenPassword env rnd st r
     else if grant = ''refresh_token'' then tokenRefresh env rnd st r
     else if grant = grantDeviceCode then tokenDeviceCode env rnd st r
     else if grant = grantOBO
     then (WriteOAuth 400 ''unsupported_grant_type'' ''On-Behalf-Of jwt-bearer is not implemented; use client_credentials with client_assertion for federation'', st)
     else (WriteOAuth 400 ''unsupported_grant_type'' ''grant_type must be client_credentials, password, refresh_token, or device_code'', st))"

section \<open>Device codes\<close>

definition handleDeviceCode ::
  "entra_env \<Rightarrow> entra_random \<Rightarrow> store \<Rightarrow> web_request \<Rightarrow> http_response \<times> store" where
  "handleDeviceCode env rnd s r =
    (if web_form r = None then (WriteOAuth 400 ''invalid_request'' ''invalid form body'', s)
     else let code = er_token rnd; userCode = to_upper (er_token2 rnd @ ''-'' @ er_token3 rnd) in
       (case PutDeviceCode (en_lib env) s code userCode (en_now env + deviceTTL) of
          (Inl e, s') \<Rightarrow> (server_error e, s')
        | (Inr u, s') \<Rightarrow>
            (writeJSON 200 (JObj [(''device_code'', JStr code), (''user_code'', JStr userCode),
               (''verification_uri'', JStr (entra_base env @ ''/device'')), (''expires_in'', JNum (deviceTTL div nanos)),
               (''interval'', JNum 5),
               (''message'', JStr (''Enter the user_code at '' @ entra_base env @
                 ''/device and approve with a directory user password before exchanging the device_code.''))]), s')))"

definition handleDeviceApprove ::
  "entra_env \<Rightarrow> store \<Rightarrow> web_request \<Rightarrow> http_response \<times> store" where
  "handleDeviceApprove env s r =
    (if web_form r = None then (WriteOAuth 400 ''invalid_request'' ''invalid form body'', s)
     else if form_get r ''user_code'' = [] \<or> form_get r ''username'' = [] \<or> form_get r ''password'' = []
     then (WriteOAuth 400 ''invalid_request'' ''user_code, username, and password are required'', s)
     else (case user_of env s r of
         Inl rs \<Rightarrow> (rs, s)
       | Inr u \<Rightarrow>
           (case ApproveDeviceCode s (form_get r ''user_code'') (usr_ID u) (en_now env) of
              (Inl e, s') \<Rightarrow> (server_error e, s')
            | (Inr approved, s') \<Rightarrow>
                if \<not> approved
                then (WriteOAuth 400 ''invalid_grant'' ''user_code is invalid, expired, or already approved'', s')
                else (writeJSON 200 (JObj [(''status'', JStr ''approved''),
                  (''message'', JStr ''device code approved; complete token exchange with the device_code'')]), s'))))"

section \<open>The issuer of the laboratory\<close>

definition labOIDCIssuerAt :: "entra_env \<Rightarrow> string \<Rightarrow> string" where
  "labOIDCIssuerAt env origin0 =
    (let origin1 = trim_right_char CHR ''/'' (trim_space origin0);
         origin = (if origin1 = [] then entra_base env else origin1) in
     origin @ (if en_StripProduct env then ''/_lab/oidc-lab'' else ''/_noctaxris-az/oidc-lab''))"

definition mintLabOIDCAssertion ::
  "entra_env \<Rightarrow> entra_random \<Rightarrow> store \<Rightarrow> string \<Rightarrow> string \<Rightarrow> string \<Rightarrow> (string \<times> json) list \<Rightarrow> string result \<times> store" where
  "mintLabOIDCAssertion env rnd s origin subject audience0 extra =
    (case ensureOIDCLabKey env rnd s of
       (Inl e, s') \<Rightarrow> (Inl e, s')
     | (Inr (kid, priv), s') \<Rightarrow>
         (let audience = (if audience0 = [] then ''api://AzureADTokenExchange'' else audience0);
              now = en_now env div nanos;
              claims = [(''iss'', JStr (labOIDCIssuerAt env origin)), (''sub'', JStr subject), (''aud'', JStr audience),
                (''iat'', JNum now), (''nbf'', JNum now), (''exp'', JNum ((en_now env + 600 * nanos) div nanos))];
              more = filter (\<lambda>(k, v). k \<noteq> ''iss'' \<and> k \<noteq> ''sub'' \<and> k \<noteq> ''aud'') extra in
          (EncodeRS256JWT (en_jose env) priv kid
             (JObj (more @ filter (\<lambda>(k, v). k \<notin> fst ` set more) claims)), s')))"

definition handleLabOIDCDiscovery :: "entra_env \<Rightarrow> web_request \<Rightarrow> http_response" where
  "handleLabOIDCDiscovery env r =
    (let iss = labOIDCIssuerAt env (entra_origin env r) in
     writeJSON 200 (JObj [(''issuer'', JStr iss), (''jwks_uri'', JStr (iss @ ''/keys'')),
       (''token_endpoint'', JStr (iss @ ''/token'')),
       (''id_token_signing_alg_values_supported'', json_strings [''RS256'']),
       (''subject_types_supported'', json_strings [''public''])]))"

definition handleLabJWKS ::
  "entra_env \<Rightarrow> entra_random \<Rightarrow> (string \<Rightarrow> string \<times> string) \<Rightarrow> store \<Rightarrow> http_response \<times> store" where
  "handleLabJWKS env rnd numbers s =
    (case ensureOIDCLabKey env rnd s of
       (Inl e, s') \<Rightarrow> (WriteARM 500 ''InternalServerError'' e, s')
     | (Inr (kid, priv), s') \<Rightarrow>
         (writeJSON 200 (JObj [(''keys'', JArr [JObj (jwk_of numbers (en_x509 env) kid priv)])]), s'))"

text \<open>The first of the four parameters that is given; only of the scope a part is taken.\<close>

definition lab_audience :: "web_request \<Rightarrow> string" where
  "lab_audience r =
    (if form_get r ''audience'' \<noteq> [] then form_get r ''audience''
     else if form_get r ''aud'' \<noteq> [] then form_get r ''aud''
     else if form_get r ''resource'' \<noteq> [] then form_get r ''resource''
     else let a = trim_suffix (form_get r ''scope'') ''/.default'' in
       (case index_byte a CHR '' '' of Some (Suc i) \<Rightarrow> take (Suc i) a | _ \<Rightarrow> a))"

definition handleLabOIDCToken ::
  "entra_env \<Rightarrow> entra_random \<Rightarrow> store \<Rightarrow> web_request \<Rightarrow> http_response \<times> store" where
  "handleLabOIDCToken env rnd s r =
    (let grant = form_get r ''grant_type'';
         subject = (if form_get r ''subject'' = [] then form_get r ''sub'' else form_get r ''subject'') in
     if web_form r = None then (WriteOAuth 400 ''invalid_request'' ''invalid form body'', s)
     else if grant \<noteq> [] \<and> grant \<noteq> ''client_credentials''
     then (WriteOAuth 400 ''unsupported_grant_type'' ''grant_type must be client_credentials'', s)
     else if subject = [] then (WriteOAuth 400 ''invalid_request'' ''subject is required'', s)
     else (case mintLabOIDCAssertion env rnd s (entra_origin env r) subject (lab_audience r) [] of
         (Inl e, s') \<Rightarrow> (server_error e, s')
       | (Inr token, s') \<Rightarrow>
           (writeJSON 200 (JObj [(''token_type'', JStr ''Bearer''), (''expires_in'', JNum 600),
              (''access_token'', JStr token), (''id_token'', JStr token)]), s')))"

end
