(* ===== verification/Entra_Roles.thy ===== *)
theory Entra_Roles
  imports Entra_Tokens
begin

text \<open>
  Who may write to the directory through Graph: the checks of \<open>internal/services/entra/graph.go\<close> on
  directory roles, owners and scoped assignments, and how the object a path names is found
  (\<open>graph_write.go\<close>). A check is \<open>None\<close> when the request may go on, otherwise the answer it gets.
\<close>

section \<open>Reading\<close>

definition requireGraph :: "Principal option \<Rightarrow> http_response option" where
  "requireGraph who =
    (case who of
       None \<Rightarrow> Some (WriteGraph 401 ''InvalidAuthenticationToken'' ''Access token is empty or invalid.'')
     | Some p \<Rightarrow>
         if \<not> AllowsGraph p
         then Some (WriteGraph 403 ''InvalidAuthenticationToken'' ''Access token validation failure. Invalid audience.'')
         else None)"

section \<open>Directory roles\<close>

definition applicationAdministratorTemplateID :: string where
  "applicationAdministratorTemplateID = ''9b895d92-2cd3-44c7-9d02-a6ac2d5ea5c3''"
definition seededApplicationAdministratorRoleID :: string where
  "seededApplicationAdministratorRoleID = ''99999999-9999-9999-9999-999999999999''"
definition globalAdministratorTemplateID :: string where
  "globalAdministratorTemplateID = ''62e90394-69f5-4237-9190-012177145e10''"
definition seededGlobalAdministratorRoleID :: string where
  "seededGlobalAdministratorRoleID = ''88888888-8888-8888-8888-888888888888''"
definition userAdministratorTemplateID :: string where
  "userAdministratorTemplateID = ''fe930be7-5e62-47db-91af-98c3a49a38b1''"
definition seededUserAdministratorRoleID :: string where
  "seededUserAdministratorRoleID = ''bbbbbbbb-bbbb-bbbb-bbbb-bbbbbbbbbbbb''"
definition privilegedRoleAdministratorTemplateID :: string where
  "privilegedRoleAdministratorTemplateID = ''e8611ab8-c189-46e8-94e1-60213ab1f814''"

text \<open>The name a template identifier stands for; the first match of the switch returns.\<close>

definition template_role :: "string \<Rightarrow> string option" where
  "template_role t =
    (if t = globalAdministratorTemplateID \<or> t = seededGlobalAdministratorRoleID then Some ''global administrator''
     else if t = applicationAdministratorTemplateID \<or> t = seededApplicationAdministratorRoleID
     then Some ''application administrator''
     else if t = userAdministratorTemplateID \<or> t = seededUserAdministratorRoleID then Some ''user administrator''
     else if t = privilegedRoleAdministratorTemplateID then Some ''privileged role administrator''
     else None)"

definition seeded_role :: "string \<Rightarrow> string option" where
  "seeded_role i =
    (if i = seededGlobalAdministratorRoleID then Some ''global administrator''
     else if i = seededApplicationAdministratorRoleID then Some ''application administrator''
     else if i = seededUserAdministratorRoleID then Some ''user administrator''
     else None)"

definition directoryRoleNameMatches :: "DirectoryRole \<Rightarrow> string list \<Rightarrow> bool" where
  "directoryRoleNameMatches role want =
    (if to_lower (trim_space (dro_DisplayName role)) \<in> set want then True
     else (case template_role (dro_TemplateID role) of
         Some name \<Rightarrow> name \<in> set want
       | None \<Rightarrow> (case seeded_role (dro_ID role) of Some name \<Rightarrow> name \<in> set want | None \<Rightarrow> False)))"

definition found_ids :: "(string \<times> string \<times> string) option result \<Rightarrow> string list" where
  "found_ids res = (case res of Inr (Some (obj, app, name)) \<Rightarrow> [obj, app] | _ \<Rightarrow> [])"

definition principal_ids :: "DirectoryServicePrincipal option result \<Rightarrow> string list" where
  "principal_ids res = (case res of Inr (Some sp) \<Rightarrow> [sp_ID sp, sp_AppID sp] | _ \<Rightarrow> [])"

definition directoryPrincipalIDs :: "entra_env \<Rightarrow> store \<Rightarrow> string \<Rightarrow> string list" where
  "directoryPrincipalIDs env s principalID =
    principalID # filter (\<lambda>i. i \<noteq> principalID) (distinct_ids
      (principal_ids (GetServicePrincipal s principalID) @
       found_ids (ResolveEntraApp s (appTenant env) principalID)))"

definition role_has_member :: "store \<Rightarrow> string list \<Rightarrow> DirectoryRole \<Rightarrow> bool" where
  "role_has_member s candidates role =
    (case ListDirectoryRoleMembers s (dro_ID role) of
       Inl e \<Rightarrow> False
     | Inr members \<Rightarrow> list_ex (\<lambda>mid. mid \<in> set candidates) members)"

definition principalHasDirectoryRole :: "entra_env \<Rightarrow> store \<Rightarrow> string \<Rightarrow> string list \<Rightarrow> bool" where
  "principalHasDirectoryRole env s principalID roleNames =
    (if principalID = [] \<or> roleNames = [] then False
     else (case ListDirectoryRoles s (appTenant env) of
         Inl e \<Rightarrow> False
       | Inr roles \<Rightarrow>
           list_ex (\<lambda>role. directoryRoleNameMatches role (map (\<lambda>n. to_lower (trim_space n)) roleNames) \<and>
             role_has_member s (directoryPrincipalIDs env s principalID) role) roles))"

definition request_denied :: http_response where
  "request_denied = WriteGraph 403 ''Authorization_RequestDenied'' ''Insufficient privileges to complete the operation.''"

definition requireGraphDirectoryWrite ::
  "entra_env \<Rightarrow> store \<Rightarrow> Principal option \<Rightarrow> string list \<Rightarrow> http_response option" where
  "requireGraphDirectoryWrite env s who roleNames =
    (case requireGraph who of
       Some rs \<Rightarrow> Some rs
     | None \<Rightarrow> (case who of
         None \<Rightarrow> Some (WriteGraph 401 ''InvalidAuthenticationToken'' ''Access token is empty or invalid.'')
       | Some p \<Rightarrow>
           if pr_IsRoot p then None
           else if principalHasDirectoryRole env s (pr_ID p) roleNames then None
           else Some request_denied))"

section \<open>Applications\<close>

definition isAppAdminRoleID :: "entra_env \<Rightarrow> store \<Rightarrow> string \<Rightarrow> bool" where
  "isAppAdminRoleID env s i =
    (if i = applicationAdministratorTemplateID \<or> i = seededApplicationAdministratorRoleID then True
     else (case ListDirectoryRoles s (appTenant env) of
         Inl e \<Rightarrow> False
       | Inr roles \<Rightarrow> list_ex (\<lambda>role. dro_ID role = i \<and>
           (dro_TemplateID role = applicationAdministratorTemplateID \<or>
            equal_fold (dro_DisplayName role) ''Application Administrator'')) roles))"

definition isApplicationAdministrator :: "entra_env \<Rightarrow> store \<Rightarrow> string \<Rightarrow> bool" where
  "isApplicationAdministrator env s principalID =
    (case ListDirectoryRoles s (appTenant env) of
       Inl e \<Rightarrow> False
     | Inr roles \<Rightarrow> list_ex (\<lambda>role.
         (dro_TemplateID role = applicationAdministratorTemplateID \<or>
          dro_ID role = seededApplicationAdministratorRoleID \<or>
          equal_fold (dro_DisplayName role) ''Application Administrator'') \<and>
         role_has_member s [principalID] role) roles)"

definition scope_forms :: "string list \<Rightarrow> string list" where
  "scope_forms ids = concat (map (\<lambda>i. [i, trim_prefix i ''/'']) (filter (\<lambda>i. i \<noteq> []) (map trim_space ids)))"

definition directoryScopeCandidates :: "entra_env \<Rightarrow> store \<Rightarrow> string \<Rightarrow> string list" where
  "directoryScopeCandidates env s resourceID =
    remdups (scope_forms (resourceID # found_ids (ResolveEntraApp s (appTenant env) resourceID) @
      (case GetServicePrincipal s resourceID of
         Inr (Some sp) \<Rightarrow> [sp_ID sp, sp_AppID sp] @ found_ids (ResolveEntraApp s (appTenant env) (sp_AppID sp))
       | _ \<Rightarrow> [])))"

definition directoryScopeMatches :: "string \<Rightarrow> string list \<Rightarrow> bool" where
  "directoryScopeMatches scope0 candidates =
    (let scope = trim_prefix (trim_space scope0) ''/'' in
     scope \<noteq> [] \<and> list_ex (\<lambda>c. c \<noteq> [] \<and> scope = trim_prefix c ''/'') candidates)"

text \<open>The assignments of the role to the principal, and whether one is for the whole tenant.\<close>

definition app_admin_scopes :: "entra_env \<Rightarrow> store \<Rightarrow> string \<Rightarrow> unified_assignment list \<Rightarrow> string list" where
  "app_admin_scopes env s principalID rows =
    map (\<lambda>r. trim_space (ura_directory_scope_id r))
      (filter (\<lambda>r. ura_principal_id r = principalID \<and> isAppAdminRoleID env s (ura_role_definition_id r)) rows)"

definition tenant_scope :: "string \<Rightarrow> bool" where
  "tenant_scope scope \<longleftrightarrow> scope = [] \<or> scope = ''/''"

definition applicationAdministratorAllows :: "entra_env \<Rightarrow> store \<Rightarrow> string \<Rightarrow> string \<Rightarrow> bool" where
  "applicationAdministratorAllows env s principalID resourceID =
    (case ListUnifiedRoleAssignments s of
       Inl e \<Rightarrow> isApplicationAdministrator env s principalID
     | Inr rows \<Rightarrow>
         (let scopes = app_admin_scopes env s principalID rows;
              scoped = filter (\<lambda>x. \<not> tenant_scope x) scopes in
          if list_ex (\<lambda>x. directoryScopeMatches x (directoryScopeCandidates env s resourceID)) scoped \<or>
             list_ex tenant_scope scopes
          then True
          else if scoped \<noteq> [] then False
          else isApplicationAdministrator env s principalID))"

definition graphAppWriteAllowed :: "entra_env \<Rightarrow> store \<Rightarrow> string \<Rightarrow> string \<Rightarrow> bool" where
  "graphAppWriteAllowed env s principalID resourceID =
    (if principalID = [] \<or> resourceID = [] then False
     else let owners = (case ListOwners s resourceID of Inl e \<Rightarrow> [] | Inr xs \<Rightarrow> xs);
            candidates = directoryPrincipalIDs env s principalID in
       if list_ex (\<lambda>owner. list_ex (\<lambda>oid. oid \<in> set candidates) (directoryPrincipalIDs env s owner)) owners
       then True
       else applicationAdministratorAllows env s principalID resourceID)"

definition requireGraphAppWrite ::
  "entra_env \<Rightarrow> store \<Rightarrow> Principal option \<Rightarrow> string \<Rightarrow> http_response option" where
  "requireGraphAppWrite env s who resourceID =
    (case requireGraph who of
       Some rs \<Rightarrow> Some rs
     | None \<Rightarrow> (case who of
         None \<Rightarrow> Some (WriteGraph 401 ''InvalidAuthenticationToken'' ''Access token is empty or invalid.'')
       | Some p \<Rightarrow>
           if pr_IsRoot p then None
           else if graphAppWriteAllowed env s (pr_ID p) resourceID then None
           else Some request_denied))"

section \<open>The object a path names\<close>

definition NormalizeAppIdFilter :: "string \<Rightarrow> string" where
  "NormalizeAppIdFilter raw0 =
    (let raw = trim_space raw0; prefix = ''applications(appId='' @ [CHR 0x27] in
     case index_of raw prefix of
       None \<Rightarrow> raw
     | Some i \<Rightarrow> (let rest = drop (i + length prefix) raw in
         case index_of rest ([CHR 0x27] @ '')'') of None \<Rightarrow> raw | Some j \<Rightarrow> take j rest))"

definition segmentAfter :: "string \<Rightarrow> string \<Rightarrow> string" where
  "segmentAfter path marker =
    (case index_of path marker of
       None \<Rightarrow> []
     | Some i \<Rightarrow> NormalizeAppIdFilter (takeWhile (\<lambda>c. c \<noteq> CHR ''/'') (drop (i + length marker) path)))"

text \<open>\<open>raw\<close> is the path value \<open>appId\<close>, or \<open>id\<close> where that is empty; \<open>rest\<close> the path value \<open>path\<close>.\<close>

definition graphPathObjectID :: "string \<Rightarrow> string \<Rightarrow> string \<Rightarrow> string" where
  "graphPathObjectID raw0 rest path =
    (let raw = NormalizeAppIdFilter raw0 in
     if raw \<noteq> [] \<and> CHR ''/'' \<notin> set raw \<and> CHR ''('' \<notin> set raw then raw
     else if NormalizeAppIdFilter rest \<noteq> [] \<and> NormalizeAppIdFilter rest \<noteq> rest then NormalizeAppIdFilter rest
     else if NormalizeAppIdFilter path \<noteq> [] \<and> NormalizeAppIdFilter path \<noteq> path then NormalizeAppIdFilter path
     else (case filter (\<lambda>i. i \<noteq> []) (map (segmentAfter path)
         [''/applications/'', ''/servicePrincipals/'', ''/groups/'', ''/directoryRoles/'']) of
         i # ids \<Rightarrow> i
       | [] \<Rightarrow> raw))"

text \<open>\<open>None\<close> is the second result \<open>false\<close>.\<close>

definition ownerTarget :: "entra_env \<Rightarrow> store \<Rightarrow> string \<Rightarrow> string \<Rightarrow> string \<Rightarrow> string option" where
  "ownerTarget env s raw0 rest path =
    (let raw = graphPathObjectID raw0 rest path in
     if raw = [] then None
     else if contains path ''/servicePrincipals/'' \<or> contains path ''/servicePrincipals('' then
       (case GetServicePrincipal s raw of
          Inr (Some sp) \<Rightarrow>
            if contains path ''servicePrincipals(appId='' then Some (sp_ID sp)
            else if sp_ID sp = raw then Some (sp_ID sp) else None
        | _ \<Rightarrow> None)
     else if contains path ''/applications/'' \<or> contains path ''/applications('' then
       (if contains path ''applications(appId='' then
          (case ResolveEntraApp s (appTenant env) raw of Inr (Some (obj, app, name)) \<Rightarrow> Some obj | _ \<Rightarrow> None)
        else (case GetEntraApp s (appTenant env) raw of
            Inr (Some row) \<Rightarrow> if app_ObjectID row = [] \<or> app_ObjectID row \<noteq> raw then None else Some (app_ObjectID row)
          | _ \<Rightarrow> None))
     else if contains path ''/groups/'' \<or> contains path ''/devices/'' then Some raw
     else None)"

text \<open>The object and its type; the object is empty when there is none.\<close>

definition passwordTarget :: "entra_env \<Rightarrow> store \<Rightarrow> string \<Rightarrow> string \<Rightarrow> string \<Rightarrow> string \<times> string" where
  "passwordTarget env s raw0 rest path =
    (let raw = graphPathObjectID raw0 rest path;
         obj_of = (\<lambda>i. case ResolveEntraApp s (appTenant env) i of Inr (Some (obj, app, name)) \<Rightarrow> Some obj | _ \<Rightarrow> None) in
     if contains path ''/servicePrincipals/'' then
       (case GetServicePrincipal s raw of Inr (Some sp) \<Rightarrow> sp_ID sp | _ \<Rightarrow> [], ''servicePrincipal'')
     else (case obj_of raw of
         Some obj \<Rightarrow> obj
       | None \<Rightarrow> (let f = NormalizeAppIdFilter rest in
           if f = [] then [] else (case obj_of f of Some obj \<Rightarrow> obj | None \<Rightarrow> [])), ''application''))"

section \<open>What the checks mean\<close>

definition graph_caller :: "Principal option \<Rightarrow> Principal \<Rightarrow> bool" where
  "graph_caller who p \<longleftrightarrow> who = Some p \<and> AllowsGraph p"

lemma requireGraph_None: "requireGraph who = None \<longleftrightarrow> (\<exists>p. graph_caller who p)"
  by (auto simp: requireGraph_def graph_caller_def split: option.splits)

lemma directory_write_None:
  "requireGraphDirectoryWrite env s who names = None \<longleftrightarrow>
    (\<exists>p. graph_caller who p \<and> (pr_IsRoot p \<or> principalHasDirectoryRole env s (pr_ID p) names))"
  by (auto simp: requireGraphDirectoryWrite_def requireGraph_def graph_caller_def request_denied_def split: option.splits)

lemma app_write_None:
  "requireGraphAppWrite env s who i = None \<longleftrightarrow>
    (\<exists>p. graph_caller who p \<and> (pr_IsRoot p \<or> graphAppWriteAllowed env s (pr_ID p) i))"
  by (auto simp: requireGraphAppWrite_def requireGraph_def graph_caller_def request_denied_def split: option.splits)

lemma graph_refusals:
  "requireGraph who = Some rs \<Longrightarrow> rs_code rs \<in> {401, 403}"
  "requireGraphDirectoryWrite env s who names = Some rs \<Longrightarrow> rs_code rs \<in> {401, 403}"
  "requireGraphAppWrite env s who i = Some rs \<Longrightarrow> rs_code rs \<in> {401, 403}"
  by (auto simp: requireGraphDirectoryWrite_def requireGraphAppWrite_def requireGraph_def request_denied_def
      split: option.splits if_splits)

end
