(* ===== verification/Entra_Graph.thy ===== *)
theory Entra_Graph
  imports Entra_Roles Arm_Lab
begin

text \<open>
  The Graph API of the directory: \<open>internal/services/entra/graph.go\<close>, \<open>graph_write.go\<close>,
  \<open>applications.go\<close>, \<open>odata.go\<close>, \<open>conditional_access.go\<close> (writing policies), \<open>aadgraph.go\<close> and
  \<open>iamportal.go\<close>. A handler answers with \<open>None\<close> when it panics: \<open>net/http\<close> then drops the connection.
  Each field of a body is given once.
\<close>

section \<open>Pages\<close>

text \<open>
  \<open>$top\<close> and \<open>$skiptoken\<close> are machine integers of 64 bits and their sum wraps around. \<open>None\<close> is the
  panic of slicing to an end before the start.
\<close>

definition odata_param :: "http_request \<Rightarrow> string \<Rightarrow> (int \<Rightarrow> bool) \<Rightarrow> int \<Rightarrow> int" where
  "odata_param r k ok dflt =
    (let v = trim_space (query_get r k) in
     if v = [] then dflt
     else (case parse_int64 v of None \<Rightarrow> dflt | Some n \<Rightarrow> if ok n then n else dflt))"

definition select_fields :: "string list \<Rightarrow> (string \<times> json) list \<Rightarrow> (string \<times> json) list" where
  "select_fields names item =
    concat (map (\<lambda>f. case map_of item f of None \<Rightarrow> [] | Some v \<Rightarrow> [(f, v)]) (remdups (map trim_space names)))"

definition page_end :: "int \<Rightarrow> int \<Rightarrow> int" where
  "page_end skip ntop = sint (word_of_int (skip + ntop) :: u64)"

definition applyOData ::
  "http_request \<Rightarrow> (string \<times> json) list list \<Rightarrow> ((string \<times> json) list list \<times> int \<times> bool) option" where
  "applyOData r items =
    (let n = int (length items);
         ntop = odata_param r ''$top'' (\<lambda>k. k > 0) 100;
         skip = min (odata_param r ''$skiptoken'' (\<lambda>k. k \<ge> 0) 0) n;
         e = page_end skip ntop; end1 = (if e > n then n else e);
         sel = trim_space (query_get r ''$select'') in
     if end1 < skip then None
     else (let page = take (nat (end1 - skip)) (drop (nat skip) items) in
       Some (if sel \<noteq> [] then map (select_fields (split_on CHR '','' sel)) page else page, end1, end1 < n)))"

definition writeOData ::
  "entra_env \<Rightarrow> web_request \<Rightarrow> (string \<times> json) list list \<Rightarrow> http_response option" where
  "writeOData env r items =
    (case applyOData (web_http r) items of
       None \<Rightarrow> None
     | Some (page, nextSkip, hasMore) \<Rightarrow>
         Some (writeJSON 200 (JObj
           ([(''@odata.context'', JStr (entra_origin env r @ ''/v1.0/$metadata#Collection(microsoft.graph.directoryObject)'')),
             (''value'', JArr (map JObj page))] @
            (if hasMore then [(''@odata.nextLink'',
               JStr (entra_origin env r @ rq_path (web_http r) @ ''?$skiptoken='' @ format_int nextSkip))] else [])))))"

section \<open>What is shown\<close>

definition userJSON :: "DirectoryUser \<Rightarrow> (string \<times> json) list" where
  "userJSON u = [(''id'', JStr (usr_ID u)), (''displayName'', JStr (usr_DisplayName u)),
     (''userPrincipalName'', JStr (usr_UserPrincipalName u)), (''mail'', JStr (usr_Mail u)),
     (''department'', JStr (usr_Department u)), (''jobTitle'', JStr (usr_JobTitle u)), (''accountEnabled'', JBool True)]"

definition groupJSON :: "DirectoryGroup \<Rightarrow> (string \<times> json) list" where
  "groupJSON g = [(''id'', JStr (grp_ID g)), (''displayName'', JStr (grp_DisplayName g)), (''mail'', JStr (grp_Mail g)),
     (''securityEnabled'', JBool (grp_SecurityEnabled g)), (''membershipRule'', JStr (grp_MembershipRule g)),
     (''membershipRuleProcessingState'', JStr (grp_MembershipRuleProcessingState g))]"

definition spJSON :: "DirectoryServicePrincipal \<Rightarrow> (string \<times> json) list" where
  "spJSON sp = [(''id'', JStr (sp_ID sp)), (''appId'', JStr (sp_AppID sp)), (''displayName'', JStr (sp_DisplayName sp))]"

definition deviceJSON :: "DirectoryDevice \<Rightarrow> (string \<times> json) list" where
  "deviceJSON d = [(''id'', JStr (dev_ID d)), (''displayName'', JStr (dev_DisplayName d)),
     (''deviceId'', JStr (dev_DeviceID d)), (''operatingSystem'', JStr (dev_OperatingSystem d))]"

definition appGraphJSON :: "EntraApp option \<Rightarrow> (string \<times> json) list" where
  \<comment> \<open>\<open>None\<close> is the zero row of an application that was not found\<close>
  "appGraphJSON found =
    (let (obj, app, name, created) = (case found of None \<Rightarrow> ([], [], [], [])
         | Some r \<Rightarrow> (app_ObjectID r, app_AppID r, app_DisplayName r, app_CreatedAt r)) in
     [(''id'', JStr (if obj = [] then app else obj)), (''appId'', JStr app), (''displayName'', JStr name),
      (''createdDateTime'', JStr created)])"

definition ficJSON :: "stdlib \<Rightarrow> FederatedIdentityCredential \<Rightarrow> (string \<times> json) list" where
  "ficJSON lib f =
    [(''id'', JStr (fic_ID f)), (''name'', JStr (fic_Name f)), (''issuer'', JStr (fic_Issuer f)),
     (''subject'', JStr (fic_Subject f)), (''audiences'', json_strings (fic_Audiences f))] @
    (if trim_space (fic_ClaimsMatchingExpression f) = [] then []
     else [(''claimsMatchingExpression'', case json_parse lib (fic_ClaimsMatchingExpression f) of
         Inr expr \<Rightarrow> expr
       | Inl e \<Rightarrow> JObj [(''value'', JStr (fic_ClaimsMatchingExpression f)), (''languageVersion'', JNum 1)])])"

definition graph_failed :: "string \<Rightarrow> http_response" where
  "graph_failed e = WriteGraph 500 ''InternalServerError'' e"

definition graph_not_found :: "string \<Rightarrow> http_response" where
  "graph_not_found what = WriteGraph 404 ''Request_ResourceNotFound'' what"

definition bad_body :: "string \<Rightarrow> http_response" where
  "bad_body what = WriteGraph 400 ''BadRequest'' what"

section \<open>Reading\<close>

text \<open>A list behind the check: the rows the store answers with, rendered.\<close>

definition graph_list ::
  "entra_env \<Rightarrow> Principal option \<Rightarrow> web_request \<Rightarrow> (string \<times> json) list list result \<Rightarrow> http_response option" where
  "graph_list env who r items =
    (case requireGraph who of
       Some rs \<Rightarrow> Some rs
     | None \<Rightarrow> (case items of Inl e \<Rightarrow> Some (graph_failed e) | Inr xs \<Rightarrow> writeOData env r xs))"

definition rendered :: "('a \<Rightarrow> (string \<times> json) list) \<Rightarrow> 'a list result \<Rightarrow> (string \<times> json) list list result" where
  "rendered f res = map_sum id (map f) res"

text \<open>One object behind the check; a failing store and an absent object are told apart only by users.\<close>

definition graph_item ::
  "Principal option \<Rightarrow> string \<Rightarrow> ('a \<Rightarrow> (string \<times> json) list) \<Rightarrow> 'a option result \<Rightarrow> http_response option" where
  "graph_item who missing f found =
    (case requireGraph who of
       Some rs \<Rightarrow> Some rs
     | None \<Rightarrow> Some (case found of Inr (Some x) \<Rightarrow> writeJSON 200 (JObj (f x)) | _ \<Rightarrow> graph_not_found missing))"

definition graph_item_or_error ::
  "Principal option \<Rightarrow> string \<Rightarrow> ('a \<Rightarrow> (string \<times> json) list) \<Rightarrow> 'a option result \<Rightarrow> http_response option" where
  "graph_item_or_error who missing f found =
    (case requireGraph who of
       Some rs \<Rightarrow> Some rs
     | None \<Rightarrow> Some (case found of
           Inl e \<Rightarrow> graph_failed e
         | Inr None \<Rightarrow> graph_not_found missing
         | Inr (Some x) \<Rightarrow> writeJSON 200 (JObj (f x))))"

definition handleGraphOrganization :: "entra_env \<Rightarrow> Principal option \<Rightarrow> web_request \<Rightarrow> http_response option" where
  "handleGraphOrganization env who r = graph_list env who r (Inr
    [[(''id'', JStr (appTenant env)), (''displayName'', JStr (en_DisplayName env)),
      (''verifiedDomains'', JArr [JObj [(''name'', JStr ''lab.local''), (''isDefault'', JBool True)]])]])"

definition handleGraphGroupMembers ::
  "entra_env \<Rightarrow> store \<Rightarrow> Principal option \<Rightarrow> web_request \<Rightarrow> string \<Rightarrow> http_response option" where
  "handleGraphGroupMembers env s who r i = graph_list env who r
    (map_sum id (\<lambda>(ids, types). map (\<lambda>(m, t). [(''id'', JStr m), (''@odata.type'', JStr (''#microsoft.graph.'' @ t))])
      (zip ids types)) (ListGroupMembers_db s i))"

definition handleGraphOwners ::
  "entra_env \<Rightarrow> store \<Rightarrow> Principal option \<Rightarrow> web_request \<Rightarrow> string \<Rightarrow> string \<Rightarrow> http_response option" where
  "handleGraphOwners env s who r raw rest =
    (case requireGraph who of
       Some rs \<Rightarrow> Some rs
     | None \<Rightarrow> (case ownerTarget env s raw rest (rq_path (web_http r)) of
         None \<Rightarrow> Some (graph_not_found ''Resource not found'')
       | Some i \<Rightarrow> graph_list env who r (rendered (\<lambda>o1. [(''id'', JStr o1)]) (ListOwners s i))))"

definition role_json :: "DirectoryRole \<Rightarrow> (string \<times> json) list" where
  "role_json role = [(''id'', JStr (dro_ID role)), (''displayName'', JStr (dro_DisplayName role)),
     (''roleTemplateId'', JStr (dro_TemplateID role))]"

definition assignment_json :: "unified_assignment \<Rightarrow> (string \<times> json) list" where
  "assignment_json r = [(''id'', JStr (ura_id r)), (''principalId'', JStr (ura_principal_id r)),
     (''roleDefinitionId'', JStr (ura_role_definition_id r)), (''directoryScopeId'', JStr (ura_directory_scope_id r))]"

definition app_role_json :: "app_role_assignment \<Rightarrow> (string \<times> json) list" where
  "app_role_json r = [(''id'', JStr (apr_id r)), (''principalId'', JStr (apr_principal_id r)),
     (''resourceId'', JStr (apr_resource_id r)), (''appRoleId'', JStr (apr_app_role_id r))]"

definition object_fields :: "json \<Rightarrow> (string \<times> json) list" where
  "object_fields j = (case j of JObj kvs \<Rightarrow> kvs | _ \<Rightarrow> [])"

definition looksLikeGUID :: "string \<Rightarrow> bool" where
  "looksLikeGUID t \<longleftrightarrow> length t = 36 \<and>
    t ! 8 = CHR ''-'' \<and> t ! 13 = CHR ''-'' \<and> t ! 18 = CHR ''-'' \<and> t ! 23 = CHR ''-''"

definition graphPathLooksLikeItem :: "string \<Rightarrow> bool" where
  "graphPathLooksLikeItem rest0 =
    (let rest = trim_char CHR ''/'' rest0 in
     if rest = [] then False
     else if CHR ''('' \<in> set rest then True
     else looksLikeGUID (last (split_on CHR ''/'' rest)))"

definition handleGetApp :: "entra_env \<Rightarrow> store \<Rightarrow> Principal option \<Rightarrow> string \<Rightarrow> http_response option" where
  "handleGetApp env s who i =
    graph_item_or_error who ''application not found'' (\<lambda>a. appGraphJSON (Some a)) (GetEntraApp s (appTenant env) i)"

definition handleGraphUnknown ::
  "entra_env \<Rightarrow> store \<Rightarrow> Principal option \<Rightarrow> web_request \<Rightarrow> string \<Rightarrow> http_response option" where
  "handleGraphUnknown env s who r path =
    (case requireGraph who of
       Some rs \<Rightarrow> Some rs
     | None \<Rightarrow>
         (let rest = trim_char CHR ''/'' path;
              filter_form = contains rest ''applications(appId='';
              i = (if filter_form then NormalizeAppIdFilter rest else []) in
          if filter_form \<and> CHR ''/'' \<notin> set rest then handleGetApp env s who i
          else if filter_form \<and> has_suffix rest ''/owners'' then handleGraphOwners env s who r i path
          else if rest = [] \<or> \<not> graphPathLooksLikeItem rest then writeOData env r []
          else Some (graph_not_found ''Resource not found'')))"

definition handleListFIC ::
  "entra_env \<Rightarrow> store \<Rightarrow> Principal option \<Rightarrow> web_request \<Rightarrow> string \<Rightarrow> http_response option" where
  "handleListFIC env s who r i =
    (case requireGraph who of
       Some rs \<Rightarrow> Some rs
     | None \<Rightarrow> (case ResolveEntraApp s (appTenant env) i of
         Inr (Some (obj, app, name)) \<Rightarrow> graph_list env who r (rendered (ficJSON (en_lib env)) (ListFICs s obj))
       | _ \<Rightarrow> Some (graph_not_found ''application not found'')))"

section \<open>Dynamic groups\<close>

definition extractQuoted :: "string \<Rightarrow> string \<Rightarrow> string" where
  "extractQuoted rule attr =
    (case index_of (to_lower rule) (to_lower attr) of
       None \<Rightarrow> []
     | Some i \<Rightarrow> (case dropWhile (\<lambda>c. c \<noteq> CHR 0x22 \<and> c \<noteq> CHR 0x27) (drop i rule) of
           [] \<Rightarrow> []
         | quote # rest \<Rightarrow> (case index_byte rest quote of None \<Rightarrow> [] | Some e \<Rightarrow> take e rest)))"

definition matchDirectoryRule :: "string \<Rightarrow> string \<Rightarrow> string \<Rightarrow> string \<Rightarrow> string \<Rightarrow> bool" where
  "matchDirectoryRule rule kind department jobTitle displayName =
    (let lower = to_lower rule;
         quoted = (\<lambda>attr attr2. let want = extractQuoted rule attr in if want = [] then extractQuoted rule attr2 else want) in
     if contains lower ''serviceprincipal'' then False
     else if contains lower (kind @ ''.department -eq'') then
       (let want = extractQuoted rule ''department'' in
        contains (to_lower department) (to_lower (trim_chars [CHR 0x22, CHR 0x27, CHR '' ''] want)) \<or>
        equal_fold department want)
     else if contains lower (kind @ ''.jobtitle -eq'') then equal_fold jobTitle (quoted ''jobTitle'' ''jobtitle'')
     else if contains lower (kind @ ''.displayname -eq'') then equal_fold displayName (quoted ''displayName'' ''displayname'')
     else False)"

text \<open>The rows that one group's rule adds; errors of the store are dropped.\<close>

definition refresh_group :: "DirectoryUser list \<Rightarrow> DirectoryDevice list \<Rightarrow> store \<Rightarrow> DirectoryGroup \<Rightarrow> store" where
  "refresh_group users devices s g =
    (let rule = trim_space (grp_MembershipRule g);
         s1 = (if contains (to_lower rule) ''user.'' then
             foldl (\<lambda>s u. if matchDirectoryRule rule ''user'' (usr_Department u) (usr_JobTitle u) (usr_DisplayName u)
               then snd (AddGroupMember s (grp_ID g) (usr_ID u) ''user'') else s) s users else s) in
     if rule = [] then s
     else if contains (to_lower rule) ''device.'' then
       foldl (\<lambda>s d. if matchDirectoryRule rule ''device'' [] [] (dev_DisplayName d)
         then snd (AddGroupMember s (grp_ID g) (dev_ID d) ''device'') else s) s1 devices
     else s1)"

definition refreshDynamicGroups :: "entra_env \<Rightarrow> store \<Rightarrow> store" where
  "refreshDynamicGroups env s =
    (case ListDirectoryGroups s (appTenant env) of
       Inl e \<Rightarrow> s
     | Inr groups \<Rightarrow>
         foldl (refresh_group
             (case ListDirectoryUsers s (appTenant env) of Inl e \<Rightarrow> [] | Inr us \<Rightarrow> us)
             (case ListDevices s (appTenant env) of Inl e \<Rightarrow> [] | Inr ds \<Rightarrow> ds)) s groups)"

section \<open>Writing\<close>

definition body_field :: "web_request \<Rightarrow> string list \<Rightarrow> string \<Rightarrow> string" where
  \<comment> \<open>a string field of the body; the error of \<open>Decode\<close> is dropped\<close>
  "body_field r names k = fst (decode_strings names (rq_json (web_http r))) k"

definition handlePatchUser ::
  "entra_env \<Rightarrow> store \<Rightarrow> Principal option \<Rightarrow> web_request \<Rightarrow> string \<Rightarrow> http_response \<times> store" where
  "handlePatchUser env s who r i =
    (case requireGraphDirectoryWrite env s who [''Global Administrator'', ''User Administrator''] of
       Some rs \<Rightarrow> (rs, s)
     | None \<Rightarrow>
         (let field = body_field r [''department'', ''jobTitle''] in
          case PatchDirectoryUser s i (field ''department'') (field ''jobTitle'') of
            (Inl e, s') \<Rightarrow> (graph_failed e, s')
          | (Inr u, s') \<Rightarrow> (let s2 = refreshDynamicGroups env s' in
              (case GetDirectoryUser s2 i of
                 Inr (Some u) \<Rightarrow> writeJSON 200 (JObj (userJSON u)) | _ \<Rightarrow> graph_not_found ''User not found'', s2))))"

definition handlePatchDevice ::
  "entra_env \<Rightarrow> store \<Rightarrow> Principal option \<Rightarrow> web_request \<Rightarrow> string \<Rightarrow> http_response \<times> store" where
  "handlePatchDevice env s who r i =
    (case requireGraphDirectoryWrite env s who [''Global Administrator'', ''Cloud Device Administrator''] of
       Some rs \<Rightarrow> (rs, s)
     | None \<Rightarrow>
         (case PatchDevice s i (body_field r [''displayName''] ''displayName'') of
            (Inl e, s') \<Rightarrow> (graph_failed e, s')
          | (Inr u, s') \<Rightarrow> (let s2 = refreshDynamicGroups env s' in
              (case GetDevice s2 i of
                 Inr (Some d) \<Rightarrow> writeJSON 200 (JObj (deviceJSON d)) | _ \<Rightarrow> graph_not_found ''Device not found'', s2))))"

definition group_roles :: "string list" where
  "group_roles = [''Global Administrator'', ''Groups Administrator'', ''User Administrator'']"

definition handlePatchGroup ::
  "entra_env \<Rightarrow> store \<Rightarrow> Principal option \<Rightarrow> web_request \<Rightarrow> string \<Rightarrow> http_response \<times> store" where
  "handlePatchGroup env s who r i =
    (case requireGraphDirectoryWrite env s who group_roles of
       Some rs \<Rightarrow> (rs, s)
     | None \<Rightarrow>
         (let field = body_field r [''membershipRule'', ''membershipRuleProcessingState''] in
          case UpdateGroupRule s i (field ''membershipRule'') (field ''membershipRuleProcessingState'') of
            (Inl e, s') \<Rightarrow> (graph_failed e, s')
          | (Inr u, s') \<Rightarrow> (let s2 = refreshDynamicGroups env s' in
              (case GetDirectoryGroup s2 i of
                 Inr (Some g) \<Rightarrow> writeJSON 200 (JObj (groupJSON g)) | _ \<Rightarrow> graph_not_found ''Group not found'', s2))))"

text \<open>The object a reference names: what follows its last slash.\<close>

definition referenced_id :: "web_request \<Rightarrow> string" where
  "referenced_id r = last (split_on CHR ''/'' (body_field r [''@odata.id''] ''@odata.id''))"

definition handleAddOwner ::
  "entra_env \<Rightarrow> store \<Rightarrow> Principal option \<Rightarrow> web_request \<Rightarrow> string \<Rightarrow> http_response \<times> store" where
  "handleAddOwner env s who r raw =
    (let path = rq_path (web_http r); ownerID = referenced_id r in
     case requireGraph who of
       Some rs \<Rightarrow> (rs, s)
     | None \<Rightarrow>
         if ownerID = [] then (bad_body ''@odata.id is required'', s)
         else (case ownerTarget env s raw [] path of
             None \<Rightarrow> (graph_not_found ''Resource not found'', s)
           | Some resourceID \<Rightarrow>
               (case (if contains path ''/groups/'' then requireGraphDirectoryWrite env s who group_roles
                      else requireGraphAppWrite env s who resourceID) of
                  Some rs \<Rightarrow> (rs, s)
                | None \<Rightarrow> (case AddOwner s resourceID ownerID ''user'' of
                    (Inl e, s') \<Rightarrow> (graph_failed e, s')
                  | (Inr u, s') \<Rightarrow> (writeHeader 204, s')))))"

text \<open>The routes give a non-empty \<open>id\<close>, which the two handlers use.\<close>

definition handleAddRoleMember ::
  "entra_env \<Rightarrow> store \<Rightarrow> Principal option \<Rightarrow> web_request \<Rightarrow> string \<Rightarrow> http_response \<times> store" where
  "handleAddRoleMember env s who r i =
    (case requireGraphDirectoryWrite env s who [''Global Administrator'', ''Privileged Role Administrator''] of
       Some rs \<Rightarrow> (rs, s)
     | None \<Rightarrow>
         if referenced_id r = [] then (bad_body ''@odata.id is required'', s)
         else (case AddDirectoryRoleMember s (if i = [] then segmentAfter (rq_path (web_http r)) ''/directoryRoles/'' else i)
             (referenced_id r) of
             (Inl e, s') \<Rightarrow> (graph_failed e, s')
           | (Inr u, s') \<Rightarrow> (writeHeader 204, s')))"

definition handleAddGroupMember ::
  "entra_env \<Rightarrow> store \<Rightarrow> Principal option \<Rightarrow> web_request \<Rightarrow> string \<Rightarrow> http_response \<times> store" where
  "handleAddGroupMember env s who r i =
    (case requireGraphDirectoryWrite env s who group_roles of
       Some rs \<Rightarrow> (rs, s)
     | None \<Rightarrow>
         if referenced_id r = [] then (bad_body ''@odata.id is required'', s)
         else (case AddGroupMember s (if i = [] then segmentAfter (rq_path (web_http r)) ''/groups/'' else i)
             (referenced_id r) ''user'' of
             (Inl e, s') \<Rightarrow> (graph_failed e, s')
           | (Inr u, s') \<Rightarrow> (writeHeader 204, s')))"

definition HintFromSecret :: "string \<Rightarrow> string" where
  "HintFromSecret secret = take 3 secret"

definition handleAddPassword ::
  "entra_env \<Rightarrow> entra_random \<Rightarrow> store \<Rightarrow> Principal option \<Rightarrow> web_request \<Rightarrow> string \<Rightarrow> http_response \<times> store" where
  "handleAddPassword env rnd s who r raw =
    (let ntop = body_field r [''displayName''] ''displayName'';
         display = (if ntop = [] then decode_nested ''passwordCredential'' [''displayName''] (rq_json (web_http r)) ''displayName''
                    else ntop);
         (resourceID, resourceType) = passwordTarget env s raw [] (rq_path (web_http r));
         secret = er_token rnd in
     case requireGraph who of
       Some rs \<Rightarrow> (rs, s)
     | None \<Rightarrow>
         if resourceID = [] then (graph_not_found ''application not found'', s)
         else (case requireGraphAppWrite env s who resourceID of
             Some rs \<Rightarrow> (rs, s)
           | None \<Rightarrow>
               (case AddPassword s (er_uuid rnd) resourceID resourceType display
                   (HashUserPassword (en_bcrypt env) (er_salt rnd) secret) (HintFromSecret secret) of
                  (Inl e, s') \<Rightarrow> (graph_failed e, s')
                | (Inr i, s') \<Rightarrow>
                    (writeJSON 200 (JObj [(''keyId'', JStr i), (''secretText'', JStr secret),
                       (''hint'', JStr (HintFromSecret secret)), (''displayName'', JStr display),
                       (''startDateTime'', JStr (en_format_time env (en_now env))),
                       (''endDateTime'', JStr (en_format_time env (en_now env + 365 * 24 * 3600 * nanos)))]), s'))))"

section \<open>Keys\<close>

definition addkey_claims :: "entra_env \<Rightarrow> string \<Rightarrow> string list \<Rightarrow> json option" where
  \<comment> \<open>the claims under the first key that verifies the proof\<close>
  "addkey_claims env proof0 pems =
    (case concat (map (\<lambda>pem. case parseRSAPublicPEM (en_x509 env) pem of
         None \<Rightarrow> []
       | Some pub \<Rightarrow> (case VerifyRS256JWT (en_lib env) (en_jose env) pub proof0 (en_now env) of
             Inl e \<Rightarrow> [] | Inr claims \<Rightarrow> [claims])) pems) of
       [] \<Rightarrow> None | c # cs \<Rightarrow> Some c)"

definition validAddKeyProof :: "entra_env \<Rightarrow> store \<Rightarrow> string \<Rightarrow> string \<Rightarrow> bool" where
  "validAddKeyProof env s proof0 objectID =
    (case ListKeyPEMs s objectID of
       Inl e \<Rightarrow> False
     | Inr pems \<Rightarrow> (case addkey_claims env proof0 pems of
           None \<Rightarrow> False
         | Some claims \<Rightarrow>
             AudienceAADGraphAppID \<in> set (ClaimAudiences claims) \<and> ClaimString claims ''iss'' = objectID \<and>
             (case (ClaimUnix claims ''nbf'', ClaimUnix claims ''exp'') of
                (Some nbf, Some exp) \<Rightarrow> nbf \<le> en_now env div nanos \<and> en_now env div nanos \<le> exp
              | _ \<Rightarrow> False)))"

definition field_of :: "web_request \<Rightarrow> string \<Rightarrow> json option" where
  \<comment> \<open>the value of a field of the body\<close>
  "field_of r k = (case rq_json (web_http r) of
     Some (JObj kvs) \<Rightarrow> map_option snd (find (\<lambda>(n, v). equal_fold n k) kvs) | _ \<Rightarrow> None)"

definition key_text :: "json \<Rightarrow> string" where
  "key_text kc = (case json_field kc ''key'' of Some (JStr t) \<Rightarrow> t | _ \<Rightarrow> [])"

definition proof_required :: http_response where
  "proof_required = bad_body ''proof JWT is required when a key credential already exists''"

definition handleAddKey ::
  "entra_env \<Rightarrow> entra_random \<Rightarrow> store \<Rightarrow> Principal option \<Rightarrow> web_request \<Rightarrow> string \<Rightarrow> http_response \<times> store" where
  "handleAddKey env rnd s who r raw =
    (let (resourceID, resourceType) = passwordTarget env s raw [] (rq_path (web_http r)) in
     case requireGraph who of
       Some rs \<Rightarrow> (rs, s)
     | None \<Rightarrow>
         if resourceID = [] then (graph_not_found ''application not found'', s)
         else (case requireGraphAppWrite env s who resourceID of
             Some rs \<Rightarrow> (rs, s)
           | None \<Rightarrow>
               (case CountKeyCredentials s resourceID of
                  Inl e \<Rightarrow> (graph_failed e, s)
                | Inr n \<Rightarrow>
                    if n > 0 \<and> \<not> validAddKeyProof env s (body_field r [''proof''] ''proof'') resourceID
                    then (proof_required, s)
                    else (case AddKeyCredential s (er_uuid rnd) resourceID resourceType
                        (case field_of r ''keyCredential'' of Some kc \<Rightarrow> key_text kc | None \<Rightarrow> [])
                        ''Verify'' ''AsymmetricX509Cert'' of
                        (Inl e, s') \<Rightarrow> (graph_failed e, s')
                      | (Inr i, s') \<Rightarrow> (writeJSON 200 (JObj [(''id'', JStr i),
                          (''type'', JStr ''AsymmetricX509Cert''), (''usage'', JStr ''Verify'')]), s')))))"

section \<open>Applications and service principals\<close>

definition app_roles :: "string list" where
  "app_roles = [''Global Administrator'', ''Application Administrator'', ''Cloud Application Administrator'']"

definition handleCreateApp ::
  "entra_env \<Rightarrow> entra_random \<Rightarrow> store \<Rightarrow> Principal option \<Rightarrow> web_request \<Rightarrow> http_response \<times> store" where
  "handleCreateApp env rnd s who r =
    (case requireGraphDirectoryWrite env s who app_roles of
       Some rs \<Rightarrow> (rs, s)
     | None \<Rightarrow>
         (let given = body_field r [''displayName''] ''displayName'';
              name = (if given = [] then ''lab-app'' else given) in
          case UpsertEntraApp s (er_uuid rnd) (er_uuid2 rnd) (en_format_seconds env (en_now env)) (appTenant env) [] name of
            (Inl e, s') \<Rightarrow> (graph_failed e, s')
          | (Inr appID, s') \<Rightarrow>
              (writeJSON 201 (JObj (appGraphJSON
                 (case GetEntraApp s' (appTenant env) appID of Inr found \<Rightarrow> found | Inl e \<Rightarrow> None))), s')))"

definition handleCreateSP ::
  "entra_env \<Rightarrow> entra_random \<Rightarrow> store \<Rightarrow> Principal option \<Rightarrow> web_request \<Rightarrow> http_response \<times> store" where
  "handleCreateSP env rnd s who r =
    (case requireGraphDirectoryWrite env s who app_roles of
       Some rs \<Rightarrow> (rs, s)
     | None \<Rightarrow>
         (let (m, ok) = decode_strings [''appId'', ''displayName''] (rq_json (web_http r)) in
          if \<not> ok \<and> web_body r \<noteq> [] then (bad_body ''invalid JSON body'', s)
          else if trim_space (m ''appId'') = [] then (bad_body ''appId is required'', s)
          else (case ResolveEntraApp s (appTenant env) (m ''appId'') of
              Inl e \<Rightarrow> (graph_failed e, s)
            | Inr None \<Rightarrow> (WriteGraph 400 ''Request_BadRequest'' ''The appId does not exist in the tenant.'', s)
            | Inr (Some (obj, appID, display)) \<Rightarrow>
                (let name = (if trim_space (m ''displayName'') = [] then display else trim_space (m ''displayName'')) in
                 case CreateServicePrincipal s (er_uuid rnd) (appTenant env) appID name of
                   (Inl e, s') \<Rightarrow>
                     (if e = ''service principal exists''
                      then WriteGraph 400 ''Request_MultipleObjectsWithSameKeyValue''
                        ''A service principal already exists for this application.''
                      else graph_failed e, s')
                 | (Inr sp, s') \<Rightarrow> (writeJSON 201 (JObj (spJSON sp)), s')))))"

text \<open>\<open>ids\<close> are the identifiers drawn, in the order they are asked for.\<close>

fun add_keys :: "(nat \<Rightarrow> string) \<Rightarrow> string \<Rightarrow> string list \<Rightarrow> store \<Rightarrow> unit result \<times> store" where
  "add_keys ids obj [] s = (Inr (), s)"
| "add_keys ids obj (pem # pems) s =
    (if pem = [] then add_keys ids obj pems s
     else (case AddKeyCredential s (ids 0) obj ''application'' pem ''Verify'' ''AsymmetricX509Cert'' of
         (Inl e, s') \<Rightarrow> (Inl e, s')
       | (Inr i, s') \<Rightarrow> add_keys (\<lambda>n. ids (Suc n)) obj pems s'))"

definition handlePatchApp ::
  "entra_env \<Rightarrow> entra_random \<Rightarrow> (nat \<Rightarrow> string) \<Rightarrow> store \<Rightarrow> Principal option \<Rightarrow> web_request \<Rightarrow> string \<Rightarrow>
    http_response \<times> store" where
  "handlePatchApp env rnd ids s who r appID =
    (case GetEntraApp s (appTenant env) appID of
       Inr (Some row) \<Rightarrow>
         (let obj = app_object_id row;
              pems = (case field_of r ''keyCredentials'' of Some (JArr kcs) \<Rightarrow> map key_text kcs | _ \<Rightarrow> []);
              name = body_field r [''displayName'', ''proof''] ''displayName'';
              proof0 = body_field r [''displayName'', ''proof''] ''proof'';
              adding = list_ex (\<lambda>pem. pem \<noteq> []) pems in
          case requireGraphAppWrite env s who obj of
            Some rs \<Rightarrow> (rs, s)
          | None \<Rightarrow>
              (case (if adding then CountKeyCredentials s obj else Inr 0) of
                 Inl e \<Rightarrow> (graph_failed e, s)
               | Inr n \<Rightarrow>
                   if n > 0 \<and> \<not> validAddKeyProof env s proof0 obj then (proof_required, s)
                   else (case (if name = [] then (Inr [], s)
                               else UpsertEntraApp s (er_uuid rnd) (er_uuid2 rnd) (en_format_seconds env (en_now env))
                                 (appTenant env) (app_AppID row) name) of
                       (Inl e, s') \<Rightarrow> (graph_failed e, s')
                     | (Inr i, s') \<Rightarrow>
                         (case add_keys ids obj pems s' of
                            (Inl e, s2) \<Rightarrow> (graph_failed e, s2)
                          | (Inr u, s2) \<Rightarrow> (writeJSON 200 (JObj (appGraphJSON
                              (case GetEntraApp s2 (appTenant env) (app_AppID row) of Inr found \<Rightarrow> found | Inl e \<Rightarrow> None))), s2)))))
     | _ \<Rightarrow> (graph_not_found ''application not found'', s))"

definition handleDeleteApp ::
  "entra_env \<Rightarrow> store \<Rightarrow> Principal option \<Rightarrow> string \<Rightarrow> http_response \<times> store" where
  "handleDeleteApp env s who i =
    (case GetEntraApp s (appTenant env) i of
       Inr (Some row) \<Rightarrow>
         if app_ObjectID row = [] \<or> app_ObjectID row \<noteq> i then (graph_not_found ''application not found'', s)
         else (case requireGraphAppWrite env s who (app_ObjectID row) of
             Some rs \<Rightarrow> (rs, s)
           | None \<Rightarrow> (case DeleteEntraApp s (appTenant env) (app_ObjectID row) of
               (Inr True, s') \<Rightarrow> (writeHeader 204, s')
             | (_, s') \<Rightarrow> (graph_not_found ''application not found'', s')))
     | _ \<Rightarrow> (graph_not_found ''application not found'', s))"

text \<open>The stored form of an expression: the text of an object with the value and the version.\<close>

definition encodeFICExpression :: "jose \<Rightarrow> json option \<Rightarrow> string" where
  "encodeFICExpression jo raw =
    (let stored = (\<lambda>v n. jo_json jo (JObj [(''value'', JStr v), (''languageVersion'', JNum n)])) in
     case raw of
       Some (JObj kvs) \<Rightarrow>
         (let (m, ok) = decode_strings [''value''] (Some (JObj kvs));
              version = (case find (\<lambda>(k, v). equal_fold k ''languageVersion'') kvs of
                  Some (k, JNum n) \<Rightarrow> Some n | Some (k, JNull) \<Rightarrow> Some 0 | None \<Rightarrow> Some 0 | _ \<Rightarrow> None) in
          case version of
            None \<Rightarrow> []
          | Some n \<Rightarrow> if ok \<and> trim_space (m ''value'') \<noteq> [] then stored (m ''value'') (if n = 0 then 1 else n) else [])
     | Some (JStr v) \<Rightarrow>
         if trim_space v \<noteq> [] then jo_json jo (JObj [(''languageVersion'', JNum 1), (''value'', JStr v)]) else []
     | _ \<Rightarrow> [])"

definition handleCreateFIC ::
  "entra_env \<Rightarrow> entra_random \<Rightarrow> store \<Rightarrow> Principal option \<Rightarrow> web_request \<Rightarrow> string \<Rightarrow> http_response \<times> store" where
  "handleCreateFIC env rnd s who r i =
    (case ResolveEntraApp s (appTenant env) i of
       Inr (Some (obj, app, name)) \<Rightarrow>
         (case requireGraphAppWrite env s who obj of
            Some rs \<Rightarrow> (rs, s)
          | None \<Rightarrow>
              (let field = body_field r [''name'', ''issuer'', ''subject''];
                   audiences = (case field_of r ''audiences'' of
                     Some (JArr xs) \<Rightarrow> map (\<lambda>x. case x of JStr t \<Rightarrow> t | _ \<Rightarrow> []) xs | _ \<Rightarrow> []);
                   expr = encodeFICExpression (en_jose env) (field_of r ''claimsMatchingExpression'') in
               if field ''issuer'' = [] \<or> field ''subject'' = [] \<and> expr = []
               then (bad_body ''issuer and subject are required unless claimsMatchingExpression is set'', s)
               else (case CreateFIC s (er_uuid rnd) obj (field ''name'') (field ''issuer'') (field ''subject'') audiences expr of
                   (Inl e, s') \<Rightarrow> (graph_failed e, s')
                 | (Inr f, s') \<Rightarrow> (writeJSON 201 (JObj (ficJSON (en_lib env) f)), s'))))
     | _ \<Rightarrow> (graph_not_found ''application not found'', s))"

definition handleCreateCAPolicy ::
  "entra_env \<Rightarrow> entra_random \<Rightarrow> store \<Rightarrow> Principal option \<Rightarrow> web_request \<Rightarrow> http_response \<times> store" where
  "handleCreateCAPolicy env rnd s who r =
    (case requireGraphDirectoryWrite env s who [''Global Administrator'', ''Conditional Access Administrator''] of
       Some rs \<Rightarrow> (rs, s)
     | None \<Rightarrow>
         (let text_of = (\<lambda>body k. case json_field body k of Some (JStr t) \<Rightarrow> t | _ \<Rightarrow> []);
              write = (\<lambda>body.
                let display = (if text_of body ''displayName'' = [] then ''lab-ca-policy'' else text_of body ''displayName'');
                    state = (if text_of body ''state'' = [] then ''enabled'' else text_of body ''state'');
                    cond = (case json_field body ''conditions'' of None \<Rightarrow> body | Some JNull \<Rightarrow> body | Some c \<Rightarrow> c) in
                case UpsertCAPolicy s (er_uuid rnd) (text_of body ''id'') display cond (equal_fold state ''enabled'') of
                  (Inl e, s') \<Rightarrow> (graph_failed e, s')
                | (Inr i, s') \<Rightarrow> (writeJSON 201 (JObj [(''id'', JStr i), (''displayName'', JStr display),
                    (''state'', JStr state), (''conditions'', cond)]), s')) in
          case rq_json (web_http r) of
            Some (JObj kvs) \<Rightarrow> write (JObj kvs)
          | Some JNull \<Rightarrow> write JNull
          | _ \<Rightarrow> (bad_body ''invalid JSON body'', s)))"

end
