(* ===== verification/Graph_Service.thy ===== *)
theory Graph_Service
  imports Entra_Graph
begin

text \<open>
  The routes of the directory APIs: Microsoft Graph (\<open>mountGraph\<close> of \<open>entra/graph.go\<close>), Azure AD Graph
  (\<open>aadgraph.go\<close>), the list of the portal (\<open>iamportal.go\<close>) and the provisioning service
  (\<open>provisioning.go\<close>); what a request changes and who may make it.
\<close>

section \<open>Routes\<close>

datatype graph_op =
    GOrganization
  | GUsers
  | GUser string
  | GPatchUser string
  | GGroups
  | GGroup string
  | GGroupMembers string
  | GAddGroupMember string
  | GOwners string
  | GAddOwner string
  | GPatchGroup string
  | GApps
  | GCreateApp
  | GGetApp string
  | GPatchApp string
  | GDeleteApp string
  | GAddPassword string
  | GAddKey string
  | GListFIC string
  | GCreateFIC string
  | GSPs
  | GCreateSP
  | GSP string
  | GAppRoleAssignedTo string
  | GDevices
  | GDevice string
  | GPatchDevice string
  | GDirectoryRoles
  | GRoleMembers string
  | GAddRoleMember string
  | GRoleAssignments
  | GEmptyList
  | GCAPolicies
  | GCreateCAPolicy
  | GUnknown string
  | GUnknownPost

text \<open>
  The patterns below \<open>/v1.0\<close> and \<open>/beta\<close>, on the segments that follow; a wildcard takes a non-empty
  segment, a pattern for GET also serves HEAD, and the last two patterns take every other path.
\<close>

definition graph_item_route :: "string \<Rightarrow> string \<Rightarrow> string \<Rightarrow> graph_op option" where
  "graph_item_route method kind i =
    (let get = (method = ''GET'' \<or> method = ''HEAD''); patch = (method = ''PATCH'') in
     if i = [] then None
     else if kind = ''users'' then (if get then Some (GUser i) else if patch then Some (GPatchUser i) else None)
     else if kind = ''groups'' then (if get then Some (GGroup i) else if patch then Some (GPatchGroup i) else None)
     else if kind = ''applications'' then
       (if get then Some (GGetApp i) else if patch then Some (GPatchApp i)
        else if method = ''DELETE'' then Some (GDeleteApp i) else None)
     else if kind = ''servicePrincipals'' then (if get then Some (GSP i) else None)
     else if kind = ''devices'' then (if get then Some (GDevice i) else if patch then Some (GPatchDevice i) else None)
     else None)"

definition graph_part_route :: "string \<Rightarrow> string \<Rightarrow> string \<Rightarrow> string \<Rightarrow> graph_op option" where
  "graph_part_route method kind i part =
    (let get = (method = ''GET'' \<or> method = ''HEAD''); post = (method = ''POST'');
         owned = (kind = ''groups'' \<or> kind = ''applications'' \<or> kind = ''servicePrincipals'');
         secret = (kind = ''applications'' \<or> kind = ''servicePrincipals'') in
     if i = [] then None
     else if get \<and> (owned \<and> part = ''owners'' \<or> kind = ''devices'' \<and> part = ''registeredOwners'') then Some (GOwners i)
     else if get \<and> kind = ''groups'' \<and> part = ''members'' then Some (GGroupMembers i)
     else if get \<and> kind = ''directoryRoles'' \<and> part = ''members'' then Some (GRoleMembers i)
     else if get \<and> kind = ''servicePrincipals'' \<and> part = ''appRoleAssignedTo'' then Some (GAppRoleAssignedTo i)
     else if post \<and> secret \<and> part = ''addPassword'' then Some (GAddPassword i)
     else if post \<and> secret \<and> part = ''addKey'' then Some (GAddKey i)
     else if kind = ''applications'' \<and> part = ''federatedIdentityCredentials'' then
       (if get then Some (GListFIC i) else if post then Some (GCreateFIC i) else None)
     else None)"

definition graph_known_route :: "string \<Rightarrow> string list \<Rightarrow> graph_op option" where
  "graph_known_route method segs =
    (let get = (method = ''GET'' \<or> method = ''HEAD''); post = (method = ''POST'') in
     case segs of
       [a] \<Rightarrow>
         if get \<and> a = ''organization'' then Some GOrganization
         else if get \<and> a = ''users'' then Some GUsers
         else if get \<and> a = ''groups'' then Some GGroups
         else if get \<and> a = ''applications'' then Some GApps
         else if post \<and> a = ''applications'' then Some GCreateApp
         else if get \<and> a = ''servicePrincipals'' then Some GSPs
         else if post \<and> a = ''servicePrincipals'' then Some GCreateSP
         else if get \<and> a = ''devices'' then Some GDevices
         else if get \<and> a = ''directoryRoles'' then Some GDirectoryRoles
         else None
     | [a, b] \<Rightarrow>
         if a = ''policies'' \<and> b = ''roleManagementPolicyAssignments''
         then (if get then Some GEmptyList else None)
         else graph_item_route method a b
     | [a, b, c] \<Rightarrow>
         if a = ''roleManagement'' \<and> b = ''directory'' then
           (if \<not> get then None
            else if c = ''roleDefinitions'' then Some GDirectoryRoles
            else if c = ''roleAssignments'' then Some GRoleAssignments
            else if c = ''roleEligibilityScheduleInstances'' then Some GEmptyList else None)
         else if a = ''identity'' \<and> b = ''conditionalAccess'' \<and> c = ''policies''
         then (if get then Some GCAPolicies else if post then Some GCreateCAPolicy else None)
         else graph_part_route method a b c
     | [a, b, c, d] \<Rightarrow>
         if \<not> post \<or> d \<noteq> ''$ref'' \<or> b = [] then None
         else if a = ''groups'' \<and> c = ''members'' then Some (GAddGroupMember b)
         else if a = ''directoryRoles'' \<and> c = ''members'' then Some (GAddRoleMember b)
         else if (a = ''groups'' \<or> a = ''applications'' \<or> a = ''servicePrincipals'') \<and> c = ''owners''
         then Some (GAddOwner b)
         else None
     | _ \<Rightarrow> None)"

definition graph_route :: "string \<Rightarrow> string list \<Rightarrow> graph_op option" where
  "graph_route method segs =
    (case graph_known_route method segs of
       Some op \<Rightarrow> Some op
     | None \<Rightarrow>
         if method = ''GET'' \<or> method = ''HEAD'' then Some (GUnknown (join ''/'' segs))
         else if method = ''POST'' then Some GUnknownPost
         else None)"

section \<open>The handlers that read\<close>

definition handleGraphUsers ::
  "entra_env \<Rightarrow> store \<Rightarrow> Principal option \<Rightarrow> web_request \<Rightarrow> http_response option" where
  "handleGraphUsers env s who r =
    graph_list env who r (rendered userJSON (ListDirectoryUsers s (appTenant env)))"

definition handleGraphUser ::
  "store \<Rightarrow> Principal option \<Rightarrow> string \<Rightarrow> http_response option" where
  "handleGraphUser s who i =
    graph_item_or_error who ''User not found'' userJSON (GetDirectoryUser s i)"

definition handleGraphGroups ::
  "entra_env \<Rightarrow> store \<Rightarrow> Principal option \<Rightarrow> web_request \<Rightarrow> http_response option" where
  "handleGraphGroups env s who r =
    graph_list env who r (rendered groupJSON (ListDirectoryGroups s (appTenant env)))"

definition handleGraphGroup ::
  "store \<Rightarrow> Principal option \<Rightarrow> string \<Rightarrow> http_response option" where
  "handleGraphGroup s who i =
    graph_item who ''Group not found'' groupJSON (GetDirectoryGroup s i)"

definition handleListApps ::
  "entra_env \<Rightarrow> store \<Rightarrow> Principal option \<Rightarrow> web_request \<Rightarrow> http_response option" where
  "handleListApps env s who r =
    graph_list env who r (rendered (\<lambda>a. appGraphJSON (Some a)) (ListEntraApps s (appTenant env)))"

definition handleGraphSPs ::
  "entra_env \<Rightarrow> store \<Rightarrow> Principal option \<Rightarrow> web_request \<Rightarrow> http_response option" where
  "handleGraphSPs env s who r =
    graph_list env who r (rendered spJSON (ListServicePrincipals s (appTenant env)))"

definition handleGraphSP ::
  "store \<Rightarrow> Principal option \<Rightarrow> string \<Rightarrow> http_response option" where
  "handleGraphSP s who i =
    graph_item who ''servicePrincipal not found'' spJSON (GetServicePrincipal s i)"

definition handleAppRoleAssignedTo ::
  "entra_env \<Rightarrow> store \<Rightarrow> Principal option \<Rightarrow> web_request \<Rightarrow> string \<Rightarrow> http_response option" where
  "handleAppRoleAssignedTo env s who r i =
    graph_list env who r (rendered app_role_json (ListAppRoleAssignedTo s i))"

definition handleGraphDevices ::
  "entra_env \<Rightarrow> store \<Rightarrow> Principal option \<Rightarrow> web_request \<Rightarrow> http_response option" where
  "handleGraphDevices env s who r =
    graph_list env who r (rendered deviceJSON (ListDevices s (appTenant env)))"

definition handleGraphDevice ::
  "store \<Rightarrow> Principal option \<Rightarrow> string \<Rightarrow> http_response option" where
  "handleGraphDevice s who i =
    graph_item who ''Device not found'' deviceJSON (GetDevice s i)"

definition handleGraphDirectoryRoles ::
  "entra_env \<Rightarrow> store \<Rightarrow> Principal option \<Rightarrow> web_request \<Rightarrow> http_response option" where
  "handleGraphDirectoryRoles env s who r =
    graph_list env who r (rendered role_json (ListDirectoryRoles s (appTenant env)))"

definition handleGraphRoleMembers ::
  "entra_env \<Rightarrow> store \<Rightarrow> Principal option \<Rightarrow> web_request \<Rightarrow> string \<Rightarrow> http_response option" where
  "handleGraphRoleMembers env s who r i =
    graph_list env who r (rendered (\<lambda>m. [(''id'', JStr m)]) (ListDirectoryRoleMembers s i))"

definition handleGraphRoleAssignments ::
  "entra_env \<Rightarrow> store \<Rightarrow> Principal option \<Rightarrow> web_request \<Rightarrow> http_response option" where
  "handleGraphRoleAssignments env s who r =
    graph_list env who r (rendered assignment_json (ListUnifiedRoleAssignments s))"

definition handleGraphCAPolicies ::
  "entra_env \<Rightarrow> store \<Rightarrow> Principal option \<Rightarrow> web_request \<Rightarrow> http_response option" where
  "handleGraphCAPolicies env s who r =
    graph_list env who r (rendered object_fields (ListCAPolicies s))"

definition handleGraphEmptyList ::
  "entra_env \<Rightarrow> Principal option \<Rightarrow> web_request \<Rightarrow> http_response option" where
  "handleGraphEmptyList env who r =
    graph_list env who r (Inr [])"

definition handleGraphUnknownPost :: "Principal option \<Rightarrow> http_response" where
  "handleGraphUnknownPost who =
    (case requireGraph who of Some rs \<Rightarrow> rs | None \<Rightarrow> graph_not_found ''Resource not found'')"

section \<open>The handler\<close>

text \<open>
  What is read: \<open>None\<close> for an operation that writes, \<open>Some None\<close> for a panic of the handler.
\<close>

definition graph_read ::
  "entra_env \<Rightarrow> store \<Rightarrow> Principal option \<Rightarrow> web_request \<Rightarrow> graph_op \<Rightarrow> http_response option option" where
  "graph_read env s who r op =
    (case op of
       GOrganization \<Rightarrow> Some (handleGraphOrganization env who r)
     | GUsers \<Rightarrow> Some (handleGraphUsers env s who r)
     | GUser i \<Rightarrow> Some (handleGraphUser s who i)
     | GGroups \<Rightarrow> Some (handleGraphGroups env s who r)
     | GGroup i \<Rightarrow> Some (handleGraphGroup s who i)
     | GApps \<Rightarrow> Some (handleListApps env s who r)
     | GSPs \<Rightarrow> Some (handleGraphSPs env s who r)
     | GSP i \<Rightarrow> Some (handleGraphSP s who i)
     | GAppRoleAssignedTo i \<Rightarrow> Some (handleAppRoleAssignedTo env s who r i)
     | GDevices \<Rightarrow> Some (handleGraphDevices env s who r)
     | GDevice i \<Rightarrow> Some (handleGraphDevice s who i)
     | GDirectoryRoles \<Rightarrow> Some (handleGraphDirectoryRoles env s who r)
     | GRoleMembers i \<Rightarrow> Some (handleGraphRoleMembers env s who r i)
     | GRoleAssignments \<Rightarrow> Some (handleGraphRoleAssignments env s who r)
     | GCAPolicies \<Rightarrow> Some (handleGraphCAPolicies env s who r)
     | GEmptyList \<Rightarrow> Some (handleGraphEmptyList env who r)
     | GGroupMembers i \<Rightarrow> Some (handleGraphGroupMembers env s who r i)
     | GOwners i \<Rightarrow> Some (handleGraphOwners env s who r i [])
     | GGetApp i \<Rightarrow> Some (handleGetApp env s who i)
     | GListFIC i \<Rightarrow> Some (handleListFIC env s who r i)
     | GUnknown path \<Rightarrow> Some (handleGraphUnknown env s who r path)
     | GUnknownPost \<Rightarrow> Some (Some (handleGraphUnknownPost who))
     | _ \<Rightarrow> None)"

definition graph_write ::
  "entra_env \<Rightarrow> entra_random \<Rightarrow> (nat \<Rightarrow> string) \<Rightarrow> store \<Rightarrow> Principal option \<Rightarrow> web_request \<Rightarrow> graph_op \<Rightarrow>
    (http_response \<times> store) option" where
  "graph_write env rnd ids s who r op =
    (case op of
       GPatchUser i \<Rightarrow> Some (handlePatchUser env s who r i)
     | GPatchDevice i \<Rightarrow> Some (handlePatchDevice env s who r i)
     | GPatchGroup i \<Rightarrow> Some (handlePatchGroup env s who r i)
     | GAddGroupMember i \<Rightarrow> Some (handleAddGroupMember env s who r i)
     | GAddRoleMember i \<Rightarrow> Some (handleAddRoleMember env s who r i)
     | GAddOwner i \<Rightarrow> Some (handleAddOwner env s who r i)
     | GAddPassword i \<Rightarrow> Some (handleAddPassword env rnd s who r i)
     | GAddKey i \<Rightarrow> Some (handleAddKey env rnd s who r i)
     | GCreateApp \<Rightarrow> Some (handleCreateApp env rnd s who r)
     | GPatchApp i \<Rightarrow> Some (handlePatchApp env rnd ids s who r i)
     | GDeleteApp i \<Rightarrow> Some (handleDeleteApp env s who i)
     | GCreateFIC i \<Rightarrow> Some (handleCreateFIC env rnd s who r i)
     | GCreateSP \<Rightarrow> Some (handleCreateSP env rnd s who r)
     | GCreateCAPolicy \<Rightarrow> Some (handleCreateCAPolicy env rnd s who r)
     | _ \<Rightarrow> None)"

definition graph_handle ::
  "entra_env \<Rightarrow> entra_random \<Rightarrow> (nat \<Rightarrow> string) \<Rightarrow> store \<Rightarrow> Principal option \<Rightarrow> web_request \<Rightarrow> graph_op \<Rightarrow>
    http_response option \<times> store" where
  "graph_handle env rnd ids s who r op =
    (case graph_write env rnd ids s who r op of
       Some (rs, s') \<Rightarrow> (Some rs, s')
     | None \<Rightarrow> (case graph_read env s who r op of Some rs \<Rightarrow> (rs, s) | None \<Rightarrow> (None, s)))"

section \<open>Azure AD Graph, the portal and the provisioning service\<close>

definition requireAADGraph :: "Principal option \<Rightarrow> web_request \<Rightarrow> http_response option" where
  "requireAADGraph who r =
    (case requireGraph who of
       Some rs \<Rightarrow> Some rs
     | None \<Rightarrow> if trim_space (query_get (web_http r) ''api-version'') = [] then Some (bad_body ''api-version is required'')
         else None)"

definition handleAADTenantDetails :: "entra_env \<Rightarrow> Principal option \<Rightarrow> web_request \<Rightarrow> http_response" where
  "handleAADTenantDetails env who r =
    (case requireAADGraph who r of
       Some rs \<Rightarrow> rs
     | None \<Rightarrow> writeJSON 200 (JObj [(''value'', JArr [JObj
         [(''objectId'', JStr (appTenant env)), (''displayName'', JStr (en_DisplayName env)),
          (''verifiedDomains'', JArr [JObj [(''name'', JStr ''lab.local''), (''default'', JBool True)]]),
          (''dirSyncEnabled'', JBool False), (''companyLastDirSyncTime'', JNull)]])]))"

definition handleAADUsers :: "entra_env \<Rightarrow> store \<Rightarrow> Principal option \<Rightarrow> web_request \<Rightarrow> http_response" where
  "handleAADUsers env s who r =
    (case requireAADGraph who r of
       Some rs \<Rightarrow> rs
     | None \<Rightarrow> (case ListDirectoryUsers s (appTenant env) of
         Inl e \<Rightarrow> graph_failed e
       | Inr users \<Rightarrow> writeJSON 200 (JObj [(''value'', JArr (map (\<lambda>u. JObj
           [(''objectId'', JStr (usr_ID u)), (''displayName'', JStr (usr_DisplayName u)),
            (''userPrincipalName'', JStr (usr_UserPrincipalName u)), (''mail'', JStr (usr_Mail u)),
            (''accountEnabled'', JBool True), (''userType'', JStr ''Member'')]) users))])))"

definition handleAADDirectoryRoles :: "entra_env \<Rightarrow> store \<Rightarrow> Principal option \<Rightarrow> web_request \<Rightarrow> http_response" where
  "handleAADDirectoryRoles env s who r =
    (case requireAADGraph who r of
       Some rs \<Rightarrow> rs
     | None \<Rightarrow> (case ListDirectoryRoles s (appTenant env) of
         Inl e \<Rightarrow> graph_failed e
       | Inr roles \<Rightarrow> writeJSON 200 (JObj [(''value'', JArr (map (\<lambda>role. JObj
           [(''objectId'', JStr (dro_ID role)), (''displayName'', JStr (dro_DisplayName role)),
            (''roleTemplateId'', JStr (dro_TemplateID role)),
            (''members'', JArr (map (\<lambda>i. JObj [(''objectId'', JStr i), (''url'', JStr (''directoryObjects/'' @ i))])
              (case ListDirectoryRoleMembers s (dro_ID role) of Inl e \<Rightarrow> [] | Inr ms \<Rightarrow> ms)))]) roles))])))"

definition handleIAMUsers :: "entra_env \<Rightarrow> store \<Rightarrow> Principal option \<Rightarrow> http_response" where
  "handleIAMUsers env s who =
    (case requireGraph who of
       Some rs \<Rightarrow> rs
     | None \<Rightarrow> (case ListDirectoryUsers s (appTenant env) of
         Inl e \<Rightarrow> WriteARM 500 ''InternalServerError'' e
       | Inr users \<Rightarrow>
           (let items = JArr (map (\<lambda>u. JObj [(''objectId'', JStr (usr_ID u)), (''displayName'', JStr (usr_DisplayName u)),
              (''userPrincipalName'', JStr (usr_UserPrincipalName u))]) users) in
            writeJSON 200 (JObj [(''value'', items), (''items'', items)]))))"

text \<open>\<open>xmlEscape\<close> is the text \<open>encoding/xml\<close> writes for a string.\<close>

definition soap_envelope :: "string \<Rightarrow> http_response" where
  "soap_envelope body = writeBytes 200 [(''Content-Type'', ''application/soap+xml; charset=utf-8'')]
    (bytes_of_string (''<?xml version=\"1.0\" encoding=\"utf-8\"?><s:Envelope xmlns:s=\"http://www.w3.org/2003/05/soap-envelope\"><s:Body>'' @
      body @ ''</s:Body></s:Envelope>''))"

definition writeSOAPListUsers :: "(string \<Rightarrow> string) \<Rightarrow> entra_env \<Rightarrow> store \<Rightarrow> http_response" where
  "writeSOAPListUsers xmlEscape env s =
    (case ListDirectoryUsers s (appTenant env) of
       Inl e \<Rightarrow> WriteARM 500 ''InternalServerError'' e
     | Inr users \<Rightarrow> soap_envelope (''<ListUsersResponse xmlns=\"http://provisioning.microsoftonline.com/\">'' @
         concat (map (\<lambda>u. ''<User><UserPrincipalName>'' @ xmlEscape (usr_UserPrincipalName u) @
           ''</UserPrincipalName><DisplayName>'' @ xmlEscape (usr_DisplayName u) @ ''</DisplayName><ObjectId>'' @
           xmlEscape (usr_ID u) @ ''</ObjectId></User>'') users) @ ''</ListUsersResponse>''))"

definition writeSOAPTenant :: "(string \<Rightarrow> string) \<Rightarrow> entra_env \<Rightarrow> http_response" where
  "writeSOAPTenant xmlEscape env = soap_envelope
    (''<CompanyResponse xmlns=\"http://provisioning.microsoftonline.com/\"><DisplayName>'' @ xmlEscape (en_DisplayName env) @
     ''</DisplayName><ContextId>'' @ xmlEscape (appTenant env) @ ''</ContextId></CompanyResponse>'')"

definition handleProvisioningSOAP ::
  "(string \<Rightarrow> string) \<Rightarrow> entra_env \<Rightarrow> store \<Rightarrow> Principal option \<Rightarrow> string option \<Rightarrow> http_response" where
  \<comment> \<open>the body, cut at 1048576 bytes; \<open>None\<close> when it cannot be read\<close>
  "handleProvisioningSOAP xmlEscape env s who body =
    (case requireGraph who of
       Some rs \<Rightarrow> rs
     | None \<Rightarrow> (case body of
         None \<Rightarrow> BadRequest ''unable to read SOAP body''
       | Some text0 \<Rightarrow>
           (let raw = take 1048576 text0 in
            if contains raw ''ListUsers'' \<or> contains (to_lower raw) ''listusers'' then writeSOAPListUsers xmlEscape env s
            else writeSOAPTenant xmlEscape env)))"

end
