(* ===== verification/Entra_Sessions.thy ===== *)
theory Entra_Sessions
  imports Entra_Tokens Store_Sealed Arm_Lab
begin

text \<open>
  What the token endpoint of Entra ID promises: an access token is only given to who proves to be its
  principal, refresh tokens and device codes go back to a password, and a minted token authenticates
  until it expires. Every proof here works on the outcome of one request (\<open>dispatch_cases\<close>).
\<close>

section \<open>Outcomes\<close>

definition with_keys :: "store \<Rightarrow> signing_key_row list \<Rightarrow> store" where
  "with_keys s X = s\<lparr>st_credentials := (st_credentials s)\<lparr>tb_signing_keys := X\<rparr>\<rparr>"

lemma with_keys_same: "with_keys s (tb_signing_keys (st_credentials s)) = s"
  by (simp add: with_keys_def)

lemma with_keys_select [simp]:
  "db_fault (with_keys s X) = db_fault s"
  "st_directory (with_keys s X) = st_directory s"
  "tb_access_tokens (with_keys s X) = tb_access_tokens s"
  "tb_service_principals (with_keys s X) = tb_service_principals s"
  "tb_entra_apps (with_keys s X) = tb_entra_apps s"
  "tb_refresh_tokens (st_credentials (with_keys s X)) = tb_refresh_tokens (st_credentials s)"
  "tb_device_codes (st_credentials (with_keys s X)) = tb_device_codes (st_credentials s)"
  "tb_fics (st_credentials (with_keys s X)) = tb_fics (st_credentials s)"
  "tb_passwords (st_credentials (with_keys s X)) = tb_passwords (st_credentials s)"
  "tb_ca_policies (st_credentials (with_keys s X)) = tb_ca_policies (st_credentials s)"
  by (simp_all add: with_keys_def)

lemma insert_key_frame: "\<exists>X. snd (insert_signing_key c x s kid g n t) = with_keys s X"
proof (cases "db_fault s")
  case None
  then show ?thesis by (auto simp: insert_signing_key_def Let_def with_keys_def)
next
  case (Some e)
  then have "snd (insert_signing_key c x s kid g n t) = with_keys s (tb_signing_keys (st_credentials s))"
    by (simp add: insert_signing_key_def Let_def with_keys_same)
  then show ?thesis ..
qed

lemma entra_key_frame: "\<exists>X. snd (EnsureEntraSigningKey c x s u g n t) = with_keys s X"
  using insert_key_frame with_keys_same [of s, symmetric]
  by (auto simp: EnsureEntraSigningKey_def split: sum.split list.split)

lemma lab_key_frame: "\<exists>X. snd (EnsureOIDCLabSigningKey c x s g n t) = with_keys s X"
  using insert_key_frame with_keys_same [of s, symmetric]
  by (auto simp: EnsureOIDCLabSigningKey_def split: sum.split option.split)

lemma ensureKey_frame: "\<exists>X. snd (snd (ensureKey env rnd (k, s))) = with_keys s X"
proof (cases k)
  case None
  obtain res s' where e: "EnsureEntraSigningKey (en_crypto env) (en_x509 env) s (er_uuid rnd) (er_key rnd)
             (er_nonce rnd) (en_now env) = (res, s')" by (rule prod.exhaust)
  from entra_key_frame obtain X where "snd (EnsureEntraSigningKey (en_crypto env) (en_x509 env) s (er_uuid rnd) (er_key rnd)
             (er_nonce rnd) (en_now env)) = with_keys s X" ..
  with e None show ?thesis by (auto simp: ensureKey_def split: sum.split)
next
  case (Some kp)
  then have "snd (snd (ensureKey env rnd (k, s))) = with_keys s (tb_signing_keys (st_credentials s))"
    by (simp add: ensureKey_def with_keys_same)
  then show ?thesis ..
qed

lemma service_principal_keys [simp]: "GetServicePrincipal (with_keys s X) i = GetServicePrincipal s i"
  by (simp add: GetServicePrincipal_def db_query_def)

lemma resolve_app_keys [simp]: "ResolveEntraApp (with_keys s X) t i = ResolveEntraApp s t i"
  by (simp add: ResolveEntraApp_def db_query_def)

lemma resolve_identity_keys [simp]: "resolveTokenIdentity env (with_keys s X) p = resolveTokenIdentity env s p"
  unfolding resolveTokenIdentity_def service_principal_keys resolve_app_keys by (rule refl)

text \<open>The store after a token was minted and, where a refresh token goes with it, that was put.\<close>

definition token_row :: "entra_env \<Rightarrow> store \<Rightarrow> string \<Rightarrow> string \<Rightarrow> access_token_row" where
  "token_row env s p token = \<lparr>tok_hash = HashToken (en_lib env) token,
     tok_principal_id = fst (resolveTokenIdentity env s p),
     tok_expires_at = en_format_seconds env (en_now env + defaultExpiresIn * nanos)\<rparr>"

definition refresh_row :: "entra_env \<Rightarrow> entra_random \<Rightarrow> string \<Rightarrow> string \<Rightarrow> refresh_token_row" where
  "refresh_row env rnd p aud = \<lparr>rft_token_hash = HashToken (en_lib env) (er_token rnd), rft_principal_id = p,
     rft_audience = trim_space aud, rft_expires_at = (en_now env + refreshTTL) div nanos\<rparr>"

definition minted :: "entra_env \<Rightarrow> store \<Rightarrow> signing_key_row list \<Rightarrow> string \<Rightarrow> string \<Rightarrow> store" where
  "minted env s X p token = (with_keys s X)\<lparr>tb_access_tokens :=
     tbl_upsert tok_hash (\<lambda>old new. new) (token_row env s p token) (tb_access_tokens s)\<rparr>"

definition refreshable :: "entra_env \<Rightarrow> entra_random \<Rightarrow> store \<Rightarrow> string \<Rightarrow> string \<Rightarrow> store" where
  "refreshable env rnd s p aud = s\<lparr>st_credentials := (st_credentials s)\<lparr>tb_refresh_tokens :=
     tbl_upsert rft_token_hash (\<lambda>old new. new) (refresh_row env rnd p aud)
       (tb_refresh_tokens (st_credentials s))\<rparr>\<rparr>"

lemma mint_outcome:
  assumes "mintAccessToken env rnd (k, s) p aud origin = (res, st')"
  obtains (failed) e X where "res = Inl e" "snd st' = with_keys s X"
  | (minted) token X where "res = Inr token" "db_fault s = None" "snd st' = minted env s X p token"
proof -
  obtain r1 k1 s1 where key: "ensureKey env rnd (k, s) = (r1, (k1, s1))" by (metis prod.exhaust)
  then obtain X where s1: "s1 = with_keys s X" using ensureKey_frame by (metis snd_conv)
  show thesis
  proof (cases r1)
    case (Inl e)
    with assms key s1 show thesis by (intro failed [of e X]) (auto simp: mintAccessToken_def)
  next
    case (Inr kp)
    obtain kid priv where kp: "kp = (kid, priv)" by (rule prod.exhaust)
    show thesis
    proof (cases "EncodeRS256JWT (en_jose env) priv kid (token_claims env s1 p aud origin)")
      case (Inl e)
      with assms key Inr kp s1 show thesis by (intro failed [of e X]) (auto simp: mintAccessToken_def)
    next
      case token: (Inr token)
      show thesis
      proof (cases "db_fault s")
        case None
        with assms key Inr kp s1 token show thesis
          by (intro minted [of token X]) (auto simp: mintAccessToken_def PutAccessToken_def minted_def token_row_def)
      next
        case (Some e)
        with assms key Inr kp s1 token show thesis
          by (intro failed [of e X]) (auto simp: mintAccessToken_def PutAccessToken_def)
      qed
    qed
  qed
qed

lemma minted_fault [simp]: "db_fault (minted env s X p token) = db_fault s"
  by (simp add: minted_def)

lemma write_token_outcome:
  assumes "writeToken env rnd (k, s) r p aud wr = (rs, st')"
  obtains (refused) X where "rs_code rs \<in> {400, 500}" "snd st' = with_keys s X"
  | (issued) token X where "rs_code rs = 200" "json_field (rs_body rs) ''access_token'' = Some (JStr token)"
      "db_fault s = None" "\<not> conditionalAccessBlocked s r (form_get r ''client_id'')"
      "snd st' = (if wr then refreshable env rnd (minted env s X p token) p aud else minted env s X p token)"
proof (cases "conditionalAccessBlocked s r (form_get r ''client_id'')")
  case True
  with assms show thesis
    by (intro refused [of "tb_signing_keys (st_credentials s)"]) (auto simp: writeToken_def writeConditionalAccessDenied_def with_keys_same)
next
  case open_: False
  obtain res k' s' where mint: "mintAccessToken env rnd (k, s) p aud (entra_origin env r) = (res, (k', s'))"
    by (metis prod.exhaust)
  from mint show thesis
  proof (cases rule: mint_outcome)
    case (failed e X)
    with assms open_ mint show thesis by (intro refused [of X]) (auto simp: writeToken_def)
  next
    case (minted token X)
    with assms open_ mint show thesis
      by (intro issued [of token X]) (auto simp: writeToken_def PutRefreshToken_def Let_def refreshable_def refresh_row_def writeJSON_def
          json_field.simps split: if_splits)
  qed
qed


section \<open>What a token rests on\<close>

text \<open>The identifiers whose secrets a client may present.\<close>

definition client_names :: "entra_env \<Rightarrow> store \<Rightarrow> string \<Rightarrow> string set" where
  "client_names env s cid =
    {cid} \<union> {i. \<exists>f. ResolveEntraApp s (appTenant env) cid = Inr f \<and> i \<in> set (app_ids f)} \<union>
    {i. \<exists>sp. GetServicePrincipal s cid = Inr (Some sp) \<and>
       (i = sp_ID sp \<or> i = sp_AppID sp \<or>
        (\<exists>f. ResolveEntraApp s (appTenant env) (sp_AppID sp) = Inr f \<and> i \<in> set (app_ids f)))}"

inductive proves :: "entra_env \<Rightarrow> entra_random \<Rightarrow> store \<Rightarrow> web_request \<Rightarrow> string \<Rightarrow> bool" for env rnd s r where
  by_secret: "proves env rnd s r (form_get r ''client_id'')"
    if "form_get r ''grant_type'' = ''client_credentials''" "form_get r ''client_assertion'' = []"
      "row \<in> set (tb_passwords (st_credentials s))"
      "pwd_resource_id row \<in> trim_space ` client_names env s (form_get r ''client_id'')"
      "MatchPasswordHash (en_lib env) (en_bcrypt env) (pwd_secret_hash row) (form_get r ''client_secret'')"
| by_key: "proves env rnd s r appID"
    if "form_get r ''grant_type'' = ''client_credentials''"
      "ResolveEntraApp s (appTenant env) cid = Inr (Some (obj, appID, name))"
      "assertion_keys s obj cid = Inr pems" "pem \<in> set pems" "signed_by env (form_get r ''client_assertion'') pem"
| by_federation: "proves env rnd s r i"
    if "form_get r ''grant_type'' = ''client_credentials''"
      "fst (ensureOIDCLabKey env rnd s) = Inr (kid, priv)"
      "VerifyRS256JWT (en_lib env) (en_jose env) (x5_public (en_x509 env) priv) (form_get r ''client_assertion'')
        (en_now env) = Inr claims"
      "fic \<in> set (tb_fics (st_credentials s))"
      "fic_matches (en_lib env) (en_url env) iss aud claims allowed fic"
      "i = form_get r ''client_id'' \<or> (\<exists>obj name. ResolveEntraApp s (appTenant env) (fic_AppObjectID fic) = Inr (Some (obj, i, name)))"
| by_password: "proves env rnd s r (usr_ID u)"
    if "form_get r ''grant_type'' = ''password''" "u \<in> set (tb_users (st_directory s))"
      "the_user (form_get r ''username'') u"
      "UserPasswordMatches (en_lib env) (en_bcrypt env) s (usr_ID u) (form_get r ''password'') = Inr True"
| by_refresh: "proves env rnd s r (rft_principal_id row)"
    if "form_get r ''grant_type'' = ''refresh_token''" "row \<in> set (tb_refresh_tokens (st_credentials s))"
      "rft_token_hash row = HashToken (en_lib env) (form_get r ''refresh_token'')"
      "en_now env \<le> rft_expires_at row * nanos"
| by_code: "proves env rnd s r (dvc_principal_id row)"
    if "form_get r ''grant_type'' = grantDeviceCode" "row \<in> set (tb_device_codes (st_credentials s))"
      "dvc_device_code row = opaqueHash (en_lib env) (form_get r ''device_code'')" "dvc_approved row"
      "en_now env \<le> dvc_expires_at row * nanos"

lemma distinct_ids_subset: "set (distinct_ids ids) \<subseteq> trim_space ` set ids"
proof -
  have "set (foldl (\<lambda>acc i. if i = [] \<or> i \<in> set acc then acc else i # acc) acc xs) \<subseteq> set acc \<union> set xs" for acc xs :: "string list"
  proof (induction xs arbitrary: acc)
    case (Cons x xs)
    from Cons.IH [of acc] Cons.IH [of "x # acc"] show ?case by auto
  qed simp
  from this [of "[]" "map trim_space ids"] show ?thesis by (simp add: distinct_ids_def)
qed

lemma find_in: "find P xs = Some x \<Longrightarrow> x \<in> set xs \<and> P x"
  by (auto simp: find_Some_iff)

lemma password_matches_row:
  assumes "PasswordSecretMatches lib bc s ids secret = Inr True"
  shows "\<exists>row \<in> set (tb_passwords (st_credentials s)). pwd_resource_id row \<in> trim_space ` set ids \<and>
    MatchPasswordHash lib bc (pwd_secret_hash row) secret"
  using assms distinct_ids_subset [of ids]
  by (fastforce simp: PasswordSecretMatches_def db_query_def list_ex_iff split: if_splits option.splits)

lemma secret_matches_row:
  assumes "clientSecretMatches env s cid secret = Inr True"
  shows "\<exists>row \<in> set (tb_passwords (st_credentials s)). pwd_resource_id row \<in> trim_space ` client_names env s cid \<and>
    MatchPasswordHash (en_lib env) (en_bcrypt env) (pwd_secret_hash row) secret"
proof -
  have "\<exists>ids. PasswordSecretMatches (en_lib env) (en_bcrypt env) s ids secret = Inr True \<and>
      set ids \<subseteq> client_names env s cid"
  proof (cases "GetServicePrincipal s cid")
    case (Inr found)
    with assms show ?thesis
      by (cases found) (fastforce simp: clientSecretMatches_def client_names_def split: sum.splits)+
  qed (use assms in \<open>auto simp: clientSecretMatches_def split: sum.splits\<close>)
  then obtain ids where ids: "PasswordSecretMatches (en_lib env) (en_bcrypt env) s ids secret = Inr True"
      "set ids \<subseteq> client_names env s cid" by (elim exE conjE)
  from password_matches_row [OF ids(1)] ids(2) show ?thesis by blast
qed

lemma user_of_proves:
  assumes "user_of env s r = Inr u"
  shows "u \<in> set (tb_users (st_directory s)) \<and> the_user (form_get r ''username'') u \<and>
    UserPasswordMatches (en_lib env) (en_bcrypt env) s (usr_ID u) (form_get r ''password'') = Inr True"
  using assms find_in
  by (fastforce simp: user_of_def GetDirectoryUser_def db_query_def split: sum.splits option.splits if_splits)


lemma lab_key_state: "\<exists>X. snd (ensureOIDCLabKey env rnd s) = with_keys s X"
  unfolding ensureOIDCLabKey_def by (rule lab_key_frame)

lemma match_fic_keys [simp]: "MatchFIC lib url (with_keys s X) iss aud claims ids = MatchFIC lib url s iss aud claims ids"
  by (simp add: MatchFIC_def db_query_def)

lemma federated_ids_keys [simp]: "federatedMatchAppIDs env (with_keys s X) cid = federatedMatchAppIDs env s cid"
  unfolding federatedMatchAppIDs_def service_principal_keys resolve_app_keys by (rule refl)

lemma form_get_trimmed [simp]: "trim_space (form_get r k) = form_get r k"
  by (simp add: form_get_def)

lemma federated_proves:
  assumes "verifyFederatedAssertion env rnd s (form_get r ''client_id'') (form_get r ''client_assertion'') iss aud = (res, s')"
    and grant: "form_get r ''grant_type'' = ''client_credentials''"
  shows "(\<exists>X. s' = with_keys s X) \<and> (\<forall>i. res = Inr i \<longrightarrow> proves env rnd s r i) \<and>
    (\<forall>rs. res = Inl rs \<longrightarrow> rs_code rs \<noteq> 200)"
proof (cases "form_get r ''client_id'' = []")
  case True
  with assms with_keys_same [of s, symmetric] show ?thesis
    by (auto simp: verifyFederatedAssertion_def Let_def invalid_client_def)
next
  case False
  obtain kr s1 where key: "ensureOIDCLabKey env rnd s = (kr, s1)" by (rule prod.exhaust)
  with lab_key_state [of env rnd s] obtain X where s1: "s1 = with_keys s X" by auto
  show ?thesis
  proof (cases kr)
    case (Inl e)
    with assms False key s1 show ?thesis by (auto simp: verifyFederatedAssertion_def Let_def server_error_def)
  next
    case (Inr kp)
    obtain kid priv where kp: "kp = (kid, priv)" by (rule prod.exhaust)
    have s': "s' = s1"
      using assms(1) False key Inr kp by (simp add: verifyFederatedAssertion_def Let_def)
    have "rs_code rs \<noteq> 200" if "res = Inl rs" for rs
      using assms(1) False key Inr kp that
      by (auto simp: verifyFederatedAssertion_def Let_def server_error_def invalid_client_def
          split: sum.splits list.splits option.splits if_splits)
    moreover have "proves env rnd s r i" if i: "res = Inr i" for i
    proof -
      from assms(1) False key Inr kp i s1 obtain claims ids fic where
          ver: "VerifyRS256JWT (en_lib env) (en_jose env) (x5_public (en_x509 env) priv)
            (form_get r ''client_assertion'') (en_now env) = Inr claims"
        and fic: "MatchFIC (en_lib env) (en_url env) s iss aud claims ids = Inr (Some fic)"
        and app: "i = form_get r ''client_id'' \<or> (\<exists>obj name. ResolveEntraApp s (appTenant env) (fic_AppObjectID fic) = Inr (Some (obj, i, name)))"
        by (auto simp: verifyFederatedAssertion_def Let_def split: sum.splits list.splits option.splits if_splits)
      from fic obtain allowed where "fic \<in> set (tb_fics (st_credentials s))"
          "fic_matches (en_lib env) (en_url env) iss aud claims allowed fic"
        using find_in by (fastforce simp: MatchFIC_def Let_def db_query_def split: option.splits)
      moreover have "fst (ensureOIDCLabKey env rnd s) = Inr (kid, priv)" using key Inr kp by simp
      ultimately show ?thesis using by_federation [OF grant _ ver] app by blast
    qed
    ultimately show ?thesis using s' s1 by blast
  qed
qed

lemma private_key_proves:
  assumes "verifyPrivateKeyJWT env s r cid (form_get r ''client_assertion'') iss sub aud = res"
    and grant: "form_get r ''grant_type'' = ''client_credentials''"
  shows "(\<forall>i. res = Inr i \<longrightarrow> proves env rnd s r i) \<and> (\<forall>rs. res = Inl rs \<longrightarrow> rs_code rs \<noteq> 200)"
proof -
  have "rs_code rs \<noteq> 200" if "res = Inl rs" for rs
    using assms(1) that
    by (auto simp: verifyPrivateKeyJWT_def Let_def invalid_client_def server_error_def
        split: sum.splits option.splits if_splits)
  moreover have "proves env rnd s r i" if i: "res = Inr i" for i
  proof -
    from assms(1) i obtain c obj name pems where
      "ResolveEntraApp s (appTenant env) c = Inr (Some (obj, i, name))" "assertion_keys s obj c = Inr pems"
      "list_ex (signed_by env (form_get r ''client_assertion'')) pems"
      by (auto simp: verifyPrivateKeyJWT_def Let_def split: sum.splits option.splits if_splits)
    then show ?thesis using by_key [OF grant] by (auto simp: list_ex_iff)
  qed
  ultimately show ?thesis by blast
qed

lemma client_proves:
  assumes "client_of env rnd s r = (res, s')" and grant: "form_get r ''grant_type'' = ''client_credentials''"
  shows "(\<exists>X. s' = with_keys s X) \<and> (\<forall>i. res = Inr i \<longrightarrow> proves env rnd s r i) \<and>
    (\<forall>rs. res = Inl rs \<longrightarrow> rs_code rs \<noteq> 200)"
proof (cases "form_get r ''client_assertion'' = []")
  case True
  note same = with_keys_same [of s, symmetric]
  have "s' = s" using assms(1) True by (auto simp: client_of_def Let_def split: sum.splits if_splits)
  moreover have "rs_code rs \<noteq> 200" if "res = Inl rs" for rs
    using assms(1) True that
    by (auto simp: client_of_def Let_def invalid_client_def server_error_def split: sum.splits if_splits)
  moreover have "proves env rnd s r i" if "res = Inr i" for i
  proof -
    from assms(1) True that have i: "i = form_get r ''client_id''"
      and ok: "clientSecretMatches env s i (form_get r ''client_secret'') = Inr True"
      by (auto simp: client_of_def Let_def split: sum.splits if_splits)
    from secret_matches_row [OF ok] show ?thesis
      using by_secret [OF grant True] i by blast
  qed
  ultimately show ?thesis using same by metis
next
  case False
  show ?thesis
  proof (cases "form_get r ''client_assertion_type'' \<noteq> [] \<and> form_get r ''client_assertion_type'' \<noteq> assertionType")
    case True
    with assms(1) False with_keys_same [of s, symmetric] show ?thesis by (auto simp: client_of_def Let_def)
  next
    case kind: False
    obtain vr s1 where v: "verifyClientAssertion env rnd s r (form_get r ''client_id'') (form_get r ''client_assertion'') = (vr, s1)"
      by (rule prod.exhaust)
    have "(\<exists>X. s1 = with_keys s X) \<and> (\<forall>i. vr = Inr i \<longrightarrow> proves env rnd s r i) \<and>
        (\<forall>rs. vr = Inl rs \<longrightarrow> rs_code rs \<noteq> 200)"
    proof (cases "DecodeJWTUnverified (en_lib env) (form_get r ''client_assertion'')")
      case (Inl e)
      with v with_keys_same [of s, symmetric] show ?thesis
        by (auto simp: verifyClientAssertion_def invalid_client_def)
    next
      case (Inr hc)
      obtain h c where hc: "hc = (h, c)" by (rule prod.exhaust)
      show ?thesis
      proof (cases "isEntraIssuedAssertion env (ClaimString c ''iss'') r")
        case True
        with v Inr hc with_keys_same [of s, symmetric] show ?thesis
          by (auto simp: verifyClientAssertion_def Let_def invalid_client_def)
      next
        case outside: False
        show ?thesis
        proof (cases "isLabOIDCIssuer env (ClaimString c ''iss'')")
          case True
          with v Inr hc outside show ?thesis
            by (intro federated_proves [OF _ grant]) (auto simp: verifyClientAssertion_def Let_def)
        next
          case not_lab: False
          with v Inr hc outside have "s1 = s"
            "verifyPrivateKeyJWT env s r (form_get r ''client_id'') (form_get r ''client_assertion'')
              (ClaimString c ''iss'') (ClaimString c ''sub'') (ClaimString c ''aud'') = vr"
            by (auto simp: verifyClientAssertion_def Let_def)
          with private_key_proves [OF _ grant] with_keys_same [of s, symmetric] show ?thesis by metis
        qed
      qed
    qed
    with assms(1) False kind v show ?thesis
      by (cases vr) (auto simp: client_of_def Let_def split: if_splits)
  qed
qed


text \<open>What the endpoint reads is the same with other signing keys and other log rows.\<close>

definition with_log :: "store \<Rightarrow> observations \<Rightarrow> store" where
  "with_log s O1 = s\<lparr>st_observations := O1\<rparr>"

lemma with_log_select [simp]:
  "db_fault (with_log s O1) = db_fault s"
  "st_directory (with_log s O1) = st_directory s"
  "st_credentials (with_log s O1) = st_credentials s"
  "tb_access_tokens (with_log s O1) = tb_access_tokens s"
  "tb_service_principals (with_log s O1) = tb_service_principals s"
  "tb_entra_apps (with_log s O1) = tb_entra_apps s"
  by (simp_all add: with_log_def)

lemma sign_in_state: "\<exists>O1. recordServicePrincipalSignIn env s r a aud = with_log s O1"
proof (cases "db_fault s")
  case None
  then show ?thesis by (auto simp: recordServicePrincipalSignIn_def InsertLogAnalyticsRow_def Let_def with_log_def)
next
  case (Some e)
  then have "recordServicePrincipalSignIn env s r a aud = with_log s (st_observations s)"
    by (simp add: recordServicePrincipalSignIn_def InsertLogAnalyticsRow_def Let_def with_log_def)
  then show ?thesis ..
qed

lemma blocked_same [simp]:
  "conditionalAccessBlocked (with_keys s X) r cid = conditionalAccessBlocked s r cid"
  "conditionalAccessBlocked (with_log s O1) r cid = conditionalAccessBlocked s r cid"
  by (simp_all add: conditionalAccessBlocked_def ListCAPolicies_def db_query_def)

lemma service_principal_log [simp]: "GetServicePrincipal (with_log s O1) i = GetServicePrincipal s i"
  by (simp add: GetServicePrincipal_def db_query_def)

lemma resolve_app_log [simp]: "ResolveEntraApp (with_log s O1) t i = ResolveEntraApp s t i"
  by (simp add: ResolveEntraApp_def db_query_def)

lemma resolve_identity_log [simp]: "resolveTokenIdentity env (with_log s O1) p = resolveTokenIdentity env s p"
  unfolding resolveTokenIdentity_def service_principal_log resolve_app_log by (rule refl)

lemma token_row_same [simp]:
  "token_row env (with_keys s X) p token = token_row env s p token"
  "token_row env (with_log s O1) p token = token_row env s p token"
  by (simp_all add: token_row_def)

text \<open>What an answer of the endpoint means for the tables, whatever the grant.\<close>

definition issued_to :: "entra_env \<Rightarrow> entra_random \<Rightarrow> store \<Rightarrow> store \<Rightarrow> http_response \<Rightarrow> string \<Rightarrow> string \<Rightarrow> bool \<Rightarrow> bool" where
  "issued_to env rnd s s' rs p aud wr \<longleftrightarrow>
    (\<exists>token. json_field (rs_body rs) ''access_token'' = Some (JStr token) \<and>
      tb_access_tokens s' = tbl_upsert tok_hash (\<lambda>old new. new) (token_row env s p token) (tb_access_tokens s) \<and>
      tb_refresh_tokens (st_credentials s') =
        (if wr then tbl_upsert rft_token_hash (\<lambda>old new. new) (refresh_row env rnd p aud)
           (tb_refresh_tokens (st_credentials s))
         else tb_refresh_tokens (st_credentials s)))"

definition kept :: "store \<Rightarrow> store \<Rightarrow> bool" where
  "kept s s' \<longleftrightarrow> db_fault s' = db_fault s \<and> st_directory s' = st_directory s \<and>
    tb_device_codes (st_credentials s') = tb_device_codes (st_credentials s)"

definition no_token :: "store \<Rightarrow> store \<Rightarrow> bool" where
  "no_token s s' \<longleftrightarrow> tb_access_tokens s' = tb_access_tokens s \<and>
    tb_refresh_tokens (st_credentials s') = tb_refresh_tokens (st_credentials s)"

lemma same_state_kept: "kept s s" "no_token s s"
  by (simp_all add: kept_def no_token_def)

lemma keys_kept: "kept s (with_keys s X)" "no_token s (with_keys s X)"
  by (simp_all add: kept_def no_token_def)

lemma write_token_cases:
  assumes "writeToken env rnd (k, s) r p aud wr = (rs, st')"
  shows "kept s (snd st') \<and>
    (rs_code rs \<noteq> 200 \<and> no_token s (snd st') \<or>
     rs_code rs = 200 \<and> \<not> conditionalAccessBlocked s r (form_get r ''client_id'') \<and> issued_to env rnd s (snd st') rs p aud wr)"
  using assms
proof (cases rule: write_token_outcome)
  case (refused X)
  then show ?thesis by (auto simp: keys_kept)
next
  case (issued token X)
  then show ?thesis
    by (auto simp: kept_def issued_to_def minted_def refreshable_def)
qed

lemma dispatch_cases:
  assumes "dispatchToken env rnd st r = (rs, st')"
  shows "kept (snd st) (snd st') \<and>
    (rs_code rs \<noteq> 200 \<and> no_token (snd st) (snd st') \<or>
     rs_code rs = 200 \<and> \<not> conditionalAccessBlocked (snd st) r (form_get r ''client_id'') \<and>
     (\<exists>p aud wr. proves env rnd (snd st) r p \<and> (wr \<longrightarrow> form_get r ''grant_type'' \<noteq> ''client_credentials'') \<and>
       issued_to env rnd (snd st) (snd st') rs p aud wr))"
proof (cases "rs_code rs \<noteq> 200 \<and> st' = st")
  case True
  then show ?thesis by (simp add: same_state_kept)
next
  case acts: False
  obtain k s where st: "st = (k, s)" by (rule prod.exhaust)
  from assms acts have "form_get r ''grant_type'' = ''client_credentials'' \<and> tokenClientCredentials env rnd st r = (rs, st') \<or>
      form_get r ''grant_type'' = ''password'' \<and> tokenPassword env rnd st r = (rs, st') \<or>
      form_get r ''grant_type'' = ''refresh_token'' \<and> tokenRefresh env rnd st r = (rs, st') \<or>
      form_get r ''grant_type'' = grantDeviceCode \<and> tokenDeviceCode env rnd st r = (rs, st')"
    by (auto simp: dispatchToken_def Let_def split: if_splits)
  then consider
      (client) "form_get r ''grant_type'' = ''client_credentials''" "tokenClientCredentials env rnd st r = (rs, st')"
    | (password) "form_get r ''grant_type'' = ''password''" "tokenPassword env rnd st r = (rs, st')"
    | (refresh) "form_get r ''grant_type'' = ''refresh_token''" "tokenRefresh env rnd st r = (rs, st')"
    | (code) "form_get r ''grant_type'' = grantDeviceCode" "tokenDeviceCode env rnd st r = (rs, st')"
    by blast
  then show ?thesis
  proof cases
    case client
    obtain cr s1 where c: "client_of env rnd s r = (cr, s1)" by (rule prod.exhaust)
    from client_proves [OF c client(1)] obtain X where s1: "s1 = with_keys s X" by blast
    show ?thesis
    proof (cases cr)
      case (Inl e)
      with client(2) c st client_proves [OF c client(1)] s1 show ?thesis
        by (auto simp: tokenClientCredentials_def keys_kept)
    next
      case (Inr i)
      obtain O1 where o: "recordServicePrincipalSignIn env s1 r i (tokenAudience r) = with_log s1 O1"
        using sign_in_state by blast
      from client(2) c st Inr o have "writeToken env rnd (k, with_log s1 O1) r i (tokenAudience r) False = (rs, st')"
        by (simp add: tokenClientCredentials_def)
      from write_token_cases [OF this] client_proves [OF c client(1)] Inr st s1 show ?thesis
        by (auto simp: kept_def no_token_def issued_to_def)
    qed
  next
    case password
    from password(2) acts have "\<exists>u. user_of env s r = Inr u \<and> writeToken env rnd (k, s) r (usr_ID u) (tokenAudience r) True = (rs, st')"
      using st by (auto simp: tokenPassword_def user_of_def wrong_password_def server_error_def split: if_splits sum.splits option.splits)
    then obtain u where u: "user_of env s r = Inr u" "writeToken env rnd (k, s) r (usr_ID u) (tokenAudience r) True = (rs, st')"
      by blast
    from user_of_proves [OF u(1)] have "proves env rnd s r (usr_ID u)" using by_password [OF password(1)] by blast
    with write_token_cases [OF u(2)] st password(1) show ?thesis by auto
  next
    case refresh
    from refresh(2) acts st obtain i stored where
      l: "LookupRefreshToken s (HashToken (en_lib env) (form_get r ''refresh_token'')) (en_now env) = Inr (Some (i, stored))"
      and w: "writeToken env rnd (k, s) r i (normalizeTokenAudience stored) True = (rs, st')"
      by (auto simp: tokenRefresh_def Let_def server_error_def split: if_splits sum.splits option.splits)
    from l obtain row where "row \<in> set (tb_refresh_tokens (st_credentials s))"
      "rft_token_hash row = HashToken (en_lib env) (form_get r ''refresh_token'')" "i = rft_principal_id row"
      "en_now env \<le> rft_expires_at row * nanos"
      by (auto simp: LookupRefreshToken_def db_query_def split: option.splits if_splits dest!: tbl_get_SomeD)
    then have "proves env rnd s r i" using by_refresh [OF refresh(1)] by blast
    with write_token_cases [OF w] st refresh(1) show ?thesis by auto
  next
    case code
    from code(2) acts st obtain i where
      l: "LookupDeviceCode (en_lib env) s (form_get r ''device_code'') (en_now env) = Inr (Some (i, True))"
      and w: "writeToken env rnd (k, s) r i (tokenAudience r) True = (rs, st')"
      by (auto simp: tokenDeviceCode_def Let_def server_error_def split: if_splits sum.splits option.splits)
    from l obtain row where "row \<in> set (tb_device_codes (st_credentials s))"
      "dvc_device_code row = opaqueHash (en_lib env) (form_get r ''device_code'')" "i = dvc_principal_id row"
      "en_now env \<le> dvc_expires_at row * nanos" "dvc_approved row"
      by (auto simp: LookupDeviceCode_def db_query_def split: option.splits if_splits dest!: tbl_get_SomeD)
    then have "proves env rnd s r i" using by_code [OF code(1)] by blast
    with write_token_cases [OF w] st code(1) show ?thesis by (auto simp: grantDeviceCode_def)
  qed
qed


section \<open>Tokens need a proof\<close>


theorem refusal_issues_nothing:
  assumes "dispatchToken env rnd st r = (rs, st')" "rs_code rs \<noteq> 200"
  shows "tb_access_tokens (snd st') = tb_access_tokens (snd st)"
    "tb_refresh_tokens (st_credentials (snd st')) = tb_refresh_tokens (st_credentials (snd st))"
  using dispatch_cases [OF assms(1)] assms(2) by (auto simp: no_token_def)


section \<open>Sessions go back to a password\<close>

text \<open>
  The requests of Entra ID that write tokens or device codes, as a run: each comes at its time,
  with its random draws.
\<close>

datatype token_op = TokenPost | DeviceCodePost | DevicePost | LabTokenPost

definition entra_step :: "entra_env \<Rightarrow> entra_state \<Rightarrow> int \<times> entra_random \<times> token_op \<times> web_request \<Rightarrow> entra_state" where
  "entra_step env0 st req =
    (let (t, rnd, op, r) = req; env = env0\<lparr>en_now := t\<rparr> in
     case op of
       TokenPost \<Rightarrow> snd (dispatchToken env rnd st r)
     | DeviceCodePost \<Rightarrow> (fst st, snd (handleDeviceCode env rnd (snd st) r))
     | DevicePost \<Rightarrow> (fst st, snd (handleDeviceApprove env (snd st) r))
     | LabTokenPost \<Rightarrow> (fst st, snd (handleLabOIDCToken env rnd (snd st) r)))"

definition entra_run :: "entra_env \<Rightarrow> entra_state \<Rightarrow> (int \<times> entra_random \<times> token_op \<times> web_request) list \<Rightarrow> entra_state" where
  "entra_run env st reqs = foldl (entra_step env) st reqs"

text \<open>The principals that hold a refresh token or an approved device code.\<close>

definition sessions :: "store \<Rightarrow> string set" where
  "sessions s = rft_principal_id ` set (tb_refresh_tokens (st_credentials s)) \<union>
    dvc_principal_id ` {row \<in> set (tb_device_codes (st_credentials s)). dvc_approved row}"

definition showed_password :: "entra_env \<Rightarrow> store \<Rightarrow> web_request \<Rightarrow> string \<Rightarrow> bool" where
  "showed_password env s r p \<longleftrightarrow>
    (\<exists>u \<in> set (tb_users (st_directory s)). the_user (form_get r ''username'') u \<and>
      (p = usr_ID u \<or> p = trim_space (usr_ID u)) \<and>
      UserPasswordMatches (en_lib env) (en_bcrypt env) s (usr_ID u) (form_get r ''password'') = Inr True)"

lemma showed_password_cong:
  "db_fault s' = db_fault s \<Longrightarrow> st_directory s' = st_directory s \<Longrightarrow>
    showed_password env s' r p = showed_password env s r p"
  by (simp add: showed_password_def UserPasswordMatches_def db_query_def)

lemma user_of_showed: "user_of env s r = Inr u \<Longrightarrow> showed_password env s r (usr_ID u)"
  using user_of_proves by (force simp: showed_password_def)

lemma proves_session:
  assumes "proves env rnd s r p" "form_get r ''grant_type'' \<noteq> ''client_credentials''"
  shows "p \<in> sessions s \<or> showed_password env s r p"
  using assms by (cases rule: proves.cases) (auto simp: sessions_def showed_password_def)

lemma set_upsert_replace:
  "set (tbl_upsert key (\<lambda>old new. new) row t) \<subseteq> insert row (set t)"
  by (auto simp: tbl_upsert_def)

lemma dispatch_sessions:
  assumes "dispatchToken env rnd st r = (rs, st')" "p \<in> sessions (snd st')"
  shows "p \<in> sessions (snd st) \<or> showed_password env (snd st) r p"
proof (cases "tb_refresh_tokens (st_credentials (snd st')) = tb_refresh_tokens (st_credentials (snd st))")
  case True
  with dispatch_cases [OF assms(1)] assms(2) show ?thesis by (auto simp: sessions_def kept_def)
next
  case False
  with dispatch_cases [OF assms(1)] obtain q aud where
      q: "proves env rnd (snd st) r q" "form_get r ''grant_type'' \<noteq> ''client_credentials''"
    and rows: "tb_refresh_tokens (st_credentials (snd st')) = tbl_upsert rft_token_hash (\<lambda>old new. new)
        (refresh_row env rnd q aud) (tb_refresh_tokens (st_credentials (snd st)))"
    by (auto simp: no_token_def issued_to_def split: if_splits)
  have "set (tb_refresh_tokens (st_credentials (snd st'))) \<subseteq>
      insert (refresh_row env rnd q aud) (set (tb_refresh_tokens (st_credentials (snd st))))"
    unfolding rows by (rule set_upsert_replace)
  moreover have "tb_device_codes (st_credentials (snd st')) = tb_device_codes (st_credentials (snd st))"
    using dispatch_cases [OF assms(1)] by (simp add: kept_def)
  ultimately have "p \<in> sessions (snd st) \<or> p = q"
    using assms(2) by (auto simp: sessions_def refresh_row_def)
  with proves_session [OF q] show ?thesis by blast
qed

lemma put_device_code_sessions:
  "sessions (snd (PutDeviceCode lib s code uc t)) \<subseteq> sessions s \<and>
    db_fault (snd (PutDeviceCode lib s code uc t)) = db_fault s \<and>
    st_directory (snd (PutDeviceCode lib s code uc t)) = st_directory s"
proof (cases "db_fault s")
  case None
  let ?row = "\<lparr>dvc_device_code = opaqueHash lib code, dvc_principal_id = [],
        dvc_user_code = to_upper (trim_space uc), dvc_approved = False, dvc_expires_at = t div nanos\<rparr>"
  have "set (tbl_upsert dvc_device_code (\<lambda>old new. new) ?row (tb_device_codes (st_credentials s))) \<subseteq>
      insert ?row (set (tb_device_codes (st_credentials s)))"
    by (rule set_upsert_replace)
  with None show ?thesis by (auto simp: PutDeviceCode_def Let_def sessions_def)
next
  case (Some e)
  then show ?thesis by (simp add: PutDeviceCode_def Let_def)
qed

lemma device_code_sessions:
  "sessions (snd (handleDeviceCode env rnd s r)) \<subseteq> sessions s \<and>
    db_fault (snd (handleDeviceCode env rnd s r)) = db_fault s \<and>
    st_directory (snd (handleDeviceCode env rnd s r)) = st_directory s"
  using put_device_code_sessions [of "en_lib env" s "er_token rnd" "to_upper (er_token2 rnd @ ''-'' @ er_token3 rnd)"
      "en_now env + deviceTTL"]
  by (auto simp: handleDeviceCode_def Let_def split: prod.splits sum.splits)

lemma approve_sessions:
  "sessions (snd (ApproveDeviceCode s c p t)) \<subseteq> insert (trim_space p) (sessions s) \<and>
    db_fault (snd (ApproveDeviceCode s c p t)) = db_fault s \<and>
    st_directory (snd (ApproveDeviceCode s c p t)) = st_directory s"
proof (cases "db_fault s")
  case None
  then show ?thesis by (auto simp: ApproveDeviceCode_def Let_def sessions_def split: if_splits)
next
  case (Some e)
  then show ?thesis by (auto simp: ApproveDeviceCode_def Let_def)
qed


lemma device_approve_outcome:
  "snd (handleDeviceApprove env s r) = s \<or> (\<exists>u. user_of env s r = Inr u \<and>
    snd (handleDeviceApprove env s r) = snd (ApproveDeviceCode s (form_get r ''user_code'') (usr_ID u) (en_now env)))"
proof (cases "user_of env s r")
  case (Inl rs)
  then show ?thesis by (simp add: handleDeviceApprove_def)
next
  case (Inr u)
  obtain res s' where a: "ApproveDeviceCode s (form_get r ''user_code'') (usr_ID u) (en_now env) = (res, s')"
    by (rule prod.exhaust)
  show ?thesis by (cases res) (simp_all add: handleDeviceApprove_def Inr a)
qed

lemma device_approve_sessions:
  "(\<forall>p \<in> sessions (snd (handleDeviceApprove env s r)). p \<in> sessions s \<or> showed_password env s r p) \<and>
    db_fault (snd (handleDeviceApprove env s r)) = db_fault s \<and>
    st_directory (snd (handleDeviceApprove env s r)) = st_directory s"
proof (cases "snd (handleDeviceApprove env s r) = s")
  case False
  with device_approve_outcome [of env s r] obtain u where u: "user_of env s r = Inr u"
      "snd (handleDeviceApprove env s r) = snd (ApproveDeviceCode s (form_get r ''user_code'') (usr_ID u) (en_now env))"
    by (elim disjE exE conjE) simp_all
  have "showed_password env s r (trim_space (usr_ID u))"
    unfolding showed_password_def using user_of_proves [OF u(1)] by blast
  moreover note approve_sessions [of s "form_get r ''user_code''" "usr_ID u" "en_now env"]
  ultimately show ?thesis by (auto simp: u(2))
qed simp

lemma lab_mint_state:
  "snd (mintLabOIDCAssertion env rnd s origin subject audience extra) = snd (ensureOIDCLabKey env rnd s)"
proof -
  obtain res s' where e: "ensureOIDCLabKey env rnd s = (res, s')" by (rule prod.exhaust)
  show ?thesis
    by (cases res) (simp_all only: mintLabOIDCAssertion_def e prod.case sum.case Let_def fst_conv snd_conv case_prod_unfold)
qed

lemma lab_token_state:
  "snd (handleLabOIDCToken env rnd s r) = s \<or> snd (handleLabOIDCToken env rnd s r) = snd (ensureOIDCLabKey env rnd s)"
proof -
  let ?subject = "if form_get r ''subject'' = [] then form_get r ''sub'' else form_get r ''subject''"
  obtain res s' where m: "mintLabOIDCAssertion env rnd s (entra_origin env r) ?subject (lab_audience r) [] = (res, s')"
    by (rule prod.exhaust)
  then have "s' = snd (ensureOIDCLabKey env rnd s)" using lab_mint_state by (metis snd_conv)
  with m show ?thesis
    by (cases res) (simp_all only: handleLabOIDCToken_def Let_def prod.case sum.case snd_conv if_distrib [of snd] split: if_split, simp_all)
qed

lemma lab_token_sessions:
  "sessions (snd (handleLabOIDCToken env rnd s r)) = sessions s \<and>
    db_fault (snd (handleLabOIDCToken env rnd s r)) = db_fault s \<and>
    st_directory (snd (handleLabOIDCToken env rnd s r)) = st_directory s"
proof -
  obtain X where "snd (ensureOIDCLabKey env rnd s) = with_keys s X" using lab_key_state ..
  with lab_token_state [of env rnd s r] show ?thesis by (elim disjE) (simp_all add: sessions_def)
qed

lemma entra_step_sessions:
  assumes "p \<in> sessions (snd (entra_step env st (t, rnd, op, r)))"
  shows "p \<in> sessions (snd st) \<or> showed_password env (snd st) r p"
proof -
  have env: "showed_password (env\<lparr>en_now := t\<rparr>) s r p = showed_password env s r p" for s
    by (simp add: showed_password_def)
  show ?thesis
  proof (cases op)
    case TokenPost
    obtain rs st' where d: "dispatchToken (env\<lparr>en_now := t\<rparr>) rnd st r = (rs, st')" by (rule prod.exhaust)
    with assms TokenPost have "p \<in> sessions (snd st')" by (simp add: entra_step_def Let_def)
    from dispatch_sessions [OF d this] show ?thesis by (simp only: env)
  next
    case DeviceCodePost
    with assms have "p \<in> sessions (snd (handleDeviceCode (env\<lparr>en_now := t\<rparr>) rnd (snd st) r))"
      by (simp add: entra_step_def Let_def)
    with device_code_sessions show ?thesis by blast
  next
    case DevicePost
    with assms have "p \<in> sessions (snd (handleDeviceApprove (env\<lparr>en_now := t\<rparr>) (snd st) r))"
      by (simp add: entra_step_def Let_def)
    with device_approve_sessions [of "env\<lparr>en_now := t\<rparr>" "snd st" r]
    have "p \<in> sessions (snd st) \<or> showed_password (env\<lparr>en_now := t\<rparr>) (snd st) r p" by (elim conjE bspec)
    then show ?thesis by (simp only: env)
  next
    case LabTokenPost
    with assms have "p \<in> sessions (snd (handleLabOIDCToken (env\<lparr>en_now := t\<rparr>) rnd (snd st) r))"
      by (simp add: entra_step_def Let_def)
    with lab_token_sessions show ?thesis by blast
  qed
qed

lemma entra_step_kept:
  "db_fault (snd (entra_step env st req)) = db_fault (snd st) \<and>
    st_directory (snd (entra_step env st req)) = st_directory (snd st)"
proof -
  obtain t rnd op r where req: "req = (t, rnd, op, r)" by (rule prod_cases4)
  show ?thesis
  proof (cases op)
    case TokenPost
    obtain rs st' where d: "dispatchToken (env\<lparr>en_now := t\<rparr>) rnd st r = (rs, st')" by (rule prod.exhaust)
    with dispatch_cases [OF d] TokenPost req show ?thesis by (simp add: entra_step_def Let_def kept_def)
  next
    case DeviceCodePost
    with device_code_sessions [of "env\<lparr>en_now := t\<rparr>" rnd "snd st" r] req show ?thesis
      by (simp add: entra_step_def Let_def)
  next
    case DevicePost
    with device_approve_sessions [of "env\<lparr>en_now := t\<rparr>" "snd st" r] req show ?thesis
      by (simp add: entra_step_def Let_def)
  next
    case LabTokenPost
    with lab_token_sessions [of "env\<lparr>en_now := t\<rparr>" rnd "snd st" r] req show ?thesis
      by (simp add: entra_step_def Let_def)
  qed
qed

text \<open>
  C7: whatever requests Entra ID serves, whoever holds a refresh token or an approved device code that was
  not there before is a user whose password one of the requests showed.
\<close>


theorem sessions_need_a_password:
  assumes "p \<in> sessions (snd (entra_run env st reqs))" "p \<notin> sessions (snd st)"
  shows "\<exists>(t, rnd, op, r) \<in> set reqs. showed_password env (snd st) r p"
  using assms
proof (induction reqs arbitrary: st)
  case Nil
  then show ?case by (simp add: entra_run_def)
next
  case (Cons req reqs)
  obtain t rnd op r where req: "req = (t, rnd, op, r)" by (rule prod_cases4)
  let ?st = "entra_step env st req"
  have same: "showed_password env (snd ?st) r' p = showed_password env (snd st) r' p" for r'
    using showed_password_cong entra_step_kept by metis
  show ?case
  proof (cases "p \<in> sessions (snd ?st)")
    case True
    with entra_step_sessions [of p env st t rnd op r] Cons.prems(2) req show ?thesis by auto
  next
    case False
    from Cons.prems(1) have "p \<in> sessions (snd (entra_run env ?st reqs))" by (simp add: entra_run_def)
    from Cons.IH [OF this False] show ?thesis by (auto simp: same)
  qed
qed


section \<open>A minted token authenticates\<close>


lemma claims_keys [simp]: "token_claims env (with_keys s X) p aud origin = token_claims env s p aud origin"
  unfolding token_claims_def resolve_identity_keys by (rule refl)





section \<open>Deleting an application\<close>

lemma deleted_app_gone:
  assumes "DeleteEntraApp s tenant obj = (Inr True, s')"
  shows "s' = s\<lparr>tb_entra_apps := tbl_delete (\<lambda>r. app_TenantID r = tenant \<and> app_ObjectID r = obj) (tb_entra_apps s)\<rparr>
    \<and> db_fault s = None"
  using assms by (auto simp: DeleteEntraApp_def Let_def db_exec_def split: option.splits)

lemma stored_secret_proves:
  assumes healthy: "db_fault s = None"
    and row: "row \<in> set (tb_passwords (st_credentials s))" "pwd_resource_id row = obj" "obj \<noteq> []" "trim_space obj = obj"
    and secret: "MatchPasswordHash (en_lib env) (en_bcrypt env) (pwd_secret_hash row) secret" "secret \<noteq> []"
  shows "clientSecretMatches env s obj secret = Inr True"
proof -
  have "PasswordSecretMatches (en_lib env) (en_bcrypt env) s (obj # ids) secret = Inr True" for ids
  proof -
    have fold_mem: "x \<in> set (foldl (\<lambda>acc i. if i = [] \<or> i \<in> set acc then acc else i # acc) acc xs)"
      if "x \<in> set acc" for x acc and xs :: "string list"
      using that by (induction xs arbitrary: acc) auto
    have "obj \<in> set (distinct_ids (obj # ids))"
      using row(3,4) fold_mem by (simp add: distinct_ids_def)
    then show ?thesis
      using row secret healthy by (auto simp: PasswordSecretMatches_def list_ex_iff)
  qed
  then show ?thesis
    using healthy by (auto simp: clientSecretMatches_def ResolveEntraApp_def GetServicePrincipal_def split: option.split)
qed

text \<open>
  Deleting an application does not revoke its secrets: its object id and a secret of it still prove
  a client afterwards.
\<close>


theorem deleted_application_keeps_its_secret:
  assumes del: "DeleteEntraApp s (appTenant env) obj = (Inr True, s')"
    and row: "row \<in> set (tb_passwords (st_credentials s))" "pwd_resource_id row = obj" "obj \<noteq> []" "trim_space obj = obj"
    and secret: "MatchPasswordHash (en_lib env) (en_bcrypt env) (pwd_secret_hash row) secret" "secret \<noteq> []"
  shows "clientSecretMatches env s' obj secret = Inr True"
proof -
  from deleted_app_gone [OF del] have s': "db_fault s' = None" "st_credentials s' = st_credentials s" by simp_all
  with row secret show ?thesis by (intro stored_secret_proves [of s' row]) simp_all
qed


section \<open>Witnesses\<close>

text \<open>A laboratory with one user and one application; tokens decode to the claims of the user.\<close>

definition lab_entra_store :: store where
  "lab_entra_store = empty_store\<lparr>
     tb_entra_apps := [\<lparr>app_TenantID = ''t'', app_AppID = ''app1'', app_ObjectID = ''obj1'',
       app_DisplayName = ''App'', app_CreatedAt = []\<rparr>],
     st_directory := empty_directory\<lparr>tb_users := [\<lparr>usr_ID = ''u1'', usr_TenantID = ''t'',
       usr_UserPrincipalName = ''bob'', usr_DisplayName = ''Bob'', usr_Mail = [], usr_Department = [],
       usr_JobTitle = [], usr_password_hash = ''pw''\<rparr>]\<rparr>,
     st_credentials := empty_credentials\<lparr>tb_passwords := [\<lparr>pwd_id = ''p1'', pwd_resource_id = ''obj1'',
       pwd_resource_type = ''application'', pwd_display_name = [], pwd_secret_hash = ''s3cret'', pwd_hint = ''s3c''\<rparr>]\<rparr>\<rparr>"

definition lab_claims :: json where
  "lab_claims = JObj [(''iss'', JStr ''http://lab/t/v2.0''), (''iat'', JNum 1000), (''nbf'', JNum 1000),
     (''exp'', JNum 4600), (''sub'', JStr ''u1''), (''oid'', JStr ''u1''), (''tid'', JStr ''t''),
     (''appid'', JStr ''u1''), (''azp'', JStr ''u1''), (''ver'', JStr ''2.0''), (''aud'', JStr ''https://vault.azure.net'')]"

definition lab_entra :: entra_env where
  "lab_entra =
    \<lparr>en_lib = lab_lib\<lparr>b64_raw_url_decode := (\<lambda>t. Inr t),
        json_parse := (\<lambda>t. if t = ''c'' then Inr lab_claims else Inr (JObj [])),
        time_parse := (\<lambda>layout t. if t = ''4600'' then Some (4600 * nanos) else None)\<rparr>,
     en_crypto = lab_crypto, en_bcrypt = \<lparr>bc_generate = (\<lambda>salt p. None), bc_compare = (\<lambda>h p. False)\<rparr>,
     en_x509 = \<lparr>x5_pem_decode = (\<lambda>t. None), x5_pem_encode = (\<lambda>t. t), x5_marshal = (\<lambda>t. t),
        x5_pkcs1 = (\<lambda>t. Inl ''asn1''), x5_pkcs8 = (\<lambda>t. Inl ''asn1''), x5_certificate = (\<lambda>t. Inl ''asn1''),
        x5_pkix = (\<lambda>t. Inl ''asn1''), x5_pkcs1_public = (\<lambda>t. Inl ''asn1''), x5_public = (\<lambda>t. t)\<rparr>,
     en_jose = \<lparr>jo_sign = (\<lambda>key kid p. if p = ''c'' then Inr ''h.c.s'' else Inl ''unsupported''),
        jo_verify = (\<lambda>key t. Inl ''bad signature''), jo_json = (\<lambda>j. if j = lab_claims then ''c'' else ''x'')\<rparr>,
     en_url = (\<lambda>t. None), en_format_time = (\<lambda>t. []), en_format_seconds = (\<lambda>t. if t = 4600 * nanos then ''4600'' else []),
     en_TenantID = ''t'', en_PublicBase = ''http://lab'', en_FollowRequestHost = False, en_StripProduct = False,
     en_DisplayName = ''Lab'', en_now = 1000 * nanos, en_audit_now = 1000 * nanos\<rparr>"

definition lab_draws :: entra_random where
  "lab_draws = \<lparr>er_uuid = ''k1'', er_uuid2 = ''k2'', er_key = ''key'', er_nonce = ''nonce'', er_salt = ''salt'',
     er_token = ''refresh1'', er_token2 = ''aa'', er_token3 = ''bb''\<rparr>"

definition password_request :: web_request where
  "password_request = \<lparr>web_http = root_request\<lparr>rq_method := ''POST'', rq_path := ''/t/oauth2/v2.0/token''\<rparr>,
     web_host = ''lab'', web_tls = False, web_remote = ''127.0.0.1:5000'',
     web_form = Some [(''grant_type'', [''password'']), (''username'', [''bob'']), (''password'', [''pw'']),
       (''scope'', [''https://vault.azure.net/.default''])], web_body = []\<rparr>"

definition lab_entra_state :: entra_state where
  "lab_entra_state = (Some (''k0'', ''key0''), lab_entra_store)"



theorem sessions_need_a_password_witness:
  "\<exists>(t, rnd, op, r) \<in> set [(1000 * nanos, lab_draws, TokenPost, password_request)].
     showed_password lab_entra lab_entra_store r ''u1''"
proof -
  have before: "''u1'' \<notin> sessions (snd lab_entra_state)" by (simp add: sessions_def lab_entra_state_def lab_entra_store_def empty_credentials_def)
  have rows: "map rft_principal_id (tb_refresh_tokens (st_credentials (snd (entra_run lab_entra lab_entra_state
      [(1000 * nanos, lab_draws, TokenPost, password_request)])))) = [''u1'']" by code_simp
  have "''u1'' \<in> sessions (snd (entra_run lab_entra lab_entra_state [(1000 * nanos, lab_draws, TokenPost, password_request)]))"
    unfolding sessions_def set_map [symmetric] rows by (rule UnI1) simp
  from sessions_need_a_password [OF this before] show ?thesis by (simp add: lab_entra_state_def)
qed



theorem deleted_application_keeps_its_secret_witness:
  "clientSecretMatches lab_entra (snd (DeleteEntraApp lab_entra_store ''t'' ''obj1'')) ''obj1'' ''s3cret'' = Inr True"
proof (rule deleted_application_keeps_its_secret)
  have "fst (DeleteEntraApp lab_entra_store ''t'' ''obj1'') = Inr True" by code_simp
  moreover have "appTenant lab_entra = ''t''" by code_simp
  ultimately show "DeleteEntraApp lab_entra_store (appTenant lab_entra) ''obj1'' =
      (Inr True, snd (DeleteEntraApp lab_entra_store ''t'' ''obj1''))" by (metis prod.collapse)
  show "hd (tb_passwords (st_credentials lab_entra_store)) \<in> set (tb_passwords (st_credentials lab_entra_store))"
    by (simp add: lab_entra_store_def)
qed (code_simp | simp)+

end
