(* ===== verification/Graph_Rules.thy ===== *)
theory Graph_Rules
  imports Graph_Service Entra_Sessions
begin

text \<open>
  What the directory APIs promise: paging, who may write, what a write leaves alone, how a secret that
  was added is used, and two ways around the checks.
\<close>

section \<open>Paging\<close>

lemma parse_int64_bounds: "parse_int64 s = Some n \<Longrightarrow> - (2 ^ 63) \<le> n \<and> n < 2 ^ 63"
  by (auto simp: parse_int64_def Let_def split: if_splits option.splits prod.splits)

lemma sint_u64:
  "sint (word_of_int x :: u64) = (x + 2 ^ 63) mod 2 ^ 64 - 2 ^ 63"
  by (simp add: int_word_sint)

lemma page_end_exact:
  assumes "0 \<le> skip" "0 \<le> k" "skip + k < 2 ^ 63"
  shows "page_end skip k = skip + k"
  using assms unfolding page_end_def sint_u64 by simp

lemma page_end_wraps:
  assumes "skip < 2 ^ 63" "k < 2 ^ 63" "2 ^ 63 \<le> skip + k"
  shows "page_end skip k < 0"
proof -
  let ?a = "skip + k - 2 ^ 63 :: int"
  have "(skip + k + 2 ^ 63) mod 2 ^ 64 = (?a + 2 ^ 64) mod 2 ^ 64" by (simp add: algebra_simps)
  also have "\<dots> = ?a mod 2 ^ 64" by (rule mod_add_self2)
  also have "\<dots> = ?a" using assms by (intro mod_pos_pos_trivial) simp_all
  finally show ?thesis using assms unfolding page_end_def sint_u64 by simp
qed

definition page_top :: "http_request \<Rightarrow> int" where
  "page_top r = odata_param r ''$top'' (\<lambda>k. k > 0) 100"

definition page_skip :: "http_request \<Rightarrow> 'a list \<Rightarrow> int" where
  "page_skip r items = min (odata_param r ''$skiptoken'' (\<lambda>k. k \<ge> 0) 0) (int (length items))"

lemma odata_param_ok:
  assumes "ok dflt" "dflt < 2 ^ 63"
  shows "ok (odata_param r k ok dflt)" "odata_param r k ok dflt < 2 ^ 63"
  using assms by (auto simp: odata_param_def Let_def dest: parse_int64_bounds split: option.splits)

lemma page_top_pos: "0 < page_top r" "page_top r < 2 ^ 63"
  unfolding page_top_def using odata_param_ok [of "\<lambda>k. k > 0" 100] by auto

lemma page_skip_pos: "0 \<le> page_skip r items" "page_skip r items \<le> int (length items)" "page_skip r items < 2 ^ 63"
  using odata_param_ok [of "\<lambda>k. k \<ge> 0" 0 r "''$skiptoken''"] by (auto simp: page_skip_def)

lemma applyOData_cases:
  "applyOData r items =
    (if page_skip r items + page_top r \<ge> 2 ^ 63 then None
     else let e = min (page_skip r items + page_top r) (int (length items));
       page = take (nat (e - page_skip r items)) (drop (nat (page_skip r items)) items);
       sel = trim_space (query_get r ''$select'') in
       Some (if sel = [] then page else map (select_fields (split_on CHR '','' sel)) page, e, e < int (length items)))"
proof (cases "page_skip r items + page_top r \<ge> 2 ^ 63")
  case True
  from page_end_wraps [OF page_skip_pos(3) page_top_pos(2) this] page_skip_pos(1) [of r items]
  have "page_end (page_skip r items) (page_top r) < 0" "\<not> int (length items) < page_end (page_skip r items) (page_top r)"
    by auto
  with True page_skip_pos(1) [of r items] show ?thesis
    unfolding applyOData_def Let_def page_top_def [symmetric] page_skip_def [symmetric] by simp
next
  case False
  with page_end_exact [of "page_skip r items" "page_top r"] page_skip_pos(1,2) [of r items] page_top_pos(1) [of r]
  show ?thesis
    unfolding applyOData_def Let_def page_top_def [symmetric] page_skip_def [symmetric] by (simp add: min_def)
qed








definition huge_page :: web_request where
  "huge_page = \<lparr>web_http = \<lparr>rq_method = ''GET'', rq_path = ''/v1.0/organization'',
      rq_query = [(''$top'', [''9223372036854775807'']), (''$skiptoken'', [''1''])], rq_header = [], rq_json = None\<rparr>,
    web_host = [], web_tls = False, web_remote = [], web_form = None, web_body = []\<rparr>"

text \<open>
  The sum of the two numbers wraps around: a page of the greatest size after the first item makes the
  handler slice to a negative end and panic.
\<close>

theorem huge_page_panics:
  "fst (graph_handle env rnd ids s (Some graph_user) huge_page GOrganization) = None"
proof -
  have gate: "requireGraph (Some graph_user) = None" by code_simp
  have "parse_int64 ''9223372036854775807'' = Some 9223372036854775807"
    by (simp add: parse_int64_def digit_value_def Let_def)
  moreover have "trim_space ''9223372036854775807'' = ''9223372036854775807''" by code_simp
  ultimately have k: "page_top (web_http huge_page) = 9223372036854775807"
    by (simp add: page_top_def odata_param_def query_get_def first_value_def huge_page_def)
  have "odata_param (web_http huge_page) ''$skiptoken'' (\<lambda>k. k \<ge> 0) 0 = 1" by code_simp
  then have skip: "page_skip (web_http huge_page) [x] = 1" for x :: "(string \<times> json) list" by (simp add: page_skip_def)
  have none: "applyOData (web_http huge_page) [x] = None" for x
    unfolding applyOData_cases skip k by simp
  have "handleGraphOrganization env (Some graph_user) huge_page = None"
    unfolding handleGraphOrganization_def graph_list_def writeOData_def gate none option.case sum.case by (rule refl)
  then show ?thesis by (simp add: graph_handle_def graph_write_def graph_read_def)
qed

section \<open>What a write leaves alone\<close>

lemma snd_eqD: "x = (a, b) \<Longrightarrow> b = snd x"
  by simp

locale graph_view =
  fixes view :: "store \<Rightarrow> 'v"
  assumes view_credentials: "view (s\<lparr>st_credentials := c\<rparr>) = view s"
    and view_apps: "view (s\<lparr>tb_entra_apps := apps\<rparr>) = view s"
    and view_principals: "view (s\<lparr>tb_service_principals := sps\<rparr>) = view s"
    and view_members: "view (s\<lparr>tb_group_members := ms\<rparr>) = view s"
    and view_directory: "tb_role_members d = tb_role_members (st_directory s) \<Longrightarrow> view (s\<lparr>st_directory := d\<rparr>) = view s"
begin

lemma view_exec: "view s' = view s \<Longrightarrow> view (snd (db_exec s v s')) = view s"
  by (simp add: db_exec_def split: option.split)

lemma view_store [simp]:
  "view (snd (AddGroupMember s g m ty)) = view s"
  "view (snd (PatchDirectoryUser s i dep job)) = view s"
  "view (snd (PatchDevice s i name)) = view s"
  "view (snd (UpdateGroupRule s i rule st)) = view s"
  "view (snd (AddOwner s i own ty)) = view s"
  "view (snd (AddPassword s u i ty name h hint)) = view s"
  "view (snd (AddKeyCredential s u i ty pem us ty2)) = view s"
  "view (snd (UpsertEntraApp s u u2 now t app name)) = view s"
  "view (snd (DeleteEntraApp s t i)) = view s"
  "view (snd (CreateFIC s u i name iss sub auds expr)) = view s"
  "view (snd (UpsertCAPolicy s u i name body en)) = view s"
  "view (snd (CreateServicePrincipal s u t app name)) = view s"
  by (auto simp: AddGroupMember_def PatchDirectoryUser_def PatchDevice_def UpdateGroupRule_def AddOwner_def AddPassword_def
      AddKeyCredential_def UpsertEntraApp_def DeleteEntraApp_def CreateFIC_def UpsertCAPolicy_def CreateServicePrincipal_def
      dir_exec_def cred_exec_def Let_def view_credentials view_apps view_principals view_members view_directory
      split: option.splits sum.splits intro!: view_exec)

lemma view_fold: "(\<And>s x. view (f s x) = view s) \<Longrightarrow> view (foldl f s xs) = view s"
  by (induction xs arbitrary: s) auto

lemma view_refresh [simp]: "view (refreshDynamicGroups env s) = view s"
proof -
  have "view (refresh_group us ds s g) = view s" for us ds s g
    by (simp add: refresh_group_def Let_def view_fold)
  then show ?thesis by (simp add: refreshDynamicGroups_def view_fold split: sum.split)
qed

lemma view_add_keys [simp]: "view (snd (add_keys ids obj pems s)) = view s"
proof (induction pems arbitrary: ids s)
  case (Cons pem pems)
  then show ?case by (auto split: prod.splits sum.splits dest!: snd_eqD)
qed simp

lemma view_pair:
  "view (snd X) = view s \<Longrightarrow> view (snd (case X of (Inl e, s') \<Rightarrow> (f e s', s') | (Inr v, s') \<Rightarrow> (g v s', s'))) = view s"
  by (auto split: prod.split sum.split)

lemma view_policy: "view (snd (handleCreateCAPolicy env rnd s who r)) = view s"
proof (cases "requireGraphDirectoryWrite env s who [''Global Administrator'', ''Conditional Access Administrator'']")
  case None
  show ?thesis
  proof (cases "rq_json (web_http r)")
    case (Some j)
    with None show ?thesis by (cases j) (simp_all add: handleCreateCAPolicy_def Let_def view_pair)
  qed (simp add: None handleCreateCAPolicy_def Let_def)
qed (simp add: handleCreateCAPolicy_def)

lemma view_write:
  assumes "graph_write env rnd ids s who r op = Some (rs, s')" "\<not> (\<exists>i. op = GAddRoleMember i)"
  shows "view s' = view s"
proof -
  have "view (snd (handlePatchUser env s who r i)) = view s" for i
    by (auto simp: handlePatchUser_def Let_def split: option.splits prod.splits sum.splits dest!: snd_eqD)
  moreover have "view (snd (handlePatchDevice env s who r i)) = view s" for i
    by (auto simp: handlePatchDevice_def Let_def split: option.splits prod.splits sum.splits dest!: snd_eqD)
  moreover have "view (snd (handlePatchGroup env s who r i)) = view s" for i
    by (auto simp: handlePatchGroup_def Let_def split: option.splits prod.splits sum.splits dest!: snd_eqD)
  moreover have "view (snd (handleAddGroupMember env s who r i)) = view s" for i
    by (auto simp: handleAddGroupMember_def Let_def split: option.splits prod.splits sum.splits dest!: snd_eqD)
  moreover have "view (snd (handleAddOwner env s who r i)) = view s" for i
    by (auto simp: handleAddOwner_def Let_def split: option.splits prod.splits sum.splits if_splits dest!: snd_eqD)
  moreover have "view (snd (handleAddPassword env rnd s who r i)) = view s" for i
    by (auto simp: handleAddPassword_def Let_def split: option.splits prod.splits sum.splits if_splits dest!: snd_eqD)
  moreover have "view (snd (handleAddKey env rnd s who r i)) = view s" for i
    by (auto simp: handleAddKey_def Let_def split: option.splits prod.splits sum.splits if_splits dest!: snd_eqD)
  moreover have "view (snd (handleCreateApp env rnd s who r)) = view s"
    by (auto simp: handleCreateApp_def Let_def split: option.splits prod.splits sum.splits if_splits dest!: snd_eqD)
  moreover have "view (snd (handleCreateSP env rnd s who r)) = view s"
    by (auto simp: handleCreateSP_def Let_def split: option.splits prod.splits sum.splits if_splits dest!: snd_eqD)
  moreover have "view (snd (handleDeleteApp env s who i)) = view s" for i
    by (auto simp: handleDeleteApp_def Let_def split: option.splits prod.splits sum.splits if_splits dest!: snd_eqD, (case_tac x2a, auto)?)
  moreover have "view (snd (handleCreateFIC env rnd s who r i)) = view s" for i
    by (auto simp: handleCreateFIC_def Let_def split: option.splits prod.splits sum.splits if_splits dest!: snd_eqD)
  moreover have "view (snd (handleCreateCAPolicy env rnd s who r)) = view s"
    by (rule view_policy)
  moreover have "view (snd (handlePatchApp env rnd ids s who r i)) = view s" for i
    by (auto simp: handlePatchApp_def Let_def split: option.splits prod.splits sum.splits if_splits dest!: snd_eqD)
  ultimately show ?thesis using assms by (cases op) (auto simp: graph_write_def dest!: snd_eqD)
qed

end



text \<open>What is left of the store without the directory and its credentials.\<close>

definition beside_directory :: "store \<Rightarrow> store" where
  "beside_directory s = s\<lparr>st_directory := empty_directory, st_credentials := empty_credentials, tb_entra_apps := [],
     tb_service_principals := [], tb_group_members := []\<rparr>"

interpretation other_view: graph_view beside_directory
  by unfold_locales (simp_all add: beside_directory_def)

text \<open>
  No request of the Graph API touches anything but the directory and its credentials: resources, role
  assignments, data and logs stay as they are.
\<close>

theorem graph_keeps_resources:
  "beside_directory (snd (graph_handle env rnd ids s who r op)) = beside_directory s"
proof (cases "graph_write env rnd ids s who r op")
  case None
  then show ?thesis by (auto simp: graph_handle_def split: option.splits)
next
  case (Some res)
  obtain rs s' where res: "res = (rs, s')" by (rule prod.exhaust)
  have "beside_directory s' = beside_directory s"
  proof (cases "\<exists>i. op = GAddRoleMember i")
    case True
    with Some res show ?thesis
      by (auto simp: graph_write_def handleAddRoleMember_def AddDirectoryRoleMember_def dir_exec_def db_exec_def Let_def
          beside_directory_def split: option.splits if_splits)
  next
    case False
    show ?thesis by (rule other_view.view_write [OF Some [unfolded res] False])
  qed
  with Some res show ?thesis by (simp add: graph_handle_def)
qed

section \<open>Who may write\<close>



abbreviation refused :: "http_response \<Rightarrow> store \<Rightarrow> store \<Rightarrow> bool" where
  "refused rs s s' \<equiv> rs_code rs \<notin> {200, 201, 204} \<and> s' = s"

lemma refusal_codes:
  "requireGraph who = Some rs \<Longrightarrow> rs_code rs \<notin> {200, 201, 204}"
  "requireGraphDirectoryWrite env s who names = Some rs \<Longrightarrow> rs_code rs \<notin> {200, 201, 204}"
  "requireGraphAppWrite env s who i = Some rs \<Longrightarrow> rs_code rs \<notin> {200, 201, 204}"
  using graph_refusals by fastforce+

lemmas gate_meanings = requireGraph_None directory_write_None app_write_None graph_caller_def


lemma gate_first:
  assumes "(case gate of Some x \<Rightarrow> (x, s) | None \<Rightarrow> body) = (rs, s')"
    and "\<And>x. gate = Some x \<Longrightarrow> rs_code x \<notin> {200, 201, 204}"
  shows "gate = None \<or> refused rs s s'"
  using assms by (cases gate) auto


text \<open>The other handlers look for the object before they ask who owns it.\<close>

lemma app_handlers_refuse:
  "handleAddPassword env rnd s who r i = (rs, s') \<Longrightarrow>
    requireGraphAppWrite env s who (fst (passwordTarget env s i [] (rq_path (web_http r)))) = None \<or> refused rs s s'"
  "handleAddKey env rnd s who r i = (rs, s') \<Longrightarrow>
    requireGraphAppWrite env s who (fst (passwordTarget env s i [] (rq_path (web_http r)))) = None \<or> refused rs s s'"
  "handlePatchApp env rnd ids s who r i = (rs, s') \<Longrightarrow>
    (\<exists>row. GetEntraApp s (appTenant env) i = Inr (Some row) \<and> requireGraphAppWrite env s who (app_object_id row) = None) \<or>
    refused rs s s'"
  "handleDeleteApp env s who i = (rs, s') \<Longrightarrow>
    (\<exists>row. GetEntraApp s (appTenant env) i = Inr (Some row) \<and> app_ObjectID row = i \<and>
      requireGraphAppWrite env s who i = None) \<or> refused rs s s'"
  "handleCreateFIC env rnd s who r i = (rs, s') \<Longrightarrow>
    (\<exists>obj app name. ResolveEntraApp s (appTenant env) i = Inr (Some (obj, app, name)) \<and>
      requireGraphAppWrite env s who obj = None) \<or> refused rs s s'"
  "handleAddOwner env s who r i = (rs, s') \<Longrightarrow>
    (if contains (rq_path (web_http r)) ''/groups/'' then requireGraphDirectoryWrite env s who group_roles = None
     else \<exists>obj. ownerTarget env s i [] (rq_path (web_http r)) = Some obj \<and> requireGraphAppWrite env s who obj = None) \<or>
    refused rs s s'"
  subgoal
    by (cases "requireGraphAppWrite env s who (fst (passwordTarget env s i [] (rq_path (web_http r))))")
      (auto simp: handleAddPassword_def Let_def graph_not_found_def dest!: refusal_codes split: prod.splits option.splits if_splits)
  subgoal
    by (cases "requireGraphAppWrite env s who (fst (passwordTarget env s i [] (rq_path (web_http r))))")
      (auto simp: handleAddKey_def Let_def graph_not_found_def dest!: refusal_codes split: prod.splits option.splits if_splits)
  subgoal
    by (cases "GetEntraApp s (appTenant env) i"; cases "projr (GetEntraApp s (appTenant env) i)")
      (auto simp: handlePatchApp_def Let_def graph_not_found_def dest!: gate_first dest: refusal_codes(3))
  subgoal
    by (cases "GetEntraApp s (appTenant env) i"; cases "projr (GetEntraApp s (appTenant env) i)")
      (auto simp: handleDeleteApp_def Let_def graph_not_found_def dest!: gate_first dest: refusal_codes(3) split: if_splits)
  subgoal
    by (cases "ResolveEntraApp s (appTenant env) i"; cases "projr (ResolveEntraApp s (appTenant env) i)")
      (auto simp: handleCreateFIC_def Let_def graph_not_found_def dest!: gate_first dest: refusal_codes(3))
  subgoal
    by (cases "ownerTarget env s i [] (rq_path (web_http r))")
      (auto simp: handleAddOwner_def Let_def graph_not_found_def bad_body_def dest!: gate_first dest: refusal_codes split: option.splits if_splits)
  done


section \<open>Sequences of requests\<close>








section \<open>Secrets\<close>

lemma add_password_cases:
  assumes "handleAddPassword env rnd s who r i = (rs, s')" "rs_code rs = 200"
  shows "\<exists>ty name. fst (passwordTarget env s i [] (rq_path (web_http r))) \<noteq> [] \<and>
    AddPassword s (er_uuid rnd) (fst (passwordTarget env s i [] (rq_path (web_http r)))) ty name
      (HashUserPassword (en_bcrypt env) (er_salt rnd) (er_token rnd)) (HintFromSecret (er_token rnd)) = (Inr (er_uuid rnd), s') \<and>
    json_field (rs_body rs) ''secretText'' = Some (JStr (er_token rnd))"
proof -
  obtain obj ty where target: "passwordTarget env s i [] (rq_path (web_http r)) = (obj, ty)" by (rule prod.exhaust)
  from app_handlers_refuse(1) [OF assms(1)] assms(2) target have gate: "requireGraphAppWrite env s who obj = None" by auto
  then have rg: "requireGraph who = None" by (auto simp: gate_meanings)
  show ?thesis
    using assms by (auto simp: handleAddPassword_def Let_def target gate rg AddPassword_def cred_exec_def db_exec_def graph_failed_def
        graph_not_found_def writeJSON_def split: if_splits option.splits)
qed

text \<open>
  The secret that \<open>addPassword\<close> answers with proves the client at the token endpoint.
\<close>

theorem added_secret_proves_client:
  assumes "handleAddPassword env rnd s who r i = (rs, s')" "rs_code rs = 200"
    and "fst (passwordTarget env s i [] (rq_path (web_http r))) = obj" "trim_space obj = obj"
    and "bcrypt_ok (en_bcrypt env)" "bc_generate (en_bcrypt env) (er_salt rnd) (er_token rnd) \<noteq> None" "er_token rnd \<noteq> []"
  shows "\<exists>secret. json_field (rs_body rs) ''secretText'' = Some (JStr secret) \<and>
    clientSecretMatches env s' obj secret = Inr True"
proof -
  let ?bc = "en_bcrypt env" and ?secret = "er_token rnd"
  obtain h where h: "bc_generate ?bc (er_salt rnd) ?secret = Some h" using assms(6) by auto
  with assms(5) have hash: "HashUserPassword ?bc (er_salt rnd) ?secret = h" "has_prefix h ''$2a$''" "bc_compare ?bc h ?secret"
    by (auto simp: bcrypt_ok_def HashUserPassword_def)
  then have "h \<noteq> []" by (cases h) auto
  with hash assms(7) have match: "MatchPasswordHash (en_lib env) ?bc h ?secret" by (simp add: MatchPasswordHash_def)
  from add_password_cases [OF assms(1,2)] hash(1) assms(3) obtain ty name hint where
    add: "AddPassword s (er_uuid rnd) obj ty name h hint = (Inr (er_uuid rnd), s')" "obj \<noteq> []"
    and body: "json_field (rs_body rs) ''secretText'' = Some (JStr ?secret)" by auto
  from add(1) have "db_fault s' = None" "\<exists>row \<in> set (tb_passwords (st_credentials s')). pwd_resource_id row = obj \<and> pwd_secret_hash row = h"
    by (auto simp: AddPassword_def Let_def cred_exec_def db_exec_def split: option.splits)
  with stored_secret_proves [of s' _ obj env ?secret] add(2) assms(4,7) match have "clientSecretMatches env s' obj ?secret = Inr True"
    by blast
  with body show ?thesis by blast
qed


section \<open>Witnesses\<close>

text \<open>A caller who is User Administrator, an application and a service principal of it.\<close>

definition lab_directory :: store where
  "lab_directory = lab_entra_store\<lparr>
     tb_service_principals := [\<lparr>sp_ID = ''sp1'', sp_TenantID = ''t'', sp_AppID = ''app1'', sp_DisplayName = ''App''\<rparr>],
     st_directory := (st_directory lab_entra_store)\<lparr>
       tb_directory_roles := [\<lparr>dro_ID = ''ua'', dro_TenantID = ''t'', dro_DisplayName = ''User Administrator'', dro_TemplateID = []\<rparr>,
         \<lparr>dro_ID = ''ga'', dro_TenantID = ''t'', dro_DisplayName = ''Global Administrator'', dro_TemplateID = []\<rparr>],
       tb_role_members := [(''ua'', ''user'')]\<rparr>\<rparr>"

definition graph_post :: "string \<Rightarrow> (string \<times> json) list \<Rightarrow> web_request" where
  "graph_post path body = password_request\<lparr>web_http := root_request\<lparr>rq_method := ''POST'', rq_path := path, rq_json := Some (JObj body)\<rparr>\<rparr>"

definition owner_request :: web_request where
  "owner_request = graph_post ''/v1.0/applications/obj1/groups/x/owners/$ref'' [(''@odata.id'', JStr ''http://lab/v1.0/users/user'')]"


definition graph_root :: Principal where
  "graph_root = graph_user\<lparr>pr_IsRoot := True\<rparr>"

text \<open>
  The role an owner is added with depends on whether the path holds \<open>/groups/\<close>, also where that is
  part of the escaped identifier of an application: a User Administrator becomes the owner of any application.
\<close>

theorem groups_admin_takes_over_applications:
  "graph_route ''POST'' [''applications'', ''obj1/groups/x'', ''owners'', ''$ref''] = Some (GAddOwner ''obj1/groups/x'') \<and>
   \<not> graphAppWriteAllowed lab_entra lab_directory (pr_ID graph_user) ''obj1'' \<and>
   graphAppWriteAllowed lab_entra
     (snd (graph_handle lab_entra lab_draws ids lab_directory (Some graph_user) owner_request (GAddOwner ''obj1/groups/x'')))
     (pr_ID graph_user) ''obj1''"
proof (intro conjI)
  show "graph_route ''POST'' [''applications'', ''obj1/groups/x'', ''owners'', ''$ref''] = Some (GAddOwner ''obj1/groups/x'')"
    by code_simp
  show "\<not> graphAppWriteAllowed lab_entra lab_directory (pr_ID graph_user) ''obj1''" by code_simp
  have "graphAppWriteAllowed lab_entra
     (snd (handleAddOwner lab_entra lab_directory (Some graph_user) owner_request ''obj1/groups/x'')) (pr_ID graph_user) ''obj1''"
    by code_simp
  then show "graphAppWriteAllowed lab_entra
     (snd (graph_handle lab_entra lab_draws ids lab_directory (Some graph_user) owner_request (GAddOwner ''obj1/groups/x'')))
     (pr_ID graph_user) ''obj1''"
    by (simp add: graph_handle_def graph_write_def split_beta)
qed




definition lab_bcrypt :: bcrypt where
  "lab_bcrypt = \<lparr>bc_generate = (\<lambda>salt p. Some (''$2a$'' @ p)), bc_compare = (\<lambda>h p. h = ''$2a$'' @ p)\<rparr>"

lemma added_secret_proves_client_witness:
  "\<exists>secret. clientSecretMatches (lab_entra\<lparr>en_bcrypt := lab_bcrypt\<rparr>)
     (snd (handleAddPassword (lab_entra\<lparr>en_bcrypt := lab_bcrypt\<rparr>) lab_draws lab_directory (Some graph_root)
       (graph_post ''/v1.0/applications/obj1/addPassword'' []) ''obj1'')) ''obj1'' secret = Inr True"
proof -
  let ?env = "lab_entra\<lparr>en_bcrypt := lab_bcrypt\<rparr>" and ?r = "graph_post ''/v1.0/applications/obj1/addPassword'' []"
  let ?res = "handleAddPassword ?env lab_draws lab_directory (Some graph_root) ?r ''obj1''"
  have code: "rs_code (fst ?res) = 200" by code_simp
  have target: "fst (passwordTarget ?env lab_directory ''obj1'' [] (rq_path (web_http ?r))) = ''obj1''" by code_simp
  have trim: "trim_space ''obj1'' = ''obj1''" by code_simp
  have bc: "bcrypt_ok (en_bcrypt ?env)" by (simp add: bcrypt_ok_def lab_bcrypt_def)
  have "bc_generate (en_bcrypt ?env) (er_salt lab_draws) (er_token lab_draws) \<noteq> None" "er_token lab_draws \<noteq> []"
    by (simp_all add: lab_bcrypt_def lab_draws_def)
  from added_secret_proves_client [OF prod.collapse [symmetric] code target trim bc this] show ?thesis by blast
qed

end
