(* ===== verification/Managed_Identity.thy ===== *)
theory Managed_Identity
  imports Graph_Rules
begin

text \<open>
  Managed identities: \<open>internal/services/managedidentity/handler.go\<close>. The resources of the two kinds and the
  token endpoint of the instance metadata service, which mints with the signing key of Entra ID: the state is
  the key cache and the store.
\<close>

section \<open>Environment and routes\<close>

text \<open>\<open>mi_uuid_parse\<close> is \<open>uuid.Parse\<close> followed by \<open>String\<close>; \<open>mi_entra\<close> is the service that signs, if any.\<close>

record mi_env = arm_env +
  mi_entra :: "entra_env option"
  mi_TenantID :: string
  mi_now :: int
  mi_audit_now :: int
  mi_format_time :: "int \<Rightarrow> string"
  mi_uuid_parse :: "string \<Rightarrow> string option"

datatype mi_op =
    PutIdentity string string string
  | GetIdentity string string string
  | DeleteIdentity string string string
  | ListIdentities string string
  | PutSystem string string string
  | GetSystem string string string
  | DeleteSystem string string string
  | ImdsToken

definition mi_route :: "string \<Rightarrow> string list \<Rightarrow> mi_op option" where
  "mi_route method segs =
    (let get = (method = ''GET'' \<or> method = ''HEAD'');
         provider = (\<lambda>a b c ns. a = ''subscriptions'' \<and> b = ''resourceGroups'' \<and> c = ''providers'' \<and>
           ns = ''Microsoft.ManagedIdentity'') in
     if [] \<in> set segs then None
     else (case segs of
       [a, sub, b, rg, c, ns, ty, name] \<Rightarrow>
         if \<not> provider a b c ns then None
         else if ty = ''userAssignedIdentities'' then
           (if method = ''PUT'' then Some (PutIdentity sub rg name) else if get then Some (GetIdentity sub rg name)
            else if method = ''DELETE'' then Some (DeleteIdentity sub rg name) else None)
         else if ty = ''systemAssignedIdentities'' then
           (if method = ''PUT'' then Some (PutSystem sub rg name) else if get then Some (GetSystem sub rg name)
            else if method = ''DELETE'' then Some (DeleteSystem sub rg name) else None)
         else None
     | [a, sub, b, rg, c, ns, ty] \<Rightarrow>
         if provider a b c ns \<and> ty = ''userAssignedIdentities'' \<and> get then Some (ListIdentities sub rg) else None
     | [a, b, c, d] \<Rightarrow>
         if a = ''metadata'' \<and> b = ''identity'' \<and> c = ''oauth2'' \<and> d = ''token'' \<and> get then Some ImdsToken else None
     | _ \<Rightarrow> None))"

section \<open>Resources\<close>

definition mi_require ::
  "mi_env \<Rightarrow> http_request \<Rightarrow> string \<Rightarrow> string \<Rightarrow> string \<Rightarrow> http_response option" where
  "mi_require env r sub rg action = arm_require (arm_env.truncate env) r sub rg (''Microsoft.ManagedIdentity/'' @ action)"

definition identity_json ::
  "string \<Rightarrow> string \<Rightarrow> string \<Rightarrow> string \<Rightarrow> string \<Rightarrow> string \<Rightarrow> string \<Rightarrow> string \<Rightarrow> json" where
  "identity_json kind sub rg name location principalID clientID tenantID =
    JObj [(''id'', JStr (group_scope sub rg @ ''/providers/Microsoft.ManagedIdentity/'' @ kind @ ''/'' @ name)),
      (''name'', JStr name), (''type'', JStr (''Microsoft.ManagedIdentity/'' @ kind)), (''location'', JStr location),
      (''properties'', JObj [(''principalId'', JStr principalID), (''clientId'', JStr clientID),
        (''tenantId'', JStr tenantID), (''provisioningState'', JStr ''Succeeded'')])]"

definition identityJSON ::
  "string \<Rightarrow> string \<Rightarrow> string \<Rightarrow> string \<Rightarrow> string \<Rightarrow> string \<Rightarrow> string \<Rightarrow> json" where
  "identityJSON sub rg name location principalID clientID tenantID =
    identity_json ''userAssignedIdentities'' sub rg name location principalID clientID tenantID"

text \<open>The pair to create with: two empty strings ask for a generated one.\<close>

definition pinnedIdentityIDs :: "(string \<Rightarrow> string option) \<Rightarrow> string \<Rightarrow> string \<Rightarrow> (string \<times> string) result" where
  "pinnedIdentityIDs uuid_parse principal0 client0 =
    (let principal = trim_space principal0; client = trim_space client0 in
     if principal = [] \<and> client = [] then Inr ([], [])
     else if principal = [] \<or> client = [] then Inl ''principalId and clientId must both be set''
     else (case uuid_parse principal of
         None \<Rightarrow> Inl ''principalId must be a UUID''
       | Some p \<Rightarrow> (case uuid_parse client of
           None \<Rightarrow> Inl ''clientId must be a UUID''
         | Some c \<Rightarrow> Inr (p, c))))"

text \<open>\<open>new\<close> is the pair of identifiers drawn.\<close>

definition putIdentity ::
  "mi_env \<Rightarrow> string \<times> string \<Rightarrow> store \<Rightarrow> http_request \<Rightarrow> string \<Rightarrow> string \<Rightarrow> string \<Rightarrow> http_response \<times> store" where
  "putIdentity env new s r sub rg name =
    (case mi_require env r sub rg ''userAssignedIdentities/write'' of
       Some rs \<Rightarrow> (rs, s)
     | None \<Rightarrow>
         (let given = fst (decode_strings [''location''] (rq_json r)) ''location'';
              field = decode_nested ''properties'' [''principalId'', ''clientId''] (rq_json r) in
          case pinnedIdentityIDs (mi_uuid_parse env) (field ''principalId'') (field ''clientId'') of
            Inl e \<Rightarrow> (BadRequest e, s)
          | Inr pinned \<Rightarrow>
              (case GetManagedIdentity s sub rg name of
                 Inl e \<Rightarrow> (InternalError e, s)
               | Inr found \<Rightarrow>
                   (let (location, principalID, clientID) = (case found of
                        Some row \<Rightarrow> (mid_location row, mid_principal_id row, mid_client_id row)
                      | None \<Rightarrow> (if given = [] then ''eastus'' else given,
                          if fst pinned = [] then fst new else fst pinned, if fst pinned = [] then snd new else snd pinned)) in
                    case UpsertManagedIdentity s sub rg name location principalID clientID of
                      (Inl e, s') \<Rightarrow> (InternalError e, s')
                    | (Inr u, s') \<Rightarrow>
                        (writeJSON 200 (identityJSON sub rg name location principalID clientID (mi_TenantID env)), s')))))"

definition getIdentity ::
  "mi_env \<Rightarrow> store \<Rightarrow> http_request \<Rightarrow> string \<Rightarrow> string \<Rightarrow> string \<Rightarrow> http_response" where
  "getIdentity env s r sub rg name =
    (case mi_require env r sub rg ''userAssignedIdentities/read'' of
       Some rs \<Rightarrow> rs
     | None \<Rightarrow> (case GetManagedIdentity s sub rg name of
         Inl e \<Rightarrow> InternalError e
       | Inr None \<Rightarrow> NotFound ''identity not found''
       | Inr (Some row) \<Rightarrow> writeJSON 200 (identityJSON sub rg name (mid_location row) (mid_principal_id row)
           (mid_client_id row) (mi_TenantID env))))"

definition deleteIdentity ::
  "mi_env \<Rightarrow> store \<Rightarrow> http_request \<Rightarrow> string \<Rightarrow> string \<Rightarrow> string \<Rightarrow> http_response \<times> store" where
  "deleteIdentity env s r sub rg name =
    (case mi_require env r sub rg ''userAssignedIdentities/delete'' of
       Some rs \<Rightarrow> (rs, s)
     | None \<Rightarrow> (case DeleteManagedIdentity s sub rg name of
         (Inl e, s') \<Rightarrow> (InternalError e, s')
       | (Inr ok, s') \<Rightarrow> (if ok then writeHeader 200 else NotFound ''identity not found'', s')))"

definition listIdentities :: "mi_env \<Rightarrow> store \<Rightarrow> http_request \<Rightarrow> string \<Rightarrow> string \<Rightarrow> http_response" where
  "listIdentities env s r sub rg =
    (case mi_require env r sub rg ''userAssignedIdentities/read'' of
       Some rs \<Rightarrow> rs
     | None \<Rightarrow> (case ListManagedIdentities s sub rg of
         Inl e \<Rightarrow> InternalError e
       | Inr rows \<Rightarrow> writeJSON 200 (JObj [(''value'', JArr (map (\<lambda>row. identityJSON sub rg (mid_name row)
           (mid_location row) (mid_principal_id row) (mid_client_id row) (mi_TenantID env)) rows))])))"

text \<open>A failing lookup is taken for an absent identity.\<close>

definition putSystem ::
  "mi_env \<Rightarrow> string \<times> string \<Rightarrow> store \<Rightarrow> http_request \<Rightarrow> string \<Rightarrow> string \<Rightarrow> string \<Rightarrow> http_response \<times> store" where
  "putSystem env new s r sub rg name =
    (case mi_require env r sub rg ''systemAssignedIdentities/write'' of
       Some rs \<Rightarrow> (rs, s)
     | None \<Rightarrow>
         (let given = fst (decode_strings [''location''] (rq_json r)) ''location'';
              (location, principalID, clientID) = (case GetSystemAssignedIdentity s sub rg name of
                  Inr (Some row) \<Rightarrow> (mid_location row, mid_principal_id row, mid_client_id row)
                | _ \<Rightarrow> (if given = [] then ''eastus'' else given, fst new, snd new)) in
          case UpsertSystemAssignedIdentity s sub rg name location principalID clientID of
            (Inl e, s') \<Rightarrow> (InternalError e, s')
          | (Inr u, s') \<Rightarrow> (writeJSON 200 (identity_json ''systemAssignedIdentities'' sub rg name location principalID
              clientID (mi_TenantID env)), s')))"

definition getSystem ::
  "mi_env \<Rightarrow> store \<Rightarrow> http_request \<Rightarrow> string \<Rightarrow> string \<Rightarrow> string \<Rightarrow> http_response" where
  "getSystem env s r sub rg name =
    (case mi_require env r sub rg ''systemAssignedIdentities/read'' of
       Some rs \<Rightarrow> rs
     | None \<Rightarrow> (case GetSystemAssignedIdentity s sub rg name of
         Inl e \<Rightarrow> InternalError e
       | Inr None \<Rightarrow> NotFound ''identity not found''
       | Inr (Some row) \<Rightarrow> writeJSON 200 (identity_json ''systemAssignedIdentities'' sub rg name (mid_location row)
           (mid_principal_id row) (mid_client_id row) (mi_TenantID env))))"

definition deleteSystem ::
  "mi_env \<Rightarrow> store \<Rightarrow> http_request \<Rightarrow> string \<Rightarrow> string \<Rightarrow> string \<Rightarrow> http_response \<times> store" where
  "deleteSystem env s r sub rg name =
    (case mi_require env r sub rg ''systemAssignedIdentities/delete'' of
       Some rs \<Rightarrow> (rs, s)
     | None \<Rightarrow> (case DeleteSystemAssignedIdentity s sub rg name of
         (Inl e, s') \<Rightarrow> (InternalError e, s')
       | (Inr ok, s') \<Rightarrow> (if ok then writeHeader 200 else NotFound ''identity not found'', s')))"

section \<open>The token endpoint\<close>

definition writeIMDSError :: "nat \<Rightarrow> string \<Rightarrow> string \<Rightarrow> http_response" where
  "writeIMDSError code errCode desc =
    writeJSON code (JObj [(''error'', JStr errCode), (''error_description'', JStr desc)])"

definition imdsPeerIP :: "string \<Rightarrow> ip option" where
  "imdsPeerIP remoteAddr =
    (let host = trim_space remoteAddr in
     if host = [] then None
     else parse_ip (case split_host_port host of Some (h, p) \<Rightarrow> h | None \<Rightarrow> host))"

definition imdsTokenMintAllowed :: "web_request \<Rightarrow> bool" where
  "imdsTokenMintAllowed r =
    (case imdsPeerIP (web_remote r) of None \<Rightarrow> False | Some ip \<Rightarrow> ip_loopback ip \<or> ip_link_local_unicast ip)"

definition imdsMetadataHost :: "string \<Rightarrow> bool" where
  "imdsMetadataHost host0 =
    (let trimmed = to_lower (trim_space host0);
         host = (case split_host_port trimmed of Some (h, p) \<Rightarrow> h | None \<Rightarrow> trimmed) in
     host = ''169.254.169.254'' \<or> host = ''metadata'' \<or> host = ''metadata.azure.com'')"

definition no_identity :: http_response where
  "no_identity = writeIMDSError 400 ''invalid_request'' ''Identity not found''"

text \<open>The principal and the client of the identity asked for.\<close>

definition imds_identity :: "store \<Rightarrow> string \<Rightarrow> string \<Rightarrow> http_response + string \<times> string" where
  "imds_identity s clientID objectID =
    (if clientID \<noteq> [] then
       (case FindManagedIdentityByClientID s clientID of
          Inl e \<Rightarrow> Inl (InternalError e)
        | Inr (Some (p, name)) \<Rightarrow> Inr (p, clientID)
        | Inr None \<Rightarrow> (case FindSystemAssignedByClientID s clientID of
            Inl e \<Rightarrow> Inl (InternalError e)
          | Inr None \<Rightarrow> Inl no_identity
          | Inr (Some (sp, sc)) \<Rightarrow> Inr (sp, sc)))
     else if objectID \<noteq> [] then
       (case FindManagedIdentityByPrincipalID s objectID of
          Inl e \<Rightarrow> Inl (InternalError e)
        | Inr (Some (c, name)) \<Rightarrow> Inr (objectID, c)
        | Inr None \<Rightarrow> (case FindSystemAssignedByPrincipalID s objectID of
            Inl e \<Rightarrow> Inl (InternalError e)
          | Inr None \<Rightarrow> Inl no_identity
          | Inr (Some sc) \<Rightarrow> Inr (objectID, sc)))
     else
       (case CountSystemAssignedIdentities s of
          Inl e \<Rightarrow> Inl (InternalError e)
        | Inr n \<Rightarrow>
            if n \<noteq> 1 then Inl (writeIMDSError 400 ''invalid_request''
              ''client_id or object_id is required when multiple identities exist'')
            else (case FirstSystemAssignedIdentity s of
                Inr (Some (p, c)) \<Rightarrow> Inr (p, c)
              | _ \<Rightarrow> Inl no_identity)))"

definition imds_checked :: "web_request \<Rightarrow> http_response option" where
  \<comment> \<open>the checks of the request before an identity is looked up\<close>
  "imds_checked r =
    (let q = (\<lambda>k. trim_space (query_get (web_http r) k)) in
     if header_get (web_http r) ''Metadata'' \<noteq> ''true''
     then Some (writeIMDSError 400 ''bad_request_102'' ''Required metadata header not specified'')
     else if \<not> imdsTokenMintAllowed r
     then Some (writeIMDSError 403 ''forbidden'' ''IMDS token mint requires a loopback or link-local peer'')
     else if q ''api-version'' = []
     then Some (writeIMDSError 400 ''bad_request'' ''api-version is required (use 2018-02-01 or later)'')
     else if q ''resource'' = [] then Some (writeIMDSError 400 ''bad_request'' ''resource is required'')
     else None)"

definition imdsToken ::
  "mi_env \<Rightarrow> entra_random \<Rightarrow> entra_state \<Rightarrow> web_request \<Rightarrow> http_response \<times> entra_state" where
  "imdsToken env rnd st r =
    (case imds_checked r of
       Some rs \<Rightarrow> (rs, st)
     | None \<Rightarrow>
         (let q = (\<lambda>k. trim_space (query_get (web_http r) k)); resource = q ''resource'' in
          case imds_identity (snd st) (q ''client_id'') (q ''object_id'') of
            Inl rs \<Rightarrow> (rs, st)
          | Inr (principalID, clientID) \<Rightarrow>
              (case mi_entra env of
                 None \<Rightarrow> (WriteARM 503 ''ServiceUnavailable'' ''entra signing unavailable'', st)
               | Some entra \<Rightarrow>
                   (case MintAccessToken entra rnd st principalID (trim_right_char CHR ''/'' resource) of
                      (Inl e, st') \<Rightarrow> (InternalError e, st')
                    | (Inr token, (k, s)) \<Rightarrow>
                        (let secs = mi_now env div nanos;
                             (logged, s') = InsertLogAnalyticsRow s DefaultLogAnalyticsWorkspace ''AADManagedIdentitySignInLogs''
                               (JObj [(''TimeGenerated'', JStr (mi_format_time env (mi_audit_now env))),
                                  (''AppId'', JStr clientID), (''ServicePrincipalId'', JStr principalID),
                                  (''IPAddress'', JStr (web_remote r)), (''ResultType'', JStr ''0''),
                                  (''ResourceDisplayName'', JStr resource)]) in
                         (writeJSON 200 (JObj
                           [(''access_token'', JStr token), (''client_id'', JStr clientID),
                            (''expires_in'', JStr (format_int defaultExpiresIn)),
                            (''expires_on'', JStr (format_int (secs + defaultExpiresIn))),
                            (''ext_expires_in'', JStr (format_int defaultExpiresIn)),
                            (''not_before'', JStr (format_int secs)), (''resource'', JStr resource),
                            (''token_type'', JStr ''Bearer'')]), (k, s')))))))"

section \<open>The handler\<close>

definition mi_handle ::
  "mi_env \<Rightarrow> entra_random \<Rightarrow> entra_state \<Rightarrow> web_request \<Rightarrow> mi_op \<Rightarrow> http_response \<times> entra_state" where
  "mi_handle env rnd st r op =
    (let s = snd st; h = web_http r; new = (er_uuid rnd, er_uuid2 rnd);
         keep = (\<lambda>rs. (rs, st)); with_store = (\<lambda>(rs, s'). (rs, (fst st, s'))) in
     case op of
       PutIdentity sub rg name \<Rightarrow> with_store (putIdentity env new s h sub rg name)
     | GetIdentity sub rg name \<Rightarrow> keep (getIdentity env s h sub rg name)
     | DeleteIdentity sub rg name \<Rightarrow> with_store (deleteIdentity env s h sub rg name)
     | ListIdentities sub rg \<Rightarrow> keep (listIdentities env s h sub rg)
     | PutSystem sub rg name \<Rightarrow> with_store (putSystem env new s h sub rg name)
     | GetSystem sub rg name \<Rightarrow> keep (getSystem env s h sub rg name)
     | DeleteSystem sub rg name \<Rightarrow> with_store (deleteSystem env s h sub rg name)
     | ImdsToken \<Rightarrow> imdsToken env rnd st r)"

section \<open>The resources fail closed\<close>

fun mi_action :: "mi_op \<Rightarrow> (string \<times> string) option" where
  \<comment> \<open>the action and the scope asked for; \<open>None\<close> for the token endpoint\<close>
  "mi_action (PutIdentity sub rg name) = Some (''userAssignedIdentities/write'', group_scope sub rg)"
| "mi_action (GetIdentity sub rg name) = Some (''userAssignedIdentities/read'', group_scope sub rg)"
| "mi_action (DeleteIdentity sub rg name) = Some (''userAssignedIdentities/delete'', group_scope sub rg)"
| "mi_action (ListIdentities sub rg) = Some (''userAssignedIdentities/read'', group_scope sub rg)"
| "mi_action (PutSystem sub rg name) = Some (''systemAssignedIdentities/write'', group_scope sub rg)"
| "mi_action (GetSystem sub rg name) = Some (''systemAssignedIdentities/read'', group_scope sub rg)"
| "mi_action (DeleteSystem sub rg name) = Some (''systemAssignedIdentities/delete'', group_scope sub rg)"
| "mi_action ImdsToken = None"

lemma mi_require_passes:
  "mi_require env r sub rg a = None \<longleftrightarrow>
    (\<exists>p. authorized (ae_lib env) (ae_auth env) (ae_authz env) AllowsARM r (''Microsoft.ManagedIdentity/'' @ a) (group_scope sub rg) p)"
  by (simp add: mi_require_def arm_require_passes arm_authorized_def arm_env.truncate_def)

lemma mi_require_denies:
  assumes "mi_require env r sub rg a = Some rs"
  shows "rs_code rs \<in> {401, 403, 500}"
  using assms unfolding mi_require_def by (rule arm_require_denies)

lemma mi_refused:
  assumes "mi_action op = Some (a, scope)"
    and "\<not> (\<exists>p. authorized (ae_lib env) (ae_auth env) (ae_authz env) AllowsARM (web_http r)
      (''Microsoft.ManagedIdentity/'' @ a) scope p)"
  shows "\<exists>x. mi_handle env rnd st r op = (x, st) \<and> rs_code x \<in> {401, 403, 500}"
proof -
  have gate: "\<exists>x. mi_require env (web_http r) sub rg a = Some x \<and> rs_code x \<in> {401, 403, 500}"
    if "scope = group_scope sub rg" for sub rg
    using assms(2) that mi_require_passes [of env "web_http r" sub rg a] mi_require_denies [of env "web_http r" sub rg a]
    by (cases "mi_require env (web_http r) sub rg a") auto
  show ?thesis
  proof (cases op)
  case (PutIdentity sub rg name)
    with assms(1) have "a = ''userAssignedIdentities/write''" "scope = group_scope sub rg" by simp_all
    with gate [of sub rg] show ?thesis by (auto simp: PutIdentity mi_handle_def putIdentity_def)
  next
    case (GetIdentity sub rg name)
    with assms(1) have "a = ''userAssignedIdentities/read''" "scope = group_scope sub rg" by simp_all
    with gate [of sub rg] show ?thesis by (auto simp: GetIdentity mi_handle_def getIdentity_def)
  next
    case (DeleteIdentity sub rg name)
    with assms(1) have "a = ''userAssignedIdentities/delete''" "scope = group_scope sub rg" by simp_all
    with gate [of sub rg] show ?thesis by (auto simp: DeleteIdentity mi_handle_def deleteIdentity_def)
  next
    case (ListIdentities sub rg)
    with assms(1) have "a = ''userAssignedIdentities/read''" "scope = group_scope sub rg" by simp_all
    with gate [of sub rg] show ?thesis by (auto simp: ListIdentities mi_handle_def listIdentities_def)
  next
    case (PutSystem sub rg name)
    with assms(1) have "a = ''systemAssignedIdentities/write''" "scope = group_scope sub rg" by simp_all
    with gate [of sub rg] show ?thesis by (auto simp: PutSystem mi_handle_def putSystem_def)
  next
    case (GetSystem sub rg name)
    with assms(1) have "a = ''systemAssignedIdentities/read''" "scope = group_scope sub rg" by simp_all
    with gate [of sub rg] show ?thesis by (auto simp: GetSystem mi_handle_def getSystem_def)
  next
    case (DeleteSystem sub rg name)
    with assms(1) have "a = ''systemAssignedIdentities/delete''" "scope = group_scope sub rg" by simp_all
    with gate [of sub rg] show ?thesis by (auto simp: DeleteSystem mi_handle_def deleteSystem_def)
  next
    case ImdsToken
    with assms(1) show ?thesis by simp
  qed
qed

text \<open>
  The two kinds of identity resources are shown and changed only for callers with a token for Resource
  Manager who are root or granted the action at the resource group.
\<close>

theorem mi_fail_closed:
  assumes "mi_handle env rnd st r op = (rs, st')" "mi_action op = Some (a, scope)"
    and "rs_code rs \<in> {200, 404} \<or> st' \<noteq> st"
  shows "\<exists>p. authorized (ae_lib env) (ae_auth env) (ae_authz env) AllowsARM (web_http r)
    (''Microsoft.ManagedIdentity/'' @ a) scope p"
proof (rule ccontr)
  assume "\<not> ?thesis"
  from mi_refused [OF assms(2) this, of rnd st] assms(1,3) show False by auto
qed

section \<open>The token endpoint\<close>

lemma imds_identity_known:
  assumes "imds_identity s clientID objectID = Inr (p, c)"
  shows "\<exists>row \<in> set (tb_managed_identities (st_credentials s)) \<union> set (tb_system_identities (st_credentials s)). mid_principal_id row = p"
proof -
  have in_find: "x \<in> set xs \<and> P x" if "find P xs = Some x" for P xs and x :: identity_row
    using that by (rule find_in)
  show ?thesis
    using assms
    by (auto simp: imds_identity_def FindManagedIdentityByClientID_def FindSystemAssignedByClientID_def
        FindManagedIdentityByPrincipalID_def FindSystemAssignedByPrincipalID_def CountSystemAssignedIdentities_def
        FirstSystemAssignedIdentity_def db_query_def system_ids_def dest!: in_find split: if_splits option.splits)
qed

text \<open>
  The instance metadata service mints only for a request with the metadata header from a loopback or
  link-local peer, and only for the principal of a stored identity.
\<close>

theorem imds_tokens_stay_local:
  assumes "imdsToken env rnd st r = (rs, st')"
    and "rs_code rs = 200 \<or> tb_access_tokens (snd st') \<noteq> tb_access_tokens (snd st)"
  shows "header_get (web_http r) ''Metadata'' = ''true'' \<and>
    (\<exists>ip. imdsPeerIP (web_remote r) = Some ip \<and> (ip_loopback ip \<or> ip_link_local_unicast ip)) \<and>
    (\<exists>row entra token. row \<in> set (tb_managed_identities (st_credentials (snd st))) \<union> set (tb_system_identities (st_credentials (snd st))) \<and>
      mi_entra env = Some entra \<and>
      tb_access_tokens (snd st') = tbl_upsert tok_hash (\<lambda>old new. new)
        (token_row entra (snd st) (mid_principal_id row) token) (tb_access_tokens (snd st)))"
proof (cases "imds_checked r")
  case (Some x)
  with assms show ?thesis
    by (auto simp: imdsToken_def imds_checked_def Let_def writeIMDSError_def writeJSON_def split: if_splits)
next
  case None
  then have local: "header_get (web_http r) ''Metadata'' = ''true''" "imdsTokenMintAllowed r"
    by (auto simp: imds_checked_def Let_def split: if_splits)
  define q where "q = (\<lambda>k. trim_space (query_get (web_http r) k))"
  obtain k s where st: "st = (k, s)" by (rule prod.exhaust)
  show ?thesis
  proof (cases "imds_identity s (q ''client_id'') (q ''object_id'')")
    case (Inl x)
    then have "rs_code x \<noteq> 200"
      by (auto simp: imds_identity_def no_identity_def writeIMDSError_def writeJSON_def InternalError_def WriteARM_def
          split: if_splits option.splits sum.splits)
    with Inl assms None st show ?thesis by (simp add: imdsToken_def Let_def q_def)
  next
    case (Inr pc)
    obtain p c where pc: "pc = (p, c)" by (rule prod.exhaust)
    from imds_identity_known [OF Inr [unfolded pc]] obtain row where
      row: "row \<in> set (tb_managed_identities (st_credentials s)) \<union> set (tb_system_identities (st_credentials s))"
        "mid_principal_id row = p" by blast
    show ?thesis
    proof (cases "mi_entra env")
      case no: None
      with Inr pc assms None st show ?thesis by (auto simp: imdsToken_def Let_def q_def WriteARM_def writeJSON_def)
    next
      case entra: (Some entra)
      obtain res st1 where m: "mintAccessToken entra rnd (k, s) p (trim_right_char CHR ''/'' (q ''resource'')) (entra_base entra) = (res, st1)"
        by (rule prod.exhaust)
      from m show ?thesis
      proof (rule mint_outcome)
        fix e X assume "res = Inl e" "snd st1 = with_keys s X"
        with m Inr pc assms None st entra show ?thesis
          by (auto simp: imdsToken_def Let_def q_def MintAccessToken_def InternalError_def WriteARM_def writeJSON_def with_keys_def)
      next
        fix token X assume minted: "res = Inr token" "db_fault s = None" "snd st1 = minted entra s X p token"
        obtain k1 s1 where st1: "st1 = (k1, s1)" by (rule prod.exhaust)
        have "tb_access_tokens (snd st') = tb_access_tokens s1"
          using m minted(1) st1 Inr pc assms(1) None st entra
          by (auto simp: imdsToken_def Let_def q_def MintAccessToken_def InsertLogAnalyticsRow_def obs_exec_def db_exec_def
              split: prod.splits option.splits)
        with minted(3) st1 have "tb_access_tokens (snd st') = tbl_upsert tok_hash (\<lambda>old new. new) (token_row entra s p token) (tb_access_tokens s)"
          by (simp add: minted_def)
        with local row entra st show ?thesis
          by (auto simp: imdsTokenMintAllowed_def split: option.splits)
      qed
    qed
  qed
qed


section \<open>Pinned identities\<close>

text \<open>
  Whoever may write user-assigned identities chooses the principal of a new one, whoever that is: the
  instance metadata service then mints tokens of that principal.
\<close>

theorem pinned_identity_is_anyone:
  assumes "putIdentity env new s r sub rg name = (rs, s')" "rs_code rs = 200" "GetManagedIdentity s sub rg name = Inr None"
    and "pinnedIdentityIDs (mi_uuid_parse env) (decode_nested ''properties'' [''principalId'', ''clientId''] (rq_json r) ''principalId'')
      (decode_nested ''properties'' [''principalId'', ''clientId''] (rq_json r) ''clientId'') = Inr (p, c)"
    and "p \<noteq> []" "c \<noteq> []" "c \<notin> mid_client_id ` set (tb_managed_identities (st_credentials s))"
  shows "imds_identity s' c [] = Inr (p, c)"
proof -
  have "mi_require env r sub rg ''userAssignedIdentities/write'' = None"
    using assms(1,2) mi_require_denies by (fastforce simp: putIdentity_def split: option.splits)
  with assms have s': "db_fault s' = None" "tb_managed_identities (st_credentials s') =
      tbl_upsert mid_key (\<lambda>old new. new) (\<lparr>mid_subscription_id = sub, mid_resource_group = rg, mid_name = name,
        mid_location = default_location (let given = fst (decode_strings [''location''] (rq_json r)) ''location'' in
          if given = [] then ''eastus'' else given), mid_principal_id = p, mid_client_id = c\<rparr>) (tb_managed_identities (st_credentials s))"
    by (auto simp: putIdentity_def Let_def UpsertManagedIdentity_def cred_exec_def db_exec_def InternalError_def WriteARM_def
        writeJSON_def split: option.splits)
  have "tbl_get mid_key (tb_managed_identities (st_credentials s)) (sub, rg, name) = None"
    using assms(3) by (auto simp: GetManagedIdentity_def db_query_def split: option.splits)
  then have "\<not> list_ex (\<lambda>x. mid_key x = (sub, rg, name)) (tb_managed_identities (st_credentials s))"
    by (auto simp: tbl_get_def find_None_iff list_ex_iff)
  moreover have "find (\<lambda>x. mid_client_id x = c) (tb_managed_identities (st_credentials s)) = None"
    using assms(7) by (auto simp: find_None_iff)
  ultimately show ?thesis using s' assms(6)
    by (simp add: imds_identity_def FindManagedIdentityByClientID_def mid_key_def tbl_upsert_def find_append Let_def)
qed

section \<open>Witnesses\<close>

definition lab_mi_env :: mi_env where
  "lab_mi_env = \<lparr>ae_lib = lab_lib, ae_auth = Some lab_auth, ae_authz = None, mi_entra = Some lab_entra,
     mi_TenantID = ''t'', mi_now = 1000 * nanos, mi_audit_now = 1000 * nanos, mi_format_time = (\<lambda>t. []),
     mi_uuid_parse = (\<lambda>t. Some t)\<rparr>"

definition pin_request :: web_request where
  "pin_request = password_request\<lparr>web_http := root_request\<lparr>rq_method := ''PUT'', rq_json := Some (JObj [(''properties'',
     JObj [(''principalId'', JStr ''u1''), (''clientId'', JStr ''c1'')])])\<rparr>\<rparr>"

definition imds_request :: web_request where
  "imds_request = password_request\<lparr>web_http := root_request\<lparr>rq_path := ''/metadata/identity/oauth2/token'',
     rq_query := [(''api-version'', [''2018-02-01'']), (''resource'', [''https://vault.azure.net'']), (''client_id'', [''c1''])],
     rq_header := [(''Metadata'', [''true''])]\<rparr>\<rparr>"

definition pinned_state :: entra_state where
  "pinned_state = snd (mi_handle lab_mi_env lab_draws lab_entra_state pin_request (PutIdentity ''s1'' ''rg'' ''me''))"

theorem mi_fail_closed_witness:
  "\<exists>p. authorized (ae_lib lab_mi_env) (ae_auth lab_mi_env) (ae_authz lab_mi_env) AllowsARM (web_http pin_request)
    (''Microsoft.ManagedIdentity/'' @ ''userAssignedIdentities/write'') (group_scope ''s1'' ''rg'') p"
proof -
  have "rs_code (fst (mi_handle lab_mi_env lab_draws lab_entra_state pin_request (PutIdentity ''s1'' ''rg'' ''me''))) = 200"
    by code_simp
  then show ?thesis
    by (intro mi_fail_closed [where rnd = lab_draws and st = lab_entra_state and op = "PutIdentity ''s1'' ''rg'' ''me''",
        OF prod.collapse [symmetric]]) simp_all
qed

theorem pinned_identity_is_anyone_witness:
  "imds_identity (snd pinned_state) ''c1'' [] = Inr (''u1'', ''c1'')"
proof -
  let ?res = "putIdentity lab_mi_env (''k1'', ''k2'') lab_entra_store (web_http pin_request) ''s1'' ''rg'' ''me''"
  have "imds_identity (snd ?res) ''c1'' [] = Inr (''u1'', ''c1'')"
  proof (rule pinned_identity_is_anyone [OF prod.collapse [symmetric]])
    show "rs_code (fst ?res) = 200" by code_simp
    show "GetManagedIdentity lab_entra_store ''s1'' ''rg'' ''me'' = Inr None" by code_simp
    show "pinnedIdentityIDs (mi_uuid_parse lab_mi_env) (decode_nested ''properties'' [''principalId'', ''clientId'']
        (rq_json (web_http pin_request)) ''principalId'')
      (decode_nested ''properties'' [''principalId'', ''clientId''] (rq_json (web_http pin_request)) ''clientId'') = Inr (''u1'', ''c1'')"
      by code_simp
    show "''c1'' \<notin> mid_client_id ` set (tb_managed_identities (st_credentials lab_entra_store))"
      by (simp add: lab_entra_store_def empty_credentials_def)
  qed simp_all
  then show ?thesis by (simp add: pinned_state_def mi_handle_def lab_entra_state_def lab_draws_def split_beta Let_def)
qed

theorem imds_tokens_stay_local_witness:
  "\<exists>ip. imdsPeerIP (web_remote imds_request) = Some ip \<and> (ip_loopback ip \<or> ip_link_local_unicast ip)"
proof -
  have checked: "imds_checked imds_request = None" by code_simp
  have found: "imds_identity (snd pinned_state) ''c1'' [] = Inr (''u1'', ''c1'')" by code_simp
  have q: "trim_space (query_get (web_http imds_request) ''client_id'') = ''c1''"
    "trim_space (query_get (web_http imds_request) ''object_id'') = []"
    "trim_right_char CHR ''/'' (trim_space (query_get (web_http imds_request) ''resource'')) = ''https://vault.azure.net''"
    by code_simp+
  have "isl (fst (MintAccessToken lab_entra lab_draws pinned_state ''u1'' ''https://vault.azure.net'')) = False" by code_simp
  then obtain token k s where
    mint: "MintAccessToken lab_entra lab_draws pinned_state ''u1'' ''https://vault.azure.net'' = (Inr token, (k, s))"
    by (cases "MintAccessToken lab_entra lab_draws pinned_state ''u1'' ''https://vault.azure.net''") (auto simp: isl_def, metis sum.exhaust_sel prod.exhaust)
  have "rs_code (fst (imdsToken lab_mi_env lab_draws pinned_state imds_request)) = 200"
    unfolding imdsToken_def checked option.case Let_def q found sum.case prod.case
    by (simp add: lab_mi_env_def mint split_beta writeJSON_def)
  with imds_tokens_stay_local [OF prod.collapse [symmetric], of lab_mi_env lab_draws pinned_state imds_request] show ?thesis by blast
qed

end
