(* ===== verification/Service_Gate.thy ===== *)
theory Service_Gate
  imports Role_Assignments
begin

text \<open>
  The gate that the services of the management plane and some data planes write in the same words: the
  principal of the request's context, an audience check, and the evaluator of role assignments at the scope
  of the resource (\<open>wrap\<close>, \<open>require\<close> and \<open>writeAuthz\<close> of \<open>internal/services/appconfig/handler.go\<close>,
  \<open>functions/handler.go\<close>, \<open>monitor/handler.go\<close>, and \<open>require\<close> of \<open>subscriptions/handler.go\<close>).
\<close>

section \<open>The gate\<close>

definition wrap :: "Principal option \<Rightarrow> store \<Rightarrow> (Principal \<Rightarrow> http_response \<times> store) \<Rightarrow> http_response \<times> store" where
  "wrap who s f = (case who of None \<Rightarrow> (Unauthenticated [], s) | Some p \<Rightarrow> f p)"

text \<open>\<open>requireAction\<close> followed by \<open>writeAuthz\<close>: the response of a refusal.\<close>

definition requireAction :: "store \<Rightarrow> Principal \<Rightarrow> string \<Rightarrow> string \<Rightarrow> http_response option" where
  "requireAction s p action scope =
    (case Evaluate (store_evaluator s) (pr_ID p) (pr_IsRoot p) action scope of
       Inl e \<Rightarrow> Some (internal_server_error e)
     | Inr ok \<Rightarrow> if ok then None else Some (Forbidden []))"

text \<open>\<open>require\<close> followed by \<open>writeAuthz\<close>, for an audience and the response to another one.\<close>

definition gate ::
  "(Principal \<Rightarrow> bool) \<Rightarrow> http_response \<Rightarrow> store \<Rightarrow> Principal \<Rightarrow> string \<Rightarrow> string \<Rightarrow> http_response option" where
  "gate allows other_audience s p action scope =
    (if \<not> allows p then Some other_audience else requireAction s p action scope)"

definition gate_arm :: "store \<Rightarrow> Principal \<Rightarrow> string \<Rightarrow> string \<Rightarrow> http_response option" where
  "gate_arm s p action scope = gate AllowsARM (InvalidAuthenticationTokenAudience []) s p action scope"

section \<open>What passes\<close>

definition granted :: "(Principal \<Rightarrow> bool) \<Rightarrow> store \<Rightarrow> Principal option \<Rightarrow> string \<times> string \<Rightarrow> bool" where
  "granted allows s who need \<longleftrightarrow>
    (\<exists>p. who = Some p \<and> allows p \<and>
      Evaluate (store_evaluator s) (pr_ID p) (pr_IsRoot p) (fst need) (snd need) = Inr True)"

definition refusal :: "http_response \<Rightarrow> bool" where
  "refusal rs \<longleftrightarrow> rs_code rs \<in> {401, 403, 500}"

lemma service_codes [simp]:
  "rs_code (AppConfigInvalidAudience a b) = 401"
  "rs_code (internal_server_error m) = 500"
  by (simp_all add: AppConfigInvalidAudience_def internal_server_error_def)

lemma requireAction_passes:
  "requireAction s p action scope = None \<longleftrightarrow>
    Evaluate (store_evaluator s) (pr_ID p) (pr_IsRoot p) action scope = Inr True"
  by (auto simp: requireAction_def split: sum.splits)

lemma service_gate_passes:
  "gate allows other s p action scope = None \<longleftrightarrow> granted allows s (Some p) (action, scope)"
  by (auto simp: gate_def granted_def requireAction_passes)

lemma requireAction_refuses: "requireAction s p action scope = Some rs \<Longrightarrow> refusal rs"
  by (auto simp: requireAction_def refusal_def split: sum.splits if_splits)

lemma gate_refuses:
  "gate allows other s p action scope = Some rs \<Longrightarrow> refusal other \<Longrightarrow> refusal rs"
  by (auto simp: gate_def dest: requireAction_refuses split: if_splits)

lemma gate_arm_refuses: "gate_arm s p action scope = Some rs \<Longrightarrow> refusal rs"
  unfolding gate_arm_def by (erule gate_refuses) (simp add: refusal_def)

lemma gate_arm_passes:
  "gate_arm s p action scope = None \<longleftrightarrow> granted AllowsARM s (Some p) (action, scope)"
  unfolding gate_arm_def by (rule service_gate_passes)

lemma gate_arm_closed:
  assumes "\<not> granted AllowsARM s (Some p) (action, scope)"
  obtains rs where "gate_arm s p action scope = Some rs" "refusal rs"
  using assms gate_arm_passes [of s p action scope] gate_arm_refuses [of s p action scope]
  by (cases "gate_arm s p action scope") auto

lemma granted_root: "pr_IsRoot p \<Longrightarrow> allows p \<Longrightarrow> granted allows s (Some p) need"
  by (simp add: granted_def Evaluate_root)

text \<open>A handler that begins with a gate refuses and changes nothing when the gate does.\<close>

definition closed :: "store \<Rightarrow> http_response \<times> store \<Rightarrow> bool" where
  "closed s out \<longleftrightarrow> refusal (fst out) \<and> snd out = s"

lemma closedI: "refusal rs \<Longrightarrow> closed s (rs, s)"
  by (simp add: closed_def)

lemma closed_first:
  "g = Some rs \<Longrightarrow> refusal rs \<Longrightarrow> closed s (case g of Some rs \<Rightarrow> (rs, s) | None \<Rightarrow> f)"
  by (simp add: closed_def)

lemma closed_arm:
  assumes "\<not> granted AllowsARM s (Some p) (action, scope)"
  shows "closed s (case gate_arm s p action scope of Some rs \<Rightarrow> (rs, s) | None \<Rightarrow> f)"
  using assms by (rule gate_arm_closed) (rule closed_first)

lemma closed_arm_read:
  assumes "\<not> granted AllowsARM s (Some p) (action, scope)"
  shows "refusal (case gate_arm s p action scope of Some rs \<Rightarrow> rs | None \<Rightarrow> f)"
proof -
  from assms obtain rs where "gate_arm s p action scope = Some rs" "refusal rs" by (rule gate_arm_closed)
  then show ?thesis by simp
qed

lemma closed_wrap:
  assumes "\<And>p. who = Some p \<Longrightarrow> closed s (f p)"
  shows "closed s (wrap who s f)"
  using assms by (cases who) (simp_all add: wrap_def closed_def refusal_def)

lemma not_closed:
  assumes "rs_code (fst out) \<in> {200, 201, 202, 204, 400, 404} \<or> snd out \<noteq> s"
  shows "\<not> closed s out"
  using assms by (auto simp: closed_def refusal_def)

lemma state_of: "f = (rs, s1) \<Longrightarrow> s1 = snd f"
  by simp

end
