(* ===== verification/Store_Settings.thy ===== *)
theory Store_Settings
  imports Store_Observed
begin

text \<open>
  App Configuration stores with their key-values, feature flags and snapshots, and Function Apps
  (\<open>internal/store/app_observe.go\<close>). The data of a store is keyed by its name alone.
\<close>

section \<open>App Configuration stores\<close>

definition UpsertAppConfig :: "store \<Rightarrow> string \<Rightarrow> string \<Rightarrow> string \<Rightarrow> string \<Rightarrow> unit result \<times> store" where
  "UpsertAppConfig s subID rg name location =
    (let d = st_app_settings s in
     app_exec s () (d\<lparr>tb_appconfig_stores := tbl_upsert ac_key (\<lambda>old new. old\<lparr>ac_location := ac_location new\<rparr>)
       \<lparr>ac_subscription_id = subID, ac_resource_group = rg, ac_name = name,
        ac_location = default_location location, ac_sealed = []\<rparr> (tb_appconfig_stores d)\<rparr>))"

definition GetAppConfig :: "store \<Rightarrow> string \<Rightarrow> string \<Rightarrow> string \<Rightarrow> account_row option result" where
  "GetAppConfig s subID rg name =
    db_query s (tbl_get ac_key (tb_appconfig_stores (st_app_settings s)) (subID, rg, name))"

definition GetAppConfigByName :: "store \<Rightarrow> string \<Rightarrow> account_row option result" where
  "GetAppConfigByName s name = db_query s (find (\<lambda>r. ac_name r = name) (tb_appconfig_stores (st_app_settings s)))"

definition ListAppConfigs :: "store \<Rightarrow> string \<Rightarrow> string \<Rightarrow> account_row list result" where
  "ListAppConfigs s subID rg =
    db_query s (sort_key ac_name (filter (\<lambda>r. ac_subscription_id r = subID \<and> ac_resource_group r = rg)
      (tb_appconfig_stores (st_app_settings s))))"

text \<open>
  One transaction, rolled back when there is no such store; \<open>False\<close> is the error \<open>sql.ErrNoRows\<close> of the code.
\<close>

definition DeleteAppConfig :: "store \<Rightarrow> string \<Rightarrow> string \<Rightarrow> string \<Rightarrow> bool result \<times> store" where
  "DeleteAppConfig s subID rg name =
    (let d = st_app_settings s; hit = (\<lambda>r. ac_key r = (subID, rg, name)) in
     if db_fault s = None \<and> tbl_count hit (tb_appconfig_stores d) = 0 then (Inr False, s)
     else app_exec s True (d\<lparr>
       tb_snapshot_kvs := tbl_delete (\<lambda>r. akv_Store (snd r) = name) (tb_snapshot_kvs d),
       tb_snapshots := tbl_delete (\<lambda>r. asn_Store r = name) (tb_snapshots d),
       tb_feature_flags := tbl_delete (\<lambda>r. aff_store r = name) (tb_feature_flags d),
       tb_appconfig_kvs := tbl_delete (\<lambda>r. akv_Store r = name) (tb_appconfig_kvs d),
       tb_appconfig_stores := tbl_delete hit (tb_appconfig_stores d)\<rparr>))"

section \<open>Key-values\<close>

definition kv_key :: "AppConfigKV \<Rightarrow> string \<times> string \<times> string" where
  "kv_key r = (akv_Store r, akv_Key r, akv_Label r)"

definition SetAppConfigKV :: "store \<Rightarrow> string \<Rightarrow> string \<Rightarrow> string \<Rightarrow> string \<Rightarrow> unit result \<times> store" where
  "SetAppConfigKV s storeName key label v =
    (if storeName = [] \<or> key = [] then (Inl ''store and key are required'', s)
     else let d = st_app_settings s in
       app_exec s () (d\<lparr>tb_appconfig_kvs := tbl_upsert kv_key (\<lambda>old new. new)
         \<lparr>akv_Store = storeName, akv_Key = key, akv_Label = label, akv_Value = v\<rparr> (tb_appconfig_kvs d)\<rparr>))"

definition GetAppConfigKV :: "store \<Rightarrow> string \<Rightarrow> string \<Rightarrow> string \<Rightarrow> AppConfigKV option result" where
  "GetAppConfigKV s storeName key label =
    db_query s (tbl_get kv_key (tb_appconfig_kvs (st_app_settings s)) (storeName, key, label))"

definition sort_kvs :: "AppConfigKV list \<Rightarrow> AppConfigKV list" where
  \<comment> \<open>\<open>ORDER BY key, label\<close>\<close>
  "sort_kvs rows = sort_key akv_Key (sort_key akv_Label rows)"

definition ListAppConfigKV :: "store \<Rightarrow> string \<Rightarrow> string \<Rightarrow> AppConfigKV list result" where
  "ListAppConfigKV s storeName keyFilter =
    db_query s (sort_kvs (filter (\<lambda>r. akv_Store r = storeName \<and> (keyFilter = [] \<or> akv_Key r = keyFilter))
      (tb_appconfig_kvs (st_app_settings s))))"

section \<open>Feature flags\<close>

definition flag_key :: "feature_flag \<Rightarrow> string \<times> string" where
  "flag_key r = (aff_store r, aff_name r)"

definition SetAppConfigFeatureFlag :: "store \<Rightarrow> string \<Rightarrow> string \<Rightarrow> bool \<Rightarrow> json \<Rightarrow> unit result \<times> store" where
  "SetAppConfigFeatureFlag s storeName name enabled conditions =
    (let d = st_app_settings s in
     app_exec s () (d\<lparr>tb_feature_flags := tbl_upsert flag_key (\<lambda>old new. new)
       \<lparr>aff_store = storeName, aff_name = name, aff_enabled = enabled, aff_conditions = conditions\<rparr>
       (tb_feature_flags d)\<rparr>))"

definition GetAppConfigFeatureFlag :: "store \<Rightarrow> string \<Rightarrow> string \<Rightarrow> feature_flag option result" where
  "GetAppConfigFeatureFlag s storeName name =
    db_query s (tbl_get flag_key (tb_feature_flags (st_app_settings s)) (storeName, name))"

definition ListAppConfigFeatureFlags :: "store \<Rightarrow> string \<Rightarrow> feature_flag list result" where
  "ListAppConfigFeatureFlags s storeName =
    db_query s (sort_key aff_name (filter (\<lambda>r. aff_store r = storeName) (tb_feature_flags (st_app_settings s))))"

section \<open>Snapshots\<close>

definition snap_key :: "AppConfigSnapshot \<Rightarrow> string \<times> string" where
  "snap_key r = (asn_Store r, asn_Name r)"

definition GetAppConfigSnapshot :: "store \<Rightarrow> string \<Rightarrow> string \<Rightarrow> AppConfigSnapshot option result" where
  "GetAppConfigSnapshot s storeName name =
    db_query s (tbl_get snap_key (tb_snapshots (st_app_settings s)) (storeName, name))"

definition captured_key :: "string \<times> AppConfigKV \<Rightarrow> string \<times> string \<times> string \<times> string" where
  "captured_key r = (akv_Store (snd r), fst r, akv_Key (snd r), akv_Label (snd r))"

text \<open>The inserts run one after the other without a transaction; one with a key that is taken fails.\<close>

fun capture_kvs :: "string \<Rightarrow> string \<Rightarrow> AppConfigKV list \<Rightarrow> store \<Rightarrow> unit result \<times> store" where
  "capture_kvs storeName name [] s = (Inr (), s)"
| "capture_kvs storeName name (kv # kvs) s =
    (let d = st_app_settings s; row = (name, kv\<lparr>akv_Store := storeName\<rparr>) in
     if db_fault s = None \<and> list_ex (\<lambda>r. captured_key r = captured_key row) (tb_snapshot_kvs d)
     then (Inl ''UNIQUE constraint failed'', s)
     else (case app_exec s () (d\<lparr>tb_snapshot_kvs := tb_snapshot_kvs d @ [row]\<rparr>) of
         (Inl e, s') \<Rightarrow> (Inl e, s')
       | (Inr u, s') \<Rightarrow> capture_kvs storeName name kvs s'))"

definition UpsertAppConfigSnapshot :: "store \<Rightarrow> int \<Rightarrow> string \<Rightarrow> string \<Rightarrow> string \<Rightarrow> unit result \<times> store" where
  "UpsertAppConfigSnapshot s clock storeName name status0 =
    (let status = (if status0 = [] then ''ready'' else status0); d = st_app_settings s in
     case GetAppConfigSnapshot s storeName name of
       Inl e \<Rightarrow> (Inl e, s)
     | Inr (Some row) \<Rightarrow>
         app_exec s () (d\<lparr>tb_snapshots := map (\<lambda>r. if snap_key r = (storeName, name) then r\<lparr>asn_Status := status\<rparr> else r)
           (tb_snapshots d)\<rparr>)
     | Inr None \<Rightarrow>
         (case app_exec s () (d\<lparr>tb_snapshots := tb_snapshots d @ [\<lparr>asn_Store = storeName, asn_Name = name,
             asn_Status = status, asn_CreatedAt = clock div nanos\<rparr>]\<rparr>) of
            (Inl e, s') \<Rightarrow> (Inl e, s')
          | (Inr u, s') \<Rightarrow> (case ListAppConfigKV s' storeName [] of
              Inl e \<Rightarrow> (Inl e, s')
            | Inr kvs \<Rightarrow> capture_kvs storeName name kvs s')))"

definition ListAppConfigSnapshots :: "store \<Rightarrow> string \<Rightarrow> AppConfigSnapshot list result" where
  "ListAppConfigSnapshots s storeName =
    db_query s (sort_key asn_Name (filter (\<lambda>r. asn_Store r = storeName) (tb_snapshots (st_app_settings s))))"

definition ListAppConfigSnapshotKV :: "store \<Rightarrow> string \<Rightarrow> string \<Rightarrow> string \<Rightarrow> AppConfigKV list result" where
  "ListAppConfigSnapshotKV s storeName snapshot labelFilter =
    db_query s (sort_kvs (map snd (filter (\<lambda>(n, r). akv_Store r = storeName \<and> n = snapshot \<and>
      (labelFilter = [] \<or> akv_Label r = labelFilter)) (tb_snapshot_kvs (st_app_settings s)))))"

section \<open>Function Apps\<close>

definition fap_key :: "FunctionApp \<Rightarrow> string \<times> string \<times> string" where
  "fap_key r = (fap_SubscriptionID r, fap_ResourceGroup r, fap_Name r)"

definition UpsertFunctionApp ::
  "store \<Rightarrow> string \<Rightarrow> string \<Rightarrow> string \<Rightarrow> string \<Rightarrow> string \<Rightarrow> unit result \<times> store" where
  "UpsertFunctionApp s subID rg name location mockResponse =
    (let d = st_app_settings s in
     app_exec s () (d\<lparr>tb_function_apps := tbl_upsert fap_key (\<lambda>old new. new)
       \<lparr>fap_SubscriptionID = subID, fap_ResourceGroup = rg, fap_Name = name, fap_Location = default_location location,
        fap_MockResponse = (if mockResponse = [] then ''ok'' else mockResponse)\<rparr> (tb_function_apps d)\<rparr>))"

definition GetFunctionApp :: "store \<Rightarrow> string \<Rightarrow> string \<Rightarrow> string \<Rightarrow> FunctionApp option result" where
  "GetFunctionApp s subID rg name =
    db_query s (tbl_get fap_key (tb_function_apps (st_app_settings s)) (subID, rg, name))"

definition GetFunctionAppByName :: "store \<Rightarrow> string \<Rightarrow> FunctionApp option result" where
  "GetFunctionAppByName s name = db_query s (find (\<lambda>r. fap_Name r = name) (tb_function_apps (st_app_settings s)))"

definition ListFunctionAppsInSubscription :: "store \<Rightarrow> string \<Rightarrow> FunctionApp list result" where
  "ListFunctionAppsInSubscription s subID =
    db_query s (sort_key fap_Name (filter (\<lambda>r. fap_SubscriptionID r = subID) (tb_function_apps (st_app_settings s))))"

definition ListFunctionApps :: "store \<Rightarrow> string \<Rightarrow> string \<Rightarrow> FunctionApp list result" where
  "ListFunctionApps s subID rg =
    db_query s (sort_key fap_Name (filter (\<lambda>r. fap_SubscriptionID r = subID \<and> fap_ResourceGroup r = rg)
      (tb_function_apps (st_app_settings s))))"

definition DeleteFunctionApp :: "store \<Rightarrow> string \<Rightarrow> string \<Rightarrow> string \<Rightarrow> bool result \<times> store" where
  "DeleteFunctionApp s subID rg name =
    (let d = st_app_settings s; hit = (\<lambda>r. fap_key r = (subID, rg, name)) in
     app_exec s (tbl_count hit (tb_function_apps d) \<noteq> 0) (d\<lparr>tb_function_apps := tbl_delete hit (tb_function_apps d)\<rparr>))"

definition InvokeFunctionAppMock :: "store \<Rightarrow> string \<Rightarrow> string option result" where
  "InvokeFunctionAppMock s name = map_sum id (map_option fap_MockResponse) (GetFunctionAppByName s name)"

end
