(* ===== verification/App_Config.thy ===== *)
theory App_Config
  imports Service_Gate Server_Config Store_Settings
begin

text \<open>
  App Configuration: \<open>internal/services/appconfig/handler.go\<close> and \<open>featureflags.go\<close>. Stores are resources of the
  management plane; key-values, feature flags and snapshots are the data plane, with tokens of its own audience.
\<close>

section \<open>Environment and routes\<close>

record appconfig_env =
  apc_PublicBase :: string
  apc_url :: url_parser
  apc_url_with :: "string \<Rightarrow> string \<Rightarrow> string \<Rightarrow> string"
  apc_now :: int
  apc_format_time :: "int \<Rightarrow> string"

datatype ac_op =
    PutConfigStore string string string
  | GetConfigStore string string string
  | DeleteConfigStore string string string
  | ListConfigStores string string
  | GetKeyValue string string
  | PutKeyValue string string
  | ListKeyValues string
  | PutFlag string string
  | GetFlag string string
  | ListFlags string
  | PutSnapshot string string
  | GetSnapshot string string
  | ListSnapshots string

definition ac_route :: "string \<Rightarrow> string list \<Rightarrow> ac_op option" where
  "ac_route method segs =
    (let get = (method = ''GET'' \<or> method = ''HEAD''); put = (method = ''PUT'') in
     if [] \<in> set segs then None
     else (case segs of
       [a, sub, b, rg, c, ns, ty, name] \<Rightarrow>
         if a = ''subscriptions'' \<and> b = ''resourceGroups'' \<and> c = ''providers'' \<and>
            ns = ''Microsoft.AppConfiguration'' \<and> ty = ''configurationStores''
         then (if put then Some (PutConfigStore sub rg name) else if get then Some (GetConfigStore sub rg name)
               else if method = ''DELETE'' then Some (DeleteConfigStore sub rg name) else None)
         else None
     | [a, sub, b, rg, c, ns, ty] \<Rightarrow>
         if a = ''subscriptions'' \<and> b = ''resourceGroups'' \<and> c = ''providers'' \<and>
            ns = ''Microsoft.AppConfiguration'' \<and> ty = ''configurationStores'' \<and> get
         then Some (ListConfigStores sub rg) else None
     | [a, st, kind, name] \<Rightarrow>
         if a \<noteq> ''appconfig'' then None
         else if kind = ''kv''
         then (if put then Some (PutKeyValue st name) else if get then Some (GetKeyValue st name) else None)
         else if kind = ''featureflags''
         then (if put then Some (PutFlag st name) else if get then Some (GetFlag st name) else None)
         else if kind = ''snapshots''
         then (if put then Some (PutSnapshot st name) else if get then Some (GetSnapshot st name) else None)
         else None
     | [a, st, kind] \<Rightarrow>
         if a \<noteq> ''appconfig'' \<or> \<not> get then None
         else if kind = ''kv'' then Some (ListKeyValues st)
         else if kind = ''featureflags'' then Some (ListFlags st)
         else if kind = ''snapshots'' then Some (ListSnapshots st) else None
     | _ \<Rightarrow> None))"

text \<open>\<open>url.PathUnescape\<close>; the callers drop its error, and with it the text.\<close>

fun path_unescape :: "string \<Rightarrow> string option" where
  "path_unescape [] = Some []"
| "path_unescape (c # cs) =
    (if c = CHR ''%'' then
       (case cs of
          a # b # r \<Rightarrow> (case (unhex a, unhex b) of
              (Some x, Some y) \<Rightarrow> map_option (\<lambda>t. char_of (16 * x + y) # t) (path_unescape r)
            | _ \<Rightarrow> None)
        | _ \<Rightarrow> None)
     else map_option (\<lambda>t. c # t) (path_unescape cs))"

definition unescaped_key :: "string \<Rightarrow> string" where
  "unescaped_key key = (case path_unescape key of None \<Rightarrow> [] | Some k \<Rightarrow> k)"

section \<open>Gates\<close>

definition storeResourceID :: "string \<Rightarrow> string \<Rightarrow> string \<Rightarrow> string" where
  "storeResourceID sub rg name =
    group_scope sub rg @ ''/providers/Microsoft.AppConfiguration/configurationStores/'' @ name"

definition ac_require :: "store \<Rightarrow> Principal \<Rightarrow> string \<Rightarrow> string \<Rightarrow> http_response option" where
  "ac_require s p action scope = gate_arm s p (''Microsoft.AppConfiguration/configurationStores/'' @ action) scope"

definition ac_requireDataPlane :: "store \<Rightarrow> Principal \<Rightarrow> string \<Rightarrow> string \<Rightarrow> http_response option" where
  "ac_requireDataPlane s p action scope =
    gate AllowsAppConfig (AppConfigInvalidAudience [] []) s p action scope"

text \<open>The scope of the data of a store: that of the first store of the name, whatever its group.\<close>

definition data_scope :: "string \<Rightarrow> account_row option \<Rightarrow> string" where
  "data_scope storeName found =
    (case found of
       None \<Rightarrow> ''/subscriptions/'' @ DefaultSubscriptionID @
         ''/providers/Microsoft.AppConfiguration/configurationStores/'' @ storeName
     | Some st \<Rightarrow> storeResourceID (ac_subscription_id st) (ac_resource_group st) (ac_name st))"

definition authorizeStoreDataPlane ::
  "store \<Rightarrow> Principal \<Rightarrow> string \<Rightarrow> string \<Rightarrow> http_response option" where
  "authorizeStoreDataPlane s p storeName action =
    (case GetAppConfigByName s storeName of
       Inl e \<Rightarrow> Some (internal_server_error e)
     | Inr found \<Rightarrow>
         (case ac_requireDataPlane s p (''Microsoft.AppConfiguration/configurationStores/keyValues/'' @ action)
             (data_scope storeName found) of
            Some rs \<Rightarrow> Some rs
          | None \<Rightarrow> if found = None then Some (NotFound ''configuration store not found'') else None))"

section \<open>Stores\<close>

definition endpointFor :: "appconfig_env \<Rightarrow> string \<Rightarrow> web_request \<Rightarrow> string" where
  "endpointFor env name r =
    (let path = ''/appconfig/'' @ name; base = trim_right_char CHR ''/'' (trim_space (apc_PublicBase env)) in
     if base \<noteq> [] then base @ path
     else RewriteLoopbackOrigin (apc_url env) (apc_url_with env) (''http://127.0.0.1:4599'' @ path) r)"

definition storeResource :: "appconfig_env \<Rightarrow> account_row \<Rightarrow> web_request \<Rightarrow> json" where
  "storeResource env row r =
    JObj [(''id'', JStr (storeResourceID (ac_subscription_id row) (ac_resource_group row) (ac_name row))),
      (''name'', JStr (ac_name row)), (''type'', JStr ''Microsoft.AppConfiguration/configurationStores''),
      (''location'', JStr (ac_location row)),
      (''properties'', JObj [(''provisioningState'', JStr ''Succeeded''),
        (''endpoint'', JStr (endpointFor env (ac_name row) r))])]"

definition no_config_store :: account_row where
  "no_config_store = \<lparr>ac_subscription_id = [], ac_resource_group = [], ac_name = [], ac_location = [], ac_sealed = []\<rparr>"

definition putStore ::
  "appconfig_env \<Rightarrow> store \<Rightarrow> web_request \<Rightarrow> Principal \<Rightarrow> string \<Rightarrow> string \<Rightarrow> string \<Rightarrow> http_response \<times> store" where
  "putStore env s r p sub rg name =
    (case ac_require s p ''write'' (storeResourceID sub rg name) of
       Some rs \<Rightarrow> (rs, s)
     | None \<Rightarrow>
         (let given = fst (decode_put_body (rq_json (web_http r)));
              location = (if given = [] then ''eastus'' else given) in
          case UpsertAppConfig s sub rg name location of
            (Inl e, s1) \<Rightarrow> (internal_server_error e, s1)
          | (Inr u, s1) \<Rightarrow>
              (let s2 = snd (AppendActivityLog s1 (apc_now env) (pr_ID p)
                    ''Microsoft.AppConfiguration/configurationStores/write'' (storeResourceID sub rg name) ''Succeeded'' []);
                   row = (case GetAppConfig s2 sub rg name of Inr (Some row) \<Rightarrow> row | _ \<Rightarrow> no_config_store) in
               (writeJSON 200 (storeResource env row r), s2))))"

definition getStore ::
  "appconfig_env \<Rightarrow> store \<Rightarrow> web_request \<Rightarrow> Principal \<Rightarrow> string \<Rightarrow> string \<Rightarrow> string \<Rightarrow> http_response" where
  "getStore env s r p sub rg name =
    (case ac_require s p ''read'' (storeResourceID sub rg name) of
       Some rs \<Rightarrow> rs
     | None \<Rightarrow> (case GetAppConfig s sub rg name of
         Inl e \<Rightarrow> internal_server_error e
       | Inr None \<Rightarrow> NotFound ''configuration store not found''
       | Inr (Some row) \<Rightarrow> writeJSON 200 (storeResource env row r)))"

definition deleteStore ::
  "appconfig_env \<Rightarrow> store \<Rightarrow> Principal \<Rightarrow> string \<Rightarrow> string \<Rightarrow> string \<Rightarrow> http_response \<times> store" where
  "deleteStore env s p sub rg name =
    (case ac_require s p ''delete'' (storeResourceID sub rg name) of
       Some rs \<Rightarrow> (rs, s)
     | None \<Rightarrow> (case DeleteAppConfig s sub rg name of
         (Inl e, s1) \<Rightarrow> (internal_server_error e, s1)
       | (Inr ok, s1) \<Rightarrow>
           if \<not> ok then (NotFound ''configuration store not found'', s1)
           else (writeHeader 204, snd (AppendActivityLog s1 (apc_now env) (pr_ID p)
             ''Microsoft.AppConfiguration/configurationStores/delete'' (storeResourceID sub rg name) ''Succeeded'' []))))"

definition listStores ::
  "appconfig_env \<Rightarrow> store \<Rightarrow> web_request \<Rightarrow> Principal \<Rightarrow> string \<Rightarrow> string \<Rightarrow> http_response" where
  "listStores env s r p sub rg =
    (case ac_require s p ''read'' (group_scope sub rg) of
       Some rs \<Rightarrow> rs
     | None \<Rightarrow> (case ListAppConfigs s sub rg of
         Inl e \<Rightarrow> internal_server_error e
       | Inr rows \<Rightarrow> writeJSON 200 (JObj [(''value'', JArr (map (\<lambda>row. storeResource env row r) rows))])))"

section \<open>Key-values\<close>

definition kvResource :: "appconfig_env \<Rightarrow> string \<Rightarrow> string \<Rightarrow> string \<Rightarrow> (string \<times> json) list" where
  "kvResource env key label v =
    [(''etag'', JStr (trim_space key @ ''|'' @ label)), (''key'', JStr key), (''label'', JStr label),
     (''content_type'', JStr []), (''value'', JStr v),
     (''last_modified'', JStr (apc_format_time env (apc_now env div nanos))), (''locked'', JBool False),
     (''tags'', JObj [])]"

definition row_resource :: "appconfig_env \<Rightarrow> AppConfigKV \<Rightarrow> json" where
  "row_resource env row = JObj (kvResource env (akv_Key row) (akv_Label row) (akv_Value row))"

definition writeKVJSON :: "nat \<Rightarrow> (string \<times> json) list \<Rightarrow> http_response" where
  "writeKVJSON code kvs =
    \<lparr>rs_code = code,
     rs_header = (''Content-Type'', ''application/vnd.microsoft.appconfig.kv+json; charset=utf-8'') #
       (case map_of kvs ''etag'' of
          Some (JStr etag) \<Rightarrow> if etag \<noteq> [] then [(''ETag'', [CHR 0x22] @ etag @ [CHR 0x22])] else []
        | _ \<Rightarrow> []),
     rs_body = JObj kvs, rs_bytes = []\<rparr>"

definition writeKVSetJSON :: "nat \<Rightarrow> json list \<Rightarrow> http_response" where
  "writeKVSetJSON code items =
    \<lparr>rs_code = code,
     rs_header = [(''Content-Type'', ''application/vnd.microsoft.appconfig.kvset+json; charset=utf-8'')],
     rs_body = JObj [(''items'', JArr items)], rs_bytes = []\<rparr>"

definition putKV ::
  "appconfig_env \<Rightarrow> store \<Rightarrow> http_request \<Rightarrow> Principal \<Rightarrow> string \<Rightarrow> string \<Rightarrow> http_response \<times> store" where
  "putKV env s r p storeName rawKey =
    (let key = unescaped_key rawKey in
     case authorizeStoreDataPlane s p storeName ''write'' of
       Some rs \<Rightarrow> (rs, s)
     | None \<Rightarrow>
         (let (field, ok) = decode_strings [''value'', ''label''] (rq_json r) in
          if \<not> ok then (BadRequest ''invalid JSON body'', s)
          else (let label = (if field ''label'' \<noteq> [] then field ''label'' else query_get r ''label'') in
            case SetAppConfigKV s storeName key label (field ''value'') of
              (Inl e, s1) \<Rightarrow> (internal_server_error e, s1)
            | (Inr u, s1) \<Rightarrow> (writeKVJSON 200 (kvResource env key label (field ''value'')), s1))))"

definition getKV ::
  "appconfig_env \<Rightarrow> store \<Rightarrow> http_request \<Rightarrow> Principal \<Rightarrow> string \<Rightarrow> string \<Rightarrow> http_response" where
  "getKV env s r p storeName rawKey =
    (case authorizeStoreDataPlane s p storeName ''read'' of
       Some rs \<Rightarrow> rs
     | None \<Rightarrow> (case GetAppConfigKV s storeName (unescaped_key rawKey) (query_get r ''label'') of
         Inl e \<Rightarrow> internal_server_error e
       | Inr None \<Rightarrow> NotFound ''key not found''
       | Inr (Some row) \<Rightarrow> writeKVJSON 200 (kvResource env (akv_Key row) (akv_Label row) (akv_Value row))))"

definition snapshotItems :: "appconfig_env \<Rightarrow> AppConfigKV list \<Rightarrow> json list" where
  "snapshotItems env rows = map (row_resource env) rows"

definition listKV :: "appconfig_env \<Rightarrow> store \<Rightarrow> http_request \<Rightarrow> Principal \<Rightarrow> string \<Rightarrow> http_response" where
  "listKV env s r p storeName =
    (case authorizeStoreDataPlane s p storeName ''read'' of
       Some rs \<Rightarrow> rs
     | None \<Rightarrow>
         (let snap = trim_space (query_get r ''snapshot'') in
          if snap \<noteq> [] then
            (case GetAppConfigSnapshot s storeName snap of
               Inl e \<Rightarrow> internal_server_error e
             | Inr None \<Rightarrow> NotFound ''snapshot not found''
             | Inr (Some x) \<Rightarrow> (case ListAppConfigSnapshotKV s storeName snap (query_get r ''label'') of
                 Inl e \<Rightarrow> internal_server_error e
               | Inr rows \<Rightarrow> writeKVSetJSON 200 (snapshotItems env rows)))
          else (case ListAppConfigKV s storeName (query_get r ''key'') of
              Inl e \<Rightarrow> internal_server_error e
            | Inr rows \<Rightarrow> writeKVSetJSON 200 (map (row_resource env) rows))))"

section \<open>Feature flags\<close>

text \<open>Decoding a body with the fields \<open>enabled\<close>, a Boolean, and \<open>conditions\<close>, a map; errors are dropped.\<close>

fun decode_flag_fields :: "json_map \<Rightarrow> bool \<times> json_map option \<Rightarrow> bool \<times> json_map option" where
  "decode_flag_fields [] acc = acc"
| "decode_flag_fields ((k, v) # kvs) (enabled, conditions) =
    decode_flag_fields kvs
      (if equal_fold k ''enabled'' then ((case v of JBool b \<Rightarrow> b | _ \<Rightarrow> enabled), conditions)
       else if equal_fold k ''conditions'' then
         (enabled, (case v of
            JObj o1 \<Rightarrow> Some (map_update (case conditions of None \<Rightarrow> [] | Some m \<Rightarrow> m) o1)
          | JNull \<Rightarrow> None
          | _ \<Rightarrow> conditions))
       else (enabled, conditions))"

definition decode_flag :: "json option \<Rightarrow> bool \<times> json_map option" where
  "decode_flag body = (case body of Some (JObj kvs) \<Rightarrow> decode_flag_fields kvs (False, None) | _ \<Rightarrow> (False, None))"

definition flag_json :: "string \<Rightarrow> bool \<Rightarrow> json \<Rightarrow> json" where
  "flag_json name enabled conditions =
    JObj [(''id'', JStr name), (''enabled'', JBool enabled), (''conditions'', conditions)]"

definition putFeatureFlag ::
  "store \<Rightarrow> http_request \<Rightarrow> Principal \<Rightarrow> string \<Rightarrow> string \<Rightarrow> http_response \<times> store" where
  "putFeatureFlag s r p storeName name =
    (case authorizeStoreDataPlane s p storeName ''write'' of
       Some rs \<Rightarrow> (rs, s)
     | None \<Rightarrow>
         (let (enabled, conditions) = decode_flag (rq_json r);
              cond = (case conditions of None \<Rightarrow> JObj [] | Some m \<Rightarrow> JObj m) in
          case SetAppConfigFeatureFlag s storeName name enabled cond of
            (Inl e, s1) \<Rightarrow> (internal_server_error e, s1)
          | (Inr u, s1) \<Rightarrow> (writeJSON 200 (flag_json name enabled
              (case conditions of None \<Rightarrow> JNull | Some m \<Rightarrow> JObj m)), s1)))"

definition getFeatureFlag :: "store \<Rightarrow> Principal \<Rightarrow> string \<Rightarrow> string \<Rightarrow> http_response" where
  "getFeatureFlag s p storeName name =
    (case authorizeStoreDataPlane s p storeName ''read'' of
       Some rs \<Rightarrow> rs
     | None \<Rightarrow> (case GetAppConfigFeatureFlag s storeName name of
         Inl e \<Rightarrow> internal_server_error e
       | Inr None \<Rightarrow> NotFound ''feature flag not found''
       | Inr (Some row) \<Rightarrow> writeJSON 200 (flag_json name (aff_enabled row) (aff_conditions row))))"

definition listFeatureFlags :: "store \<Rightarrow> Principal \<Rightarrow> string \<Rightarrow> http_response" where
  "listFeatureFlags s p storeName =
    (case authorizeStoreDataPlane s p storeName ''read'' of
       Some rs \<Rightarrow> rs
     | None \<Rightarrow> (case ListAppConfigFeatureFlags s storeName of
         Inl e \<Rightarrow> internal_server_error e
       | Inr rows \<Rightarrow> writeJSON 200 (JObj [(''items'', JArr (map (\<lambda>row.
           flag_json (aff_name row) (aff_enabled row) (aff_conditions row)) rows))])))"

section \<open>Snapshots\<close>

definition putSnapshot ::
  "appconfig_env \<Rightarrow> store \<Rightarrow> Principal \<Rightarrow> string \<Rightarrow> string \<Rightarrow> http_response \<times> store" where
  "putSnapshot env s p storeName name =
    (case authorizeStoreDataPlane s p storeName ''write'' of
       Some rs \<Rightarrow> (rs, s)
     | None \<Rightarrow> (case UpsertAppConfigSnapshot s (apc_now env) storeName name ''ready'' of
         (Inl e, s1) \<Rightarrow> (internal_server_error e, s1)
       | (Inr u, s1) \<Rightarrow> (writeJSON 200 (JObj [(''name'', JStr name), (''status'', JStr ''ready'')]), s1)))"

definition snapshot_fields :: "appconfig_env \<Rightarrow> string \<Rightarrow> AppConfigSnapshot \<Rightarrow> (string \<times> json) list" where
  "snapshot_fields env name row =
    [(''name'', JStr name), (''status'', JStr (asn_Status row)),
     (''createdAt'', JStr (apc_format_time env (asn_CreatedAt row)))]"

definition getSnapshot ::
  "appconfig_env \<Rightarrow> store \<Rightarrow> http_request \<Rightarrow> Principal \<Rightarrow> string \<Rightarrow> string \<Rightarrow> http_response" where
  "getSnapshot env s r p storeName name =
    (case authorizeStoreDataPlane s p storeName ''read'' of
       Some rs \<Rightarrow> rs
     | None \<Rightarrow> (case GetAppConfigSnapshot s storeName name of
         Inl e \<Rightarrow> internal_server_error e
       | Inr None \<Rightarrow> NotFound ''snapshot not found''
       | Inr (Some row) \<Rightarrow> (case ListAppConfigSnapshotKV s storeName name (query_get r ''label'') of
           Inl e \<Rightarrow> internal_server_error e
         | Inr rows \<Rightarrow> writeJSON 200 (JObj (snapshot_fields env name row @
             [(''items'', JArr (snapshotItems env rows))])))))"

definition listSnapshots :: "appconfig_env \<Rightarrow> store \<Rightarrow> Principal \<Rightarrow> string \<Rightarrow> http_response" where
  "listSnapshots env s p storeName =
    (case authorizeStoreDataPlane s p storeName ''read'' of
       Some rs \<Rightarrow> rs
     | None \<Rightarrow> (case ListAppConfigSnapshots s storeName of
         Inl e \<Rightarrow> internal_server_error e
       | Inr rows \<Rightarrow> writeJSON 200 (JObj [(''items'', JArr (map (\<lambda>row.
           JObj (snapshot_fields env (asn_Name row) row)) rows))])))"

section \<open>Requests\<close>

definition ac_run_op ::
  "appconfig_env \<Rightarrow> store \<Rightarrow> web_request \<Rightarrow> Principal \<Rightarrow> ac_op \<Rightarrow> http_response \<times> store" where
  "ac_run_op env s r p op =
    (case op of
       PutConfigStore sub rg name \<Rightarrow> putStore env s r p sub rg name
     | GetConfigStore sub rg name \<Rightarrow> (getStore env s r p sub rg name, s)
     | DeleteConfigStore sub rg name \<Rightarrow> deleteStore env s p sub rg name
     | ListConfigStores sub rg \<Rightarrow> (listStores env s r p sub rg, s)
     | GetKeyValue st key \<Rightarrow> (getKV env s (web_http r) p st key, s)
     | PutKeyValue st key \<Rightarrow> putKV env s (web_http r) p st key
     | ListKeyValues st \<Rightarrow> (listKV env s (web_http r) p st, s)
     | PutFlag st name \<Rightarrow> putFeatureFlag s (web_http r) p st name
     | GetFlag st name \<Rightarrow> (getFeatureFlag s p st name, s)
     | ListFlags st \<Rightarrow> (listFeatureFlags s p st, s)
     | PutSnapshot st name \<Rightarrow> putSnapshot env s p st name
     | GetSnapshot st name \<Rightarrow> (getSnapshot env s (web_http r) p st name, s)
     | ListSnapshots st \<Rightarrow> (listSnapshots env s p st, s))"

definition ac_handle ::
  "appconfig_env \<Rightarrow> store \<Rightarrow> Principal option \<Rightarrow> web_request \<Rightarrow> ac_op \<Rightarrow> http_response \<times> store" where
  "ac_handle env s who r op = wrap who s (\<lambda>p. ac_run_op env s r p op)"

end
