(* ===== verification/App_Config_Rules.thy ===== *)
theory App_Config_Rules
  imports App_Config
begin

text \<open>
  What App Configuration keeps: no request passes without a grant, a snapshot is a copy that later writes do
  not reach, and where the data of a store leaks into that of another group.
\<close>

section \<open>Fail closed\<close>

definition ac_allows :: "ac_op \<Rightarrow> Principal \<Rightarrow> bool" where
  "ac_allows op = (case op of
       PutConfigStore sub rg name \<Rightarrow> AllowsARM | GetConfigStore sub rg name \<Rightarrow> AllowsARM
     | DeleteConfigStore sub rg name \<Rightarrow> AllowsARM | ListConfigStores sub rg \<Rightarrow> AllowsARM
     | _ \<Rightarrow> AllowsAppConfig)"

definition ac_data_need :: "store \<Rightarrow> string \<Rightarrow> string \<Rightarrow> string \<times> string" where
  "ac_data_need s st action =
    (''Microsoft.AppConfiguration/configurationStores/keyValues/'' @ action,
     data_scope st (case GetAppConfigByName s st of Inr found \<Rightarrow> found | Inl e \<Rightarrow> None))"

definition ac_need :: "store \<Rightarrow> ac_op \<Rightarrow> string \<times> string" where
  "ac_need s op = (case op of
       PutConfigStore sub rg name \<Rightarrow> (''Microsoft.AppConfiguration/configurationStores/write'', storeResourceID sub rg name)
     | GetConfigStore sub rg name \<Rightarrow> (''Microsoft.AppConfiguration/configurationStores/read'', storeResourceID sub rg name)
     | DeleteConfigStore sub rg name \<Rightarrow> (''Microsoft.AppConfiguration/configurationStores/delete'', storeResourceID sub rg name)
     | ListConfigStores sub rg \<Rightarrow> (''Microsoft.AppConfiguration/configurationStores/read'', group_scope sub rg)
     | GetKeyValue st key \<Rightarrow> ac_data_need s st ''read''
     | PutKeyValue st key \<Rightarrow> ac_data_need s st ''write''
     | ListKeyValues st \<Rightarrow> ac_data_need s st ''read''
     | PutFlag st name \<Rightarrow> ac_data_need s st ''write''
     | GetFlag st name \<Rightarrow> ac_data_need s st ''read''
     | ListFlags st \<Rightarrow> ac_data_need s st ''read''
     | PutSnapshot st name \<Rightarrow> ac_data_need s st ''write''
     | GetSnapshot st name \<Rightarrow> ac_data_need s st ''read''
     | ListSnapshots st \<Rightarrow> ac_data_need s st ''read'')"

lemma data_plane_refuses:
  assumes "\<not> granted AllowsAppConfig s (Some p) (ac_data_need s st action)"
  obtains rs where "authorizeStoreDataPlane s p st action = Some rs" "refusal rs"
proof (cases "GetAppConfigByName s st")
  case (Inl e)
  then show thesis
    by (intro that [of "internal_server_error e"]) (simp_all add: authorizeStoreDataPlane_def refusal_def)
next
  case (Inr found)
  let ?action = "''Microsoft.AppConfiguration/configurationStores/keyValues/'' @ action"
  have "ac_requireDataPlane s p ?action (data_scope st found) \<noteq> None"
    using assms Inr by (simp add: ac_requireDataPlane_def service_gate_passes ac_data_need_def)
  then obtain rs where rs: "ac_requireDataPlane s p ?action (data_scope st found) = Some rs" by blast
  then have "refusal rs"
    unfolding ac_requireDataPlane_def by (rule gate_refuses) (simp add: refusal_def)
  with rs Inr show thesis by (intro that [of rs]) (simp_all add: authorizeStoreDataPlane_def)
qed

lemma data_closed:
  assumes "\<not> granted AllowsAppConfig s (Some p) (ac_data_need s st action)"
  shows "closed s (case authorizeStoreDataPlane s p st action of Some rs \<Rightarrow> (rs, s) | None \<Rightarrow> f)"
    and "refusal (case authorizeStoreDataPlane s p st action of Some rs \<Rightarrow> rs | None \<Rightarrow> g)"
  using assms by (rule data_plane_refuses, simp add: closed_def)+

lemma ac_op_closed:
  assumes "\<not> granted (ac_allows op) s (Some p) (ac_need s op)"
  shows "closed s (ac_run_op env s r p op)"
proof (cases op)
  case (PutConfigStore sub rg name)
  with assms show ?thesis
    by (simp add: ac_run_op_def putStore_def ac_require_def ac_allows_def ac_need_def closed_arm)
next
  case (GetConfigStore sub rg name)
  with assms show ?thesis
    by (simp add: ac_run_op_def getStore_def ac_require_def ac_allows_def ac_need_def closedI closed_arm_read)
next
  case (DeleteConfigStore sub rg name)
  with assms show ?thesis
    by (simp add: ac_run_op_def deleteStore_def ac_require_def ac_allows_def ac_need_def closed_arm)
next
  case (ListConfigStores sub rg)
  with assms show ?thesis
    by (simp add: ac_run_op_def listStores_def ac_require_def ac_allows_def ac_need_def closedI closed_arm_read)
qed (use assms in \<open>simp_all add: ac_run_op_def ac_allows_def ac_need_def getKV_def putKV_def listKV_def
    putFeatureFlag_def getFeatureFlag_def listFeatureFlags_def putSnapshot_def getSnapshot_def listSnapshots_def
    Let_def closedI data_closed\<close>)

text \<open>
  App Configuration fails closed: an answer other than a refusal and any change of the store come only from a
  caller whose token is for the plane of the request, Resource Manager for stores and the data plane's own
  audience for their data, and who is granted the action at the scope of the store.
\<close>

theorem appconfig_fail_closed:
  assumes "rs_code (fst (ac_handle env s who r op)) \<in> {200, 204, 400, 404} \<or> snd (ac_handle env s who r op) \<noteq> s"
  shows "granted (ac_allows op) s who (ac_need s op)"
proof (rule ccontr)
  assume not: "\<not> granted (ac_allows op) s who (ac_need s op)"
  have "closed s (ac_handle env s who r op)"
    unfolding ac_handle_def by (rule closed_wrap) (use not in \<open>simp add: ac_op_closed\<close>)
  moreover have "\<not> closed s (ac_handle env s who r op)"
    by (rule not_closed) (use assms in auto)
  ultimately show False by simp
qed

section \<open>The snapshots of a store\<close>

text \<open>The rows of one snapshot, and the step of a run of requests.\<close>

definition snapshot_rows :: "string \<Rightarrow> string \<Rightarrow> store \<Rightarrow> (string \<times> AppConfigKV) list" where
  "snapshot_rows st snap s = filter (\<lambda>(n, r). akv_Store r = st \<and> n = snap) (tb_snapshot_kvs (st_app_settings s))"

definition has_snapshot :: "string \<Rightarrow> string \<Rightarrow> store \<Rightarrow> bool" where
  "has_snapshot st snap s \<longleftrightarrow> (st, snap) \<in> snap_key ` set (tb_snapshots (st_app_settings s))"

type_synonym ac_request = "appconfig_env \<times> Principal option \<times> web_request \<times> ac_op"

definition ac_step :: "ac_request \<Rightarrow> store \<Rightarrow> store" where
  "ac_step q s = (case q of (env, who, r, op) \<Rightarrow> snd (ac_handle env s who r op))"

definition deletes_store :: "string \<Rightarrow> ac_request \<Rightarrow> bool" where
  "deletes_store st q = (case q of (env, who, r, op) \<Rightarrow> \<exists>sub rg. op = DeleteConfigStore sub rg st)"

text \<open>Everything that is captured belongs to a snapshot.\<close>

definition settings_ok :: "store \<Rightarrow> bool" where
  "settings_ok s \<longleftrightarrow>
    (\<forall>x \<in> set (tb_snapshot_kvs (st_app_settings s)). has_snapshot (akv_Store (snd x)) (fst x) s)"

lemma app_exec_cases:
  "(res, s') = app_exec s v d \<Longrightarrow> s' = s \<or> s' = s\<lparr>st_app_settings := d\<rparr>"
  by (auto simp: app_exec_def db_exec_def split: option.splits)

lemma activity_settings: "st_app_settings (snd (AppendActivityLog s now c o1 i st m)) = st_app_settings s"
  by (simp add: AppendActivityLog_def db_exec_def split: option.split)

text \<open>What a request can do to the settings: the writes, one by one.\<close>

definition settings_write :: "ac_op \<Rightarrow> store \<Rightarrow> store \<Rightarrow> bool" where
  "settings_write op s s1 \<longleftrightarrow> (case op of
       PutConfigStore sub rg name \<Rightarrow> (\<exists>l. s1 = snd (UpsertAppConfig s sub rg name l))
     | DeleteConfigStore sub rg name \<Rightarrow> s1 = snd (DeleteAppConfig s sub rg name)
     | PutKeyValue st key \<Rightarrow> (\<exists>k l v. s1 = snd (SetAppConfigKV s st k l v))
     | PutFlag st name \<Rightarrow> (\<exists>e c. s1 = snd (SetAppConfigFeatureFlag s st name e c))
     | PutSnapshot st name \<Rightarrow> (\<exists>now. s1 = snd (UpsertAppConfigSnapshot s now st name ''ready''))
     | _ \<Rightarrow> False)"

lemma ac_handle_writes:
  "st_app_settings (snd (ac_handle env s who r op)) = st_app_settings s \<or>
   (\<exists>s1. settings_write op s s1 \<and> st_app_settings (snd (ac_handle env s who r op)) = st_app_settings s1)"
proof (cases who)
  case None
  then show ?thesis by (simp add: ac_handle_def wrap_def)
next
  case (Some p)
  show ?thesis
  proof (cases op)
    case (PutConfigStore sub rg name)
    with Some show ?thesis
      by (cases "UpsertAppConfig s sub rg name (let given = fst (decode_put_body (rq_json (web_http r))) in
            if given = [] then ''eastus'' else given)")
        (auto simp: ac_handle_def wrap_def ac_run_op_def putStore_def settings_write_def Let_def activity_settings
          split: option.splits sum.splits dest!: state_of)
  next
    case (DeleteConfigStore sub rg name)
    with Some show ?thesis
      by (cases "DeleteAppConfig s sub rg name")
        (auto simp: ac_handle_def wrap_def ac_run_op_def deleteStore_def settings_write_def activity_settings
          split: option.splits sum.splits)
  next
    case (PutKeyValue st key)
    with Some show ?thesis
      by (auto simp: ac_handle_def wrap_def ac_run_op_def putKV_def settings_write_def Let_def
          split: option.splits sum.splits prod.splits dest!: state_of)
  next
    case (PutFlag st name)
    with Some show ?thesis
      by (auto simp: ac_handle_def wrap_def ac_run_op_def putFeatureFlag_def settings_write_def Let_def
          split: option.splits sum.splits prod.splits dest!: state_of)
  next
    case (PutSnapshot st name)
    with Some show ?thesis
      by (cases "UpsertAppConfigSnapshot s (apc_now env) st name ''ready''")
        (auto simp: ac_handle_def wrap_def ac_run_op_def putSnapshot_def settings_write_def
          split: option.splits sum.splits dest!: state_of)
  qed (use Some in \<open>simp_all add: ac_handle_def wrap_def ac_run_op_def\<close>)
qed

definition captured :: "string \<Rightarrow> string \<Rightarrow> AppConfigKV list \<Rightarrow> (string \<times> AppConfigKV) list" where
  "captured st snap kvs = map (\<lambda>kv. (snap, kv\<lparr>akv_Store := st\<rparr>)) kvs"

definition with_captured :: "store \<Rightarrow> (string \<times> AppConfigKV) list \<Rightarrow> store" where
  "with_captured s rows = s\<lparr>st_app_settings := (st_app_settings s)
     \<lparr>tb_snapshot_kvs := tb_snapshot_kvs (st_app_settings s) @ rows\<rparr>\<rparr>"

lemma with_captured_simps [simp]:
  "with_captured s [] = s"
  "with_captured (with_captured s a) b = with_captured s (a @ b)"
  "db_fault (with_captured s a) = db_fault s"
  "tb_snapshot_kvs (st_app_settings (with_captured s a)) = tb_snapshot_kvs (st_app_settings s) @ a"
  "tb_snapshots (st_app_settings (with_captured s a)) = tb_snapshots (st_app_settings s)"
  "tb_appconfig_kvs (st_app_settings (with_captured s a)) = tb_appconfig_kvs (st_app_settings s)"
  by (simp_all add: with_captured_def)

lemma capture_prefix:
  "\<exists>k. snd (capture_kvs st snap kvs s) = with_captured s (captured st snap (take k kvs)) \<and>
    (fst (capture_kvs st snap kvs s) = Inr () \<longrightarrow> k = length kvs)"
proof (induction kvs arbitrary: s)
  case Nil
  show ?case by (intro exI [of _ 0]) (simp add: captured_def)
next
  case (Cons kv kvs)
  let ?row = "(snap, kv\<lparr>akv_Store := st\<rparr>)"
  let ?one = "with_captured s [?row]"
  have stop: ?case if "snd (capture_kvs st snap (kv # kvs) s) = s" "fst (capture_kvs st snap (kv # kvs) s) \<noteq> Inr ()"
    using that by (intro exI [of _ 0]) (simp add: captured_def)
  show ?case
  proof (cases "db_fault s")
    case (Some e)
    then have "capture_kvs st snap (kv # kvs) s = (Inl e, s)"
      by (simp add: Let_def app_exec_def db_exec_def)
    then show ?thesis by (intro stop) simp_all
  next
    case healthy: None
    show ?thesis
    proof (cases "list_ex (\<lambda>r. captured_key r = captured_key ?row) (tb_snapshot_kvs (st_app_settings s))")
      case True
      with healthy have "capture_kvs st snap (kv # kvs) s = (Inl ''UNIQUE constraint failed'', s)"
        by (simp add: Let_def)
      then show ?thesis by (intro stop) simp_all
    next
      case False
      with healthy have step: "capture_kvs st snap (kv # kvs) s = capture_kvs st snap kvs ?one"
        by (simp add: Let_def app_exec_def db_exec_def with_captured_def)
      from Cons.IH [of ?one] obtain k where
        "snd (capture_kvs st snap kvs ?one) = with_captured ?one (captured st snap (take k kvs))"
        "fst (capture_kvs st snap kvs ?one) = Inr () \<longrightarrow> k = length kvs" by blast
      then show ?thesis by (intro exI [of _ "Suc k"]) (simp add: step captured_def del: capture_kvs.simps)
    qed
  qed
qed

text \<open>A snapshot is updated when it exists, and otherwise created with some of the key-values of its store.\<close>

lemma snapshot_cases:
  obtains (same) "snd (UpsertAppConfigSnapshot s now st snap status) = s"
    "fst (UpsertAppConfigSnapshot s now st snap status) \<noteq> Inr ()"
  | (status) "has_snapshot st snap s"
    "snd (UpsertAppConfigSnapshot s now st snap status) = s\<lparr>st_app_settings := (st_app_settings s)
      \<lparr>tb_snapshots := map (\<lambda>r. if snap_key r = (st, snap)
        then r\<lparr>asn_Status := if status = [] then ''ready'' else status\<rparr> else r) (tb_snapshots (st_app_settings s))\<rparr>\<rparr>"
  | (create) row k where "\<not> has_snapshot st snap s" "snap_key row = (st, snap)" "db_fault s = None"
    "snd (UpsertAppConfigSnapshot s now st snap status) =
      with_captured (s\<lparr>st_app_settings := (st_app_settings s)
        \<lparr>tb_snapshots := tb_snapshots (st_app_settings s) @ [row]\<rparr>\<rparr>)
      (captured st snap (take k (sort_kvs (filter (\<lambda>r. akv_Store r = st) (tb_appconfig_kvs (st_app_settings s))))))"
    "fst (UpsertAppConfigSnapshot s now st snap status) = Inr () \<Longrightarrow>
      k = length (filter (\<lambda>r. akv_Store r = st) (tb_appconfig_kvs (st_app_settings s)))"
proof (cases "db_fault s")
  case (Some e)
  then show thesis
    by (intro same) (simp_all add: UpsertAppConfigSnapshot_def GetAppConfigSnapshot_def db_query_def Let_def)
next
  case healthy: None
  have absent: "tbl_get snap_key (tb_snapshots (st_app_settings s)) (st, snap) = None \<longleftrightarrow> \<not> has_snapshot st snap s"
    by (force simp: tbl_get_def find_None_iff has_snapshot_def)
  show thesis
  proof (cases "has_snapshot st snap s")
    case True
    with absent obtain row where "tbl_get snap_key (tb_snapshots (st_app_settings s)) (st, snap) = Some row" by auto
    with True healthy show thesis
      by (intro status) (simp_all add: UpsertAppConfigSnapshot_def GetAppConfigSnapshot_def db_query_def Let_def
        app_exec_def db_exec_def)
  next
    case False
    define row where "row = \<lparr>asn_Store = st, asn_Name = snap,
      asn_Status = (if status = [] then ''ready'' else status), asn_CreatedAt = now div nanos\<rparr>"
    define s1 where "s1 = s\<lparr>st_app_settings := (st_app_settings s)
        \<lparr>tb_snapshots := tb_snapshots (st_app_settings s) @ [row]\<rparr>\<rparr>"
    define kvs where "kvs = sort_kvs (filter (\<lambda>r. akv_Store r = st) (tb_appconfig_kvs (st_app_settings s)))"
    have whole: "UpsertAppConfigSnapshot s now st snap status = capture_kvs st snap kvs s1"
      using False healthy absent
      by (simp add: UpsertAppConfigSnapshot_def GetAppConfigSnapshot_def ListAppConfigKV_def db_query_def Let_def
        app_exec_def db_exec_def row_def s1_def kvs_def)
    from capture_prefix [of st snap kvs s1] obtain k where
      k: "snd (capture_kvs st snap kvs s1) = with_captured s1 (captured st snap (take k kvs))"
      "fst (capture_kvs st snap kvs s1) = Inr () \<longrightarrow> k = length kvs" by blast
    show thesis
    proof (rule create [of row k])
      show "\<not> has_snapshot st snap s" by (rule False)
      show "snap_key row = (st, snap)" by (simp add: snap_key_def row_def)
      show "db_fault s = None" by (rule healthy)
      show "snd (UpsertAppConfigSnapshot s now st snap status) =
        with_captured (s\<lparr>st_app_settings := (st_app_settings s)
          \<lparr>tb_snapshots := tb_snapshots (st_app_settings s) @ [row]\<rparr>\<rparr>)
        (captured st snap (take k (sort_kvs (filter (\<lambda>r. akv_Store r = st) (tb_appconfig_kvs (st_app_settings s))))))"
        using k(1) by (simp add: whole s1_def kvs_def)
      show "k = length (filter (\<lambda>r. akv_Store r = st) (tb_appconfig_kvs (st_app_settings s)))"
        if "fst (UpsertAppConfigSnapshot s now st snap status) = Inr ()"
        using k(2) that by (simp add: whole kvs_def sort_kvs_def)
    qed
  qed
qed

lemmas settings_views = snapshot_rows_def has_snapshot_def settings_ok_def

lemma same_settings:
  assumes "st_app_settings s = st_app_settings s'"
  shows "snapshot_rows st snap s = snapshot_rows st snap s'" "has_snapshot st snap s = has_snapshot st snap s'"
    "settings_ok s = settings_ok s'"
  using assms by (simp_all add: settings_views)

lemma status_keeps:
  assumes "tb_snapshots (st_app_settings s1) =
      map (\<lambda>r. if snap_key r = key then r\<lparr>asn_Status := v\<rparr> else r) (tb_snapshots (st_app_settings s))"
    "tb_snapshot_kvs (st_app_settings s1) = tb_snapshot_kvs (st_app_settings s)"
  shows "snapshot_rows st snap s1 = snapshot_rows st snap s" "has_snapshot st snap s1 = has_snapshot st snap s"
    "settings_ok s1 = settings_ok s"
proof -
  define f where "f = (\<lambda>r. if snap_key r = key then r\<lparr>asn_Status := v\<rparr> else r)"
  have "snap_key (f r) = snap_key r" for r by (simp add: f_def snap_key_def)
  then have "map snap_key (map f xs) = map snap_key xs" for xs by simp
  then have "set (map snap_key (map f xs)) = set (map snap_key xs)" for xs by (rule arg_cong)
  then have keys: "snap_key ` set (tb_snapshots (st_app_settings s1)) = snap_key ` set (tb_snapshots (st_app_settings s))"
    using assms(1) by (simp add: f_def [symmetric] image_image)
  show "snapshot_rows st snap s1 = snapshot_rows st snap s" "has_snapshot st snap s1 = has_snapshot st snap s"
    "settings_ok s1 = settings_ok s"
    by (simp_all add: settings_views keys assms(2))
qed

lemma captured_in: "x \<in> set (captured st snap kvs) \<Longrightarrow> fst x = snap \<and> akv_Store (snd x) = st"
  by (auto simp: captured_def)

lemma create_keeps:
  assumes "tb_snapshots (st_app_settings s1) = tb_snapshots (st_app_settings s) @ [row]" "snap_key row = (st', snap')"
    "tb_snapshot_kvs (st_app_settings s1) = tb_snapshot_kvs (st_app_settings s) @ captured st' snap' kvs"
  shows "(st, snap) \<noteq> (st', snap') \<Longrightarrow> snapshot_rows st snap s1 = snapshot_rows st snap s"
    "has_snapshot st snap s \<Longrightarrow> has_snapshot st snap s1"
    "settings_ok s \<Longrightarrow> settings_ok s1"
proof -
  show "snapshot_rows st snap s1 = snapshot_rows st snap s" if "(st, snap) \<noteq> (st', snap')"
  proof -
    have "filter (\<lambda>(n, r). akv_Store r = st \<and> n = snap) (captured st' snap' kvs) = []"
      using that by (auto simp: filter_empty_conv dest!: captured_in)
    then show ?thesis by (simp add: snapshot_rows_def assms(3))
  qed
  show "has_snapshot st snap s1" if "has_snapshot st snap s" for st snap
    using that by (auto simp: has_snapshot_def assms(1))
  note keep = this
  have new: "has_snapshot st' snap' s1" by (simp add: has_snapshot_def assms(1,2) image_iff)
  show "settings_ok s1" if "settings_ok s"
    unfolding settings_ok_def
  proof
    fix x assume "x \<in> set (tb_snapshot_kvs (st_app_settings s1))"
    then consider "x \<in> set (tb_snapshot_kvs (st_app_settings s))" | "x \<in> set (captured st' snap' kvs)"
      by (auto simp: assms(3))
    then show "has_snapshot (akv_Store (snd x)) (fst x) s1"
    proof cases
      case 1
      with that show ?thesis by (intro keep) (simp add: settings_ok_def)
    next
      case 2
      with new captured_in [OF this] show ?thesis by simp
    qed
  qed
qed

lemma delete_keeps:
  assumes "s1 = snd (DeleteAppConfig s sub rg name)"
  shows "name \<noteq> st \<Longrightarrow> snapshot_rows st snap s1 = snapshot_rows st snap s"
    "name \<noteq> st \<Longrightarrow> has_snapshot st snap s \<Longrightarrow> has_snapshot st snap s1"
    "settings_ok s \<Longrightarrow> settings_ok s1"
proof -
  have outcome: "s1 = s \<or>
      tb_snapshots (st_app_settings s1) = filter (\<lambda>r. asn_Store r \<noteq> name) (tb_snapshots (st_app_settings s)) \<and>
      tb_snapshot_kvs (st_app_settings s1) = filter (\<lambda>x. akv_Store (snd x) \<noteq> name) (tb_snapshot_kvs (st_app_settings s))"
    by (cases "db_fault s";
        cases "tbl_count (\<lambda>r. ac_key r = (sub, rg, name)) (tb_appconfig_stores (st_app_settings s)) = 0")
      (simp_all add: assms DeleteAppConfig_def Let_def app_exec_def db_exec_def tbl_delete_def)
  consider (same) "s1 = s"
    | (gone) "tb_snapshots (st_app_settings s1) = filter (\<lambda>r. asn_Store r \<noteq> name) (tb_snapshots (st_app_settings s))"
      "tb_snapshot_kvs (st_app_settings s1) = filter (\<lambda>x. akv_Store (snd x) \<noteq> name) (tb_snapshot_kvs (st_app_settings s))"
    using outcome by blast
  then have "(name \<noteq> st \<longrightarrow> snapshot_rows st snap s1 = snapshot_rows st snap s) \<and>
      (name \<noteq> st \<longrightarrow> has_snapshot st snap s \<longrightarrow> has_snapshot st snap s1) \<and> (settings_ok s \<longrightarrow> settings_ok s1)"
  proof cases
    case same
    then show ?thesis by simp
  next
    case gone
    have keep: "has_snapshot x n s1" if "has_snapshot x n s" "name \<noteq> x" for x n
      using that by (auto simp: has_snapshot_def gone snap_key_def image_iff)
    have "snapshot_rows st snap s1 = snapshot_rows st snap s" if "name \<noteq> st"
      using that unfolding snapshot_rows_def gone filter_filter by (intro filter_cong) auto
    moreover have "settings_ok s1" if "settings_ok s"
      using that keep by (auto simp: settings_ok_def gone(2))
    ultimately show ?thesis using keep by blast
  qed
  then show "name \<noteq> st \<Longrightarrow> snapshot_rows st snap s1 = snapshot_rows st snap s"
    "name \<noteq> st \<Longrightarrow> has_snapshot st snap s \<Longrightarrow> has_snapshot st snap s1"
    "settings_ok s \<Longrightarrow> settings_ok s1" by blast+
qed

lemma snapshot_write_keeps:
  assumes "s1 = snd (UpsertAppConfigSnapshot s now st' snap' status)"
  shows "has_snapshot st snap s \<Longrightarrow> snapshot_rows st snap s1 = snapshot_rows st snap s"
    "has_snapshot st snap s \<Longrightarrow> has_snapshot st snap s1"
    "settings_ok s \<Longrightarrow> settings_ok s1"
proof -
  have "(has_snapshot st snap s \<longrightarrow> snapshot_rows st snap s1 = snapshot_rows st snap s) \<and>
      (has_snapshot st snap s \<longrightarrow> has_snapshot st snap s1) \<and> (settings_ok s \<longrightarrow> settings_ok s1)"
  proof (cases rule: snapshot_cases [of s now st' snap' status])
    case same
    with assms show ?thesis by simp
  next
    case status
    let ?v = "if status = [] then ''ready'' else status"
    have "tb_snapshots (st_app_settings s1) = map (\<lambda>r. if snap_key r = (st', snap') then r\<lparr>asn_Status := ?v\<rparr> else r)
        (tb_snapshots (st_app_settings s))"
      "tb_snapshot_kvs (st_app_settings s1) = tb_snapshot_kvs (st_app_settings s)"
      by (simp_all add: assms status)
    from status_keeps [OF this] show ?thesis by simp
  next
    case (create row k)
    let ?kvs = "take k (sort_kvs (filter (\<lambda>r. akv_Store r = st') (tb_appconfig_kvs (st_app_settings s))))"
    have "tb_snapshots (st_app_settings s1) = tb_snapshots (st_app_settings s) @ [row]"
      "tb_snapshot_kvs (st_app_settings s1) = tb_snapshot_kvs (st_app_settings s) @ captured st' snap' ?kvs"
      by (simp_all add: assms create)
    note keep = create_keeps [OF this(1) create(2) this(2)]
    have "(st, snap) \<noteq> (st', snap')" if "has_snapshot st snap s" using that create(1) by auto
    with keep show ?thesis by blast
  qed
  then show "has_snapshot st snap s \<Longrightarrow> snapshot_rows st snap s1 = snapshot_rows st snap s"
    "has_snapshot st snap s \<Longrightarrow> has_snapshot st snap s1"
    "settings_ok s \<Longrightarrow> settings_ok s1" by blast+
qed

lemma write_keeps:
  assumes "settings_write op s s1"
  shows "settings_ok s \<Longrightarrow> settings_ok s1"
    "has_snapshot st snap s \<Longrightarrow> \<not> (\<exists>sub rg. op = DeleteConfigStore sub rg st) \<Longrightarrow>
      has_snapshot st snap s1 \<and> snapshot_rows st snap s1 = snapshot_rows st snap s"
proof -
  have frame: "tb_snapshots (st_app_settings s2) = tb_snapshots (st_app_settings s) \<Longrightarrow>
      tb_snapshot_kvs (st_app_settings s2) = tb_snapshot_kvs (st_app_settings s) \<Longrightarrow>
      (settings_ok s \<longrightarrow> settings_ok s2) \<and> (has_snapshot st snap s \<longrightarrow> has_snapshot st snap s2 \<and>
        snapshot_rows st snap s2 = snapshot_rows st snap s)" for s2
    by (simp add: settings_views)
  have "(settings_ok s \<longrightarrow> settings_ok s1) \<and>
    (has_snapshot st snap s \<and> \<not> (\<exists>sub rg. op = DeleteConfigStore sub rg st) \<longrightarrow>
      has_snapshot st snap s1 \<and> snapshot_rows st snap s1 = snapshot_rows st snap s)"
  proof (cases op)
    case (PutConfigStore sub rg name)
    with assms obtain l where "s1 = snd (UpsertAppConfig s sub rg name l)" by (auto simp: settings_write_def)
    then show ?thesis
      using frame [of s1] by (auto simp: UpsertAppConfig_def Let_def app_exec_def db_exec_def split: option.splits)
  next
    case (DeleteConfigStore sub rg name)
    with assms have "s1 = snd (DeleteAppConfig s sub rg name)" by (simp add: settings_write_def)
    from delete_keeps [OF this] DeleteConfigStore show ?thesis by auto
  next
    case (PutKeyValue st' key)
    with assms obtain k l v where "s1 = snd (SetAppConfigKV s st' k l v)" by (auto simp: settings_write_def)
    then show ?thesis
      using frame [of s1] by (auto simp: SetAppConfigKV_def Let_def app_exec_def db_exec_def split: option.splits if_splits)
  next
    case (PutFlag st' name)
    with assms obtain e c where "s1 = snd (SetAppConfigFeatureFlag s st' name e c)" by (auto simp: settings_write_def)
    then show ?thesis
      using frame [of s1] by (auto simp: SetAppConfigFeatureFlag_def Let_def app_exec_def db_exec_def split: option.splits)
  next
    case (PutSnapshot st' name)
    with assms obtain now where "s1 = snd (UpsertAppConfigSnapshot s now st' name ''ready'')"
      by (auto simp: settings_write_def)
    from snapshot_write_keeps [OF this] show ?thesis by blast
  qed (use assms in \<open>simp_all add: settings_write_def\<close>)
  then show "settings_ok s \<Longrightarrow> settings_ok s1"
    "has_snapshot st snap s \<Longrightarrow> \<not> (\<exists>sub rg. op = DeleteConfigStore sub rg st) \<Longrightarrow>
      has_snapshot st snap s1 \<and> snapshot_rows st snap s1 = snapshot_rows st snap s" by blast+
qed

lemma step_keeps:
  shows "settings_ok s \<Longrightarrow> settings_ok (ac_step q s)"
    "has_snapshot st snap s \<Longrightarrow> \<not> deletes_store st q \<Longrightarrow>
      has_snapshot st snap (ac_step q s) \<and> snapshot_rows st snap (ac_step q s) = snapshot_rows st snap s"
proof -
  obtain env who r op where q: "q = (env, who, r, op)" by (rule prod_cases4)
  have step: "ac_step q s = snd (ac_handle env s who r op)" by (simp add: ac_step_def q)
  have del: "deletes_store st q \<longleftrightarrow> (\<exists>sub rg. op = DeleteConfigStore sub rg st)" by (simp add: deletes_store_def q)
  from ac_handle_writes [of env s who r op]
  consider (none) "st_app_settings (ac_step q s) = st_app_settings s"
    | (one) s1 where "settings_write op s s1" "st_app_settings (ac_step q s) = st_app_settings s1"
    by (auto simp: step)
  then have "(settings_ok s \<longrightarrow> settings_ok (ac_step q s)) \<and>
    (has_snapshot st snap s \<and> \<not> deletes_store st q \<longrightarrow>
      has_snapshot st snap (ac_step q s) \<and> snapshot_rows st snap (ac_step q s) = snapshot_rows st snap s)"
  proof cases
    case none
    from same_settings [OF none] show ?thesis by simp
  next
    case one
    from write_keeps [OF one(1)] have "(settings_ok s \<longrightarrow> settings_ok s1) \<and>
        (has_snapshot st snap s \<and> \<not> deletes_store st q \<longrightarrow>
          has_snapshot st snap s1 \<and> snapshot_rows st snap s1 = snapshot_rows st snap s)"
      by (simp add: del)
    with same_settings [OF one(2)] show ?thesis by simp
  qed
  then show "settings_ok s \<Longrightarrow> settings_ok (ac_step q s)"
    "has_snapshot st snap s \<Longrightarrow> \<not> deletes_store st q \<Longrightarrow>
      has_snapshot st snap (ac_step q s) \<and> snapshot_rows st snap (ac_step q s) = snapshot_rows st snap s"
    by blast+
qed

lemma run_settings_ok: "settings_ok s \<Longrightarrow> settings_ok (fold ac_step qs s)"
  by (induction qs arbitrary: s) (simp_all add: step_keeps)

lemma run_keeps_snapshot:
  "has_snapshot st snap s \<Longrightarrow> \<not> list_ex (deletes_store st) qs \<Longrightarrow>
    snapshot_rows st snap (fold ac_step qs s) = snapshot_rows st snap s"
  by (induction qs arbitrary: s) (simp_all add: step_keeps)

lemma sort_kvs_idem: "sort_kvs (sort_kvs rows) = sort_kvs rows"
proof -
  define ys where "ys = sort_key akv_Key (sort_key akv_Label rows)"
  have "sort_key akv_Key (sort_key akv_Label ys) = ys"
  proof (rule properties_for_sort_key)
    show "mset ys = mset (sort_key akv_Label ys)" by simp
    show "sorted (map akv_Key ys)" by (simp add: ys_def)
    fix k assume "k \<in> set ys"
    have "filter (\<lambda>y. akv_Key k = akv_Key y) ys = filter (\<lambda>y. akv_Key k = akv_Key y) (sort_key akv_Label rows)"
      using sort_key_stable [of akv_Key "akv_Key k" "sort_key akv_Label rows"]
      by (simp add: ys_def eq_commute [of "akv_Key k"])
    then have "filter (\<lambda>y. akv_Key k = akv_Key y) ys = sort_key akv_Label (filter (\<lambda>y. akv_Key k = akv_Key y) rows)"
      by (simp add: filter_sort)
    then have "sorted (map akv_Label (filter (\<lambda>y. akv_Key k = akv_Key y) ys))" by simp
    then show "filter (\<lambda>y. akv_Key k = akv_Key y) ys = filter (\<lambda>y. akv_Key k = akv_Key y) (sort_key akv_Label ys)"
      by (simp add: filter_sort sort_key_id_if_sorted)
  qed
  then show ?thesis by (simp add: sort_kvs_def ys_def)
qed


lemma created_rows:
  assumes "settings_ok s" "\<not> has_snapshot st snap s" "fst (UpsertAppConfigSnapshot s now st snap status) = Inr ()"
  shows "snapshot_rows st snap (snd (UpsertAppConfigSnapshot s now st snap status)) =
      map (Pair snap) (sort_kvs (filter (\<lambda>r. akv_Store r = st) (tb_appconfig_kvs (st_app_settings s)))) \<and>
    has_snapshot st snap (snd (UpsertAppConfigSnapshot s now st snap status)) \<and> db_fault s = None"
proof (cases rule: snapshot_cases [of s now st snap status])
  case same
  with assms(3) show ?thesis by simp
next
  case status
  with assms(2) show ?thesis by simp
next
  case (create row k)
  let ?kvs = "filter (\<lambda>r. akv_Store r = st) (tb_appconfig_kvs (st_app_settings s))"
  have k: "take k (sort_kvs ?kvs) = sort_kvs ?kvs" using create(5) assms(3) by (simp add: sort_kvs_def)
  have "x \<in> set (sort_kvs ?kvs) \<Longrightarrow> x\<lparr>akv_Store := st\<rparr> = x" for x by (auto simp: sort_kvs_def)
  then have rows: "captured st snap (sort_kvs ?kvs) = map (Pair snap) (sort_kvs ?kvs)"
    unfolding captured_def by (intro map_cong refl) simp
  have "filter (\<lambda>(n, r). akv_Store r = st \<and> n = snap) (tb_snapshot_kvs (st_app_settings s)) = []"
    using assms(1,2) by (auto simp: filter_empty_conv settings_ok_def)
  moreover have "filter (\<lambda>(n, r). akv_Store r = st \<and> n = snap) (map (Pair snap) (sort_kvs ?kvs)) =
      map (Pair snap) (sort_kvs ?kvs)"
    by (rule filter_True) (auto simp: sort_kvs_def)
  ultimately have "snapshot_rows st snap (snd (UpsertAppConfigSnapshot s now st snap status)) =
      map (Pair snap) (sort_kvs ?kvs)"
    unfolding snapshot_rows_def create(4) k rows by (simp only: with_captured_simps filter_append) simp
  moreover have "has_snapshot st snap (snd (UpsertAppConfigSnapshot s now st snap status))"
    unfolding has_snapshot_def create(4) using create(2) by simp
  ultimately show ?thesis using create(3) by simp
qed


lemma exec_fault: "db_fault (snd (app_exec s v d)) = db_fault s"
  by (simp add: app_exec_def db_exec_fault)

lemma capture_fault: "db_fault (snd (capture_kvs st snap kvs s)) = db_fault s"
  using capture_prefix [of st snap kvs s] by (elim exE conjE) simp

lemma snapshot_write_fault: "db_fault (snd (UpsertAppConfigSnapshot s now st snap status)) = db_fault s"
  by (cases rule: snapshot_cases [of s now st snap status]) simp_all

lemma activity_fault: "db_fault (snd (AppendActivityLog s now c o1 i st m)) = db_fault s"
  by (simp add: AppendActivityLog_def db_exec_fault)

lemma fault_of: "f = (r, s1) \<Longrightarrow> db_fault (snd f) = db_fault s \<Longrightarrow> db_fault s1 = db_fault s"
  by simp

lemma ac_run_fault: "db_fault (snd (ac_run_op env s r p op)) = db_fault s"
proof (cases op)
  case (PutConfigStore sub rg name)
  have w: "db_fault (snd (UpsertAppConfig s sub rg name l)) = db_fault s" for l
    by (simp add: UpsertAppConfig_def Let_def exec_fault)
  from PutConfigStore show ?thesis
    by (auto simp: ac_run_op_def putStore_def Let_def activity_fault dest: fault_of [OF _ w]
      split: option.split prod.split sum.split)
next
  case (DeleteConfigStore sub rg name)
  have w: "db_fault (snd (DeleteAppConfig s sub rg name)) = db_fault s"
    by (simp add: DeleteAppConfig_def Let_def exec_fault)
  from DeleteConfigStore show ?thesis
    by (auto simp: ac_run_op_def deleteStore_def activity_fault dest: fault_of [OF _ w]
      split: option.split prod.split sum.split)
next
  case (PutKeyValue st key)
  have w: "db_fault (snd (SetAppConfigKV s st k l v)) = db_fault s" for k l v
    by (simp add: SetAppConfigKV_def Let_def exec_fault)
  from PutKeyValue show ?thesis
    by (auto simp: ac_run_op_def putKV_def Let_def dest: fault_of [OF _ w] split: option.split prod.split sum.split)
next
  case (PutFlag st name)
  have w: "db_fault (snd (SetAppConfigFeatureFlag s st name e c)) = db_fault s" for e c
    by (simp add: SetAppConfigFeatureFlag_def Let_def exec_fault)
  from PutFlag show ?thesis
    by (auto simp: ac_run_op_def putFeatureFlag_def Let_def dest: fault_of [OF _ w]
      split: option.split prod.split sum.split)
next
  case (PutSnapshot st name)
  from PutSnapshot show ?thesis
    by (auto simp: ac_run_op_def putSnapshot_def dest: fault_of [OF _ snapshot_write_fault]
      split: option.split prod.split sum.split)
qed (simp_all add: ac_run_op_def)

lemma run_fault: "db_fault (fold ac_step qs s) = db_fault s"
proof (induction qs arbitrary: s)
  case (Cons q qs)
  obtain env who r op where "q = (env, who, r, op)" by (rule prod_cases4)
  then have "db_fault (ac_step q s) = db_fault s"
    by (simp add: ac_step_def ac_handle_def wrap_def ac_run_fault split: option.split)
  with Cons.IH [of "ac_step q s"] show ?case by simp
qed simp

lemma snapshot_list:
  "ListAppConfigSnapshotKV s st snap [] = db_query s (sort_kvs (map snd (snapshot_rows st snap s)))"
  by (simp add: ListAppConfigSnapshotKV_def snapshot_rows_def split_def)

text \<open>
  C21: a snapshot is a frozen copy: whatever requests ran before on a store in order, once the creation of a new
  snapshot succeeds, every later list of it answers with exactly the key-values its store had at that moment,
  whatever requests run in between, as long as no store of that name is deleted.
\<close>

theorem snapshot_is_a_frozen_copy:
  assumes "settings_ok s0" "s = fold ac_step before s0" "\<not> has_snapshot st snap s"
    and "rs_code (fst (ac_handle env s who r (PutSnapshot st snap))) = 200"
    and "s1 = snd (ac_handle env s who r (PutSnapshot st snap))"
    and "\<not> list_ex (deletes_store st) later"
  shows "ListAppConfigSnapshotKV (fold ac_step later s1) st snap [] = ListAppConfigKV s st []"
proof -
  from assms(4) obtain p where who: "who = Some p" by (cases who) (auto simp: ac_handle_def wrap_def)
  obtain res s2 where up: "UpsertAppConfigSnapshot s (apc_now env) st snap ''ready'' = (res, s2)"
    by (rule prod.exhaust)
  have open_gate: "authorizeStoreDataPlane s p st ''write'' = None"
  proof (rule ccontr)
    assume "authorizeStoreDataPlane s p st ''write'' \<noteq> None"
    then obtain rs where rs: "authorizeStoreDataPlane s p st ''write'' = Some rs" by blast
    then have "rs_code rs \<in> {401, 403, 404, 500}"
      by (auto simp: authorizeStoreDataPlane_def ac_requireDataPlane_def refusal_def split: sum.splits option.splits if_splits
        dest!: gate_refuses)
    with assms(4) rs who show False by (simp add: ac_handle_def wrap_def ac_run_op_def putSnapshot_def)
  qed
  have whole: "ac_handle env s who r (PutSnapshot st snap) = (case res of Inl e \<Rightarrow> (internal_server_error e, s2)
      | Inr u \<Rightarrow> (writeJSON 200 (JObj [(''name'', JStr snap), (''status'', JStr ''ready'')]), s2))"
    by (simp add: who ac_handle_def wrap_def ac_run_op_def putSnapshot_def open_gate up)
  then have res: "res = Inr ()" using assms(4) by (cases res) simp_all
  with whole assms(5) have s1: "s1 = snd (UpsertAppConfigSnapshot s (apc_now env) st snap ''ready'')" by (simp add: up)
  have "settings_ok s" unfolding assms(2) by (rule run_settings_ok) (rule assms(1))
  from created_rows [OF this assms(3), of "apc_now env" "''ready''"] res up s1 have created:
    "snapshot_rows st snap s1 = map (Pair snap) (sort_kvs (filter (\<lambda>r. akv_Store r = st) (tb_appconfig_kvs (st_app_settings s))))"
    "has_snapshot st snap s1" "db_fault s = None" by simp_all
  have "db_fault (fold ac_step later s1) = None"
    by (simp add: run_fault s1 snapshot_write_fault created(3))
  moreover have "snapshot_rows st snap (fold ac_step later s1) = snapshot_rows st snap s1"
    by (rule run_keeps_snapshot [OF created(2) assms(6)])
  ultimately show ?thesis
    by (simp add: snapshot_list created(1,3) db_query_def ListAppConfigKV_def sort_kvs_idem comp_def)
qed

section \<open>Where names are not enough\<close>

text \<open>
  The data of a store is keyed by its name: deleting a store empties every store of its name, in whatever
  subscription and group.
\<close>

lemma deletion_empties_namesakes:
  assumes "db_fault s = None" "GetAppConfig s sub rg name = Inr (Some row)"
  shows "ListAppConfigKV (snd (DeleteAppConfig s sub rg name)) name [] = Inr []"
    "(sub', rg') \<noteq> (sub, rg) \<Longrightarrow>
      GetAppConfig (snd (DeleteAppConfig s sub rg name)) sub' rg' name = GetAppConfig s sub' rg' name"
proof -
  let ?t = "tb_appconfig_stores (st_app_settings s)"
  let ?hit = "\<lambda>r. ac_key r = (sub, rg, name)"
  have "find ?hit ?t \<noteq> None" using assms by (simp add: GetAppConfig_def db_query_def tbl_get_def)
  then have "tbl_count ?hit ?t \<noteq> 0" by (auto simp: tbl_count_def find_None_iff filter_empty_conv)
  then have s1: "snd (DeleteAppConfig s sub rg name) = s\<lparr>st_app_settings := (st_app_settings s)\<lparr>
       tb_snapshot_kvs := tbl_delete (\<lambda>r. akv_Store (snd r) = name) (tb_snapshot_kvs (st_app_settings s)),
       tb_snapshots := tbl_delete (\<lambda>r. asn_Store r = name) (tb_snapshots (st_app_settings s)),
       tb_feature_flags := tbl_delete (\<lambda>r. aff_store r = name) (tb_feature_flags (st_app_settings s)),
       tb_appconfig_kvs := tbl_delete (\<lambda>r. akv_Store r = name) (tb_appconfig_kvs (st_app_settings s)),
       tb_appconfig_stores := tbl_delete ?hit ?t\<rparr>\<rparr>"
    using assms(1) by (simp add: DeleteAppConfig_def Let_def app_exec_def db_exec_def)
  show "ListAppConfigKV (snd (DeleteAppConfig s sub rg name)) name [] = Inr []"
    using assms(1) by (simp add: s1 ListAppConfigKV_def db_query_def tbl_delete_def sort_kvs_def filter_empty_conv)
  show "GetAppConfig (snd (DeleteAppConfig s sub rg name)) sub' rg' name = GetAppConfig s sub' rg' name"
    if "(sub', rg') \<noteq> (sub, rg)"
  proof -
    have "tbl_get ac_key (tbl_delete ?hit t) (sub', rg', name) = tbl_get ac_key t (sub', rg', name)" for t
      unfolding tbl_get_def tbl_delete_def using that by (induction t) auto
    then show ?thesis by (simp add: s1 GetAppConfig_def db_query_def)
  qed
qed

text \<open>The router has decoded the key already, so a key with a percent sign is decoded twice, or lost.\<close>

lemma percent_keys_are_lost:
  assumes "path_unescape key = None" "authorizeStoreDataPlane s p st ''write'' = None"
    "snd (decode_strings [''value'', ''label''] (rq_json r))"
  shows "putKV env s r p st key = (internal_server_error ''store and key are required'', s)"
  using assms by (simp add: putKV_def unescaped_key_def Let_def SetAppConfigKV_def split_beta)

lemma percent_key_example: "path_unescape ''50%'' = None" "unescaped_key ''a%41'' = ''aA''"
  by code_simp+

section \<open>Examples\<close>

definition lab_appconfig :: appconfig_env where
  "lab_appconfig = \<lparr>apc_PublicBase = ''https://lab'', apc_url = (\<lambda>t. None), apc_url_with = (\<lambda>a b c. a), apc_now = 0,
    apc_format_time = (\<lambda>n. ''now'')\<rparr>"

definition config_request :: "string \<Rightarrow> web_request" where
  "config_request v = \<lparr>web_http = \<lparr>rq_method = ''PUT'', rq_path = [], rq_query = [], rq_header = [],
     rq_json = Some (JObj [(''value'', JStr v)])\<rparr>, web_host = [], web_tls = False,
     web_remote = [], web_form = None, web_body = []\<rparr>"

definition set_key :: "string \<Rightarrow> ac_request" where
  "set_key v = (lab_appconfig, Some root_principal, config_request v, PutKeyValue ''st'' ''k'')"

definition new_config_store :: ac_request where
  "new_config_store = (lab_appconfig, Some root_principal, config_request [], PutConfigStore ''s'' ''g'' ''st'')"

theorem appconfig_fail_closed_witness:
  "granted (ac_allows (ListConfigStores ''s'' ''g'')) empty_store (Some root_principal)
    (ac_need empty_store (ListConfigStores ''s'' ''g''))"
proof (rule appconfig_fail_closed)
  show "rs_code (fst (ac_handle lab_appconfig empty_store (Some root_principal) (config_request [])
      (ListConfigStores ''s'' ''g''))) \<in> {200, 204, 400, 404} \<or>
    snd (ac_handle lab_appconfig empty_store (Some root_principal) (config_request [])
      (ListConfigStores ''s'' ''g'')) \<noteq> empty_store"
    by (rule disjI1) code_simp
qed

theorem snapshot_is_a_frozen_copy_witness:
  "ListAppConfigSnapshotKV (fold ac_step [set_key ''two'']
      (snd (ac_handle lab_appconfig (fold ac_step [new_config_store, set_key ''one''] empty_store)
        (Some root_principal) (config_request []) (PutSnapshot ''st'' ''n'')))) ''st'' ''n'' [] =
   ListAppConfigKV (fold ac_step [new_config_store, set_key ''one''] empty_store) ''st'' []"
proof (rule snapshot_is_a_frozen_copy [OF _ refl _ _ refl])
  show "settings_ok empty_store" by (simp add: settings_ok_def empty_store_def empty_app_settings_def)
  show "\<not> has_snapshot ''st'' ''n'' (fold ac_step [new_config_store, set_key ''one''] empty_store)" by code_simp
  show "rs_code (fst (ac_handle lab_appconfig (fold ac_step [new_config_store, set_key ''one''] empty_store)
        (Some root_principal) (config_request []) (PutSnapshot ''st'' ''n''))) = 200" by code_simp
  show "\<not> list_ex (deletes_store ''st'') [set_key ''two'']" by (simp add: deletes_store_def set_key_def)
qed

end
