(* ===== verification/Function_Apps.thy ===== *)
theory Function_Apps
  imports Service_Gate Store_Settings
begin

text \<open>
  Function Apps: \<open>internal/services/functions/handler.go\<close>. Resources of the management plane and an invocation
  that answers with the text stored in the app.
\<close>

section \<open>Routes\<close>

record fn_env =
  fn_lib :: stdlib
  fn_now :: int

datatype fn_op =
    PutApp string string string
  | GetApp string string string
  | DeleteApp string string string
  | ListApps string string
  | InvokeApp string

definition fn_route :: "string \<Rightarrow> string list \<Rightarrow> fn_op option" where
  "fn_route method segs =
    (let get = (method = ''GET'' \<or> method = ''HEAD'');
         sites = (\<lambda>a b c ns ty. a = ''subscriptions'' \<and> b = ''resourceGroups'' \<and> c = ''providers'' \<and>
           ns = ''Microsoft.Web'' \<and> ty = ''sites'') in
     if [] \<in> set segs then None
     else (case segs of
       [a, sub, b, rg, c, ns, ty, name] \<Rightarrow>
         if \<not> sites a b c ns ty then None
         else if method = ''PUT'' then Some (PutApp sub rg name)
         else if get then Some (GetApp sub rg name)
         else if method = ''DELETE'' then Some (DeleteApp sub rg name) else None
     | [a, sub, b, rg, c, ns, ty] \<Rightarrow> if sites a b c ns ty \<and> get then Some (ListApps sub rg) else None
     | [a, name, b] \<Rightarrow>
         if a = ''functions'' \<and> b = ''invoke'' \<and> method = ''POST'' then Some (InvokeApp name) else None
     | _ \<Rightarrow> None))"

definition siteResourceID :: "string \<Rightarrow> string \<Rightarrow> string \<Rightarrow> string" where
  "siteResourceID sub rg name = group_scope sub rg @ ''/providers/Microsoft.Web/sites/'' @ name"

definition siteResource :: "FunctionApp \<Rightarrow> json" where
  "siteResource row =
    JObj [(''id'', JStr (siteResourceID (fap_SubscriptionID row) (fap_ResourceGroup row) (fap_Name row))),
      (''name'', JStr (fap_Name row)), (''type'', JStr ''Microsoft.Web/sites''), (''kind'', JStr ''functionapp''),
      (''location'', JStr (fap_Location row)),
      (''properties'', JObj [(''state'', JStr ''Running''), (''provisioningState'', JStr ''Succeeded''),
        (''defaultHostName'', JStr (fap_Name row @ ''.azurewebsites.lab'')),
        (''labMockResponse'', JStr (fap_MockResponse row))])]"

section \<open>Handlers\<close>

definition ok_object :: string where
  "ok_object = ''{'' @ [CHR 0x22] @ ''ok'' @ [CHR 0x22] @ '':true}''"

definition no_app :: FunctionApp where
  "no_app = \<lparr>fap_SubscriptionID = [], fap_ResourceGroup = [], fap_Name = [], fap_Location = [], fap_MockResponse = []\<rparr>"

definition putApp ::
  "fn_env \<Rightarrow> store \<Rightarrow> http_request \<Rightarrow> Principal \<Rightarrow> string \<Rightarrow> string \<Rightarrow> string \<Rightarrow> http_response \<times> store" where
  "putApp env s r p sub rg name =
    (case gate_arm s p ''Microsoft.Web/sites/write'' (siteResourceID sub rg name) of
       Some rs \<Rightarrow> (rs, s)
     | None \<Rightarrow>
         (let location = fst (decode_strings [''location'', ''kind''] (rq_json r)) ''location'';
              given = decode_nested ''properties'' [''labMockResponse''] (rq_json r) ''labMockResponse'';
              mock = (if given = [] then ok_object else given) in
          case UpsertFunctionApp s sub rg name (if location = [] then ''eastus'' else location) mock of
            (Inl e, s1) \<Rightarrow> (internal_server_error e, s1)
          | (Inr u, s1) \<Rightarrow>
              (let s2 = snd (AppendActivityLog s1 (fn_now env) (pr_ID p) ''Microsoft.Web/sites/write''
                    (siteResourceID sub rg name) ''Succeeded'' []);
                   row = (case GetFunctionApp s2 sub rg name of Inr (Some row) \<Rightarrow> row | _ \<Rightarrow> no_app) in
               (writeJSON 200 (siteResource row), s2))))"

definition getApp :: "store \<Rightarrow> Principal \<Rightarrow> string \<Rightarrow> string \<Rightarrow> string \<Rightarrow> http_response" where
  "getApp s p sub rg name =
    (case gate_arm s p ''Microsoft.Web/sites/read'' (siteResourceID sub rg name) of
       Some rs \<Rightarrow> rs
     | None \<Rightarrow> (case GetFunctionApp s sub rg name of
         Inl e \<Rightarrow> internal_server_error e
       | Inr None \<Rightarrow> NotFound ''function app not found''
       | Inr (Some row) \<Rightarrow> writeJSON 200 (siteResource row)))"

definition deleteApp ::
  "fn_env \<Rightarrow> store \<Rightarrow> Principal \<Rightarrow> string \<Rightarrow> string \<Rightarrow> string \<Rightarrow> http_response \<times> store" where
  "deleteApp env s p sub rg name =
    (case gate_arm s p ''Microsoft.Web/sites/delete'' (siteResourceID sub rg name) of
       Some rs \<Rightarrow> (rs, s)
     | None \<Rightarrow> (case DeleteFunctionApp s sub rg name of
         (Inl e, s1) \<Rightarrow> (internal_server_error e, s1)
       | (Inr ok, s1) \<Rightarrow>
           if \<not> ok then (NotFound ''function app not found'', s1)
           else (writeHeader 204, snd (AppendActivityLog s1 (fn_now env) (pr_ID p) ''Microsoft.Web/sites/delete''
             (siteResourceID sub rg name) ''Succeeded'' []))))"

definition listApps :: "store \<Rightarrow> Principal \<Rightarrow> string \<Rightarrow> string \<Rightarrow> http_response" where
  "listApps s p sub rg =
    (case gate_arm s p ''Microsoft.Web/sites/read'' (group_scope sub rg) of
       Some rs \<Rightarrow> rs
     | None \<Rightarrow> (case ListFunctionApps s sub rg of
         Inl e \<Rightarrow> internal_server_error e
       | Inr rows \<Rightarrow> writeJSON 200 (JObj [(''value'', JArr (map siteResource rows))])))"

text \<open>The scope of an invocation: that of the first app of the name, whatever its group.\<close>

definition invoke_scope :: "string \<Rightarrow> FunctionApp option \<Rightarrow> string" where
  "invoke_scope name found =
    (case found of
       None \<Rightarrow> ''/subscriptions/'' @ DefaultSubscriptionID @ ''/providers/Microsoft.Web/sites/'' @ name
     | Some row \<Rightarrow> siteResourceID (fap_SubscriptionID row) (fap_ResourceGroup row) (fap_Name row))"

definition invokeApp :: "fn_env \<Rightarrow> store \<Rightarrow> Principal \<Rightarrow> string \<Rightarrow> http_response" where
  "invokeApp env s p name =
    (case GetFunctionAppByName s name of
       Inl e \<Rightarrow> internal_server_error e
     | Inr found \<Rightarrow> (case gate_arm s p ''Microsoft.Web/sites/functions/write'' (invoke_scope name found) of
         Some rs \<Rightarrow> rs
       | None \<Rightarrow>
           if found = None then NotFound ''function app not found''
           else (case InvokeFunctionAppMock s name of
               Inl e \<Rightarrow> internal_server_error e
             | Inr stored \<Rightarrow>
                 (let mock = (case stored of None \<Rightarrow> [] | Some m \<Rightarrow> m) in
                  if trim_space mock = [] then writeBytes 200 [jsonContentType] (bytes_of_string ok_object)
                  else (case json_parse (fn_lib env) mock of
                      Inr v \<Rightarrow> writeBytes 200 [jsonContentType] (bytes_of_string mock)
                    | Inl e \<Rightarrow> writeJSON 200 (JObj [(''result'', JStr mock)]))))))"

definition fn_run_op :: "fn_env \<Rightarrow> store \<Rightarrow> http_request \<Rightarrow> Principal \<Rightarrow> fn_op \<Rightarrow> http_response \<times> store" where
  "fn_run_op env s r p op =
    (case op of
       PutApp sub rg name \<Rightarrow> putApp env s r p sub rg name
     | GetApp sub rg name \<Rightarrow> (getApp s p sub rg name, s)
     | DeleteApp sub rg name \<Rightarrow> deleteApp env s p sub rg name
     | ListApps sub rg \<Rightarrow> (listApps s p sub rg, s)
     | InvokeApp name \<Rightarrow> (invokeApp env s p name, s))"

definition fn_handle ::
  "fn_env \<Rightarrow> store \<Rightarrow> Principal option \<Rightarrow> http_request \<Rightarrow> fn_op \<Rightarrow> http_response \<times> store" where
  "fn_handle env s who r op = wrap who s (\<lambda>p. fn_run_op env s r p op)"

section \<open>Fail closed\<close>

text \<open>The action and the scope a request asks for.\<close>

definition fn_need :: "store \<Rightarrow> fn_op \<Rightarrow> string \<times> string" where
  "fn_need s op = (case op of
       PutApp sub rg name \<Rightarrow> (''Microsoft.Web/sites/write'', siteResourceID sub rg name)
     | GetApp sub rg name \<Rightarrow> (''Microsoft.Web/sites/read'', siteResourceID sub rg name)
     | DeleteApp sub rg name \<Rightarrow> (''Microsoft.Web/sites/delete'', siteResourceID sub rg name)
     | ListApps sub rg \<Rightarrow> (''Microsoft.Web/sites/read'', group_scope sub rg)
     | InvokeApp name \<Rightarrow> (''Microsoft.Web/sites/functions/write'',
         invoke_scope name (case GetFunctionAppByName s name of Inr found \<Rightarrow> found | Inl e \<Rightarrow> None)))"

lemma fn_op_closed:
  assumes "\<not> granted AllowsARM s (Some p) (fn_need s op)"
  shows "closed s (fn_run_op env s r p op)"
proof (cases op)
  case (PutApp sub rg name)
  with assms show ?thesis by (simp add: fn_run_op_def putApp_def fn_need_def closed_arm)
next
  case (GetApp sub rg name)
  with assms show ?thesis by (simp add: fn_run_op_def getApp_def fn_need_def closedI closed_arm_read)
next
  case (DeleteApp sub rg name)
  with assms show ?thesis by (simp add: fn_run_op_def deleteApp_def fn_need_def closed_arm)
next
  case (ListApps sub rg)
  with assms show ?thesis by (simp add: fn_run_op_def listApps_def fn_need_def closedI closed_arm_read)
next
  case (InvokeApp name)
  have "refusal (internal_server_error e)" for e by (simp add: refusal_def)
  with InvokeApp assms show ?thesis
    by (cases "GetFunctionAppByName s name")
      (simp_all add: fn_run_op_def invokeApp_def fn_need_def closedI closed_arm_read)
qed

lemma fn_fail_closed:
  assumes "rs_code (fst (fn_handle env s who r op)) \<in> {200, 204, 404} \<or> snd (fn_handle env s who r op) \<noteq> s"
  shows "granted AllowsARM s who (fn_need s op)"
proof (rule ccontr)
  assume not: "\<not> granted AllowsARM s who (fn_need s op)"
  have "closed s (fn_handle env s who r op)"
    unfolding fn_handle_def by (rule closed_wrap) (use not in \<open>simp add: fn_op_closed\<close>)
  moreover have "\<not> closed s (fn_handle env s who r op)"
    by (rule not_closed) (use assms in auto)
  ultimately show False by simp
qed

end
