(* ===== verification/Subscriptions.thy ===== *)
theory Subscriptions
  imports Service_Gate Store_Settings Go_Net
begin

text \<open>
  Subscriptions, resource groups, management groups and the inventory over them:
  \<open>internal/services/subscriptions/handler.go\<close> and \<open>inventory.go\<close>.
\<close>

section \<open>Environment and routes\<close>

text \<open>\<open>sv_remote\<close> is the remote address of the connection, \<open>sv_lab_name\<close> is \<open>config.LabDisplayName\<close>.\<close>

record sub_env =
  sv_lib :: stdlib
  sv_SubscriptionID :: string
  sv_TenantID :: string
  sv_now :: int
  sv_clock :: int
  sv_remote :: string
  sv_lab_name :: string

datatype sv_op =
    AllSubscriptions | Tenants | ManagementGroups | Descendants string | ResourceGraph
  | OneSubscription string | Resources string | Providers string | SubProvider string string
  | StorageAccounts string | WebSites string | NothingThere string
  | OneGroup string string | PutGroup string string | AllGroups string

definition sub_provider_op :: "string \<Rightarrow> string \<Rightarrow> string \<Rightarrow> sv_op option" where
  "sub_provider_op sub ns ty =
    (let armType = ns @ ''/'' @ ty in
     if armType \<in> set [''Microsoft.Compute/virtualMachines'', ''Microsoft.KeyVault/vaults'',
       ''Microsoft.ContainerRegistry/registries'', ''Microsoft.ContainerService/managedClusters'',
       ''Microsoft.Logic/workflows''] then Some (SubProvider armType sub)
     else if armType = ''Microsoft.Storage/storageAccounts'' then Some (StorageAccounts sub)
     else if armType = ''Microsoft.Web/sites'' then Some (WebSites sub)
     else if armType = ''Microsoft.Automation/automationAccounts'' \<or>
       armType = ''Microsoft.Compute/virtualMachineScaleSets'' then Some (NothingThere sub)
     else None)"

definition sv_route :: "string \<Rightarrow> string list \<Rightarrow> sv_op option" where
  "sv_route method segs =
    (let get = (method = ''GET'' \<or> method = ''HEAD'');
         groups = (\<lambda>t. t = ''resourcegroups'' \<or> t = ''resourceGroups'') in
     if [] \<in> set segs then None
     else (case segs of
       [a] \<Rightarrow> if \<not> get then None else if a = ''subscriptions'' then Some AllSubscriptions
         else if a = ''tenants'' then Some Tenants else None
     | [a, b] \<Rightarrow> if a = ''subscriptions'' \<and> get then Some (OneSubscription b) else None
     | [a, b, c] \<Rightarrow>
         if a = ''providers'' then
           (if b = ''Microsoft.Management'' \<and> c = ''managementGroups'' \<and> get then Some ManagementGroups
            else if b = ''Microsoft.ResourceGraph'' \<and> c = ''resources'' \<and> method = ''POST'' then Some ResourceGraph
            else None)
         else if a \<noteq> ''subscriptions'' \<or> \<not> get then None
         else if c = ''resources'' then Some (Resources b)
         else if c = ''providers'' then Some (Providers b)
         else if groups c then Some (AllGroups b) else None
     | [a, b, c, d] \<Rightarrow>
         if a = ''subscriptions'' \<and> groups c
         then (if get then Some (OneGroup b d) else if method = ''PUT'' then Some (PutGroup b d) else None)
         else None
     | [a, b, c, d, e] \<Rightarrow>
         if \<not> get then None
         else if a = ''providers'' \<and> b = ''Microsoft.Management'' \<and> c = ''managementGroups'' \<and> e = ''descendants''
         then Some (Descendants d)
         else if a = ''subscriptions'' \<and> c = ''providers'' then sub_provider_op b d e else None
     | _ \<Rightarrow> None))"

section \<open>Gates\<close>

definition sv_require :: "store \<Rightarrow> Principal option \<Rightarrow> string \<Rightarrow> string \<Rightarrow> http_response + Principal" where
  "sv_require s who action scope =
    (case who of
       None \<Rightarrow> Inl (Unauthenticated [])
     | Some p \<Rightarrow> (case gate_arm s p action scope of Some rs \<Rightarrow> Inl rs | None \<Rightarrow> Inr p))"

definition sv_gated ::
  "store \<Rightarrow> Principal option \<Rightarrow> http_request \<Rightarrow> string \<Rightarrow> string \<Rightarrow> http_response \<Rightarrow> http_response" where
  "sv_gated s who r action scope answer =
    (case requireAPIVersion r of
       Some rs \<Rightarrow> rs
     | None \<Rightarrow> (case sv_require s who action scope of Inl rs \<Rightarrow> rs | Inr p \<Rightarrow> answer))"

text \<open>The lists that are filtered ask for an authenticated caller and the audience only.\<close>

definition sv_caller :: "Principal option \<Rightarrow> http_request \<Rightarrow> (Principal \<Rightarrow> http_response) \<Rightarrow> http_response" where
  "sv_caller who r f =
    (case requireAPIVersion r of
       Some rs \<Rightarrow> rs
     | None \<Rightarrow> (case who of
         None \<Rightarrow> Unauthenticated []
       | Some p \<Rightarrow> if \<not> AllowsARM p then InvalidAuthenticationTokenAudience [] else f p))"

definition answer_list :: "'r list result \<Rightarrow> ('r \<Rightarrow> json) \<Rightarrow> http_response" where
  "answer_list found render =
    (case found of
       Inl e \<Rightarrow> internal_server_error e
     | Inr rows \<Rightarrow> writeJSON 200 (JObj [(''value'', JArr (map render rows))]))"

text \<open>The items of a list that the caller may act on; an error of the evaluator ends the loop.\<close>

fun permitted :: "store \<Rightarrow> Principal \<Rightarrow> string \<Rightarrow> ('r \<Rightarrow> string) \<Rightarrow> 'r list \<Rightarrow> 'r list result" where
  "permitted s p action scope [] = Inr []"
| "permitted s p action scope (x # xs) =
    (case Evaluate (store_evaluator s) (pr_ID p) (pr_IsRoot p) action (scope x) of
       Inl e \<Rightarrow> Inl e
     | Inr ok \<Rightarrow> map_sum id (\<lambda>ys. if ok then x # ys else ys) (permitted s p action scope xs))"

section \<open>Subscriptions and resource groups\<close>

definition sub_scope :: "string \<Rightarrow> string" where
  "sub_scope sub = ''/subscriptions/'' @ sub"

definition sv_getSubscription :: "store \<Rightarrow> Principal option \<Rightarrow> http_request \<Rightarrow> string \<Rightarrow> http_response" where
  "sv_getSubscription s who r sub =
    sv_gated s who r ''Microsoft.Resources/subscriptions/read'' (sub_scope sub)
      (case GetSubscription s sub of
         Inl e \<Rightarrow> internal_server_error e
       | Inr None \<Rightarrow> NotFound ''Subscription not found''
       | Inr (Some (displayName, state, tenantID)) \<Rightarrow> writeJSON 200 (JObj [(''id'', JStr (sub_scope sub)),
           (''subscriptionId'', JStr sub), (''displayName'', JStr displayName), (''state'', JStr state),
           (''tenantId'', JStr tenantID)]))"

definition resourceGroupJSON :: "string \<Rightarrow> string \<Rightarrow> string \<Rightarrow> json" where
  "resourceGroupJSON sub name location =
    JObj [(''id'', JStr (group_scope sub name)), (''name'', JStr name),
      (''type'', JStr ''Microsoft.Resources/resourceGroups''), (''location'', JStr location),
      (''properties'', JObj [(''provisioningState'', JStr ''Succeeded'')])]"

definition sv_getResourceGroup :: "store \<Rightarrow> Principal option \<Rightarrow> http_request \<Rightarrow> string \<Rightarrow> string \<Rightarrow> http_response" where
  "sv_getResourceGroup s who r sub name =
    sv_gated s who r ''Microsoft.Resources/subscriptions/resourceGroups/read'' (group_scope sub name)
      (case GetResourceGroup s sub name of
         Inl e \<Rightarrow> internal_server_error e
       | Inr None \<Rightarrow> NotFound (''Resource group '' @ [CHR 0x27] @ name @ [CHR 0x27] @ '' could not be found.'')
       | Inr (Some location) \<Rightarrow> writeJSON 200 (resourceGroupJSON sub name location))"

text \<open>The location in a body, \<open>None\<close> when the body does not decode.\<close>

definition decode_location :: "stdlib \<Rightarrow> byte list \<Rightarrow> string option" where
  "decode_location lib body =
    (if body = [] then Some []
     else (case json_parse lib (string_of_bytes body) of
         Inl e \<Rightarrow> None
       | Inr v \<Rightarrow> (case decode_strings [''location''] (Some v) of
           (field, ok) \<Rightarrow> if ok then Some (field ''location'') else None)))"

definition client_ip :: "string \<Rightarrow> string" where
  "client_ip remote = (case split_host_port remote of Some (host, port) \<Rightarrow> host | None \<Rightarrow> remote)"

definition activity :: "int \<Rightarrow> string \<Rightarrow> string \<Rightarrow> string \<Rightarrow> string \<Rightarrow> activity_row" where
  "activity time caller operation resourceID ip =
    \<lparr>act_timestamp = time, act_caller = caller, act_operation = operation, act_resource_id = resourceID,
     act_status = ''Succeeded'', act_message = [], act_client_ip = ip, act_identity = []\<rparr>"

definition sv_putResourceGroup ::
  "sub_env \<Rightarrow> store \<Rightarrow> Principal option \<Rightarrow> http_request \<Rightarrow> byte list result \<Rightarrow> string \<Rightarrow> string \<Rightarrow>
    http_response \<times> store" where
  "sv_putResourceGroup env s who r body sub name =
    (case requireAPIVersion r of
       Some rs \<Rightarrow> (rs, s)
     | None \<Rightarrow> (case sv_require s who ''Microsoft.Resources/subscriptions/resourceGroups/write'' (group_scope sub name) of
         Inl rs \<Rightarrow> (rs, s)
       | Inr p \<Rightarrow> (case map_sum id (take 1048576) body of
           Inl e \<Rightarrow> (BadRequest ''unable to read body'', s)
         | Inr bs \<Rightarrow> (case decode_location (sv_lib env) bs of
             None \<Rightarrow> (BadRequest ''invalid JSON body'', s)
           | Some given \<Rightarrow>
               (let location = trim_space given in
                if location = [] then (BadRequest ''location is required'', s)
                else (case UpsertResourceGroup s sub name location of
                    (Inl e, s1) \<Rightarrow> (internal_server_error e, s1)
                  | (Inr u, s1) \<Rightarrow> (writeJSON 200 (resourceGroupJSON sub name location),
                      snd (AppendActivityLogRow s1 (sv_clock env) (activity (sv_now env) (pr_ID p)
                        ''Microsoft.Resources/subscriptions/resourceGroups/write'' (group_scope sub name)
                        (client_ip (sv_remote env)))))))))))"

definition readable_groups :: "store \<Rightarrow> Principal \<Rightarrow> string \<Rightarrow> (string \<times> string) list result" where
  "readable_groups s p sub =
    (case ListResourceGroups s sub of
       Inl e \<Rightarrow> Inl e
     | Inr rows \<Rightarrow> permitted s p ''Microsoft.Resources/subscriptions/resourceGroups/read''
         (\<lambda>(name, location). group_scope sub name) rows)"

definition sv_listResourceGroups :: "store \<Rightarrow> Principal option \<Rightarrow> http_request \<Rightarrow> string \<Rightarrow> http_response" where
  "sv_listResourceGroups s who r sub =
    sv_caller who r (\<lambda>p. answer_list (readable_groups s p sub) (\<lambda>(name, location). resourceGroupJSON sub name location))"

definition listResources :: "store \<Rightarrow> Principal option \<Rightarrow> http_request \<Rightarrow> string \<Rightarrow> http_response" where
  "listResources s who r sub =
    sv_gated s who r ''Microsoft.Resources/resources/read'' (sub_scope sub)
      (answer_list (ListResourceGroups s sub) (\<lambda>(name, location). resourceGroupJSON sub name location))"

definition listProviders :: "store \<Rightarrow> Principal option \<Rightarrow> http_request \<Rightarrow> string \<Rightarrow> http_response" where
  "listProviders s who r sub =
    sv_gated s who r ''Microsoft.Resources/providers/read'' (sub_scope sub)
      (answer_list (Inr [''Microsoft.Storage'', ''Microsoft.KeyVault'', ''Microsoft.Authorization'',
          ''Microsoft.ManagedIdentity'', ''Microsoft.ServiceBus'', ''Microsoft.Web'', ''Microsoft.AppConfiguration'',
          ''Microsoft.Insights'', ''Microsoft.Compute'', ''Microsoft.ContainerRegistry'', ''Microsoft.ContainerService'',
          ''Microsoft.Logic'', ''Microsoft.Automation'', ''Microsoft.Management'', ''Microsoft.ResourceGraph'',
          ''Microsoft.Security'', ''Microsoft.App'', ''Microsoft.DocumentDB'', ''Microsoft.EventHub''])
        (\<lambda>ns. JObj [(''namespace'', JStr ns), (''registrationState'', JStr ''Registered'')]))"

section \<open>Tenants and management groups\<close>

definition readable_subscriptions :: "store \<Rightarrow> Principal \<Rightarrow> subscription_row list result" where
  "readable_subscriptions s p =
    (case ListSubscriptions s of
       Inl e \<Rightarrow> Inl e
     | Inr rows \<Rightarrow> permitted s p ''Microsoft.Resources/subscriptions/read'' (\<lambda>row. sub_scope (sub_id row)) rows)"

definition subscription_json :: "subscription_row \<Rightarrow> json" where
  "subscription_json row =
    JObj [(''id'', JStr (sub_scope (sub_id row))), (''subscriptionId'', JStr (sub_id row)),
      (''displayName'', JStr (sub_display_name row)), (''state'', JStr (sub_state row)),
      (''tenantId'', JStr (sub_tenant_id row))]"

definition listSubscriptions :: "store \<Rightarrow> Principal option \<Rightarrow> http_request \<Rightarrow> http_response" where
  "listSubscriptions s who r = sv_caller who r (\<lambda>p. answer_list (readable_subscriptions s p) subscription_json)"

definition listTenants :: "sub_env \<Rightarrow> store \<Rightarrow> Principal option \<Rightarrow> http_request \<Rightarrow> http_response" where
  "listTenants env s who r =
    sv_gated s who r ''Microsoft.Resources/tenants/read'' ''/tenants''
      (let found = (case ListSubscriptions s of Inr (row # rows) \<Rightarrow> sub_tenant_id row | _ \<Rightarrow> []);
           tid = (if found = [] then sv_SubscriptionID env else found) in
       writeJSON 200 (JObj [(''value'', JArr [JObj [(''id'', JStr (''/tenants/'' @ tid)), (''tenantId'', JStr tid),
         (''displayName'', JStr (sv_lab_name env)), (''tenantCategory'', JStr ''Home'')]])]))"

definition mg_scope :: "string \<Rightarrow> string" where
  "mg_scope i = ''/providers/Microsoft.Management/managementGroups/'' @ i"

definition sv_listManagementGroups :: "store \<Rightarrow> Principal option \<Rightarrow> http_request \<Rightarrow> http_response" where
  "sv_listManagementGroups s who r =
    sv_gated s who r ''Microsoft.Management/managementGroups/read'' ''/providers/Microsoft.Management/managementGroups''
      (answer_list (ListManagementGroups s) (\<lambda>row. JObj [(''id'', JStr (mg_scope (mgr_id row))),
         (''name'', JStr (mgr_id row)), (''type'', JStr ''Microsoft.Management/managementGroups''),
         (''properties'', JObj [(''displayName'', JStr (mgr_display_name row)),
           (''tenantId'', JStr (mgr_tenant_id row))])]))"

definition descendant_json :: "string \<Rightarrow> string \<Rightarrow> string \<Rightarrow> json" where
  "descendant_json i name ty = JObj [(''id'', JStr i), (''name'', JStr name), (''type'', JStr ty)]"

definition listManagementGroupDescendants ::
  "sub_env \<Rightarrow> store \<Rightarrow> Principal option \<Rightarrow> http_request \<Rightarrow> string \<Rightarrow> http_response" where
  "listManagementGroupDescendants env s who r groupID0 =
    (let groupID = trim_space groupID0 in
     case requireAPIVersion r of
       Some rs \<Rightarrow> rs
     | None \<Rightarrow>
         if groupID = [] then BadRequest ''management group id is required''
         else (case sv_require s who ''Microsoft.Management/managementGroups/read'' (mg_scope groupID) of
           Inl rs \<Rightarrow> rs
         | Inr p \<Rightarrow> (case GetManagementGroup s groupID of
             Inl e \<Rightarrow> internal_server_error e
           | Inr found \<Rightarrow>
               (case found of
                  None \<Rightarrow> NotFound ''Management group not found''
                | Some g \<Rightarrow>
                    if trim_space (sv_TenantID env) \<noteq> [] \<and> mgr_tenant_id g \<noteq> sv_TenantID env
                    then NotFound ''Management group not found''
                    else (case ListChildManagementGroups s groupID (mgr_tenant_id g) of
                        Inl e \<Rightarrow> internal_server_error e
                      | Inr children \<Rightarrow>
                          (let below = map (\<lambda>row. descendant_json (mg_scope (mgr_id row)) (mgr_id row)
                                 ''Microsoft.Management/managementGroups'') children in
                           if mgr_parent_id g \<noteq> [] then writeJSON 200 (JObj [(''value'', JArr below)])
                           else (case ListSubscriptionsForTenant s (mgr_tenant_id g) of
                               Inl e \<Rightarrow> internal_server_error e
                             | Inr subs \<Rightarrow> writeJSON 200 (JObj [(''value'', JArr (below @ map (\<lambda>row.
                                 descendant_json (sub_scope (sub_id row)) (sub_id row)
                                   ''Microsoft.Management/managementGroups/subscriptions'') subs))]))))))))"


section \<open>Resources of a subscription\<close>

definition listEmptyARM :: "store \<Rightarrow> Principal option \<Rightarrow> http_request \<Rightarrow> string \<Rightarrow> http_response" where
  "listEmptyARM s who r sub =
    sv_gated s who r ''Microsoft.Resources/resources/read'' (sub_scope sub)
      (writeJSON 200 (JObj [(''value'', JArr [])]))"

definition armResource_fields :: "ProviderResource \<Rightarrow> string \<Rightarrow> (string \<times> json) list" where
  "armResource_fields row armType =
    [(''id'', JStr (group_scope (pv_SubscriptionID row) (pv_ResourceGroup row) @ ''/providers/'' @ armType @ ''/'' @ pv_Name row)),
     (''name'', JStr (pv_Name row)), (''type'', JStr armType), (''location'', JStr (pv_Location row)),
     (''properties'', JObj [(''provisioningState'', JStr ''Succeeded'')])]"

definition listSubProvider :: "store \<Rightarrow> Principal option \<Rightarrow> http_request \<Rightarrow> string \<Rightarrow> string \<Rightarrow> http_response" where
  "listSubProvider s who r armType sub =
    sv_gated s who r ''Microsoft.Resources/resources/read'' (sub_scope sub)
      (answer_list (ListProviderResourcesInSubscription s armType sub) (\<lambda>row. JObj (armResource_fields row armType)))"

definition account_item :: "store \<Rightarrow> account_row \<Rightarrow> json" where
  "account_item s row =
    JObj ([(''id'', JStr (group_scope (ac_subscription_id row) (ac_resource_group row) @
         ''/providers/Microsoft.Storage/storageAccounts/'' @ ac_name row)),
       (''name'', JStr (ac_name row)), (''type'', JStr ''Microsoft.Storage/storageAccounts''),
       (''location'', JStr (ac_location row))] @
     (case ListContainers s (ac_name row) of
        Inr (c # cs) \<Rightarrow> [(''properties'', JObj [(''containerCount'', JNum (int (length (c # cs))))])]
      | _ \<Rightarrow> []))"

definition sv_listStorageAccounts :: "store \<Rightarrow> Principal option \<Rightarrow> http_request \<Rightarrow> string \<Rightarrow> http_response" where
  "sv_listStorageAccounts s who r sub =
    sv_gated s who r ''Microsoft.Storage/storageAccounts/read'' (sub_scope sub)
      (answer_list (ListStorageAccountsInSubscription s sub) (account_item s))"

definition web_app_json :: "FunctionApp \<Rightarrow> json" where
  "web_app_json app =
    JObj [(''id'', JStr (group_scope (fap_SubscriptionID app) (fap_ResourceGroup app) @
        ''/providers/Microsoft.Web/sites/'' @ fap_Name app)),
      (''name'', JStr (fap_Name app)), (''type'', JStr ''Microsoft.Web/sites''), (''kind'', JStr ''functionapp''),
      (''location'', JStr (fap_Location app))]"

definition listWebSites :: "store \<Rightarrow> Principal option \<Rightarrow> http_request \<Rightarrow> string \<Rightarrow> http_response" where
  "listWebSites s who r sub =
    sv_gated s who r ''Microsoft.Web/sites/read'' (sub_scope sub)
      (case ListProviderResourcesInSubscription s ''Microsoft.Web/sites'' sub of
         Inl e \<Rightarrow> internal_server_error e
       | Inr web \<Rightarrow> (case ListFunctionAppsInSubscription s sub of
           Inl e \<Rightarrow> internal_server_error e
         | Inr apps \<Rightarrow> writeJSON 200 (JObj [(''value'', JArr (
             map (\<lambda>row. JObj (armResource_fields row ''Microsoft.Web/sites'' @ [(''kind'', JStr ''app'')])) web @
             map web_app_json apps))])))"

section \<open>Resource Graph\<close>

text \<open>
  Decoding the query and the subscriptions of a body; the later of repeated fields replaces, null is no list, and a
  null item is an empty string. \<open>False\<close> when the decoding fails.
\<close>

definition decode_string_items :: "json list \<Rightarrow> string list \<times> bool" where
  "decode_string_items items =
    (map (\<lambda>v. case v of JStr t \<Rightarrow> t | _ \<Rightarrow> []) items,
     list_all (\<lambda>v. case v of JStr t \<Rightarrow> True | JNull \<Rightarrow> True | _ \<Rightarrow> False) items)"

fun decode_graph_fields :: "(string \<times> json) list \<Rightarrow> string \<times> string list \<times> bool \<Rightarrow> string \<times> string list \<times> bool" where
  "decode_graph_fields [] acc = acc"
| "decode_graph_fields ((k, v) # kvs) (query, subs, ok) =
    decode_graph_fields kvs
      (if equal_fold k ''query'' then
         (case v of JStr t \<Rightarrow> (t, subs, ok) | JNull \<Rightarrow> (query, subs, ok) | _ \<Rightarrow> (query, subs, False))
       else if equal_fold k ''subscriptions'' then
         (case v of
            JArr items \<Rightarrow> (query, fst (decode_string_items items), ok \<and> snd (decode_string_items items))
          | JNull \<Rightarrow> (query, [], ok)
          | _ \<Rightarrow> (query, subs, False))
       else (query, subs, ok))"

definition decode_graph_query :: "stdlib \<Rightarrow> byte list \<Rightarrow> (string \<times> string list) option" where
  "decode_graph_query lib body =
    (if body = [] then Some ([], [])
     else (case json_parse lib (string_of_bytes body) of
         Inr (JObj kvs) \<Rightarrow> (case decode_graph_fields kvs ([], [], True) of (query, subs, ok) \<Rightarrow>
           if ok then Some (query, subs) else None)
       | Inr JNull \<Rightarrow> Some ([], [])
       | _ \<Rightarrow> None))"

definition uniqueNonEmpty :: "string list \<Rightarrow> string list" where
  "uniqueNonEmpty xs = rev (remdups (rev (filter (\<lambda>t. t \<noteq> []) (map trim_space xs))))"

definition filterARGBySubscriptions :: "arg_resource list \<Rightarrow> string list \<Rightarrow> bool \<Rightarrow> arg_resource list" where
  "filterARGBySubscriptions rows allowed includeEmpty =
    filter (\<lambda>row. let sub = trim_space (arg_subscription_id row) in
      if sub = [] then includeEmpty else sub \<in> set allowed) rows"

text \<open>
  The table, the type and the limit of a query. A number that does not fit is no limit, as the largest number is
  none in the code. Lower casing keeps the length of the text, which is that of ASCII.
\<close>

definition graph_type :: "string \<Rightarrow> string" where
  "graph_type after =
    (let quotes = [CHR 0x22, CHR 0x27]; rest = trim_chars quotes (trim_space after) in
     trim_chars quotes (takeWhile (\<lambda>c. c \<noteq> CHR '' '' \<and> c \<noteq> CHR ''|'') rest))"

definition graph_limit :: "string \<Rightarrow> int" where
  "graph_limit after =
    (let field = takeWhile (\<lambda>c. \<not> is_space c) (trim_space after) in
     case parse_int64 (if field = [] then ''0'' else field) of None \<Rightarrow> 0 | Some n \<Rightarrow> n)"

definition parseARGQuery :: "string \<Rightarrow> string \<times> string \<times> int" where
  "parseARGQuery q0 =
    (let q = trim_space q0; lower = to_lower q;
         table = (if index_of lower ''securityresources'' \<noteq> None then ''SecurityResources''
           else if index_of lower ''resources'' \<noteq> None then ''Resources'' else []);
         ty = (case index_of lower ''type =='' of None \<Rightarrow> [] | Some i \<Rightarrow> graph_type (drop (i + 7) q));
         limit = (case index_of lower ''limit '' of None \<Rightarrow> 0 | Some i \<Rightarrow> graph_limit (drop (i + 6) q)) in
     (table, ty, limit))"

definition graph_row :: "arg_resource \<Rightarrow> json" where
  "graph_row row =
    JObj [(''id'', JStr (arg_id row)), (''type'', JStr (arg_type row)), (''name'', JStr (arg_name row)),
      (''subscriptionId'', JStr (arg_subscription_id row)), (''resourceGroup'', JStr (arg_resource_group row)),
      (''tenantId'', JStr (arg_tenant_id row)), (''properties'', arg_properties row)]"

definition graph_subscriptions :: "sub_env \<Rightarrow> string list \<Rightarrow> string list" where
  "graph_subscriptions env asked =
    (let subs = uniqueNonEmpty asked in
     if subs = [] \<and> trim_space (sv_SubscriptionID env) \<noteq> [] then [sv_SubscriptionID env] else subs)"

definition graph_rows :: "store \<Rightarrow> Principal \<Rightarrow> string list \<Rightarrow> string \<Rightarrow> arg_resource list result" where
  "graph_rows s p allowed query =
    (let (table, ty, limit) = parseARGQuery query in
     case ListARGResources s table ty of
       Inl e \<Rightarrow> Inl e
     | Inr rows \<Rightarrow>
         (let kept = filterARGBySubscriptions rows allowed (pr_IsRoot p) in
          Inr (if limit > 0 \<and> limit < int (length kept) then take (nat limit) kept else kept)))"

definition queryResourceGraph ::
  "sub_env \<Rightarrow> store \<Rightarrow> Principal option \<Rightarrow> http_request \<Rightarrow> byte list result \<Rightarrow> http_response" where
  "queryResourceGraph env s who r body =
    sv_caller who r (\<lambda>p.
      (case map_sum id (take 1048576) body of
         Inl e \<Rightarrow> BadRequest ''unable to read body''
       | Inr bs \<Rightarrow> (case decode_graph_query (sv_lib env) bs of
           None \<Rightarrow> BadRequest ''invalid JSON body''
         | Some (query, asked) \<Rightarrow>
             (case permitted s p ''Microsoft.ResourceGraph/resources/read'' sub_scope (graph_subscriptions env asked) of
                Inl e \<Rightarrow> internal_server_error e
              | Inr allowed \<Rightarrow>
                  if allowed = [] then Forbidden []
                  else (case graph_rows s p allowed query of
                      Inl e \<Rightarrow> internal_server_error e
                    | Inr rows \<Rightarrow> writeJSON 200 (JObj [(''totalRecords'', JNum (int (length rows))),
                        (''count'', JNum (int (length rows))), (''data'', JArr (map graph_row rows)),
                        (''resultTruncated'', JStr ''false'')]))))))"

section \<open>Requests\<close>

definition sv_handle ::
  "sub_env \<Rightarrow> store \<Rightarrow> Principal option \<Rightarrow> http_request \<Rightarrow> byte list result \<Rightarrow> sv_op \<Rightarrow> http_response \<times> store" where
  "sv_handle env s who r body op =
    (case op of
       PutGroup sub name \<Rightarrow> sv_putResourceGroup env s who r body sub name
     | AllSubscriptions \<Rightarrow> (listSubscriptions s who r, s)
     | Tenants \<Rightarrow> (listTenants env s who r, s)
     | ManagementGroups \<Rightarrow> (sv_listManagementGroups s who r, s)
     | Descendants i \<Rightarrow> (listManagementGroupDescendants env s who r i, s)
     | ResourceGraph \<Rightarrow> (queryResourceGraph env s who r body, s)
     | OneSubscription sub \<Rightarrow> (sv_getSubscription s who r sub, s)
     | Resources sub \<Rightarrow> (listResources s who r sub, s)
     | Providers sub \<Rightarrow> (listProviders s who r sub, s)
     | SubProvider armType sub \<Rightarrow> (listSubProvider s who r armType sub, s)
     | StorageAccounts sub \<Rightarrow> (sv_listStorageAccounts s who r sub, s)
     | WebSites sub \<Rightarrow> (listWebSites s who r sub, s)
     | NothingThere sub \<Rightarrow> (listEmptyARM s who r sub, s)
     | OneGroup sub name \<Rightarrow> (sv_getResourceGroup s who r sub name, s)
     | AllGroups sub \<Rightarrow> (sv_listResourceGroups s who r sub, s))"

end
