(* ===== verification/Inventory_Rules.thy ===== *)
theory Inventory_Rules
  imports Subscriptions
begin

text \<open>
  What the inventory shows: a request passes only with a grant, filtered lists hold exactly what the caller may
  read, and a Resource Graph query answers with rows of subscriptions the caller may query.
\<close>

section \<open>Fail closed\<close>

text \<open>The action and scope of a request; the filtered lists decide item by item.\<close>

definition sv_need :: "sv_op \<Rightarrow> (string \<times> string) option" where
  "sv_need op = (case op of
       AllSubscriptions \<Rightarrow> None | ResourceGraph \<Rightarrow> None | AllGroups sub \<Rightarrow> None
     | Tenants \<Rightarrow> Some (''Microsoft.Resources/tenants/read'', ''/tenants'')
     | ManagementGroups \<Rightarrow>
         Some (''Microsoft.Management/managementGroups/read'', ''/providers/Microsoft.Management/managementGroups'')
     | Descendants i \<Rightarrow> Some (''Microsoft.Management/managementGroups/read'', mg_scope (trim_space i))
     | OneSubscription sub \<Rightarrow> Some (''Microsoft.Resources/subscriptions/read'', sub_scope sub)
     | Resources sub \<Rightarrow> Some (''Microsoft.Resources/resources/read'', sub_scope sub)
     | Providers sub \<Rightarrow> Some (''Microsoft.Resources/providers/read'', sub_scope sub)
     | SubProvider armType sub \<Rightarrow> Some (''Microsoft.Resources/resources/read'', sub_scope sub)
     | StorageAccounts sub \<Rightarrow> Some (''Microsoft.Storage/storageAccounts/read'', sub_scope sub)
     | WebSites sub \<Rightarrow> Some (''Microsoft.Web/sites/read'', sub_scope sub)
     | NothingThere sub \<Rightarrow> Some (''Microsoft.Resources/resources/read'', sub_scope sub)
     | OneGroup sub name \<Rightarrow> Some (''Microsoft.Resources/subscriptions/resourceGroups/read'', group_scope sub name)
     | PutGroup sub name \<Rightarrow> Some (''Microsoft.Resources/subscriptions/resourceGroups/write'', group_scope sub name))"

definition quiet :: "store \<Rightarrow> http_response \<times> store \<Rightarrow> bool" where
  "quiet s out \<longleftrightarrow> rs_code (fst out) \<notin> {200, 404} \<and> snd out = s"

lemma api_version_code: "requireAPIVersion r = Some rs \<Longrightarrow> rs_code rs = 400"
  by (auto simp: requireAPIVersion_def split: if_splits)

lemma sv_require_passes:
  "sv_require s who action scope = Inr p \<Longrightarrow> granted AllowsARM s who (action, scope)"
  by (auto simp: sv_require_def gate_arm_passes split: option.splits)

lemma sv_require_refuses: "sv_require s who action scope = Inl rs \<Longrightarrow> refusal rs"
  by (auto simp: sv_require_def refusal_def [of "Unauthenticated []"] dest: gate_arm_refuses split: option.splits)

lemma sv_gated_quiet:
  assumes "\<not> granted AllowsARM s who (action, scope)"
  shows "quiet s (sv_gated s who r action scope answer, s)"
proof (cases "requireAPIVersion r")
  case (Some rs)
  then show ?thesis by (simp add: quiet_def sv_gated_def api_version_code)
next
  case None
  show ?thesis
  proof (cases "sv_require s who action scope")
    case (Inl rs)
    with None sv_require_refuses [OF Inl] show ?thesis by (auto simp: quiet_def sv_gated_def refusal_def)
  next
    case (Inr p)
    with assms sv_require_passes [OF Inr] show ?thesis by simp
  qed
qed

lemma sv_handle_quiet:
  assumes "sv_need op = Some need" "\<not> granted AllowsARM s who need"
  shows "quiet s (sv_handle env s who r body op)"
proof (cases op)
  case (PutGroup sub name)
  show ?thesis
  proof (cases "requireAPIVersion r")
    case (Some rs)
    with PutGroup show ?thesis by (simp add: quiet_def sv_handle_def sv_putResourceGroup_def api_version_code)
  next
    case None
    show ?thesis
    proof (cases "sv_require s who ''Microsoft.Resources/subscriptions/resourceGroups/write'' (group_scope sub name)")
      case (Inl rs)
      with PutGroup None sv_require_refuses [OF Inl] show ?thesis
        by (auto simp: quiet_def sv_handle_def sv_putResourceGroup_def refusal_def)
    next
      case (Inr p)
      with assms PutGroup sv_require_passes [OF Inr] show ?thesis by (simp add: sv_need_def)
    qed
  qed
next
  case (Descendants i)
  show ?thesis
  proof (cases "requireAPIVersion r")
    case (Some rs)
    with Descendants show ?thesis
      by (simp add: quiet_def sv_handle_def listManagementGroupDescendants_def api_version_code Let_def)
  next
    case None
    show ?thesis
    proof (cases "sv_require s who ''Microsoft.Management/managementGroups/read'' (mg_scope (trim_space i))")
      case (Inl rs)
      with Descendants None sv_require_refuses [OF Inl] show ?thesis
        by (auto simp: quiet_def sv_handle_def listManagementGroupDescendants_def refusal_def Let_def)
    next
      case (Inr p)
      with assms Descendants sv_require_passes [OF Inr] show ?thesis by (simp add: sv_need_def)
    qed
  qed
qed (use assms in \<open>simp_all add: sv_handle_def sv_need_def listTenants_def sv_listManagementGroups_def
    sv_getSubscription_def listResources_def listProviders_def listSubProvider_def sv_listStorageAccounts_def
    listWebSites_def listEmptyARM_def sv_getResourceGroup_def sv_gated_quiet\<close>)

lemma inventory_fail_closed:
  assumes "sv_need op = Some need"
    and "rs_code (fst (sv_handle env s who r body op)) \<in> {200, 404} \<or> snd (sv_handle env s who r body op) \<noteq> s"
  shows "granted AllowsARM s who need"
  using assms(2) sv_handle_quiet [OF assms(1), of s who env r body] by (auto simp: quiet_def)

section \<open>Filtered lists\<close>

lemma permitted_filter:
  assumes "AllowsARM p"
  shows "permitted s p action scope xs = Inr ys \<Longrightarrow>
    ys = filter (\<lambda>x. granted AllowsARM s (Some p) (action, scope x)) xs"
proof (induction xs arbitrary: ys)
  case (Cons x xs)
  then obtain ok zs where ok: "Evaluate (store_evaluator s) (pr_ID p) (pr_IsRoot p) action (scope x) = Inr ok"
    and zs: "permitted s p action scope xs = Inr zs" "ys = (if ok then x # zs else zs)"
    by (cases "permitted s p action scope xs") (auto split: sum.splits)
  from ok assms have "granted AllowsARM s (Some p) (action, scope x) \<longleftrightarrow> ok" by (simp add: granted_def)
  with Cons.IH [OF zs(1)] zs(2) show ?case by simp
qed simp

lemma sv_caller_200:
  assumes "rs_code (sv_caller who r f) = 200"
  obtains p where "who = Some p" "AllowsARM p" "sv_caller who r f = f p" "rs_code (f p) = 200"
  using assms api_version_code [of r] by (auto simp: sv_caller_def split: option.splits if_splits)

lemma answer_list_200:
  assumes "rs_code (answer_list found render) = 200"
  obtains rows where "found = Inr rows" "answer_list found render = writeJSON 200 (JObj [(''value'', JArr (map render rows))])"
  using assms by (auto simp: answer_list_def split: sum.splits)

definition value_list :: "json list \<Rightarrow> http_response" where
  "value_list items = writeJSON 200 (JObj [(''value'', JArr items)])"

text \<open>
  C15: the list of resource groups holds exactly the groups of the subscription that the caller may read, in order: no
  other group is shown to anyone, and none is missing.
\<close>

theorem groups_listed_are_the_readable:
  assumes "rs_code (sv_listResourceGroups s who r sub) = 200" "ListResourceGroups s sub = Inr groups"
  shows "sv_listResourceGroups s who r sub = value_list (map (\<lambda>(name, location). resourceGroupJSON sub name location)
    (filter (\<lambda>(name, location). granted AllowsARM s who
      (''Microsoft.Resources/subscriptions/resourceGroups/read'', group_scope sub name)) groups))"
proof -
  from assms(1) [unfolded sv_listResourceGroups_def] obtain p where
    p: "who = Some p" "AllowsARM p"
    "sv_listResourceGroups s who r sub =
      answer_list (readable_groups s p sub) (\<lambda>(name, location). resourceGroupJSON sub name location)"
    "rs_code (answer_list (readable_groups s p sub) (\<lambda>(name, location). resourceGroupJSON sub name location)) = 200"
    by (rule sv_caller_200) (simp add: sv_listResourceGroups_def)
  from p(4) obtain rows where rows: "readable_groups s p sub = Inr rows"
    "answer_list (readable_groups s p sub) (\<lambda>(name, location). resourceGroupJSON sub name location) =
      value_list (map (\<lambda>(name, location). resourceGroupJSON sub name location) rows)"
    by (rule answer_list_200) (simp add: value_list_def)
  from rows(1) assms(2) have "permitted s p ''Microsoft.Resources/subscriptions/resourceGroups/read''
      (\<lambda>(name, location). group_scope sub name) groups = Inr rows" by (simp add: readable_groups_def)
  note shown = permitted_filter [OF p(2) this]
  show ?thesis by (simp only: p(3) rows(2)) (simp add: shown p(1) case_prod_unfold)
qed

lemma subscriptions_listed_are_the_readable:
  assumes "rs_code (listSubscriptions s who r) = 200" "ListSubscriptions s = Inr subs"
  shows "listSubscriptions s who r = value_list (map subscription_json
    (filter (\<lambda>row. granted AllowsARM s who (''Microsoft.Resources/subscriptions/read'', sub_scope (sub_id row))) subs))"
proof -
  from assms(1) [unfolded listSubscriptions_def] obtain p where
    p: "who = Some p" "AllowsARM p"
    "listSubscriptions s who r = answer_list (readable_subscriptions s p) subscription_json"
    "rs_code (answer_list (readable_subscriptions s p) subscription_json) = 200"
    by (rule sv_caller_200) (simp add: listSubscriptions_def)
  from p(4) obtain rows where rows: "readable_subscriptions s p = Inr rows"
    "answer_list (readable_subscriptions s p) subscription_json = value_list (map subscription_json rows)"
    by (rule answer_list_200) (simp add: value_list_def)
  from rows(1) assms(2) have "permitted s p ''Microsoft.Resources/subscriptions/read''
      (\<lambda>row. sub_scope (sub_id row)) subs = Inr rows" by (simp add: readable_subscriptions_def)
  note shown = permitted_filter [OF p(2) this]
  show ?thesis by (simp only: p(3) rows(2)) (simp add: shown p(1))
qed

section \<open>Resource Graph\<close>

lemma graph_rows_kept:
  assumes "graph_rows s p allowed query = Inr rows" "row \<in> set rows"
  shows "row \<in> set (tb_arg_resources (st_observations s)) \<and>
    (if trim_space (arg_subscription_id row) = [] then pr_IsRoot p else trim_space (arg_subscription_id row) \<in> set allowed)"
proof -
  obtain table ty limit where q: "parseARGQuery query = (table, ty, limit)" by (rule prod_cases3)
  from assms(1) q obtain found where found: "ListARGResources s table ty = Inr found"
    "rows = (let kept = filterARGBySubscriptions found allowed (pr_IsRoot p) in
      if limit > 0 \<and> limit < int (length kept) then take (nat limit) kept else kept)"
    by (auto simp: graph_rows_def Let_def split: sum.splits)
  from found(2) assms(2) have "row \<in> set (filterARGBySubscriptions found allowed (pr_IsRoot p))"
    by (auto simp: Let_def split: if_splits dest: in_set_takeD)
  moreover from found(1) have "set found \<subseteq> set (tb_arg_resources (st_observations s))"
    by (auto simp: ListARGResources_def db_query_def split: option.splits)
  ultimately show ?thesis by (auto simp: filterARGBySubscriptions_def Let_def split: if_splits)
qed

definition graph_answer :: "arg_resource list \<Rightarrow> http_response" where
  "graph_answer rows = writeJSON 200 (JObj [(''totalRecords'', JNum (int (length rows))),
     (''count'', JNum (int (length rows))), (''data'', JArr (map graph_row rows)), (''resultTruncated'', JStr ''false'')])"

text \<open>
  C16: a Resource Graph query answers with stored resources of subscriptions for which the caller is granted the query,
  and shows resources without a subscription to root only.
\<close>

theorem graph_queries_stay_in_reach:
  assumes "rs_code (queryResourceGraph env s who r body) = 200"
  shows "\<exists>p rows. who = Some p \<and> queryResourceGraph env s who r body = graph_answer rows \<and>
    set rows \<subseteq> {row \<in> set (tb_arg_resources (st_observations s)).
      if trim_space (arg_subscription_id row) = [] then pr_IsRoot p
      else granted AllowsARM s who
        (''Microsoft.ResourceGraph/resources/read'', sub_scope (trim_space (arg_subscription_id row)))}"
proof -
  define f where "f = (\<lambda>p. case map_sum id (take 1048576) body of
         Inl e \<Rightarrow> BadRequest ''unable to read body''
       | Inr bs \<Rightarrow> (case decode_graph_query (sv_lib env) bs of
           None \<Rightarrow> BadRequest ''invalid JSON body''
         | Some (query, asked) \<Rightarrow>
             (case permitted s p ''Microsoft.ResourceGraph/resources/read'' sub_scope (graph_subscriptions env asked) of
                Inl e \<Rightarrow> internal_server_error e
              | Inr allowed \<Rightarrow>
                  if allowed = [] then Forbidden []
                  else (case graph_rows s p allowed query of
                      Inl e \<Rightarrow> internal_server_error e
                    | Inr rows \<Rightarrow> graph_answer rows))))"
  have whole: "queryResourceGraph env s who r body = sv_caller who r f"
    unfolding queryResourceGraph_def f_def graph_answer_def by (rule refl)
  from assms [unfolded whole] obtain p where p: "who = Some p" "AllowsARM p" "sv_caller who r f = f p" "rs_code (f p) = 200"
    by (rule sv_caller_200)
  from p(4) obtain asked allowed query rows where
    allowed: "permitted s p ''Microsoft.ResourceGraph/resources/read'' sub_scope (graph_subscriptions env asked) = Inr allowed"
    and rows: "graph_rows s p allowed query = Inr rows" "f p = graph_answer rows"
    by (auto simp: f_def split: sum.splits option.splits if_splits)
  from permitted_filter [OF p(2) allowed]
  have "granted AllowsARM s who (''Microsoft.ResourceGraph/resources/read'', sub_scope sub)" if "sub \<in> set allowed" for sub
    using that p(1) by simp
  with graph_rows_kept [OF rows(1)] have "set rows \<subseteq> {row \<in> set (tb_arg_resources (st_observations s)).
      if trim_space (arg_subscription_id row) = [] then pr_IsRoot p
      else granted AllowsARM s who
        (''Microsoft.ResourceGraph/resources/read'', sub_scope (trim_space (arg_subscription_id row)))}"
    by (auto split: if_splits)
  moreover have "queryResourceGraph env s who r body = graph_answer rows" by (simp only: whole p(3) rows(2))
  ultimately show ?thesis by (intro exI [of _ p] exI [of _ rows] conjI p(1))
qed

section \<open>Examples\<close>

definition lab_inventory :: store where
  "lab_inventory = empty_store\<lparr>
    tb_resource_groups := [\<lparr>rg_subscription_id = ''s'', rg_name = ''g1'', rg_location = ''eastus''\<rparr>],
    st_observations := empty_observations\<lparr>tb_arg_resources := [\<lparr>arg_id = ''/x'', arg_table_name = ''Resources'',
      arg_type = ''t'', arg_name = ''x'', arg_subscription_id = ''s'', arg_resource_group = ''g1'', arg_tenant_id = [],
      arg_properties = JNull\<rparr>]\<rparr>\<rparr>"

definition lab_subs :: sub_env where
  "lab_subs = \<lparr>sv_lib = lab_lib, sv_SubscriptionID = ''s'', sv_TenantID = [], sv_now = 0, sv_clock = 0, sv_remote = [],
    sv_lab_name = ''Lab''\<rparr>"

theorem groups_listed_are_the_readable_witness:
  "sv_listResourceGroups lab_inventory (Some root_principal) versioned ''s'' =
    value_list (map (\<lambda>(name, location). resourceGroupJSON ''s'' name location)
      (filter (\<lambda>(name, location). granted AllowsARM lab_inventory (Some root_principal)
        (''Microsoft.Resources/subscriptions/resourceGroups/read'', group_scope ''s'' name)) [(''g1'', ''eastus'')]))"
proof (rule groups_listed_are_the_readable)
  show "rs_code (sv_listResourceGroups lab_inventory (Some root_principal) versioned ''s'') = 200" by code_simp
  show "ListResourceGroups lab_inventory ''s'' = Inr [(''g1'', ''eastus'')]" by code_simp
qed

theorem graph_queries_stay_in_reach_witness:
  "\<exists>p rows. Some root_principal = Some p \<and>
    queryResourceGraph lab_subs lab_inventory (Some root_principal) versioned (Inr []) = graph_answer rows \<and>
    set rows \<subseteq> {row \<in> set (tb_arg_resources (st_observations lab_inventory)).
      if trim_space (arg_subscription_id row) = [] then pr_IsRoot p
      else granted AllowsARM lab_inventory (Some root_principal)
        (''Microsoft.ResourceGraph/resources/read'', sub_scope (trim_space (arg_subscription_id row)))}"
proof (rule graph_queries_stay_in_reach)
  have version: "requireAPIVersion versioned = None" by code_simp
  have root: "pr_IsRoot root_principal" "AllowsARM root_principal" by code_simp+
  have subs: "graph_subscriptions lab_subs [] = [''s'']" by code_simp
  have asked: "permitted lab_inventory root_principal action sub_scope [''s''] = Inr [''s'']" for action
    by (simp add: root(1) Evaluate_root)
  have query: "parseARGQuery [] = ([], [], 0)" by code_simp
  have "\<exists>rows. graph_rows lab_inventory root_principal [''s''] [] = Inr rows"
    by (simp add: graph_rows_def query ListARGResources_def db_query_def lab_inventory_def empty_store_def Let_def)
  then show "rs_code (queryResourceGraph lab_subs lab_inventory (Some root_principal) versioned (Inr [])) = 200"
    by (auto simp: queryResourceGraph_def sv_caller_def version root(2) decode_graph_query_def subs asked simp del: permitted.simps)
qed

end
