(* ===== verification/Monitor.thy ===== *)
theory Monitor
  imports Subscriptions
begin

text \<open>
  Azure Monitor: \<open>internal/services/monitor\<close>. The activity log, metrics, diagnostic settings, log workspaces with
  queries (\<open>handler.go\<close>, \<open>diagnostic.go\<close>, \<open>loganalytics.go\<close>), and the injection of laboratory data (\<open>inject.go\<close>),
  which is redacted.
\<close>

section \<open>Environment and routes\<close>

text \<open>
  \<open>mon_now\<close> is the clock of the laboratory, \<open>mon_clock\<close> that of the wall, both in nanoseconds; \<open>mon_marshal\<close> is
  \<open>json.Marshal\<close>, \<open>mon_format_nano\<close> and \<open>mon_format\<close> render times.
\<close>

record mon_env =
  mon_lib :: stdlib
  mon_ActivityInject :: bool
  mon_LogsInject :: bool
  mon_DefenderInject :: bool
  mon_SubscriptionID :: string
  mon_TenantID :: string
  mon_now :: int
  mon_clock :: int
  mon_remote :: string
  mon_marshal :: "json \<Rightarrow> string"
  mon_format_nano :: "int \<Rightarrow> string"
  mon_format :: "int \<Rightarrow> string"

datatype mon_op =
    ListActivity string | WriteMetricOp string | ListMetricsOp string
  | PutWorkspace string string string | GetWorkspace string string string
  | QueryKQL string | IngestRows string string
  | PutDiagnostic string string | GetDiagnostic string string | DeleteDiagnostic string string | ListDiagnostics string
  | InjectActivity | InjectLogs | InjectAssessments

definition diagnosticTargetID :: "string \<Rightarrow> (string \<times> string \<times> string \<times> string) option \<Rightarrow> string" where
  "diagnosticTargetID sub resource =
    (case resource of
       None \<Rightarrow> ''/subscriptions/'' @ sub
     | Some (rg, provider, rtype, res) \<Rightarrow> ''/subscriptions/'' @ sub @ ''/resourceGroups/'' @ rg @
         ''/providers/'' @ provider @ ''/'' @ rtype @ ''/'' @ res)"

definition diagnostic_op :: "string \<Rightarrow> string \<Rightarrow> string list \<Rightarrow> mon_op option" where
  "diagnostic_op method target rest =
    (let get = (method = ''GET'' \<or> method = ''HEAD'') in
     case rest of
       [a, b, c] \<Rightarrow>
         if a = ''providers'' \<and> b = ''Microsoft.Insights'' \<and> c = ''diagnosticSettings'' \<and> get
         then Some (ListDiagnostics target) else None
     | [a, b, c, name] \<Rightarrow>
         if a = ''providers'' \<and> b = ''Microsoft.Insights'' \<and> c = ''diagnosticSettings''
         then (if method = ''PUT'' then Some (PutDiagnostic target name)
               else if get then Some (GetDiagnostic target name)
               else if method = ''DELETE'' then Some (DeleteDiagnostic target name) else None)
         else None
     | _ \<Rightarrow> None)"

definition mountDiagnosticSettings :: "string \<Rightarrow> string list \<Rightarrow> mon_op option" where
  "mountDiagnosticSettings method segs =
    (case segs of
       a # sub # rest \<Rightarrow>
         if a \<noteq> ''subscriptions'' then None
         else (case diagnostic_op method (diagnosticTargetID sub None) rest of
             Some op \<Rightarrow> Some op
           | None \<Rightarrow> (case rest of
               b # rg # c # provider # rtype # res # rest' \<Rightarrow>
                 if b = ''resourceGroups'' \<and> c = ''providers''
                 then diagnostic_op method (diagnosticTargetID sub (Some (rg, provider, rtype, res))) rest' else None
             | _ \<Rightarrow> None))
     | _ \<Rightarrow> None)"

definition mountLab :: "string \<Rightarrow> string list \<Rightarrow> mon_op option" where
  "mountLab method segs =
    (case segs of
       [a, b, c] \<Rightarrow>
         if a \<noteq> ''_noctaxris-az'' \<or> b \<noteq> ''lab'' \<or> method \<noteq> ''POST'' then None
         else if c = ''activityLog:inject'' then Some InjectActivity
         else if c = ''logs:inject'' then Some InjectLogs
         else if c = ''securityAssessments:inject'' then Some InjectAssessments else None
     | _ \<Rightarrow> None)"

definition mon_route :: "string \<Rightarrow> string list \<Rightarrow> mon_op option" where
  "mon_route method segs =
    (let get = (method = ''GET'' \<or> method = ''HEAD''); post = (method = ''POST'') in
     if [] \<in> set segs then None
     else (case mountLab method segs of
         Some op \<Rightarrow> Some op
       | None \<Rightarrow> (case mountDiagnosticSettings method segs of
           Some op \<Rightarrow> Some op
         | None \<Rightarrow> (case segs of
             [a, sub, c, ns, e, m, v] \<Rightarrow>
               if a = ''subscriptions'' \<and> c = ''providers'' \<and> ns = ''Microsoft.Insights'' \<and> e = ''eventtypes'' \<and>
                  m = ''management'' \<and> v = ''values'' \<and> get then Some (ListActivity sub) else None
           | [a, sub, c, ns, m] \<Rightarrow>
               if a = ''subscriptions'' \<and> c = ''providers'' \<and> ns = ''Microsoft.Insights'' \<and> m = ''metrics''
               then (if post then Some (WriteMetricOp sub) else if get then Some (ListMetricsOp sub) else None)
               else None
           | [a, sub, b, rg, c, ns, ty, name] \<Rightarrow>
               if a = ''subscriptions'' \<and> b = ''resourceGroups'' \<and> c = ''providers'' \<and>
                  ns = ''Microsoft.OperationalInsights'' \<and> ty = ''workspaces''
               then (if method = ''PUT'' then Some (PutWorkspace sub rg name)
                     else if get then Some (GetWorkspace sub rg name) else None)
               else None
           | [a, ws, q] \<Rightarrow> if a = ''loganalytics'' \<and> q = ''query'' \<and> post then Some (QueryKQL ws) else None
           | [a, ws, i, table] \<Rightarrow>
               if a = ''loganalytics'' \<and> i = ''ingest'' \<and> post then Some (IngestRows ws table) else None
           | _ \<Rightarrow> None))))"

section \<open>Gates\<close>

definition mon_require :: "store \<Rightarrow> Principal \<Rightarrow> string \<Rightarrow> string \<Rightarrow> http_response option" where
  "mon_require s p action scope = requireAction s p action scope"

definition requireInjectRoot :: "Principal \<Rightarrow> bool \<Rightarrow> string \<Rightarrow> string \<Rightarrow> http_response option" where
  "requireInjectRoot p enabled env label =
    (if \<not> enabled then Some (WriteARM 403 ''AccessDenied'' (label @ '' is disabled. Set '' @ env @ ''=1 to enable.''))
     else if \<not> pr_IsRoot p then Some (WriteARM 403 ''AccessDenied'' (label @ '' requires Bearer root''))
     else None)"

section \<open>The activity log\<close>

definition activityLogDefaultTop :: nat where
  "activityLogDefaultTop = 1000"

definition activityLogMaxTop :: int where
  "activityLogMaxTop = 10000"

definition parseActivityLogTop :: "string \<Rightarrow> nat" where
  "parseActivityLogTop raw =
    (if trim_space raw = [] then 0
     else (case parse_int64 raw of
         None \<Rightarrow> 0
       | Some n \<Rightarrow> if n \<le> 0 then 0 else if n > activityLogMaxTop then nat activityLogMaxTop else nat n))"

definition named :: "string \<Rightarrow> json" where
  "named v = JObj [(''value'', JStr v), (''localizedValue'', JStr v)]"

definition activity_identity :: "mon_env \<Rightarrow> activity_row \<Rightarrow> (string \<times> json) list" where
  "activity_identity env row =
    (let text = act_identity row;
         ident = (if text = [] then JNull else (case json_parse (mon_lib env) text of Inr v \<Rightarrow> v | Inl e \<Rightarrow> JStr text));
         caller = trim_space (act_caller row) in
     if ident \<noteq> JNull then [(''identity'', ident)]
     else if caller \<noteq> [] then
       [(''identity'', JObj [(''claims'', JObj [(''appid'', JStr caller),
         (''http://schemas.microsoft.com/identity/claims/objectidentifier'', JStr caller)])])]
     else [])"

definition activity_event :: "mon_env \<Rightarrow> string \<Rightarrow> activity_row \<Rightarrow> json" where
  "activity_event env sub row =
    (let time = mon_format_nano env (act_timestamp row) in
     JObj ([(''eventTimestamp'', JStr time), (''caller'', JStr (act_caller row)),
       (''operationName'', named (act_operation row)), (''resourceId'', JStr (act_resource_id row)),
       (''status'', named (act_status row)), (''description'', JStr (act_message row)), (''subscriptionId'', JStr sub),
       (''eventDataId'', JStr (time @ ''|'' @ act_operation row)), (''callerIpAddress'', JStr (act_client_ip row)),
       (''httpRequest'', JObj [(''clientIpAddress'', JStr (act_client_ip row))])] @ activity_identity env row))"

definition listActivity :: "mon_env \<Rightarrow> store \<Rightarrow> http_request \<Rightarrow> Principal \<Rightarrow> string \<Rightarrow> http_response" where
  "listActivity env s r p sub =
    (case mon_require s p ''Microsoft.Insights/eventtypes/values/read'' (''/subscriptions/'' @ sub) of
       Some rs \<Rightarrow> rs
     | None \<Rightarrow>
         (let given = parseActivityLogTop (query_get r ''$top'');
              given = (if given = 0 then parseActivityLogTop (query_get r ''top'') else given);
              limit = (if given = 0 then activityLogDefaultTop else given) in
          case ListActivityLogForSubscription s sub limit of
            Inl e \<Rightarrow> internal_server_error e
          | Inr rows \<Rightarrow> writeJSON 200 (JObj [(''value'', JArr (map (activity_event env sub) rows))])))"

section \<open>Metrics\<close>

text \<open>The body of a metric, \<open>None\<close> when it does not decode; values are whole numbers.\<close>

fun decode_metric_value :: "(string \<times> json) list \<Rightarrow> int \<times> bool \<Rightarrow> int \<times> bool" where
  "decode_metric_value [] acc = acc"
| "decode_metric_value ((k, v) # kvs) (n, ok) =
    decode_metric_value kvs
      (if equal_fold k ''value'' then (case v of JNum m \<Rightarrow> (m, ok) | JNull \<Rightarrow> (n, ok) | _ \<Rightarrow> (n, False)) else (n, ok))"

definition decode_metric :: "json option \<Rightarrow> ((string \<Rightarrow> string) \<times> int) option" where
  "decode_metric body =
    (let (field, ok) = decode_strings [''name'', ''resourceId''] body;
         (v, vok) = (case body of Some (JObj kvs) \<Rightarrow> decode_metric_value kvs (0, True) | _ \<Rightarrow> (0, True)) in
     if ok \<and> vok then Some (field, v) else None)"

definition writeMetric :: "mon_env \<Rightarrow> store \<Rightarrow> http_request \<Rightarrow> Principal \<Rightarrow> string \<Rightarrow> http_response \<times> store" where
  "writeMetric env s r p sub =
    (case mon_require s p ''Microsoft.Insights/metrics/write'' (''/subscriptions/'' @ sub) of
       Some rs \<Rightarrow> (rs, s)
     | None \<Rightarrow> (case decode_metric (rq_json r) of
         None \<Rightarrow> (BadRequest ''invalid JSON body'', s)
       | Some (field, v) \<Rightarrow>
           if field ''name'' = [] then (BadRequest ''name is required'', s)
           else (case WriteMetric s (mon_clock env) (field ''name'') v (field ''resourceId'') of
               (Inl e, s1) \<Rightarrow> (internal_server_error e, s1)
             | (Inr u, s1) \<Rightarrow> (writeJSON 200 (JObj [(''name'', JStr (field ''name'')), (''value'', JNum v),
                 (''resourceId'', JStr (field ''resourceId''))]), s1))))"

definition metric_json :: "mon_env \<Rightarrow> metric_row \<Rightarrow> json" where
  "metric_json env row =
    JObj [(''name'', named (mtr_name row)),
      (''timeseries'', JArr [JObj [(''data'', JArr [JObj [(''average'', JNum (mtr_value row)),
        (''timeStamp'', JStr (mon_format env (mtr_timestamp row)))]])]]),
      (''resourceId'', JStr (mtr_resource_id row)), (''unit'', JStr ''Count'')]"

definition listMetrics :: "mon_env \<Rightarrow> store \<Rightarrow> http_request \<Rightarrow> Principal \<Rightarrow> string \<Rightarrow> http_response" where
  "listMetrics env s r p sub =
    (case mon_require s p ''Microsoft.Insights/metrics/read'' (''/subscriptions/'' @ sub) of
       Some rs \<Rightarrow> rs
     | None \<Rightarrow>
         (let given = query_get r ''metricnames'';
              name = (if given = [] then query_get r ''name'' else given);
              limit = (case parse_int64 (query_get r ''$top'') of Some n \<Rightarrow> if n > 0 then nat n else 50 | None \<Rightarrow> 50) in
          case ListMetricsForSubscription s sub name limit of
            Inl e \<Rightarrow> internal_server_error e
          | Inr rows \<Rightarrow> writeJSON 200 (JObj [(''value'', JArr (map (metric_json env) rows)), (''subscriptionId'', JStr sub)])))"


section \<open>Diagnostic settings\<close>

definition diagnosticSettingID :: "string \<Rightarrow> string \<Rightarrow> string" where
  "diagnosticSettingID target name =
    trim_right_char CHR ''/'' target @ ''/providers/Microsoft.Insights/diagnosticSettings/'' @ name"

definition diagnosticSettingJSON :: "string \<Rightarrow> string \<Rightarrow> json_map \<Rightarrow> json" where
  "diagnosticSettingJSON i name props =
    JObj [(''id'', JStr i), (''name'', JStr name), (''type'', JStr ''Microsoft.Insights/diagnosticSettings''),
      (''properties'', JObj props)]"

definition diagnosticSettingFromRow :: "diagnostic_setting \<Rightarrow> json" where
  "diagnosticSettingFromRow row =
    diagnosticSettingJSON (dgs_id row) (dgs_name row) (case dgs_properties row of JObj m \<Rightarrow> m | _ \<Rightarrow> [])"

text \<open>The field \<open>properties\<close> of a body, \<open>None\<close> when the body does not decode; an empty body has none.\<close>

fun decode_properties_map :: "(string \<times> json) list \<Rightarrow> json_map option \<Rightarrow> json_map option option" where
  "decode_properties_map [] acc = Some acc"
| "decode_properties_map ((k, v) # kvs) acc =
    (if equal_fold k ''properties'' then
       (case v of
          JObj m \<Rightarrow> decode_properties_map kvs (Some (map_update (case acc of None \<Rightarrow> [] | Some old \<Rightarrow> old) m))
        | JNull \<Rightarrow> decode_properties_map kvs None
        | _ \<Rightarrow> None)
     else decode_properties_map kvs acc)"

definition decode_diagnostic :: "stdlib \<Rightarrow> byte list \<Rightarrow> json_map option" where
  "decode_diagnostic lib body =
    (if body = [] then Some []
     else (case json_parse lib (string_of_bytes body) of
         Inr (JObj kvs) \<Rightarrow> map_option (\<lambda>m. case m of None \<Rightarrow> [] | Some props \<Rightarrow> props) (decode_properties_map kvs None)
       | Inr JNull \<Rightarrow> Some []
       | _ \<Rightarrow> None))"

definition putDiagnosticSetting ::
  "mon_env \<Rightarrow> store \<Rightarrow> byte list result \<Rightarrow> Principal \<Rightarrow> string \<Rightarrow> string \<Rightarrow> http_response \<times> store" where
  "putDiagnosticSetting env s body p target name =
    (case mon_require s p ''Microsoft.Insights/diagnosticSettings/write'' target of
       Some rs \<Rightarrow> (rs, s)
     | None \<Rightarrow> (case map_sum id (take 1048576) body of
         Inl e \<Rightarrow> (BadRequest e, s)
       | Inr bs \<Rightarrow> (case decode_diagnostic (mon_lib env) bs of
           None \<Rightarrow> (BadRequest ''invalid JSON body'', s)
         | Some props \<Rightarrow>
             (let workspaceID = (case map_of props ''workspaceId'' of Some (JStr w) \<Rightarrow> w | _ \<Rightarrow> []);
                  i = diagnosticSettingID target name in
              case UpsertDiagnosticSetting s i target name workspaceID (JObj props) of
                (Inl e, s1) \<Rightarrow> (internal_server_error e, s1)
              | (Inr u, s1) \<Rightarrow> (writeJSON 200 (diagnosticSettingJSON i name props),
                  snd (AppendActivityLogRow s1 (mon_clock env) (activity (mon_now env) (pr_ID p)
                    ''Microsoft.Insights/diagnosticSettings/write'' i (client_ip (mon_remote env)))))))))"

definition getDiagnosticSetting :: "store \<Rightarrow> Principal \<Rightarrow> string \<Rightarrow> string \<Rightarrow> http_response" where
  "getDiagnosticSetting s p target name =
    (case mon_require s p ''Microsoft.Insights/diagnosticSettings/read'' target of
       Some rs \<Rightarrow> rs
     | None \<Rightarrow> (case GetDiagnosticSetting s (diagnosticSettingID target name) of
         Inl e \<Rightarrow> internal_server_error e
       | Inr None \<Rightarrow> NotFound ''diagnostic setting not found''
       | Inr (Some row) \<Rightarrow> writeJSON 200 (diagnosticSettingFromRow row)))"

definition deleteDiagnosticSetting ::
  "mon_env \<Rightarrow> store \<Rightarrow> Principal \<Rightarrow> string \<Rightarrow> string \<Rightarrow> http_response \<times> store" where
  "deleteDiagnosticSetting env s p target name =
    (case mon_require s p ''Microsoft.Insights/diagnosticSettings/delete'' target of
       Some rs \<Rightarrow> (rs, s)
     | None \<Rightarrow>
         (let i = diagnosticSettingID target name in
          case DeleteDiagnosticSetting s i of
            (Inl e, s1) \<Rightarrow> (internal_server_error e, s1)
          | (Inr ok, s1) \<Rightarrow>
              if \<not> ok then (NotFound ''diagnostic setting not found'', s1)
              else (writeHeader 200, snd (AppendActivityLogRow s1 (mon_clock env) (activity (mon_now env) (pr_ID p)
                ''Microsoft.Insights/diagnosticSettings/delete'' i (client_ip (mon_remote env)))))))"

definition listDiagnosticSettings :: "store \<Rightarrow> Principal \<Rightarrow> string \<Rightarrow> http_response" where
  "listDiagnosticSettings s p target =
    (case mon_require s p ''Microsoft.Insights/diagnosticSettings/read'' target of
       Some rs \<Rightarrow> rs
     | None \<Rightarrow> answer_list (ListDiagnosticSettings s target) diagnosticSettingFromRow)"

section \<open>Log workspaces\<close>

definition workspace_type :: string where
  "workspace_type = ''Microsoft.OperationalInsights/workspaces''"

definition workspace_id :: "string \<Rightarrow> string \<Rightarrow> string \<Rightarrow> string" where
  "workspace_id sub rg name = group_scope sub rg @ ''/providers/'' @ workspace_type @ ''/'' @ name"

definition workspace_json :: "string \<Rightarrow> string \<Rightarrow> string \<Rightarrow> string \<Rightarrow> json" where
  "workspace_json sub rg name location =
    JObj [(''id'', JStr (workspace_id sub rg name)), (''name'', JStr name), (''type'', JStr workspace_type),
      (''location'', JStr location), (''properties'', JObj [(''provisioningState'', JStr ''Succeeded'')])]"

definition putWorkspace :: "store \<Rightarrow> Principal \<Rightarrow> string \<Rightarrow> string \<Rightarrow> string \<Rightarrow> http_response \<times> store" where
  "putWorkspace s p sub rg name =
    (case mon_require s p ''Microsoft.OperationalInsights/workspaces/write'' (group_scope sub rg) of
       Some rs \<Rightarrow> (rs, s)
     | None \<Rightarrow> (case UpsertProviderResource s workspace_type sub rg name ''eastus''
           (Some (JObj [(''provisioningState'', JStr ''Succeeded'')])) of
         (Inl e, s1) \<Rightarrow> (internal_server_error e, s1)
       | (Inr u, s1) \<Rightarrow> (writeJSON 200 (workspace_json sub rg name ''eastus''), s1)))"

definition getWorkspace :: "store \<Rightarrow> Principal \<Rightarrow> string \<Rightarrow> string \<Rightarrow> string \<Rightarrow> http_response" where
  "getWorkspace s p sub rg name =
    (case mon_require s p ''Microsoft.OperationalInsights/workspaces/read'' (group_scope sub rg) of
       Some rs \<Rightarrow> rs
     | None \<Rightarrow> (case GetProviderResource s workspace_type sub rg name of
         Inl e \<Rightarrow> internal_server_error e
       | Inr None \<Rightarrow> NotFound ''workspace not found''
       | Inr (Some row) \<Rightarrow> writeJSON 200 (workspace_json sub rg name (pv_Location row))))"

text \<open>\<open>strings.LastIndex\<close>.\<close>

fun last_index_of :: "string \<Rightarrow> string \<Rightarrow> nat option" where
  "last_index_of [] t = (if t = [] then Some 0 else None)"
| "last_index_of (x # xs) t =
    (case last_index_of xs t of
       Some i \<Rightarrow> Some (Suc i)
     | None \<Rightarrow> if has_prefix (x # xs) t then Some 0 else None)"

definition workspaceQueryName :: "string \<Rightarrow> string" where
  "workspaceQueryName raw0 =
    (let raw = trim_space raw0;
         name = (case last_index_of (to_lower raw) ''/workspaces/'' of
             None \<Rightarrow> raw | Some i \<Rightarrow> trim_chars [CHR ''/''] (drop (i + 12) raw)) in
     if name = [] then ''default'' else name)"

definition workspaceAuthScope :: "mon_env \<Rightarrow> store \<Rightarrow> string \<Rightarrow> string" where
  "workspaceAuthScope env s workspace =
    (case (if workspace = [] then Inr None else GetProviderResourceByName s workspace_type workspace) of
       Inr (Some row) \<Rightarrow> workspace_id (pv_SubscriptionID row) (pv_ResourceGroup row) (pv_Name row)
     | _ \<Rightarrow> if trim_space (mon_SubscriptionID env) \<noteq> [] then ''/subscriptions/'' @ mon_SubscriptionID env else ''/'')"

definition queryKQL :: "mon_env \<Rightarrow> store \<Rightarrow> http_request \<Rightarrow> Principal \<Rightarrow> string \<Rightarrow> http_response" where
  "queryKQL env s r p workspace =
    (let ws = workspaceQueryName workspace in
     case mon_require s p ''Microsoft.OperationalInsights/workspaces/query/read'' (workspaceAuthScope env s ws) of
       Some rs \<Rightarrow> rs
     | None \<Rightarrow> (case QueryLogAnalyticsKQL (mon_lib env) s ws (fst (decode_strings [''query''] (rq_json r)) ''query'') of
         Inl e \<Rightarrow> BadRequest e
       | Inr rows \<Rightarrow> writeJSON 200 (JObj [(''tables'', JArr [JObj [(''name'', JStr ''PrimaryResult''), (''rows'', JArr rows)]])])))"

text \<open>A body of rows: an array of objects, or one object; a null item is a row without fields, stored as null.\<close>

definition decode_rows :: "stdlib \<Rightarrow> byte list \<Rightarrow> json list option" where
  "decode_rows lib body =
    (case json_parse lib (string_of_bytes body) of
       Inr (JArr items) \<Rightarrow>
         if list_all (\<lambda>v. case v of JObj m \<Rightarrow> True | JNull \<Rightarrow> True | _ \<Rightarrow> False) items then Some items else None
     | Inr JNull \<Rightarrow> Some []
     | Inr (JObj m) \<Rightarrow> Some [JObj m]
     | _ \<Rightarrow> None)"

text \<open>The rows before one that fails stay.\<close>

fun ingest_all :: "string \<Rightarrow> string \<Rightarrow> json list \<Rightarrow> store \<Rightarrow> unit result \<times> store" where
  "ingest_all ws table [] s = (Inr (), s)"
| "ingest_all ws table (row # rows) s =
    (case IngestLogAnalyticsRow s ws table row of
       (Inl e, s1) \<Rightarrow> (Inl e, s1)
     | (Inr u, s1) \<Rightarrow> ingest_all ws table rows s1)"

definition ingestRows ::
  "mon_env \<Rightarrow> store \<Rightarrow> byte list result \<Rightarrow> Principal \<Rightarrow> string \<Rightarrow> string \<Rightarrow> http_response \<times> store" where
  "ingestRows env s body p workspace table =
    (case requireInjectRoot p (mon_LogsInject env) ''NOCTAXRIS_AZ_LOGS_INJECT'' ''Log Analytics inject'' of
       Some rs \<Rightarrow> (rs, s)
     | None \<Rightarrow> (case map_sum id (take 1048576) body of
         Inl e \<Rightarrow> (BadRequest e, s)
       | Inr bs \<Rightarrow> (case decode_rows (mon_lib env) bs of
           None \<Rightarrow> (BadRequest ''expected JSON object or array'', s)
         | Some rows \<Rightarrow> (case ingest_all (workspaceQueryName workspace) table rows s of
             (Inl e, s1) \<Rightarrow> (internal_server_error e, s1)
           | (Inr u, s1) \<Rightarrow> (writeJSON 200 (JObj [(''ingested'', JNum (int (length rows)))]), s1)))))"

end
