(* ===== verification/Monitor_Inject.thy ===== *)
theory Monitor_Inject
  imports Monitor
begin

text \<open>
  The injection of laboratory data into the activity log, the log tables and Resource Graph, with its redaction:
  \<open>internal/services/monitor/inject.go\<close>; and the handler over all operations of the package.
\<close>

section \<open>Redaction\<close>

definition injectMaxEntries :: nat where "injectMaxEntries = 50"
definition injectMaxDepth :: nat where "injectMaxDepth = 8"
definition injectMaxMapKeys :: nat where "injectMaxMapKeys = 64"
definition injectMaxStrLen :: nat where "injectMaxStrLen = 1024"

definition injectSensitiveKey :: "string \<Rightarrow> bool" where
  "injectSensitiveKey key =
    (let k = to_lower (trim_space key) in
     k \<in> set [''password'', ''secret'', ''token'', ''secretstring'', ''secretbinary'', ''sessiontoken'', ''idtoken'',
       ''accesstoken'', ''refreshtoken'', ''clientsecret'', ''privatekey'', ''credentials'', ''authorization''] \<or>
     contains k ''password'' \<or> contains k ''secret'' \<or> has_suffix k ''token'')"

definition redacted_text :: json where
  "redacted_text = JStr ''[REDACTED]''"

text \<open>
  The loop over a map: the order of the list is the order of the iteration, which Go chooses. \<open>f\<close> redacts a value.
\<close>

definition redact_entries :: "(json \<Rightarrow> json) \<Rightarrow> json_map \<Rightarrow> json_map" where
  "redact_entries f m =
    (let kept = map (\<lambda>(k, v). (k, if injectSensitiveKey k then redacted_text else f v)) (take injectMaxMapKeys m) in
     if length m > injectMaxMapKeys then AList.update ''_truncated'' (JBool True) kept else kept)"

fun redactInjectValue :: "nat \<Rightarrow> json \<Rightarrow> json" where
  "redactInjectValue 0 v = JStr ''[redacted:depth]''"
| "redactInjectValue (Suc depth) v =
    (case v of
       JObj m \<Rightarrow> JObj (redact_entries (redactInjectValue depth) m)
     | JArr items \<Rightarrow> JArr (map (redactInjectValue depth) (take injectMaxMapKeys items))
     | JStr t \<Rightarrow> JStr (if length t > injectMaxStrLen then take injectMaxStrLen t @ ''...'' else t)
     | _ \<Rightarrow> v)"

definition redactInjectMap :: "json_map \<Rightarrow> nat \<Rightarrow> json_map" where
  "redactInjectMap m depth =
    (if depth = 0 then [(''_redacted'', JStr ''depth'')] else redact_entries (redactInjectValue (depth - 1)) m)"

section \<open>Decoding\<close>

text \<open>
  The field of a struct in an object: keys match without case and the last one counts. A field that holds a list or
  a pointer is expected once.
\<close>

definition last_field :: "string \<Rightarrow> (string \<times> json) list \<Rightarrow> json" where
  "last_field name kvs = (case find (\<lambda>(k, v). equal_fold k name) (rev kvs) of None \<Rightarrow> JNull | Some (k, v) \<Rightarrow> v)"

definition object_items :: "json \<Rightarrow> json_map list option" where
  \<comment> \<open>a list of objects, null standing for an empty one; \<open>None\<close> is an error\<close>
  "object_items v =
    (case v of
       JNull \<Rightarrow> Some []
     | JArr items \<Rightarrow>
         if list_all (\<lambda>x. case x of JObj m \<Rightarrow> True | JNull \<Rightarrow> True | _ \<Rightarrow> False) items
         then Some (map (\<lambda>x. case x of JObj m \<Rightarrow> m | _ \<Rightarrow> []) items) else None
     | _ \<Rightarrow> None)"

definition stringifyNamed :: "json \<Rightarrow> string" where
  "stringifyNamed v =
    (case v of
       JNull \<Rightarrow> []
     | JStr t \<Rightarrow> trim_space t
     | JObj m \<Rightarrow> (case map_of m ''value'' of Some (JStr t) \<Rightarrow> trim_space t | _ \<Rightarrow> trim_space (sprint v))
     | _ \<Rightarrow> trim_space (sprint v))"

definition mapString :: "json_map \<Rightarrow> string \<Rightarrow> string" where
  "mapString m key =
    (case map_of m key of
       None \<Rightarrow> []
     | Some v \<Rightarrow> if v = JNull then [] else trim_space (sprint v))"

definition parseInjectTime :: "stdlib \<Rightarrow> string \<Rightarrow> int option" where
  "parseInjectTime lib raw = parse_time lib raw"

section \<open>The activity log\<close>

definition event_strings :: "string list" where
  "event_strings = [''eventTimestamp'', ''caller'', ''resourceId'', ''callerIpAddress'', ''clientIp'', ''description'']"

text \<open>The events of a body, \<open>None\<close> when it does not decode.\<close>

definition decode_events :: "json option \<Rightarrow> json_map list option" where
  "decode_events body =
    (case body of
       Some (JObj kvs) \<Rightarrow> (case (object_items (last_field ''events'' kvs), last_field ''event'' kvs) of
           (Some events, JNull) \<Rightarrow> Some events
         | (Some events, JObj m) \<Rightarrow> Some (events @ [m])
         | _ \<Rightarrow> None)
     | Some JNull \<Rightarrow> Some []
     | _ \<Rightarrow> None)"

definition decodes :: "json_map \<Rightarrow> bool" where
  "decodes e \<longleftrightarrow> snd (decode_strings event_strings (Some (JObj e)))"

text \<open>The row of one event, or the answer to a bad one; \<open>i\<close> is its position.\<close>

definition event_row :: "mon_env \<Rightarrow> nat \<Rightarrow> json_map \<Rightarrow> http_response + activity_row" where
  "event_row env i e =
    (let field = fst (decode_strings event_strings (Some (JObj e)));
         raw = trim_space (field ''eventTimestamp'');
         time = (if raw = [] then Some (mon_now env + int i * 1000000) else parseInjectTime (mon_lib env) raw);
         op = stringifyNamed (last_field ''operationName'' e);
         st = stringifyNamed (last_field ''status'' e);
         given = trim_space (field ''callerIpAddress'');
         ip = (if given = [] then trim_space (field ''clientIp'') else given) in
     case time of
       None \<Rightarrow> Inl (BadRequest ''eventTimestamp must be RFC3339'')
     | Some ts \<Rightarrow>
         if op = [] then Inl (BadRequest ''operationName is required'')
         else (case (case last_field ''identity'' e of
               JNull \<Rightarrow> Some []
             | JObj m \<Rightarrow> Some (mon_marshal env (JObj (redactInjectMap m injectMaxDepth)))
             | _ \<Rightarrow> None) of
             None \<Rightarrow> Inl (BadRequest ''identity must be a JSON object'')
           | Some ident \<Rightarrow> Inr \<lparr>act_timestamp = ts, act_caller = trim_space (field ''caller''), act_operation = op,
               act_resource_id = trim_space (field ''resourceId''), act_status = (if st = [] then ''Succeeded'' else st),
               act_message = field ''description'', act_client_ip = ip, act_identity = ident\<rparr>))"

text \<open>The events before one that is bad are written.\<close>

fun inject_events :: "mon_env \<Rightarrow> nat \<Rightarrow> json_map list \<Rightarrow> store \<Rightarrow> http_response option \<times> store" where
  "inject_events env i [] s = (None, s)"
| "inject_events env i (e # es) s =
    (case event_row env i e of
       Inl rs \<Rightarrow> (Some rs, s)
     | Inr row \<Rightarrow> (case AppendActivityLogRow s (mon_clock env) row of
         (Inl err, s1) \<Rightarrow> (Some (internal_server_error err), s1)
       | (Inr u, s1) \<Rightarrow> inject_events env (i + 1) es s1))"

definition injectActivityLog :: "mon_env \<Rightarrow> store \<Rightarrow> http_request \<Rightarrow> Principal \<Rightarrow> http_response \<times> store" where
  "injectActivityLog env s r p =
    (case requireInjectRoot p (mon_ActivityInject env) ''NOCTAXRIS_AZ_ACTIVITY_INJECT'' ''Activity Log inject'' of
       Some rs \<Rightarrow> (rs, s)
     | None \<Rightarrow> (case decode_events (rq_json r) of
         None \<Rightarrow> (BadRequest ''invalid JSON body'', s)
       | Some events \<Rightarrow>
           if \<not> list_all decodes events then (BadRequest ''invalid JSON body'', s)
           else if events = [] then (BadRequest ''events or event is required'', s)
           else if length events > injectMaxEntries then (BadRequest ''at most 50 events per inject'', s)
           else (case inject_events env 0 events s of
               (Some rs, s1) \<Rightarrow> (rs, s1)
             | (None, s1) \<Rightarrow> (writeJSON 200 (JObj [(''written'', JNum (int (length events)))]), s1))))"

section \<open>Log tables\<close>

text \<open>The rows of a body and its workspace and table, \<open>None\<close> when it does not decode; an empty \<open>row\<close> adds none.\<close>

definition decode_log_rows :: "json option \<Rightarrow> (json_map list \<times> (string \<Rightarrow> string)) option" where
  "decode_log_rows body =
    (let (field, ok) = decode_strings [''workspace'', ''table''] body in
     if \<not> ok then None
     else (case body of
         Some (JObj kvs) \<Rightarrow> (case (object_items (last_field ''rows'' kvs), last_field ''row'' kvs) of
             (Some rows, JNull) \<Rightarrow> Some (rows, field)
           | (Some rows, JObj m) \<Rightarrow> Some (rows @ (if m = [] then [] else [m]), field)
           | _ \<Rightarrow> None)
       | _ \<Rightarrow> Some ([], field)))"

definition timed_row :: "mon_env \<Rightarrow> nat \<Rightarrow> json_map \<Rightarrow> json_map" where
  "timed_row env i row =
    (if map_of row ''TimeGenerated'' \<noteq> None then row
     else AList.update ''TimeGenerated'' (JStr (mon_format_nano env (mon_now env + int i * 1000000))) row)"

fun inject_rows :: "mon_env \<Rightarrow> string \<Rightarrow> string \<Rightarrow> nat \<Rightarrow> json_map list \<Rightarrow> store \<Rightarrow> unit result \<times> store" where
  "inject_rows env ws table i [] s = (Inr (), s)"
| "inject_rows env ws table i (row # rows) s =
    (case InsertLogAnalyticsRow s ws table (JObj (redactInjectMap (timed_row env i row) injectMaxDepth)) of
       (Inl e, s1) \<Rightarrow> (Inl e, s1)
     | (Inr u, s1) \<Rightarrow> inject_rows env ws table (i + 1) rows s1)"

definition injectLogRows :: "mon_env \<Rightarrow> store \<Rightarrow> http_request \<Rightarrow> Principal \<Rightarrow> http_response \<times> store" where
  "injectLogRows env s r p =
    (case requireInjectRoot p (mon_LogsInject env) ''NOCTAXRIS_AZ_LOGS_INJECT'' ''Log Analytics inject'' of
       Some rs \<Rightarrow> (rs, s)
     | None \<Rightarrow> (case decode_log_rows (rq_json r) of
         None \<Rightarrow> (BadRequest ''invalid JSON body'', s)
       | Some (rows, field) \<Rightarrow>
           (let table = trim_space (field ''table''); ws = workspaceQueryName (field ''workspace'') in
            if rows = [] then (BadRequest ''rows or row is required'', s)
            else if length rows > injectMaxEntries then (BadRequest ''at most 50 rows per inject'', s)
            else if \<not> IsNamedLogAnalyticsTable table
            then (BadRequest (''table must be one of '' @ join '', '' NamedLogAnalyticsTables), s)
            else (case inject_rows env ws table 0 rows s of
                (Inl e, s1) \<Rightarrow> (internal_server_error e, s1)
              | (Inr u, s1) \<Rightarrow> (writeJSON 200 (JObj [(''written'', JNum (int (length rows))), (''table'', JStr table),
                  (''workspace'', JStr ws)]), s1)))))"

section \<open>Security assessments\<close>

definition decode_assessments :: "json option \<Rightarrow> (json_map list \<times> json_map list) option" where
  "decode_assessments body =
    (case body of
       Some (JObj kvs) \<Rightarrow> (case (object_items (last_field ''assessments'' kvs), object_items (last_field ''subassessments'' kvs)) of
           (Some a, Some b) \<Rightarrow> Some (a, b)
         | _ \<Rightarrow> None)
     | Some JNull \<Rightarrow> Some ([], [])
     | _ \<Rightarrow> None)"

text \<open>The properties of an item: unhealthy without any; an object is redacted, another value stays.\<close>

definition assessment_properties :: "json_map \<Rightarrow> json" where
  "assessment_properties item =
    (case (case map_of item ''properties'' of None \<Rightarrow> JNull | Some v \<Rightarrow> v) of
       JNull \<Rightarrow> JObj (redactInjectMap [(''status'', JObj [(''code'', JStr ''Unhealthy'')])] injectMaxDepth)
     | JObj m \<Rightarrow> JObj (redactInjectMap m injectMaxDepth)
     | v \<Rightarrow> v)"

text \<open>\<open>sub_part\<close> tells the items of \<open>subassessments\<close>, which come after the \<open>n\<close> assessments.\<close>

definition put_assessment ::
  "mon_env \<Rightarrow> bool \<Rightarrow> nat \<Rightarrow> json_map \<Rightarrow> store \<Rightarrow> unit result \<times> store" where
  "put_assessment env sub_part i item s =
    (let sub = trim_space (mon_SubscriptionID env); tenant = trim_space (mon_TenantID env);
         given = mapString item ''type'';
         ty = (if given \<noteq> [] then given
           else if sub_part then ''microsoft.security/assessments/subassessments'' else ''microsoft.security/assessments'');
         name0 = mapString item ''name'';
         name = (if name0 = [] then ''lab-assessment-'' @ format_int (int i + 1) else name0);
         id0 = mapString item ''id'';
         scope = ''/subscriptions/'' @ sub @ ''/providers/Microsoft.Security/assessments/'';
         ident = (if id0 \<noteq> [] then id0
           else if contains (to_lower ty) ''subassessment'' then scope @ ''parent/subassessments/'' @ name else scope @ name);
         itemSub = (if mapString item ''subscriptionId'' = [] then sub else mapString item ''subscriptionId'') in
     UpsertARGResource s ident ''SecurityResources'' ty name itemSub (mapString item ''resourceGroup'') tenant
       (assessment_properties item))"

fun put_assessments :: "mon_env \<Rightarrow> nat \<Rightarrow> nat \<Rightarrow> json_map list \<Rightarrow> store \<Rightarrow> unit result \<times> store" where
  "put_assessments env n i [] s = (Inr (), s)"
| "put_assessments env n i (item # items) s =
    (case put_assessment env (n \<le> i) i item s of
       (Inl e, s1) \<Rightarrow> (Inl e, s1)
     | (Inr u, s1) \<Rightarrow> put_assessments env n (i + 1) items s1)"

definition injectAssessments :: "mon_env \<Rightarrow> store \<Rightarrow> http_request \<Rightarrow> Principal \<Rightarrow> http_response \<times> store" where
  "injectAssessments env s r p =
    (case requireInjectRoot p (mon_DefenderInject env) ''NOCTAXRIS_AZ_DEFENDER_INJECT'' ''Defender assessment inject'' of
       Some rs \<Rightarrow> (rs, s)
     | None \<Rightarrow> (case decode_assessments (rq_json r) of
         None \<Rightarrow> (BadRequest ''invalid JSON body'', s)
       | Some (a, b) \<Rightarrow>
           if a @ b = [] then (BadRequest ''assessments or subassessments is required'', s)
           else if length (a @ b) > injectMaxEntries then (BadRequest ''at most 50 assessments per inject'', s)
           else (case put_assessments env (length a) 0 (a @ b) s of
               (Inl e, s1) \<Rightarrow> (internal_server_error e, s1)
             | (Inr u, s1) \<Rightarrow> (writeJSON 200 (JObj [(''written'', JNum (int (length (a @ b))))]), s1))))"

section \<open>Requests\<close>

definition mon_run_op ::
  "mon_env \<Rightarrow> store \<Rightarrow> http_request \<Rightarrow> byte list result \<Rightarrow> Principal \<Rightarrow> mon_op \<Rightarrow> http_response \<times> store" where
  "mon_run_op env s r body p op =
    (case op of
       ListActivity sub \<Rightarrow> (listActivity env s r p sub, s)
     | WriteMetricOp sub \<Rightarrow> writeMetric env s r p sub
     | ListMetricsOp sub \<Rightarrow> (listMetrics env s r p sub, s)
     | PutWorkspace sub rg name \<Rightarrow> putWorkspace s p sub rg name
     | GetWorkspace sub rg name \<Rightarrow> (getWorkspace s p sub rg name, s)
     | QueryKQL ws \<Rightarrow> (queryKQL env s r p ws, s)
     | IngestRows ws table \<Rightarrow> ingestRows env s body p ws table
     | PutDiagnostic target name \<Rightarrow> putDiagnosticSetting env s body p target name
     | GetDiagnostic target name \<Rightarrow> (getDiagnosticSetting s p target name, s)
     | DeleteDiagnostic target name \<Rightarrow> deleteDiagnosticSetting env s p target name
     | ListDiagnostics target \<Rightarrow> (listDiagnosticSettings s p target, s)
     | InjectActivity \<Rightarrow> injectActivityLog env s r p
     | InjectLogs \<Rightarrow> injectLogRows env s r p
     | InjectAssessments \<Rightarrow> injectAssessments env s r p)"

definition mon_handle ::
  "mon_env \<Rightarrow> store \<Rightarrow> Principal option \<Rightarrow> http_request \<Rightarrow> byte list result \<Rightarrow> mon_op \<Rightarrow> http_response \<times> store" where
  "mon_handle env s who r body op =
    wrap who s (\<lambda>p. if \<not> AllowsARM p then (InvalidAuthenticationTokenAudience [], s) else mon_run_op env s r body p op)"

end
