(* ===== verification/Monitor_Rules.thy ===== *)
theory Monitor_Rules
  imports Monitor_Inject
begin

text \<open>
  What Azure Monitor keeps: injection needs root and its switch, everything else a grant; injected data is
  redacted and bounded, whatever the body; and where redaction does not reach.
\<close>

section \<open>Redaction\<close>














section \<open>What is stored\<close>














definition ingests :: "mon_op \<Rightarrow> bool" where
  "ingests op \<longleftrightarrow> (\<exists>ws table. op = IngestRows ws table)"



text \<open>A request to the service, and what it does to the store.\<close>

type_synonym mon_request = "mon_env \<times> Principal option \<times> http_request \<times> byte list result \<times> mon_op"

definition mon_step :: "mon_request \<Rightarrow> store \<Rightarrow> store" where
  "mon_step q s = (case q of (env, who, r, body, op) \<Rightarrow> snd (mon_handle env s who r body op))"




section \<open>Who gets through\<close>

definition mon_injects :: "mon_op \<Rightarrow> bool" where
  "mon_injects op \<longleftrightarrow> ingests op \<or> op \<in> {InjectActivity, InjectLogs, InjectAssessments}"

definition mon_need :: "mon_env \<Rightarrow> store \<Rightarrow> mon_op \<Rightarrow> string \<times> string" where
  "mon_need env s op =
    (case op of
       ListActivity sub \<Rightarrow> (''Microsoft.Insights/eventtypes/values/read'', ''/subscriptions/'' @ sub)
     | WriteMetricOp sub \<Rightarrow> (''Microsoft.Insights/metrics/write'', ''/subscriptions/'' @ sub)
     | ListMetricsOp sub \<Rightarrow> (''Microsoft.Insights/metrics/read'', ''/subscriptions/'' @ sub)
     | PutWorkspace sub rg name \<Rightarrow> (''Microsoft.OperationalInsights/workspaces/write'', group_scope sub rg)
     | GetWorkspace sub rg name \<Rightarrow> (''Microsoft.OperationalInsights/workspaces/read'', group_scope sub rg)
     | QueryKQL ws \<Rightarrow> (''Microsoft.OperationalInsights/workspaces/query/read'',
         workspaceAuthScope env s (workspaceQueryName ws))
     | PutDiagnostic target name \<Rightarrow> (''Microsoft.Insights/diagnosticSettings/write'', target)
     | GetDiagnostic target name \<Rightarrow> (''Microsoft.Insights/diagnosticSettings/read'', target)
     | DeleteDiagnostic target name \<Rightarrow> (''Microsoft.Insights/diagnosticSettings/delete'', target)
     | ListDiagnostics target \<Rightarrow> (''Microsoft.Insights/diagnosticSettings/read'', target)
     | _ \<Rightarrow> ([], []))"

lemma requireAction_closed:
  assumes "\<not> granted AllowsARM s (Some p) (action, scope)" "AllowsARM p"
  obtains rs where "requireAction s p action scope = Some rs" "refusal rs"
proof -
  have "requireAction s p action scope \<noteq> None"
    using assms by (auto simp: requireAction_passes granted_def)
  then show thesis using that by (cases "requireAction s p action scope") (auto dest: requireAction_refuses)
qed

lemma closed_mon:
  assumes "\<not> granted AllowsARM s (Some p) (action, scope)" "AllowsARM p"
  shows "closed s (case mon_require s p action scope of Some rs \<Rightarrow> (rs, s) | None \<Rightarrow> f)"
    "closed s (case mon_require s p action scope of Some rs \<Rightarrow> rs | None \<Rightarrow> g, s)"
proof -
  obtain rs where "mon_require s p action scope = Some rs" "refusal rs"
    unfolding mon_require_def using assms by (rule requireAction_closed)
  then show "closed s (case mon_require s p action scope of Some rs \<Rightarrow> (rs, s) | None \<Rightarrow> f)"
    "closed s (case mon_require s p action scope of Some rs \<Rightarrow> rs | None \<Rightarrow> g, s)"
    by (simp_all add: closed_def)
qed

lemma closed_inject:
  assumes "pr_IsRoot p \<longrightarrow> \<not> enabled"
  shows "closed s (case requireInjectRoot p enabled e l of Some rs \<Rightarrow> (rs, s) | None \<Rightarrow> f)"
  using assms by (auto simp: requireInjectRoot_def closed_def refusal_def)

definition mon_switch :: "mon_env \<Rightarrow> mon_op \<Rightarrow> bool" where
  "mon_switch env op =
    (case op of InjectActivity \<Rightarrow> mon_ActivityInject env | InjectAssessments \<Rightarrow> mon_DefenderInject env
     | _ \<Rightarrow> mon_LogsInject env)"

definition mon_permitted :: "mon_env \<Rightarrow> store \<Rightarrow> Principal option \<Rightarrow> mon_op \<Rightarrow> bool" where
  "mon_permitted env s who op =
    (if mon_injects op then \<exists>p. who = Some p \<and> AllowsARM p \<and> pr_IsRoot p \<and> mon_switch env op
     else granted AllowsARM s who (mon_need env s op))"

lemma mon_op_closed:
  assumes "\<not> mon_permitted env s (Some p) op" "AllowsARM p"
  shows "closed s (mon_run_op env s r body p op)"
  using assms
  by (cases op) (simp_all add: mon_permitted_def mon_injects_def ingests_def mon_need_def mon_switch_def mon_run_op_def
    listActivity_def writeMetric_def listMetrics_def putWorkspace_def getWorkspace_def queryKQL_def ingestRows_def
    putDiagnosticSetting_def getDiagnosticSetting_def deleteDiagnosticSetting_def listDiagnosticSettings_def
    injectActivityLog_def injectLogRows_def injectAssessments_def Let_def closed_mon closed_inject)

text \<open>
  Azure Monitor fails closed: an answer other than a refusal and any change of the store come only from a caller
  with a token for Resource Manager who is granted the action of the request at its target, or, where laboratory data
  is injected, is root while the switch of the route is on.
\<close>

theorem monitor_fails_closed:
  assumes "rs_code (fst (mon_handle env s who r body op)) \<in> {200, 400, 404} \<or> snd (mon_handle env s who r body op) \<noteq> s"
  shows "mon_permitted env s who op"
proof (rule ccontr)
  assume not: "\<not> mon_permitted env s who op"
  have "closed s (mon_handle env s who r body op)"
    unfolding mon_handle_def
  proof (rule closed_wrap)
    fix p assume "who = Some p"
    with not show "closed s (if \<not> AllowsARM p then (InvalidAuthenticationTokenAudience [], s) else mon_run_op env s r body p op)"
      by (simp add: mon_op_closed closedI refusal_def)
  qed
  moreover have "\<not> closed s (mon_handle env s who r body op)"
    by (rule not_closed) (use assms in auto)
  ultimately show False by simp
qed

section \<open>Where redaction does not reach\<close>

text \<open>The documentation promises every name that contains token or authorization; the code only some.\<close>

lemma sensitive_names_that_pass:
  "\<not> injectSensitiveKey ''tokenValue''" "\<not> injectSensitiveKey ''x-authorization''" "injectSensitiveKey ''mySecretKey''"
  by code_simp+

lemma bare_values_stay:
  "assessment_properties [(''properties'', JArr [JObj [(''password'', JStr ''x'')]])] = JArr [JObj [(''password'', JStr ''x'')]]"
  by (simp add: assessment_properties_def)

text \<open>An activity injection that answers 400 has still written the events before the bad one.\<close>

lemma bad_event_after_good_ones:
  assumes "event_row env 0 e = Inr row" "event_row env 1 bad = Inl rs" "db_fault s = None"
  shows "inject_events env 0 [e, bad] s = (Some rs, snd (AppendActivityLogRow s (mon_clock env) row))"
  using assms by (simp add: AppendActivityLogRow_def db_exec_def)

section \<open>Examples\<close>

text \<open>A log row with a password, sent by root; the store keeps it without.\<close>

definition lab_monitor :: mon_env where
  "lab_monitor = \<lparr>mon_lib = lab_lib, mon_ActivityInject = True, mon_LogsInject = True, mon_DefenderInject = True,
    mon_SubscriptionID = ''s'', mon_TenantID = [], mon_now = 0, mon_clock = 0, mon_remote = [],
    mon_marshal = (\<lambda>v. ''{}''), mon_format_nano = (\<lambda>n. ''now''), mon_format = (\<lambda>n. ''now'')\<rparr>"

definition log_request :: http_request where
  "log_request = \<lparr>rq_method = ''POST'', rq_path = [], rq_query = [], rq_header = [],
    rq_json = Some (JObj [(''table'', JStr ''AzureActivity''),
      (''row'', JObj [(''Caller'', JStr ''a''), (''password'', JStr ''hunter2'')])])\<rparr>"


theorem monitor_fails_closed_witness:
  "mon_permitted lab_monitor empty_store (Some root_principal) InjectLogs"
proof (rule monitor_fails_closed)
  show "rs_code (fst (mon_handle lab_monitor empty_store (Some root_principal) log_request (Inr []) InjectLogs)) \<in> {200, 400, 404} \<or>
      snd (mon_handle lab_monitor empty_store (Some root_principal) log_request (Inr []) InjectLogs) \<noteq> empty_store"
    by (rule disjI1) code_simp
qed

lemma injected_example:
  "map log_row (tb_log_rows (st_observations (mon_step (lab_monitor, Some root_principal, log_request, Inr [], InjectLogs) empty_store))) =
    [JObj [(''Caller'', JStr ''a''), (''password'', redacted_text), (''TimeGenerated'', JStr ''now'')]]"
  by code_simp

end
