(* ===== verification/Store_Documents.thy ===== *)
theory Store_Documents
  imports Store_Observed Store_Sealed "HOL-Library.AList"
begin

text \<open>
  Table storage (\<open>internal/store/table.go\<close>) and Cosmos DB (\<open>cosmos.go\<close>). The tables, databases, containers and items
  of an account are keyed by its name alone.
\<close>

section \<open>Tables\<close>

definition CreateTable :: "store \<Rightarrow> string \<Rightarrow> string \<Rightarrow> unit result \<times> store" where
  "CreateTable s account name =
    (let d = st_documents s in
     doc_exec s () (d\<lparr>tb_tables := tbl_insert_ignore id (account, name) (tb_tables d)\<rparr>))"

definition DeleteTable :: "store \<Rightarrow> string \<Rightarrow> string \<Rightarrow> unit result \<times> store" where
  "DeleteTable s account name =
    (let d = st_documents s in
     doc_exec s () (d\<lparr>
       tb_entities := tbl_delete (\<lambda>r. ent_account r = account \<and> ent_table_name r = name) (tb_entities d),
       tb_tables := tbl_delete (\<lambda>r. r = (account, name)) (tb_tables d)\<rparr>))"

definition ListTables :: "store \<Rightarrow> string \<Rightarrow> string list result" where
  "ListTables s account =
    db_query s (sort (map snd (filter (\<lambda>(a, n). a = account) (tb_tables (st_documents s)))))"

definition ent_key :: "table_entity \<Rightarrow> string \<times> string \<times> string \<times> string" where
  "ent_key r = (ent_account r, ent_table_name r, ent_PartitionKey r, ent_RowKey r)"

definition GetEntity :: "store \<Rightarrow> string \<Rightarrow> string \<Rightarrow> string \<Rightarrow> string \<Rightarrow> table_entity option result" where
  "GetEntity s account table pk rk =
    db_query s (tbl_get ent_key (tb_entities (st_documents s)) (account, table, pk, rk))"

definition system_property :: "string \<Rightarrow> bool" where
  "system_property k \<longleftrightarrow> k = ''PartitionKey'' \<or> k = ''RowKey'' \<or> k = ''Timestamp'' \<or> has_prefix k ''odata.''"

definition merged_properties :: "(string \<times> json) list \<Rightarrow> (string \<times> json) list \<Rightarrow> (string \<times> json) list" where
  "merged_properties old new =
    foldl (\<lambda>m (k, v). AList.update k v m) old (filter (\<lambda>(k, v). \<not> system_property k) new)"

text \<open>\<open>etag\<close> is the fresh entity tag.\<close>

definition UpsertEntity ::
  "store \<Rightarrow> string \<Rightarrow> string \<Rightarrow> string \<Rightarrow> string \<Rightarrow> string \<Rightarrow> (string \<times> json) list \<Rightarrow> bool \<Rightarrow> string result \<times> store" where
  "UpsertEntity s etag account table pk rk props merge =
    (case GetEntity s account table pk rk of
       Inl e \<Rightarrow> (Inl e, s)
     | Inr found \<Rightarrow>
         (let old = (if merge then (case found of None \<Rightarrow> [] | Some e \<Rightarrow> ent_Properties e) else []);
              d = st_documents s in
          doc_exec s etag (d\<lparr>tb_entities := tbl_upsert ent_key
            (\<lambda>old new. old\<lparr>ent_ETag := ent_ETag new, ent_Properties := ent_Properties new\<rparr>)
            \<lparr>ent_account = account, ent_table_name = table, ent_PartitionKey = pk, ent_RowKey = rk,
             ent_ETag = etag, ent_Properties = merged_properties old props\<rparr> (tb_entities d)\<rparr>)))"

text \<open>\<open>None\<close> when the key already exists.\<close>

definition InsertEntity ::
  "store \<Rightarrow> string \<Rightarrow> string \<Rightarrow> string \<Rightarrow> string \<Rightarrow> string \<Rightarrow> (string \<times> json) list \<Rightarrow> string option result \<times> store" where
  "InsertEntity s etag account table pk rk props =
    (case GetEntity s account table pk rk of
       Inl e \<Rightarrow> (Inl e, s)
     | Inr (Some e) \<Rightarrow> (Inr None, s)
     | Inr None \<Rightarrow> apfst (map_sum id Some) (UpsertEntity s etag account table pk rk props False))"

definition DeleteEntity :: "store \<Rightarrow> string \<Rightarrow> string \<Rightarrow> string \<Rightarrow> string \<Rightarrow> bool result \<times> store" where
  "DeleteEntity s account table pk rk =
    (let d = st_documents s; hit = (\<lambda>r. ent_key r = (account, table, pk, rk)) in
     doc_exec s (tbl_count hit (tb_entities d) > 0) (d\<lparr>tb_entities := tbl_delete hit (tb_entities d)\<rparr>))"

definition matchPropEq :: "(string \<times> json) list \<Rightarrow> (string \<times> string) list \<Rightarrow> bool" where
  "matchPropEq props propEq =
    list_all (\<lambda>(k, want). case map_of props k of None \<Rightarrow> False | Some v \<Rightarrow> sprint v = want) propEq"

text \<open>\<open>ORDER BY partition_key, row_key\<close>; the limit counts the entities that match.\<close>

definition QueryEntities ::
  "store \<Rightarrow> string \<Rightarrow> string \<Rightarrow> string \<Rightarrow> string \<Rightarrow> (string \<times> string) list \<Rightarrow> nat \<Rightarrow> table_entity list result" where
  "QueryEntities s account table filterPK filterRK propEq top0 =
    db_query s
      (let rows = sort_key ent_PartitionKey (sort_key ent_RowKey (filter (\<lambda>r. ent_account r = account \<and>
             ent_table_name r = table \<and> (filterPK = [] \<or> ent_PartitionKey r = filterPK) \<and>
             (filterRK = [] \<or> ent_RowKey r = filterRK)) (tb_entities (st_documents s))));
           hits = filter (\<lambda>r. matchPropEq (ent_Properties r) propEq) rows in
       if top0 > 0 then take top0 hits else hits)"

section \<open>Cosmos DB\<close>

text \<open>A new account gets \<open>generated\<close>, the base64 of 32 random bytes; an old one keeps its sealed key.\<close>

definition UpsertCosmosAccount ::
  "crypto \<Rightarrow> store \<Rightarrow> string \<Rightarrow> string \<Rightarrow> string \<Rightarrow> string \<Rightarrow> string \<Rightarrow> string \<Rightarrow> string result \<times> store" where
  "UpsertCosmosAccount c s generated nonce sub rg name location =
    (let d = st_documents s; loc = default_location location in
     case db_query s (tbl_get ac_key (tb_cosmos_accounts d) (sub, rg, name)) of
       Inl e \<Rightarrow> (Inl e, s)
     | Inr (Some row) \<Rightarrow> (case Unseal c (cr_master c) (ac_sealed row) of
         Inl e \<Rightarrow> (Inl e, s)
       | Inr key \<Rightarrow> doc_exec s key (d\<lparr>tb_cosmos_accounts := map (\<lambda>r. if ac_key r = (sub, rg, name)
           then r\<lparr>ac_location := loc\<rparr> else r) (tb_cosmos_accounts d)\<rparr>))
     | Inr None \<Rightarrow> doc_exec s generated (d\<lparr>tb_cosmos_accounts := tb_cosmos_accounts d @
         [\<lparr>ac_subscription_id = sub, ac_resource_group = rg, ac_name = name, ac_location = loc,
           ac_sealed = Seal c (cr_master c) nonce generated\<rparr>]\<rparr>))"

definition cosmos_row :: "crypto \<Rightarrow> account_row \<Rightarrow> (account_row \<times> string) result" where
  "cosmos_row c row = map_sum id (\<lambda>key. (row, key)) (Unseal c (cr_master c) (ac_sealed row))"

definition GetCosmosAccount ::
  "crypto \<Rightarrow> store \<Rightarrow> string \<Rightarrow> string \<Rightarrow> string \<Rightarrow> (string \<times> string) option result" where
  "GetCosmosAccount c s sub rg name =
    (case db_query s (tbl_get ac_key (tb_cosmos_accounts (st_documents s)) (sub, rg, name)) of
       Inl e \<Rightarrow> Inl e
     | Inr None \<Rightarrow> Inr None
     | Inr (Some row) \<Rightarrow> map_sum id (\<lambda>(r, key). Some (ac_location r, key)) (cosmos_row c row))"

definition GetCosmosAccountByName :: "crypto \<Rightarrow> store \<Rightarrow> string \<Rightarrow> (account_row \<times> string) option result" where
  "GetCosmosAccountByName c s name =
    (case db_query s (find (\<lambda>r. ac_name r = name) (tb_cosmos_accounts (st_documents s))) of
       Inl e \<Rightarrow> Inl e
     | Inr None \<Rightarrow> Inr None
     | Inr (Some row) \<Rightarrow> map_sum id Some (cosmos_row c row))"

definition CreateCosmosDatabase :: "store \<Rightarrow> string \<Rightarrow> string \<Rightarrow> unit result \<times> store" where
  "CreateCosmosDatabase s account name =
    (let d = st_documents s in
     doc_exec s () (d\<lparr>tb_cosmos_databases := tbl_insert_ignore id (account, name) (tb_cosmos_databases d)\<rparr>))"

definition cct_key :: "cosmos_container \<Rightarrow> string \<times> string \<times> string" where
  "cct_key r = (cct_account r, cct_database_name r, cct_name r)"

definition CreateCosmosContainer :: "store \<Rightarrow> string \<Rightarrow> string \<Rightarrow> string \<Rightarrow> string \<Rightarrow> unit result \<times> store" where
  "CreateCosmosContainer s account database name partitionKey =
    (let d = st_documents s in
     doc_exec s () (d\<lparr>tb_cosmos_containers := tbl_upsert cct_key
       (\<lambda>old new. old\<lparr>cct_partition_key := cct_partition_key new\<rparr>)
       \<lparr>cct_account = account, cct_database_name = database, cct_name = name,
        cct_partition_key = (if partitionKey = [] then ''/id'' else partitionKey)\<rparr> (tb_cosmos_containers d)\<rparr>))"

definition cit_key :: "cosmos_item \<Rightarrow> string \<times> string \<times> string \<times> string \<times> string" where
  "cit_key r = (cit_account r, cit_database_name r, cit_container r, cit_id r, cit_partition_key_value r)"

definition UpsertCosmosItem ::
  "store \<Rightarrow> string \<Rightarrow> string \<Rightarrow> string \<Rightarrow> string \<Rightarrow> string \<Rightarrow> string \<Rightarrow> unit result \<times> store" where
  "UpsertCosmosItem s account database container i pk body =
    (let d = st_documents s in
     doc_exec s () (d\<lparr>tb_cosmos_items := tbl_upsert cit_key (\<lambda>old new. old\<lparr>cit_body := cit_body new\<rparr>)
       \<lparr>cit_account = account, cit_database_name = database, cit_container = container, cit_id = i,
        cit_partition_key_value = pk, cit_body = body\<rparr> (tb_cosmos_items d)\<rparr>))"

definition GetCosmosItem ::
  "store \<Rightarrow> string \<Rightarrow> string \<Rightarrow> string \<Rightarrow> string \<Rightarrow> string \<Rightarrow> string option result" where
  "GetCosmosItem s account database container i pk =
    db_query s (map_option cit_body
      (tbl_get cit_key (tb_cosmos_items (st_documents s)) (account, database, container, i, pk)))"

definition in_container :: "string \<Rightarrow> string \<Rightarrow> string \<Rightarrow> cosmos_item \<Rightarrow> bool" where
  "in_container account database container r \<longleftrightarrow>
    cit_account r = account \<and> cit_database_name r = database \<and> cit_container r = container"

text \<open>The query names no order; the rows are taken in the order of their insertion.\<close>

definition QueryCosmosItemsByID :: "store \<Rightarrow> string \<Rightarrow> string \<Rightarrow> string \<Rightarrow> string \<Rightarrow> string list result" where
  "QueryCosmosItemsByID s account database container i =
    db_query s (map cit_body (filter (\<lambda>r. in_container account database container r \<and> cit_id r = i)
      (tb_cosmos_items (st_documents s))))"

definition ListCosmosItems :: "store \<Rightarrow> string \<Rightarrow> string \<Rightarrow> string \<Rightarrow> string list result" where
  "ListCosmosItems s account database container =
    db_query s (map cit_body (sort_key cit_id (sort_key cit_partition_key_value
      (filter (in_container account database container) (tb_cosmos_items (st_documents s))))))"

end
