(* ===== verification/Table_Service.thy ===== *)
theory Table_Service
  imports Store_Documents Storage_Service Service_Gate
begin

text \<open>
  Table storage, \<open>internal/services/table/handler.go\<close>: tables and entities of a storage account behind a shared access
  signature, a shared key or a bearer token, and the part of OData filters it understands.
\<close>

section \<open>Routes\<close>

datatype storage_table_op =
    ListTablesOp string
  | PutTable string string
  | QueryTable string string
  | DeleteTableOp string string
  | InsertEntityOp string string
  | PutEntityOp string string string string
  | MergeEntityOp string string string string
  | GetEntityOp string string string string
  | DeleteEntityOp string string string string

definition table_route :: "string \<Rightarrow> string list \<Rightarrow> storage_table_op option" where
  "table_route method segs =
    (let get = (method = ''GET'' \<or> method = ''HEAD''); put = (method = ''PUT''); del = (method = ''DELETE'') in
     if [] \<in> set segs then None
     else (case segs of
       [a, account] \<Rightarrow> if a = ''table'' \<and> get then Some (ListTablesOp account) else None
     | [a, account, t] \<Rightarrow>
         if a \<noteq> ''table'' then None
         else if put then Some (PutTable account t) else if get then Some (QueryTable account t)
         else if del then Some (DeleteTableOp account t)
         else if method = ''POST'' then Some (InsertEntityOp account t) else None
     | [a, account, t, pk, rk] \<Rightarrow>
         if a \<noteq> ''table'' then None
         else if put then Some (PutEntityOp account t pk rk)
         else if method = ''MERGE'' then Some (MergeEntityOp account t pk rk)
         else if get then Some (GetEntityOp account t pk rk)
         else if del then Some (DeleteEntityOp account t pk rk) else None
     | _ \<Rightarrow> None))"

section \<open>The gate\<close>

text \<open>The check of a signature is the one of blobs and queues, word by word.\<close>

definition table_authorizeSAS :: "storage_env \<Rightarrow> store \<Rightarrow> http_request \<Rightarrow> string \<Rightarrow> http_response option" where
  "table_authorizeSAS env s r account =
    (if account = [] then Some (StorageError 403 ''AuthenticationFailed'' ''SAS signature invalid'')
     else (case GetStorageAccountKey (de_crypto env) s account of
         Inl e \<Rightarrow> Some (StorageError 500 ''InternalError'' e)
       | Inr None \<Rightarrow> Some (StorageError 403 ''AuthenticationFailed'' ''SAS signature invalid'')
       | Inr (Some key) \<Rightarrow>
           (let now = (case ae_auth env of Some a \<Rightarrow> au_Now a | None \<Rightarrow> st_clock env) in
            if \<not> VerifyStorageSAS (ae_lib env) (st_clock env) key r now
            then Some (StorageError 403 ''AuthenticationFailed'' ''SAS signature invalid'') else None)))"

definition tableDataAction :: "http_request \<Rightarrow> string" where
  "tableDataAction r =
    (let method = to_upper (rq_method r) in
     if method = ''GET'' \<or> method = ''HEAD'' then ''Microsoft.Storage/storageAccounts/tableServices/tables/entities/read''
     else if method = ''DELETE'' then ''Microsoft.Storage/storageAccounts/tableServices/tables/entities/delete''
     else ''Microsoft.Storage/storageAccounts/tableServices/tables/entities/write'')"

definition table_authorize :: "storage_env \<Rightarrow> store \<Rightarrow> http_request \<Rightarrow> string \<Rightarrow> http_response option" where
  "table_authorize env s r account =
    (if HasSAS r then table_authorizeSAS env s r account
     else (case ParseSharedKeyAuthorization (header_get r ''Authorization'') of
         Some (acct, sig) \<Rightarrow>
           if acct \<noteq> account then Some (StorageError 403 ''AuthenticationFailed'' ''account name mismatch'')
           else (case GetStorageAccountKey (de_crypto env) s account of
               Inl e \<Rightarrow> Some (StorageError 500 ''InternalError'' e)
             | Inr None \<Rightarrow> Some account_not_found
             | Inr (Some key) \<Rightarrow>
                 if \<not> VerifyStorageSharedKey (ae_lib env) key (StorageStringToSign r) sig
                 then Some (StorageError 403 ''AuthenticationFailed'' ''SharedKey signature invalid'') else None)
       | None \<Rightarrow> (case GetStorageAccountByName s account of
             Inl e \<Rightarrow> Some (StorageError 500 ''InternalError'' e)
           | Inr found \<Rightarrow>
               (case RequireDataPlaneBearer (ae_lib env) r (ae_auth env) (ae_authz env) (Some AllowsStorage)
                   (tableDataAction r) (storage_scope found account) of
                  Inl rs \<Rightarrow> Some rs
                | Inr p \<Rightarrow> if found = None then Some account_not_found else None))))"

section \<open>Filters\<close>

text \<open>
  The expression \<open>(?i)(\w+)\s+eq\s+'([^']*)'\<close> on bytes. Under \<open>(?i)\<close> the class of word characters also has the two
  letters that fold to s and k, U+017F and U+212A, two and three bytes long.
\<close>

definition word_length :: "string \<Rightarrow> nat" where
  "word_length t =
    (case t of
       [] \<Rightarrow> 0
     | c # cs \<Rightarrow>
         if (CHR ''a'' \<le> c \<and> c \<le> CHR ''z'') \<or> (CHR ''A'' \<le> c \<and> c \<le> CHR ''Z'') \<or>
            (CHR ''0'' \<le> c \<and> c \<le> CHR ''9'') \<or> c = CHR ''_'' then 1
         else if has_prefix t [CHR 0xC5, CHR 0xBF] then 2
         else if has_prefix t [CHR 0xE2, CHR 0x84, CHR 0xAA] then 3 else 0)"

lemma word_length_le: "word_length t \<le> length t"
  by (cases t) (auto simp: word_length_def has_prefix_iff)

function take_word :: "string \<Rightarrow> string \<times> string" where
  "take_word t =
    (let n = word_length t in
     if n = 0 then ([], t) else let (w, rest) = take_word (drop n t) in (take n t @ w, rest))"
  by auto
termination
  by (relation "measure length") (use word_length_le in \<open>auto simp: word_length_def split: list.splits if_splits\<close>)

declare take_word.simps [simp del]

definition filter_space :: "char \<Rightarrow> bool" where
  "filter_space c \<longleftrightarrow> c \<in> set [CHR 0x20, CHR 0x09, CHR 0x0A, CHR 0x0C, CHR 0x0D]"

text \<open>One match at the front of a text: the word, the value, and what is behind the match.\<close>

definition match_eq :: "string \<Rightarrow> (string \<times> string \<times> string) option" where
  "match_eq t =
    (let (w, t1) = take_word t; t2 = dropWhile filter_space t1 in
     if w = [] \<or> t2 = t1 \<or> \<not> equal_fold (take 2 t2) ''eq'' then None
     else (let t3 = drop 2 t2; t4 = dropWhile filter_space t3 in
       if t4 = t3 then None
       else (case t4 of
           [] \<Rightarrow> None
         | q # t5 \<Rightarrow>
             if q \<noteq> CHR 0x27 then None
             else (case dropWhile (\<lambda>c. c \<noteq> CHR 0x27) t5 of
                 [] \<Rightarrow> None
               | q' # rest \<Rightarrow> Some (w, takeWhile (\<lambda>c. c \<noteq> CHR 0x27) t5, rest)))))"

lemma take_word_length: "take_word t = (w, rest) \<Longrightarrow> length rest \<le> length t"
proof (induction t arbitrary: w rest rule: take_word.induct)
  case (1 t)
  show ?case
  proof (cases "word_length t = 0")
    case True
    with 1(2) show ?thesis by (simp add: take_word.simps [of t])
  next
    case False
    obtain w' rest' where rec: "take_word (drop (word_length t) t) = (w', rest')" by (rule prod.exhaust)
    with 1(2) False have "rest' = rest" by (simp add: take_word.simps [of t])
    with 1(1) [OF refl False rec] show ?thesis by simp
  qed
qed

lemma length_dropWhile_less: "dropWhile P xs = y # ys \<Longrightarrow> length ys < length xs"
  using length_dropWhile_le [of P xs] by simp

lemma match_eq_length: "match_eq t = Some (w, v, rest) \<Longrightarrow> length rest < length t"
proof -
  assume hit: "match_eq t = Some (w, v, rest)"
  obtain w' t1 where word: "take_word t = (w', t1)" by (rule prod.exhaust)
  define t3 where "t3 = drop 2 (dropWhile filter_space t1)"
  have "length t3 \<le> length t"
    using take_word_length [OF word] length_dropWhile_le [of filter_space t1] by (simp add: t3_def)
  moreover have "length rest < length t3"
  proof (cases "dropWhile filter_space t3")
    case Nil
    with hit word show ?thesis by (simp add: match_eq_def Let_def flip: t3_def del: dropWhile_eq_Nil_conv split: if_splits)
  next
    case (Cons q t5)
    show ?thesis
    proof (cases "dropWhile (\<lambda>c. c \<noteq> CHR 0x27) t5")
      case Nil
      with Cons hit word show ?thesis by (simp add: match_eq_def Let_def flip: t3_def del: dropWhile_eq_Nil_conv split: if_splits)
    next
      case t5: (Cons q' rest')
      from Cons t5 hit word have "rest' = rest" by (simp add: match_eq_def Let_def flip: t3_def del: dropWhile_eq_Nil_conv split: if_splits)
      then show ?thesis using length_dropWhile_less [OF Cons] length_dropWhile_less [OF t5] by simp
    qed
  qed
  ultimately show ?thesis by simp
qed

text \<open>\<open>FindAllStringSubmatch\<close>: leftmost matches that do not overlap.\<close>

function find_eqs :: "string \<Rightarrow> (string \<times> string) list" where
  "find_eqs t =
    (case t of
       [] \<Rightarrow> []
     | c # cs \<Rightarrow> (case match_eq t of
         Some (w, v, rest) \<Rightarrow> (w, v) # find_eqs rest
       | None \<Rightarrow> find_eqs cs))"
  by auto
termination
  by (relation "measure length") (auto dest: match_eq_length)

declare find_eqs.simps [simp del]

fun filter_parts ::
  "(string \<times> string) list \<Rightarrow> string \<times> string \<times> (string \<times> string) list \<Rightarrow> string \<times> string \<times> (string \<times> string) list" where
  "filter_parts [] acc = acc"
| "filter_parts ((key, val) # ms) (pk, rk, eqs) =
    filter_parts ms
      (if to_lower key = ''partitionkey'' then (val, rk, eqs)
       else if to_lower key = ''rowkey'' then (pk, val, eqs)
       else (pk, rk, AList.update key val eqs))"

definition parseFilterLite :: "string \<Rightarrow> string \<times> string \<times> (string \<times> string) list" where
  "parseFilterLite expr =
    (if trim_space expr = [] then ([], [], []) else filter_parts (find_eqs expr) ([], [], []))"

section \<open>Bodies\<close>

definition json_kind :: "json \<Rightarrow> string" where
  "json_kind v = (case v of JStr t \<Rightarrow> ''string'' | JNum n \<Rightarrow> ''number'' | JBool b \<Rightarrow> ''bool'' | JArr xs \<Rightarrow> ''array''
     | _ \<Rightarrow> ''object'')"

definition text_of :: "json option \<Rightarrow> string" where
  "text_of v = (case v of Some (JStr t) \<Rightarrow> t | _ \<Rightarrow> [])"

text \<open>\<open>path\<close> has the partition key and the row key of the path, empty where it has none.\<close>

definition readEntityBody ::
  "stdlib \<Rightarrow> byte list result \<Rightarrow> string \<times> string \<Rightarrow> (json_map \<times> string \<times> string) result" where
  "readEntityBody lib body path =
    (case map_sum id (take 1048576) body of
       Inl e \<Rightarrow> Inl e
     | Inr bs \<Rightarrow>
         (case (if bs = [] then Inr [] else (case json_parse lib (string_of_bytes bs) of
               Inl e \<Rightarrow> Inl e
             | Inr (JObj kvs) \<Rightarrow> Inr (map_update [] kvs)
             | Inr JNull \<Rightarrow> Inr []
             | Inr v \<Rightarrow> Inl (''json: cannot unmarshal '' @ json_kind v @ '' into Go value of type map[string]interface {}''))) of
            Inl e \<Rightarrow> Inl e
          | Inr props \<Rightarrow>
              (let pk0 = text_of (map_of props ''PartitionKey''); rk0 = text_of (map_of props ''RowKey'');
                   pk = (if pk0 = [] then fst path else pk0); rk = (if rk0 = [] then snd path else rk0) in
               if pk = [] \<or> rk = [] then Inl ''PartitionKey and RowKey are required''
               else Inr (AList.delete ''RowKey'' (AList.delete ''PartitionKey'' props), pk, rk))))"

text \<open>The answer with an entity: its properties come after its keys and tag.\<close>

definition entity_row :: "string \<Rightarrow> string \<Rightarrow> string \<Rightarrow> json_map \<Rightarrow> json_map" where
  "entity_row pk rk etag props =
    map_update [(''PartitionKey'', JStr pk), (''RowKey'', JStr rk), (''odata.etag'', JStr etag)] props"

section \<open>Operations\<close>

definition table_failed :: "string \<Rightarrow> http_response" where
  "table_failed e = StorageError 500 ''InternalError'' e"

definition entity_not_found :: http_response where
  "entity_not_found = StorageError 404 ''ResourceNotFound'' ''entity not found''"

definition listTables :: "storage_env \<Rightarrow> store \<Rightarrow> http_request \<Rightarrow> string \<Rightarrow> http_response" where
  "listTables env s r account =
    (case table_authorize env s r account of
       Some rs \<Rightarrow> rs
     | None \<Rightarrow> (case ListTables s account of
         Inl e \<Rightarrow> table_failed e
       | Inr names \<Rightarrow> writeJSON 200 (JObj [(''value'', JArr (map (\<lambda>n. JObj [(''TableName'', JStr n)]) names))])))"

definition putTable :: "storage_env \<Rightarrow> store \<Rightarrow> http_request \<Rightarrow> string \<Rightarrow> string \<Rightarrow> http_response \<times> store" where
  "putTable env s r account table =
    (case table_authorize env s r account of
       Some rs \<Rightarrow> (rs, s)
     | None \<Rightarrow> (case CreateTable s account table of
         (Inl e, s1) \<Rightarrow> (table_failed e, s1)
       | (Inr u, s1) \<Rightarrow> (writeJSON 201 (JObj [(''TableName'', JStr table)]), s1)))"

definition deleteTable :: "storage_env \<Rightarrow> store \<Rightarrow> http_request \<Rightarrow> string \<Rightarrow> string \<Rightarrow> http_response \<times> store" where
  "deleteTable env s r account table =
    (case table_authorize env s r account of
       Some rs \<Rightarrow> (rs, s)
     | None \<Rightarrow> (case DeleteTable s account table of
         (Inl e, s1) \<Rightarrow> (table_failed e, s1)
       | (Inr u, s1) \<Rightarrow> (writeHeader 204, s1)))"

definition getTableOrQuery :: "storage_env \<Rightarrow> store \<Rightarrow> http_request \<Rightarrow> string \<Rightarrow> string \<Rightarrow> http_response" where
  "getTableOrQuery env s r account table =
    (case table_authorize env s r account of
       Some rs \<Rightarrow> rs
     | None \<Rightarrow>
         (let t = trim_space (query_get r ''$top'') in
          case (if t = [] then Some 0 else parse_int64 t) of
            None \<Rightarrow> StorageError 400 ''InvalidInput'' ''$top must be a non-negative integer''
          | Some n \<Rightarrow>
              if n < 0 then StorageError 400 ''InvalidInput'' ''$top must be a non-negative integer''
              else (let (pk, rk, eqs) = parseFilterLite (query_get r ''$filter'') in
                case QueryEntities s account table pk rk eqs (nat n) of
                  Inl e \<Rightarrow> table_failed e
                | Inr ents \<Rightarrow> writeJSON 200 (JObj [(''value'', JArr (map (\<lambda>e. JObj (entity_row (ent_PartitionKey e)
                    (ent_RowKey e) (ent_ETag e) (ent_Properties e))) ents))]))))"

definition insertEntity ::
  "storage_env \<Rightarrow> string \<Rightarrow> store \<Rightarrow> http_request \<Rightarrow> byte list result \<Rightarrow> string \<Rightarrow> string \<Rightarrow> http_response \<times> store" where
  "insertEntity env tag s r body account table =
    (case table_authorize env s r account of
       Some rs \<Rightarrow> (rs, s)
     | None \<Rightarrow> (case readEntityBody (ae_lib env) body ([], []) of
         Inl e \<Rightarrow> (StorageError 400 ''InvalidInput'' e, s)
       | Inr (props, pk, rk) \<Rightarrow> (case InsertEntity s tag account table pk rk props of
           (Inl e, s1) \<Rightarrow> (table_failed e, s1)
         | (Inr None, s1) \<Rightarrow> (StorageError 409 ''EntityAlreadyExists'' ''entity already exists'', s1)
         | (Inr (Some etag), s1) \<Rightarrow>
             (with_header ''ETag'' etag (writeJSON 201 (JObj (entity_row pk rk etag props))), s1))))"

definition writeEntity ::
  "storage_env \<Rightarrow> string \<Rightarrow> store \<Rightarrow> http_request \<Rightarrow> byte list result \<Rightarrow> bool \<Rightarrow> string \<Rightarrow> string \<Rightarrow> string \<Rightarrow> string \<Rightarrow>
    http_response \<times> store" where
  "writeEntity env tag s r body merge account table pk rk =
    (case table_authorize env s r account of
       Some rs \<Rightarrow> (rs, s)
     | None \<Rightarrow> (case readEntityBody (ae_lib env) body (pk, rk) of
         Inl e \<Rightarrow> (StorageError 400 ''InvalidInput'' e, s)
       | Inr (props, pk', rk') \<Rightarrow> (case UpsertEntity s tag account table pk rk props merge of
           (Inl e, s1) \<Rightarrow> (table_failed e, s1)
         | (Inr etag, s1) \<Rightarrow> (with_header ''ETag'' etag (writeHeader 204), s1))))"

definition putEntity ::
  "storage_env \<Rightarrow> string \<Rightarrow> store \<Rightarrow> http_request \<Rightarrow> byte list result \<Rightarrow> string \<Rightarrow> string \<Rightarrow> string \<Rightarrow> string \<Rightarrow>
    http_response \<times> store" where
  "putEntity env tag s r body account table pk rk = writeEntity env tag s r body False account table pk rk"

definition mergeEntity ::
  "storage_env \<Rightarrow> string \<Rightarrow> store \<Rightarrow> http_request \<Rightarrow> byte list result \<Rightarrow> string \<Rightarrow> string \<Rightarrow> string \<Rightarrow> string \<Rightarrow>
    http_response \<times> store" where
  "mergeEntity env tag s r body account table pk rk = writeEntity env tag s r body True account table pk rk"

definition getEntity ::
  "storage_env \<Rightarrow> store \<Rightarrow> http_request \<Rightarrow> string \<Rightarrow> string \<Rightarrow> string \<Rightarrow> string \<Rightarrow> http_response" where
  "getEntity env s r account table pk rk =
    (case table_authorize env s r account of
       Some rs \<Rightarrow> rs
     | None \<Rightarrow> (case GetEntity s account table pk rk of
         Inl e \<Rightarrow> table_failed e
       | Inr None \<Rightarrow> entity_not_found
       | Inr (Some e) \<Rightarrow> with_header ''ETag'' (ent_ETag e)
           (writeJSON 200 (JObj (entity_row (ent_PartitionKey e) (ent_RowKey e) (ent_ETag e) (ent_Properties e))))))"

definition deleteEntity ::
  "storage_env \<Rightarrow> store \<Rightarrow> http_request \<Rightarrow> string \<Rightarrow> string \<Rightarrow> string \<Rightarrow> string \<Rightarrow> http_response \<times> store" where
  "deleteEntity env s r account table pk rk =
    (case table_authorize env s r account of
       Some rs \<Rightarrow> (rs, s)
     | None \<Rightarrow> (case DeleteEntity s account table pk rk of
         (Inl e, s1) \<Rightarrow> (table_failed e, s1)
       | (Inr ok, s1) \<Rightarrow> if \<not> ok then (entity_not_found, s1) else (writeHeader 204, s1)))"

definition table_handle ::
  "storage_env \<Rightarrow> string \<Rightarrow> store \<Rightarrow> http_request \<Rightarrow> byte list result \<Rightarrow> storage_table_op \<Rightarrow> http_response \<times> store" where
  "table_handle env tag s r body op =
    (case op of
       ListTablesOp a \<Rightarrow> (listTables env s r a, s)
     | PutTable a t \<Rightarrow> putTable env s r a t
     | QueryTable a t \<Rightarrow> (getTableOrQuery env s r a t, s)
     | DeleteTableOp a t \<Rightarrow> deleteTable env s r a t
     | InsertEntityOp a t \<Rightarrow> insertEntity env tag s r body a t
     | PutEntityOp a t pk rk \<Rightarrow> putEntity env tag s r body a t pk rk
     | MergeEntityOp a t pk rk \<Rightarrow> mergeEntity env tag s r body a t pk rk
     | GetEntityOp a t pk rk \<Rightarrow> (getEntity env s r a t pk rk, s)
     | DeleteEntityOp a t pk rk \<Rightarrow> deleteEntity env s r a t pk rk)"

lemma filter_example:
  "parseFilterLite ''PartitionKey eq 'a' and Status EQ 'x y' '' = (''a'', [], [(''Status'', ''x y'')])"
  "parseFilterLite ''not (PartitionKey eq 'a')'' = (''a'', [], [])"
  "parseFilterLite ''Status ne 'a' '' = ([], [], [])"
  by code_simp+

end
