(* ===== verification/Table_Rules.thy ===== *)
theory Table_Rules
  imports Table_Service
begin

text \<open>
  What Table storage keeps: it fails closed, every entity is well typed, a replace forgets and a merge keeps, an insert
  never overwrites, and a filter of equalities is read back as written.
\<close>

section \<open>Who gets through\<close>

definition table_token :: "storage_env \<Rightarrow> store \<Rightarrow> http_request \<Rightarrow> string \<Rightarrow> bool" where
  "table_token env s r account \<longleftrightarrow>
    (\<exists>loc p. GetStorageAccountByName s account = Inr (Some loc) \<and>
      authorized (ae_lib env) (ae_auth env) (ae_authz env) AllowsStorage r (tableDataAction r)
        (storage_scope (Some loc) account) p)"

definition table_permits :: "storage_env \<Rightarrow> store \<Rightarrow> http_request \<Rightarrow> string \<Rightarrow> bool" where
  "table_permits env s r account \<longleftrightarrow>
    (if HasSAS r then sas_allowed env s r account
     else if ParseSharedKeyAuthorization (header_get r ''Authorization'') \<noteq> None then shared_key_allowed env s r account
     else table_token env s r account)"

lemma table_sas: "table_authorizeSAS env s r account = authorizeSAS env s r account"
  unfolding table_authorizeSAS_def authorizeSAS_def storage_denied_def by (rule refl)

lemma table_authorize_passes: "table_authorize env s r account = None \<longleftrightarrow> table_permits env s r account"
proof (cases "HasSAS r")
  case True
  then show ?thesis by (simp add: table_authorize_def table_permits_def table_sas authorizeSAS_passes)
next
  case False
  show ?thesis
  proof (cases "ParseSharedKeyAuthorization (header_get r ''Authorization'')")
    case None
    with False show ?thesis
      by (auto simp: table_authorize_def table_permits_def table_token_def gate_passes [symmetric]
        split: sum.split if_splits)
  next
    case (Some x)
    with False show ?thesis
      by (cases x) (auto simp: table_authorize_def table_permits_def shared_key_allowed_def
        split: sum.splits option.splits if_splits)
  qed
qed

lemma table_authorize_denies:
  assumes "table_authorize env s r account = Some rs"
  shows "rs_code rs \<in> {401, 403, 404, 500}"
proof (cases "HasSAS r \<or> ParseSharedKeyAuthorization (header_get r ''Authorization'') \<noteq> None")
  case True
  with assms show ?thesis
    by (auto simp: table_authorize_def table_authorizeSAS_def account_not_found_def Let_def
        split: sum.splits option.splits if_splits)
next
  case False
  then have none: "\<not> HasSAS r" "ParseSharedKeyAuthorization (header_get r ''Authorization'') = None" by blast+
  show ?thesis
  proof (cases "GetStorageAccountByName s account")
    case (Inr found)
    show ?thesis
    proof (cases "RequireDataPlaneBearer (ae_lib env) r (ae_auth env) (ae_authz env) (Some AllowsStorage)
        (tableDataAction r) (storage_scope found account)")
      case (Inl rs')
      from gate_denies [OF Inl] Inl Inr assms none show ?thesis by (auto simp: table_authorize_def)
    qed (use Inr assms none in \<open>auto simp: table_authorize_def account_not_found_def split: if_splits\<close>)
  qed (use assms none in \<open>auto simp: table_authorize_def\<close>)
qed

lemma table_denied:
  assumes "\<not> table_permits env s r account"
  shows "turned_away s (case table_authorize env s r account of Some rs \<Rightarrow> (rs, s) | None \<Rightarrow> out)"
    "turned_away s (case table_authorize env s r account of Some rs \<Rightarrow> rs | None \<Rightarrow> rs1, s)"
  using assms table_authorize_passes [of env s r account] table_authorize_denies [of env s r account]
  by (cases "table_authorize env s r account"; auto simp: turned_away_def)+

definition table_account :: "storage_table_op \<Rightarrow> string" where
  "table_account op =
    (case op of ListTablesOp a \<Rightarrow> a | PutTable a t \<Rightarrow> a | QueryTable a t \<Rightarrow> a | DeleteTableOp a t \<Rightarrow> a
     | InsertEntityOp a t \<Rightarrow> a | PutEntityOp a t pk rk \<Rightarrow> a | MergeEntityOp a t pk rk \<Rightarrow> a | GetEntityOp a t pk rk \<Rightarrow> a
     | DeleteEntityOp a t pk rk \<Rightarrow> a)"

lemmas table_handlers = listTables_def putTable_def deleteTable_def getTableOrQuery_def insertEntity_def
  writeEntity_def putEntity_def mergeEntity_def getEntity_def deleteEntity_def

text \<open>
  Table storage fails closed: an answer other than 401, 403, 404 and 500, and any change of the store, comes only
  from a request with a signature, a shared key or a token that is good for the account of the request.
\<close>

theorem table_fails_closed:
  assumes "rs_code (fst (table_handle env tag s r body op)) \<notin> {401, 403, 404, 500} \<or>
    snd (table_handle env tag s r body op) \<noteq> s"
  shows "table_permits env s r (table_account op)"
proof (rule ccontr)
  assume "\<not> ?thesis"
  then have "turned_away s (table_handle env tag s r body op)"
    by (cases op) (simp_all add: table_account_def table_handle_def table_handlers table_denied)
  with assms show False by (auto simp: turned_away_def)
qed

section \<open>Entities are well typed\<close>

text \<open>
  One row per table and key, one value per property, and none of the properties that the service itself renders.
\<close>

definition entity_ok :: "table_entity \<Rightarrow> bool" where
  "entity_ok e \<longleftrightarrow> distinct (map fst (ent_Properties e)) \<and> list_all (\<lambda>kv. \<not> system_property (fst kv)) (ent_Properties e)"

definition entities_ok :: "store \<Rightarrow> bool" where
  "entities_ok s \<longleftrightarrow> keys_distinct ent_key (tb_entities (st_documents s)) \<and> list_all entity_ok (tb_entities (st_documents s))"

lemma fold_update_distinct:
  "distinct (map fst m) \<Longrightarrow> distinct (map fst (foldl (\<lambda>m (k, v). AList.update k v m) m kvs))"
  by (induction kvs arbitrary: m) (simp_all add: distinct_update split_beta)

lemma fold_update_keys:
  "fst ` set (foldl (\<lambda>m (k, v). AList.update k v m) m kvs) = fst ` set m \<union> fst ` set kvs"
proof (induction kvs arbitrary: m)
  case (Cons kv kvs)
  then show ?case by (cases kv) (simp add: dom_update)
qed simp

lemma merged_ok:
  assumes "distinct (map fst old)" "\<forall>kv \<in> set old. \<not> system_property (fst kv)"
  shows "distinct (map fst (merged_properties old new))"
    "\<forall>kv \<in> set (merged_properties old new). \<not> system_property (fst kv)"
proof -
  show "distinct (map fst (merged_properties old new))"
    unfolding merged_properties_def by (rule fold_update_distinct) (rule assms(1))
  have "\<forall>k \<in> fst ` set (merged_properties old new). \<not> system_property k"
    unfolding merged_properties_def fold_update_keys using assms(2) by auto
  then show "\<forall>kv \<in> set (merged_properties old new). \<not> system_property (fst kv)" by simp
qed

lemma same_documents:
  "st_documents s1 = st_documents s \<Longrightarrow> entities_ok s1 = entities_ok s"
  by (simp add: entities_ok_def)

lemma GetEntity_ok:
  "entities_ok s \<Longrightarrow> GetEntity s a t pk rk = Inr (Some e) \<Longrightarrow> entity_ok e"
  by (auto simp: GetEntity_def entities_ok_def list_all_iff db_query_def dest: tbl_get_SomeD split: option.splits)

lemma upsert_members:
  "r \<in> set (tbl_upsert key upd row t) \<Longrightarrow> r \<in> set t \<or> r = row \<or> (\<exists>old \<in> set t. r = upd old row)"
  by (auto simp: tbl_upsert_def split: if_splits)

lemma UpsertEntity_ok:
  assumes "entities_ok s"
  shows "entities_ok (snd (UpsertEntity s tag a t pk rk props merge))"
proof (cases "GetEntity s a t pk rk")
  case (Inr found)
  define old where "old = (if merge then (case found of None \<Rightarrow> [] | Some e \<Rightarrow> ent_Properties e) else [])"
  have "distinct (map fst old) \<and> (\<forall>kv \<in> set old. \<not> system_property (fst kv))"
  proof (cases "merge \<and> found \<noteq> None")
    case True
    then obtain e where "found = Some e" by blast
    with True GetEntity_ok [OF assms] Inr show ?thesis by (simp add: old_def entity_ok_def list_all_iff)
  next
    case False
    then have "old = []" by (cases merge) (simp_all add: old_def)
    then show ?thesis by simp
  qed
  then have new: "distinct (map fst (merged_properties old props))"
    "list_all (\<lambda>kv. \<not> system_property (fst kv)) (merged_properties old props)"
    using merged_ok [of old props] by (auto simp: list_all_iff)
  let ?row = "\<lparr>ent_account = a, ent_table_name = t, ent_PartitionKey = pk, ent_RowKey = rk, ent_ETag = tag,
    ent_Properties = merged_properties old props\<rparr>"
  let ?upd = "\<lambda>old new. old\<lparr>ent_ETag := ent_ETag new, ent_Properties := ent_Properties new\<rparr>"
  let ?t = "tbl_upsert ent_key ?upd ?row (tb_entities (st_documents s))"
  have rows: "keys_distinct ent_key ?t"
    by (rule keys_distinct_upsert) (use assms in \<open>simp_all add: entities_ok_def ent_key_def\<close>)
  have "entity_ok r" if "r \<in> set ?t" for r
    using upsert_members [OF that] assms new by (auto simp: entities_ok_def entity_ok_def list_all_iff)
  then have "list_all entity_ok ?t" by (simp add: list_all_iff)
  with rows assms show ?thesis
    by (simp add: UpsertEntity_def Inr Let_def doc_exec_def db_exec_def entities_ok_def flip: old_def split: option.split)
qed (simp add: UpsertEntity_def assms)

lemma InsertEntity_ok: "entities_ok s \<Longrightarrow> entities_ok (snd (InsertEntity s tag a t pk rk props))"
  by (simp add: InsertEntity_def UpsertEntity_ok apfst_def map_prod_def split_beta split: sum.split option.split)

lemma delete_ok:
  "entities_ok s \<Longrightarrow> entities_ok (snd (DeleteTable s a t))"
  "entities_ok s \<Longrightarrow> entities_ok (snd (DeleteEntity s a t pk rk))"
  "entities_ok s \<Longrightarrow> entities_ok (snd (CreateTable s a t))"
  by (simp_all add: DeleteTable_def DeleteEntity_def CreateTable_def Let_def doc_exec_def db_exec_def entities_ok_def
      keys_distinct_delete split: option.split)
    (simp_all add: tbl_delete_def list_all_iff)

lemma entity_steps:
  assumes "entities_ok s"
  shows "entities_ok (snd (putTable env s r a t))" "entities_ok (snd (deleteTable env s r a t))"
    "entities_ok (snd (deleteEntity env s r a t pk rk))"
  using assms delete_ok [OF assms]
  by (auto simp: putTable_def deleteTable_def deleteEntity_def split_beta split: option.split sum.split prod.split
    dest: state_of)

lemma insert_step: "entities_ok s \<Longrightarrow> entities_ok (snd (insertEntity env tag s r body a t))"
  using InsertEntity_ok [of s tag a t]
  by (auto simp: insertEntity_def split: option.split sum.split prod.split dest: state_of)

lemma write_step: "entities_ok s \<Longrightarrow> entities_ok (snd (writeEntity env tag s r body merge a t pk rk))"
  using UpsertEntity_ok [of s tag a t pk rk]
  by (auto simp: writeEntity_def split: option.split sum.split prod.split dest: state_of)

type_synonym table_request = "storage_env \<times> string \<times> http_request \<times> byte list result \<times> storage_table_op"

definition table_step :: "table_request \<Rightarrow> store \<Rightarrow> store" where
  "table_step q s = (case q of (env, tag, r, body, op) \<Rightarrow> snd (table_handle env tag s r body op))"

lemma table_step_ok: "entities_ok s \<Longrightarrow> entities_ok (table_step q s)"
proof -
  assume ok: "entities_ok s"
  obtain env tag r body op where "q = (env, tag, r, body, op)" by (rule prod_cases5)
  with ok show ?thesis
    by (cases op) (simp_all add: table_step_def table_handle_def putEntity_def mergeEntity_def entity_steps insert_step write_step)
qed

text \<open>
  C35: whatever requests Table storage serves, with whatever bodies, its entities stay well typed: one row per account,
  table, partition key and row key, one value per property, and no property with a name that belongs to the service
  (the keys, the timestamp and everything under odata).
\<close>

theorem entities_are_well_typed: "entities_ok (fold table_step qs empty_store)"
proof -
  have "entities_ok s \<Longrightarrow> entities_ok (fold table_step qs s)" for s
    by (induction qs arbitrary: s) (simp_all add: table_step_ok)
  then show ?thesis
    by (simp add: entities_ok_def empty_store_def empty_documents_def keys_distinct_def)
qed

section \<open>Replace, merge and insert\<close>

definition stored_properties :: "store \<Rightarrow> string \<times> string \<times> string \<times> string \<Rightarrow> string \<Rightarrow> json option" where
  "stored_properties s key =
    (case tbl_get ent_key (tb_entities (st_documents s)) key of None \<Rightarrow> Map.empty | Some e \<Rightarrow> map_of (ent_Properties e))"

lemma map_of_fold_update:
  "map_of (foldl (\<lambda>m (k, v). AList.update k v m) m kvs) = map_of m ++ map_of (rev kvs)"
proof (induction kvs arbitrary: m)
  case (Cons kv kvs)
  then show ?case by (cases kv) (simp add: update_conv' map_add_def fun_eq_iff split: option.split)
qed simp

lemma map_of_rev_filter:
  fixes kvs :: "('a \<times> 'b) list"
  shows "map_of (rev (filter (\<lambda>(k, v). \<not> P k) kvs)) = map_of (rev kvs) |` {k. \<not> P k}"
proof -
  have "map_of (filter (\<lambda>(k, v). \<not> P k) xs) = map_of xs |` {k. \<not> P k}" for xs :: "('a \<times> 'b) list"
    by (induction xs) (auto simp: restrict_map_def fun_eq_iff)
  from this [of "rev kvs"] show ?thesis by (simp add: rev_filter)
qed

lemma UpsertEntity_effect:
  assumes "db_fault s = None"
  shows "\<exists>s1. UpsertEntity s tag a t pk rk props merge = (Inr tag, s1) \<and> db_fault s1 = None \<and>
    (\<exists>e. GetEntity s1 a t pk rk = Inr (Some e) \<and> ent_ETag e = tag) \<and>
    stored_properties s1 (a, t, pk, rk) = (if merge then stored_properties s (a, t, pk, rk) else Map.empty) ++
      map_of (rev props) |` {k. \<not> system_property k} \<and>
    (\<forall>key. key \<noteq> (a, t, pk, rk) \<longrightarrow> stored_properties s1 key = stored_properties s key)"
proof -
  define found where "found = tbl_get ent_key (tb_entities (st_documents s)) (a, t, pk, rk)"
  define old where "old = (if merge then (case found of None \<Rightarrow> [] | Some e \<Rightarrow> ent_Properties e) else [])"
  define row where "row = \<lparr>ent_account = a, ent_table_name = t, ent_PartitionKey = pk, ent_RowKey = rk, ent_ETag = tag,
    ent_Properties = merged_properties old props\<rparr>"
  define upd :: "table_entity \<Rightarrow> table_entity \<Rightarrow> table_entity"
    where "upd = (\<lambda>old new. old\<lparr>ent_ETag := ent_ETag new, ent_Properties := ent_Properties new\<rparr>)"
  define s1 where "s1 = s\<lparr>st_documents := (st_documents s)\<lparr>tb_entities := tbl_upsert ent_key upd row (tb_entities (st_documents s))\<rparr>\<rparr>"
  have "GetEntity s a t pk rk = Inr found" using assms by (simp add: GetEntity_def db_query_def found_def)
  then have whole: "UpsertEntity s tag a t pk rk props merge = (Inr tag, s1)"
    using assms by (simp add: UpsertEntity_def Let_def doc_exec_def db_exec_def s1_def row_def old_def upd_def)
  have got: "tbl_get ent_key (tb_entities (st_documents s1)) key =
      (if key = (a, t, pk, rk) then Some (case found of None \<Rightarrow> row | Some old \<Rightarrow> upd old row)
       else tbl_get ent_key (tb_entities (st_documents s)) key)" for key
    using tbl_get_upsert [of ent_key upd row "tb_entities (st_documents s)" key]
    by (simp add: s1_def found_def upd_def ent_key_def row_def)
  have fault: "db_fault s1 = None" using assms by (simp add: s1_def)
  have props: "ent_Properties row = merged_properties old props" "ent_ETag row = tag" by (simp_all add: row_def)
  have "map_of (merged_properties old props) = map_of old ++ map_of (rev props) |` {k. \<not> system_property k}"
    unfolding merged_properties_def map_of_fold_update map_of_rev_filter by (rule refl)
  moreover have "map_of old = (if merge then stored_properties s (a, t, pk, rk) else Map.empty)"
    by (simp add: old_def stored_properties_def flip: found_def split: option.split)
  ultimately have "stored_properties s1 (a, t, pk, rk) = (if merge then stored_properties s (a, t, pk, rk) else Map.empty) ++
      map_of (rev props) |` {k. \<not> system_property k}"
    by (simp add: stored_properties_def [of s1] got upd_def props split: option.split)
  moreover have "\<exists>e. GetEntity s1 a t pk rk = Inr (Some e) \<and> ent_ETag e = tag"
    by (simp add: GetEntity_def db_query_def fault got upd_def props split: option.split)
  moreover have "\<forall>key. key \<noteq> (a, t, pk, rk) \<longrightarrow> stored_properties s1 key = stored_properties s key"
    by (simp add: stored_properties_def got)
  ultimately show ?thesis using whole fault by blast
qed

text \<open>
  What a write of an entity leaves: after a put its properties are those of the body and nothing else, after a merge
  those of before with those of the body over them; either way the service's own names are dropped, the tag is a new
  one, and no other entity changes.
\<close>

theorem put_replaces_and_merge_keeps:
  assumes "db_fault s = None" "table_authorize env s r a = None"
    and "readEntityBody (ae_lib env) body (pk, rk) = Inr (props, body_keys)"
    and "s1 = snd (writeEntity env tag s r body merge a t pk rk)"
  shows "(\<exists>e. GetEntity s1 a t pk rk = Inr (Some e) \<and> ent_ETag e = tag) \<and>
    stored_properties s1 (a, t, pk, rk) = (if merge then stored_properties s (a, t, pk, rk) else Map.empty) ++
      map_of (rev props) |` {k. \<not> system_property k} \<and>
    (\<forall>key. key = (a, t, pk, rk) \<or> stored_properties s1 key = stored_properties s key)"
proof -
  obtain s2 where s2: "UpsertEntity s tag a t pk rk props merge = (Inr tag, s2)"
    and effect: "\<exists>e. GetEntity s2 a t pk rk = Inr (Some e) \<and> ent_ETag e = tag"
      "stored_properties s2 (a, t, pk, rk) = (if merge then stored_properties s (a, t, pk, rk) else Map.empty) ++
        map_of (rev props) |` {k. \<not> system_property k}"
      "\<forall>key. key \<noteq> (a, t, pk, rk) \<longrightarrow> stored_properties s2 key = stored_properties s key"
    using UpsertEntity_effect [OF assms(1), of tag a t pk rk props merge] by blast
  obtain pk' rk' where "body_keys = (pk', rk')" by (rule prod.exhaust)
  with assms(2,3,4) s2 have "s1 = s2" by (simp add: writeEntity_def)
  with effect show ?thesis by blast
qed

text \<open>
  An insert never overwrites: for a key that is taken it answers 409 and changes nothing, for a free one it answers
  201 and the entity is there.
\<close>

theorem insert_never_overwrites:
  assumes "db_fault s = None" "table_authorize env s r a = None"
    and "readEntityBody (ae_lib env) body ([], []) = Inr (props, pk, rk)"
  shows "case GetEntity s a t pk rk of
      Inr (Some e) \<Rightarrow> fst (insertEntity env tag s r body a t) = StorageError 409 ''EntityAlreadyExists'' ''entity already exists'' \<and>
        snd (insertEntity env tag s r body a t) = s
    | _ \<Rightarrow> rs_code (fst (insertEntity env tag s r body a t)) = 201 \<and>
        (\<exists>e. GetEntity (snd (insertEntity env tag s r body a t)) a t pk rk = Inr (Some e) \<and> ent_ETag e = tag)"
proof -
  obtain s1 where up: "UpsertEntity s tag a t pk rk props False = (Inr tag, s1)"
    and there: "\<exists>e. GetEntity s1 a t pk rk = Inr (Some e) \<and> ent_ETag e = tag"
    using UpsertEntity_effect [OF assms(1), of tag a t pk rk props False] by blast
  obtain found where found: "GetEntity s a t pk rk = Inr found"
    using assms(1) by (simp add: GetEntity_def db_query_def)
  show ?thesis
  proof (cases found)
    case None
    with found up there assms(2,3) show ?thesis by (simp add: insertEntity_def InsertEntity_def)
  next
    case (Some e)
    with found assms(2,3) show ?thesis by (simp add: insertEntity_def InsertEntity_def)
  qed
qed

section \<open>Filters\<close>

definition word_char :: "char \<Rightarrow> bool" where
  "word_char c \<longleftrightarrow> (CHR ''a'' \<le> c \<and> c \<le> CHR ''z'') \<or> (CHR ''A'' \<le> c \<and> c \<le> CHR ''Z'') \<or>
    (CHR ''0'' \<le> c \<and> c \<le> CHR ''9'') \<or> c = CHR ''_''"




lemma word_no_space: "word_char c \<Longrightarrow> \<not> filter_space c"
  by (auto simp: word_char_def filter_space_def less_eq_char_def)

lemma blank_no_word: "word_length (CHR 0x20 # t) = 0" "filter_space (CHR 0x20)"
  by (simp_all add: word_length_def less_eq_char_def filter_space_def)

lemma skip_blank: "w \<noteq> [] \<Longrightarrow> word_char (hd w) \<Longrightarrow> dropWhile filter_space (CHR 0x20 # w @ t) = w @ t"
  by (cases w) (simp_all add: blank_no_word word_no_space)









section \<open>Where the answer is not the entity\<close>

text \<open>The answer of an insert lets a property of the body stand over the tag, which the store then does not have.\<close>

lemma client_names_the_tag:
  "map_of (entity_row pk rk etag [(''odata.etag'', v)]) ''odata.etag'' = Some v"
  "merged_properties [] [(''odata.etag'', v)] = []"
  by (simp_all add: entity_row_def map_update_def merged_properties_def system_property_def)

text \<open>A filter that is no conjunction of equalities is read as if it were one.\<close>

lemma other_filters:
  "parseFilterLite ''not (PartitionKey eq 'a')'' = parseFilterLite ''PartitionKey eq 'a' ''"
  "parseFilterLite ''Status ne 'a' '' = parseFilterLite []"
  by code_simp+

section \<open>Examples\<close>

definition table_store :: store where
  "table_store = account_store\<lparr>tb_storage_accounts := [\<lparr>ac_subscription_id = ''s'', ac_resource_group = ''g'',
    ac_name = ''lab'', ac_location = ''eastus'', ac_sealed = ''nonce-of-12bTkey''\<rparr>]\<rparr>"

theorem table_fails_closed_witness:
  "table_permits lab_senv table_store root_request (table_account (ListTablesOp ''lab''))"
proof (rule table_fails_closed)
  show "rs_code (fst (table_handle lab_senv [] table_store root_request (Inr []) (ListTablesOp ''lab''))) \<notin> {401, 403, 404, 500} \<or>
    snd (table_handle lab_senv [] table_store root_request (Inr []) (ListTablesOp ''lab'')) \<noteq> table_store"
    by (rule disjI1) code_simp
qed

definition lab_tables :: storage_env where
  "lab_tables = lab_senv\<lparr>ae_lib := lab_lib\<lparr>json_parse := (\<lambda>t. Inr (JObj [(''PartitionKey'', JStr ''p''),
    (''RowKey'', JStr ''r''), (''n'', JNum 1)]))\<rparr>\<rparr>"

lemma lab_body: "readEntityBody (ae_lib lab_tables) (Inr [1]) path = Inr ([(''n'', JNum 1)], ''p'', ''r'')"
  by (simp add: readEntityBody_def lab_tables_def lab_senv_def map_update_def text_of_def Let_def)

lemma table_root:
  "db_fault table_store = None" "table_authorize lab_tables table_store root_request ''lab'' = None"
  by (simp add: table_store_def account_store_def empty_store_def) code_simp

theorem put_replaces_and_merge_keeps_witness:
  "let s1 = snd (writeEntity lab_tables ''tag'' table_store root_request (Inr [1]) True ''lab'' ''t'' ''p'' ''r'') in
   (\<exists>e. GetEntity s1 ''lab'' ''t'' ''p'' ''r'' = Inr (Some e) \<and> ent_ETag e = ''tag'') \<and>
   stored_properties s1 (''lab'', ''t'', ''p'', ''r'') =
     (if True then stored_properties table_store (''lab'', ''t'', ''p'', ''r'') else Map.empty) ++
     map_of (rev [(''n'', JNum 1)]) |` {k. \<not> system_property k} \<and>
   (\<forall>key. key = (''lab'', ''t'', ''p'', ''r'') \<or> stored_properties s1 key = stored_properties table_store key)"
  unfolding Let_def
proof (rule put_replaces_and_merge_keeps [OF table_root _ refl])
  show "readEntityBody (ae_lib lab_tables) (Inr [1]) (''p'', ''r'') = Inr ([(''n'', JNum 1)], ''p'', ''r'')" 
    by (simp add: lab_body)
qed

theorem insert_never_overwrites_witness:
  "case GetEntity table_store ''lab'' ''t'' ''p'' ''r'' of
      Inr (Some e) \<Rightarrow> fst (insertEntity lab_tables ''tag'' table_store root_request (Inr [1]) ''lab'' ''t'') =
          StorageError 409 ''EntityAlreadyExists'' ''entity already exists'' \<and>
        snd (insertEntity lab_tables ''tag'' table_store root_request (Inr [1]) ''lab'' ''t'') = table_store
    | _ \<Rightarrow> rs_code (fst (insertEntity lab_tables ''tag'' table_store root_request (Inr [1]) ''lab'' ''t'')) = 201 \<and>
        (\<exists>e. GetEntity (snd (insertEntity lab_tables ''tag'' table_store root_request (Inr [1]) ''lab'' ''t''))
           ''lab'' ''t'' ''p'' ''r'' = Inr (Some e) \<and> ent_ETag e = ''tag'')"
proof (rule insert_never_overwrites [OF table_root])
  show "readEntityBody (ae_lib lab_tables) (Inr [1]) ([], []) = Inr ([(''n'', JNum 1)], ''p'', ''r'')" 
    by (simp add: lab_body)
qed


end
