(* ===== verification/Cosmos_Service.thy ===== *)
theory Cosmos_Service
  imports Store_Documents Storage_Service Service_Gate
begin

text \<open>
  Cosmos DB, \<open>internal/services/cosmos/handler.go\<close>: accounts behind Resource Manager; databases, containers and
  documents behind the key of the account or a bearer token; with what it promises.
\<close>

section \<open>Routes\<close>

datatype cosmos_op =
    PutCosmos string string string
  | GetCosmos string string string
  | ListCosmosKeys string string string
  | PutDB string string
  | PutColl string string string
  | PutDoc string string string string
  | GetDoc string string string string
  | QueryDocs string string string
  | ChangeFeed string string string

definition cosmos_data_route :: "string \<Rightarrow> string \<Rightarrow> string list \<Rightarrow> cosmos_op option" where
  "cosmos_data_route method account segs =
    (let get = (method = ''GET'' \<or> method = ''HEAD''); put = (method = ''PUT'') in
     case segs of
       [a, db] \<Rightarrow> if a = ''dbs'' \<and> put then Some (PutDB account db) else None
     | [a, db, b, coll] \<Rightarrow> if a = ''dbs'' \<and> b = ''colls'' \<and> put then Some (PutColl account db coll) else None
     | [a, db, b, coll, c] \<Rightarrow>
         if a = ''dbs'' \<and> b = ''colls'' \<and> get
         then (if c = ''docs'' then Some (QueryDocs account db coll)
               else if c = ''changefeed'' then Some (ChangeFeed account db coll) else None)
         else None
     | [a, db, b, coll, c, i] \<Rightarrow>
         if a = ''dbs'' \<and> b = ''colls'' \<and> c = ''docs''
         then (if put then Some (PutDoc account db coll i) else if get then Some (GetDoc account db coll i) else None)
         else None
     | _ \<Rightarrow> None)"

definition cosmos_route :: "string \<Rightarrow> string list \<Rightarrow> cosmos_op option" where
  "cosmos_route method segs =
    (if [] \<in> set segs then None
     else (case segs of
       a # account # rest \<Rightarrow>
         if a = ''cosmos'' then cosmos_data_route method account rest
         else if a = ''subscriptions'' then
           (case rest of
              [b, rg, c, ns, ty, name] \<Rightarrow>
                if b = ''resourceGroups'' \<and> c = ''providers'' \<and> ns = ''Microsoft.DocumentDB'' \<and> ty = ''databaseAccounts''
                then (if method = ''PUT'' then Some (PutCosmos account rg name)
                      else if method = ''GET'' \<or> method = ''HEAD'' then Some (GetCosmos account rg name) else None)
                else None
            | [b, rg, c, ns, ty, name, k] \<Rightarrow>
                if b = ''resourceGroups'' \<and> c = ''providers'' \<and> ns = ''Microsoft.DocumentDB'' \<and> ty = ''databaseAccounts'' \<and>
                   k = ''listKeys'' \<and> method = ''POST''
                then Some (ListCosmosKeys account rg name) else None
            | _ \<Rightarrow> None)
         else None
     | _ \<Rightarrow> None))"

section \<open>Gates\<close>

definition actionItemsRead :: string where
  "actionItemsRead = ''Microsoft.DocumentDB/databaseAccounts/sqlDatabases/containers/items/read''"

definition actionItemsWrite :: string where
  "actionItemsWrite = ''Microsoft.DocumentDB/databaseAccounts/sqlDatabases/containers/items/write''"

definition actionListKeys :: string where
  "actionListKeys = ''Microsoft.DocumentDB/databaseAccounts/listKeys/action''"

definition cosmos_scope :: "(account_row \<times> string) option \<Rightarrow> string \<Rightarrow> string" where
  "cosmos_scope found account =
    (case found of
       None \<Rightarrow> ''/subscriptions/'' @ DefaultSubscriptionID
     | Some (row, key) \<Rightarrow> ''/subscriptions/'' @ ac_subscription_id row @ ''/resourceGroups/'' @ ac_resource_group row @
         ''/providers/Microsoft.DocumentDB/databaseAccounts/'' @ account)"

definition authData :: "data_env \<Rightarrow> store \<Rightarrow> http_request \<Rightarrow> string \<Rightarrow> string \<Rightarrow> http_response option" where
  "authData env s r account action =
    (case GetCosmosAccountByName (de_crypto env) s account of
       Inl e \<Rightarrow> Some (WriteARM 500 ''InternalError'' e)
     | Inr found \<Rightarrow>
         (let hdr = trim_space (header_get r ''X-Ms-Cosmos-Account-Key'') in
          if hdr \<noteq> [] then
            (case found of
               None \<Rightarrow> Some (Unauthenticated [])
             | Some (row, key) \<Rightarrow> if hdr \<noteq> key then Some (Unauthenticated []) else None)
          else (case RequireDataPlaneBearer (ae_lib env) r (ae_auth env) (ae_authz env) (Some AllowsCosmos) action
              (cosmos_scope found account) of
             Inl rs \<Rightarrow> Some rs
           | Inr p \<Rightarrow> if found = None then Some (NotFound ''account not found'') else None)))"

definition cosmos_require :: "data_env \<Rightarrow> http_request \<Rightarrow> string \<Rightarrow> string \<Rightarrow> string \<Rightarrow> http_response option" where
  "cosmos_require env r sub rg action =
    (case RequireARMBearer (ae_lib env) r (ae_auth env) (ae_authz env) action (group_scope sub rg) of
       Inl rs \<Rightarrow> Some rs | Inr p \<Rightarrow> None)"

section \<open>Accounts\<close>

definition cosmos_failed :: "string \<Rightarrow> http_response" where
  "cosmos_failed e = WriteARM 500 ''InternalError'' e"

definition cosmos_json :: "string \<Rightarrow> string \<Rightarrow> string \<Rightarrow> string \<Rightarrow> json" where
  "cosmos_json sub rg name location =
    JObj [(''id'', JStr (group_scope sub rg @ ''/providers/Microsoft.DocumentDB/databaseAccounts/'' @ name)),
      (''name'', JStr name), (''type'', JStr ''Microsoft.DocumentDB/databaseAccounts''), (''location'', JStr location),
      (''properties'', JObj [(''provisioningState'', JStr ''Succeeded''), (''documentEndpoint'', JStr (''/cosmos/'' @ name))])]"

definition cosmos_putAccount ::
  "data_env \<Rightarrow> random \<Rightarrow> store \<Rightarrow> http_request \<Rightarrow> string \<Rightarrow> string \<Rightarrow> string \<Rightarrow> http_response \<times> store" where
  "cosmos_putAccount env rnd s r sub rg name =
    (case cosmos_require env r sub rg ''Microsoft.DocumentDB/databaseAccounts/write'' of
       Some rs \<Rightarrow> (rs, s)
     | None \<Rightarrow>
         (let loc = fst (decode_strings [''location''] (rq_json r)) ''location'';
              location = (if loc \<noteq> [] then loc else ''eastus'') in
          case UpsertCosmosAccount (de_crypto env) s (rnd_key rnd) (rnd_nonce rnd) sub rg name location of
            (Inl e, s1) \<Rightarrow> (cosmos_failed e, s1)
          | (Inr key, s1) \<Rightarrow> (writeJSON 200 (cosmos_json sub rg name location), s1)))"

definition cosmos_getAccount ::
  "data_env \<Rightarrow> store \<Rightarrow> http_request \<Rightarrow> string \<Rightarrow> string \<Rightarrow> string \<Rightarrow> http_response" where
  "cosmos_getAccount env s r sub rg name =
    (case cosmos_require env r sub rg ''Microsoft.DocumentDB/databaseAccounts/read'' of
       Some rs \<Rightarrow> rs
     | None \<Rightarrow> (case GetCosmosAccount (de_crypto env) s sub rg name of
         Inl e \<Rightarrow> cosmos_failed e
       | Inr None \<Rightarrow> NotFound ''account not found''
       | Inr (Some (location, key)) \<Rightarrow> writeJSON 200 (cosmos_json sub rg name location)))"

definition cosmos_listKeys ::
  "data_env \<Rightarrow> store \<Rightarrow> http_request \<Rightarrow> string \<Rightarrow> string \<Rightarrow> string \<Rightarrow> http_response" where
  "cosmos_listKeys env s r sub rg name =
    (case cosmos_require env r sub rg actionListKeys of
       Some rs \<Rightarrow> rs
     | None \<Rightarrow> (case GetCosmosAccount (de_crypto env) s sub rg name of
         Inl e \<Rightarrow> cosmos_failed e
       | Inr None \<Rightarrow> NotFound ''account not found''
       | Inr (Some (location, key)) \<Rightarrow> writeJSON 200 (JObj [(''primaryMasterKey'', JStr key), (''secondaryMasterKey'', JStr key),
           (''primaryReadonlyMasterKey'', JStr key), (''secondaryReadonlyMasterKey'', JStr key)])))"

section \<open>Documents\<close>

definition putDB :: "data_env \<Rightarrow> store \<Rightarrow> http_request \<Rightarrow> string \<Rightarrow> string \<Rightarrow> http_response \<times> store" where
  "putDB env s r account db =
    (case authData env s r account actionItemsWrite of
       Some rs \<Rightarrow> (rs, s)
     | None \<Rightarrow> (case CreateCosmosDatabase s account db of
         (Inl e, s1) \<Rightarrow> (cosmos_failed e, s1)
       | (Inr u, s1) \<Rightarrow> (writeJSON 200 (JObj [(''id'', JStr db)]), s1)))"

definition putColl :: "data_env \<Rightarrow> store \<Rightarrow> http_request \<Rightarrow> string \<Rightarrow> string \<Rightarrow> string \<Rightarrow> http_response \<times> store" where
  "putColl env s r account db coll =
    (case authData env s r account actionItemsWrite of
       Some rs \<Rightarrow> (rs, s)
     | None \<Rightarrow> (case CreateCosmosContainer s account db coll
           (fst (decode_strings [''partitionKey''] (rq_json r)) ''partitionKey'') of
         (Inl e, s1) \<Rightarrow> (cosmos_failed e, s1)
       | (Inr u, s1) \<Rightarrow> (writeJSON 200 (JObj [(''id'', JStr coll)]), s1)))"

definition item_pk :: "http_request \<Rightarrow> string \<Rightarrow> string" where
  "item_pk r i = (let pk = query_get r ''pk'' in if pk = [] then i else pk)"

text \<open>The body is stored as it came; the answer is the object in it, null when it is none.\<close>

definition putDoc ::
  "data_env \<Rightarrow> store \<Rightarrow> http_request \<Rightarrow> byte list result \<Rightarrow> string \<Rightarrow> string \<Rightarrow> string \<Rightarrow> string \<Rightarrow> http_response \<times> store" where
  "putDoc env s r body account db coll i =
    (case authData env s r account actionItemsWrite of
       Some rs \<Rightarrow> (rs, s)
     | None \<Rightarrow> (case map_sum id (take 1048576) body of
         Inl e \<Rightarrow> (BadRequest e, s)
       | Inr bs \<Rightarrow>
           (let raw = string_of_bytes bs;
                doc = (case json_parse (ae_lib env) raw of Inr (JObj m) \<Rightarrow> JObj (map_update [] m) | _ \<Rightarrow> JNull) in
            case UpsertCosmosItem s account db coll i (item_pk r i) raw of
              (Inl e, s1) \<Rightarrow> (cosmos_failed e, s1)
            | (Inr u, s1) \<Rightarrow> (writeJSON 200 doc, s1))))"

definition getDoc ::
  "data_env \<Rightarrow> store \<Rightarrow> http_request \<Rightarrow> string \<Rightarrow> string \<Rightarrow> string \<Rightarrow> string \<Rightarrow> http_response" where
  "getDoc env s r account db coll i =
    (case authData env s r account actionItemsRead of
       Some rs \<Rightarrow> rs
     | None \<Rightarrow> (case GetCosmosItem s account db coll i (item_pk r i) of
         Inl e \<Rightarrow> cosmos_failed e
       | Inr None \<Rightarrow> NotFound ''item not found''
       | Inr (Some body) \<Rightarrow> writeBytes 200 [(''Content-Type'', ''application/json'')] (bytes_of_string body)))"

text \<open>The id a query asks for: the first part between quotes that looks like a value.\<close>

definition query_id :: "http_request \<Rightarrow> string" where
  "query_id r =
    (let q = query_get r ''query'';
         value = (\<lambda>p. p \<noteq> [] \<and> \<not> contains (to_lower p) ''select'' \<and> \<not> contains p ''='');
         i = (if contains (to_lower q) ''id''
              then (case find value (split_on CHR 0x27 q) of Some p \<Rightarrow> p | None \<Rightarrow> []) else []) in
     if i = [] then query_get r ''id'' else i)"

text \<open>
  The encoding of raw messages, which fails when one of them is no JSON; \<open>writeJSON\<close> has sent the status by then and
  the answer stays empty.
\<close>

fun raw_messages :: "stdlib \<Rightarrow> string list \<Rightarrow> json list option" where
  "raw_messages lib [] = Some []"
| "raw_messages lib (d # ds) =
    (case json_parse lib d of
       Inl e \<Rightarrow> None
     | Inr v \<Rightarrow> map_option (Cons v) (raw_messages lib ds))"

definition write_documents :: "json list option \<Rightarrow> http_response" where
  "write_documents items =
    (case items of
       None \<Rightarrow> writeBytes 200 [jsonContentType] []
     | Some vs \<Rightarrow> writeJSON 200 (JObj [(''Documents'', JArr vs)]))"

definition queryDocs :: "data_env \<Rightarrow> store \<Rightarrow> http_request \<Rightarrow> string \<Rightarrow> string \<Rightarrow> string \<Rightarrow> http_response" where
  "queryDocs env s r account db coll =
    (case authData env s r account actionItemsRead of
       Some rs \<Rightarrow> rs
     | None \<Rightarrow> (case QueryCosmosItemsByID s account db coll (query_id r) of
         Inl e \<Rightarrow> cosmos_failed e
       | Inr docs \<Rightarrow> write_documents (raw_messages (ae_lib env) docs)))"

definition feed_item :: "stdlib \<Rightarrow> string \<Rightarrow> json" where
  "feed_item lib d = (case json_parse lib d of Inr v \<Rightarrow> v | Inl e \<Rightarrow> JObj [(''raw'', JStr d)])"

definition changeFeed :: "data_env \<Rightarrow> store \<Rightarrow> http_request \<Rightarrow> string \<Rightarrow> string \<Rightarrow> string \<Rightarrow> http_response" where
  "changeFeed env s r account db coll =
    (case authData env s r account actionItemsRead of
       Some rs \<Rightarrow> rs
     | None \<Rightarrow> (case ListCosmosItems s account db coll of
         Inl e \<Rightarrow> cosmos_failed e
       | Inr docs \<Rightarrow> write_documents (Some (map (feed_item (ae_lib env)) docs))))"

definition cosmos_handle ::
  "data_env \<Rightarrow> random \<Rightarrow> store \<Rightarrow> http_request \<Rightarrow> byte list result \<Rightarrow> cosmos_op \<Rightarrow> http_response \<times> store" where
  "cosmos_handle env rnd s r body op =
    (case op of
       PutCosmos sub rg name \<Rightarrow> cosmos_putAccount env rnd s r sub rg name
     | GetCosmos sub rg name \<Rightarrow> (cosmos_getAccount env s r sub rg name, s)
     | ListCosmosKeys sub rg name \<Rightarrow> (cosmos_listKeys env s r sub rg name, s)
     | PutDB a db \<Rightarrow> putDB env s r a db
     | PutColl a db coll \<Rightarrow> putColl env s r a db coll
     | PutDoc a db coll i \<Rightarrow> putDoc env s r body a db coll i
     | GetDoc a db coll i \<Rightarrow> (getDoc env s r a db coll i, s)
     | QueryDocs a db coll \<Rightarrow> (queryDocs env s r a db coll, s)
     | ChangeFeed a db coll \<Rightarrow> (changeFeed env s r a db coll, s))"

section \<open>Who gets through\<close>

definition cosmos_key_allowed :: "data_env \<Rightarrow> store \<Rightarrow> http_request \<Rightarrow> string \<Rightarrow> bool" where
  "cosmos_key_allowed env s r account \<longleftrightarrow>
    (\<exists>row. GetCosmosAccountByName (de_crypto env) s account =
       Inr (Some (row, trim_space (header_get r ''X-Ms-Cosmos-Account-Key''))))"

definition cosmos_token_allowed :: "data_env \<Rightarrow> store \<Rightarrow> http_request \<Rightarrow> string \<Rightarrow> string \<Rightarrow> bool" where
  "cosmos_token_allowed env s r account action \<longleftrightarrow>
    (\<exists>found p. GetCosmosAccountByName (de_crypto env) s account = Inr (Some found) \<and>
       authorized (ae_lib env) (ae_auth env) (ae_authz env) AllowsCosmos r action (cosmos_scope (Some found) account) p)"

lemma authData_passes:
  "authData env s r account action = None \<longleftrightarrow>
    (if trim_space (header_get r ''X-Ms-Cosmos-Account-Key'') \<noteq> [] then cosmos_key_allowed env s r account
     else cosmos_token_allowed env s r account action)"
proof (cases "GetCosmosAccountByName (de_crypto env) s account")
  case (Inr found)
  show ?thesis
  proof (cases "trim_space (header_get r ''X-Ms-Cosmos-Account-Key'') = []")
    case True
    with Inr show ?thesis
      by (auto simp: authData_def cosmos_token_allowed_def gate_passes [symmetric] split: sum.split)
  next
    case False
    with Inr show ?thesis by (cases found) (auto simp: authData_def cosmos_key_allowed_def split: if_splits)
  qed
qed (simp add: authData_def cosmos_key_allowed_def cosmos_token_allowed_def)

lemma authData_denies:
  assumes "authData env s r account action = Some rs"
  shows "rs_code rs \<in> {401, 403, 404, 500}"
proof (cases "GetCosmosAccountByName (de_crypto env) s account")
  case (Inr found)
  show ?thesis
  proof (cases "trim_space (header_get r ''X-Ms-Cosmos-Account-Key'') = []")
    case True
    show ?thesis
    proof (cases "RequireDataPlaneBearer (ae_lib env) r (ae_auth env) (ae_authz env) (Some AllowsCosmos) action
        (cosmos_scope found account)")
      case (Inl rs')
      with Inr True assms gate_denies [OF Inl] show ?thesis by (auto simp: authData_def)
    qed (use Inr True assms in \<open>auto simp: authData_def split: if_splits\<close>)
  next
    case False
    with Inr assms show ?thesis by (auto simp: authData_def split: option.splits if_splits)
  qed
qed (use assms in \<open>auto simp: authData_def\<close>)

definition cosmos_permits :: "data_env \<Rightarrow> store \<Rightarrow> http_request \<Rightarrow> cosmos_op \<Rightarrow> bool" where
  "cosmos_permits env s r op =
    (let arm = (\<lambda>sub rg action. \<exists>p. authorized (ae_lib env) (ae_auth env) (ae_authz env) AllowsARM r action
           (group_scope sub rg) p);
         data = (\<lambda>account action.
           if trim_space (header_get r ''X-Ms-Cosmos-Account-Key'') \<noteq> [] then cosmos_key_allowed env s r account
           else cosmos_token_allowed env s r account action) in
     case op of
       PutCosmos sub rg name \<Rightarrow> arm sub rg ''Microsoft.DocumentDB/databaseAccounts/write''
     | GetCosmos sub rg name \<Rightarrow> arm sub rg ''Microsoft.DocumentDB/databaseAccounts/read''
     | ListCosmosKeys sub rg name \<Rightarrow> arm sub rg actionListKeys
     | PutDB a db \<Rightarrow> data a actionItemsWrite
     | PutColl a db coll \<Rightarrow> data a actionItemsWrite
     | PutDoc a db coll i \<Rightarrow> data a actionItemsWrite
     | GetDoc a db coll i \<Rightarrow> data a actionItemsRead
     | QueryDocs a db coll \<Rightarrow> data a actionItemsRead
     | ChangeFeed a db coll \<Rightarrow> data a actionItemsRead)"

lemma cosmos_arm_denied:
  assumes "\<nexists>p. authorized (ae_lib env) (ae_auth env) (ae_authz env) AllowsARM r action (group_scope sub rg) p"
  shows "turned_away s (case cosmos_require env r sub rg action of Some rs \<Rightarrow> (rs, s) | None \<Rightarrow> out)"
    "turned_away s (case cosmos_require env r sub rg action of Some rs \<Rightarrow> rs | None \<Rightarrow> rs1, s)"
proof -
  obtain rs where rs: "RequireARMBearer (ae_lib env) r (ae_auth env) (ae_authz env) action (group_scope sub rg) = Inl rs"
    using assms arm_gate_passes [of "ae_lib env" r "ae_auth env" "ae_authz env" action "group_scope sub rg"]
    by (cases "RequireARMBearer (ae_lib env) r (ae_auth env) (ae_authz env) action (group_scope sub rg)") auto
  then have "rs_code rs \<in> {401, 403, 500}" unfolding RequireARMBearer_def by (rule gate_denies)
  with rs show "turned_away s (case cosmos_require env r sub rg action of Some rs \<Rightarrow> (rs, s) | None \<Rightarrow> out)"
    "turned_away s (case cosmos_require env r sub rg action of Some rs \<Rightarrow> rs | None \<Rightarrow> rs1, s)"
    by (auto simp: cosmos_require_def turned_away_def)
qed

lemma cosmos_data_denied:
  assumes "authData env s r account action \<noteq> None"
  shows "turned_away s (case authData env s r account action of Some rs \<Rightarrow> (rs, s) | None \<Rightarrow> out)"
    "turned_away s (case authData env s r account action of Some rs \<Rightarrow> rs | None \<Rightarrow> rs1, s)"
  using assms authData_denies [of env s r account action] by (auto simp: turned_away_def)

lemmas cosmos_handlers = cosmos_putAccount_def cosmos_getAccount_def cosmos_listKeys_def putDB_def putColl_def
  putDoc_def getDoc_def queryDocs_def changeFeed_def

text \<open>
  Cosmos DB fails closed: an answer other than 401, 403, 404 and 500, and any change of the store, comes only from a
  request with the key of the account or a token granted the action at it; for accounts and their keys, from a token
  granted the action at the resource group.
\<close>

theorem cosmos_fails_closed:
  assumes "rs_code (fst (cosmos_handle env rnd s r body op)) \<notin> {401, 403, 404, 500} \<or>
    snd (cosmos_handle env rnd s r body op) \<noteq> s"
  shows "cosmos_permits env s r op"
proof (rule ccontr)
  assume "\<not> ?thesis"
  then have "turned_away s (cosmos_handle env rnd s r body op)"
    by (cases op) (simp_all add: cosmos_permits_def cosmos_handle_def cosmos_handlers authData_passes [symmetric]
      cosmos_arm_denied cosmos_data_denied)
  with assms show False by (auto simp: turned_away_def)
qed

section \<open>Documents\<close>

lemma bytes_back: "bytes_of_string (string_of_bytes bs) = bs"
proof -
  have "(word_of_nat (of_char (char_of (unat b) :: char)) :: byte) = b" for b :: byte
    using unsigned_less [of b, where 'a = nat] by (simp add: take_bit_eq_mod)
  then show ?thesis by (simp add: string_of_bytes_def bytes_of_string_def map_idI)
qed

lemma authData_same:
  assumes "tb_cosmos_accounts (st_documents s1) = tb_cosmos_accounts (st_documents s)" "db_fault s1 = db_fault s"
  shows "authData env s1 r account action = authData env s r account action"
  using assms by (simp add: authData_def GetCosmosAccountByName_def db_query_def)

definition item_body :: "store \<Rightarrow> string \<times> string \<times> string \<times> string \<times> string \<Rightarrow> string option" where
  "item_body s key = map_option cit_body (tbl_get cit_key (tb_cosmos_items (st_documents s)) key)"

lemma UpsertCosmosItem_effect:
  assumes "db_fault s = None"
  shows "\<exists>s1. UpsertCosmosItem s account db coll i pk body = (Inr (), s1) \<and> db_fault s1 = None \<and>
    tb_cosmos_accounts (st_documents s1) = tb_cosmos_accounts (st_documents s) \<and>
    item_body s1 = (item_body s)((account, db, coll, i, pk) := Some body)"
proof -
  let ?upd = "\<lambda>old new. old\<lparr>cit_body := cit_body new\<rparr>"
  let ?row = "\<lparr>cit_account = account, cit_database_name = db, cit_container = coll, cit_id = i,
    cit_partition_key_value = pk, cit_body = body\<rparr>"
  let ?t = "tbl_upsert cit_key ?upd ?row (tb_cosmos_items (st_documents s))"
  have "map_option cit_body (tbl_get cit_key ?t key) =
      (if key = (account, db, coll, i, pk) then Some body else item_body s key)" for key
    by (subst tbl_get_upsert) (auto simp: cit_key_def item_body_def split: option.split)
  then have "item_body (s\<lparr>st_documents := (st_documents s)\<lparr>tb_cosmos_items := ?t\<rparr>\<rparr>) =
      (item_body s)((account, db, coll, i, pk) := Some body)"
    by (auto simp: item_body_def fun_eq_iff)
  then show ?thesis
    using assms by (simp add: UpsertCosmosItem_def Let_def doc_exec_def db_exec_def)
qed

text \<open>
  A document that was put is what a get with the same id and partition key answers with, byte for byte up to the
  first megabyte, whether or not it is JSON; and no other document changes.
\<close>

theorem document_round_trip:
  assumes "db_fault s = None" "authData env s r account actionItemsWrite = None"
    and "authData env s r' account actionItemsRead = None" "item_pk r' i = item_pk r i"
    and "s1 = snd (putDoc env s r (Inr content) account db coll i)"
  shows "rs_code (fst (putDoc env s r (Inr content) account db coll i)) = 200 \<and>
    getDoc env s1 r' account db coll i =
      writeBytes 200 [(''Content-Type'', ''application/json'')] (take 1048576 content) \<and>
    (\<forall>key. key = (account, db, coll, i, item_pk r i) \<or> item_body s1 key = item_body s key)"
proof -
  let ?raw = "string_of_bytes (take 1048576 content)"
  obtain s2 where s2: "UpsertCosmosItem s account db coll i (item_pk r i) ?raw = (Inr (), s2)" "db_fault s2 = None"
    "tb_cosmos_accounts (st_documents s2) = tb_cosmos_accounts (st_documents s)"
    "item_body s2 = (item_body s)((account, db, coll, i, item_pk r i) := Some ?raw)"
    using UpsertCosmosItem_effect [OF assms(1)] by blast
  have code: "rs_code (fst (putDoc env s r (Inr content) account db coll i)) = 200" and "s1 = s2"
    unfolding assms(5) using assms(2) s2(1) by (simp_all add: putDoc_def Let_def)
  moreover have "authData env s2 r' account actionItemsRead = None"
    using authData_same [OF s2(3), of env r' account actionItemsRead] assms(1,3) s2(2) by simp
  moreover have "GetCosmosItem s2 account db coll i (item_pk r' i) = Inr (Some ?raw)"
    using fun_cong [OF s2(4), of "(account, db, coll, i, item_pk r i)"] s2(2) assms(4)
    by (simp add: GetCosmosItem_def item_body_def db_query_def)
  ultimately show ?thesis using s2(4) by (simp add: getDoc_def bytes_back)
qed

section \<open>The key of an account\<close>

lemma cosmos_find: "tbl_get ac_key t (sub, rg, name) = Some row \<Longrightarrow> \<exists>r. find (\<lambda>r. ac_name r = name) t = Some r"
  by (drule tbl_get_SomeD, rule find_exists) (auto simp: ac_key_def)

lemma find_snoc: "find P (xs @ [x]) = (case find P xs of Some y \<Rightarrow> Some y | None \<Rightarrow> if P x then Some x else None)"
  by (induction xs) auto

text \<open>
  The first put of an account makes its key, every later put answers with the same one and only moves the account;
  the key opens the data plane under the account's name, and any other text in the key's header is refused without a
  word on whether the account exists.
\<close>

theorem cosmos_key_is_kept_and_opens:
  assumes "db_fault s = None" "aead_opens (de_crypto env)" "length nonce = 12"
    and "find (\<lambda>r. ac_name r = name) (tb_cosmos_accounts (st_documents s)) = None"
    and "UpsertCosmosAccount (de_crypto env) s key nonce sub rg name loc = (Inr k, s1)"
    and "UpsertCosmosAccount (de_crypto env) s1 key' nonce' sub rg name loc' = (Inr k', s2)"
    and "trim_space (header_get r ''X-Ms-Cosmos-Account-Key'') \<noteq> []"
  shows "k = key \<and> k' = key \<and> GetCosmosAccount (de_crypto env) s2 sub rg name = Inr (Some (default_location loc', key)) \<and>
    authData env s2 r name action =
      (if trim_space (header_get r ''X-Ms-Cosmos-Account-Key'') = key then None else Some (Unauthenticated []))"
proof -
  let ?c = "de_crypto env"
  let ?t = "tb_cosmos_accounts (st_documents s)"
  have none: "tbl_get ac_key ?t (sub, rg, name) = None"
    using assms(4) cosmos_find [of ?t sub rg name] by (cases "tbl_get ac_key ?t (sub, rg, name)") auto
  define row where "row = \<lparr>ac_subscription_id = sub, ac_resource_group = rg, ac_name = name,
    ac_location = default_location loc, ac_sealed = Seal ?c (cr_master ?c) nonce key\<rparr>"
  have opens: "Unseal ?c (cr_master ?c) (ac_sealed row) = Inr key"
    by (simp add: row_def unseal_seal assms(2,3))
  have s1: "k = key" "s1 = s\<lparr>st_documents := (st_documents s)\<lparr>tb_cosmos_accounts := ?t @ [row]\<rparr>\<rparr>"
    using assms(1,5) none by (auto simp: UpsertCosmosAccount_def db_query_def doc_exec_def db_exec_def Let_def row_def)
  have got: "tbl_get ac_key (?t @ [row]) (sub, rg, name) = Some row"
    using none by (simp add: tbl_get_def find_snoc ac_key_def row_def)
  define move where "move = (\<lambda>r. if ac_key r = (sub, rg, name) then r\<lparr>ac_location := default_location loc'\<rparr> else r)"
  have s2: "k' = key" "s2 = s1\<lparr>st_documents := (st_documents s1)\<lparr>tb_cosmos_accounts := map move (?t @ [row])\<rparr>\<rparr>"
    using assms(1,6) got opens
    by (auto simp: UpsertCosmosAccount_def s1(2) db_query_def doc_exec_def db_exec_def Let_def move_def)
  have keeps: "ac_name (move r) = ac_name r" "ac_key (move r) = ac_key r" for r
    by (simp_all add: move_def ac_key_def)
  have "find (\<lambda>r. ac_name r = name) (map move (?t @ [row])) = Some (move row)"
    using assms(4) find_map_upd [of "?t @ [row]" ac_name move name] by (simp add: keeps find_snoc row_def)
  moreover have "tbl_get ac_key (map move (?t @ [row])) (sub, rg, name) = Some (move row)"
    using got find_map_upd [of "?t @ [row]" ac_key move "(sub, rg, name)"] by (simp add: tbl_get_def keeps)
  moreover have "ac_sealed (move row) = ac_sealed row" "ac_location (move row) = default_location loc'"
    by (simp_all add: move_def row_def ac_key_def)
  moreover have "db_fault s2 = None" using assms(1) by (simp add: s2(2) s1(2))
  ultimately show ?thesis
    using opens assms(7) s1(1) s2(1)
    by (simp add: GetCosmosAccount_def authData_def GetCosmosAccountByName_def cosmos_row_def db_query_def s2(2) Let_def)
qed

section \<open>What goes wrong\<close>

text \<open>
  A put takes a body that is no JSON. Every query that finds the document then answers 200 with nothing in it; only the
  change feed copes.
\<close>

lemma bad_document_silences_queries:
  assumes "authData env s r account actionItemsRead = None"
    and "QueryCosmosItemsByID s account db coll (query_id r) = Inr (before @ bad # later)"
    and "json_parse (ae_lib env) bad = Inl e"
  shows "queryDocs env s r account db coll = writeBytes 200 [jsonContentType] []"
proof -
  have "raw_messages (ae_lib env) (before @ bad # later) = None"
    using assms(3) by (induction before) (simp_all split: sum.split)
  with assms(1,2) show ?thesis by (simp add: queryDocs_def write_documents_def)
qed

text \<open>
  The data plane knows accounts by name only: of two with the same name the first one made is found, and the key that
  Resource Manager lists for the second is refused.
\<close>

lemma namesake_key_is_refused:
  assumes "db_fault s = None" "tb_cosmos_accounts (st_documents s) = [a, b]" "ac_name a = name" "ac_name b = name"
    and "ac_key a \<noteq> (sub, rg, name)" "ac_key b = (sub, rg, name)"
    and "Unseal (de_crypto env) (cr_master (de_crypto env)) (ac_sealed a) = Inr key_a"
    and "Unseal (de_crypto env) (cr_master (de_crypto env)) (ac_sealed b) = Inr key_b" "key_a \<noteq> key_b" "key_b \<noteq> []"
    and "trim_space (header_get r ''X-Ms-Cosmos-Account-Key'') = key_b"
  shows "GetCosmosAccount (de_crypto env) s sub rg name = Inr (Some (ac_location b, key_b)) \<and>
    authData env s r name action = Some (Unauthenticated [])"
  using assms by (simp add: GetCosmosAccount_def authData_def GetCosmosAccountByName_def cosmos_row_def db_query_def
    tbl_get_def Let_def)

section \<open>Examples\<close>

definition lab_cosmos :: data_env where
  "lab_cosmos = \<lparr>ae_lib = lab_lib, ae_auth = Some lab_auth, ae_authz = None, de_crypto = lab_crypto, de_listen = []\<rparr>"

definition cosmos_store :: store where
  "cosmos_store = empty_store\<lparr>st_documents := empty_documents\<lparr>tb_cosmos_accounts :=
    [\<lparr>ac_subscription_id = ''s'', ac_resource_group = ''g'', ac_name = ''c'', ac_location = ''eastus'',
      ac_sealed = ''nonce-of-12bTkey''\<rparr>]\<rparr>\<rparr>"

definition keyed_request :: http_request where
  "keyed_request = \<lparr>rq_method = ''GET'', rq_path = [], rq_query = [],
    rq_header = [(''X-Ms-Cosmos-Account-Key'', [''key''])], rq_json = None\<rparr>"

theorem cosmos_fails_closed_witness:
  "cosmos_permits lab_cosmos cosmos_store keyed_request (QueryDocs ''c'' ''d'' ''k'')"
proof (rule cosmos_fails_closed)
  show "rs_code (fst (cosmos_handle lab_cosmos \<lparr>rnd_key = [], rnd_nonce = []\<rparr> cosmos_store keyed_request (Inr [])
      (QueryDocs ''c'' ''d'' ''k''))) \<notin> {401, 403, 404, 500} \<or>
    snd (cosmos_handle lab_cosmos \<lparr>rnd_key = [], rnd_nonce = []\<rparr> cosmos_store keyed_request (Inr [])
      (QueryDocs ''c'' ''d'' ''k'')) \<noteq> cosmos_store"
    by (rule disjI1) code_simp
qed

theorem document_round_trip_witness:
  "let s1 = snd (putDoc lab_cosmos cosmos_store keyed_request (Inr [123]) ''c'' ''d'' ''k'' ''i'') in
   rs_code (fst (putDoc lab_cosmos cosmos_store keyed_request (Inr [123]) ''c'' ''d'' ''k'' ''i'')) = 200 \<and>
   getDoc lab_cosmos s1 keyed_request ''c'' ''d'' ''k'' ''i'' =
     writeBytes 200 [(''Content-Type'', ''application/json'')] (take 1048576 [123]) \<and>
   (\<forall>key. key = (''c'', ''d'', ''k'', ''i'', item_pk keyed_request ''i'') \<or> item_body s1 key = item_body cosmos_store key)"
  unfolding Let_def
proof (rule document_round_trip [OF _ _ _ refl refl])
  show "db_fault cosmos_store = None" by (simp add: cosmos_store_def empty_store_def)
  show "authData lab_cosmos cosmos_store keyed_request ''c'' actionItemsWrite = None"
    "authData lab_cosmos cosmos_store keyed_request ''c'' actionItemsRead = None"
    by code_simp+
qed

definition first_put :: "string result \<times> store" where
  "first_put = UpsertCosmosAccount lab_crypto empty_store ''key'' ''nonce-of-12b'' ''s'' ''g'' ''c'' []"

definition second_put :: "string result \<times> store" where
  "second_put = UpsertCosmosAccount lab_crypto (snd first_put) ''other'' [] ''s'' ''g'' ''c'' ''west''"

lemma puts_answer: "fst first_put = Inr ''key''" "fst second_put = Inr ''key''"
  by code_simp+

theorem cosmos_key_is_kept_and_opens_witness:
  "''key'' = ''key'' \<and> ''key'' = ''key'' \<and>
   GetCosmosAccount (de_crypto lab_cosmos) (snd second_put) ''s'' ''g'' ''c'' = Inr (Some (default_location ''west'', ''key'')) \<and>
   authData lab_cosmos (snd second_put) keyed_request ''c'' ''a'' =
     (if trim_space (header_get keyed_request ''X-Ms-Cosmos-Account-Key'') = ''key'' then None else Some (Unauthenticated []))"
proof (rule cosmos_key_is_kept_and_opens)
  have crypto: "de_crypto lab_cosmos = lab_crypto" by (simp add: lab_cosmos_def)
  show "UpsertCosmosAccount (de_crypto lab_cosmos) empty_store ''key'' ''nonce-of-12b'' ''s'' ''g'' ''c'' [] =
      (Inr ''key'', snd first_put)"
    using puts_answer(1) by (simp add: crypto prod_eq_iff flip: first_put_def)
  show "UpsertCosmosAccount (de_crypto lab_cosmos) (snd first_put) ''other'' [] ''s'' ''g'' ''c'' ''west'' =
      (Inr ''key'', snd second_put)"
    using puts_answer(2) by (simp add: crypto prod_eq_iff flip: second_put_def)
  show "aead_opens (de_crypto lab_cosmos)" by (simp add: crypto lab_crypto_opens)
  show "trim_space (header_get keyed_request ''X-Ms-Cosmos-Account-Key'') \<noteq> []" by code_simp
qed (simp_all add: empty_store_def empty_documents_def)

end
