(* ===== verification/Event_Hubs.thy ===== *)
theory Event_Hubs
  imports Store_Documents Storage_Service Service_Gate
begin

text \<open>
  Event Hubs: \<open>internal/store/eventhubs.go\<close> and \<open>internal/services/eventhubs/handler.go\<close>. Namespaces and hubs behind
  Resource Manager; messages, and the copies of them that capture keeps, behind data roles.
\<close>

section \<open>The store\<close>

definition EventHubNamespaceKey :: "string \<Rightarrow> string \<Rightarrow> string \<Rightarrow> string" where
  "EventHubNamespaceKey sub rg name =
    ''/subscriptions/'' @ sub @ ''/resourceGroups/'' @ rg @ ''/providers/Microsoft.EventHub/namespaces/'' @ name"

definition UpsertEventHubsNamespace :: "store \<Rightarrow> string \<Rightarrow> string \<Rightarrow> string \<Rightarrow> string \<Rightarrow> unit result \<times> store" where
  "UpsertEventHubsNamespace s sub rg name location =
    (let d = st_events s in
     ev_exec s () (d\<lparr>tb_hub_namespaces := tbl_upsert ac_key (\<lambda>old new. old\<lparr>ac_location := ac_location new\<rparr>)
       \<lparr>ac_subscription_id = sub, ac_resource_group = rg, ac_name = name, ac_location = default_location location,
        ac_sealed = []\<rparr> (tb_hub_namespaces d)\<rparr>))"

definition ListEventHubsNamespacesByName :: "store \<Rightarrow> string \<Rightarrow> account_row list result" where
  "ListEventHubsNamespacesByName s name =
    db_query s (sort_key ac_subscription_id (sort_key ac_resource_group
      (filter (\<lambda>r. ac_name r = name) (tb_hub_namespaces (st_events s)))))"

definition GetEventHubsNamespace :: "store \<Rightarrow> string \<Rightarrow> string \<Rightarrow> string \<Rightarrow> string option result" where
  "GetEventHubsNamespace s sub rg name =
    db_query s (map_option ac_location (tbl_get ac_key (tb_hub_namespaces (st_events s)) (sub, rg, name)))"

definition CreateEventHub :: "store \<Rightarrow> string \<Rightarrow> string \<Rightarrow> int \<Rightarrow> unit result \<times> store" where
  "CreateEventHub s ns name partitions =
    (let d = st_events s in
     ev_exec s () (d\<lparr>tb_hubs := tbl_upsert (\<lambda>r. (ehb_namespace r, ehb_name r))
       (\<lambda>old new. old\<lparr>ehb_partition_count := ehb_partition_count new\<rparr>)
       \<lparr>ehb_namespace = ns, ehb_name = name, ehb_partition_count = (if partitions \<le> 0 then 2 else partitions)\<rparr>
       (tb_hubs d)\<rparr>))"

definition CreateEventHubConsumerGroup :: "store \<Rightarrow> string \<Rightarrow> string \<Rightarrow> string \<Rightarrow> unit result \<times> store" where
  "CreateEventHubConsumerGroup s ns hub name =
    (let d = st_events s in
     ev_exec s () (d\<lparr>tb_consumer_groups := tbl_insert_ignore id (ns, hub, name) (tb_consumer_groups d)\<rparr>))"

definition new_hub_event :: "int \<Rightarrow> string \<Rightarrow> string \<Rightarrow> string \<Rightarrow> byte list \<Rightarrow> hub_event" where
  "new_hub_event now ns hub part body =
    \<lparr>ehm_namespace = ns, ehm_hub = hub, ehm_partition_id = (if part = [] then ''0'' else part),
     ehm_body = body, ehm_inserted_at = now\<rparr>"

definition EnqueueEventHub ::
  "store \<Rightarrow> int \<Rightarrow> string \<Rightarrow> string \<Rightarrow> string \<Rightarrow> byte list \<Rightarrow> unit result \<times> store" where
  "EnqueueEventHub s now ns hub part body =
    (let d = st_events s; ev = new_hub_event now ns hub part body in
     ev_exec s () (d\<lparr>tb_hub_messages := seq_insert ev (tb_hub_messages d),
       tb_hub_captured := seq_insert ev (tb_hub_captured d)\<rparr>))"

definition trimNonEmpty :: "string list \<Rightarrow> string list" where
  "trimNonEmpty xs = filter (\<lambda>x. x \<noteq> []) (map trim_space xs)"

text \<open>Captured events with their ids, in the order of the ids.\<close>

definition ListEventHubCapturedForNamespaces ::
  "store \<Rightarrow> string list \<Rightarrow> string \<Rightarrow> (nat \<times> hub_event) list result" where
  "ListEventHubCapturedForNamespaces s namespaces hub =
    (let nss = trimNonEmpty namespaces in
     if nss = [] then Inr []
     else db_query s (filter (\<lambda>(i, r). ehm_namespace r \<in> set nss \<and> ehm_hub r = hub) (snd (tb_hub_captured (st_events s)))))"

definition GetEventHubCapturedForNamespaces ::
  "store \<Rightarrow> string list \<Rightarrow> string \<Rightarrow> int \<Rightarrow> (nat \<times> hub_event) option result" where
  "GetEventHubCapturedForNamespaces s namespaces hub n =
    (let nss = trimNonEmpty namespaces in
     if nss = [] then Inr None
     else db_query s (find (\<lambda>(i, r). ehm_namespace r \<in> set nss \<and> ehm_hub r = hub \<and> int i = n)
       (snd (tb_hub_captured (st_events s)))))"

definition in_hub :: "string \<Rightarrow> string \<Rightarrow> string \<Rightarrow> hub_event \<Rightarrow> bool" where
  "in_hub ns hub part r \<longleftrightarrow>
    ehm_namespace r = ns \<and> ehm_hub r = hub \<and> (part = [] \<or> ehm_partition_id r = part)"

definition DequeueEventHub :: "store \<Rightarrow> string \<Rightarrow> string \<Rightarrow> string \<Rightarrow> byte list option result \<times> store" where
  "DequeueEventHub s ns hub part =
    (let d = st_events s in
     case db_query s (seq_first (in_hub ns hub part) (tb_hub_messages d)) of
       Inl e \<Rightarrow> (Inl e, s)
     | Inr None \<Rightarrow> (Inr None, s)
     | Inr (Some (i, r)) \<Rightarrow>
         ev_exec s (Some (ehm_body r)) (d\<lparr>tb_hub_messages := seq_delete i (tb_hub_messages d)\<rparr>))"

section \<open>Routes and gates\<close>

record hub_env = arm_env +
  hub_clock :: int
  hub_format :: "int \<Rightarrow> string"

datatype hub_op =
    PutHubNS string string string
  | GetHubNS string string string
  | PutHub string string string string
  | PutCG string string string string string
  | PostMsg string string
  | GetMsg string string
  | GetCaptured string string string
  | CapturedEvents string string

definition hub_route :: "string \<Rightarrow> string list \<Rightarrow> hub_op option" where
  "hub_route method segs =
    (let get = (method = ''GET'' \<or> method = ''HEAD''); put = (method = ''PUT'') in
     if [] \<in> set segs then None
     else (case segs of
       [a, ns, b, hub, c] \<Rightarrow>
         if a \<noteq> ''eventhubs'' \<or> b \<noteq> ''hubs'' then None
         else if c = ''messages''
         then (if method = ''POST'' then Some (PostMsg ns hub) else if get then Some (GetMsg ns hub) else None)
         else if c = ''capturedEvents'' \<and> get then Some (CapturedEvents ns hub) else None
     | [a, ns, b, hub, c, i] \<Rightarrow>
         if a = ''eventhubs'' \<and> b = ''hubs'' \<and> c = ''capturedEvents'' \<and> get then Some (GetCaptured ns hub i) else None
     | a # sub # b # rg # c # p # ty # name # rest \<Rightarrow>
         if a = ''subscriptions'' \<and> b = ''resourceGroups'' \<and> c = ''providers'' \<and> p = ''Microsoft.EventHub'' \<and> ty = ''namespaces''
         then (case rest of
             [] \<Rightarrow> if put then Some (PutHubNS sub rg name) else if get then Some (GetHubNS sub rg name) else None
           | [e, hub] \<Rightarrow> if e = ''eventhubs'' \<and> put then Some (PutHub sub rg name hub) else None
           | [e, hub, g, cg] \<Rightarrow>
               if e = ''eventhubs'' \<and> g = ''consumergroups'' \<and> put then Some (PutCG sub rg name hub cg) else None
           | _ \<Rightarrow> None)
         else None
     | _ \<Rightarrow> None))"

text \<open>The gate of the management routes is the one of the lab services.\<close>

definition hub_require :: "hub_env \<Rightarrow> http_request \<Rightarrow> string \<Rightarrow> string \<Rightarrow> string \<Rightarrow> http_response option" where
  "hub_require env r sub rg action = arm_require (arm_env.truncate env) r sub rg action"

definition namespace_key :: "account_row \<Rightarrow> string" where
  "namespace_key row = EventHubNamespaceKey (ac_subscription_id row) (ac_resource_group row) (ac_name row)"

text \<open>The loop over the namespaces of a name: the keys of those whose group grants the action.\<close>

fun granted_keys :: "evaluator \<Rightarrow> Principal \<Rightarrow> string \<Rightarrow> account_row list \<Rightarrow> string list result" where
  "granted_keys ev p action [] = Inr []"
| "granted_keys ev p action (row # rows) =
    (case Evaluate ev (pr_ID p) (pr_IsRoot p) action (group_scope (ac_subscription_id row) (ac_resource_group row)) of
       Inl e \<Rightarrow> Inl e
     | Inr ok \<Rightarrow> map_sum id (\<lambda>keys. if ok then namespace_key row # keys else keys) (granted_keys ev p action rows))"

definition receive_action :: string where
  "receive_action = ''Microsoft.EventHub/namespaces/eventhubs/receive/action''"

definition send_action :: string where
  "send_action = ''Microsoft.EventHub/namespaces/eventhubs/send/action''"

definition requireCaptureRead :: "hub_env \<Rightarrow> store \<Rightarrow> http_request \<Rightarrow> string \<Rightarrow> http_response + string list" where
  "requireCaptureRead env s r ns =
    (case ae_auth env of
       None \<Rightarrow> Inl (Unauthenticated [])
     | Some a \<Rightarrow> (case AuthenticateRequest (ae_lib env) a r of
         Inl e \<Rightarrow> Inl (Unauthenticated [])
       | Inr p \<Rightarrow>
           if \<not> AllowsEventHubs p then Inl (InvalidAuthenticationTokenAudience [])
           else (case ListEventHubsNamespacesByName s ns of
               Inl e \<Rightarrow> Inl (WriteARM 500 ''InternalError'' e)
             | Inr rows \<Rightarrow>
                 if rows = [] then Inl (Forbidden [])
                 else if pr_IsRoot p then Inr (map namespace_key rows)
                 else (case ae_authz env of
                     None \<Rightarrow> Inl (Forbidden [])
                   | Some ev \<Rightarrow> (case granted_keys ev p receive_action rows of
                       Inl e \<Rightarrow> Inl (WriteARM 500 ''InternalError'' e)
                     | Inr keys \<Rightarrow> if keys = [] then Inl (Forbidden []) else Inr keys)))))"

definition requireMessageDataPlane :: "hub_env \<Rightarrow> store \<Rightarrow> http_request \<Rightarrow> string \<Rightarrow> string \<Rightarrow> http_response + string" where
  "requireMessageDataPlane env s r ns action =
    (case ae_auth env of
       None \<Rightarrow> Inl (Unauthenticated [])
     | Some a \<Rightarrow> (case AuthenticateRequest (ae_lib env) a r of
         Inl e \<Rightarrow> Inl (Unauthenticated [])
       | Inr p \<Rightarrow>
           if \<not> AllowsEventHubs p then Inl (InvalidAuthenticationTokenAudience [])
           else if \<not> pr_IsRoot p \<and> ae_authz env = None then Inl (Forbidden [])
           else (case ListEventHubsNamespacesByName s ns of
               Inl e \<Rightarrow> Inl (WriteARM 500 ''InternalError'' e)
             | Inr rows \<Rightarrow>
                 if rows = [] then Inl (NotFound ''namespace not found'')
                 else if pr_IsRoot p
                 then (if length rows \<noteq> 1 then Inl (NotFound ''namespace not found'') else Inr (namespace_key (hd rows)))
                 else (case ae_authz env of
                     None \<Rightarrow> Inl (Forbidden [])
                   | Some ev \<Rightarrow> (case granted_keys ev p action rows of
                       Inl e \<Rightarrow> Inl (WriteARM 500 ''InternalError'' e)
                     | Inr keys \<Rightarrow>
                         if keys = [] then Inl (Forbidden [])
                         else if length keys \<noteq> 1 then Inl (NotFound ''namespace not found'')
                         else Inr (hd keys))))))"

section \<open>Operations\<close>

definition hub_failed :: "string \<Rightarrow> http_response" where
  "hub_failed e = WriteARM 500 ''InternalError'' e"

definition ns_json :: "string \<Rightarrow> string \<Rightarrow> string \<Rightarrow> string \<Rightarrow> json" where
  "ns_json sub rg name location =
    JObj [(''id'', JStr (EventHubNamespaceKey sub rg name)), (''name'', JStr name),
      (''type'', JStr ''Microsoft.EventHub/namespaces''), (''location'', JStr location),
      (''properties'', JObj [(''provisioningState'', JStr ''Succeeded'')])]"

definition putNS :: "hub_env \<Rightarrow> store \<Rightarrow> http_request \<Rightarrow> string \<Rightarrow> string \<Rightarrow> string \<Rightarrow> http_response \<times> store" where
  "putNS env s r sub rg name =
    (case hub_require env r sub rg ''Microsoft.EventHub/namespaces/write'' of
       Some rs \<Rightarrow> (rs, s)
     | None \<Rightarrow>
         (let loc = fst (decode_strings [''location''] (rq_json r)) ''location'';
              location = (if loc \<noteq> [] then loc else ''eastus'') in
          case UpsertEventHubsNamespace s sub rg name location of
            (Inl e, s1) \<Rightarrow> (hub_failed e, s1)
          | (Inr u, s1) \<Rightarrow> (writeJSON 200 (ns_json sub rg name location), s1)))"

definition getNS :: "hub_env \<Rightarrow> store \<Rightarrow> http_request \<Rightarrow> string \<Rightarrow> string \<Rightarrow> string \<Rightarrow> http_response" where
  "getNS env s r sub rg name =
    (case hub_require env r sub rg ''Microsoft.EventHub/namespaces/read'' of
       Some rs \<Rightarrow> rs
     | None \<Rightarrow> (case GetEventHubsNamespace s sub rg name of
         Inl e \<Rightarrow> hub_failed e
       | Inr None \<Rightarrow> NotFound ''namespace not found''
       | Inr (Some location) \<Rightarrow> writeJSON 200 (ns_json sub rg name location)))"

definition putHub ::
  "hub_env \<Rightarrow> store \<Rightarrow> http_request \<Rightarrow> string \<Rightarrow> string \<Rightarrow> string \<Rightarrow> string \<Rightarrow> http_response \<times> store" where
  "putHub env s r sub rg ns hub =
    (case hub_require env r sub rg ''Microsoft.EventHub/namespaces/eventhubs/write'' of
       Some rs \<Rightarrow> (rs, s)
     | None \<Rightarrow> (case GetEventHubsNamespace s sub rg ns of
         Inl e \<Rightarrow> (hub_failed e, s)
       | Inr None \<Rightarrow> (NotFound ''namespace not found'', s)
       | Inr (Some loc) \<Rightarrow> (case CreateEventHub s (EventHubNamespaceKey sub rg ns) hub 2 of
           (Inl e, s1) \<Rightarrow> (hub_failed e, s1)
         | (Inr u, s1) \<Rightarrow> (writeJSON 200 (JObj [(''name'', JStr hub), (''type'', JStr ''Microsoft.EventHub/namespaces/eventhubs''),
             (''properties'', JObj [(''partitionCount'', JNum 2), (''status'', JStr ''Active'')])]), s1))))"

definition putCG ::
  "hub_env \<Rightarrow> store \<Rightarrow> http_request \<Rightarrow> string \<Rightarrow> string \<Rightarrow> string \<Rightarrow> string \<Rightarrow> string \<Rightarrow> http_response \<times> store" where
  "putCG env s r sub rg ns hub cg =
    (case hub_require env r sub rg ''Microsoft.EventHub/namespaces/eventhubs/consumergroups/write'' of
       Some rs \<Rightarrow> (rs, s)
     | None \<Rightarrow> (case GetEventHubsNamespace s sub rg ns of
         Inl e \<Rightarrow> (hub_failed e, s)
       | Inr None \<Rightarrow> (NotFound ''namespace not found'', s)
       | Inr (Some loc) \<Rightarrow> (case CreateEventHubConsumerGroup s (EventHubNamespaceKey sub rg ns) hub cg of
           (Inl e, s1) \<Rightarrow> (hub_failed e, s1)
         | (Inr u, s1) \<Rightarrow> (writeJSON 200 (JObj [(''name'', JStr cg),
             (''type'', JStr ''Microsoft.EventHub/namespaces/eventhubs/consumergroups'')]), s1))))"

definition postMsg ::
  "hub_env \<Rightarrow> store \<Rightarrow> http_request \<Rightarrow> byte list result \<Rightarrow> string \<Rightarrow> string \<Rightarrow> http_response \<times> store" where
  "postMsg env s r body ns hub =
    (case requireMessageDataPlane env s r ns send_action of
       Inl rs \<Rightarrow> (rs, s)
     | Inr key \<Rightarrow> (case map_sum id (take 1048576) body of
         Inl e \<Rightarrow> (BadRequest e, s)
       | Inr bs \<Rightarrow> (case EnqueueEventHub s (hub_clock env) key hub (query_get r ''partition'') bs of
           (Inl e, s1) \<Rightarrow> (hub_failed e, s1)
         | (Inr u, s1) \<Rightarrow> (writeJSON 201 (JObj [(''status'', JStr ''enqueued'')]), s1))))"

definition getMsg :: "hub_env \<Rightarrow> store \<Rightarrow> http_request \<Rightarrow> string \<Rightarrow> string \<Rightarrow> http_response \<times> store" where
  "getMsg env s r ns hub =
    (case requireMessageDataPlane env s r ns receive_action of
       Inl rs \<Rightarrow> (rs, s)
     | Inr key \<Rightarrow> (case DequeueEventHub s key hub (query_get r ''partition'') of
         (Inl e, s1) \<Rightarrow> (hub_failed e, s1)
       | (Inr None, s1) \<Rightarrow> (writeHeader 204, s1)
       | (Inr (Some body), s1) \<Rightarrow> (writeBytes 200 [(''Content-Type'', ''application/octet-stream'')] body, s1)))"

definition capturedEventJSON :: "hub_env \<Rightarrow> nat \<times> hub_event \<Rightarrow> json" where
  "capturedEventJSON env ev =
    JObj [(''id'', JNum (int (fst ev))), (''partitionId'', JStr (ehm_partition_id (snd ev))),
      (''enqueuedTime'', JStr (hub_format env (ehm_inserted_at (snd ev)))), (''body'', JStr (string_of_bytes (ehm_body (snd ev))))]"

definition capturedEvents :: "hub_env \<Rightarrow> store \<Rightarrow> http_request \<Rightarrow> string \<Rightarrow> string \<Rightarrow> http_response" where
  "capturedEvents env s r ns hub =
    (case requireCaptureRead env s r ns of
       Inl rs \<Rightarrow> rs
     | Inr keys \<Rightarrow> (case ListEventHubCapturedForNamespaces s keys hub of
         Inl e \<Rightarrow> hub_failed e
       | Inr evs \<Rightarrow> writeJSON 200 (JObj [(''value'', JArr (map (capturedEventJSON env) evs))])))"

definition getCapturedEvent :: "hub_env \<Rightarrow> store \<Rightarrow> http_request \<Rightarrow> string \<Rightarrow> string \<Rightarrow> string \<Rightarrow> http_response" where
  "getCapturedEvent env s r ns hub i =
    (case requireCaptureRead env s r ns of
       Inl rs \<Rightarrow> rs
     | Inr keys \<Rightarrow> (case parse_int64 i of
         None \<Rightarrow> BadRequest ''captured event id must be a positive integer''
       | Some n \<Rightarrow>
           if n \<le> 0 then BadRequest ''captured event id must be a positive integer''
           else (case GetEventHubCapturedForNamespaces s keys hub n of
               Inl e \<Rightarrow> hub_failed e
             | Inr None \<Rightarrow> NotFound ''captured event not found''
             | Inr (Some ev) \<Rightarrow> writeJSON 200 (capturedEventJSON env ev))))"

definition hub_handle ::
  "hub_env \<Rightarrow> store \<Rightarrow> http_request \<Rightarrow> byte list result \<Rightarrow> hub_op \<Rightarrow> http_response \<times> store" where
  "hub_handle env s r body op =
    (case op of
       PutHubNS sub rg name \<Rightarrow> putNS env s r sub rg name
     | GetHubNS sub rg name \<Rightarrow> (getNS env s r sub rg name, s)
     | PutHub sub rg ns hub \<Rightarrow> putHub env s r sub rg ns hub
     | PutCG sub rg ns hub cg \<Rightarrow> putCG env s r sub rg ns hub cg
     | PostMsg ns hub \<Rightarrow> postMsg env s r body ns hub
     | GetMsg ns hub \<Rightarrow> getMsg env s r ns hub
     | GetCaptured ns hub i \<Rightarrow> (getCapturedEvent env s r ns hub i, s)
     | CapturedEvents ns hub \<Rightarrow> (capturedEvents env s r ns hub, s))"

section \<open>Messages reach one namespace\<close>




section \<open>Queues and their capture\<close>

text \<open>
  The partitions of the hubs as queues. A partition has a name that is not empty, its first character and the rest; the
  empty name of a request stands for the partition 0 where it enqueues and for any where it dequeues.
\<close>

type_synonym hub_key = "string \<times> string \<times> char \<times> string"

definition hub_enq :: "store \<Rightarrow> hub_key \<Rightarrow> byte list \<Rightarrow> store" where
  "hub_enq s k body = (case k of (ns, hub, c, cs) \<Rightarrow> snd (EnqueueEventHub s 0 ns hub (c # cs) body))"

definition hub_deq :: "store \<Rightarrow> hub_key \<Rightarrow> byte list option \<times> store" where
  "hub_deq s k = (case k of (ns, hub, c, cs) \<Rightarrow> apfst projr (DequeueEventHub s ns hub (c # cs)))"

definition hub_partition :: "hub_key \<Rightarrow> hub_event \<Rightarrow> bool" where
  "hub_partition k = (case k of (ns, hub, c, cs) \<Rightarrow> in_hub ns hub (c # cs))"

definition hub_contents :: "store \<Rightarrow> hub_key \<Rightarrow> byte list list" where
  "hub_contents s k = map ehm_body (seq_select (hub_partition k) (tb_hub_messages (st_events s)))"

definition hubs_ok :: "store \<Rightarrow> bool" where
  "hubs_ok s \<longleftrightarrow> db_fault s = None \<and> seq_ok (tb_hub_messages (st_events s))"

lemma partition_of_new: "hub_partition k (new_hub_event now ns hub (c # cs) body) \<longleftrightarrow> k = (ns, hub, c, cs)"
  by (cases k) (auto simp: hub_partition_def in_hub_def new_hub_event_def)

lemma one_partition: "hub_partition k r \<Longrightarrow> hub_partition k' r \<longleftrightarrow> k' = k"
  by (cases k; cases k') (auto simp: hub_partition_def in_hub_def)

lemma DequeueEventHub_Cons:
  assumes "hubs_ok s" "map ehm_body (seq_select (in_hub ns hub part) (tb_hub_messages (st_events s))) = b # bs"
  shows "\<exists>s1. DequeueEventHub s ns hub part = (Inr (Some b), s1) \<and> hubs_ok s1 \<and>
    tb_hub_captured (st_events s1) = tb_hub_captured (st_events s) \<and>
    map ehm_body (seq_select (in_hub ns hub part) (tb_hub_messages (st_events s1))) = bs \<and>
    (\<exists>r. in_hub ns hub part r \<and>
      (\<forall>Q. Q r \<or> seq_select Q (tb_hub_messages (st_events s1)) = seq_select Q (tb_hub_messages (st_events s))))"
proof -
  let ?t = "tb_hub_messages (st_events s)"
  obtain r rs where r: "seq_select (in_hub ns hub part) ?t = r # rs" "ehm_body r = b" "map ehm_body rs = bs"
    using assms(2) by auto
  have ok: "seq_ok ?t" using assms(1) by (simp add: hubs_ok_def)
  obtain i where i: "seq_first (in_hub ns hub part) ?t = Some (i, r)" "seq_ok (seq_delete i ?t)"
    "seq_select (in_hub ns hub part) (seq_delete i ?t) = rs" "\<And>Q. \<not> Q r \<Longrightarrow> seq_select Q (seq_delete i ?t) = seq_select Q ?t"
    by (rule seq_take [OF ok r(1)]) rule
  have mine: "in_hub ns hub part r" by (rule seq_first_Some(1) [OF ok i(1)])
  define s1 where "s1 = s\<lparr>st_events := (st_events s)\<lparr>tb_hub_messages := seq_delete i ?t\<rparr>\<rparr>"
  have fault: "db_fault s = None" using assms(1) by (simp add: hubs_ok_def)
  have "DequeueEventHub s ns hub part = (Inr (Some b), s1)"
    using i(1) r(2) by (simp add: DequeueEventHub_def db_query_def fault Let_def s1_def)
  moreover have "hubs_ok s1" using i(2) fault by (simp add: hubs_ok_def s1_def)
  moreover have "tb_hub_messages (st_events s1) = seq_delete i ?t"
    "tb_hub_captured (st_events s1) = tb_hub_captured (st_events s)" by (simp_all add: s1_def)
  ultimately show ?thesis using i(3,4) r(3) mine by auto
qed

interpretation hub_queues: fifo_queues hub_enq hub_deq hub_contents hubs_ok
proof unfold_locales
  fix s and k k' :: hub_key and m :: "byte list" and ms
  assume ok: "hubs_ok s"
  obtain ns hub c cs where k: "k = (ns, hub, c, cs)" by (rule prod_cases4)
  have own: "hub_partition k = in_hub ns hub (c # cs)" by (simp add: hub_partition_def k)
  show "hubs_ok (hub_enq s k m)"
    using ok by (simp add: hub_enq_def k EnqueueEventHub_def Let_def hubs_ok_def seq_ok_insert)
  have "ehm_body (new_hub_event 0 ns hub (c # cs) m) = m" by (simp add: new_hub_event_def)
  then show "hub_contents (hub_enq s k m) k' = hub_contents s k' @ (if k' = k then [m] else [])"
    using ok by (simp add: hub_enq_def k EnqueueEventHub_def Let_def hubs_ok_def hub_contents_def seq_select_insert
      partition_of_new)
  show "hub_deq s k = (None, s)" if "hub_contents s k = []"
  proof -
    have "seq_first (in_hub ns hub (c # cs)) (tb_hub_messages (st_events s)) = None"
      using that by (simp add: seq_first_None hub_contents_def own)
    with ok show ?thesis by (simp add: hub_deq_def k DequeueEventHub_def db_query_def hubs_ok_def Let_def)
  qed
  show "\<exists>s'. hub_deq s k = (Some m, s') \<and> hubs_ok s' \<and> hub_contents s' k = ms \<and>
      (\<forall>k'. k' \<noteq> k \<longrightarrow> hub_contents s' k' = hub_contents s k')" if c: "hub_contents s k = m # ms"
  proof -
    from c have "map ehm_body (seq_select (in_hub ns hub (c # cs)) (tb_hub_messages (st_events s))) = m # ms"
      by (simp add: hub_contents_def own)
    from DequeueEventHub_Cons [OF ok this] obtain s1 r where
      s1: "DequeueEventHub s ns hub (c # cs) = (Inr (Some m), s1)" "hubs_ok s1"
        "map ehm_body (seq_select (in_hub ns hub (c # cs)) (tb_hub_messages (st_events s1))) = ms"
      and r: "in_hub ns hub (c # cs) r"
        "\<forall>Q. Q r \<or> seq_select Q (tb_hub_messages (st_events s1)) = seq_select Q (tb_hub_messages (st_events s))"
      by blast
    have "\<not> hub_partition k' r" if "k' \<noteq> k" for k'
      using that r(1) one_partition [of k r k'] by (simp add: own)
    with r(2) have "hub_contents s1 k' = hub_contents s k'" if "k' \<noteq> k" for k'
      using that unfolding hub_contents_def by metis
    moreover have "hub_contents s1 k = ms" using s1(3) by (simp add: hub_contents_def own)
    moreover have "hub_deq s k = (Some m, s1)" using s1(1) by (simp add: hub_deq_def k)
    ultimately show ?thesis using s1(2) by blast
  qed
qed

text \<open>
  A partition of an event hub gives its events back in the order they were sent, each once, however the events of
  other partitions, hubs and namespaces come in between.
\<close>

theorem hub_fifo:
  assumes "hubs_ok s" "hub_contents s k = []"
  shows "fst (deq_many hub_deq (length kms) (enq_all hub_enq s kms) k) = map snd (filter (\<lambda>(k', m). k' = k) kms)"
  by (rule hub_queues.first_in_first_out [OF assms])

section \<open>Capture keeps everything\<close>

text \<open>A request to the service, and what it does to the store.\<close>

type_synonym hub_request = "hub_env \<times> http_request \<times> byte list result \<times> hub_op"

definition hub_step :: "hub_request \<Rightarrow> store \<Rightarrow> store" where
  "hub_step q s = (case q of (env, r, body, op) \<Rightarrow> snd (hub_handle env s r body op))"

definition captured_events :: "store \<Rightarrow> (nat \<times> hub_event) list" where
  "captured_events s = snd (tb_hub_captured (st_events s))"

definition live_events :: "store \<Rightarrow> hub_event list" where
  "live_events s = map snd (snd (tb_hub_messages (st_events s)))"

text \<open>What is captured only grows at its end, and no event is live that is not captured, counted with repetitions.\<close>

definition capture_kept :: "store \<Rightarrow> store \<Rightarrow> bool" where
  "capture_kept s s1 \<longleftrightarrow> (\<exists>more. captured_events s1 = captured_events s @ more \<and>
    mset (live_events s1) \<subseteq># mset (live_events s) + mset (map snd more))"

lemma kept_refl: "capture_kept s s"
  by (simp add: capture_kept_def)

lemma kept_trans:
  assumes "capture_kept a b" "capture_kept b c"
  shows "capture_kept a c"
proof -
  from assms(1) obtain m1 where m1: "captured_events b = captured_events a @ m1"
    "mset (live_events b) \<subseteq># mset (live_events a) + mset (map snd m1)" by (auto simp: capture_kept_def)
  from assms(2) obtain m2 where m2: "captured_events c = captured_events b @ m2"
    "mset (live_events c) \<subseteq># mset (live_events b) + mset (map snd m2)" by (auto simp: capture_kept_def)
  have "mset (live_events c) \<subseteq># (mset (live_events a) + mset (map snd m1)) + mset (map snd m2)"
    using m2(2) m1(2) by (meson subset_mset.add_right_mono subset_mset.order_trans)
  with m1(1) m2(1) show ?thesis by (auto simp: capture_kept_def ac_simps intro!: exI [of _ "m1 @ m2"])
qed

lemma same_events_kept:
  "tb_hub_captured (st_events s1) = tb_hub_captured (st_events s) \<Longrightarrow>
    tb_hub_messages (st_events s1) = tb_hub_messages (st_events s) \<Longrightarrow> capture_kept s s1"
  by (simp add: capture_kept_def captured_events_def live_events_def)

lemma store_kept:
  "capture_kept s (snd (UpsertEventHubsNamespace s sub rg name loc))" "capture_kept s (snd (CreateEventHub s ns name n))"
  "capture_kept s (snd (CreateEventHubConsumerGroup s ns hub name))"
  by (rule same_events_kept; simp add: UpsertEventHubsNamespace_def CreateEventHub_def CreateEventHubConsumerGroup_def
    Let_def ev_exec_def db_exec_def split: option.split)+

lemma EnqueueEventHub_kept: "capture_kept s (snd (EnqueueEventHub s now ns hub part body))"
  by (cases "db_fault s")
    (auto simp: kept_refl EnqueueEventHub_def Let_def capture_kept_def captured_events_def live_events_def seq_insert_def)

lemma DequeueEventHub_kept: "capture_kept s (snd (DequeueEventHub s ns hub part))"
proof (cases "db_query s (seq_first (in_hub ns hub part) (tb_hub_messages (st_events s)))")
  case (Inr found)
  show ?thesis
  proof (cases found)
    case (Some ir)
    obtain i r where ir: "ir = (i, r)" by (rule prod.exhaust)
    have "mset (map snd (filter (\<lambda>(j, r). j \<noteq> i) xs)) \<subseteq># mset (map snd xs)" for xs :: "(nat \<times> hub_event) list"
      by (simp add: image_mset_subseteq_mono mset_filter)
    with Inr Some ir show ?thesis
      by (cases "db_fault s") (simp_all add: DequeueEventHub_def Let_def kept_refl capture_kept_def captured_events_def live_events_def seq_delete_def)
  qed (simp add: DequeueEventHub_def Inr Let_def kept_refl)
qed (simp add: DequeueEventHub_def Let_def kept_refl)

lemma kept_of: "f = (r, s1) \<Longrightarrow> capture_kept s (snd f) \<Longrightarrow> capture_kept s s1"
  by simp

lemma hub_handle_kept: "capture_kept s (snd (hub_handle env s r body op))"
proof (cases op)
  case (PutHubNS sub rg name)
  then show ?thesis
    by (auto simp: hub_handle_def putNS_def Let_def kept_refl dest: kept_of [OF _ store_kept(1)]
      split: option.split prod.split sum.split)
next
  case (PutHub sub rg ns hub)
  then show ?thesis
    by (auto simp: hub_handle_def putHub_def kept_refl dest: kept_of [OF _ store_kept(2)]
      split: option.split prod.split sum.split)
next
  case (PutCG sub rg ns hub cg)
  then show ?thesis
    by (auto simp: hub_handle_def putCG_def kept_refl dest: kept_of [OF _ store_kept(3)]
      split: option.split prod.split sum.split)
next
  case (PostMsg ns hub)
  then show ?thesis
    by (auto simp: hub_handle_def postMsg_def kept_refl dest: kept_of [OF _ EnqueueEventHub_kept]
      split: option.split prod.split sum.split)
next
  case (GetMsg ns hub)
  then show ?thesis
    by (auto simp: hub_handle_def getMsg_def kept_refl dest: kept_of [OF _ DequeueEventHub_kept]
      split: option.split prod.split sum.split)
qed (simp_all add: hub_handle_def kept_refl)

text \<open>
  C38: capture loses nothing: whatever requests run, the captured events of before stay the first ones of the captured
  events of after, with their ids, and every event that waits in a hub has its captured copy, however often its like
  was sent.
\<close>

theorem capture_keeps_everything:
  assumes "mset (live_events s) \<subseteq># mset (map snd (captured_events s))" "s1 = fold hub_step qs s"
  shows "take (length (captured_events s)) (captured_events s1) = captured_events s \<and> mset (live_events s1) \<subseteq># mset (map snd (captured_events s1))"
proof -
  have "capture_kept s (fold hub_step qs s)"
  proof (induction qs arbitrary: s)
    case (Cons q qs)
    have "capture_kept s (hub_step q s)" by (cases q) (simp add: hub_step_def hub_handle_kept)
    with Cons [of "hub_step q s"] show ?case by (simp add: kept_trans)
  qed (simp add: kept_refl)
  then obtain more where more: "captured_events s1 = captured_events s @ more"
    "mset (live_events s1) \<subseteq># mset (live_events s) + mset (map snd more)"
    by (auto simp: capture_kept_def assms(2))
  then have "mset (live_events s1) \<subseteq># mset (map snd (captured_events s)) + mset (map snd more)"
    using assms(1) by (meson subset_mset.add_right_mono subset_mset.order_trans)
  with more(1) show ?thesis by simp
qed

section \<open>Examples\<close>

definition lab_hubs :: hub_env where
  "lab_hubs = \<lparr>ae_lib = lab_lib, ae_auth = Some lab_auth, ae_authz = None, hub_clock = 0, hub_format = (\<lambda>n. ''now'')\<rparr>"

definition hub_namespace :: account_row where
  "hub_namespace = \<lparr>ac_subscription_id = ''s'', ac_resource_group = ''g'', ac_name = ''n'', ac_location = ''eastus'', ac_sealed = []\<rparr>"

definition hub_store :: store where
  "hub_store = empty_store\<lparr>st_events := empty_events\<lparr>tb_hub_namespaces := [hub_namespace]\<rparr>\<rparr>"


definition hub_traffic :: "(hub_key \<times> byte list) list" where
  "hub_traffic = [((''n'', ''h'', CHR ''0'', []), [1]), ((''n'', ''h'', CHR ''1'', []), [2]), ((''n'', ''h'', CHR ''0'', []), [3])]"

theorem hub_fifo_witness:
  "fst (deq_many hub_deq (length hub_traffic) (enq_all hub_enq empty_store hub_traffic) (''n'', ''h'', CHR ''0'', [])) =
   map snd (filter (\<lambda>(k', m). k' = (''n'', ''h'', CHR ''0'', [])) hub_traffic)"
  by (rule hub_fifo)
    (simp_all add: hubs_ok_def hub_contents_def empty_store_def empty_events_def seq_ok_empty seq_select_def)

theorem capture_keeps_everything_witness:
  "take (length (captured_events hub_store))
      (captured_events (fold hub_step [(lab_hubs, root_request, Inr [1], PostMsg ''n'' ''h'')] hub_store)) = captured_events hub_store \<and>
   mset (live_events (fold hub_step [(lab_hubs, root_request, Inr [1], PostMsg ''n'' ''h'')] hub_store)) \<subseteq>#
     mset (map snd (captured_events (fold hub_step [(lab_hubs, root_request, Inr [1], PostMsg ''n'' ''h'')] hub_store)))"
  by (rule capture_keeps_everything [OF _ refl])
    (simp add: hub_store_def empty_store_def empty_events_def live_events_def captured_events_def)

end
