(* ===== verification/Event_Grid.thy ===== *)
theory Event_Grid
  imports Store_Documents Storage_Service Service_Gate Server_Config
begin

text \<open>
  Event Grid: \<open>internal/store/eventgrid.go\<close> and \<open>internal/services/eventgrid\<close> (\<open>handler.go\<close>, \<open>validation.go\<close>). Topics and
  subscriptions behind Resource Manager, the handshake that a webhook has to answer, and the delivery of events.
\<close>

section \<open>The store\<close>

definition UpsertEventGridTopic :: "store \<Rightarrow> string \<Rightarrow> string \<Rightarrow> string \<Rightarrow> string \<Rightarrow> unit result \<times> store" where
  "UpsertEventGridTopic s sub rg name location =
    (let d = st_events s in
     ev_exec s () (d\<lparr>tb_grid_topics := tbl_upsert ac_key (\<lambda>old new. old\<lparr>ac_location := ac_location new\<rparr>)
       \<lparr>ac_subscription_id = sub, ac_resource_group = rg, ac_name = name, ac_location = default_location location,
        ac_sealed = []\<rparr> (tb_grid_topics d)\<rparr>))"

definition GetEventGridTopicByName :: "store \<Rightarrow> string \<Rightarrow> account_row option result" where
  "GetEventGridTopicByName s name = db_query s (find (\<lambda>r. ac_name r = name) (tb_grid_topics (st_events s)))"

definition egs_key :: "grid_subscription \<Rightarrow> string \<times> string" where
  "egs_key r = (egs_topic r, egs_name r)"

text \<open>The only caller passes the filter \<open>{}\<close>, an empty object.\<close>

definition UpsertEventGridSubscription :: "store \<Rightarrow> string \<Rightarrow> string \<Rightarrow> string \<Rightarrow> json \<Rightarrow> unit result \<times> store" where
  "UpsertEventGridSubscription s topic name destURL filter_json =
    (let d = st_events s in
     ev_exec s () (d\<lparr>tb_grid_subscriptions := tbl_upsert egs_key
       (\<lambda>old new. old\<lparr>egs_destination_url := egs_destination_url new, egs_filter := egs_filter new\<rparr>)
       \<lparr>egs_topic = topic, egs_name = name, egs_destination_url = destURL, egs_filter = filter_json\<rparr>
       (tb_grid_subscriptions d)\<rparr>))"

definition ListEventGridSubscriptions :: "store \<Rightarrow> string \<Rightarrow> grid_subscription list result" where
  "ListEventGridSubscriptions s topic =
    db_query s (filter (\<lambda>r. egs_topic r = topic) (tb_grid_subscriptions (st_events s)))"

definition InsertEventGridEvent :: "store \<Rightarrow> string \<Rightarrow> string \<Rightarrow> bool \<Rightarrow> unit result \<times> store" where
  "InsertEventGridEvent s topic body delivered =
    (let d = st_events s in
     ev_exec s () (d\<lparr>tb_grid_events := seq_insert \<lparr>ege_topic = topic, ege_body = body, ege_delivered = delivered\<rparr>
       (tb_grid_events d)\<rparr>))"

section \<open>The outside world\<close>

text \<open>
  \<open>gr_post\<close> is a POST through the client of the egress guard: the error of the client, or the status and the body of
  the answer. \<open>gr_type_error\<close> is the text of a decoding error of \<open>encoding/json\<close>, \<open>gr_time\<close> the time of the handshake.
\<close>

record grid_env = arm_env +
  gr_egress :: egress_env
  gr_post :: "string \<Rightarrow> (string \<times> string) list \<Rightarrow> json + byte list \<Rightarrow> (nat \<times> byte list) result"
  gr_type_error :: "json \<Rightarrow> string"
  gr_time :: string

section \<open>The handshake\<close>

definition validation_event :: "string \<Rightarrow> string \<Rightarrow> string \<Rightarrow> json" where
  "validation_event i time code =
    JArr [JObj [(''id'', JStr i), (''eventType'', JStr ''Microsoft.EventGrid.SubscriptionValidationEvent''),
      (''subject'', JStr []), (''eventTime'', JStr time), (''dataVersion'', JStr ''1''),
      (''data'', JObj [(''validationCode'', JStr code)])]]"

definition check_validation :: "grid_env \<Rightarrow> string \<Rightarrow> nat \<times> byte list \<Rightarrow> unit result" where
  "check_validation env code answer =
    (let (status, body0) = answer; body = string_of_bytes (take 1048576 body0) in
     if status < 200 \<or> status \<ge> 300 then Inl (''validation webhook status '' @ format_int (int status))
     else (case json_parse (ae_lib env) body of
         Inl e \<Rightarrow> Inl (''validation response JSON: '' @ e)
       | Inr v \<Rightarrow>
           (let (field, ok) = decode_strings [''validationResponse''] (Some v) in
            if \<not> ok then Inl (''validation response JSON: '' @ gr_type_error env v)
            else if trim_space (field ''validationResponse'') \<noteq> code then Inl ''validationResponse mismatch''
            else Inr ())))"

text \<open>\<open>code\<close> is the validation code, fresh unless the caller has one; \<open>i\<close> the fresh id of the event.\<close>

definition handshakeWebhook :: "grid_env \<Rightarrow> string \<Rightarrow> string \<Rightarrow> string \<Rightarrow> unit result" where
  "handshakeWebhook env i code destURL =
    (if trim_space destURL = [] then Inr ()
     else (case Allowed (gr_egress env) destURL of
         Inl e \<Rightarrow> Inl (''webhook destination not allowed: '' @ e)
       | Inr u \<Rightarrow> (case gr_post env destURL [(''Content-Type'', ''application/json''), (''aeg-event-type'', ''SubscriptionValidation'')]
             (Inl (validation_event i (gr_time env) code)) of
           Inl e \<Rightarrow> Inl (''validation request failed: '' @ e)
         | Inr answer \<Rightarrow> check_validation env code answer)))"

section \<open>Routes and operations\<close>

datatype grid_op =
    PutTopic string string string
  | GetTopic string string string
  | PutSub string string string string
  | Publish string

definition grid_route :: "string \<Rightarrow> string list \<Rightarrow> grid_op option" where
  "grid_route method segs =
    (if [] \<in> set segs then None
     else (case segs of
       [a, topic, b, c] \<Rightarrow>
         if a = ''eventgrid'' \<and> b = ''api'' \<and> c = ''events'' \<and> method = ''POST'' then Some (Publish topic) else None
     | a # sub # b # rg # c # p # ty # name # rest \<Rightarrow>
         if a = ''subscriptions'' \<and> b = ''resourceGroups'' \<and> c = ''providers'' \<and> p = ''Microsoft.EventGrid'' \<and> ty = ''topics''
         then (case rest of
             [] \<Rightarrow> if method = ''PUT'' then Some (PutTopic sub rg name)
               else if method = ''GET'' \<or> method = ''HEAD'' then Some (GetTopic sub rg name) else None
           | [d, q, e, n] \<Rightarrow>
               if d = ''providers'' \<and> q = ''Microsoft.EventGrid'' \<and> e = ''eventSubscriptions'' \<and> method = ''PUT''
               then Some (PutSub sub rg name n) else None
           | _ \<Rightarrow> None)
         else None
     | _ \<Rightarrow> None))"

definition grid_require :: "grid_env \<Rightarrow> http_request \<Rightarrow> string \<Rightarrow> string \<Rightarrow> string \<Rightarrow> http_response option" where
  "grid_require env r sub rg action =
    (case RequireARMBearer (ae_lib env) r (ae_auth env) (ae_authz env) action (group_scope sub rg) of
       Inl rs \<Rightarrow> Some rs | Inr p \<Rightarrow> None)"

definition grid_failed :: "string \<Rightarrow> http_response" where
  "grid_failed e = WriteARM 500 ''InternalError'' e"

definition topic_json :: "string \<Rightarrow> string \<Rightarrow> string \<Rightarrow> string \<Rightarrow> json" where
  "topic_json sub rg name location =
    JObj [(''id'', JStr (group_scope sub rg @ ''/providers/Microsoft.EventGrid/topics/'' @ name)), (''name'', JStr name),
      (''type'', JStr ''Microsoft.EventGrid/topics''), (''location'', JStr location),
      (''properties'', JObj [(''provisioningState'', JStr ''Succeeded'')])]"

definition grid_putTopic :: "grid_env \<Rightarrow> store \<Rightarrow> http_request \<Rightarrow> string \<Rightarrow> string \<Rightarrow> string \<Rightarrow> http_response \<times> store" where
  "grid_putTopic env s r sub rg name =
    (case grid_require env r sub rg ''Microsoft.EventGrid/topics/write'' of
       Some rs \<Rightarrow> (rs, s)
     | None \<Rightarrow>
         (let loc = fst (decode_strings [''location''] (rq_json r)) ''location'';
              location = (if loc \<noteq> [] then loc else ''eastus'') in
          case UpsertEventGridTopic s sub rg name location of
            (Inl e, s1) \<Rightarrow> (grid_failed e, s1)
          | (Inr u, s1) \<Rightarrow> (writeJSON 200 (topic_json sub rg name location), s1)))"

definition grid_getTopic :: "grid_env \<Rightarrow> store \<Rightarrow> http_request \<Rightarrow> string \<Rightarrow> string \<Rightarrow> string \<Rightarrow> http_response" where
  "grid_getTopic env s r sub rg name =
    (case grid_require env r sub rg ''Microsoft.EventGrid/topics/read'' of
       Some rs \<Rightarrow> rs
     | None \<Rightarrow> (case GetEventGridTopicByName s name of
         Inl e \<Rightarrow> grid_failed e
       | Inr None \<Rightarrow> NotFound ''topic not found''
       | Inr (Some row) \<Rightarrow> writeJSON 200 (topic_json sub rg name (ac_location row))))"

text \<open>
  A text field below nested structs: keys match without case, a later field stands over an earlier one, and a value of
  another type leaves what was there, since the error of \<open>Decode\<close> is dropped.
\<close>

fun decode_path :: "string list \<Rightarrow> json \<Rightarrow> string \<Rightarrow> string" where
  "decode_path [] v found = (case v of JStr t \<Rightarrow> t | _ \<Rightarrow> found)"
| "decode_path (f # fs) v found =
    (case v of
       JObj kvs \<Rightarrow> foldl (\<lambda>found (k, w). if equal_fold k f then decode_path fs w found else found) found kvs
     | _ \<Rightarrow> found)"

definition endpoint_url :: "json option \<Rightarrow> string" where
  "endpoint_url body =
    (case body of
       None \<Rightarrow> []
     | Some v \<Rightarrow> decode_path [''properties'', ''destination'', ''properties'', ''endpointUrl''] v [])"

text \<open>\<open>codes\<close> has the fresh id and the fresh validation code of a handshake.\<close>

definition putSub ::
  "grid_env \<Rightarrow> string \<times> string \<Rightarrow> store \<Rightarrow> http_request \<Rightarrow> string \<Rightarrow> string \<Rightarrow> string \<Rightarrow> string \<Rightarrow> http_response \<times> store" where
  "putSub env codes s r sub rg topic name =
    (case grid_require env r sub rg ''Microsoft.EventGrid/eventSubscriptions/write'' of
       Some rs \<Rightarrow> (rs, s)
     | None \<Rightarrow>
         (let dest = endpoint_url (rq_json r) in
          case (if dest \<noteq> [] then handshakeWebhook env (fst codes) (snd codes) dest else Inr ()) of
            Inl e \<Rightarrow> (BadRequest (''subscription validation failed: '' @ e), s)
          | Inr u \<Rightarrow> (case UpsertEventGridSubscription s topic name dest (JObj []) of
              (Inl e, s1) \<Rightarrow> (grid_failed e, s1)
            | (Inr u, s1) \<Rightarrow> (writeJSON 200 (JObj [(''name'', JStr name), (''type'', JStr ''Microsoft.EventGrid/eventSubscriptions''),
                (''properties'', JObj [(''provisioningState'', JStr ''Succeeded'')])]), s1))))"

text \<open>The webhooks that are called, and whether one of them answered.\<close>

definition called_webhooks :: "grid_env \<Rightarrow> grid_subscription list \<Rightarrow> string list" where
  "called_webhooks env subs =
    filter (\<lambda>url. url \<noteq> [] \<and> \<not> isl (Allowed (gr_egress env) url)) (map egs_destination_url subs)"

definition deliver_event :: "grid_env \<Rightarrow> byte list \<Rightarrow> grid_subscription list \<Rightarrow> bool" where
  "deliver_event env raw subs =
    list_ex (\<lambda>url. \<not> isl (gr_post env url [(''Content-Type'', ''application/json'')] (Inr raw))) (called_webhooks env subs)"

definition topic_scope :: "account_row option \<Rightarrow> string \<Rightarrow> string" where
  "topic_scope found topic =
    (case found of
       None \<Rightarrow> ''/subscriptions/'' @ DefaultSubscriptionID
     | Some row \<Rightarrow> ''/subscriptions/'' @ ac_subscription_id row @ ''/resourceGroups/'' @ ac_resource_group row) @
    ''/providers/Microsoft.EventGrid/topics/'' @ topic"

definition publish ::
  "grid_env \<Rightarrow> store \<Rightarrow> http_request \<Rightarrow> byte list result \<Rightarrow> string \<Rightarrow> http_response \<times> store" where
  "publish env s r body topic =
    (case GetEventGridTopicByName s topic of
       Inl e \<Rightarrow> (grid_failed e, s)
     | Inr found \<Rightarrow>
         (case RequireDataPlaneBearer (ae_lib env) r (ae_auth env) (ae_authz env) (Some AllowsEventGrid)
             ''Microsoft.EventGrid/topics/send/action'' (topic_scope found topic) of
            Inl rs \<Rightarrow> (rs, s)
          | Inr p \<Rightarrow>
              if found = None then (NotFound ''topic not found'', s)
              else (case map_sum id (take 1048576) body of
                  Inl e \<Rightarrow> (BadRequest e, s)
                | Inr raw \<Rightarrow> (case ListEventGridSubscriptions s topic of
                    Inl e \<Rightarrow> (grid_failed e, s)
                  | Inr subs \<Rightarrow>
                      (let delivered = deliver_event env raw subs in
                       (writeJSON 200 (JObj [(''delivered'', JBool delivered)]),
                        snd (InsertEventGridEvent s topic (string_of_bytes raw) delivered)))))))"

definition grid_handle ::
  "grid_env \<Rightarrow> string \<times> string \<Rightarrow> store \<Rightarrow> http_request \<Rightarrow> byte list result \<Rightarrow> grid_op \<Rightarrow> http_response \<times> store" where
  "grid_handle env codes s r body op =
    (case op of
       PutTopic sub rg name \<Rightarrow> grid_putTopic env s r sub rg name
     | GetTopic sub rg name \<Rightarrow> (grid_getTopic env s r sub rg name, s)
     | PutSub sub rg topic name \<Rightarrow> putSub env codes s r sub rg topic name
     | Publish topic \<Rightarrow> publish env s r body topic)"

section \<open>Every endpoint has answered\<close>













section \<open>Topics of the same name\<close>

text \<open>
  A subscription is asked for at the resource group of the path but kept under the name of the topic alone: whoever may
  write subscriptions in one group subscribes to, or redirects the subscription of, a topic of that name in any other.
\<close>

lemma foreign_subscription:
  assumes "db_fault s = None" "grid_require env r sub rg ''Microsoft.EventGrid/eventSubscriptions/write'' = None"
    and "endpoint_url (rq_json r) = url" "url \<noteq> []" "handshakeWebhook env (fst codes) (snd codes) url = Inr ()"
    and "Allowed (gr_egress env) url = Inr ()"
  shows "\<exists>subs. ListEventGridSubscriptions (snd (putSub env codes s r sub rg topic name)) topic = Inr subs \<and>
    url \<in> set (called_webhooks env subs)"
proof -
  let ?upd = "\<lambda>old new. old\<lparr>egs_destination_url := egs_destination_url new, egs_filter := egs_filter new\<rparr>"
  let ?row = "\<lparr>egs_topic = topic, egs_name = name, egs_destination_url = url, egs_filter = JObj []\<rparr>"
  let ?t = "tbl_upsert egs_key ?upd ?row (tb_grid_subscriptions (st_events s))"
  have "snd (putSub env codes s r sub rg topic name) = s\<lparr>st_events := (st_events s)\<lparr>tb_grid_subscriptions := ?t\<rparr>\<rparr>"
    using assms(1-5) by (simp add: putSub_def Let_def UpsertEventGridSubscription_def)
  moreover have "\<exists>x \<in> set ?t. egs_topic x = topic \<and> egs_destination_url x = url"
  proof (cases "list_ex (\<lambda>r. egs_key r = egs_key ?row) (tb_grid_subscriptions (st_events s))")
    case True
    then obtain x where x: "x \<in> set (tb_grid_subscriptions (st_events s))" "egs_key x = egs_key ?row"
      by (auto simp: list_ex_iff)
    then have "?upd x ?row \<in> set ?t" using True by (force simp: tbl_upsert_def)
    moreover have "egs_topic (?upd x ?row) = topic" using x(2) by (simp add: egs_key_def)
    ultimately show ?thesis by (intro bexI [of _ "?upd x ?row"]) simp_all
  qed (simp add: tbl_upsert_def)
  ultimately show ?thesis
    using assms(1,4,6) by (auto simp: ListEventGridSubscriptions_def db_query_def called_webhooks_def)
qed

lemma foreign_topic_location:
  assumes "GetEventGridTopicByName s name = Inr (Some row)" "ac_key row \<noteq> (sub, rg, name)"
    and "grid_require env r sub rg ''Microsoft.EventGrid/topics/read'' = None"
  shows "grid_getTopic env s r sub rg name = writeJSON 200 (topic_json sub rg name (ac_location row))"
  using assms by (simp add: grid_getTopic_def)

section \<open>Who gets through\<close>

definition grid_permits :: "grid_env \<Rightarrow> store \<Rightarrow> http_request \<Rightarrow> grid_op \<Rightarrow> bool" where
  "grid_permits env s r op =
    (let arm = (\<lambda>sub rg action. \<exists>p. authorized (ae_lib env) (ae_auth env) (ae_authz env) AllowsARM r action
           (group_scope sub rg) p) in
     case op of
       PutTopic sub rg name \<Rightarrow> arm sub rg ''Microsoft.EventGrid/topics/write''
     | GetTopic sub rg name \<Rightarrow> arm sub rg ''Microsoft.EventGrid/topics/read''
     | PutSub sub rg topic name \<Rightarrow> arm sub rg ''Microsoft.EventGrid/eventSubscriptions/write''
     | Publish topic \<Rightarrow> (\<exists>found p. GetEventGridTopicByName s topic = Inr found \<and>
         authorized (ae_lib env) (ae_auth env) (ae_authz env) AllowsEventGrid r ''Microsoft.EventGrid/topics/send/action''
           (topic_scope found topic) p))"

lemma grid_arm_denied:
  assumes "\<nexists>p. authorized (ae_lib env) (ae_auth env) (ae_authz env) AllowsARM r action (group_scope sub rg) p"
  shows "turned_away s (case grid_require env r sub rg action of Some rs \<Rightarrow> (rs, s) | None \<Rightarrow> out)"
    "turned_away s (case grid_require env r sub rg action of Some rs \<Rightarrow> rs | None \<Rightarrow> rs1, s)"
proof -
  obtain rs where rs: "RequireARMBearer (ae_lib env) r (ae_auth env) (ae_authz env) action (group_scope sub rg) = Inl rs"
    using assms arm_gate_passes [of "ae_lib env" r "ae_auth env" "ae_authz env" action "group_scope sub rg"]
    by (cases "RequireARMBearer (ae_lib env) r (ae_auth env) (ae_authz env) action (group_scope sub rg)") auto
  then have "rs_code rs \<in> {401, 403, 500}" unfolding RequireARMBearer_def by (rule gate_denies)
  with rs show "turned_away s (case grid_require env r sub rg action of Some rs \<Rightarrow> (rs, s) | None \<Rightarrow> out)"
    "turned_away s (case grid_require env r sub rg action of Some rs \<Rightarrow> rs | None \<Rightarrow> rs1, s)"
    by (auto simp: grid_require_def turned_away_def)
qed

lemma publish_denied:
  assumes "\<not> grid_permits env s r (Publish topic)"
  shows "turned_away s (publish env s r body topic)"
proof (cases "GetEventGridTopicByName s topic")
  case (Inr found)
  obtain rs where rs: "RequireDataPlaneBearer (ae_lib env) r (ae_auth env) (ae_authz env) (Some AllowsEventGrid)
      ''Microsoft.EventGrid/topics/send/action'' (topic_scope found topic) = Inl rs"
    using assms Inr gate_passes [of "ae_lib env" r "ae_auth env" "ae_authz env" AllowsEventGrid
        "''Microsoft.EventGrid/topics/send/action''" "topic_scope found topic"]
    by (cases "RequireDataPlaneBearer (ae_lib env) r (ae_auth env) (ae_authz env) (Some AllowsEventGrid)
      ''Microsoft.EventGrid/topics/send/action'' (topic_scope found topic)") (auto simp: grid_permits_def)
  from gate_denies [OF this] Inr rs show ?thesis by (auto simp: publish_def turned_away_def)
qed (simp add: publish_def turned_away_def grid_failed_def)

text \<open>
  Event Grid fails closed: an answer other than 401, 403, 404 and 500, and any change of the store, comes only from
  a request with a token granted the action of the request at its resource group, or, to publish, with a token for
  Event Grid granted to send at the topic.
\<close>

theorem event_grid_fails_closed:
  assumes "rs_code (fst (grid_handle env codes s r body op)) \<notin> {401, 403, 404, 500} \<or>
    snd (grid_handle env codes s r body op) \<noteq> s"
  shows "grid_permits env s r op"
proof (rule ccontr)
  assume not: "\<not> ?thesis"
  have "turned_away s (grid_handle env codes s r body op)"
  proof (cases op)
    case (Publish topic)
    with not publish_denied show ?thesis by (simp add: grid_handle_def)
  qed (use not in \<open>simp_all add: grid_permits_def grid_handle_def grid_putTopic_def grid_getTopic_def putSub_def grid_arm_denied\<close>)
  with assms show False by (auto simp: turned_away_def)
qed

section \<open>Examples\<close>

text \<open>A laboratory whose only webhook answers every handshake with its code, the text c.\<close>

definition lab_grid :: grid_env where
  "lab_grid = \<lparr>ae_lib = lab_lib\<lparr>json_parse := (\<lambda>t. Inr (JObj [(''validationResponse'', JStr ''c'')]))\<rparr>, ae_auth = Some lab_auth,
    ae_authz = None,
    gr_egress = \<lparr>eg_switch = [], eg_allowlist = [], eg_lookup = (\<lambda>h. None), eg_url = (\<lambda>u. Some (''http'', ''localhost:80''))\<rparr>,
    gr_post = (\<lambda>u h b. Inr (200, [])), gr_type_error = (\<lambda>v. []), gr_time = []\<rparr>"

definition hook_request :: http_request where
  "hook_request = root_request\<lparr>rq_json := Some (JObj [(''properties'', JObj [(''destination'', JObj [(''properties'',
     JObj [(''endpointUrl'', JStr ''http://localhost:80'')])])])])\<rparr>"


lemma hook_allowed: "Allowed (gr_egress lab_grid) ''http://localhost:80'' = Inr ()"
  by code_simp

lemma hook_put:
  "putSub lab_grid (''i'', ''c'') empty_store hook_request ''s'' ''g'' ''t'' ''n'' =
    (writeJSON 200 (JObj [(''name'', JStr ''n''), (''type'', JStr ''Microsoft.EventGrid/eventSubscriptions''),
       (''properties'', JObj [(''provisioningState'', JStr ''Succeeded'')])]),
     snd (UpsertEventGridSubscription empty_store ''t'' ''n'' ''http://localhost:80'' (JObj [])))"
proof -
  have gate: "grid_require lab_grid hook_request ''s'' ''g'' ''Microsoft.EventGrid/eventSubscriptions/write'' = None"
    by code_simp
  have url: "endpoint_url (rq_json hook_request) = ''http://localhost:80''" "trim_space ''http://localhost:80'' \<noteq> []"
    by code_simp+
  have field: "decode_strings [''validationResponse''] (Some (JObj [(''validationResponse'', JStr ''c'')])) = (f, ok) \<Longrightarrow>
      ok \<and> trim_space (f ''validationResponse'') = ''c''" for f ok
  proof -
    have "snd (decode_strings [''validationResponse''] (Some (JObj [(''validationResponse'', JStr ''c'')])))"
      "trim_space (fst (decode_strings [''validationResponse''] (Some (JObj [(''validationResponse'', JStr ''c'')])))
        ''validationResponse'') = ''c''" by code_simp+
    then show "decode_strings [''validationResponse''] (Some (JObj [(''validationResponse'', JStr ''c'')])) = (f, ok) \<Longrightarrow> ?thesis"
      by simp
  qed
  have "check_validation lab_grid ''c'' (200, []) = Inr ()"
    using field by (cases "decode_strings [''validationResponse''] (Some (JObj [(''validationResponse'', JStr ''c'')]))")
      (simp add: check_validation_def lab_grid_def)
  then have "handshakeWebhook lab_grid ''i'' ''c'' ''http://localhost:80'' = Inr ()"
    by (simp add: handshakeWebhook_def url(2) hook_allowed) (simp add: lab_grid_def)
  then show ?thesis
    by (simp add: putSub_def gate url(1) UpsertEventGridSubscription_def empty_store_def Let_def)
qed





theorem event_grid_fails_closed_witness: "grid_permits lab_grid empty_store hook_request (PutSub ''s'' ''g'' ''t'' ''n'')"
proof (rule event_grid_fails_closed)
  show "rs_code (fst (grid_handle lab_grid (''i'', ''c'') empty_store hook_request (Inr []) (PutSub ''s'' ''g'' ''t'' ''n''))) \<notin>
      {401, 403, 404, 500} \<or>
    snd (grid_handle lab_grid (''i'', ''c'') empty_store hook_request (Inr []) (PutSub ''s'' ''g'' ''t'' ''n'')) \<noteq> empty_store"
    by (simp add: grid_handle_def hook_put)
qed

end
