(* ===== verification/Registry.thy ===== *)
theory Registry
  imports Entra_Sessions Arm_Lab
begin

text \<open>
  The container registry: \<open>internal/store/acr.go\<close> and \<open>internal/services/acr\<close> (\<open>handler.go\<close>, \<open>v2.go\<close>). Registries are
  resources like those of the lab services; the distribution protocol under \<open>/v2/\<close> has blobs, which are kept under
  their digests, and manifests, which are kept under a repository and a reference; \<open>/oauth2/token\<close> exchanges tokens.
\<close>

section \<open>The store\<close>

definition or_octets :: "string \<Rightarrow> string" where
  "or_octets contentType = (if contentType = [] then ''application/octet-stream'' else contentType)"

text \<open>\<open>id\<close> is a fresh UUID.\<close>

definition CreateACRUpload :: "store \<Rightarrow> string \<Rightarrow> string \<Rightarrow> string result \<times> store" where
  "CreateACRUpload s i name =
    (let d = st_registry s in reg_exec s i (d\<lparr>tb_acr_uploads := tb_acr_uploads d @ [(i, name)]\<rparr>))"

definition ACRUploadExists :: "store \<Rightarrow> string \<Rightarrow> bool result" where
  "ACRUploadExists s i = db_query s (list_ex (\<lambda>(u, name). u = i) (tb_acr_uploads (st_registry s)))"

definition put_blob_row :: "acr_blob \<Rightarrow> acr_blob list \<Rightarrow> acr_blob list" where
  "put_blob_row = tbl_upsert abl_digest
    (\<lambda>old new. old\<lparr>abl_content := abl_content new, abl_content_type := abl_content_type new\<rparr>)"

text \<open>\<open>False\<close> is \<open>sql.ErrNoRows\<close>: no such upload.\<close>

definition FinishACRUpload :: "store \<Rightarrow> string \<Rightarrow> string \<Rightarrow> byte list \<Rightarrow> string \<Rightarrow> bool result \<times> store" where
  "FinishACRUpload s i digest content contentType =
    (case ACRUploadExists s i of
       Inl e \<Rightarrow> (Inl e, s)
     | Inr ok \<Rightarrow>
         if \<not> ok then (Inr False, s)
         else (let d = st_registry s in
           reg_exec s True (d\<lparr>
             tb_acr_blobs := put_blob_row \<lparr>abl_digest = digest, abl_content = content,
               abl_content_type = or_octets contentType\<rparr> (tb_acr_blobs d),
             tb_acr_uploads := tbl_delete (\<lambda>(u, name). u = i) (tb_acr_uploads d)\<rparr>)))"

definition PutACRBlob :: "store \<Rightarrow> string \<Rightarrow> byte list \<Rightarrow> string \<Rightarrow> unit result \<times> store" where
  "PutACRBlob s digest content contentType =
    (let d = st_registry s in
     reg_exec s () (d\<lparr>tb_acr_blobs := put_blob_row \<lparr>abl_digest = digest, abl_content = content,
       abl_content_type = or_octets contentType\<rparr> (tb_acr_blobs d)\<rparr>))"

definition GetACRBlob :: "store \<Rightarrow> string \<Rightarrow> (byte list \<times> string) option result" where
  "GetACRBlob s digest =
    db_query s (map_option (\<lambda>b. (abl_content b, abl_content_type b))
      (tbl_get abl_digest (tb_acr_blobs (st_registry s)) digest))"

definition defaultManifestType :: string where
  "defaultManifestType = ''application/vnd.docker.distribution.manifest.v2+json''"

definition amf_key :: "acr_manifest \<Rightarrow> string \<times> string" where
  "amf_key r = (amf_name r, amf_reference r)"

definition PutACRManifest ::
  "store \<Rightarrow> string \<Rightarrow> string \<Rightarrow> string \<Rightarrow> byte list \<Rightarrow> string \<Rightarrow> unit result \<times> store" where
  "PutACRManifest s name ref digest content mediaType =
    (let d = st_registry s in
     reg_exec s () (d\<lparr>tb_acr_manifests := tbl_upsert amf_key
       (\<lambda>old new. old\<lparr>amf_digest := amf_digest new, amf_content := amf_content new, amf_media_type := amf_media_type new\<rparr>)
       \<lparr>amf_name = name, amf_reference = ref, amf_digest = digest, amf_content = content,
        amf_media_type = (if mediaType = [] then defaultManifestType else mediaType)\<rparr> (tb_acr_manifests d)\<rparr>))"

definition GetACRManifest :: "store \<Rightarrow> string \<Rightarrow> string \<Rightarrow> (byte list \<times> string \<times> string) option result" where
  "GetACRManifest s name ref =
    db_query s (map_option (\<lambda>m. (amf_content m, amf_digest m, amf_media_type m))
      (tbl_get amf_key (tb_acr_manifests (st_registry s)) (name, ref)))"

section \<open>Registries\<close>

definition acr_service :: arm_service where
  "acr_service = \<lparr>svc_providerKey = ''Microsoft.ContainerRegistry/registries'',
    svc_armType = ''Microsoft.ContainerRegistry/registries'', svc_action = ''Microsoft.ContainerRegistry/registries'',
    svc_path = ''Microsoft.ContainerRegistry/registries''\<rparr>"

definition acr_serve ::
  "arm_env \<Rightarrow> store \<Rightarrow> http_request \<Rightarrow> string list \<Rightarrow> (http_response \<times> store) option" where
  "acr_serve = arm_serve acr_service"

section \<open>Environment\<close>

text \<open>
  \<open>acr_sha256\<close> is the digest of bytes in hexadecimal, \<open>acr_runes\<close> the letters of a text as \<open>range\<close> has them, each with its
  bytes, and \<open>acr_letter\<close> tells which of those outside ASCII are letters or digits for \<open>unicode\<close>.
\<close>

record acr_env = arm_env +
  acr_SubscriptionID :: string
  acr_crypto :: crypto
  acr_x509 :: x509
  acr_jose :: jose
  acr_sha256 :: "byte list \<Rightarrow> string"
  acr_runes :: "string \<Rightarrow> string list"
  acr_letter :: "string \<Rightarrow> bool"
  acr_format_seconds :: "int \<Rightarrow> string"
  acr_now :: int

record acr_random =
  ar_uuid :: string
  ar_key :: string
  ar_nonce :: string

definition defaultSubscription :: "acr_env \<Rightarrow> string" where
  "defaultSubscription env =
    (if trim_space (acr_SubscriptionID env) \<noteq> [] then trim_space (acr_SubscriptionID env) else DefaultSubscriptionID)"

section \<open>Paths, names and digests\<close>

datatype v2_path = V2Ping | V2Upload string string | V2Blob string string | V2Manifest string string | V2Unknown

definition v2_name :: "v2_path \<Rightarrow> string" where
  "v2_name p = (case p of V2Upload n x \<Rightarrow> n | V2Blob n x \<Rightarrow> n | V2Manifest n x \<Rightarrow> n | _ \<Rightarrow> [])"

definition v2_extra :: "v2_path \<Rightarrow> string" where
  "v2_extra p = (case p of V2Upload n x \<Rightarrow> x | V2Blob n x \<Rightarrow> x | V2Manifest n x \<Rightarrow> x | _ \<Rightarrow> [])"

definition parseRegistryV2Path :: "string \<Rightarrow> v2_path" where
  "parseRegistryV2Path path =
    (let p0 = trim_prefix (trim_space path) ''/v2'' in
     if p0 = [] \<or> p0 = ''/'' then V2Ping
     else (let p = trim_prefix p0 ''/'' in
       case index_of p ''/blobs/uploads'' of
         Some i \<Rightarrow> V2Upload (take i p) (trim_char CHR ''/'' (drop (i + 14) p))
       | None \<Rightarrow> (case index_of p ''/blobs/'' of
           Some i \<Rightarrow> V2Blob (take i p) (drop (i + 7) p)
         | None \<Rightarrow> (case index_of p ''/manifests/'' of
             Some i \<Rightarrow> V2Manifest (take i p) (drop (i + 11) p)
           | None \<Rightarrow> V2Unknown))))"

definition sha256Digest :: "acr_env \<Rightarrow> byte list \<Rightarrow> string" where
  "sha256Digest env body = ''sha256:'' @ acr_sha256 env body"

definition validDigest :: "string \<Rightarrow> bool" where
  "validDigest d0 =
    (let d = trim_space d0; hexPart = drop 7 d in
     has_prefix d ''sha256:'' \<and> length hexPart = 64 \<and>
     list_all (\<lambda>c. (CHR ''0'' \<le> c \<and> c \<le> CHR ''9'') \<or> (CHR ''a'' \<le> c \<and> c \<le> CHR ''f'')) hexPart)"

definition name_rune :: "acr_env \<Rightarrow> string \<Rightarrow> bool" where
  "name_rune env x =
    (case x of
       [c] \<Rightarrow> (CHR ''a'' \<le> c \<and> c \<le> CHR ''z'') \<or> (CHR ''A'' \<le> c \<and> c \<le> CHR ''Z'') \<or> (CHR ''0'' \<le> c \<and> c \<le> CHR ''9'') \<or>
         c \<in> set [CHR ''/'', CHR ''_'', CHR ''-'', CHR ''.'']
     | _ \<Rightarrow> acr_letter env x)"

definition validRepoName :: "acr_env \<Rightarrow> string \<Rightarrow> bool" where
  "validRepoName env name =
    (if name = [] \<or> length name > 256 then False
     else list_all (name_rune env) (acr_runes env name) \<and> \<not> contains name ''..'')"

definition sanitizeScopeName :: "acr_env \<Rightarrow> string \<Rightarrow> string" where
  "sanitizeScopeName env name = concat (filter (name_rune env) (acr_runes env name))"

section \<open>Answers\<close>

definition distributionAPIHeader :: string where
  "distributionAPIHeader = ''Docker-Distribution-API-Version''"

definition acrServiceName :: string where
  "acrServiceName = ''containerregistry.azure.net''"

definition writeRegistryError :: "nat \<Rightarrow> string \<Rightarrow> string \<Rightarrow> http_response" where
  "writeRegistryError code errCode message =
    writeJSON code (JObj [(''errors'', JArr [JObj [(''code'', JStr errCode), (''message'', JStr message)]])])"

definition writeRegistryUnauthorized :: "web_request \<Rightarrow> string \<Rightarrow> http_response" where
  "writeRegistryUnauthorized r scope =
    (let given = trim_space (web_host r); host = (if given = [] then ''127.0.0.1:4599'' else given);
         quoted = (\<lambda>t. [CHR 0x22] @ t @ [CHR 0x22]) in
     with_header ''WWW-Authenticate''
       (''Bearer realm='' @ quoted (''http://'' @ host @ ''/oauth2/token'') @ '',service='' @ quoted acrServiceName @
        (if scope \<noteq> [] then '',scope='' @ quoted scope else []))
       (writeRegistryError 401 ''UNAUTHORIZED'' ''authentication required''))"

section \<open>Authentication and authorization\<close>

definition parseBasic :: "stdlib \<Rightarrow> string \<Rightarrow> (string \<times> string) option" where
  "parseBasic lib header =
    (if \<not> has_prefix header ''Basic '' then None
     else (case b64_decode lib (trim_space (trim_prefix header ''Basic '')) of
         None \<Rightarrow> None
       | Some raw \<Rightarrow> (case index_byte raw CHR '':'' of
           None \<Rightarrow> None
         | Some i \<Rightarrow> Some (take i raw, drop (i + 1) raw))))"

definition authenticateRegistry :: "acr_env \<Rightarrow> web_request \<Rightarrow> Principal result" where
  "authenticateRegistry env r =
    (case ae_auth env of
       None \<Rightarrow> Inl ErrUnauthenticated
     | Some a \<Rightarrow> (case AuthenticateRequest (ae_lib env) a (web_http r) of
         Inr p \<Rightarrow> Inr p
       | Inl e \<Rightarrow> (case parseBasic (ae_lib env) (header_get (web_http r) ''Authorization'') of
           None \<Rightarrow> Inl ErrUnauthenticated
         | Some (user, pass) \<Rightarrow>
             if pass = [] then Inl ErrUnauthenticated else AuthenticateToken (ae_lib env) a pass)))"

definition principalIsRoot :: "acr_env \<Rightarrow> Principal \<Rightarrow> bool" where
  "principalIsRoot env p =
    (case ae_auth env of
       None \<Rightarrow> False
     | Some a \<Rightarrow>
         pr_ID p \<noteq> [] \<and> pr_ID p = (if au_RootClientID a = [] then ''root'' else au_RootClientID a))"

definition registryNameFromRequest :: "web_request \<Rightarrow> string" where
  "registryNameFromRequest r =
    (let host0 = to_lower (trim_space (web_host r));
         host = (case split_host_port host0 of Some (h, port) \<Rightarrow> h | None \<Rightarrow> host0);
         path = parseRegistryV2Path (rq_path (web_http r));
         name = (if v2_name path = [] then v2_extra path else v2_name path) in
     if has_suffix host ''.azurecr.io'' then take (length host - 11) host
     else if has_suffix host ''.containerregistry.azure.net'' then take (length host - 28) host
     else (case index_byte name CHR ''/'' of Some i \<Rightarrow> if i > 0 then take i name else name | None \<Rightarrow> name))"

definition registryAuthzScope :: "acr_env \<Rightarrow> store \<Rightarrow> web_request \<Rightarrow> string" where
  "registryAuthzScope env s r =
    (let name = registryNameFromRequest r in
     case (if name \<noteq> [] then GetProviderResourceByName s (svc_providerKey acr_service) name else Inr None) of
       Inr (Some row) \<Rightarrow> group_scope (pv_SubscriptionID row) (pv_ResourceGroup row) @
         ''/providers/Microsoft.ContainerRegistry/registries/'' @ pv_Name row
     | _ \<Rightarrow> ''/subscriptions/'' @ defaultSubscription env)"

definition v2_action :: "bool \<Rightarrow> string" where
  "v2_action push = (if push then ''Microsoft.ContainerRegistry/registries/push/write''
    else ''Microsoft.ContainerRegistry/registries/pull/read'')"

definition registry_denied :: "string \<Rightarrow> http_response" where
  "registry_denied message = writeRegistryError 403 ''DENIED'' message"

definition requireV2 :: "acr_env \<Rightarrow> store \<Rightarrow> web_request \<Rightarrow> string \<Rightarrow> bool \<Rightarrow> http_response option" where
  "requireV2 env s r repo push =
    (case authenticateRegistry env r of
       Inl e \<Rightarrow> Some (writeRegistryUnauthorized r (if repo = [] then []
         else ''repository:'' @ sanitizeScopeName env repo @ '':'' @ (if push then ''push,pull'' else ''pull'')))
     | Inr p \<Rightarrow>
         if \<not> AllowsRegistry p then Some (registry_denied ''token audience is not allowed for registry'')
         else if pr_IsRoot p \<or> principalIsRoot env p then None
         else (case ae_authz env of
             None \<Rightarrow> Some (registry_denied ''access denied'')
           | Some ev \<Rightarrow> (case Evaluate ev (pr_ID p) (pr_IsRoot p) (v2_action push) (registryAuthzScope env s r) of
               Inl e \<Rightarrow> Some (WriteARM 500 ''InternalError'' e)
             | Inr ok \<Rightarrow> if ok then None else Some (registry_denied ''access denied''))))"

section \<open>The distribution protocol\<close>

definition maxV2Body :: nat where
  "maxV2Body = 33554432"

definition startUpload :: "acr_env \<Rightarrow> acr_random \<Rightarrow> store \<Rightarrow> web_request \<Rightarrow> string \<Rightarrow> http_response \<times> store" where
  "startUpload env rnd s r name =
    (case requireV2 env s r name True of
       Some rs \<Rightarrow> (rs, s)
     | None \<Rightarrow>
         if \<not> validRepoName env name then (writeRegistryError 400 ''NAME_INVALID'' ''invalid repository name'', s)
         else (case CreateACRUpload s (ar_uuid rnd) name of
             (Inl e, s1) \<Rightarrow> (WriteARM 500 ''InternalError'' e, s1)
           | (Inr i, s1) \<Rightarrow> (with_header ''Location'' (''/v2/'' @ name @ ''/blobs/uploads/'' @ i)
               (with_header ''Docker-Upload-UUID'' i (with_header ''Range'' ''0-0'' (writeHeader 202))), s1)))"

definition upload_unknown :: http_response where
  "upload_unknown = writeRegistryError 404 ''BLOB_UPLOAD_UNKNOWN'' ''upload uuid unknown''"

definition acr_putUpload ::
  "acr_env \<Rightarrow> store \<Rightarrow> web_request \<Rightarrow> byte list result \<Rightarrow> string \<Rightarrow> string \<Rightarrow> http_response \<times> store" where
  "acr_putUpload env s r body name i =
    (case requireV2 env s r name True of
       Some rs \<Rightarrow> (rs, s)
     | None \<Rightarrow>
         (let digest = trim_space (query_get (web_http r) ''digest'') in
          if digest = [] \<or> \<not> validDigest digest then (writeRegistryError 400 ''DIGEST_INVALID'' ''digest is required'', s)
          else (case ACRUploadExists s i of
              Inl e \<Rightarrow> (WriteARM 500 ''InternalError'' e, s)
            | Inr ok \<Rightarrow>
                if \<not> ok then (upload_unknown, s)
                else (case map_sum id (take (maxV2Body + 1)) body of
                    Inl e \<Rightarrow> (BadRequest e, s)
                  | Inr bs \<Rightarrow>
                      if length bs > maxV2Body then (writeRegistryError 400 ''SIZE_INVALID'' ''blob too large'', s)
                      else if sha256Digest env bs \<noteq> digest then (writeRegistryError 400 ''DIGEST_INVALID'' ''digest mismatch'', s)
                      else (case FinishACRUpload s i digest bs (header_get (web_http r) ''Content-Type'') of
                          (Inl e, s1) \<Rightarrow> (WriteARM 500 ''InternalError'' e, s1)
                        | (Inr False, s1) \<Rightarrow> (upload_unknown, s1)
                        | (Inr True, s1) \<Rightarrow> (with_header ''Location'' (''/v2/'' @ name @ ''/blobs/'' @ digest)
                            (with_header ''Docker-Content-Digest'' digest (writeHeader 201)), s1))))))"

text \<open>An answer with content; none of it to HEAD.\<close>

definition write_content :: "string \<Rightarrow> string \<Rightarrow> bool \<Rightarrow> byte list \<Rightarrow> http_response" where
  "write_content contentType digest head content =
    writeBytes 200 [(''Content-Type'', contentType), (''Docker-Content-Digest'', digest),
      (''Content-Length'', format_int (int (length content)))] (if head then [] else content)"

definition blob_unknown :: http_response where
  "blob_unknown = writeRegistryError 404 ''BLOB_UNKNOWN'' ''blob unknown to registry''"

definition acr_getBlob :: "acr_env \<Rightarrow> store \<Rightarrow> web_request \<Rightarrow> string \<Rightarrow> bool \<Rightarrow> http_response" where
  "acr_getBlob env s r digest head =
    (case requireV2 env s r (v2_name (parseRegistryV2Path (rq_path (web_http r)))) False of
       Some rs \<Rightarrow> rs
     | None \<Rightarrow>
         if \<not> validDigest digest then blob_unknown
         else (case GetACRBlob s digest of
             Inl e \<Rightarrow> WriteARM 500 ''InternalError'' e
           | Inr None \<Rightarrow> blob_unknown
           | Inr (Some (content, ct)) \<Rightarrow> write_content (or_octets ct) digest head content))"

definition putManifest ::
  "acr_env \<Rightarrow> store \<Rightarrow> web_request \<Rightarrow> byte list result \<Rightarrow> string \<Rightarrow> string \<Rightarrow> http_response \<times> store" where
  "putManifest env s r body name ref =
    (case requireV2 env s r name True of
       Some rs \<Rightarrow> (rs, s)
     | None \<Rightarrow>
         if \<not> validRepoName env name \<or> trim_space ref = []
         then (writeRegistryError 400 ''NAME_INVALID'' ''invalid repository or reference'', s)
         else (case map_sum id (take (maxV2Body + 1)) body of
             Inl e \<Rightarrow> (BadRequest e, s)
           | Inr bs \<Rightarrow>
               if length bs > maxV2Body then (writeRegistryError 400 ''SIZE_INVALID'' ''manifest too large'', s)
               else (let digest = sha256Digest env bs; given = header_get (web_http r) ''Content-Type'';
                         media = (if given = [] then defaultManifestType else given) in
                 case PutACRManifest s name ref digest bs media of
                   (Inl e, s1) \<Rightarrow> (WriteARM 500 ''InternalError'' e, s1)
                 | (Inr u, s1) \<Rightarrow> (case (if ref \<noteq> digest then PutACRManifest s1 name digest digest bs media else (Inr (), s1)) of
                     (Inl e, s2) \<Rightarrow> (WriteARM 500 ''InternalError'' e, s2)
                   | (Inr u, s2) \<Rightarrow> (with_header ''Location'' (''/v2/'' @ name @ ''/manifests/'' @ digest)
                       (with_header ''Docker-Content-Digest'' digest (writeHeader 201)), s2)))))"

definition getManifest :: "acr_env \<Rightarrow> store \<Rightarrow> web_request \<Rightarrow> string \<Rightarrow> string \<Rightarrow> bool \<Rightarrow> http_response" where
  "getManifest env s r name ref head =
    (case requireV2 env s r name False of
       Some rs \<Rightarrow> rs
     | None \<Rightarrow> (case GetACRManifest s name ref of
         Inl e \<Rightarrow> WriteARM 500 ''InternalError'' e
       | Inr None \<Rightarrow> writeRegistryError 404 ''MANIFEST_UNKNOWN'' ''manifest unknown''
       | Inr (Some (content, digest, media)) \<Rightarrow>
           write_content (if media = [] then defaultManifestType else media) digest head content))"

definition not_allowed :: "string \<Rightarrow> http_response" where
  "not_allowed allow = with_header ''Allow'' allow (writeRegistryError 405 ''UNSUPPORTED'' ''method not allowed'')"

text \<open>The answers of the protocol all carry its version.\<close>

definition serveV2 ::
  "acr_env \<Rightarrow> acr_random \<Rightarrow> store \<Rightarrow> web_request \<Rightarrow> byte list result \<Rightarrow> http_response \<times> store" where
  "serveV2 env rnd s r body =
    (let method = rq_method (web_http r); head = (method = ''HEAD''); get = (method = ''GET'' \<or> head) in
     apfst (with_header distributionAPIHeader ''registry/2.0'')
      (case parseRegistryV2Path (rq_path (web_http r)) of
         V2Ping \<Rightarrow>
           if \<not> get then (not_allowed ''GET, HEAD'', s)
           else (case requireV2 env s r [] False of
               Some rs \<Rightarrow> (rs, s)
             | None \<Rightarrow> (writeBytes 200 [jsonContentType] (if head then [] else bytes_of_string ''{}''), s))
       | V2Upload name i \<Rightarrow>
           if method = ''POST'' then startUpload env rnd s r name
           else if method = ''PUT'' then acr_putUpload env s r body name i
           else (not_allowed ''POST, PUT'', s)
       | V2Blob name digest \<Rightarrow> if get then (acr_getBlob env s r digest head, s) else (not_allowed ''GET, HEAD'', s)
       | V2Manifest name ref \<Rightarrow>
           if method = ''PUT'' then putManifest env s r body name ref
           else if get then (getManifest env s r name ref head, s)
           else (not_allowed ''GET, HEAD, PUT'', s)
       | V2Unknown \<Rightarrow> (writeRegistryError 404 ''NAME_UNKNOWN'' ''repository name not known'', s)))"

section \<open>The exchange of tokens\<close>

definition registry_claims :: "acr_env \<Rightarrow> Principal \<Rightarrow> string \<Rightarrow> string \<Rightarrow> json" where
  "registry_claims env p service scope =
    (let now = acr_now env div nanos in
     JObj [(''aud'', JStr (if service = acrServiceName then ''https://containerregistry.azure.net'' else service)),
       (''iss'', JStr ''http://127.0.0.1:4599/oauth2/token''), (''iat'', JNum now), (''nbf'', JNum now),
       (''exp'', JNum ((acr_now env + 3600 * nanos) div nanos)), (''sub'', JStr (pr_ID p)), (''oid'', JStr (pr_ID p)),
       (''scope'', JStr scope)])"

definition mintRegistryToken ::
  "acr_env \<Rightarrow> acr_random \<Rightarrow> store \<Rightarrow> Principal \<Rightarrow> string \<Rightarrow> string \<Rightarrow> (string \<times> int) result \<times> store" where
  "mintRegistryToken env rnd s p service scope =
    (case EnsureEntraSigningKey (acr_crypto env) (acr_x509 env) s (ar_uuid rnd) (ar_key rnd) (ar_nonce rnd) (acr_now env) of
       (Inl e, s1) \<Rightarrow> (Inl e, s1)
     | (Inr (kid, priv), s1) \<Rightarrow> (case EncodeRS256JWT (acr_jose env) priv kid (registry_claims env p service scope) of
         Inl e \<Rightarrow> (Inl e, s1)
       | Inr token \<Rightarrow> (case PutAccessToken s1 (HashToken (ae_lib env) token) (pr_ID p)
             (acr_format_seconds env (acr_now env + 3600 * nanos)) of
           (Inl e, s2) \<Rightarrow> (Inl e, s2)
         | (Inr u, s2) \<Rightarrow> (Inr (token, 3600), s2))))"

text \<open>A parameter of the query, or for POST of the form.\<close>

definition token_parameter :: "web_request \<Rightarrow> string \<Rightarrow> string" where
  "token_parameter r name =
    (let given = trim_space (query_get (web_http r) name) in
     if rq_method (web_http r) = ''POST'' \<and> given = [] then form_get r name else given)"

definition token_service :: "web_request \<Rightarrow> string" where
  "token_service r = (let service = token_parameter r ''service'' in if service = [] then acrServiceName else service)"

definition oauth2Token :: "acr_env \<Rightarrow> acr_random \<Rightarrow> store \<Rightarrow> web_request \<Rightarrow> http_response \<times> store" where
  "oauth2Token env rnd s r =
    apfst (with_header distributionAPIHeader ''registry/2.0'')
      (case authenticateRegistry env r of
         Inl e \<Rightarrow> (writeRegistryUnauthorized r [], s)
       | Inr p \<Rightarrow>
           if \<not> AllowsRegistry p then (registry_denied ''token audience is not allowed for registry'', s)
           else (case mintRegistryToken env rnd s p (token_service r) (token_parameter r ''scope'') of
               (Inl e, s1) \<Rightarrow> (WriteARM 500 ''InternalError'' e, s1)
             | (Inr (token, expiresIn), s1) \<Rightarrow> (writeJSON 200 (JObj [(''token'', JStr token), (''access_token'', JStr token),
                 (''expires_in'', JNum expiresIn), (''issued_at'', JStr (acr_format_seconds env (acr_now env)))]), s1)))"

lemma parse_paths:
  "parseRegistryV2Path ''/v2/'' = V2Ping" "parseRegistryV2Path ''/v2/a/b/blobs/uploads/u1'' = V2Upload ''a/b'' ''u1''"
  "parseRegistryV2Path ''/v2/a/manifests/latest'' = V2Manifest ''a'' ''latest''"
  by code_simp+

end
