(* ===== verification/Registry_Rules.thy ===== *)
theory Registry_Rules
  imports Registry
begin

text \<open>
  What holds of the container registry: who is let in, that blobs keep to their digests, that what is pushed can be
  pulled, and what the exchange of tokens hands out.
\<close>

section \<open>Who is let in\<close>

definition v2_caller :: "acr_env \<Rightarrow> store \<Rightarrow> web_request \<Rightarrow> bool \<Rightarrow> Principal \<Rightarrow> bool" where
  "v2_caller env s r push p \<longleftrightarrow>
    authenticateRegistry env r = Inr p \<and> AllowsRegistry p \<and>
    (pr_IsRoot p \<or> principalIsRoot env p \<or>
     (\<exists>ev. ae_authz env = Some ev \<and>
        Evaluate ev (pr_ID p) False (v2_action push) (registryAuthzScope env s r) = Inr True))"

lemma requireV2_passes:
  assumes "requireV2 env s r repo push = None"
  shows "\<exists>p. v2_caller env s r push p"
proof -
  from assms obtain p where "authenticateRegistry env r = Inr p" by (cases "authenticateRegistry env r") (auto simp: requireV2_def)
  with assms have "v2_caller env s r push p"
    by (auto simp: requireV2_def v2_caller_def split: if_splits option.splits sum.splits)
  then show ?thesis ..
qed

lemma error_code [simp]: "rs_code (writeRegistryError c e m) = c"
  by (simp add: writeRegistryError_def writeJSON_def)

lemma arm_code [simp]: "rs_code (WriteARM c e m) = c"
  by (simp add: WriteARM_def writeJSON_def)

lemma header_code [simp]: "rs_code (with_header k v rs) = rs_code rs"
  by (simp add: with_header_def)

lemma unauthorized_code [simp]: "rs_code (writeRegistryUnauthorized r scope) = 401"
  by (simp add: writeRegistryUnauthorized_def Let_def)

lemma bare_codes [simp]:
  "rs_code (writeHeader c) = c" "rs_code (writeBytes c hs bs) = c" "rs_code (writeJSON c v) = c"
  "rs_code (BadRequest e) = 400" "rs_code upload_unknown = 404" "rs_code blob_unknown = 404"
  "rs_code (registry_denied e) = 403" "rs_code (not_allowed e) = 405" "rs_code (write_content ct d h bs) = 200"
  by (simp_all add: writeHeader_def writeBytes_def writeJSON_def BadRequest_def upload_unknown_def blob_unknown_def
      registry_denied_def not_allowed_def write_content_def)

lemma requireV2_refuses:
  "requireV2 env s r repo push = Some rs \<Longrightarrow> rs_code rs \<in> {401, 403, 500}"
  by (auto simp: requireV2_def split: sum.splits if_splits option.splits)

text \<open>An operation that asks \<open>requireV2\<close> first does nothing for a caller that is not let in.\<close>

lemma turned_back:
  assumes "\<nexists>p. v2_caller env s r push p"
  shows "\<exists>rs. requireV2 env s r repo push = Some rs \<and> rs_code rs \<in> {401, 403, 500}"
  using assms requireV2_passes [of env s r repo push] requireV2_refuses [of env s r repo push]
  by (cases "requireV2 env s r repo push") auto

definition is_push :: "web_request \<Rightarrow> bool" where
  "is_push r \<longleftrightarrow> rq_method (web_http r) \<noteq> ''GET'' \<and> rq_method (web_http r) \<noteq> ''HEAD''"

lemma v2_closed:
  assumes closed: "\<nexists>p. v2_caller env s r (is_push r) p"
  shows "rs_code (fst (serveV2 env rnd s r body)) \<ge> 400 \<and> snd (serveV2 env rnd s r body) = s"
proof -
  have "\<exists>rs. requireV2 env s r repo (is_push r) = Some rs \<and> rs_code rs \<ge> 400" for repo
    using turned_back [OF closed, of repo] by auto
  then obtain refused where
    refused: "\<And>repo. requireV2 env s r repo (is_push r) = Some (refused repo) \<and> rs_code (refused repo) \<ge> 400"
    by metis
  show ?thesis
  proof (cases "is_push r")
    case True
    then have m: "rq_method (web_http r) \<noteq> ''GET''" "rq_method (web_http r) \<noteq> ''HEAD''" by (simp_all add: is_push_def)
    from True refused have pushed: "\<And>repo. requireV2 env s r repo True = Some (refused repo)"
      "\<And>repo. rs_code (refused repo) \<ge> 400" by simp_all
    show ?thesis
      by (cases "parseRegistryV2Path (rq_path (web_http r))")
        (simp_all add: serveV2_def Let_def m startUpload_def acr_putUpload_def putManifest_def pushed)
  next
    case False
    then have m: "rq_method (web_http r) = ''GET'' \<or> rq_method (web_http r) = ''HEAD''" by (simp add: is_push_def)
    then have n: "rq_method (web_http r) \<noteq> ''PUT''" "rq_method (web_http r) \<noteq> ''POST''" by auto
    from False refused have pulled: "\<And>repo. requireV2 env s r repo False = Some (refused repo)"
      "\<And>repo. rs_code (refused repo) \<ge> 400" by simp_all
    show ?thesis using m
      by (cases "parseRegistryV2Path (rq_path (web_http r))")
        (auto simp: serveV2_def Let_def n acr_getBlob_def getManifest_def pulled)
  qed
qed

text \<open>
  The registry fails closed: an answer that is no error and any change of the store come only from a caller who
  authenticates with a token for the registry and who is root or has the pull action, for anything but GET and HEAD the
  push action, at the registry that the request names.
\<close>

theorem registry_fails_closed:
  assumes "serveV2 env rnd s r body = (rs, s')" "rs_code rs < 400 \<or> s' \<noteq> s"
  shows "\<exists>p. v2_caller env s r (is_push r) p"
proof (rule ccontr)
  assume "\<nexists>p. v2_caller env s r (is_push r) p"
  from v2_closed [OF this, of rnd body] assms show False by auto
qed

section \<open>Content addresses\<close>

definition acr_digests_ok :: "(byte list \<Rightarrow> string) \<Rightarrow> store \<Rightarrow> bool" where
  "acr_digests_ok sha s \<longleftrightarrow> (\<forall>b \<in> set (tb_acr_blobs (st_registry s)). abl_digest b = ''sha256:'' @ sha (abl_content b))"

text \<open>A request to the registry, with the environment it is served in.\<close>

datatype registry_call =
  V2Call acr_env acr_random web_request "byte list result"
| TokenCall acr_env acr_random web_request
| ResourceCall arm_env http_request "string list"

fun registry_step :: "(byte list \<Rightarrow> string) \<Rightarrow> store \<Rightarrow> registry_call \<Rightarrow> store" where
  "registry_step sha s (V2Call env rnd r body) = snd (serveV2 (env\<lparr>acr_sha256 := sha\<rparr>) rnd s r body)"
| "registry_step sha s (TokenCall env rnd r) = snd (oauth2Token (env\<lparr>acr_sha256 := sha\<rparr>) rnd s r)"
| "registry_step sha s (ResourceCall env r segs) = (case acr_serve env s r segs of None \<Rightarrow> s | Some (rs, s') \<Rightarrow> s')"

definition registry_run :: "(byte list \<Rightarrow> string) \<Rightarrow> store \<Rightarrow> registry_call list \<Rightarrow> store" where
  "registry_run sha = foldl (registry_step sha)"

text \<open>
  The blobs after a request: as before, or with one more under the digest of its content. Nothing takes a blob away.
\<close>

definition blob_step :: "(byte list \<Rightarrow> string) \<Rightarrow> store \<Rightarrow> store \<Rightarrow> bool" where
  "blob_step sha s s' \<longleftrightarrow>
    tb_acr_blobs (st_registry s') = tb_acr_blobs (st_registry s) \<or>
    (\<exists>bs ct. tb_acr_blobs (st_registry s') = put_blob_row
       \<lparr>abl_digest = ''sha256:'' @ sha bs, abl_content = bs, abl_content_type = ct\<rparr> (tb_acr_blobs (st_registry s)))"

lemma blob_step_refl [simp]: "blob_step sha s s"
  by (simp add: blob_step_def)

lemma manifest_blobs [simp]:
  "tb_acr_blobs (st_registry (snd (PutACRManifest s n ref d c m))) = tb_acr_blobs (st_registry s)"
  by (simp add: PutACRManifest_def Let_def reg_exec_def db_exec_def split: option.split)

lemma upload_blobs [simp]:
  "tb_acr_blobs (st_registry (snd (CreateACRUpload s i n))) = tb_acr_blobs (st_registry s)"
  by (simp add: CreateACRUpload_def Let_def reg_exec_def db_exec_def split: option.split)

lemma finish_blobs:
  "blob_step sha s (snd (FinishACRUpload s i (''sha256:'' @ sha bs) bs ct))"
  by (auto simp: blob_step_def FinishACRUpload_def Let_def reg_exec_def db_exec_def
      split: option.split sum.split)

lemma start_blob_step: "blob_step sha s (snd (startUpload env rnd s r name))"
proof -
  obtain x s1 where c: "CreateACRUpload s (ar_uuid rnd) name = (x, s1)" by (rule prod.exhaust)
  then have "tb_acr_blobs (st_registry s1) = tb_acr_blobs (st_registry s)" by (metis snd_conv upload_blobs)
  with c show ?thesis by (auto simp: startUpload_def blob_step_def split: option.split sum.split)
qed

lemma upload_blob_step:
  "blob_step (acr_sha256 env) s (snd (acr_putUpload env s r body name i))"
proof -
  have "blob_step (acr_sha256 env) s s1"
    if "FinishACRUpload s i digest bs ct = (x, s1)" "sha256Digest env bs = digest" for digest bs ct x s1
    using that finish_blobs [of "acr_sha256 env" s i bs ct] by (auto simp: sha256Digest_def)
  then show ?thesis
    by (auto simp: acr_putUpload_def Let_def split: option.split sum.split prod.split bool.split)
qed

lemma manifest_blob_step: "blob_step sha s (snd (putManifest env s r body name ref))"
proof -
  have put: "tb_acr_blobs (st_registry s1) = tb_acr_blobs (st_registry s)"
    if "PutACRManifest s n ref d c m = (x, s1)" for s n ref d c m x s1
    using that by (metis snd_conv manifest_blobs)
  show ?thesis
    by (auto simp: putManifest_def Let_def blob_step_def split: option.split sum.split prod.split dest!: put)
qed

lemma serve_blob_step: "blob_step (acr_sha256 env) s (snd (serveV2 env rnd s r body))"
  by (auto simp: serveV2_def Let_def start_blob_step upload_blob_step manifest_blob_step
      split: v2_path.split option.split)

lemma mint_registry:
  "st_registry (snd (mintRegistryToken env rnd s p service scope)) = st_registry s"
proof -
  obtain key s1 where key: "EnsureEntraSigningKey (acr_crypto env) (acr_x509 env) s (ar_uuid rnd) (ar_key rnd)
      (ar_nonce rnd) (acr_now env) = (key, s1)" by (rule prod.exhaust)
  with entra_key_frame obtain X where "s1 = with_keys s X" by (metis snd_conv)
  then have same: "st_registry s1 = st_registry s" by (simp add: with_keys_def)
  show ?thesis
    using key same by (auto simp: mintRegistryToken_def PutAccessToken_def db_exec_def split: sum.split option.split)
qed

lemma token_blob_step: "blob_step sha s (snd (oauth2Token env rnd s r))"
proof -
  have "st_registry (snd (oauth2Token env rnd s r)) = st_registry s"
    using mint_registry by (auto simp: oauth2Token_def split_beta split: sum.split)
  then show ?thesis by (simp add: blob_step_def)
qed

lemma resource_registry:
  assumes "acr_serve env s r segs = Some (rs, s')"
  shows "st_registry s' = st_registry s"
proof -
  from assms obtain op where "arm_handle acr_service env s r op = (rs, s')"
    by (auto simp: acr_serve_def arm_serve_def)
  with arm_handle_writes [of acr_service env s r op] show ?thesis
    by (auto simp: provider_put_def provider_del_def UpsertProviderResource_def DeleteProviderResource_def db_exec_def
        Let_def split: option.split prod.split)
qed

lemma registry_step_blobs: "blob_step sha s (registry_step sha s call)"
proof (cases call)
  case (V2Call env rnd r body)
  then show ?thesis using serve_blob_step [of "env\<lparr>acr_sha256 := sha\<rparr>"] by simp
next
  case (TokenCall env rnd r)
  then show ?thesis by (simp add: token_blob_step)
next
  case (ResourceCall env r segs)
  then show ?thesis by (auto simp: blob_step_def split: option.split dest: resource_registry)
qed

lemma put_blob_row_set:
  assumes "b \<in> set (put_blob_row row t)"
  shows "b = row \<or> b \<in> set t \<or> (abl_digest b = abl_digest row \<and> abl_content b = abl_content row)"
  using assms by (auto simp: put_blob_row_def tbl_upsert_def split: if_splits)

lemma blob_step_ok: "blob_step sha s s' \<Longrightarrow> acr_digests_ok sha s \<Longrightarrow> acr_digests_ok sha s'"
  unfolding blob_step_def acr_digests_ok_def by (auto dest!: put_blob_row_set)

lemma blob_step_keeps:
  assumes "blob_step sha s s'" "tbl_get abl_digest (tb_acr_blobs (st_registry s)) d \<noteq> None"
  shows "tbl_get abl_digest (tb_acr_blobs (st_registry s')) d \<noteq> None"
  using assms by (auto simp: blob_step_def put_blob_row_def tbl_get_upsert)

lemma registry_run_ok: "acr_digests_ok sha s \<Longrightarrow> acr_digests_ok sha (registry_run sha s calls)"
  by (induction calls arbitrary: s) (simp_all add: registry_run_def blob_step_ok [OF registry_step_blobs])

lemma registry_run_keeps:
  assumes "tbl_get abl_digest (tb_acr_blobs (st_registry s)) d \<noteq> None"
  shows "tbl_get abl_digest (tb_acr_blobs (st_registry (registry_run sha s calls))) d \<noteq> None"
  using assms
proof (induction calls arbitrary: s)
  case Nil
  then show ?case by (simp add: registry_run_def)
next
  case (Cons call calls)
  from Cons.IH [OF blob_step_keeps [OF registry_step_blobs Cons.prems]] show ?case by (simp add: registry_run_def)
qed

lemma pushed_blob:
  assumes "acr_putUpload env s r body name i = (rs, s')" "rs_code rs = 201"
  shows "\<exists>d. rs = with_header ''Location'' (''/v2/'' @ name @ ''/blobs/'' @ d) (with_header ''Docker-Content-Digest'' d (writeHeader 201)) \<and>
    validDigest d \<and> tbl_get abl_digest (tb_acr_blobs (st_registry s')) d \<noteq> None"
proof -
  let ?d = "trim_space (query_get (web_http r) ''digest'')"
  have there: "tbl_get abl_digest (tb_acr_blobs (st_registry s1)) ?d \<noteq> None"
    if "FinishACRUpload s i ?d bs ct = (Inr True, s1)" for bs ct s1
    using that by (auto simp: FinishACRUpload_def Let_def reg_exec_def db_exec_def put_blob_row_def tbl_get_upsert
        split: sum.splits if_splits option.splits)
  from assms have "rs = with_header ''Location'' (''/v2/'' @ name @ ''/blobs/'' @ ?d)
      (with_header ''Docker-Content-Digest'' ?d (writeHeader 201)) \<and> validDigest ?d \<and>
    (\<exists>bs ct. FinishACRUpload s i ?d bs ct = (Inr True, s'))"
    by (auto simp: acr_putUpload_def Let_def dest: requireV2_refuses
        split: option.splits if_splits sum.splits prod.splits bool.splits)
  with there show ?thesis by blast
qed

text \<open>
  C23: what is pushed can be pulled: after a blob was accepted, whatever requests follow, a caller who may pull gets, under
  the digest of the answer, content that has that digest.
\<close>

theorem pushed_blobs_stay:
  assumes "acr_digests_ok (acr_sha256 env) s"
    and "acr_putUpload env s r body name i = (rs, s1)" "rs_code rs = 201"
    and "s2 = registry_run (acr_sha256 env) s1 calls" "db_fault s2 = None"
    and "requireV2 env2 s2 r2 (v2_name (parseRegistryV2Path (rq_path (web_http r2)))) False = None"
  shows "\<exists>digest ct content. rs = with_header ''Location'' (''/v2/'' @ name @ ''/blobs/'' @ digest)
      (with_header ''Docker-Content-Digest'' digest (writeHeader 201)) \<and>
    acr_getBlob env2 s2 r2 digest False = write_content ct digest False content \<and>
    sha256Digest env content = digest"
proof -
  from pushed_blob [OF assms(2,3)] obtain d where
    rs: "rs = with_header ''Location'' (''/v2/'' @ name @ ''/blobs/'' @ d) (with_header ''Docker-Content-Digest'' d (writeHeader 201))"
    and d: "validDigest d" and there: "tbl_get abl_digest (tb_acr_blobs (st_registry s1)) d \<noteq> None" by blast
  from registry_run_keeps [OF there] assms(4) obtain b where
    b: "tbl_get abl_digest (tb_acr_blobs (st_registry s2)) d = Some b" by auto
  then have mem: "b \<in> set (tb_acr_blobs (st_registry s2))" "abl_digest b = d"
    by (auto simp: tbl_get_def find_Some_iff)
  have "acr_digests_ok (acr_sha256 env) s1"
    using upload_blob_step [of env s r body name i] assms(1,2) blob_step_ok by (metis snd_conv)
  then have "acr_digests_ok (acr_sha256 env) s2" unfolding assms(4) by (rule registry_run_ok)
  with mem have "sha256Digest env (abl_content b) = d" by (auto simp: acr_digests_ok_def sha256Digest_def)
  moreover have "acr_getBlob env2 s2 r2 d False = write_content (or_octets (abl_content_type b)) d False (abl_content b)"
    using assms(5,6) d b by (simp add: acr_getBlob_def GetACRBlob_def db_query_def)
  ultimately show ?thesis using rs by blast
qed

section \<open>Manifests\<close>

lemma manifest_put:
  assumes "PutACRManifest s name ref d bs media = (Inr (), s1)"
  shows "db_fault s1 = None"
    and "\<exists>m. tbl_get amf_key (tb_acr_manifests (st_registry s1)) (name, ref) = Some m \<and> amf_content m = bs \<and> amf_digest m = d"
    and "k \<noteq> (name, ref) \<Longrightarrow>
      tbl_get amf_key (tb_acr_manifests (st_registry s1)) k = tbl_get amf_key (tb_acr_manifests (st_registry s)) k"
  using assms
  by (auto simp: PutACRManifest_def Let_def reg_exec_def db_exec_def tbl_get_upsert amf_key_def split: option.splits)

lemma whole_body: "length (take (Suc n) bs) \<le> n \<Longrightarrow> take (Suc n) bs = bs"
  by simp

lemma accepted_manifest:
  assumes "putManifest env s r (Inr bs) name ref = (rs, s')" "rs_code rs = 201"
  shows "\<exists>media s1. PutACRManifest s name ref (sha256Digest env bs) bs media = (Inr (), s1) \<and>
    (if ref \<noteq> sha256Digest env bs then PutACRManifest s1 name (sha256Digest env bs) (sha256Digest env bs) bs media
     else (Inr (), s1)) = (Inr (), s')"
proof -
  have gate: "requireV2 env s r name True = None"
  proof (cases "requireV2 env s r name True")
    case (Some refused)
    with assms have "rs_code refused = 201" by (simp add: putManifest_def)
    with requireV2_refuses [OF Some] show ?thesis by auto
  qed
  with assms have size: "length (take (Suc maxV2Body) bs) \<le> maxV2Body"
    by (auto simp: putManifest_def split: if_splits)
  note whole = whole_body [OF this]
  obtain media where media: "media = (if header_get (web_http r) ''Content-Type'' = [] then defaultManifestType
      else header_get (web_http r) ''Content-Type'')" by blast
  obtain x s1 where first: "PutACRManifest s name ref (sha256Digest env bs) bs media = (x, s1)" by (rule prod.exhaust)
  obtain y s2 where second: "(if ref \<noteq> sha256Digest env bs
      then PutACRManifest s1 name (sha256Digest env bs) (sha256Digest env bs) bs media else (Inr (), s1)) = (y, s2)"
    by (rule prod.exhaust)
  from assms gate size first second have "x = Inr () \<and> y = Inr () \<and> s' = s2"
    by (cases x; cases y)
      (auto simp: putManifest_def Let_def whole media [symmetric] simp del: length_take split: if_splits)
  with first second show ?thesis by blast
qed

lemma manifest_served:
  assumes "putManifest env s r (Inr bs) name ref = (rs, s')" "rs_code rs = 201"
    and "requireV2 env2 s' r2 name False = None" "k = ref \<or> k = sha256Digest env bs"
  shows "\<exists>media. getManifest env2 s' r2 name k False = write_content media (sha256Digest env bs) False bs"
proof -
  let ?d = "sha256Digest env bs"
  from accepted_manifest [OF assms(1,2)] obtain media s1 where
    first: "PutACRManifest s name ref ?d bs media = (Inr (), s1)"
    and second: "(if ref \<noteq> ?d then PutACRManifest s1 name ?d ?d bs media else (Inr (), s1)) = (Inr (), s')" by blast
  have db: "db_fault s' = None" and "\<exists>m. tbl_get amf_key (tb_acr_manifests (st_registry s')) (name, k) = Some m \<and>
      amf_content m = bs \<and> amf_digest m = ?d"
    using manifest_put [OF first] manifest_put [of s1 name ?d ?d bs media s'] second assms(4)
    by (auto split: if_splits)
  then obtain m where "tbl_get amf_key (tb_acr_manifests (st_registry s')) (name, k) = Some m" "amf_content m = bs"
    "amf_digest m = ?d" by blast
  with db assms(3) show ?thesis by (auto simp: getManifest_def GetACRManifest_def db_query_def)
qed

text \<open>
  A manifest that was accepted is served, with its content and digest, under its digest and under the reference it was
  put under.
\<close>

theorem pushed_manifests_are_served:
  assumes "putManifest env s r (Inr bs) name ref = (rs, s')" "rs_code rs = 201"
    and "requireV2 env2 s' r2 name False = None"
  shows "(\<exists>media. getManifest env2 s' r2 name ref False = write_content media (sha256Digest env bs) False bs) \<and>
    (\<exists>media. getManifest env2 s' r2 name (sha256Digest env bs) False = write_content media (sha256Digest env bs) False bs)"
  using manifest_served [OF assms] by simp

text \<open>A digest is a reference like any other: a manifest put under another one's digest takes its place.\<close>

lemma pinned_manifest_is_replaced:
  assumes "putManifest env s r (Inr bs) name pinned = (rs, s')" "rs_code rs = 201"
    and "requireV2 env2 s' r2 name False = None"
    and "validDigest pinned" "pinned \<noteq> sha256Digest env bs"
  shows "\<exists>media. getManifest env2 s' r2 name pinned False = write_content media (sha256Digest env bs) False bs"
  using manifest_served [OF assms(1-3)] by simp

text \<open>The host chooses the registry whose roles are asked; what is read and written is chosen by the path.\<close>

lemma host_chooses_the_registry:
  assumes "to_lower (trim_space (web_host r)) = name @ ''.azurecr.io''" "split_host_port (name @ ''.azurecr.io'') = None"
  shows "registryNameFromRequest (r\<lparr>web_http := h\<rparr>) = name"
  using assms by (simp add: registryNameFromRequest_def Let_def)

section \<open>The exchange of tokens\<close>







text \<open>
  Who may pull and push by role. The documentation (\<open>docs/services/acr.md\<close>) lets Reader, Contributor and Owner pull.
\<close>

lemma who_may_pull:
  "\<not> roleGrants RoleReader (v2_action False)" "\<not> roleGrants RoleContributor (v2_action False)"
  "roleGrants RoleAcrPull (v2_action False)"
  "\<not> roleGrants RoleAcrPull (v2_action True)" "roleGrants RoleContributor (v2_action True)"
  by code_simp+

section \<open>Witnesses\<close>

text \<open>A registry that knows one caller, by a token for Resource Manager.\<close>

definition graph_claims :: json where
  "graph_claims = JObj [(''aud'', JStr ''https://graph.microsoft.com''), (''iss'', JStr ''http://127.0.0.1:4599/oauth2/token''),
     (''iat'', JNum 1000), (''nbf'', JNum 1000), (''exp'', JNum 4600), (''sub'', JStr ''u1''), (''oid'', JStr ''u1''),
     (''scope'', JStr [])]"

definition registry_lib :: stdlib where
  "registry_lib = lab_lib\<lparr>b64_raw_url_decode := (\<lambda>t. Inr t),
     json_parse := (\<lambda>t. if t = ''c'' then Inr graph_claims
       else if t = ''a'' then Inr (JObj [(''aud'', JStr ''https://management.azure.com'')]) else Inr (JObj [])),
     time_parse := (\<lambda>layout t. if t = ''4600'' then Some (4600 * nanos) else None)\<rparr>"

definition lab_registry :: acr_env where
  "lab_registry = \<lparr>ae_lib = registry_lib,
     ae_auth = Some \<lparr>au_RootClientID = [], au_RootAccessToken = ''root-token'',
       au_Tokens = Some (\<lambda>h t. Inr (if h = ''h.a.s'' then Some ''u1'' else None)), au_JWT = None, au_Now = 0\<rparr>,
     ae_authz = None, acr_SubscriptionID = ''s1'', acr_crypto = lab_crypto, acr_x509 = en_x509 lab_entra,
     acr_jose = \<lparr>jo_sign = (\<lambda>key kid p. if p = ''c'' then Inr ''h.c.s'' else Inl ''unsupported''),
       jo_verify = (\<lambda>key t. Inl ''bad signature''), jo_json = (\<lambda>j. if j = graph_claims then ''c'' else ''x'')\<rparr>,
     acr_sha256 = (\<lambda>bs. replicate 64 CHR ''0''), acr_runes = map (\<lambda>c. [c]), acr_letter = (\<lambda>x. False),
     acr_format_seconds = (\<lambda>t. if t = 4600 * nanos then ''4600'' else []), acr_now = 1000 * nanos\<rparr>"


definition exchange_request :: web_request where
  "exchange_request = \<lparr>web_http = root_request\<lparr>rq_path := ''/oauth2/token'',
       rq_query := [(''service'', [''https://graph.microsoft.com''])], rq_header := [(''Authorization'', [''Bearer h.a.s''])]\<rparr>,
     web_host = ''lab'', web_tls = False, web_remote = ''127.0.0.1:5000'', web_form = None, web_body = []\<rparr>"




definition push_request :: "string \<Rightarrow> web_request" where
  "push_request digest = exchange_request\<lparr>web_http := root_request\<lparr>rq_method := ''PUT'',
     rq_path := ''/v2/app/blobs/uploads/u1'', rq_query := [(''digest'', [digest])]\<rparr>\<rparr>"

definition pull_request :: web_request where
  "pull_request = exchange_request\<lparr>web_http := root_request\<lparr>rq_path := ''/v2/app/blobs/x''\<rparr>\<rparr>"

definition zero_digest :: string where
  "zero_digest = ''sha256:'' @ replicate 64 CHR ''0''"

definition upload_store :: store where
  "upload_store = empty_store\<lparr>st_registry := empty_registry\<lparr>tb_acr_uploads := [(''u1'', ''app'')]\<rparr>\<rparr>"

theorem pushed_blobs_stay_witness:
  "\<exists>rs s1 digest ct content. acr_putUpload lab_registry upload_store (push_request zero_digest) (Inr [1, 2]) ''app'' ''u1'' = (rs, s1) \<and>
    rs_code rs = 201 \<and> acr_getBlob lab_registry s1 pull_request digest False = write_content ct digest False content \<and>
    sha256Digest lab_registry content = digest"
proof -
  have whole: "take (maxV2Body + 1) [1, 2 :: byte] = [1, 2]" by (simp add: maxV2Body_def)
  have size: "\<not> length [1, 2 :: byte] > maxV2Body" by (simp add: maxV2Body_def)
  have gate: "requireV2 lab_registry upload_store (push_request zero_digest) ''app'' True = None" by code_simp
  have digest: "trim_space (query_get (web_http (push_request zero_digest)) ''digest'') = zero_digest"
    "zero_digest \<noteq> []" "validDigest zero_digest" "sha256Digest lab_registry [1, 2] = zero_digest" by code_simp+
  have there: "ACRUploadExists upload_store ''u1'' = Inr True" by code_simp
  let ?out = "FinishACRUpload upload_store ''u1'' zero_digest [1, 2]
    (header_get (web_http (push_request zero_digest)) ''Content-Type'')"
  have fin: "fst ?out = Inr True" "db_fault (snd ?out) = None" by code_simp+
  have pull: "requireV2 lab_registry (snd ?out) pull_request
      (v2_name (parseRegistryV2Path (rq_path (web_http pull_request)))) False = None" by code_simp
  have ok: "acr_digests_ok (acr_sha256 lab_registry) upload_store"
    by (simp add: acr_digests_ok_def upload_store_def empty_registry_def)
  obtain rs where put: "acr_putUpload lab_registry upload_store (push_request zero_digest) (Inr [1, 2]) ''app'' ''u1'' = (rs, snd ?out)"
      and code: "rs_code rs = 201"
    using fin(1) whole size
    by (cases ?out) (simp add: acr_putUpload_def gate digest there Let_def)
  have run: "snd ?out = registry_run (acr_sha256 lab_registry) (snd ?out) []" by (simp add: registry_run_def)
  from pushed_blobs_stay [OF ok put code run fin(2) pull] put code show ?thesis by blast
qed

end
