(* ===== verification/Container_Services.thy ===== *)
theory Container_Services
  imports Arm_Lab Store_Observed
begin

text \<open>
  The lab services with operations of their own beside those of the common handler: Kubernetes clusters
  (\<open>internal/services/aks/handler.go\<close>), container apps (\<open>containerapps/handler.go\<close>), the canned chat completions
  (\<open>openai/completions.go\<close>) and the capture of emails (\<open>email/send.go\<close>).
\<close>

section \<open>Kubernetes clusters\<close>

definition aks_service :: arm_service where
  "aks_service = \<lparr>svc_providerKey = ''Microsoft.ContainerService/managedClusters'',
    svc_armType = ''Microsoft.ContainerService/managedClusters'', svc_action = ''Microsoft.ContainerService/managedClusters'',
    svc_path = ''Microsoft.ContainerService/managedClusters''\<rparr>"

datatype aks_op = AksResource arm_op | AksAdminCredential string string string | AksUserCredential string string string

definition aks_route :: "string \<Rightarrow> string list \<Rightarrow> aks_op option" where
  "aks_route method segs =
    (case segs of
       [a, sub, b, rg, c, ns, ty, name, what] \<Rightarrow>
         if a = ''subscriptions'' \<and> b = ''resourceGroups'' \<and> c = ''providers'' \<and> ns @ ''/'' @ ty = svc_path aks_service \<and>
            sub \<noteq> [] \<and> rg \<noteq> [] \<and> name \<noteq> [] \<and> method = ''POST''
         then (if what = ''listClusterAdminCredential'' then Some (AksAdminCredential sub rg name)
               else if what = ''listClusterUserCredential'' then Some (AksUserCredential sub rg name) else None)
         else None
     | _ \<Rightarrow> map_option AksResource (arm_route aks_service method segs))"

definition actionListAdminCred :: string where
  "actionListAdminCred = ''Microsoft.ContainerService/managedClusters/listClusterAdminCredential/action''"

definition actionListUserCred :: string where
  "actionListUserCred = ''Microsoft.ContainerService/managedClusters/listClusterUserCredential/action''"

definition theatreKubeconfig :: "string \<Rightarrow> string" where
  "theatreKubeconfig name = concat (map (\<lambda>l. l @ newline)
    [''apiVersion: v1'', ''kind: Config'', ''clusters:'', ''- cluster:'', ''    server: https://127.0.0.1:6443'',
     ''  name: '' @ name, ''contexts:'', ''- context:'', ''    cluster: '' @ name, ''    user: lab'', ''  name: '' @ name,
     ''current-context: '' @ name, ''users:'', ''- name: lab'', ''  user:'', ''    token: noctaxris-az-aks-theatre''])"

definition aks_require :: "arm_env \<Rightarrow> http_request \<Rightarrow> string \<Rightarrow> string \<Rightarrow> string \<Rightarrow> http_response option" where
  "aks_require env r sub rg action =
    (case RequireARMBearer (ae_lib env) r (ae_auth env) (ae_authz env) action (group_scope sub rg) of
       Inl rs \<Rightarrow> Some rs | Inr p \<Rightarrow> None)"

definition publicProps :: "json_map option \<Rightarrow> json_map" where
  "publicProps props =
    (let out = Public props in
     if out = [] then default_props
     else if map_of out ''provisioningState'' = None then out @ default_props else out)"

definition clusterJSON :: "string \<Rightarrow> string \<Rightarrow> string \<Rightarrow> string \<Rightarrow> json_map option \<Rightarrow> json" where
  "clusterJSON sub rg name location props =
    JObj [(''id'', JStr (group_scope sub rg @ ''/providers/Microsoft.ContainerService/managedClusters/'' @ name)),
          (''name'', JStr name), (''type'', JStr (svc_armType aks_service)), (''location'', JStr location),
          (''properties'', JObj (publicProps props))]"

definition new_cluster_props :: "string \<Rightarrow> json_map" where
  "new_cluster_props name =
    [(''provisioningState'', JStr ''Succeeded''), (''powerState'', JObj [(''code'', JStr ''Running'')]),
     (''kubernetesVersion'', JStr ''1.29.0''), (''fqdn'', JStr (name @ ''.lab.noctaxris-az.local'')),
     (''kubeConfig'', JStr (theatreKubeconfig name))]"

text \<open>The properties given in the body over those of a new resource.\<close>

definition over_props :: "json_map \<Rightarrow> json_map option \<Rightarrow> json_map" where
  "over_props props given = (case given of None \<Rightarrow> props | Some m \<Rightarrow> map_update props m)"

definition aks_put ::
  "arm_env \<Rightarrow> store \<Rightarrow> http_request \<Rightarrow> string \<Rightarrow> string \<Rightarrow> string \<Rightarrow> http_response \<times> store" where
  "aks_put env s r sub rg name =
    (case aks_require env r sub rg ''Microsoft.ContainerService/managedClusters/write'' of
       Some rs \<Rightarrow> (rs, s)
     | None \<Rightarrow>
         (let (loc, given) = decode_put_body (rq_json r);
              location = (if loc = [] then ''eastus'' else loc);
              props = over_props (new_cluster_props name) given in
          case UpsertProviderResource s (svc_providerKey aks_service) sub rg name location (Some (JObj props)) of
            (Inl err, s') \<Rightarrow> (InternalError err, s')
          | (Inr u, s') \<Rightarrow> (writeJSON 200 (clusterJSON sub rg name location (Some (publicProps (Some props)))), s')))"

definition aks_get :: "arm_env \<Rightarrow> store \<Rightarrow> http_request \<Rightarrow> string \<Rightarrow> string \<Rightarrow> string \<Rightarrow> http_response" where
  "aks_get env s r sub rg name =
    (case aks_require env r sub rg ''Microsoft.ContainerService/managedClusters/read'' of
       Some rs \<Rightarrow> rs
     | None \<Rightarrow>
         (case GetProviderResource s (svc_providerKey aks_service) sub rg name of
            Inl err \<Rightarrow> InternalError err
          | Inr None \<Rightarrow> NotFound ''resource not found''
          | Inr (Some row) \<Rightarrow>
              (let props = (case unmarshal_map (pv_PropertiesJSON row) of None \<Rightarrow> default_props | Some m \<Rightarrow> m) in
               writeJSON 200 (clusterJSON sub rg name (pv_Location row) (Some (publicProps (Some props)))))))"

definition aks_delete ::
  "arm_env \<Rightarrow> store \<Rightarrow> http_request \<Rightarrow> string \<Rightarrow> string \<Rightarrow> string \<Rightarrow> http_response \<times> store" where
  "aks_delete env s r sub rg name =
    (case aks_require env r sub rg ''Microsoft.ContainerService/managedClusters/delete'' of
       Some rs \<Rightarrow> (rs, s)
     | None \<Rightarrow>
         (case DeleteProviderResource s (svc_providerKey aks_service) sub rg name of
            (Inl err, s') \<Rightarrow> (InternalError err, s')
          | (Inr False, s') \<Rightarrow> (NotFound ''resource not found'', s')
          | (Inr True, s') \<Rightarrow> (writeHeader 200, s')))"

definition aks_list :: "arm_env \<Rightarrow> store \<Rightarrow> http_request \<Rightarrow> string \<Rightarrow> string \<Rightarrow> http_response" where
  "aks_list env s r sub rg =
    (case aks_require env r sub rg ''Microsoft.ContainerService/managedClusters/read'' of
       Some rs \<Rightarrow> rs
     | None \<Rightarrow>
         (case ListProviderResources s (svc_providerKey aks_service) sub rg of
            Inl err \<Rightarrow> InternalError err
          | Inr rows \<Rightarrow>
              writeJSON 200 (JObj [(''value'', JArr (map (\<lambda>row.
                 clusterJSON (pv_SubscriptionID row) (pv_ResourceGroup row) (pv_Name row) (pv_Location row)
                   (Some (publicProps (unmarshal_map (pv_PropertiesJSON row))))) rows))])))"

text \<open>The string under a key of the stored properties, empty where there is none.\<close>

definition prop_string :: "json_map option \<Rightarrow> string \<Rightarrow> string" where
  "prop_string props k =
    (case props of None \<Rightarrow> [] | Some m \<Rightarrow> (case map_of m k of Some (JStr t) \<Rightarrow> t | _ \<Rightarrow> []))"

definition credentialJSON :: "string \<Rightarrow> json" where
  "credentialJSON kube =
    JObj [(''kubeconfigs'', JArr [JObj [(''name'', JStr ''clusterAdmin''), (''value'', JStr kube)]])]"

definition listCredential ::
  "arm_env \<Rightarrow> store \<Rightarrow> http_request \<Rightarrow> string \<Rightarrow> string \<Rightarrow> string \<Rightarrow> string \<Rightarrow> http_response" where
  "listCredential env s r action sub rg name =
    (case aks_require env r sub rg action of
       Some rs \<Rightarrow> rs
     | None \<Rightarrow>
         (case GetProviderResource s (svc_providerKey aks_service) sub rg name of
            Inl err \<Rightarrow> InternalError err
          | Inr None \<Rightarrow> NotFound ''resource not found''
          | Inr (Some row) \<Rightarrow>
              (let kube = prop_string (unmarshal_map (pv_PropertiesJSON row)) ''kubeConfig'' in
               writeJSON 200 (credentialJSON (if kube = [] then theatreKubeconfig name else kube)))))"

definition aks_handle :: "arm_env \<Rightarrow> store \<Rightarrow> http_request \<Rightarrow> aks_op \<Rightarrow> http_response \<times> store" where
  "aks_handle env s r op =
    (case op of
       AksResource (ArmPut sub rg name) \<Rightarrow> aks_put env s r sub rg name
     | AksResource (ArmGet sub rg name) \<Rightarrow> (aks_get env s r sub rg name, s)
     | AksResource (ArmDelete sub rg name) \<Rightarrow> aks_delete env s r sub rg name
     | AksResource (ArmList sub rg) \<Rightarrow> (aks_list env s r sub rg, s)
     | AksAdminCredential sub rg name \<Rightarrow> (listCredential env s r actionListAdminCred sub rg name, s)
     | AksUserCredential sub rg name \<Rightarrow> (listCredential env s r actionListUserCred sub rg name, s))"

section \<open>Container apps\<close>

definition containerapps_service :: arm_service where
  "containerapps_service = \<lparr>svc_providerKey = ''Microsoft.App/containerApps'', svc_armType = ''Microsoft.App/containerApps'',
    svc_action = ''Microsoft.App/containerApps'', svc_path = ''Microsoft.App/containerApps''\<rparr>"

datatype capp_op = CappResource arm_op | CappRevisions string string string

definition capp_route :: "string \<Rightarrow> string list \<Rightarrow> capp_op option" where
  "capp_route method segs =
    (case segs of
       [a, sub, b, rg, c, ns, ty, name, what] \<Rightarrow>
         if a = ''subscriptions'' \<and> b = ''resourceGroups'' \<and> c = ''providers'' \<and>
            ns @ ''/'' @ ty = svc_path containerapps_service \<and> sub \<noteq> [] \<and> rg \<noteq> [] \<and> name \<noteq> [] \<and>
            (method = ''GET'' \<or> method = ''HEAD'') \<and> what = ''revisions''
         then Some (CappRevisions sub rg name) else None
     | _ \<Rightarrow> map_option CappResource (arm_route containerapps_service method segs))"

text \<open>A property that is set only where it is missing.\<close>

definition with_default :: "string \<Rightarrow> json \<Rightarrow> json_map \<Rightarrow> json_map" where
  "with_default k v m = (if map_of m k = None then AList.update k v m else m)"

definition capp_props :: "string \<Rightarrow> json_map option \<Rightarrow> json_map" where
  "capp_props name given =
    with_default ''runningStatus'' (JStr ''Running'')
      (with_default ''latestRevisionName'' (JStr (name @ ''--0000001'')) (over_props default_props given))"

definition capp_put ::
  "arm_env \<Rightarrow> store \<Rightarrow> http_request \<Rightarrow> string \<Rightarrow> string \<Rightarrow> string \<Rightarrow> http_response \<times> store" where
  "capp_put env s r sub rg name =
    (case arm_require env r sub rg ''Microsoft.App/containerApps/write'' of
       Some rs \<Rightarrow> (rs, s)
     | None \<Rightarrow>
         (let (loc, given) = decode_put_body (rq_json r);
              location = (if loc = [] then ''eastus'' else loc);
              props = capp_props name given in
          case UpsertProviderResource s (svc_providerKey containerapps_service) sub rg name location (Some (JObj props)) of
            (Inl err, s') \<Rightarrow> (InternalError err, s')
          | (Inr u, s') \<Rightarrow> (writeJSON 200 (resourceJSON containerapps_service sub rg name location (Some props)), s')))"

definition revisionJSON :: "string \<Rightarrow> string \<Rightarrow> string \<Rightarrow> string \<Rightarrow> string \<Rightarrow> string \<Rightarrow> bool \<Rightarrow> json" where
  "revisionJSON sub rg name rev0 running health active =
    JObj [(''id'', JStr (group_scope sub rg @ ''/providers/Microsoft.App/containerApps/'' @ name @ ''/revisions/'' @ rev0)),
      (''name'', JStr rev0), (''type'', JStr ''Microsoft.App/containerApps/revisions''),
      (''properties'', JObj [(''runningState'', JStr running), (''healthState'', JStr health), (''active'', JBool active)])]"

definition containerAppRevisions :: "string \<Rightarrow> string \<Rightarrow> string \<Rightarrow> json_map \<Rightarrow> json list" where
  "containerAppRevisions sub rg name props =
    (case map_of props ''revisions'' of
       Some (JArr raw) \<Rightarrow> raw
     | _ \<Rightarrow>
         (let latest = prop_string (Some props) ''latestRevisionName'';
              revision = (if latest = [] then name @ ''--0000001'' else latest);
              status = prop_string (Some props) ''runningStatus'';
              running = (if status = [] then ''Running'' else status);
              failed = to_lower running \<in> set [''failed'', ''crashloop'', ''crashloopbackoff''] in
          [if failed then revisionJSON sub rg name revision ''Failed'' ''Unhealthy'' False
           else revisionJSON sub rg name revision running ''Healthy'' True]))"

definition listRevisions :: "arm_env \<Rightarrow> store \<Rightarrow> http_request \<Rightarrow> string \<Rightarrow> string \<Rightarrow> string \<Rightarrow> http_response" where
  "listRevisions env s r sub rg name =
    (case arm_require env r sub rg ''Microsoft.App/containerApps/revisions/read'' of
       Some rs \<Rightarrow> rs
     | None \<Rightarrow>
         (case GetProviderResource s (svc_providerKey containerapps_service) sub rg name of
            Inl err \<Rightarrow> InternalError err
          | Inr None \<Rightarrow> NotFound ''resource not found''
          | Inr (Some row) \<Rightarrow>
              (let props = (case unmarshal_map (pv_PropertiesJSON row) of None \<Rightarrow> [] | Some m \<Rightarrow> m) in
               writeJSON 200 (JObj [(''value'', JArr (containerAppRevisions sub rg name props))]))))"

text \<open>GET, DELETE and the list are those of the common handler.\<close>

definition capp_handle :: "arm_env \<Rightarrow> store \<Rightarrow> http_request \<Rightarrow> capp_op \<Rightarrow> http_response \<times> store" where
  "capp_handle env s r op =
    (case op of
       CappResource (ArmPut sub rg name) \<Rightarrow> capp_put env s r sub rg name
     | CappResource aop \<Rightarrow> arm_handle containerapps_service env s r aop
     | CappRevisions sub rg name \<Rightarrow> (listRevisions env s r sub rg name, s))"

section \<open>Completions and emails\<close>

definition allowedModels :: "string list" where
  "allowedModels = [''gpt-4o-mini'', ''gpt-35-turbo'', ''gpt-3.5-turbo'']"

definition completion_scope :: "string \<Rightarrow> ProviderResource option \<Rightarrow> string" where
  "completion_scope name found =
    (case found of
       None \<Rightarrow> ''/subscriptions/'' @ DefaultSubscriptionID @ ''/providers/Microsoft.CognitiveServices/accounts/'' @ name
     | Some row \<Rightarrow> group_scope (pv_SubscriptionID row) (pv_ResourceGroup row) @
         ''/providers/Microsoft.CognitiveServices/accounts/'' @ name)"

definition completionJSON :: "string \<Rightarrow> json" where
  "completionJSON model =
    JObj [(''id'', JStr ''chatcmpl-lab''), (''object'', JStr ''chat.completion''), (''model'', JStr model),
      (''choices'', JArr [JObj [(''index'', JNum 0),
        (''message'', JObj [(''role'', JStr ''assistant''), (''content'', JStr ''noctaxris-az canned response'')]),
        (''finish_reason'', JStr ''stop'')]])]"

definition chatCompletions :: "arm_env \<Rightarrow> store \<Rightarrow> http_request \<Rightarrow> string \<Rightarrow> http_response" where
  "chatCompletions env s r name =
    (case GetProviderResourceByName s (svc_providerKey openai_service) name of
       Inl e \<Rightarrow> InternalError e
     | Inr found \<Rightarrow>
         (case RequireDataPlaneBearer (ae_lib env) r (ae_auth env) (ae_authz env) (Some AllowsCognitive)
             ''Microsoft.CognitiveServices/accounts/deployments/chat/completions/action'' (completion_scope name found) of
            Inl rs \<Rightarrow> rs
          | Inr p \<Rightarrow>
              if found = None then NotFound ''account not found''
              else (let model = trim_space (fst (decode_strings [''model''] (rq_json r)) ''model'') in
                if model \<notin> set allowedModels then BadRequest ''model not allowlisted''
                else writeJSON 200 (completionJSON model))))"

text \<open>
  The address of the first recipient. Names match without case; of fields that are given twice the last counts.
\<close>

definition folded_field :: "json \<Rightarrow> string \<Rightarrow> json option" where
  "folded_field j name =
    (case j of JObj kvs \<Rightarrow> map_option snd (find (\<lambda>(k, v). equal_fold k name) (rev kvs)) | _ \<Rightarrow> None)"

definition first_recipient :: "json option \<Rightarrow> string" where
  "first_recipient body =
    (case body of
       None \<Rightarrow> []
     | Some b \<Rightarrow> (case folded_field b ''recipients'' of
         None \<Rightarrow> []
       | Some rcp \<Rightarrow> (case folded_field rcp ''to'' of
           Some (JArr (x # xs)) \<Rightarrow> (case folded_field x ''address'' of Some (JStr t) \<Rightarrow> t | _ \<Rightarrow> [])
         | _ \<Rightarrow> [])))"

definition sendEmail :: "arm_env \<Rightarrow> store \<Rightarrow> http_request \<Rightarrow> http_response \<times> store" where
  "sendEmail env s r =
    (case RequireDataPlaneBearer (ae_lib env) r (ae_auth env) (ae_authz env) (Some AllowsCommunication)
        ''Microsoft.Communication/emailServices/write'' (''/subscriptions/'' @ DefaultSubscriptionID) of
       Inl rs \<Rightarrow> (rs, s)
     | Inr p \<Rightarrow>
         (let content = decode_nested ''content'' [''subject'', ''plainText''] (rq_json r) in
          case CaptureEmail s ''default'' (first_recipient (rq_json r)) (content ''subject'') (content ''plainText'') of
            (Inl e, s') \<Rightarrow> (InternalError e, s')
          | (Inr u, s') \<Rightarrow> (writeJSON 202 (JObj [(''id'', JStr ''email-lab''), (''status'', JStr ''Captured'')]), s')))"

section \<open>What they promise\<close>

lemma aks_require_passes:
  "aks_require env r sub rg action = None \<longleftrightarrow> arm_authorized env r action (group_scope sub rg)"
  using arm_gate_passes [of "ae_lib env" r "ae_auth env" "ae_authz env" action "group_scope sub rg"]
  by (auto simp: aks_require_def arm_authorized_def split: sum.split)

lemma aks_require_refuses: "aks_require env r sub rg action = Some rs \<Longrightarrow> rs_code rs \<in> {401, 403, 500}"
  by (auto simp: aks_require_def RequireARMBearer_def dest: gate_denies split: sum.splits)

definition aks_need :: "aks_op \<Rightarrow> string \<times> string" where
  "aks_need op =
    (case op of
       AksResource aop \<Rightarrow> (op_action aks_service aop, op_scope aop)
     | AksAdminCredential sub rg name \<Rightarrow> (actionListAdminCred, group_scope sub rg)
     | AksUserCredential sub rg name \<Rightarrow> (actionListUserCred, group_scope sub rg))"

lemma aks_closed:
  assumes "\<not> arm_authorized env r (fst (aks_need op)) (snd (aks_need op))"
  shows "rs_code (fst (aks_handle env s r op)) \<in> {401, 403, 500} \<and> snd (aks_handle env s r op) = s"
proof -
  have denied: "\<exists>rs. aks_require env r sub rg action = Some rs \<and> rs_code rs \<in> {401, 403, 500}"
    if "\<not> arm_authorized env r action (group_scope sub rg)" for sub rg action
    using that aks_require_passes [of env r sub rg action] aks_require_refuses [of env r sub rg action]
    by (cases "aks_require env r sub rg action") auto
  show ?thesis
  proof (cases op)
    case (AksResource aop)
    with assms show ?thesis
      by (cases aop) (auto simp: aks_need_def op_action_def op_scope_def aks_service_def aks_handle_def aks_put_def
          aks_get_def aks_delete_def aks_list_def dest!: denied)
  qed (use assms in \<open>auto simp: aks_need_def aks_handle_def listCredential_def dest!: denied\<close>)
qed

lemma publicProps_hide: "(k, v) \<in> set (publicProps props) \<Longrightarrow> \<not> isSecretPropertyKey k"
proof -
  assume "(k, v) \<in> set (publicProps props)"
  moreover have "\<not> isSecretPropertyKey ''provisioningState''" by code_simp
  ultimately show ?thesis
    by (auto simp: publicProps_def Public_def default_props_def Let_def split: if_splits option.splits)
qed

lemma no_kubeconfigs:
  "json_field (rs_body (Forbidden m)) ''kubeconfigs'' = None" "json_field (rs_body (NotFound m)) ''kubeconfigs'' = None"
  "json_field (rs_body (InternalError m)) ''kubeconfigs'' = None"
  "json_field (rs_body (writeHeader c)) ''kubeconfigs'' = None"
  "json_field (rs_body (writeJSON 200 (clusterJSON sub rg name l p))) ''kubeconfigs'' = None"
  "json_field (rs_body (writeJSON 200 (JObj [(''value'', v)]))) ''kubeconfigs'' = None"
  by (simp_all add: Forbidden_def NotFound_def InternalError_def WriteARM_def writeJSON_def writeHeader_def clusterJSON_def)

lemma refusal_shows_nothing:
  "aks_require env r sub rg action = Some rs \<Longrightarrow> json_field (rs_body rs) ''kubeconfigs'' = None"
  by (auto simp: aks_require_def RequireARMBearer_def RequireDataPlaneBearer_def Unauthenticated_def
      InvalidAuthenticationTokenAudience_def no_kubeconfigs WriteARM_def writeJSON_def
      split: sum.splits option.splits if_splits)

lemma resources_show_no_kubeconfigs:
  "json_field (rs_body (fst (aks_handle env s r (AksResource aop)))) ''kubeconfigs'' = None"
  by (cases aop)
    (auto simp: aks_handle_def aks_put_def aks_get_def aks_delete_def aks_list_def Let_def split_beta no_kubeconfigs
      refusal_shows_nothing split: option.split sum.split prod.split bool.split)

text \<open>
  The credentials of a cluster are only answered to a caller who may list them, and the properties that PUT and GET
  answer never have a secret one among them.
\<close>

theorem cluster_credentials_need_their_action:
  "(json_field (rs_body (fst (aks_handle env s r op))) ''kubeconfigs'' = None \<or>
     (\<exists>sub rg name. op = AksAdminCredential sub rg name \<and> arm_authorized env r actionListAdminCred (group_scope sub rg)) \<or>
     (\<exists>sub rg name. op = AksUserCredential sub rg name \<and> arm_authorized env r actionListUserCred (group_scope sub rg))) \<and>
   (\<forall>props k v. (k, v) \<notin> set (publicProps props) \<or> \<not> isSecretPropertyKey k)"
proof (cases op)
  case (AksResource aop)
  with publicProps_hide show ?thesis by (auto simp: resources_show_no_kubeconfigs)
next
  case (AksAdminCredential sub rg name)
  with publicProps_hide show ?thesis
    by (cases "aks_require env r sub rg actionListAdminCred")
      (auto simp: aks_handle_def listCredential_def refusal_shows_nothing aks_require_passes)
next
  case (AksUserCredential sub rg name)
  with publicProps_hide show ?thesis
    by (cases "aks_require env r sub rg actionListUserCred")
      (auto simp: aks_handle_def listCredential_def refusal_shows_nothing aks_require_passes)
qed

text \<open>As the documentation has it: Reader may not list them, Contributor and Owner may.\<close>

lemma who_lists_credentials:
  "roleGrants RoleReader actionListAdminCred = False" "roleGrants RoleReader actionListUserCred = False"
  "roleGrants RoleContributor actionListAdminCred" "roleGrants RoleOwner actionListUserCred"
  by code_simp+

lemma failed_revisions:
  assumes "map_of props ''revisions'' = None" "to_lower (prop_string (Some props) ''runningStatus'') = ''crashloopbackoff''"
  shows "\<exists>rev. containerAppRevisions sub rg name props = [revisionJSON sub rg name rev ''Failed'' ''Unhealthy'' False]"
proof -
  have "prop_string (Some props) ''runningStatus'' \<noteq> []" using assms(2) by (auto simp: to_lower_def)
  with assms show ?thesis by (auto simp: containerAppRevisions_def Let_def)
qed

lemma email_closed:
  assumes "\<nexists>p. authorized (ae_lib env) (ae_auth env) (ae_authz env) AllowsCommunication r
    ''Microsoft.Communication/emailServices/write'' (''/subscriptions/'' @ DefaultSubscriptionID) p"
  shows "rs_code (fst (sendEmail env s r)) \<in> {401, 403, 500} \<and> snd (sendEmail env s r) = s"
proof -
  let ?g = "RequireDataPlaneBearer (ae_lib env) r (ae_auth env) (ae_authz env) (Some AllowsCommunication)
    ''Microsoft.Communication/emailServices/write'' (''/subscriptions/'' @ DefaultSubscriptionID)"
  from assms obtain rs where "?g = Inl rs" by (cases ?g) (auto simp: gate_passes)
  with gate_denies [OF this] show ?thesis by (simp add: sendEmail_def)
qed

text \<open>Only models of the list are answered for, and only for accounts that exist.\<close>

lemma completions_are_listed:
  assumes "rs_code (chatCompletions env s r name) = 200"
  shows "\<exists>model row. model \<in> set allowedModels \<and> chatCompletions env s r name = writeJSON 200 (completionJSON model) \<and>
    GetProviderResourceByName s (svc_providerKey openai_service) name = Inr (Some row)"
proof -
  have refused: "rs_code rs \<noteq> 200"
    if "RequireDataPlaneBearer (ae_lib env) r (ae_auth env) (ae_authz env) (Some AllowsCognitive) action scope = Inl rs"
    for rs action scope
    using gate_denies [OF that] by auto
  from assms show ?thesis
    by (auto simp: chatCompletions_def Let_def dest: refused split: sum.splits if_splits)
qed

end
