(* ===== verification/Lab_Forensics.thy ===== *)
theory Lab_Forensics
  imports Service_Gate Store_Observed
begin

text \<open>
  The laboratory's clock and its seeded incidents, \<open>internal/server/lab_forensics.go\<close>. The server keeps an optional
  fixed time beside the store. Times are nanoseconds of the Unix epoch.
\<close>

section \<open>The clock\<close>

text \<open>
  \<open>lf_now\<close> is the wall time, the formats are RFC 3339 in seconds and nanoseconds, \<open>lf_json\<close> is \<open>json.Marshal\<close> and
  \<open>lf_quote\<close> the verb \<open>%q\<close>.
\<close>

record forensics_env =
  lf_lib :: stdlib
  lf_LabForensics :: bool
  lf_SubscriptionID :: string
  lf_TenantID :: string
  lf_now :: int
  lf_format_seconds :: "int \<Rightarrow> string"
  lf_format_nano :: "int \<Rightarrow> string"
  lf_json :: "json \<Rightarrow> string"
  lf_quote :: "string \<Rightarrow> string"







section \<open>Requests\<close>

datatype forensics_op = ClockFreeze | ClockUnfreeze | ClockSet | BulkSeed

definition forensics_route :: "string \<Rightarrow> string \<Rightarrow> forensics_op option" where
  "forensics_route method path =
    (if method \<noteq> ''POST'' then None
     else if path = ''/_noctaxris-az/lab/clock:freeze'' then Some ClockFreeze
     else if path = ''/_noctaxris-az/lab/clock:unfreeze'' then Some ClockUnfreeze
     else if path = ''/_noctaxris-az/lab/clock:set'' then Some ClockSet
     else if path = ''/_noctaxris-az/lab/bulkSeed'' then Some BulkSeed else None)"





section \<open>Scenarios\<close>

record labAssessment =
  las_ID :: string
  las_Type :: string
  las_Name :: string
  las_Sub :: string
  las_RG :: string
  las_Tenant :: string
  las_Props :: json

type_synonym lab_scenario = "activity_row list \<times> (string \<times> json) list \<times> labAssessment list"

definition minutes :: "int \<Rightarrow> int" where
  "minutes n = n * 60 * nanos"

definition labScenarioSuspiciousSignin :: "forensics_env \<Rightarrow> string \<Rightarrow> string \<Rightarrow> int \<Rightarrow> lab_scenario" where
  "labScenarioSuspiciousSignin env sub tenant base =
    (let t = base - minutes 120;
         ident = lf_json env (JObj [(''authorization'', JObj [(''evidence'',
           JObj [(''principalType'', JStr ''ServicePrincipal''), (''principalId'', JStr ''sp-contractor'')])])]) in
     ([\<lparr>act_timestamp = t, act_caller = ''sp-contractor'', act_operation = ''Microsoft.Authorization/login/action'',
        act_resource_id = ''/subscriptions/'' @ sub, act_status = ''Succeeded'', act_message = ''service principal token'',
        act_client_ip = ''203.0.113.44'', act_identity = ident\<rparr>],
      [(''AADServicePrincipalSignInLogs'', JObj [(''TimeGenerated'', JStr (lf_format_nano env t)),
        (''AppId'', JStr ''sp-contractor''), (''ServicePrincipalName'', JStr ''sp-contractor''),
        (''IPAddress'', JStr ''203.0.113.44''), (''ResultType'', JStr ''0''),
        (''ResourceDisplayName'', JStr ''https://management.azure.com'')])],
      []))"

definition lab_assessment :: "string \<Rightarrow> string \<Rightarrow> string \<Rightarrow> json \<Rightarrow> labAssessment" where
  "lab_assessment sub tenant name props =
    \<lparr>las_ID = ''/subscriptions/'' @ sub @ ''/providers/Microsoft.Security/assessments/'' @ name,
     las_Type = ''microsoft.security/assessments'', las_Name = name, las_Sub = sub, las_RG = ''rg1'',
     las_Tenant = tenant, las_Props = props\<rparr>"

definition labScenarioBlobExfil :: "forensics_env \<Rightarrow> string \<Rightarrow> string \<Rightarrow> int \<Rightarrow> lab_scenario" where
  "labScenarioBlobExfil env sub tenant base =
    (let t1 = base - minutes 45; t2 = base - minutes 30; acct = ''corp-sensitive'';
         rid = ''/subscriptions/'' @ sub @ ''/resourceGroups/rg1/providers/Microsoft.Storage/storageAccounts/'' @ acct;
         ident = lf_json env (JObj [(''claims'', JObj [(''appid'', JStr ''investigator'')])]) in
     ([\<lparr>act_timestamp = t1, act_caller = ''investigator'', act_operation = ''Microsoft.Storage/storageAccounts/listKeys/action'',
        act_resource_id = rid, act_status = ''Succeeded'', act_message = [], act_client_ip = ''198.51.100.8'',
        act_identity = ident\<rparr>,
       \<lparr>act_timestamp = t2, act_caller = ''investigator'',
        act_operation = ''Microsoft.Storage/storageAccounts/blobServices/containers/blobs/read'',
        act_resource_id = rid @ ''/blobServices/default/containers/finance/blobs/q1-report.csv'', act_status = ''Succeeded'',
        act_message = [], act_client_ip = ''198.51.100.8'', act_identity = ident\<rparr>],
      [(''DataPlaneRequests'', JObj [(''TimeGenerated'', JStr (lf_format_nano env t2)), (''AccountName'', JStr acct),
        (''Uri'', JStr (''https://'' @ acct @ ''.blob.core.windows.net/finance/q1-report.csv'')),
        (''OperationName'', JStr ''GetBlob''), (''CallerIpAddress'', JStr ''198.51.100.8''), (''StatusCode'', JNum 200)])],
      [lab_assessment sub tenant ''blob-exfil-1'' (JObj [(''displayName'', JStr ''Storage data-plane read volume''),
        (''status'', JObj [(''code'', JStr ''Unhealthy'')]),
        (''resourceDetails'', JObj [(''Source'', JStr ''Azure''), (''Id'', JStr rid)])])]))"

definition labScenarioCryptoMining :: "forensics_env \<Rightarrow> string \<Rightarrow> string \<Rightarrow> int \<Rightarrow> lab_scenario" where
  "labScenarioCryptoMining env sub tenant base =
    (let t = base - minutes 15;
         vm = ''/subscriptions/'' @ sub @ ''/resourceGroups/rg1/providers/Microsoft.Compute/virtualMachines/miner'' in
     ([\<lparr>act_timestamp = t, act_caller = ''devops'', act_operation = ''Microsoft.Compute/virtualMachines/write'',
        act_resource_id = vm, act_status = ''Succeeded'', act_message = [], act_client_ip = ''203.0.113.90'',
        act_identity = []\<rparr>],
      [(''ContainerAppSystemLogs'', JObj [(''TimeGenerated'', JStr (lf_format_nano env t)),
        (''ContainerAppName'', JStr ''worker''), (''RevisionName'', JStr ''worker--0000001''),
        (''Log'', JStr ''CrashLoopBackOff''), (''Type'', JStr ''Normal''), (''Reason'', JStr ''Unhealthy'')])],
      [lab_assessment sub tenant ''crypto-mining-1''
        (JObj [(''displayName'', JStr ''Virtual machine communicating with crypto-mining pool''),
          (''status'', JObj [(''code'', JStr ''Unhealthy''), (''cause'', JStr ''CryptoMining'')]),
          (''resourceDetails'', JObj [(''Source'', JStr ''Azure''), (''Id'', JStr vm)])])]))"

definition labScenarioPack :: "forensics_env \<Rightarrow> string \<Rightarrow> string \<Rightarrow> string \<Rightarrow> int \<Rightarrow> lab_scenario result" where
  "labScenarioPack env sub tenant scenarioID base =
    (if scenarioID = ''suspicious-signin'' then Inr (labScenarioSuspiciousSignin env sub tenant base)
     else if scenarioID = ''blob-exfil'' then Inr (labScenarioBlobExfil env sub tenant base)
     else if scenarioID = ''crypto-mining'' then Inr (labScenarioCryptoMining env sub tenant base)
     else Inl (''unknown scenarioId '' @ lf_quote env scenarioID @
       '' (known: suspicious-signin, blob-exfil, crypto-mining)''))"






section \<open>Who may turn the clock\<close>






section \<open>The clock holds\<close>






text \<open>Seeded incidents are dated within the two hours before the clock of the laboratory.\<close>

lemma seeded_events_are_recent:
  assumes "labScenarioPack env sub tenant i base = Inr (events, logs, assessments)" "e \<in> set events"
  shows "base - minutes 120 \<le> act_timestamp e \<and> act_timestamp e < base"
  using assms
  by (auto simp: labScenarioPack_def labScenarioSuspiciousSignin_def labScenarioBlobExfil_def labScenarioCryptoMining_def
      minutes_def nanos_def Let_def split: if_splits)

section \<open>Witnesses\<close>




end
