(* ===== verification/Management_Plane.thy ===== *)
theory Management_Plane
  imports Front_Door App_Config_Rules Function_Apps Inventory_Rules Monitor_Rules Container_Services Lab_Forensics Registry
begin

text \<open>
  The server put together, \<open>internal/server/server.go\<close> and \<open>register_app.go\<close>, \<open>register_data.go\<close>, \<open>register_edge.go\<close>,
  \<open>register_identity.go\<close>, \<open>register_network.go\<close>, \<open>register_observe.go\<close>: the middleware, the router and the handlers of the
  management plane over one store and one clock. The data planes, the directory and the token endpoint have theories of
  their own.
\<close>

section \<open>The server\<close>











section \<open>Nothing changes without a grant\<close>











section \<open>Witness\<close>




end
