(* ===== verification/Spec2Isabelle.thy ===== *)
theory Spec2Isabelle
  imports Amqp_Session Storage_Service Key_Vault Front_Door Role_Assignments Server_Config Managed_Identity App_Config_Rules Function_Apps Inventory_Rules Monitor_Rules Table_Rules Cosmos_Service Event_Hubs Event_Grid Registry_Rules Management_Plane
begin

text \<open>
  A verification library for Noctaxris-AZ, a single Go process that serves an Azure-shaped
  laboratory: HTTP for Resource Manager, Graph, the token endpoint and the data planes, AMQP 1.0 for
  Service Bus, one SQLite file behind both. A request is authenticated
  (\<open>internal/kernel/authn\<close>), passes a gate that asks for the audience of its token and for a role
  assignment (\<open>azauth\<close>, \<open>authz\<close>), and then runs a handler (\<open>internal/services\<close>) over the store
  (\<open>internal/store\<close>). All paths below are under \<open>src/internal\<close>.

  The prelude and the libraries of Go. \<open>Go_Prelude\<close> has strings as lists of byte characters, results
  as sums and the functions of \<open>strings\<close>; \<open>Url_Values\<close> has \<open>net/url\<close> and \<open>strconv\<close>; \<open>Go_Net\<close> has
  \<open>net.SplitHostPort\<close> and \<open>net.ParseIP\<close>; \<open>Http_Types\<close> has requests, responses, JSON documents and the
  error envelopes of \<open>azerrors/errors.go\<close>. Hashing, sealing, JSON text, the clock and random draws are
  fields of environment records (\<open>stdlib\<close>, \<open>crypto\<close>, \<open>bcrypt\<close>, \<open>x509\<close>, \<open>arm_env\<close> and its extensions):
  a theorem that needs a law of one of them states it as a named hypothesis and has a witness with a
  concrete function.

  The store. \<open>Store_Tables\<close> is the SQL the sources issue, on lists of rows, with two contracts as
  locales: a keyed table is a map and a table with a growing id is a family of queues. \<open>Store_Rows\<close> has
  the rows of the tables of \<open>store/schema.go\<close> with the Go structs they are scanned into, \<open>Store_State\<close>
  the record of all tables and the fault a broken database answers with. \<open>Store_Arm\<close>
  (\<open>resources.go\<close>, \<open>arm.go\<close>, parts of \<open>store.go\<close>, \<open>app_observe.go\<close>), \<open>Store_Data\<close> (\<open>data.go\<close>, \<open>seal.go\<close>,
  \<open>servicebus.go\<close>), \<open>Store_Directory\<close> (\<open>directory.go\<close>, \<open>entra.go\<close>, \<open>password.go\<close>) and \<open>Store_Credentials\<close>
  (\<open>directory.go\<close>, \<open>identity_extra.go\<close>, \<open>fic_match.go\<close>) have one definition per method of the store;
  \<open>Store_Sealed\<close> and \<open>Store_Queues\<close> show what those promise and interpret the contracts on them: keys
  of an account stay the same, a secret is there until it is deleted and comes back when it is
  recovered, queues are first in first out, blobs are a map.

  \<open>Store_Observed\<close> (\<open>app_observe.go\<close>, \<open>loganalytics.go\<close>), \<open>Store_Settings\<close> (App Configuration and Function Apps) and
  \<open>Store_Documents\<close> (\<open>table.go\<close>, \<open>cosmos.go\<close>) have the other tables; the methods for Event Hubs, Event Grid and
  the container registry stand with their services.

  Authentication and authorization. \<open>Authn\<close> (\<open>kernel/authn\<close>): bearer tokens, audiences, shared keys, SAS
  tokens. \<open>Role_Catalogue\<close> and \<open>Rbac_Eval\<close> (\<open>kernel/authz\<close>): the built-in roles, the scope chain, group
  expansion and the decision, with the abstract decision they implement. \<open>Az_Gate\<close> (\<open>kernel/azauth\<close>) and
  \<open>Service_Gate\<close>: the gates of the services. \<open>Front_Door\<close> (\<open>kernel/hostroute\<close>, \<open>server/arm_path.go\<close>,
  \<open>server/server.go\<close>): rewriting of virtual hosts, canonical Resource Manager paths and the middleware.
  \<open>Network_Guard\<close> and \<open>Server_Config\<close> (\<open>config/config.go\<close>, \<open>kernel/httpegress\<close>, \<open>cmd/noctaxris-az\<close>): where the
  program listens, what it fetches, what it may start, and how the environment is read.

  Entra ID. \<open>Entra_Core\<close>, \<open>Entra_Tokens\<close> and \<open>Entra_Sessions\<close> (\<open>services/entra\<close>): discovery, signing keys, the token
  endpoint with every grant, device codes, Conditional Access; a token is only given to who proves to be its
  principal, and it authenticates until it expires. \<open>Entra_Roles\<close>, \<open>Entra_Graph\<close>, \<open>Graph_Service\<close> and
  \<open>Graph_Rules\<close>: the directory through Graph, who may write it, paging. \<open>Managed_Identity\<close>: identity resources and
  the instance metadata service.

  Services, each a route function from the path to an operation and a handler from the store and the
  request to the store and the response: \<open>Arm_Lab\<close> (the seventeen packages whose handler is the same but
  for its constants), \<open>Container_Services\<close> (clusters, container apps, completions, email), \<open>Service_Bus\<close>,
  \<open>Storage_Service\<close>, \<open>Key_Vault\<close>, \<open>Role_Assignments\<close>, \<open>App_Config\<close> with \<open>App_Config_Rules\<close>, \<open>Function_Apps\<close>,
  \<open>Subscriptions\<close> with \<open>Inventory_Rules\<close>, \<open>Monitor\<close> and \<open>Monitor_Inject\<close> with \<open>Monitor_Rules\<close>, \<open>Table_Service\<close> with
  \<open>Table_Rules\<close>, \<open>Cosmos_Service\<close>, \<open>Event_Hubs\<close>, \<open>Event_Grid\<close>, \<open>Registry\<close> with \<open>Registry_Rules\<close>, and \<open>Lab_Forensics\<close>,
  the clock of the laboratory. \<open>Amqp_Codec\<close> and \<open>Amqp_Session\<close> model \<open>amqp/server.go\<close>: values, frames, and a
  connection as a state that each frame changes. For every handler a lemma shows that it fails closed: state
  changes and answers other than refusals only come from requests its gate authorized.

  \<open>Management_Plane\<close> puts the server together: the middleware, the router and the handlers of the management plane
  over one store and one clock, and shows of the whole that nothing changes without a grant.

  What the groups of lemmas show. Invariants over runs of requests, stated on a list of requests and proved by
  induction over it from one lemma per step: assignments change only through root and Owners, sessions go back to
  passwords, snapshots are frozen, injected rows are redacted, entities are well typed, captures are complete,
  endpoints have answered, blobs are their digests, a frozen clock stands still. Round trips: AMQP values, encrypted
  texts, blobs, documents, filters, tokens. Contracts as locales: keyed tables, queues, sealed keys, with the
  interpretations in the theories of the store and of Event Hubs. Lemmas after the main results name what the code
  does against its documentation.

  Bounds. Where Go loops, the models recurse on the data; where they recurse on a depth (group
  expansion, redaction, AMQP values, splitting of clauses) the depth is the one of the source or the length of
  the input, and a lemma shows that the length is enough. Integers that can wrap are words.

  Not modelled: flags, listeners and deadlines (process I/O), the Docker engine, the audit file, the
  certificates of the laboratory (\<open>kernel/tlsutil\<close>, calls of the standard library), the text of the SQL schema, the
  rendering of JSON and XML as bytes, and concurrency inside one store method: the store serialises its
  statements on one connection, so a run is a list of operations.
\<close>

end
